(* ===== verification/Go_Prelude.thy ===== *)
theory Go_Prelude
  imports Main "HOL-Library.Signed_Division"
begin

text \<open>
  What every component of the development shares: Go's error values, the result of a Go
  call (a value, an error or a panic), actions on the outside world, the control-flow
  combinators the Go code is translated with, and the wrap-around of 64-bit integers.

  An action of type \<open>('w, 'a) io\<close> takes a world and returns a result and the next world.
  The type \<open>'w\<close> is left open: the cloud, the Kubernetes API server and the file system are
  not part of the repository, so each call into them is a parameter of the definition that
  uses it and may change the world in any way.
\<close>

section \<open>Errors and results\<close>

text \<open>
  Error values. \<open>Errorf fmt args\<close> is what \<open>fmt.Errorf\<close> or \<open>errors.New\<close> returns: the format
  and its arguments, not the formatted text, so that no two different errors are confused.
  The other constructors are the values and types the code tests for: the package variables
  of \<open>openstack.go\<close>, the error types of gophercloud and of the Kubernetes API, gRPC statuses
  and the time-out value of the \<open>wait\<close> package.
\<close>

datatype gerror =
    Errorf string "farg list"
  | ErrNotFound
  | ErrMultipleResults
  | ErrNoAddressFound
  | ErrIPv6SupportDisabled
  | InstanceNotFound
  | NotImplemented
  | ErrDefault404
  | ErrResourceNotFound
  | ErrUnexpectedResponseCode int
  | ErrWaitTimeout
  | K8sNotFound
  | DanglingAttachError string string string
  | DeletedVolumeInUseError string
  | GrpcStatus string gerror
  | External string
and farg = FStr string | FInt int | FErr gerror | FList "string list"

abbreviation errors_New :: "string \<Rightarrow> gerror" where
  "errors_New msg \<equiv> Errorf msg []"

datatype 'a result = Ok 'a | Err gerror | Panic string

type_synonym ('w, 'a) io = "'w \<Rightarrow> 'a result \<times> 'w"

definition is_ok :: "'a result \<Rightarrow> bool" where
  "is_ok r = (case r of Ok _ \<Rightarrow> True | _ \<Rightarrow> False)"

lemma is_ok_simps [simp]: "is_ok (Ok x)" "\<not> is_ok (Err e)" "\<not> is_ok (Panic s)"
  by (simp_all add: is_ok_def)

lemma is_ok_iff: "is_ok r \<longleftrightarrow> (\<exists>x. r = Ok x)"
  by (cases r) simp_all

section \<open>Actions\<close>

definition ret :: "'a \<Rightarrow> ('w, 'a) io" where
  "ret x w = (Ok x, w)"

definition fail :: "gerror \<Rightarrow> ('w, 'a) io" where
  "fail e w = (Err e, w)"

definition crash :: "string \<Rightarrow> ('w, 'a) io" where
  "crash s w = (Panic s, w)"

definition lift_result :: "'a result \<Rightarrow> ('w, 'a) io" where
  "lift_result r w = (r, w)"

text \<open>\<open>x, err := m(); if err != nil { return err }; k(x)\<close>\<close>

definition bindE :: "('w, 'a) io \<Rightarrow> ('a \<Rightarrow> ('w, 'b) io) \<Rightarrow> ('w, 'b) io" where
  "bindE m k w =
     (case m w of
        (Ok x, w') \<Rightarrow> k x w'
      | (Err e, w') \<Rightarrow> (Err e, w')
      | (Panic s, w') \<Rightarrow> (Panic s, w'))"

text \<open>\<open>x, err := m()\<close> where the code goes on and looks at \<open>err\<close> itself.\<close>

definition attempt :: "('w, 'a) io \<Rightarrow> ('w, gerror + 'a) io" where
  "attempt m w =
     (case m w of
        (Ok x, w') \<Rightarrow> (Ok (Inr x), w')
      | (Err e, w') \<Rightarrow> (Ok (Inl e), w')
      | (Panic s, w') \<Rightarrow> (Panic s, w'))"

text \<open>\<open>if err != nil { return f(err) }\<close>: the error is replaced on its way out.\<close>

definition wrapE :: "(gerror \<Rightarrow> gerror) \<Rightarrow> ('w, 'a) io \<Rightarrow> ('w, 'a) io" where
  "wrapE f m w =
     (case m w of
        (Ok x, w') \<Rightarrow> (Ok x, w')
      | (Err e, w') \<Rightarrow> (Err (f e), w')
      | (Panic s, w') \<Rightarrow> (Panic s, w'))"

text \<open>\<open>for _, x := range xs { if err := f(x); err != nil { return err } }\<close>\<close>

fun forE :: "('a \<Rightarrow> ('w, unit) io) \<Rightarrow> 'a list \<Rightarrow> ('w, unit) io" where
  "forE f [] = ret ()"
| "forE f (x # xs) = bindE (f x) (\<lambda>_. forE f xs)"

named_theorems io_simps "evaluation of actions on a world"

lemma ret_run [simp, io_simps]: "ret x w = (Ok x, w)"
  by (simp add: ret_def)

lemma fail_run [simp, io_simps]: "fail e w = (Err e, w)"
  by (simp add: fail_def)

lemma crash_run [simp, io_simps]: "crash s w = (Panic s, w)"
  by (simp add: crash_def)

lemma lift_result_run [simp, io_simps]: "lift_result r w = (r, w)"
  by (simp add: lift_result_def)

lemma bindE_Ok [simp, io_simps]: "m w = (Ok x, w') \<Longrightarrow> bindE m k w = k x w'"
  by (simp add: bindE_def)

lemma bindE_Err [simp, io_simps]: "m w = (Err e, w') \<Longrightarrow> bindE m k w = (Err e, w')"
  by (simp add: bindE_def)

lemma bindE_Panic [simp, io_simps]: "m w = (Panic s, w') \<Longrightarrow> bindE m k w = (Panic s, w')"
  by (simp add: bindE_def)

lemma attempt_Ok [simp, io_simps]: "m w = (Ok x, w') \<Longrightarrow> attempt m w = (Ok (Inr x), w')"
  by (simp add: attempt_def)

lemma attempt_Err [simp, io_simps]: "m w = (Err e, w') \<Longrightarrow> attempt m w = (Ok (Inl e), w')"
  by (simp add: attempt_def)

lemma attempt_Panic [simp, io_simps]: "m w = (Panic s, w') \<Longrightarrow> attempt m w = (Panic s, w')"
  by (simp add: attempt_def)

lemma wrapE_Ok [simp, io_simps]: "m w = (Ok x, w') \<Longrightarrow> wrapE f m w = (Ok x, w')"
  by (simp add: wrapE_def)

lemma wrapE_Err [simp, io_simps]: "m w = (Err e, w') \<Longrightarrow> wrapE f m w = (Err (f e), w')"
  by (simp add: wrapE_def)

lemma wrapE_Panic [simp, io_simps]: "m w = (Panic s, w') \<Longrightarrow> wrapE f m w = (Panic s, w')"
  by (simp add: wrapE_def)

lemma bindE_eq_Ok:
  "bindE m k w = (Ok y, w'') \<longleftrightarrow> (\<exists>x w'. m w = (Ok x, w') \<and> k x w' = (Ok y, w''))"
  by (auto simp: bindE_def split: prod.splits result.splits)

lemma bindE_eq_Err:
  "bindE m k w = (Err e, w'') \<longleftrightarrow>
     m w = (Err e, w'') \<or> (\<exists>x w'. m w = (Ok x, w') \<and> k x w' = (Err e, w''))"
  by (auto simp: bindE_def split: prod.splits result.splits)

lemma bindE_eq_Panic:
  "bindE m k w = (Panic s, w'') \<longleftrightarrow>
     m w = (Panic s, w'') \<or> (\<exists>x w'. m w = (Ok x, w') \<and> k x w' = (Panic s, w''))"
  by (auto simp: bindE_def split: prod.splits result.splits)

lemma attempt_eq_Ok:
  "attempt m w = (Ok r, w') \<longleftrightarrow>
     (case r of Inr x \<Rightarrow> m w = (Ok x, w') | Inl e \<Rightarrow> m w = (Err e, w'))"
  by (auto simp: attempt_def split: prod.splits result.splits sum.splits)

lemma bindE_attempt_eq_Ok:
  "bindE (attempt m) (case_sum h k) w = (Ok y, w'') \<longleftrightarrow>
     (\<exists>x w'. m w = (Ok x, w') \<and> k x w' = (Ok y, w'')) \<or> (\<exists>e w'. m w = (Err e, w') \<and> h e w' = (Ok y, w''))"
  by (auto simp: bindE_def attempt_def split: prod.splits result.splits)

lemma attempt_not_Err [simp]: "attempt m w \<noteq> (Err e, w')"
  by (auto simp: attempt_def split: prod.splits result.splits)

lemma wrapE_eq_Ok: "wrapE f m w = (Ok x, w') \<longleftrightarrow> m w = (Ok x, w')"
  by (auto simp: wrapE_def split: prod.splits result.splits)

lemma wrapE_eq_Err:
  "wrapE f m w = (Err e, w') \<longleftrightarrow> (\<exists>e'. m w = (Err e', w') \<and> e = f e')"
  by (auto simp: wrapE_def split: prod.splits result.splits)

lemmas io_eqs = bindE_eq_Ok bindE_eq_Err bindE_eq_Panic attempt_eq_Ok wrapE_eq_Ok wrapE_eq_Err

lemma bindE_ret [simp]: "bindE (ret x) k = k x"
  by (simp add: fun_eq_iff bindE_def)

lemma bindE_fail [simp]: "bindE (fail e) k = fail e"
  by (simp add: fun_eq_iff bindE_def)

lemma bindE_crash [simp]: "bindE (crash s) k = crash s"
  by (simp add: fun_eq_iff bindE_def)

lemma lift_result_simps [simp]:
  "lift_result (Ok x) = ret x" "lift_result (Err e) = fail e" "lift_result (Panic s) = crash s"
  by (simp_all add: lift_result_def ret_def fail_def crash_def fun_eq_iff)

lemma bindE_ret_right [simp]: "bindE m ret = m"
  by (simp add: bindE_def fun_eq_iff split: prod.splits result.splits)

lemma bindE_ret_unit [simp]: "bindE m (\<lambda>_. ret ()) = m"
  by (simp add: bindE_def fun_eq_iff split: prod.splits result.splits)

lemma bindE_assoc: "bindE (bindE m k) h = bindE m (\<lambda>x. bindE (k x) h)"
  by (auto simp: fun_eq_iff bindE_def split: prod.splits result.splits)

lemma forE_append: "forE f (xs @ ys) = bindE (forE f xs) (\<lambda>_. forE f ys)"
  by (induction xs) (simp_all add: bindE_assoc)

lemma forE_map: "forE f (map g xs) = forE (\<lambda>x. f (g x)) xs"
  by (induction xs) simp_all

lemma forE_skip: "forE (\<lambda>x. if P x then ret () else f x) xs = forE f (filter (\<lambda>x. \<not> P x) xs)"
  by (induction xs) simp_all

lemma forE_ConsE:
  assumes "forE f (x # xs) w = (Ok u, w'')"
  obtains w' where "f x w = (Ok (), w')" "forE f xs w' = (Ok u, w'')"
  using assms by (auto simp: bindE_eq_Ok)

section \<open>What an action keeps\<close>

text \<open>
  \<open>keeps I m\<close>: whatever \<open>m\<close> returns, a world that satisfies \<open>I\<close> still does afterwards.
  Used to say which external calls an operation can make: if every call but one keeps \<open>I\<close>
  for an arbitrary \<open>I\<close>, an operation that keeps \<open>I\<close> never makes that call.
\<close>

definition keeps :: "('w \<Rightarrow> bool) \<Rightarrow> ('w, 'a) io \<Rightarrow> bool" where
  "keeps I m \<longleftrightarrow> (\<forall>w. I w \<longrightarrow> I (snd (m w)))"

named_theorems keeps_intros "compositional rules for keeps"

lemma keepsD: "keeps I m \<Longrightarrow> I w \<Longrightarrow> m w = (r, w') \<Longrightarrow> I w'"
  unfolding keeps_def by (metis snd_conv)

lemma keepsI: "(\<And>w r w'. I w \<Longrightarrow> m w = (r, w') \<Longrightarrow> I w') \<Longrightarrow> keeps I m"
  by (metis keeps_def prod.collapse)

lemma keeps_ret [simp, keeps_intros]: "keeps I (ret x)"
  by (simp add: keeps_def)

lemma keeps_fail [simp, keeps_intros]: "keeps I (fail e)"
  by (simp add: keeps_def)

lemma keeps_crash [simp, keeps_intros]: "keeps I (crash s)"
  by (simp add: keeps_def)

lemma keeps_lift_result [simp, keeps_intros]: "keeps I (lift_result r)"
  by (simp add: keeps_def)

lemma keeps_bindE [keeps_intros]:
  "keeps I m \<Longrightarrow> (\<And>x. keeps I (k x)) \<Longrightarrow> keeps I (bindE m k)"
  unfolding keeps_def bindE_def
  by (auto split: prod.splits result.splits)

text \<open>The same with what \<open>m\<close> returns from such a world.\<close>

lemma keeps_bindE_returns:
  "keeps I m \<Longrightarrow> (\<And>w x w'. I w \<Longrightarrow> m w = (Ok x, w') \<Longrightarrow> Q x) \<Longrightarrow> (\<And>x. Q x \<Longrightarrow> keeps I (k x)) \<Longrightarrow>
   keeps I (bindE m k)"
  unfolding keeps_def bindE_def
  by (fastforce split: prod.splits result.splits)

lemma keeps_attempt [keeps_intros]: "keeps I m \<Longrightarrow> keeps I (attempt m)"
  unfolding keeps_def attempt_def
  by (auto split: prod.splits result.splits)

lemma keeps_wrapE [keeps_intros]: "keeps I m \<Longrightarrow> keeps I (wrapE f m)"
  unfolding keeps_def wrapE_def
  by (auto split: prod.splits result.splits)

lemma keeps_if [keeps_intros]:
  "(b \<Longrightarrow> keeps I m) \<Longrightarrow> (\<not> b \<Longrightarrow> keeps I m') \<Longrightarrow> keeps I (if b then m else m')"
  by simp

lemma keeps_case_option [keeps_intros]:
  "keeps I m \<Longrightarrow> (\<And>x. keeps I (k x)) \<Longrightarrow> keeps I (case v of None \<Rightarrow> m | Some x \<Rightarrow> k x)"
  by (cases v) simp_all

lemma keeps_case_sum [keeps_intros]:
  "(\<And>e. keeps I (h e)) \<Longrightarrow> (\<And>x. keeps I (k x)) \<Longrightarrow> keeps I (case v of Inl e \<Rightarrow> h e | Inr x \<Rightarrow> k x)"
  by (cases v) simp_all

lemma keeps_case_list [keeps_intros]:
  "keeps I m \<Longrightarrow> (\<And>x xs. keeps I (k x xs)) \<Longrightarrow> keeps I (case v of [] \<Rightarrow> m | x # xs \<Rightarrow> k x xs)"
  by (cases v) simp_all

lemma keeps_case_prod [keeps_intros]:
  "(\<And>x y. keeps I (k x y)) \<Longrightarrow> keeps I (case v of (x, y) \<Rightarrow> k x y)"
  by (cases v) simp_all

lemma keeps_Let [keeps_intros]: "(\<And>x. keeps I (k x)) \<Longrightarrow> keeps I (let x = v in k x)"
  by (simp add: Let_def)

lemma keeps_forE [keeps_intros]:
  "(\<And>x. x \<in> set xs \<Longrightarrow> keeps I (f x)) \<Longrightarrow> keeps I (forE f xs)"
  by (induction xs) (auto intro!: keeps_bindE)

section \<open>What an action leaves alone\<close>

text \<open>\<open>reads view m\<close>: whatever \<open>m\<close> returns, the part of the world that \<open>view\<close> shows is unchanged.\<close>

definition reads :: "('w \<Rightarrow> 'm) \<Rightarrow> ('w, 'a) io \<Rightarrow> bool" where
  "reads view m \<longleftrightarrow> (\<forall>w r w'. m w = (r, w') \<longrightarrow> view w' = view w)"

named_theorems reads_intros "compositional rules for reads"

lemma readsD: "reads view m \<Longrightarrow> m w = (r, w') \<Longrightarrow> view w' = view w"
  unfolding reads_def by blast

lemma reads_ret [simp, reads_intros]: "reads view (ret x)" "reads view (fail e)" "reads view (crash s)" "reads view (lift_result q)"
  by (auto simp: reads_def)

lemma reads_bindE [reads_intros]: "reads view m \<Longrightarrow> (\<And>x. reads view (k x)) \<Longrightarrow> reads view (bindE m k)"
  unfolding reads_def bindE_def by (auto split: prod.splits result.splits)

lemma reads_attempt [reads_intros]: "reads view m \<Longrightarrow> reads view (attempt m)"
  unfolding reads_def attempt_def by (auto split: prod.splits result.splits)

lemma reads_wrapE [reads_intros]: "reads view m \<Longrightarrow> reads view (wrapE f m)"
  unfolding reads_def wrapE_def by (auto split: prod.splits result.splits)

lemma reads_if [reads_intros]: "(b \<Longrightarrow> reads view m) \<Longrightarrow> (\<not> b \<Longrightarrow> reads view m') \<Longrightarrow> reads view (if b then m else m')"
  by simp

lemma reads_case [reads_intros]:
  "reads view m \<Longrightarrow> (\<And>x. reads view (k x)) \<Longrightarrow> reads view (case v of None \<Rightarrow> m | Some x \<Rightarrow> k x)"
  "(\<And>e. reads view (h e)) \<Longrightarrow> (\<And>x. reads view (h' x)) \<Longrightarrow> reads view (case q of Inl e \<Rightarrow> h e | Inr x \<Rightarrow> h' x)"
  "reads view m \<Longrightarrow> (\<And>x xs. reads view (k' x xs)) \<Longrightarrow> reads view (case l of [] \<Rightarrow> m | x # xs \<Rightarrow> k' x xs)"
  "(\<And>x y. reads view (k'' x y)) \<Longrightarrow> reads view (case p of (x, y) \<Rightarrow> k'' x y)"
  by (simp_all split: option.split sum.split list.split prod.split)

lemma reads_forE [reads_intros]: "(\<And>x. x \<in> set xs \<Longrightarrow> reads view (f x)) \<Longrightarrow> reads view (forE f xs)"
  by (induction xs) (auto intro!: reads_bindE)

section \<open>Results without a world\<close>

definition bindR :: "'a result \<Rightarrow> ('a \<Rightarrow> 'b result) \<Rightarrow> 'b result" where
  "bindR r k = (case r of Ok x \<Rightarrow> k x | Err e \<Rightarrow> Err e | Panic s \<Rightarrow> Panic s)"

lemma bindR_simps [simp]:
  "bindR (Ok x) k = k x" "bindR (Err e) k = Err e" "bindR (Panic s) k = Panic s"
  by (simp_all add: bindR_def)

lemma bindR_eq_Ok: "bindR r k = Ok y \<longleftrightarrow> (\<exists>x. r = Ok x \<and> k x = Ok y)"
  by (cases r) simp_all

fun mapR :: "('a \<Rightarrow> 'b result) \<Rightarrow> 'a list \<Rightarrow> 'b list result" where
  "mapR f [] = Ok []"
| "mapR f (x # xs) = bindR (f x) (\<lambda>y. bindR (mapR f xs) (\<lambda>ys. Ok (y # ys)))"

lemma mapR_Ok_length: "mapR f xs = Ok ys \<Longrightarrow> length ys = length xs"
  by (induction xs arbitrary: ys) (auto simp: bindR_eq_Ok)

lemma mapR_map_Ok [simp]: "mapR (\<lambda>x. Ok (f x)) xs = Ok (map f xs)"
  by (induction xs) simp_all

lemma mapR_Ok_iff:
  "mapR f xs = Ok ys \<longleftrightarrow> list_all2 (\<lambda>x y. f x = Ok y) xs ys"
proof (induction xs arbitrary: ys)
  case Nil
  then show ?case by auto
next
  case (Cons x xs)
  then show ?case by (cases ys) (auto simp: bindR_eq_Ok)
qed

section \<open>64-bit integers\<close>

text \<open>
  Go's \<open>int\<close> and \<open>int64\<close> on the platforms the project builds for: two's complement, 64 bits.
  \<open>wrap64\<close> is the conversion of an exact integer result; \<open>/\<close> and \<open>%\<close> truncate towards zero.
\<close>

definition wrap64 :: "int \<Rightarrow> int" where
  "wrap64 x = signed_take_bit 63 x"

definition int64_range :: "int \<Rightarrow> bool" where
  "int64_range x \<longleftrightarrow> - (2 ^ 63) \<le> x \<and> x < 2 ^ 63"

lemma wrap64_range: "int64_range (wrap64 x)"
proof -
  have "- (2 ^ 63) \<le> signed_take_bit 63 x" and "signed_take_bit 63 x < 2 ^ 63"
    using signed_take_bit_int_greater_eq_minus_exp [of 63 x]
      signed_take_bit_int_less_exp [of 63 x] by simp_all
  then show ?thesis
    by (simp add: wrap64_def int64_range_def)
qed

lemma wrap64_id: "int64_range x \<Longrightarrow> wrap64 x = x"
  by (simp add: wrap64_def int64_range_def signed_take_bit_int_eq_self)

end
