(* ===== verification/Go_Strings.thy ===== *)
theory Go_Strings
  imports Go_Prelude "HOL-Library.List_Lexorder" "HOL-Library.Char_ord"
begin

text \<open>
  The parts of Go's \<open>strings\<close> and \<open>sort\<close> packages the components use. A Go string is a
  sequence of bytes, a \<open>string\<close> here (a \<open>char\<close> is a byte), ordered byte-wise by
  \<open>List_Lexorder\<close> over \<open>Char_ord\<close>. The loops of the packages are kept where the result
  depends on them: \<open>sort.Search\<close> is the binary search, shown below to find exactly the
  members of a sorted slice.
\<close>

section \<open>Searching for a substring\<close>

definition HasPrefix :: "string \<Rightarrow> string \<Rightarrow> bool" where
  "HasPrefix s p \<longleftrightarrow> take (length p) s = p"

definition HasSuffix :: "string \<Rightarrow> string \<Rightarrow> bool" where
  "HasSuffix s p \<longleftrightarrow> HasPrefix (rev s) (rev p)"

fun find_sub :: "string \<Rightarrow> string \<Rightarrow> nat option" where
  "find_sub [] sub = (if sub = [] then Some 0 else None)"
| "find_sub (c # cs) sub =
     (if HasPrefix (c # cs) sub then Some 0 else map_option Suc (find_sub cs sub))"

definition strings_Index :: "string \<Rightarrow> string \<Rightarrow> int" where
  "strings_Index s sub = (case find_sub s sub of None \<Rightarrow> -1 | Some i \<Rightarrow> int i)"

definition strings_Contains :: "string \<Rightarrow> string \<Rightarrow> bool" where
  "strings_Contains s sub \<longleftrightarrow> find_sub s sub \<noteq> None"

definition LastIndexByte :: "string \<Rightarrow> char \<Rightarrow> int" where
  "LastIndexByte s c =
     (case find_sub (rev s) [c] of None \<Rightarrow> -1 | Some i \<Rightarrow> int (length s) - 1 - int i)"

lemma HasPrefix_iff: "HasPrefix s p \<longleftrightarrow> (\<exists>t. s = p @ t)"
  by (metis HasPrefix_def append_eq_conv_conj append_take_drop_id)

lemma HasPrefix_append [simp]: "HasPrefix (p @ s) p"
  by (simp add: HasPrefix_def)

lemma HasSuffix_iff: "HasSuffix s p \<longleftrightarrow> (\<exists>t. s = t @ p)"
  by (metis HasPrefix_iff HasSuffix_def rev_append rev_rev_ident)

lemma HasPrefix_Cons [simp]: "HasPrefix (c # cs) (d # ds) \<longleftrightarrow> c = d \<and> HasPrefix cs ds"
  by (auto simp: HasPrefix_def)

lemma HasPrefix_Nil [simp]: "HasPrefix s []" "HasPrefix [] p \<longleftrightarrow> p = []"
  by (auto simp: HasPrefix_def)

lemma find_sub_Some:
  "find_sub s sub = Some i \<Longrightarrow> \<exists>r. s = take i s @ sub @ r \<and> i + length sub \<le> length s"
proof (induction s arbitrary: i)
  case Nil
  then show ?case by (simp split: if_splits)
next
  case (Cons c cs)
  show ?case
  proof (cases "HasPrefix (c # cs) sub")
    case True
    with Cons.prems have "i = 0" by simp
    moreover from True obtain t where "c # cs = sub @ t"
      using HasPrefix_iff by blast
    ultimately show ?thesis by (auto dest: arg_cong [where f = length])
  next
    case False
    with Cons.prems obtain j where j: "find_sub cs sub = Some j" and i: "i = Suc j"
      by auto
    from Cons.IH [OF j] show ?thesis by (simp add: i)
  qed
qed

lemma find_sub_char: "find_sub s [c] = Some i \<Longrightarrow> i < length s \<and> s ! i = c \<and> c \<notin> set (take i s)"
proof (induction s arbitrary: i)
  case Nil
  then show ?case by simp
next
  case (Cons d s)
  then show ?case by (auto simp: HasPrefix_def nth_Cons split: if_splits nat.splits)
qed

lemma find_sub_char_None: "find_sub s [c] = None \<longleftrightarrow> c \<notin> set s"
  by (induction s) (auto simp: HasPrefix_def)

lemma strings_Contains_iff: "strings_Contains s sub \<longleftrightarrow> (\<exists>l r. s = l @ sub @ r)"
proof
  assume "strings_Contains s sub"
  then obtain i where "find_sub s sub = Some i"
    by (auto simp: strings_Contains_def)
  then show "\<exists>l r. s = l @ sub @ r"
    using find_sub_Some by blast
next
  assume "\<exists>l r. s = l @ sub @ r"
  then obtain l r where s: "s = l @ sub @ r" by blast
  have "find_sub (l @ sub @ r) sub \<noteq> None"
  proof (induction l)
    case Nil
    show ?case using HasPrefix_append [of sub r] by (cases "sub @ r") auto
  next
    case (Cons c l)
    then show ?case by auto
  qed
  then show "strings_Contains s sub" by (simp add: s strings_Contains_def)
qed

section \<open>Replacing and splitting\<close>

text \<open>
  \<open>strings.Replace(s, old, new, -1)\<close> for a non-empty \<open>old\<close>: every non-overlapping
  occurrence, from the left. (The code never calls it with an empty \<open>old\<close>.)
\<close>

function ReplaceAll :: "string \<Rightarrow> string \<Rightarrow> string \<Rightarrow> string" where
  "ReplaceAll [] old new = []"
| "ReplaceAll (c # cs) old new =
     (if old \<noteq> [] \<and> HasPrefix (c # cs) old
      then new @ ReplaceAll (drop (length old) (c # cs)) old new
      else c # ReplaceAll cs old new)"
  by pat_completeness auto
termination
  by (relation "measure (\<lambda>(s, _, _). length s)") auto

lemma ReplaceAll_no_occurrence: "\<not> strings_Contains s old \<Longrightarrow> ReplaceAll s old new = s"
proof (induction s old new rule: ReplaceAll.induct)
  case (1 old new)
  then show ?case by simp
next
  case (2 c cs old new)
  from "2.prems" have np: "\<not> HasPrefix (c # cs) old"
    by (metis HasPrefix_iff append_Nil strings_Contains_iff)
  moreover from "2.prems" have "\<not> strings_Contains cs old"
    by (metis append_Cons strings_Contains_iff)
  ultimately show ?case using "2.IH"(2) by simp
qed

fun split_char :: "char \<Rightarrow> string \<Rightarrow> string list" where
  "split_char d [] = [[]]"
| "split_char d (c # cs) =
     (if c = d then [] # split_char d cs
      else (case split_char d cs of [] \<Rightarrow> [[c]] | p # ps \<Rightarrow> (c # p) # ps))"

text \<open>\<open>strings.Split(s, d)\<close> for a one-byte separator; \<open>strings.SplitN(s, sep, 2)\<close>.\<close>

definition strings_Split :: "string \<Rightarrow> char \<Rightarrow> string list" where
  "strings_Split s d = split_char d s"

definition SplitN2 :: "string \<Rightarrow> string \<Rightarrow> string list" where
  "SplitN2 s sep =
     (case find_sub s sep of None \<Rightarrow> [s] | Some i \<Rightarrow> [take i s, drop (i + length sep) s])"

fun strings_Join :: "string list \<Rightarrow> string \<Rightarrow> string" where
  "strings_Join [] sep = []"
| "strings_Join [x] sep = x"
| "strings_Join (x # xs) sep = x @ sep @ strings_Join xs sep"

lemma split_char_not_Nil [simp]: "split_char d s \<noteq> []"
  by (cases s) (auto split: list.splits)

lemma split_char_pieces: "p \<in> set (split_char d s) \<Longrightarrow> d \<notin> set p"
proof (induction s arbitrary: p)
  case Nil
  then show ?case by simp
next
  case (Cons c s)
  then show ?case by (cases "split_char d s") (auto split: if_splits)
qed

lemma length_split_char: "length (split_char d s) = Suc (count_list s d)"
proof (induction s)
  case Nil
  then show ?case by simp
next
  case (Cons c s)
  then show ?case by (cases "split_char d s") auto
qed

lemma Join_split_char: "strings_Join (split_char d s) [d] = s"
proof (induction s)
  case Nil
  then show ?case by simp
next
  case (Cons c s)
  obtain p ps where ps: "split_char d s = p # ps"
    by (cases "split_char d s") auto
  with Cons show ?case by (cases ps) auto
qed

lemma split_char_no_sep: "d \<notin> set s \<Longrightarrow> split_char d s = [s]"
  by (induction s) auto

lemma split_char_append:
  "d \<notin> set l \<Longrightarrow> split_char d (l @ d # r) = l # split_char d r"
  by (induction l) auto

lemma SplitN2_char_cases:
  "SplitN2 s [d] = (if d \<in> set s then [takeWhile (\<lambda>c. c \<noteq> d) s, tl (dropWhile (\<lambda>c. c \<noteq> d) s)] else [s])"
proof (induction s)
  case Nil
  then show ?case by (simp add: SplitN2_def)
next
  case (Cons c s)
  then show ?case
    by (cases "find_sub s [d]")
      (auto simp: SplitN2_def HasPrefix_def find_sub_char_None split: option.splits
        dest: find_sub_char)
qed

section \<open>Trimming white space\<close>

text \<open>
  \<open>strings.TrimSpace\<close> removes leading and trailing Unicode white space: the six ASCII
  characters and the UTF-8 encodings of U+0085, U+00A0, U+1680, U+2000 to U+200A, U+2028,
  U+2029, U+202F, U+205F and U+3000.
\<close>

definition go_spaces :: "string list" where
  "go_spaces =
     [[CHR 0x09], [CHR 0x0A], [CHR 0x0B], [CHR 0x0C], [CHR 0x0D], [CHR 0x20],
      [CHR 0xC2, CHR 0x85], [CHR 0xC2, CHR 0xA0], [CHR 0xE1, CHR 0x9A, CHR 0x80]] @
     map (\<lambda>c. [CHR 0xE2, CHR 0x80, c])
       [CHR 0x80, CHR 0x81, CHR 0x82, CHR 0x83, CHR 0x84, CHR 0x85, CHR 0x86, CHR 0x87,
        CHR 0x88, CHR 0x89, CHR 0x8A, CHR 0xA8, CHR 0xA9, CHR 0xAF] @
     [[CHR 0xE2, CHR 0x81, CHR 0x9F], [CHR 0xE3, CHR 0x80, CHR 0x80]]"

function trim_left :: "string list \<Rightarrow> string \<Rightarrow> string" where
  "trim_left sps s =
     (case find (\<lambda>p. p \<noteq> [] \<and> HasPrefix s p) sps of
        None \<Rightarrow> s
      | Some p \<Rightarrow> trim_left sps (drop (length p) s))"
  by pat_completeness auto
termination
proof (relation "measure (\<lambda>(_, s). length s)", simp)
  fix sps :: "string list" and s p
  assume "find (\<lambda>p. p \<noteq> [] \<and> HasPrefix s p) sps = Some p"
  then have "p \<noteq> []" and "HasPrefix s p"
    by (auto simp: find_Some_iff)
  then have "s \<noteq> []" by auto
  with \<open>p \<noteq> []\<close> show "((sps, drop (length p) s), (sps, s)) \<in> measure (\<lambda>(_, s). length s)"
    by simp
qed

declare trim_left.simps [simp del]

definition TrimSpace :: "string \<Rightarrow> string" where
  "TrimSpace s = rev (trim_left (map rev go_spaces) (rev (trim_left go_spaces s)))"

lemma trim_left_suffix: "\<exists>p. s = p @ trim_left sps s"
proof (induction sps s rule: trim_left.induct)
  case (1 sps s)
  show ?case
  proof (cases "find (\<lambda>p. p \<noteq> [] \<and> HasPrefix s p) sps")
    case None
    then show ?thesis by (simp add: trim_left.simps [of sps s])
  next
    case (Some p)
    from "1.IH" [OF Some] obtain q where "drop (length p) s = q @ trim_left sps (drop (length p) s)"
      by blast
    then have "s = (take (length p) s @ q) @ trim_left sps (drop (length p) s)"
      by (metis append_assoc append_take_drop_id)
    moreover from Some have "trim_left sps s = trim_left sps (drop (length p) s)"
      by (simp add: trim_left.simps [of sps s])
    ultimately have "s = (take (length p) s @ q) @ trim_left sps s" by argo
    then show ?thesis by (rule exI)
  qed
qed

lemma trim_left_id:
  "(\<And>p. p \<in> set sps \<Longrightarrow> p \<noteq> [] \<Longrightarrow> \<not> HasPrefix s p) \<Longrightarrow> trim_left sps s = s"
proof -
  assume "\<And>p. p \<in> set sps \<Longrightarrow> p \<noteq> [] \<Longrightarrow> \<not> HasPrefix s p"
  then have "find (\<lambda>p. p \<noteq> [] \<and> HasPrefix s p) sps = None"
    by (auto simp: find_None_iff)
  then show ?thesis by (simp add: trim_left.simps [of sps s])
qed

lemma trim_left_trimmed:
  "p \<in> set sps \<Longrightarrow> p \<noteq> [] \<Longrightarrow> \<not> HasPrefix (trim_left sps s) p"
proof (induction sps s rule: trim_left.induct)
  case (1 sps s)
  show ?case
  proof (cases "find (\<lambda>p. p \<noteq> [] \<and> HasPrefix s p) sps")
    case None
    then have "trim_left sps s = s" by (simp add: trim_left.simps [of sps s])
    moreover from None "1.prems" have "\<not> HasPrefix s p" by (auto simp: find_None_iff)
    ultimately show ?thesis by simp
  next
    case (Some q)
    with "1.IH" [OF Some] "1.prems" show ?thesis
      by (simp add: trim_left.simps [of sps s])
  qed
qed

lemma TrimSpace_middle: "\<exists>l r. s = l @ TrimSpace s @ r"
proof -
  obtain l where l: "s = l @ trim_left go_spaces s"
    using trim_left_suffix by blast
  obtain r where r: "rev (trim_left go_spaces s) =
      r @ trim_left (map rev go_spaces) (rev (trim_left go_spaces s))"
    using trim_left_suffix by blast
  then have "trim_left go_spaces s = TrimSpace s @ rev r"
    unfolding TrimSpace_def by (metis rev_append rev_rev_ident)
  with l have "s = l @ TrimSpace s @ rev r" by simp
  then show ?thesis by blast
qed

section \<open>Lower case\<close>

text \<open>\<open>strings.ToLower\<close> on ASCII text; bytes above 127 are left as they are.\<close>

definition lower_char :: "char \<Rightarrow> char" where
  "lower_char c = (if CHR ''A'' \<le> c \<and> c \<le> CHR ''Z'' then char_of (of_char c + 32 :: nat) else c)"

definition ToLower :: "string \<Rightarrow> string" where
  "ToLower s = map lower_char s"

section \<open>Binary search\<close>

text \<open>\<open>sort.Search\<close>: the loop, from the bounds \<open>i\<close> and \<open>j\<close>.\<close>

function sort_Search :: "(nat \<Rightarrow> bool) \<Rightarrow> nat \<Rightarrow> nat \<Rightarrow> nat" where
  "sort_Search f i j =
     (if i < j then
        let h = (i + j) div 2
        in if \<not> f h then sort_Search f (Suc h) j else sort_Search f i h
      else i)"
  by pat_completeness auto
termination
  by (relation "measure (\<lambda>(f, i, j). j - i)") auto

declare sort_Search.simps [simp del]

definition SearchStrings :: "string list \<Rightarrow> string \<Rightarrow> nat" where
  "SearchStrings xs a = sort_Search (\<lambda>i. a \<le> xs ! i) 0 (length xs)"

lemma sort_Search_bounds: "i \<le> j \<Longrightarrow> i \<le> sort_Search f i j \<and> sort_Search f i j \<le> j"
proof (induction f i j rule: sort_Search.induct)
  case (1 f i j)
  show ?case
  proof (cases "i < j")
    case True
    then have "Suc ((i + j) div 2) \<le> j" and "i \<le> (i + j) div 2" by auto
    with "1.IH" [OF True refl] True show ?thesis
      by (auto simp: sort_Search.simps [of f i j] Let_def)
  next
    case False
    then have "sort_Search f i j = i" by (simp add: sort_Search.simps [of f i j])
    with "1.prems" show ?thesis by simp
  qed
qed

text \<open>
  For a predicate that stays true once it is true, the search returns the first index where
  it holds: it fails everywhere below the result and holds from the result on.
\<close>

lemma sort_Search_below:
  assumes "\<And>a b. a \<le> b \<Longrightarrow> b < n \<Longrightarrow> f a \<Longrightarrow> f b"
  shows "i \<le> j \<Longrightarrow> j \<le> n \<Longrightarrow> (\<And>k. k < i \<Longrightarrow> \<not> f k) \<Longrightarrow> k < sort_Search f i j \<Longrightarrow> \<not> f k"
  using assms
proof (induction f i j rule: sort_Search.induct)
  case (1 f i j)
  show ?case
  proof (cases "i < j")
    case True
    define h where "h = (i + j) div 2"
    have h: "i \<le> h" "h < j" using True by (auto simp: h_def)
    have eq: "sort_Search f i j = (if \<not> f h then sort_Search f (Suc h) j else sort_Search f i h)"
      using True by (simp add: sort_Search.simps [of f i j] h_def Let_def)
    show ?thesis
    proof (cases "f h")
      case f: True
      show ?thesis
        by (rule "1.IH"(2) [OF True h_def]) (use f h eq "1.prems" in auto)
    next
      case nf: False
      have low: "\<not> f k" if "k < Suc h" for k
      proof
        assume "f k"
        then have "f h" using "1.prems"(5) [of k h] that h "1.prems"(2) by simp
        with nf show False by simp
      qed
      show ?thesis
        by (rule "1.IH"(1) [OF True h_def]) (use nf h low eq "1.prems" in auto)
    qed
  next
    case False
    then have "sort_Search f i j = i" by (simp add: sort_Search.simps [of f i j])
    with "1.prems" show ?thesis by simp
  qed
qed

lemma sort_Search_above:
  assumes "\<And>a b. a \<le> b \<Longrightarrow> b < n \<Longrightarrow> f a \<Longrightarrow> f b"
  shows "i \<le> j \<Longrightarrow> j \<le> n \<Longrightarrow> (\<And>k. j \<le> k \<Longrightarrow> k < n \<Longrightarrow> f k) \<Longrightarrow>
    sort_Search f i j \<le> k \<Longrightarrow> k < n \<Longrightarrow> f k"
  using assms
proof (induction f i j rule: sort_Search.induct)
  case (1 f i j)
  show ?case
  proof (cases "i < j")
    case True
    define h where "h = (i + j) div 2"
    have h: "i \<le> h" "h < j" using True by (auto simp: h_def)
    have eq: "sort_Search f i j = (if \<not> f h then sort_Search f (Suc h) j else sort_Search f i h)"
      using True by (simp add: sort_Search.simps [of f i j] h_def Let_def)
    show ?thesis
    proof (cases "f h")
      case f: True
      have high: "f k" if "h \<le> k" "k < n" for k
        using "1.prems"(6) [OF that f] .
      show ?thesis
        by (rule "1.IH"(2) [OF True h_def]) (use f h high eq "1.prems" in auto)
    next
      case nf: False
      show ?thesis
        by (rule "1.IH"(1) [OF True h_def]) (use nf h eq "1.prems" in auto)
    qed
  next
    case False
    then have "sort_Search f i j = i" by (simp add: sort_Search.simps [of f i j])
    with "1.prems" False show ?thesis by simp
  qed
qed

lemma SearchStrings_least:
  assumes "sorted xs"
  shows "SearchStrings xs a \<le> length xs"
    and "\<And>k. k < SearchStrings xs a \<Longrightarrow> xs ! k < a"
    and "\<And>k. SearchStrings xs a \<le> k \<Longrightarrow> k < length xs \<Longrightarrow> a \<le> xs ! k"
proof -
  have mono: "\<And>i j. i \<le> j \<Longrightarrow> j < length xs \<Longrightarrow> a \<le> xs ! i \<Longrightarrow> a \<le> xs ! j"
    using assms by (meson order_trans sorted_nth_mono)
  show "xs ! k < a" if "k < SearchStrings xs a" for k
    using sort_Search_below [of "length xs" "\<lambda>i. a \<le> xs ! i" 0 "length xs" k] mono that
    by (auto simp: SearchStrings_def not_le)
  show "a \<le> xs ! k" if "SearchStrings xs a \<le> k" "k < length xs" for k
    using sort_Search_above [of "length xs" "\<lambda>i. a \<le> xs ! i" 0 "length xs" k] mono that
    by (auto simp: SearchStrings_def)
  show "SearchStrings xs a \<le> length xs"
    using sort_Search_bounds [of 0 "length xs"] by (simp add: SearchStrings_def)
qed

theorem SearchStrings_member:
  assumes "sorted xs"
  shows "SearchStrings xs a < length xs \<and> xs ! SearchStrings xs a = a \<longleftrightarrow> a \<in> set xs"
proof
  assume "SearchStrings xs a < length xs \<and> xs ! SearchStrings xs a = a"
  then show "a \<in> set xs" by (metis nth_mem)
next
  assume "a \<in> set xs"
  then obtain k where k: "k < length xs" "xs ! k = a"
    by (auto simp: in_set_conv_nth)
  have le: "SearchStrings xs a \<le> k"
    using SearchStrings_least(2) [OF assms] k by (metis less_irrefl not_le)
  then have lt: "SearchStrings xs a < length xs" using k by simp
  then have "a \<le> xs ! SearchStrings xs a"
    using SearchStrings_least(3) [OF assms] by blast
  moreover have "xs ! SearchStrings xs a \<le> a"
    using sorted_nth_mono [OF assms le k(1)] k(2) by simp
  ultimately show "SearchStrings xs a < length xs \<and> xs ! SearchStrings xs a = a"
    using lt by simp
qed

end
