(* ===== verification/Go_Json.thy ===== *)
theory Go_Json
  imports Go_Strings
begin

text \<open>
  The part of \<open>encoding/json\<close> the policy matcher depends on: decoding a text into a
  \<open>[]string\<close>. \<open>json.Unmarshal\<close> succeeds on \<open>null\<close> and on an array whose elements are
  strings or \<open>null\<close> (which leaves the element empty), and fails on anything else, so the
  decoder below is complete for this target type. String literals are read as the package
  reads them: the escapes of the JSON grammar, surrogate pairs, and U+FFFD for bytes that
  are not valid UTF-8.
\<close>

definition chr_quote :: char where "chr_quote = CHR 0x22"
definition chr_backslash :: char where "chr_backslash = CHR 0x5C"

definition byte_val :: "char \<Rightarrow> nat" where
  "byte_val c = of_char c"

definition is_json_ws :: "char \<Rightarrow> bool" where
  "is_json_ws c \<longleftrightarrow> c = CHR 0x20 \<or> c = CHR 0x09 \<or> c = CHR 0x0A \<or> c = CHR 0x0D"

section \<open>UTF-8\<close>

definition utf8_encode :: "nat \<Rightarrow> string" where
  "utf8_encode r =
     (if r < 0x80 then [char_of r]
      else if r < 0x800 then [char_of (0xC0 + r div 64), char_of (0x80 + r mod 64)]
      else if r < 0x10000 then
        [char_of (0xE0 + r div 4096), char_of (0x80 + r div 64 mod 64), char_of (0x80 + r mod 64)]
      else
        [char_of (0xF0 + r div 262144), char_of (0x80 + r div 4096 mod 64),
         char_of (0x80 + r div 64 mod 64), char_of (0x80 + r mod 64)])"

definition in_range :: "nat \<Rightarrow> nat \<Rightarrow> char \<Rightarrow> bool" where
  "in_range lo hi c \<longleftrightarrow> lo \<le> byte_val c \<and> byte_val c \<le> hi"

abbreviation utf8_cont :: "char \<Rightarrow> bool" where
  "utf8_cont \<equiv> in_range 0x80 0xBF"

text \<open>
  The bytes the text contributes at a byte of 128 or more, and how many it reads: a whole
  valid sequence is copied, anything else is one U+FFFD for one byte.
\<close>

definition replacement :: string where
  "replacement = [CHR 0xEF, CHR 0xBF, CHR 0xBD]"

fun utf8_len :: "string \<Rightarrow> nat" where
  "utf8_len (a # b # c # d # _) =
     (if in_range 0xC2 0xDF a \<and> utf8_cont b then 2
      else if in_range 0xE0 0xE0 a \<and> in_range 0xA0 0xBF b \<and> utf8_cont c then 3
      else if (in_range 0xE1 0xEC a \<or> in_range 0xEE 0xEF a) \<and> utf8_cont b \<and> utf8_cont c then 3
      else if in_range 0xED 0xED a \<and> in_range 0x80 0x9F b \<and> utf8_cont c then 3
      else if in_range 0xF0 0xF0 a \<and> in_range 0x90 0xBF b \<and> utf8_cont c \<and> utf8_cont d then 4
      else if in_range 0xF1 0xF3 a \<and> utf8_cont b \<and> utf8_cont c \<and> utf8_cont d then 4
      else if in_range 0xF4 0xF4 a \<and> in_range 0x80 0x8F b \<and> utf8_cont c \<and> utf8_cont d then 4
      else 0)"
| "utf8_len [a, b, c] =
     (if in_range 0xC2 0xDF a \<and> utf8_cont b then 2
      else if in_range 0xE0 0xE0 a \<and> in_range 0xA0 0xBF b \<and> utf8_cont c then 3
      else if (in_range 0xE1 0xEC a \<or> in_range 0xEE 0xEF a) \<and> utf8_cont b \<and> utf8_cont c then 3
      else if in_range 0xED 0xED a \<and> in_range 0x80 0x9F b \<and> utf8_cont c then 3
      else 0)"
| "utf8_len [a, b] = (if in_range 0xC2 0xDF a \<and> utf8_cont b then 2 else 0)"
| "utf8_len _ = 0"

section \<open>String literals\<close>

definition hex_digit :: "char \<Rightarrow> nat option" where
  "hex_digit c =
     (if in_range 0x30 0x39 c then Some (byte_val c - 0x30)
      else if in_range 0x61 0x66 c then Some (byte_val c - 0x61 + 10)
      else if in_range 0x41 0x46 c then Some (byte_val c - 0x41 + 10)
      else None)"

fun getu4 :: "string \<Rightarrow> nat option" where
  "getu4 (a # b # c # d # _) =
     (case (hex_digit a, hex_digit b, hex_digit c, hex_digit d) of
        (Some w, Some x, Some y, Some z) \<Rightarrow> Some (((w * 16 + x) * 16 + y) * 16 + z)
      | _ \<Rightarrow> None)"
| "getu4 _ = None"

text \<open>
  The text after a backslash: the bytes the escape stands for and what follows it. Of two
  \<open>\u\<close> escapes that are a surrogate pair both are read; a lone surrogate is U+FFFD.
\<close>

definition json_escape :: "string \<Rightarrow> (string \<times> string) option" where
  "json_escape s =
     (case s of
        [] \<Rightarrow> None
      | c # r \<Rightarrow>
          if c = chr_quote \<or> c = chr_backslash \<or> c = CHR ''/'' then Some ([c], r)
          else if c = CHR ''b'' then Some ([CHR 0x08], r)
          else if c = CHR ''f'' then Some ([CHR 0x0C], r)
          else if c = CHR ''n'' then Some ([CHR 0x0A], r)
          else if c = CHR ''r'' then Some ([CHR 0x0D], r)
          else if c = CHR ''t'' then Some ([CHR 0x09], r)
          else if c = CHR ''u'' then
            (case getu4 r of
               None \<Rightarrow> None
             | Some u \<Rightarrow>
                 if 0xD800 \<le> u \<and> u < 0xE000 then
                   (let r' = drop 4 r;
                        low = (if HasPrefix r' [chr_backslash, CHR ''u''] then getu4 (drop 2 r') else None)
                    in case low of
                         Some v \<Rightarrow>
                           if u < 0xDC00 \<and> 0xDC00 \<le> v \<and> v < 0xE000
                           then Some (utf8_encode ((u - 0xD800) * 1024 + (v - 0xDC00) + 0x10000), drop 6 r')
                           else Some (replacement, r')
                       | None \<Rightarrow> Some (replacement, r'))
                 else Some (utf8_encode u, drop 4 r))
          else None)"

lemma json_escape_shorter: "json_escape s = Some (out, r) \<Longrightarrow> length r < length s"
  by (auto simp: json_escape_def Let_def split: list.splits if_splits option.splits)

text \<open>The text after an opening quote: the decoded string and what follows the closing one.\<close>

function json_str :: "string \<Rightarrow> (string \<times> string) option" where
  "json_str [] = None"
| "json_str (c # cs) =
     (if c = chr_quote then Some ([], cs)
      else if byte_val c < 0x20 then None
      else if c = chr_backslash then
        (case json_escape cs of
           None \<Rightarrow> None
         | Some (out, r) \<Rightarrow> map_option (\<lambda>(t, r'). (out @ t, r')) (json_str r))
      else if byte_val c < 0x80 then map_option (\<lambda>(t, r'). (c # t, r')) (json_str cs)
      else if utf8_len (c # cs) = 0
        then map_option (\<lambda>(t, r'). (replacement @ t, r')) (json_str cs)
      else map_option (\<lambda>(t, r'). (take (utf8_len (c # cs)) (c # cs) @ t, r'))
             (json_str (drop (utf8_len (c # cs)) (c # cs))))"
  by pat_completeness auto
termination
  by (relation "measure length") (auto dest: json_escape_shorter)

declare json_str.simps(2) [simp del]

lemma json_str_shorter: "json_str s = Some (t, r) \<Longrightarrow> length r < length s"
proof (induction s arbitrary: t r rule: json_str.induct)
  case 1
  then show ?case by simp
next
  case (2 c cs)
  show ?case
  proof (cases "c = chr_backslash")
    case True
    with "2.prems" obtain out r1 t1 where e: "json_escape cs = Some (out, r1)"
      and s: "json_str r1 = Some (t1, r)"
      by (auto simp: json_str.simps(2) chr_quote_def chr_backslash_def split: if_splits option.splits)
    have "length r < length r1"
      by (rule "2.IH"(1)) (use True "2.prems" e s in
          \<open>auto simp: json_str.simps(2) chr_quote_def chr_backslash_def split: if_splits\<close>)
    with json_escape_shorter [OF e] show ?thesis by simp
  next
    case False
    with "2.prems" "2.IH"(2-4) show ?thesis
      by (fastforce simp: json_str.simps(2) split: if_splits)
  qed
qed

section \<open>Arrays of strings\<close>

definition json_elem :: "string \<Rightarrow> (string \<times> string) option" where
  "json_elem s =
     (if HasPrefix s ''null'' then Some ([], drop 4 s)
      else case s of c # cs \<Rightarrow> if c = chr_quote then json_str cs else None | [] \<Rightarrow> None)"

lemma json_elem_shorter: "json_elem s = Some (t, r) \<Longrightarrow> length r < length s"
  by (auto simp: json_elem_def HasPrefix_iff split: if_splits list.splits dest: json_str_shorter)

lemma json_elem_then_shorter:
  assumes "json_elem (dropWhile is_json_ws s) = Some (t, r)" and "dropWhile is_json_ws r = c # r'"
  shows "length r' < length s"
proof -
  have "length r' < length (dropWhile is_json_ws r)" using assms(2) by simp
  also have "\<dots> \<le> length r" by (rule length_dropWhile_le)
  also have "\<dots> < length (dropWhile is_json_ws s)" using json_elem_shorter [OF assms(1)] .
  also have "\<dots> \<le> length s" by (rule length_dropWhile_le)
  finally show ?thesis .
qed

text \<open>One or more elements up to the closing bracket.\<close>

function json_elems :: "string \<Rightarrow> (string list \<times> string) option" where
  "json_elems s =
     (case json_elem (dropWhile is_json_ws s) of
        None \<Rightarrow> None
      | Some (t, r) \<Rightarrow>
          (case dropWhile is_json_ws r of
             [] \<Rightarrow> None
           | c # r' \<Rightarrow>
               if c = CHR '']'' then Some ([t], r')
               else if c = CHR '','' then map_option (\<lambda>(ts, r''). (t # ts, r'')) (json_elems r')
               else None))"
  by pat_completeness auto
termination
  by (relation "measure length") (auto dest: json_elem_then_shorter)

declare json_elems.simps [simp del]

definition json_unmarshal_strings :: "string \<Rightarrow> string list option" where
  "json_unmarshal_strings s =
     (let s' = dropWhile is_json_ws s in
      if HasPrefix s' ''null'' \<and> dropWhile is_json_ws (drop 4 s') = [] then Some []
      else case s' of
        [] \<Rightarrow> None
      | c # r \<Rightarrow>
          if c \<noteq> CHR ''['' then None
          else let r' = dropWhile is_json_ws r in
            if HasPrefix r' '']'' then (if dropWhile is_json_ws (tl r') = [] then Some [] else None)
            else (case json_elems r of
                    Some (ts, r'') \<Rightarrow> if dropWhile is_json_ws r'' = [] then Some ts else None
                  | None \<Rightarrow> None))"

section \<open>Reading back what is written\<close>

text \<open>
  Plain strings (printable ASCII without quotes and backslashes) written as a JSON array are
  read back unchanged.
\<close>

definition plain_char :: "char \<Rightarrow> bool" where
  "plain_char c \<longleftrightarrow>
     0x20 \<le> byte_val c \<and> byte_val c < 0x80 \<and> c \<noteq> chr_quote \<and> c \<noteq> chr_backslash"

definition json_quote :: "string \<Rightarrow> string" where
  "json_quote s = chr_quote # s @ [chr_quote]"

definition json_array :: "string list \<Rightarrow> string" where
  "json_array xs = ''['' @ strings_Join (map json_quote xs) '', '' @ '']''"

lemma json_str_plain:
  "list_all plain_char s \<Longrightarrow> json_str (s @ chr_quote # r) = Some (s, r)"
  by (induction s) (auto simp: json_str.simps(2) plain_char_def)

lemma json_elem_quote:
  "list_all plain_char s \<Longrightarrow> json_elem (json_quote s @ r) = Some (s, r)"
  unfolding json_elem_def json_quote_def
  using json_str_plain [of s r] by (simp add: chr_quote_def)

lemma json_quote_not_ws: "dropWhile is_json_ws (json_quote s @ r) = json_quote s @ r"
  by (simp add: json_quote_def is_json_ws_def chr_quote_def)

lemma json_elems_Join:
  assumes "\<forall>s \<in> set xs. list_all plain_char s" and "xs \<noteq> []"
  shows "json_elems (strings_Join (map json_quote xs) '', '' @ CHR '']'' # r) = Some (xs, r)"
  using assms
proof (induction xs rule: induct_list012)
  case 1
  then show ?case by simp
next
  case (2 x)
  then show ?case
    by (subst json_elems.simps) (simp add: json_quote_not_ws json_elem_quote is_json_ws_def)
next
  case (3 x y zs)
  define rest where "rest = strings_Join (map json_quote (y # zs)) '', '' @ CHR '']'' # r"
  have IH: "json_elems rest = Some (y # zs, r)"
    unfolding rest_def using "3.prems" by (intro "3.IH"(2)) auto
  have ws: "json_elems (CHR '' '' # rest) = json_elems rest"
    by (subst (1 2) json_elems.simps) (simp add: is_json_ws_def)
  have "strings_Join (map json_quote (x # y # zs)) '', '' @ CHR '']'' # r =
      json_quote x @ CHR '','' # CHR '' '' # rest"
    by (simp add: rest_def)
  moreover have "json_elems (json_quote x @ CHR '','' # CHR '' '' # rest) = Some (x # y # zs, r)"
    using "3.prems"
    by (subst json_elems.simps) (simp add: json_quote_not_ws json_elem_quote is_json_ws_def ws IH)
  ultimately show ?case by simp
qed

lemma json_array_roundtrip:
  assumes "\<forall>s \<in> set xs. list_all plain_char s"
  shows "json_unmarshal_strings (json_array xs) = Some xs"
proof (cases xs)
  case Nil
  then show ?thesis
    by (simp add: json_unmarshal_strings_def json_array_def is_json_ws_def HasPrefix_def)
next
  case (Cons y ys)
  define body where "body = strings_Join (map json_quote xs) '', '' @ '']''"
  have elems: "json_elems body = Some (xs, [])"
    unfolding body_def using json_elems_Join [of xs "[]"] assms Cons by simp
  obtain t where body: "body = json_quote y @ t"
    unfolding body_def Cons by (cases ys) auto
  have "dropWhile is_json_ws body = body" and "\<not> HasPrefix body '']''"
    by (simp_all add: body json_quote_not_ws) (simp add: json_quote_def chr_quote_def)
  with elems show ?thesis
    by (simp add: json_unmarshal_strings_def json_array_def is_json_ws_def HasPrefix_def
        body_def [symmetric] Let_def)
qed

end
