(* ===== verification/Keystone_Authorizer.thy ===== *)
theory Keystone_Authorizer
  imports Go_Json "HOL-Library.Multiset"
begin

text \<open>
  The authorization half of the Keystone webhook: \<open>pkg/identity/keystone/policy.go\<close> (the
  policy data) and \<open>authorizer.go\<close> (the decision). A pointer that may be nil is an option, a
  map that the code only looks up in is a partial function, and a map that the code ranges
  over is an association list in some iteration order; the results below do not depend on
  that order. Reading through a nil pointer is the result \<open>Panic\<close>.

  \<open>findString\<close> sorts the caller's slice in place. The model leaves the slice as it is;
  \<open>findString_set\<close> shows that only the members of a slice matter, so a slice sorted by an
  earlier call gives the same answers.
\<close>

section \<open>Data\<close>

definition Roles :: string where "Roles = ''alpha.kubernetes.io/identity/roles''"
definition ProjectID :: string where "ProjectID = ''alpha.kubernetes.io/identity/project/id''"
definition ProjectName :: string where "ProjectName = ''alpha.kubernetes.io/identity/project/name''"
definition DomainID :: string where "DomainID = ''alpha.kubernetes.io/identity/user/domain/id''"
definition DomainName :: string where "DomainName = ''alpha.kubernetes.io/identity/user/domain/name''"

definition TypeUser :: string where "TypeUser = ''user''"
definition TypeGroup :: string where "TypeGroup = ''group''"
definition TypeProject :: string where "TypeProject = ''project''"
definition TypeRole :: string where "TypeRole = ''role''"

lemmas type_names = TypeUser_def TypeGroup_def TypeProject_def TypeRole_def
lemmas extra_keys = Roles_def ProjectID_def ProjectName_def DomainID_def DomainName_def

record policyMatch =
  pm_Type :: string
  pm_Values :: "string list"

record resourcePolicySpec =
  rs_Verbs :: "string list"
  rs_Resources :: "string list"
  rs_APIGroup :: "string option"
  rs_Namespace :: "string option"

record nonResourcePolicySpec =
  nrs_Verbs :: "string list"
  nrs_NonResourcePath :: "string option"

type_synonym permissions = "(string \<times> string list) list"

record policy =
  p_ResourceSpec :: "resourcePolicySpec option"
  p_NonResourceSpec :: "nonResourcePolicySpec option"
  p_Match :: "policyMatch list"
  p_ResourcePermissionsSpec :: "permissions option"
  p_NonResourcePermissionsSpec :: "permissions option"
  p_Users :: "(string \<rightharpoonup> string list) option"

type_synonym policyList = "policy option list"

text \<open>
  The request: \<open>user.DefaultInfo\<close> and \<open>authorizer.AttributesRecord\<close> of the API server's
  library, the fields the webhook fills in.
\<close>

record DefaultInfo =
  u_Name :: string
  u_UID :: string
  u_Groups :: "string list"
  u_Extra :: "string \<rightharpoonup> string list"

record Attributes =
  a_User :: DefaultInfo
  a_Verb :: string
  a_Namespace :: string
  a_APIGroup :: string
  a_APIVersion :: string
  a_Resource :: string
  a_Name :: string
  a_Path :: string
  a_ResourceRequest :: bool

datatype Decision = DecisionDeny | DecisionAllow

section \<open>Matching\<close>

definition findString :: "string \<Rightarrow> string list \<Rightarrow> bool" where
  "findString a list =
     (let sorted_list = sort list; index = SearchStrings sorted_list a
      in index < length sorted_list \<and> sorted_list ! index = a)"

text \<open>
  \<open>getAllowed\<close>: the names a definition allows for the requested name, as a set, or an error
  when the definition excludes the name or cannot be read.
\<close>

definition chr_apostrophe :: char where "chr_apostrophe = CHR 0x27"

definition unquote_items :: "string \<Rightarrow> string list option" where
  "unquote_items d = json_unmarshal_strings (ReplaceAll d [chr_apostrophe] [chr_quote])"

definition getAllowed :: "string \<Rightarrow> string \<Rightarrow> string set result" where
  "getAllowed definition' str =
     (if definition' = str \<or> definition' = ''*'' \<or> str = '''' then Ok {str}
      else if strings_Index definition' ''!'' = 0 \<and> strings_Index definition' ''['' \<noteq> 1 then
        (if tl definition' = str \<or> tl definition' = ''*'' then Err (errors_New '''')
         else Ok {str})
      else if strings_Index definition' ''['' = 0 \<and>
              strings_Index definition' '']'' = int (length definition') - 1 then
        (case unquote_items definition' of
           None \<Rightarrow> Err (errors_New '''')
         | Some items \<Rightarrow> Ok (set (map (\<lambda>val. if val = ''*'' then str else val) items)))
      else if strings_Index definition' ''!'' = 0 \<and> strings_Index definition' ''['' = 1 \<and>
              strings_Index definition' '']'' = int (length definition') - 1 then
        (case unquote_items (tl definition') of
           None \<Rightarrow> Err (errors_New '''')
         | Some items \<Rightarrow>
             if list_ex (\<lambda>val. val = str \<or> val = ''*'') items then Err (errors_New '''')
             else Ok {str})
      else Ok {})"

definition allowedVerbs :: "string list \<Rightarrow> string \<Rightarrow> string set" where
  "allowedVerbs verbs verb =
     (if ''*'' \<in> set verbs then insert verb (set verbs) else set verbs)"

text \<open>One entry \<open>key: value\<close> of a resource permission map.\<close>

definition resource_entry_allows :: "string \<times> string list \<Rightarrow> Attributes \<Rightarrow> bool" where
  "resource_entry_allows kv attr =
     (case kv of (key, verbs) \<Rightarrow>
        (case strings_Split key (CHR ''/'') of
           [k0, k1] \<Rightarrow>
             (case getAllowed (TrimSpace k0) (a_Namespace attr) of
                Ok nss \<Rightarrow>
                  (case getAllowed (TrimSpace k1) (a_Resource attr) of
                     Ok ress \<Rightarrow>
                       a_Namespace attr \<in> nss \<and> a_Resource attr \<in> ress \<and>
                       a_Verb attr \<in> allowedVerbs verbs (a_Verb attr)
                   | _ \<Rightarrow> False)
              | _ \<Rightarrow> False)
         | _ \<Rightarrow> False))"

fun resourcePermissionAllowed :: "permissions \<Rightarrow> Attributes \<Rightarrow> bool" where
  "resourcePermissionAllowed [] attr = False"
| "resourcePermissionAllowed (kv # spec) attr =
     (if resource_entry_allows kv attr then True else resourcePermissionAllowed spec attr)"

definition nonresource_entry_allows :: "string \<times> string list \<Rightarrow> Attributes \<Rightarrow> bool" where
  "nonresource_entry_allows kv attr =
     (fst kv = a_Path attr \<and> a_Verb attr \<in> allowedVerbs (snd kv) (a_Verb attr))"

fun nonResourcePermissionAllowed :: "permissions \<Rightarrow> Attributes \<Rightarrow> bool" where
  "nonResourcePermissionAllowed [] attr = False"
| "nonResourcePermissionAllowed (kv # spec) attr =
     (if nonresource_entry_allows kv attr then True else nonResourcePermissionAllowed spec attr)"

text \<open>Some value of the user's extra field \<open>key\<close> is among \<open>values\<close>.\<close>

definition extra_found :: "DefaultInfo \<Rightarrow> string \<Rightarrow> string list \<Rightarrow> bool" where
  "extra_found user key vals =
     (case u_Extra user key of
        None \<Rightarrow> False
      | Some items \<Rightarrow> list_ex (\<lambda>item. findString item vals) items)"

fun match :: "policyMatch list \<Rightarrow> DefaultInfo \<Rightarrow> bool" where
  "match [] user = True"
| "match (m # ms) user =
     (if \<not> findString (pm_Type m) [TypeGroup, TypeProject, TypeRole, TypeUser] then False
      else if findString ''*'' (pm_Values m) then match ms user
      else if pm_Type m = TypeGroup then
        (if list_ex (\<lambda>group. findString group (pm_Values m)) (u_Groups user)
         then match ms user else False)
      else if pm_Type m = TypeUser then
        (if \<not> findString (u_Name user) (pm_Values m) \<and> \<not> findString (u_UID user) (pm_Values m)
         then False else match ms user)
      else if pm_Type m = TypeProject then
        (if extra_found user ProjectID (pm_Values m) then match ms user
         else if extra_found user ProjectName (pm_Values m) then match ms user
         else False)
      else if pm_Type m = TypeRole then
        (if extra_found user Roles (pm_Values m) then match ms user else False)
      else match ms user)"

definition deref :: "'a option \<Rightarrow> 'a result" where
  "deref p = (case p of None \<Rightarrow> Panic ''nil pointer dereference'' | Some x \<Rightarrow> Ok x)"

definition resourceMatches :: "resourcePolicySpec \<Rightarrow> policyMatch list \<Rightarrow> Attributes \<Rightarrow> bool result" where
  "resourceMatches spec ms a =
     bindR (deref (rs_APIGroup spec)) (\<lambda>apiGroup.
       if apiGroup \<noteq> ''*'' \<and> apiGroup \<noteq> a_APIGroup a then Ok False
       else bindR (deref (rs_Namespace spec)) (\<lambda>namespace.
         if namespace \<noteq> ''*'' \<and> namespace \<noteq> a_Namespace a then Ok False
         else if \<not> findString ''*'' (rs_Resources spec) \<and> \<not> findString (a_Resource a) (rs_Resources spec)
           then Ok False
         else if \<not> findString ''*'' (rs_Verbs spec) \<and> \<not> findString (a_Verb a) (rs_Verbs spec)
           then Ok False
         else Ok (match ms (a_User a))))"

definition nonResourceMatches :: "nonResourcePolicySpec \<Rightarrow> policyMatch list \<Rightarrow> Attributes \<Rightarrow> bool" where
  "nonResourceMatches spec ms a =
     (if findString '''' (nrs_Verbs spec) then False
      else case nrs_NonResourcePath spec of
        None \<Rightarrow> False
      | Some path \<Rightarrow>
          if \<not> findString ''*'' (nrs_Verbs spec) \<and> \<not> findString (a_Verb a) (nrs_Verbs spec) then False
          else if path \<noteq> ''*'' \<and> path \<noteq> a_Path a then False
          else match ms (a_User a))"

section \<open>The decision\<close>

definition opt_list :: "'a list option \<Rightarrow> 'a list" where
  "opt_list v = (case v of None \<Rightarrow> [] | Some xs \<Rightarrow> xs)"

text \<open>The roles and projects a policy names must all be among the user's.\<close>

definition users_apply :: "policy \<Rightarrow> DefaultInfo \<Rightarrow> bool" where
  "users_apply p user =
     (case p_Users p of
        None \<Rightarrow> True
      | Some users \<Rightarrow>
          set (opt_list (users ''roles'')) \<subseteq> set (opt_list (u_Extra user Roles)) \<and>
          set (opt_list (users ''projects'')) \<subseteq> set (opt_list (u_Extra user ProjectName)))"

text \<open>The body of the loop of \<open>Authorize\<close> for one policy.\<close>

definition policy_allows :: "policy option \<Rightarrow> Attributes \<Rightarrow> bool result" where
  "policy_allows pp a =
     bindR (deref pp) (\<lambda>p.
       if \<not> users_apply p (a_User a) then Ok False
       else if a_ResourceRequest a then
         (case p_ResourcePermissionsSpec p of
            Some spec \<Rightarrow> Ok (resourcePermissionAllowed spec a)
          | None \<Rightarrow>
              (case p_ResourceSpec p of
                 Some spec \<Rightarrow> resourceMatches spec (p_Match p) a
               | None \<Rightarrow> Ok False))
       else
         (case p_NonResourcePermissionsSpec p of
            Some spec \<Rightarrow> Ok (nonResourcePermissionAllowed spec a)
          | None \<Rightarrow>
              (case p_NonResourceSpec p of
                 Some spec \<Rightarrow> Ok (nonResourceMatches spec (p_Match p) a)
               | None \<Rightarrow> Ok False)))"

fun authorize_loop :: "policyList \<Rightarrow> Attributes \<Rightarrow> bool result" where
  "authorize_loop [] a = Ok False"
| "authorize_loop (p # pl) a =
     bindR (policy_allows p a) (\<lambda>b. if b then Ok True else authorize_loop pl a)"

definition Authorize :: "policyList \<Rightarrow> Attributes \<Rightarrow> (Decision \<times> string) result" where
  "Authorize pl a =
     bindR (authorize_loop pl a) (\<lambda>b.
       if b then Ok (DecisionAllow, '''') else Ok (DecisionDeny, ''No policy matched.''))"

section \<open>First-match loops\<close>

text \<open>
  The contract of the three loops: rules are tried in order and the first one that allows
  decides. \<open>rule\<close> is the body of the loop, \<open>decide\<close> the loop itself. From the two laws
  follow the meaning of the loop, its independence of the order, and that more rules never
  take a permission away.
\<close>

locale whitelist =
  fixes rule :: "'p \<Rightarrow> 'a \<Rightarrow> bool" and decide :: "'p list \<Rightarrow> 'a \<Rightarrow> bool"
  assumes decide_Nil: "\<not> decide [] a"
    and decide_Cons: "decide (p # ps) a \<longleftrightarrow> rule p a \<or> decide ps a"
begin

lemma decide_iff: "decide ps a \<longleftrightarrow> (\<exists>p \<in> set ps. rule p a)"
  by (induction ps) (simp_all add: decide_Nil decide_Cons)

lemma decide_order: "set ps = set qs \<Longrightarrow> decide ps a = decide qs a"
  by (simp add: decide_iff)

lemma decide_mono: "decide ps a \<Longrightarrow> set ps \<subseteq> set qs \<Longrightarrow> decide qs a"
  by (auto simp: decide_iff)

end

interpretation resource_permissions: whitelist resource_entry_allows resourcePermissionAllowed
  by unfold_locales auto

interpretation nonresource_permissions: whitelist nonresource_entry_allows nonResourcePermissionAllowed
  by unfold_locales auto

section \<open>Lemmas on matching\<close>

lemma findString_set [simp]: "findString a xs \<longleftrightarrow> a \<in> set xs"
  using SearchStrings_member [of "sort xs" a] by (simp add: findString_def Let_def)

text \<open>The identities a match of a given type is compared with.\<close>

definition identities :: "DefaultInfo \<Rightarrow> string \<Rightarrow> string set" where
  "identities user ty =
     (if ty = TypeGroup then set (u_Groups user)
      else if ty = TypeUser then {u_Name user, u_UID user}
      else if ty = TypeProject then
        set (opt_list (u_Extra user ProjectID)) \<union> set (opt_list (u_Extra user ProjectName))
      else if ty = TypeRole then set (opt_list (u_Extra user Roles))
      else {})"

definition match_holds :: "policyMatch \<Rightarrow> DefaultInfo \<Rightarrow> bool" where
  "match_holds m user \<longleftrightarrow>
     pm_Type m \<in> {TypeGroup, TypeProject, TypeRole, TypeUser} \<and>
     (''*'' \<in> set (pm_Values m) \<or> identities user (pm_Type m) \<inter> set (pm_Values m) \<noteq> {})"

lemma extra_found_iff: "extra_found user key vals \<longleftrightarrow> set (opt_list (u_Extra user key)) \<inter> set vals \<noteq> {}"
  by (auto simp: extra_found_def opt_list_def list_ex_iff split: option.splits)

lemma type_names_distinct [simp]:
  "TypeUser \<noteq> TypeGroup" "TypeUser \<noteq> TypeProject" "TypeUser \<noteq> TypeRole"
  "TypeGroup \<noteq> TypeUser" "TypeGroup \<noteq> TypeProject" "TypeGroup \<noteq> TypeRole"
  "TypeProject \<noteq> TypeUser" "TypeProject \<noteq> TypeGroup" "TypeProject \<noteq> TypeRole"
  "TypeRole \<noteq> TypeUser" "TypeRole \<noteq> TypeGroup" "TypeRole \<noteq> TypeProject"
  by (simp_all add: type_names)

lemma match_Cons: "match (m # ms) user \<longleftrightarrow> match_holds m user \<and> match ms user"
proof (cases "pm_Type m \<in> {TypeGroup, TypeProject, TypeRole, TypeUser}")
  case True
  then consider "pm_Type m = TypeGroup" | "pm_Type m = TypeProject"
    | "pm_Type m = TypeRole" | "pm_Type m = TypeUser"
    by blast
  then show ?thesis
    by cases (auto simp: match_holds_def identities_def extra_found_iff list_ex_iff Int_Un_distrib2)
next
  case False
  then show ?thesis by (auto simp: match_holds_def)
qed

lemma match_iff: "match ms user \<longleftrightarrow> (\<forall>m \<in> set ms. match_holds m user)"
  by (induction ms) (simp_all add: match_Cons del: match.simps(2))

definition wildcard_or_in :: "string \<Rightarrow> string list \<Rightarrow> bool" where
  "wildcard_or_in x xs \<longleftrightarrow> ''*'' \<in> set xs \<or> x \<in> set xs"

lemma in_allowedVerbs [simp]: "verb \<in> allowedVerbs verbs verb \<longleftrightarrow> wildcard_or_in verb verbs"
  by (auto simp: allowedVerbs_def wildcard_or_in_def)

section \<open>Selectors of a permission key\<close>

text \<open>
  The five documented ways to write one half of a key of \<open>resource_permissions\<close> (a
  namespace or a resource): any name, one name, all but one, one of several, none of
  several.
\<close>

datatype selector =
    AnyName
  | Name string
  | NotName string
  | OneOf "string list"
  | NoneOf "string list"

definition render_list :: "string list \<Rightarrow> string" where
  "render_list ns =
     ''['' @ strings_Join (map (\<lambda>n. chr_apostrophe # n @ [chr_apostrophe]) ns) '', '' @ '']''"

fun render :: "selector \<Rightarrow> string" where
  "render AnyName = ''*''"
| "render (Name n) = n"
| "render (NotName n) = CHR ''!'' # n"
| "render (OneOf ns) = render_list ns"
| "render (NoneOf ns) = CHR ''!'' # render_list ns"

fun selects :: "selector \<Rightarrow> string \<Rightarrow> bool" where
  "selects AnyName x = True"
| "selects (Name n) x = (x = n)"
| "selects (NotName n) x = (x \<noteq> n)"
| "selects (OneOf ns) x = (x \<in> set ns)"
| "selects (NoneOf ns) x = (x \<notin> set ns)"

text \<open>Names as Kubernetes has them: lower-case letters, digits, dashes and dots.\<close>

definition name_chars :: string where
  "name_chars = ''abcdefghijklmnopqrstuvwxyz0123456789-.''"

definition k8s_name :: "string \<Rightarrow> bool" where
  "k8s_name n \<longleftrightarrow> n \<noteq> [] \<and> list_all (\<lambda>c. c \<in> set name_chars) n"

fun selector_ok :: "selector \<Rightarrow> bool" where
  "selector_ok AnyName = True"
| "selector_ok (Name n) = k8s_name n"
| "selector_ok (NotName n) = k8s_name n"
| "selector_ok (OneOf ns) = list_all k8s_name ns"
| "selector_ok (NoneOf ns) = list_all k8s_name ns"

lemma ReplaceAll_char: "ReplaceAll s [c] [d] = map (\<lambda>x. if x = c then d else x) s"
  by (induction s) simp_all

lemma map_strings_Join:
  "map f (strings_Join xs sep) = strings_Join (map (map f) xs) (map f sep)"
  by (induction xs sep rule: strings_Join.induct) simp_all

lemma name_chars_special:
  assumes "k8s_name n" and "c \<in> set n"
  shows "c \<in> set name_chars"
  using assms by (auto simp: k8s_name_def list_all_iff)

lemma name_char_plain: "c \<in> set name_chars \<Longrightarrow> plain_char c \<and> c \<noteq> chr_apostrophe"
  by (auto simp: name_chars_def plain_char_def byte_val_def chr_quote_def chr_backslash_def
      chr_apostrophe_def)

lemma requote_list:
  assumes "list_all k8s_name ns"
  shows "ReplaceAll (render_list ns) [chr_apostrophe] [chr_quote] = json_array ns"
proof -
  let ?f = "\<lambda>x. if x = chr_apostrophe then chr_quote else x"
  have "map ?f n = n" if "n \<in> set ns" for n
    using that assms name_char_plain name_chars_special
    by (intro map_idI) (auto simp: list_all_iff)
  then have quoted: "map (map ?f) (map (\<lambda>n. chr_apostrophe # n @ [chr_apostrophe]) ns) = map json_quote ns"
    by (auto simp: json_quote_def)
  have fixed: "map ?f '', '' = '', ''" "map ?f ''['' = ''[''" "map ?f '']'' = '']''"
    by (simp_all add: chr_apostrophe_def)
  show ?thesis
    by (simp only: ReplaceAll_char render_list_def json_array_def map_strings_Join map_append quoted fixed)
qed

lemma unquote_render_list: "list_all k8s_name ns \<Longrightarrow> unquote_items (render_list ns) = Some ns"
  unfolding unquote_items_def
  by (subst requote_list, assumption)
    (rule json_array_roundtrip, auto simp: list_all_iff dest: name_chars_special name_char_plain)

lemma strings_Index_Cons:
  "strings_Index (c # s) [d] = (if c = d then 0 else
     if strings_Index s [d] = -1 then -1 else strings_Index s [d] + 1)"
  by (auto simp: strings_Index_def split: option.splits)

lemma strings_Index_absent: "d \<notin> set s \<Longrightarrow> strings_Index s [d] = -1"
  using find_sub_char_None [of s d] by (simp add: strings_Index_def)

lemma strings_Index_first: "d \<notin> set s \<Longrightarrow> strings_Index (s @ d # t) [d] = int (length s)"
  by (induction s) (auto simp: strings_Index_Cons)

lemma set_strings_Join: "set (strings_Join xs sep) \<subseteq> \<Union> (set (map set xs)) \<union> set sep"
  by (induction xs sep rule: strings_Join.induct) auto

lemma name_no_bracket: "k8s_name n \<Longrightarrow> CHR '']'' \<notin> set n \<and> CHR ''['' \<notin> set n \<and> CHR ''!'' \<notin> set n
    \<and> CHR ''/'' \<notin> set n \<and> CHR ''*'' \<notin> set n \<and> chr_apostrophe \<notin> set n"
  using name_chars_special [of n] by (auto simp: name_chars_def chr_apostrophe_def)

lemma render_list_index:
  assumes "list_all k8s_name ns"
  shows "strings_Index (render_list ns) ''['' = 0"
    and "strings_Index (render_list ns) '']'' = int (length (render_list ns)) - 1"
    and "strings_Index (render_list ns) ''!'' = -1"
    and "CHR ''/'' \<notin> set (render_list ns)"
proof -
  let ?body = "strings_Join (map (\<lambda>n. chr_apostrophe # n @ [chr_apostrophe]) ns) '', ''"
  have body: "c \<notin> set ?body" if "c \<notin> set '', ''" "c \<noteq> chr_apostrophe" "c \<notin> set name_chars" for c
    using set_strings_Join [of "map (\<lambda>n. chr_apostrophe # n @ [chr_apostrophe]) ns" "'', ''"]
      assms that name_chars_special
    by (fastforce simp: list_all_iff)
  show "strings_Index (render_list ns) ''['' = 0"
    by (simp add: render_list_def strings_Index_Cons)
  have "CHR '']'' \<notin> set (CHR ''['' # ?body)"
    using body [of "CHR '']''"] by (simp add: name_chars_def chr_apostrophe_def)
  then show "strings_Index (render_list ns) '']'' = int (length (render_list ns)) - 1"
    using strings_Index_first [of "CHR '']''" "CHR ''['' # ?body" "[]"]
    by (simp add: render_list_def)
  show "strings_Index (render_list ns) ''!'' = -1"
    using body [of "CHR ''!''"]
    by (intro strings_Index_absent) (simp add: name_chars_def chr_apostrophe_def render_list_def)
  show "CHR ''/'' \<notin> set (render_list ns)"
    using body [of "CHR ''/''"]
    by (simp add: name_chars_def chr_apostrophe_def render_list_def)
qed

text \<open>What \<open>getAllowed\<close> says of the requested name.\<close>

definition name_allowed :: "string \<Rightarrow> string \<Rightarrow> bool" where
  "name_allowed d x \<longleftrightarrow> (case getAllowed d x of Ok S \<Rightarrow> x \<in> S | _ \<Rightarrow> False)"

lemma name_allowed_empty [simp]: "name_allowed d ''''"
  by (simp add: name_allowed_def getAllowed_def)

lemma render_list_not_name: "k8s_name x \<Longrightarrow> render_list ns \<noteq> x"
  using name_no_bracket [of x] by (auto simp: render_list_def)

lemma render_list_not_star [simp]: "render_list ns \<noteq> ''*''"
  by (simp add: render_list_def)

lemma name_allowed_render:
  assumes "selector_ok sel" and x: "k8s_name x"
  shows "name_allowed (render sel) x \<longleftrightarrow> selects sel x"
proof (cases sel)
  case AnyName
  then show ?thesis by (simp add: name_allowed_def getAllowed_def)
next
  case (Name n)
  with assms have n: "k8s_name n" by simp
  have "strings_Index n ''!'' = -1" "strings_Index n ''['' = -1"
    using name_no_bracket [OF n] by (simp_all add: strings_Index_absent)
  moreover have "n \<noteq> ''*''" "x \<noteq> ''''" using name_no_bracket [OF n] x by (auto simp: k8s_name_def)
  ultimately show ?thesis by (auto simp: Name name_allowed_def getAllowed_def)
next
  case (NotName n)
  with assms have n: "k8s_name n" by simp
  have "strings_Index (CHR ''!'' # n) ''[''= -1" "strings_Index (CHR ''!'' # n) ''!'' = 0"
    using name_no_bracket [OF n] by (simp_all add: strings_Index_Cons strings_Index_absent)
  moreover have "n \<noteq> ''*''" "x \<noteq> ''''" "CHR ''!'' # n \<noteq> x"
    using name_no_bracket [OF n] name_no_bracket [OF x] x by (auto simp: k8s_name_def)
  ultimately show ?thesis by (auto simp: NotName name_allowed_def getAllowed_def)
next
  case (OneOf ns)
  with assms have ns: "list_all k8s_name ns" by simp
  have "''*'' \<notin> set ns" using ns name_no_bracket by (fastforce simp: list_all_iff)
  then have "map (\<lambda>v. if v = ''*'' then x else v) ns = ns" by (intro map_idI) auto
  moreover have "x \<noteq> ''''" using x by (simp add: k8s_name_def)
  ultimately show ?thesis
    using render_list_index [OF ns] render_list_not_name [OF x, of ns]
    by (simp add: OneOf name_allowed_def getAllowed_def unquote_render_list [OF ns])
next
  case (NoneOf ns)
  with assms have ns: "list_all k8s_name ns" by simp
  have "''*'' \<notin> set ns" using ns name_no_bracket by (fastforce simp: list_all_iff)
  moreover have "x \<noteq> ''''" "CHR ''!'' # render_list ns \<noteq> x"
    using x name_no_bracket [OF x] by (auto simp: k8s_name_def)
  moreover have "strings_Index (CHR ''!'' # render_list ns) ''['' = 1"
    "strings_Index (CHR ''!'' # render_list ns) '']'' = int (length (render_list ns))"
    "strings_Index (CHR ''!'' # render_list ns) ''!'' = 0"
    using render_list_index [OF ns] by (auto simp: strings_Index_Cons render_list_def)
  ultimately show ?thesis
    by (auto simp: NoneOf name_allowed_def getAllowed_def unquote_render_list [OF ns] list_ex_iff)
qed

lemma TrimSpace_id:
  assumes "s \<noteq> []" and "hd s \<notin> set (concat go_spaces)" and "last s \<notin> set (concat go_spaces)"
  shows "TrimSpace s = s"
proof -
  have hd_in: "hd t \<in> set (concat go_spaces)"
    if "p \<in> set go_spaces \<or> rev p \<in> set go_spaces" "p \<noteq> []" "HasPrefix t p" for p t
  proof -
    from that have "hd t = hd p" "hd p \<in> set p" by (auto simp: HasPrefix_iff)
    with that(1) show ?thesis by simp (metis set_rev)
  qed
  have "trim_left go_spaces s = s"
    using hd_in assms(2) by (intro trim_left_id) blast
  moreover have "trim_left (map rev go_spaces) (rev s) = rev s"
  proof (rule trim_left_id)
    fix p assume "p \<in> set (map rev go_spaces)" "p \<noteq> []"
    then have "rev p \<in> set go_spaces" by auto
    then show "\<not> HasPrefix (rev s) p"
      using hd_in [of p "rev s"] assms \<open>p \<noteq> []\<close> by (auto simp: hd_rev)
  qed
  ultimately show ?thesis by (simp add: TrimSpace_def)
qed

lemma name_not_space: "k8s_name n \<Longrightarrow> c \<in> set n \<Longrightarrow> c \<notin> set (concat go_spaces)"
  using name_chars_special [of n c] by (auto simp: name_chars_def go_spaces_def)

lemma TrimSpace_render: "selector_ok sel \<Longrightarrow> TrimSpace (render sel) = render sel"
proof -
  assume ok: "selector_ok sel"
  have name: "hd n \<notin> set (concat go_spaces) \<and> last n \<notin> set (concat go_spaces) \<and> n \<noteq> []" if "k8s_name n" for n
    using that name_not_space [OF that] by (simp add: k8s_name_def)
  have "render sel \<noteq> []" using ok by (cases sel) (auto simp: k8s_name_def render_list_def)
  moreover have "hd (render sel) \<notin> set (concat go_spaces)"
    using ok name by (cases sel) (auto simp: render_list_def go_spaces_def)
  moreover have "last (render sel) \<notin> set (concat go_spaces)"
    using ok name by (cases sel) (auto simp: render_list_def go_spaces_def)
  ultimately show ?thesis by (rule TrimSpace_id)
qed

lemma render_no_slash: "selector_ok sel \<Longrightarrow> CHR ''/'' \<notin> set (render sel)"
  using name_no_bracket render_list_index(4) by (cases sel) auto

lemma split_key:
  assumes "selector_ok nsSel" and "selector_ok resSel"
  shows "strings_Split (render nsSel @ ''/'' @ render resSel) (CHR ''/'') = [render nsSel, render resSel]"
  using render_no_slash assms by (simp add: strings_Split_def split_char_append split_char_no_sep)

section \<open>The meaning of a policy\<close>

definition resource_spec_grants :: "resourcePolicySpec \<Rightarrow> policyMatch list \<Rightarrow> Attributes \<Rightarrow> bool" where
  "resource_spec_grants spec ms a \<longleftrightarrow>
     rs_APIGroup spec \<in> {Some ''*'', Some (a_APIGroup a)} \<and>
     rs_Namespace spec \<in> {Some ''*'', Some (a_Namespace a)} \<and>
     wildcard_or_in (a_Resource a) (rs_Resources spec) \<and>
     wildcard_or_in (a_Verb a) (rs_Verbs spec) \<and>
     (\<forall>m \<in> set ms. match_holds m (a_User a))"

definition nonresource_spec_grants :: "nonResourcePolicySpec \<Rightarrow> policyMatch list \<Rightarrow> Attributes \<Rightarrow> bool" where
  "nonresource_spec_grants spec ms a \<longleftrightarrow>
     nrs_NonResourcePath spec \<in> {Some ''*'', Some (a_Path a)} \<and>
     '''' \<notin> set (nrs_Verbs spec) \<and>
     wildcard_or_in (a_Verb a) (nrs_Verbs spec) \<and>
     (\<forall>m \<in> set ms. match_holds m (a_User a))"

text \<open>One entry of a permission map, for the namespace, resource and verb of the request.\<close>

definition resource_entry_grants :: "string \<times> string list \<Rightarrow> Attributes \<Rightarrow> bool" where
  "resource_entry_grants kv a \<longleftrightarrow>
     (\<exists>nsDef resDef. strings_Split (fst kv) (CHR ''/'') = [nsDef, resDef] \<and>
        name_allowed (TrimSpace nsDef) (a_Namespace a) \<and>
        name_allowed (TrimSpace resDef) (a_Resource a)) \<and>
     wildcard_or_in (a_Verb a) (snd kv)"

definition policy_grants :: "policy \<Rightarrow> Attributes \<Rightarrow> bool" where
  "policy_grants p a \<longleftrightarrow>
     users_apply p (a_User a) \<and>
     (if a_ResourceRequest a then
        (case p_ResourcePermissionsSpec p of
           Some spec \<Rightarrow> (\<exists>kv \<in> set spec. resource_entry_grants kv a)
         | None \<Rightarrow> (\<exists>spec. p_ResourceSpec p = Some spec \<and> resource_spec_grants spec (p_Match p) a))
      else
        (case p_NonResourcePermissionsSpec p of
           Some spec \<Rightarrow> (\<exists>kv \<in> set spec. fst kv = a_Path a \<and> wildcard_or_in (a_Verb a) (snd kv))
         | None \<Rightarrow> (\<exists>spec. p_NonResourceSpec p = Some spec \<and> nonresource_spec_grants spec (p_Match p) a)))"

text \<open>
  A policy the decision can be taken from without a nil pointer: it is there, and if a
  \<open>resource\<close> specification is consulted, its \<open>version\<close> and \<open>namespace\<close> are given.
\<close>

definition policy_wf :: "policy option \<Rightarrow> bool" where
  "policy_wf pp =
     (case pp of
        None \<Rightarrow> False
      | Some p \<Rightarrow>
          (case p_ResourceSpec p of
             None \<Rightarrow> True
           | Some spec \<Rightarrow> rs_APIGroup spec \<noteq> None \<and> rs_Namespace spec \<noteq> None))"

lemma resource_entry_allows_iff: "resource_entry_allows kv a \<longleftrightarrow> resource_entry_grants kv a"
  by (cases kv)
    (auto simp: resource_entry_allows_def resource_entry_grants_def name_allowed_def
      split: list.splits result.splits)

lemma nonresource_entry_allows_iff:
  "nonresource_entry_allows kv a \<longleftrightarrow> fst kv = a_Path a \<and> wildcard_or_in (a_Verb a) (snd kv)"
  by (simp add: nonresource_entry_allows_def)

lemma resourceMatches_iff:
  assumes "rs_APIGroup spec \<noteq> None" and "rs_Namespace spec \<noteq> None"
  shows "resourceMatches spec ms a = Ok (resource_spec_grants spec ms a)"
  using assms
  by (auto simp: resourceMatches_def resource_spec_grants_def deref_def wildcard_or_in_def match_iff)

lemma nonResourceMatches_iff: "nonResourceMatches spec ms a \<longleftrightarrow> nonresource_spec_grants spec ms a"
  by (auto simp: nonResourceMatches_def nonresource_spec_grants_def wildcard_or_in_def match_iff
      split: option.splits)

lemma policy_allows_iff: "policy_wf (Some p) \<Longrightarrow> policy_allows (Some p) a = Ok (policy_grants p a)"
  by (auto simp: policy_allows_def policy_grants_def policy_wf_def deref_def resourceMatches_iff
      nonResourceMatches_iff resource_permissions.decide_iff nonresource_permissions.decide_iff
      resource_entry_allows_iff nonresource_entry_allows_iff split: option.splits)

lemma authorize_loop_iff:
  "list_all policy_wf pl \<Longrightarrow>
   authorize_loop pl a = Ok (\<exists>p. Some p \<in> set pl \<and> policy_grants p a)"
proof (induction pl)
  case Nil
  then show ?case by simp
next
  case (Cons pp pl)
  then obtain p where p: "pp = Some p" by (cases pp) (auto simp: policy_wf_def)
  with Cons show ?case by (auto simp: policy_allows_iff)
qed

section \<open>Properties\<close>


text \<open>
  Policies are a whitelist: the order of the list does not matter, and adding policies
  (nil-free ones) never turns an allowed request into a denied one.
\<close>

theorem Authorize_monotone:
  assumes "list_all policy_wf pl'" and "set pl \<subseteq> set pl'"
    and "Authorize pl a = Ok (DecisionAllow, reason)"
  shows "Authorize pl' a = Ok (DecisionAllow, reason)"
proof -
  from assms(1,2) have "list_all policy_wf pl" by (auto simp: list_all_iff)
  with assms(3) have "\<exists>p. Some p \<in> set pl \<and> policy_grants p a" and r: "reason = ''''"
    by (auto simp: Authorize_def authorize_loop_iff split: if_splits)
  then have "\<exists>p. Some p \<in> set pl' \<and> policy_grants p a" using assms(2) by blast
  then show ?thesis
    using authorize_loop_iff [OF assms(1)] by (simp add: Authorize_def r)
qed

text \<open>
  C2. Keys of \<open>resource_permissions\<close> mean what the documentation says: a key made of a
  namespace selector and a resource selector (any name, a name, all but a name, one of a
  list, none of a list) allows a request exactly when both selectors select the request's
  namespace and resource, an empty one being always selected, and the verb is listed or
  \<open>*\<close> is.
\<close>

theorem resource_key_selects:
  assumes "selector_ok nsSel" and "selector_ok resSel"
    and "a_Namespace a = '''' \<or> k8s_name (a_Namespace a)"
    and "a_Resource a = '''' \<or> k8s_name (a_Resource a)"
  shows "resourcePermissionAllowed [(render nsSel @ ''/'' @ render resSel, verbs)] a \<longleftrightarrow>
    (a_Namespace a = '''' \<or> selects nsSel (a_Namespace a)) \<and>
    (a_Resource a = '''' \<or> selects resSel (a_Resource a)) \<and>
    (''*'' \<in> set verbs \<or> a_Verb a \<in> set verbs)"
proof -
  have "resource_entry_grants (render nsSel @ ''/'' @ render resSel, verbs) a \<longleftrightarrow>
      name_allowed (render nsSel) (a_Namespace a) \<and> name_allowed (render resSel) (a_Resource a) \<and>
      wildcard_or_in (a_Verb a) verbs"
    using assms(1,2) split_key [OF assms(1,2)] by (auto simp: resource_entry_grants_def TrimSpace_render)
  moreover have "name_allowed (render sel) x \<longleftrightarrow> x = '''' \<or> selects sel x"
    if "selector_ok sel" "x = '''' \<or> k8s_name x" for sel x
    using that name_allowed_render by (cases "x = ''''") auto
  ultimately show ?thesis
    using assms by (auto simp: resource_entry_allows_iff wildcard_or_in_def)
qed

text \<open>
  A policy whose \<open>resource\<close> specification leaves out \<open>version\<close> makes the webhook panic
  on every resource request that reaches it, instead of denying the request.
\<close>

theorem Authorize_nil_version_panics:
  assumes "list_all policy_wf pl" and "\<not> (\<exists>q. Some q \<in> set pl \<and> policy_grants q a)"
    and "a_ResourceRequest a" and "users_apply p (a_User a)"
    and "p_ResourcePermissionsSpec p = None" and "p_ResourceSpec p = Some spec"
    and "rs_APIGroup spec = None"
  shows "Authorize (pl @ [Some p]) a = Panic ''nil pointer dereference''"
proof -
  have "authorize_loop (pl @ [Some p]) a = authorize_loop [Some p] a"
    using assms(1,2)
  proof (induction pl)
    case Nil
    then show ?case by simp
  next
    case (Cons pp pl)
    then obtain q where "pp = Some q" by (cases pp) (auto simp: policy_wf_def)
    with Cons show ?case by (auto simp: policy_allows_iff)
  qed
  then show ?thesis
    using assms(3-) by (simp add: Authorize_def policy_allows_def deref_def resourceMatches_def)
qed

section \<open>Witnesses\<close>

definition demo_user :: DefaultInfo where
  "demo_user = \<lparr> u_Name = ''alice'', u_UID = ''u-1'', u_Groups = [''g''],
     u_Extra = [Roles \<mapsto> [''developer'', ''member''], ProjectName \<mapsto> [''demo'']] \<rparr>"

definition demo_policy :: policy where
  "demo_policy = \<lparr> p_ResourceSpec = None, p_NonResourceSpec = None, p_Match = [],
     p_ResourcePermissionsSpec =
       Some [(render (NotName ''kube-system'') @ ''/'' @ render (OneOf [''pods'', ''services'']),
              [''get'', ''list''])],
     p_NonResourcePermissionsSpec = None,
     p_Users = Some [''roles'' \<mapsto> [''developer''], ''projects'' \<mapsto> [''demo'']] \<rparr>"

definition nil_version_policy :: policy where
  "nil_version_policy = demo_policy \<lparr> p_ResourcePermissionsSpec := None,
     p_ResourceSpec := Some \<lparr> rs_Verbs = [''get''], rs_Resources = [''pods''],
       rs_APIGroup = None, rs_Namespace = Some ''default'' \<rparr> \<rparr>"

definition demo_request :: "string \<Rightarrow> string \<Rightarrow> string \<Rightarrow> Attributes" where
  "demo_request ns res verb = \<lparr> a_User = demo_user, a_Verb = verb, a_Namespace = ns, a_APIGroup = '''',
     a_APIVersion = ''v1'', a_Resource = res, a_Name = '''', a_Path = '''', a_ResourceRequest = True \<rparr>"

lemma demo_selectors:
  "selector_ok (NotName ''kube-system'')" "selector_ok (OneOf [''pods'', ''services''])"
  "k8s_name ''default''" "k8s_name ''pods''"
  by (simp_all add: k8s_name_def name_chars_def)

lemma demo_policy_wf: "list_all policy_wf [Some demo_policy]"
  by (simp add: policy_wf_def demo_policy_def)

lemma demo_users_apply: "users_apply demo_policy (a_User (demo_request ns res verb))"
  by (simp add: users_apply_def demo_policy_def demo_request_def demo_user_def opt_list_def extra_keys)

lemma demo_grants: "policy_grants demo_policy (demo_request ''default'' ''pods'' ''get'')"
proof -
  have "name_allowed (render (NotName ''kube-system'')) ''default''"
    "name_allowed (render (OneOf [''pods'', ''services''])) ''pods''"
    by (simp_all only: name_allowed_render demo_selectors) simp_all
  then show ?thesis
    using split_key [OF demo_selectors(1,2)] TrimSpace_render [OF demo_selectors(1)] TrimSpace_render [OF demo_selectors(2)] demo_users_apply
    by (simp add: policy_grants_def resource_entry_grants_def demo_policy_def demo_request_def
        wildcard_or_in_def del: render.simps)
qed


theorem Authorize_monotone_witness:
  "Authorize [Some (demo_policy \<lparr> p_Users := Some [''roles'' \<mapsto> [''admin'']] \<rparr>), Some demo_policy]
     (demo_request ''default'' ''pods'' ''get'') = Ok (DecisionAllow, '''')"
proof (rule Authorize_monotone [where pl = "[Some demo_policy]"])
  show "Authorize [Some demo_policy] (demo_request ''default'' ''pods'' ''get'') = Ok (DecisionAllow, '''')"
    using authorize_loop_iff [OF demo_policy_wf] demo_grants by (auto simp: Authorize_def)
qed (simp_all add: policy_wf_def demo_policy_def)

theorem resource_key_selects_witness:
  "resourcePermissionAllowed
     [(render (NotName ''kube-system'') @ ''/'' @ render (OneOf [''pods'', ''services'']), [''get''])]
     (demo_request ''default'' ''pods'' ''get'')"
  using resource_key_selects [OF demo_selectors(1,2), of "demo_request ''default'' ''pods'' ''get''" "[''get'']"]
    demo_selectors by (simp add: demo_request_def del: render.simps resourcePermissionAllowed.simps)

theorem Authorize_nil_version_panics_witness:
  "Authorize ([] @ [Some nil_version_policy]) (demo_request ''default'' ''pods'' ''get'')
     = Panic ''nil pointer dereference''"
  using demo_users_apply
  by (intro Authorize_nil_version_panics
      [where spec = "\<lparr> rs_Verbs = [''get''], rs_Resources = [''pods''],
         rs_APIGroup = None, rs_Namespace = Some ''default'' \<rparr>"])
    (simp_all add: nil_version_policy_def demo_policy_def demo_request_def users_apply_def)

end
