(* ===== verification/Keystone_Sync.thy ===== *)
theory Keystone_Sync
  imports Keystone_Authorizer
begin

text \<open>
  Synchronisation of Keystone data into Kubernetes: \<open>pkg/identity/keystone/sync.go\<close>. The
  Kubernetes API is a record of calls; what the calls do to the cluster is stated by the
  contracts \<open>rolebindings_ok\<close> and \<open>rolebindings_serve\<close>, used as hypotheses.
\<close>

section \<open>Configuration\<close>

record userInfo =
  ui_Username :: string
  ui_UID :: string
  ui_Groups :: "string list"
  ui_Extra :: "string \<rightharpoonup> string list"

definition Projects :: string where "Projects = ''projects''"
definition RoleAssignments :: string where "RoleAssignments = ''role_assignments''"

definition allowedDataTypesToSync :: "string list" where
  "allowedDataTypesToSync = [Projects, RoleAssignments]"

record syncConfig =
  sc_DataTypesToSync :: "string list"
  sc_NamespaceFormat :: string
  sc_ProjectBlackList :: "string list"

definition newSyncConfig :: syncConfig where
  "newSyncConfig = \<lparr> sc_DataTypesToSync = allowedDataTypesToSync, sc_NamespaceFormat = ''%i'',
     sc_ProjectBlackList = [] \<rparr>"

definition alnum :: "char \<Rightarrow> bool" where
  "alnum c \<longleftrightarrow> c \<in> set ''abcdefghijklmnopqrstuvwxyzABCDEFGHIJKLMNOPQRSTUVWXYZ0123456789''"

definition ns_char :: "char \<Rightarrow> bool" where
  "ns_char c \<longleftrightarrow> alnum c \<or> c \<in> set ''_.-''"

text \<open>The regular expression \<open>^[a-zA-Z0-9][a-zA-Z0-9_.-]*[a-zA-Z0-9]$\<close>.\<close>

definition matches_ns_re :: "string \<Rightarrow> bool" where
  "matches_ns_re s \<longleftrightarrow> 2 \<le> length s \<and> alnum (hd s) \<and> alnum (last s) \<and> list_all ns_char s"

fun check_data_types :: "string list \<Rightarrow> unit result" where
  "check_data_types [] = Ok ()"
| "check_data_types (dt # dts) =
     (if list_ex (\<lambda>a. a = dt) allowedDataTypesToSync then check_data_types dts
      else Err (Errorf ''Unsupported data type to sync: %v. Available values: %v''
                  [FStr dt, FStr (strings_Join allowedDataTypesToSync '','')]))"

definition validate :: "syncConfig \<Rightarrow> unit result" where
  "validate sc =
     (if \<not> strings_Contains (sc_NamespaceFormat sc) ''%i''
      then Err (errors_New ''format string should comprise a %%i substring (keystone project id)'')
      else
        let ts = ReplaceAll (sc_NamespaceFormat sc) ''%i'' ''aa'';
            ts = ReplaceAll ts ''%n'' ''aa'';
            ts = ReplaceAll ts ''%d'' ''aa''
        in if \<not> matches_ns_re ts
           then Err (errors_New ''namespace name must consist of alphanumeric characters, '-', '_' or '.', and must start and end with an alphanumeric character'')
           else check_data_types (sc_DataTypesToSync sc))"

definition formatNamespaceName :: "syncConfig \<Rightarrow> string \<Rightarrow> string \<Rightarrow> string \<Rightarrow> string" where
  "formatNamespaceName sc pid name domain =
     (let res = ReplaceAll (sc_NamespaceFormat sc) ''%i'' pid;
          res = ReplaceAll res ''%n'' name;
          res = ReplaceAll res ''%d'' domain
      in if length res > 63 then pid else res)"

section \<open>Synchronisation\<close>

record Subject =
  sj_APIGroup :: string
  sj_Kind :: string
  sj_Name :: string

record RoleRef =
  rr_APIGroup :: string
  rr_Kind :: string
  rr_Name :: string

record RoleBinding =
  rb_Name :: string
  rb_Subjects :: "Subject list"
  rb_RoleRef :: RoleRef

text \<open>The calls of the Kubernetes client the syncer makes; the first argument is a namespace.\<close>

record 'w k8s_api =
  ns_Get :: "string \<Rightarrow> ('w, unit) io"
  ns_Create :: "string \<Rightarrow> ('w, unit) io"
  rb_List :: "string \<Rightarrow> ('w, RoleBinding list) io"
  rb_Delete :: "string \<Rightarrow> string \<Rightarrow> ('w, unit) io"
  rb_Create :: "string \<Rightarrow> RoleBinding \<Rightarrow> ('w, unit) io"

record 'w Syncer =
  sy_k8sClient :: "'w k8s_api option"
  sy_syncConfig :: "syncConfig option"

abbreviation internal_error :: gerror where
  "internal_error \<equiv> errors_New ''Internal server error''"

definition syncProjectData :: "'w k8s_api \<Rightarrow> userInfo \<Rightarrow> string \<Rightarrow> ('w, unit) io" where
  "syncProjectData api u namespaceName =
     bindE (attempt (ns_Get api namespaceName)) (\<lambda>r.
       case r of
         Inl err \<Rightarrow>
           if err = K8sNotFound then wrapE (\<lambda>_. internal_error) (ns_Create api namespaceName)
           else fail internal_error
       | Inr _ \<Rightarrow> ret ())"

definition roleBindingName :: "userInfo \<Rightarrow> string \<Rightarrow> string" where
  "roleBindingName u roleName = ui_UID u @ ''_'' @ roleName"

definition user_roles :: "userInfo \<Rightarrow> string list" where
  "user_roles u = opt_list (ui_Extra u Roles)"

text \<open>The body of the loop that deletes role bindings removed from Keystone.\<close>

definition delete_stale :: "'w k8s_api \<Rightarrow> userInfo \<Rightarrow> string \<Rightarrow> RoleBinding \<Rightarrow> ('w, unit) io" where
  "delete_stale api u namespaceName roleBinding =
     (let parts = SplitN2 (rb_Name roleBinding) ''_'' in
      if length parts = 1 \<or> parts ! 0 \<noteq> ui_UID u then ret ()
      else
        let keepRoleBinding =
          list_ex (\<lambda>roleName. rb_Name roleBinding = roleBindingName u roleName) (user_roles u)
        in if keepRoleBinding then ret ()
           else wrapE (\<lambda>_. internal_error) (rb_Delete api namespaceName (rb_Name roleBinding)))"

definition newRoleBinding :: "userInfo \<Rightarrow> string \<Rightarrow> RoleBinding" where
  "newRoleBinding u roleName =
     \<lparr> rb_Name = roleBindingName u roleName,
       rb_Subjects = [\<lparr> sj_APIGroup = ''rbac.authorization.k8s.io'', sj_Kind = ''User'',
                        sj_Name = ui_Username u \<rparr>],
       rb_RoleRef = \<lparr> rr_APIGroup = ''rbac.authorization.k8s.io'', rr_Kind = ''ClusterRole'',
                      rr_Name = roleName \<rparr> \<rparr>"

text \<open>The body of the loop that creates new role bindings.\<close>

definition create_missing ::
    "'w k8s_api \<Rightarrow> userInfo \<Rightarrow> string \<Rightarrow> RoleBinding list \<Rightarrow> string \<Rightarrow> ('w, unit) io" where
  "create_missing api u namespaceName items roleName =
     (if list_ex (\<lambda>roleBinding. roleBindingName u roleName = rb_Name roleBinding) items then ret ()
      else wrapE (\<lambda>_. internal_error) (rb_Create api namespaceName (newRoleBinding u roleName)))"

definition syncRoleAssignmentsData :: "'w k8s_api \<Rightarrow> userInfo \<Rightarrow> string \<Rightarrow> ('w, unit) io" where
  "syncRoleAssignmentsData api u namespaceName =
     bindE (wrapE (\<lambda>_. internal_error) (rb_List api namespaceName)) (\<lambda>items.
     bindE (forE (delete_stale api u namespaceName) items) (\<lambda>_.
     forE (create_missing api u namespaceName items) (user_roles u)))"

text \<open>\<open>u.Extra[key][0]\<close>; a missing key gives a nil slice, which has no element 0.\<close>

definition extra0 :: "userInfo \<Rightarrow> string \<Rightarrow> string result" where
  "extra0 u key = (case opt_list (ui_Extra u key) of [] \<Rightarrow> Panic ''index out of range'' | x # _ \<Rightarrow> Ok x)"

fun in_blacklist :: "userInfo \<Rightarrow> string list \<Rightarrow> bool result" where
  "in_blacklist u [] = Ok False"
| "in_blacklist u (p # ps) =
     bindR (extra0 u ProjectID) (\<lambda>pid. if pid = p then Ok True else in_blacklist u ps)"

definition syncData :: "'w Syncer \<Rightarrow> userInfo \<Rightarrow> ('w, unit) io" where
  "syncData s u =
     bindE (lift_result (deref (sy_syncConfig s))) (\<lambda>sc.
     bindE (lift_result (in_blacklist u (sc_ProjectBlackList sc))) (\<lambda>skip.
       if skip then ret ()
       else case sy_k8sClient s of
         None \<Rightarrow> fail (errors_New ''cannot sync data because k8s client is not initialized'')
       | Some api \<Rightarrow>
           bindE (lift_result (extra0 u ProjectID)) (\<lambda>pid.
           bindE (lift_result (extra0 u ProjectName)) (\<lambda>pname.
           bindE (lift_result (extra0 u DomainID)) (\<lambda>did.
             let namespaceName = formatNamespaceName sc pid pname did in
             bindE (forE (\<lambda>dataType. if dataType = Projects
                                     then syncProjectData api u namespaceName else ret ())
                     (sc_DataTypesToSync sc)) (\<lambda>_.
             forE (\<lambda>dataType. if dataType = RoleAssignments
                              then syncRoleAssignmentsData api u namespaceName else ret ())
               (sc_DataTypesToSync sc)))))))"

text \<open>\<open>newSyncConfigFromFile\<close>: reading the file and decoding YAML over the defaults are parameters.\<close>

definition newSyncConfigFromFile ::
    "(string \<Rightarrow> string result) \<Rightarrow> (string \<Rightarrow> syncConfig \<Rightarrow> syncConfig \<times> gerror option) \<Rightarrow>
     string \<Rightarrow> syncConfig result" where
  "newSyncConfigFromFile ReadFile yaml_Unmarshal path =
     bindR (ReadFile path) (\<lambda>yamlFile.
       case yaml_Unmarshal yamlFile newSyncConfig of
         (sc, Some err) \<Rightarrow> Err err
       | (sc, None) \<Rightarrow> Ok sc)"

section \<open>Namespace names\<close>

text \<open>
  A format as a sequence of literal characters and the wildcards \<open>%i\<close>, \<open>%n\<close>, \<open>%d\<close>. \<open>expand \<rho>\<close>
  writes it out with the wildcards replaced by \<open>\<rho>\<close>.
\<close>

datatype tok = Lit char | Var char

fun expand1 :: "(char \<Rightarrow> string) \<Rightarrow> tok \<Rightarrow> string" where
  "expand1 \<rho> (Lit c) = [c]"
| "expand1 \<rho> (Var v) = \<rho> v"

definition expand :: "(char \<Rightarrow> string) \<Rightarrow> tok list \<Rightarrow> string" where
  "expand \<rho> ts = concat (map (expand1 \<rho>) ts)"

definition wildcard :: "char \<Rightarrow> string" where
  "wildcard v = [CHR ''%'', v]"

fun tok_ok :: "tok \<Rightarrow> bool" where
  "tok_ok (Lit c) = (c \<noteq> CHR ''%'')"
| "tok_ok (Var v) = (v \<in> set ''ind'')"

lemma expand_simps [simp]:
  "expand \<rho> [] = []" "expand \<rho> (t # ts) = expand1 \<rho> t @ expand \<rho> ts"
  by (simp_all add: expand_def)

lemma ReplaceAll_lit:
  "c \<noteq> CHR ''%'' \<Longrightarrow> ReplaceAll (c # t) (wildcard v) new = c # ReplaceAll t (wildcard v) new"
  by (simp add: wildcard_def)

lemma ReplaceAll_skip: "CHR ''%'' \<notin> set s \<Longrightarrow> ReplaceAll (s @ t) (wildcard v) new = s @ ReplaceAll t (wildcard v) new"
  by (induction s) (auto simp: ReplaceAll_lit simp del: ReplaceAll.simps)

lemma ReplaceAll_hit: "ReplaceAll (wildcard v @ t) (wildcard v) new = new @ ReplaceAll t (wildcard v) new"
  by (simp add: wildcard_def)

lemma ReplaceAll_other:
  "v' \<noteq> v \<Longrightarrow> v' \<noteq> CHR ''%'' \<Longrightarrow>
   ReplaceAll (wildcard v' @ t) (wildcard v) new = wildcard v' @ ReplaceAll t (wildcard v) new"
  by (simp add: wildcard_def)

lemma ReplaceAll_expand:
  assumes "list_all tok_ok ts" and "\<And>v'. v' \<noteq> v \<Longrightarrow> \<rho> v' = wildcard v' \<or> CHR ''%'' \<notin> set (\<rho> v')"
    and "\<rho> v = wildcard v" and "v \<in> set ''ind''"
  shows "ReplaceAll (expand \<rho> ts) (wildcard v) new = expand (\<rho>(v := new)) ts"
  using assms(1)
proof (induction ts)
  case Nil
  then show ?case by simp
next
  case (Cons t ts)
  show ?case
  proof (cases t)
    case (Lit c)
    with Cons show ?thesis by (simp add: ReplaceAll_lit del: ReplaceAll.simps)
  next
    case (Var v')
    with Cons have v': "v' \<noteq> CHR ''%''" by auto
    show ?thesis
    proof (cases "v' = v")
      case True
      with Cons Var assms(3) show ?thesis by (simp add: ReplaceAll_hit)
    next
      case False
      then consider "\<rho> v' = wildcard v'" | "CHR ''%'' \<notin> set (\<rho> v')" using assms(2) by blast
      then show ?thesis
        using False v' Cons Var
        by cases (simp_all add: ReplaceAll_other ReplaceAll_skip)
    qed
  qed
qed

text \<open>The three replacements, in the order of the code.\<close>

definition substitute :: "string \<Rightarrow> string \<Rightarrow> string \<Rightarrow> string \<Rightarrow> string" where
  "substitute fmt i n d = ReplaceAll (ReplaceAll (ReplaceAll fmt ''%i'' i) ''%n'' n) ''%d'' d"

definition subst_env :: "string \<Rightarrow> string \<Rightarrow> string \<Rightarrow> char \<Rightarrow> string" where
  "subst_env i n d v =
     (if v = CHR ''i'' then i else if v = CHR ''n'' then n else if v = CHR ''d'' then d else wildcard v)"

lemma substitute_expand:
  assumes "list_all tok_ok ts" and "CHR ''%'' \<notin> set i" and "CHR ''%'' \<notin> set n"
  shows "substitute (expand wildcard ts) i n d = expand (subst_env i n d) ts"
proof -
  have w: "''%i'' = wildcard (CHR ''i'')" "''%n'' = wildcard (CHR ''n'')" "''%d'' = wildcard (CHR ''d'')"
    by (simp_all add: wildcard_def)
  have "ReplaceAll (expand wildcard ts) ''%i'' i = expand (wildcard(CHR ''i'' := i)) ts"
    unfolding w using assms(1) by (intro ReplaceAll_expand) auto
  moreover have "ReplaceAll (expand (wildcard(CHR ''i'' := i)) ts) ''%n'' n =
      expand (wildcard(CHR ''i'' := i, CHR ''n'' := n)) ts"
    unfolding w using assms by (intro ReplaceAll_expand) auto
  moreover have "ReplaceAll (expand (wildcard(CHR ''i'' := i, CHR ''n'' := n)) ts) ''%d'' d =
      expand (wildcard(CHR ''i'' := i, CHR ''n'' := n, CHR ''d'' := d)) ts"
    unfolding w using assms by (intro ReplaceAll_expand) auto
  moreover have "wildcard(CHR ''i'' := i, CHR ''n'' := n, CHR ''d'' := d) = subst_env i n d"
    by (auto simp: subst_env_def)
  ultimately show ?thesis by (simp add: substitute_def)
qed

lemma substitute_lit: "c \<noteq> CHR ''%'' \<Longrightarrow> substitute (c # cs) i n d = c # substitute cs i n d"
  by (simp add: substitute_def)

lemma ReplaceAll_head:
  "\<exists>r. ReplaceAll (c # cs) [CHR ''%'', v] ''aa'' = (CHR ''a'') # r \<or>
       ReplaceAll (c # cs) [CHR ''%'', v] ''aa'' = c # r"
  by auto

lemma ReplaceAll_keeps_percent:
  assumes "c \<noteq> v"
  shows "ReplaceAll (CHR ''%'' # c # cs) [CHR ''%'', v] ''aa'' =
         CHR ''%'' # ReplaceAll (c # cs) [CHR ''%'', v] ''aa''"
  using assms by simp

lemma percent_stays:
  assumes "c \<notin> set ''ind''"
  shows "CHR ''%'' \<in> set (substitute (CHR ''%'' # c # cs) ''aa'' ''aa'' ''aa'')"
proof -
  obtain c1 r1 where 1: "ReplaceAll (c # cs) ''%i'' ''aa'' = c1 # r1" and c1: "c1 = CHR ''a'' \<or> c1 = c"
    using ReplaceAll_head [of c cs "CHR ''i''"] by auto
  obtain c2 r2 where 2: "ReplaceAll (c1 # r1) ''%n'' ''aa'' = c2 # r2" and c2: "c2 = CHR ''a'' \<or> c2 = c1"
    using ReplaceAll_head [of c1 r1 "CHR ''n''"] by auto
  have "substitute (CHR ''%'' # c # cs) ''aa'' ''aa'' ''aa'' =
      ReplaceAll (ReplaceAll (CHR ''%'' # c1 # r1) ''%n'' ''aa'') ''%d'' ''aa''"
    using assms 1 by (simp add: substitute_def del: ReplaceAll.simps add: ReplaceAll_keeps_percent)
  also have "\<dots> = ReplaceAll (CHR ''%'' # c2 # r2) ''%d'' ''aa''"
    using assms c1 2 by (subst ReplaceAll_keeps_percent) auto
  also have "\<dots> = CHR ''%'' # ReplaceAll (c2 # r2) ''%d'' ''aa''"
    using assms c1 c2 by (subst ReplaceAll_keeps_percent) auto
  finally show ?thesis by simp
qed

lemma parse_format:
  "CHR ''%'' \<notin> set (substitute fmt ''aa'' ''aa'' ''aa'') \<Longrightarrow>
   \<exists>ts. fmt = expand wildcard ts \<and> list_all tok_ok ts"
proof (induction fmt rule: induct_list012)
  case 1
  show ?case by (rule exI [of _ "[]"]) simp
next
  case (2 c)
  then have "c \<noteq> CHR ''%''" by (auto simp: substitute_def)
  then show ?case by (intro exI [of _ "[Lit c]"]) simp
next
  case (3 c c' cs)
  show ?case
  proof (cases "c = CHR ''%''")
    case True
    then have v: "c' \<in> set ''ind''" using percent_stays [of c' cs] "3.prems" by metis
    then have "CHR ''%'' \<notin> set (substitute cs ''aa'' ''aa'' ''aa'')"
      using "3.prems" True by (auto simp: substitute_def)
    then obtain ts where "cs = expand wildcard ts" "list_all tok_ok ts" using "3.IH"(1) by blast
    with True v show ?thesis
      by (intro exI [of _ "Var c' # ts"]) (simp add: wildcard_def [of c'])
  next
    case False
    then have "CHR ''%'' \<notin> set (substitute (c' # cs) ''aa'' ''aa'' ''aa'')"
      using "3.prems" by (simp add: substitute_lit)
    then obtain ts where "c' # cs = expand wildcard ts" "list_all tok_ok ts" using "3.IH"(2) by blast
    with False show ?thesis by (intro exI [of _ "Lit c # ts"]) simp
  qed
qed

text \<open>Identifiers and names that fit into a namespace name.\<close>

definition ns_part :: "string \<Rightarrow> bool" where
  "ns_part s \<longleftrightarrow> s \<noteq> [] \<and> alnum (hd s) \<and> alnum (last s) \<and> list_all ns_char s"

lemma percent_not_ns_char: "\<not> ns_char (CHR ''%'')"
  by (simp add: ns_char_def alnum_def)

lemma ns_part_no_percent: "ns_part s \<Longrightarrow> CHR ''%'' \<notin> set s"
  using percent_not_ns_char by (auto simp: ns_part_def list_all_iff)

lemma ns_part_aa: "ns_part ''aa''"
  by (simp add: ns_part_def ns_char_def alnum_def)

lemma validate_Ok:
  assumes "validate sc = Ok ()"
  shows "strings_Contains (sc_NamespaceFormat sc) ''%i''"
    and "matches_ns_re (substitute (sc_NamespaceFormat sc) ''aa'' ''aa'' ''aa'')"
  using assms by (auto simp: validate_def substitute_def Let_def split: if_splits)

lemma list_all_expand: "list_all P (expand \<rho> ts) \<longleftrightarrow> (\<forall>t \<in> set ts. list_all P (expand1 \<rho> t))"
  by (induction ts) auto

lemma expand1_subst_not_Nil:
  "tok_ok t \<Longrightarrow> ns_part i \<Longrightarrow> ns_part n \<Longrightarrow> ns_part d \<Longrightarrow> expand1 (subst_env i n d) t \<noteq> []"
  by (cases t) (auto simp: subst_env_def ns_part_def)

text \<open>
  Whether a validated format gives a valid name does not depend on what the wildcards stand
  for, as long as each is a valid name part.
\<close>

lemma expand_ns_part:
  assumes ok: "list_all tok_ok ts" "ts \<noteq> []" and parts: "ns_part i" "ns_part n" "ns_part d"
    and aa: "ns_part (expand (subst_env ''aa'' ''aa'' ''aa'') ts)"
  shows "ns_part (expand (subst_env i n d) ts)"
proof -
  let ?\<rho> = "subst_env i n d" and ?\<alpha> = "subst_env ''aa'' ''aa'' ''aa''"
  have ne: "tok_ok t \<Longrightarrow> expand1 ?\<rho> t \<noteq> [] \<and> expand1 ?\<alpha> t \<noteq> []" for t
    using expand1_subst_not_Nil parts ns_part_aa by blast
  have P: "list_all ns_char (expand1 ?\<rho> t)" if "t \<in> set ts" for t
  proof -
    have "tok_ok t" using that ok(1) by (auto simp: list_all_iff)
    moreover have "list_all ns_char (expand1 ?\<alpha> t)"
      using that aa by (simp add: ns_part_def list_all_expand)
    ultimately show ?thesis using parts by (cases t) (auto simp: ns_part_def subst_env_def)
  qed
  have first: "alnum (hd (expand1 ?\<rho> t))" if "tok_ok t" "alnum (hd (expand1 ?\<alpha> t))" for t
    using that parts by (cases t) (auto simp: subst_env_def ns_part_def)
  have final: "alnum (last (expand1 ?\<rho> t))" if "tok_ok t" "alnum (last (expand1 ?\<alpha> t))" for t
    using that parts by (cases t) (auto simp: subst_env_def ns_part_def)
  obtain t us where ts: "ts = t # us" using ok(2) by (cases ts) auto
  have "alnum (hd (expand ?\<rho> ts))"
    using first [of t] aa ok(1) ne [of t] by (auto simp: ts ns_part_def)
  moreover obtain vs u where ts': "ts = vs @ [u]" using ok(2) by (cases ts rule: rev_cases) auto
  then have "alnum (last (expand ?\<rho> ts))"
    using final [of u] aa ok(1) ne [of u] by (auto simp: expand_def ns_part_def)
  moreover have "expand ?\<rho> ts \<noteq> []" using ne [of t] ok(1) by (auto simp: ts)
  ultimately show ?thesis using P by (simp add: ns_part_def list_all_expand)
qed

lemma Var_i_occurs:
  "list_all tok_ok ts \<Longrightarrow> strings_Contains (expand wildcard ts) ''%i'' \<Longrightarrow> Var (CHR ''i'') \<in> set ts"
proof (induction ts)
  case Nil
  then show ?case by (simp add: strings_Contains_def)
next
  case (Cons t ts)
  show ?case
  proof (cases "t = Var (CHR ''i'')")
    case False
    then consider c where "t = Lit c" "c \<noteq> CHR ''%''" | "t = Var (CHR ''n'')" | "t = Var (CHR ''d'')"
      using Cons.prems(1) by (cases t) auto
    then have "find_sub (expand wildcard ts) ''%i'' \<noteq> None"
      using Cons.prems(2)
      by cases (auto simp: strings_Contains_def wildcard_def [of "CHR ''n''"]
          wildcard_def [of "CHR ''d''"])
    with Cons show ?thesis by (simp add: strings_Contains_def)
  qed simp
qed

lemma expand_contains: "t \<in> set ts \<Longrightarrow> strings_Contains (expand \<rho> ts) (expand1 \<rho> t)"
proof -
  assume "t \<in> set ts"
  then obtain ys zs where "ts = ys @ t # zs" by (auto dest: split_list)
  then have "expand \<rho> ts = expand \<rho> ys @ expand1 \<rho> t @ expand \<rho> zs" by (simp add: expand_def)
  then show ?thesis unfolding strings_Contains_iff by blast
qed

section \<open>Properties of the namespace name\<close>

text \<open>
  With a format that \<open>validate\<close> accepts, and a project id, project name and domain id
  that are themselves valid name parts, the generated namespace name is a valid name again,
  is at most 63 characters long if the project id is, and contains the project id.
\<close>

theorem formatNamespaceName_valid:
  assumes "validate sc = Ok ()" and parts: "ns_part pid" "ns_part name" "ns_part domain"
    and "length pid \<le> 63"
  shows "ns_part (formatNamespaceName sc pid name domain)
    \<and> length (formatNamespaceName sc pid name domain) \<le> 63
    \<and> strings_Contains (formatNamespaceName sc pid name domain) pid"
proof -
  note v = validate_Ok [OF assms(1)]
  have aa: "ns_part (substitute (sc_NamespaceFormat sc) ''aa'' ''aa'' ''aa'')"
    using v(2) by (auto simp: matches_ns_re_def ns_part_def)
  then obtain ts where ts: "sc_NamespaceFormat sc = expand wildcard ts" "list_all tok_ok ts"
    using parse_format ns_part_no_percent by blast
  have i: "Var (CHR ''i'') \<in> set ts" using Var_i_occurs ts v(1) by simp
  let ?res = "substitute (sc_NamespaceFormat sc) pid name domain"
  have res: "?res = expand (subst_env pid name domain) ts"
    using parts ns_part_no_percent by (simp add: ts substitute_expand)
  have "ns_part ?res"
    unfolding res
  proof (rule expand_ns_part)
    show "ns_part (expand (subst_env ''aa'' ''aa'' ''aa'') ts)"
      using aa substitute_expand [OF ts(2), of "''aa''" "''aa''" "''aa''"] by (simp add: ts(1))
  qed (use i ts(2) parts in auto)
  moreover have "strings_Contains ?res pid"
    using expand_contains [OF i, of "subst_env pid name domain"] by (simp add: res subst_env_def)
  moreover have "strings_Contains pid pid"
    by (metis append_Nil append_Nil2 strings_Contains_iff)
  moreover have "formatNamespaceName sc pid name domain = (if length ?res > 63 then pid else ?res)"
    by (simp add: formatNamespaceName_def substitute_def Let_def)
  ultimately show ?thesis using assms(5) parts(1) by (simp add: not_less)
qed

section \<open>Role bindings\<close>

text \<open>
  What the Kubernetes API documents for role bindings: names are unique in a namespace,
  \<open>List\<close> returns what is there, \<open>Delete\<close> removes and \<open>Create\<close> adds one binding, and a call
  that fails changes nothing. \<open>view\<close> reads the bindings of a namespace out of the cluster.
\<close>

type_synonym 'w rb_view = "'w \<Rightarrow> string \<Rightarrow> string \<rightharpoonup> RoleBinding"

definition by_name :: "RoleBinding list \<Rightarrow> string \<rightharpoonup> RoleBinding" where
  "by_name items = map_of (map (\<lambda>b. (rb_Name b, b)) items)"

definition rolebindings_ok :: "'w rb_view \<Rightarrow> 'w k8s_api \<Rightarrow> bool" where
  "rolebindings_ok view api \<longleftrightarrow>
     (\<forall>ns w r w'. rb_List api ns w = (r, w') \<longrightarrow> view w' = view w \<and>
        (\<forall>items. r = Ok items \<longrightarrow> distinct (map rb_Name items) \<and> by_name items = view w ns)) \<and>
     (\<forall>ns nm w r w'. rb_Delete api ns nm w = (r, w') \<longrightarrow>
        view w' = (if r = Ok () then (view w)(ns := (view w ns)(nm := None)) else view w)) \<and>
     (\<forall>ns b w r w'. rb_Create api ns b w = (r, w') \<longrightarrow>
        view w' = (if r = Ok () then (view w)(ns := (view w ns)(rb_Name b \<mapsto> b)) else view w))"

text \<open>A server that is up: only conflicting calls are refused.\<close>

definition rolebindings_serve :: "'w rb_view \<Rightarrow> 'w k8s_api \<Rightarrow> bool" where
  "rolebindings_serve view api \<longleftrightarrow>
     (\<forall>ns w. is_ok (fst (rb_List api ns w))) \<and>
     (\<forall>ns nm w. view w ns nm \<noteq> None \<longrightarrow> is_ok (fst (rb_Delete api ns nm w))) \<and>
     (\<forall>ns b w. view w ns (rb_Name b) = None \<longrightarrow> is_ok (fst (rb_Create api ns b w)))"

text \<open>The bindings the syncer takes for a user's own: the part before the first underscore is the user id.\<close>

definition owned :: "userInfo \<Rightarrow> string \<Rightarrow> bool" where
  "owned u nm \<longleftrightarrow> CHR ''_'' \<notin> set (ui_UID u) \<and> (\<exists>r. nm = roleBindingName u r)"

definition wanted :: "userInfo \<Rightarrow> string \<Rightarrow> bool" where
  "wanted u nm \<longleftrightarrow> nm \<in> roleBindingName u ` set (user_roles u)"

text \<open>The bindings of a namespace after a synchronisation.\<close>

definition synced :: "userInfo \<Rightarrow> (string \<rightharpoonup> RoleBinding) \<Rightarrow> string \<rightharpoonup> RoleBinding" where
  "synced u m nm =
     (if wanted u nm then
        (case m nm of
           None \<Rightarrow> Some (newRoleBinding u (drop (Suc (length (ui_UID u))) nm))
         | Some b \<Rightarrow> Some b)
      else if owned u nm then None
      else m nm)"

lemma by_name_dom: "by_name items nm \<noteq> None \<longleftrightarrow> nm \<in> rb_Name ` set items"
  by (induction items) (auto simp: by_name_def)

lemma rb_ListD:
  assumes "rolebindings_ok view api" and "rb_List api ns w = (r, w')"
  shows "view w' = view w"
    and "r = Ok items \<Longrightarrow> distinct (map rb_Name items) \<and> by_name items = view w ns"
  using assms unfolding rolebindings_ok_def by blast+

lemma rb_DeleteD:
  assumes "rolebindings_ok view api" and "rb_Delete api ns nm w = (r, w')"
  shows "view w' = (if r = Ok () then (view w)(ns := (view w ns)(nm := None)) else view w)"
  using assms unfolding rolebindings_ok_def by blast

lemma rb_CreateD:
  assumes "rolebindings_ok view api" and "rb_Create api ns b w = (r, w')"
  shows "view w' = (if r = Ok () then (view w)(ns := (view w ns)(rb_Name b \<mapsto> b)) else view w)"
  using assms unfolding rolebindings_ok_def by blast

lemma takeWhile_before: "d \<notin> set xs \<Longrightarrow> takeWhile (\<lambda>c. c \<noteq> d) (xs @ d # ys) = xs"
  by (induction xs) auto

lemma parts_owned:
  "\<not> (length (SplitN2 nm ''_'') = 1 \<or> SplitN2 nm ''_'' ! 0 \<noteq> ui_UID u) \<longleftrightarrow> owned u nm"
proof (cases "CHR ''_'' \<in> set nm")
  case False
  then have "SplitN2 nm ''_'' = [nm]"
    using find_sub_char_None [of nm "CHR ''_''"] by (simp add: SplitN2_def)
  moreover have "\<not> owned u nm" using False by (auto simp: owned_def roleBindingName_def)
  ultimately show ?thesis by simp
next
  case True
  then obtain i where i: "find_sub nm ''_'' = Some i"
    using find_sub_char_None [of nm "CHR ''_''"] by auto
  note first = find_sub_char [OF i]
  have nm: "nm = take i nm @ CHR ''_'' # drop (Suc i) nm"
    using first id_take_nth_drop [of i nm] by simp
  have "SplitN2 nm ''_'' ! 0 = take i nm" "length (SplitN2 nm ''_'') = 2"
    using i by (simp_all add: SplitN2_def)
  moreover have "take i nm = ui_UID u \<longleftrightarrow> owned u nm"
  proof
    assume "take i nm = ui_UID u"
    then show "owned u nm" using nm first by (auto simp: owned_def roleBindingName_def)
  next
    assume "owned u nm"
    then obtain r where r: "nm = ui_UID u @ CHR ''_'' # r" "CHR ''_'' \<notin> set (ui_UID u)"
      by (auto simp: owned_def roleBindingName_def)
    then have "take i nm @ CHR ''_'' # drop (Suc i) nm = ui_UID u @ CHR ''_'' # r" using nm by metis
    then show "take i nm = ui_UID u"
      using first r(2) takeWhile_before by metis
  qed
  ultimately show ?thesis by simp
qed

lemma delete_stale_eq:
  "delete_stale api u ns b =
     (if owned u (rb_Name b) \<and> \<not> wanted u (rb_Name b)
      then wrapE (\<lambda>_. internal_error) (rb_Delete api ns (rb_Name b)) else ret ())"
  using parts_owned [of "rb_Name b" u]
  by (auto simp: delete_stale_def Let_def wanted_def list_ex_iff)

lemma serve_Delete:
  assumes "rolebindings_ok view api" "rolebindings_serve view api" "view w ns nm \<noteq> None"
  obtains w' where "rb_Delete api ns nm w = (Ok (), w')"
    and "view w' = (view w)(ns := (view w ns)(nm := None))"
proof -
  obtain r w' where rw: "rb_Delete api ns nm w = (r, w')" by fastforce
  moreover have "is_ok r" using assms(2,3) rw unfolding rolebindings_serve_def by (metis fst_conv)
  then have "r = Ok ()" by (simp add: is_ok_iff)
  ultimately show ?thesis using that rb_DeleteD [OF assms(1) rw] by simp
qed

lemma serve_Create:
  assumes "rolebindings_ok view api" "rolebindings_serve view api" "view w ns (rb_Name b) = None"
  obtains w' where "rb_Create api ns b w = (Ok (), w')"
    and "view w' = (view w)(ns := (view w ns)(rb_Name b \<mapsto> b))"
proof -
  obtain r w' where rw: "rb_Create api ns b w = (r, w')" by fastforce
  moreover have "is_ok r" using assms(2,3) rw unfolding rolebindings_serve_def by (metis fst_conv)
  then have "r = Ok ()" by (simp add: is_ok_iff)
  ultimately show ?thesis using that rb_CreateD [OF assms(1) rw] by simp
qed

lemma delete_loop:
  assumes api: "rolebindings_ok view api" "rolebindings_serve view api"
  shows "distinct (map rb_Name items) \<Longrightarrow> (\<forall>b \<in> set items. view w ns (rb_Name b) \<noteq> None) \<Longrightarrow>
    \<exists>w'. forE (delete_stale api u ns) items w = (Ok (), w') \<and>
      view w' = (view w)(ns := (\<lambda>nm. if nm \<in> rb_Name ` set items \<and> owned u nm \<and> \<not> wanted u nm
                                     then None else view w ns nm))"
proof (induction items arbitrary: w)
  case Nil
  then show ?case by simp
next
  case (Cons b items)
  show ?case
  proof (cases "owned u (rb_Name b) \<and> \<not> wanted u (rb_Name b)")
    case False
    with Cons.IH [of w] Cons.prems show ?thesis
      by (auto simp: delete_stale_eq fun_eq_iff)
  next
    case True
    from Cons.prems obtain w1 where w1: "rb_Delete api ns (rb_Name b) w = (Ok (), w1)"
        "view w1 = (view w)(ns := (view w ns)(rb_Name b := None))"
      using serve_Delete [OF api, of w ns "rb_Name b"] by auto
    have pre: "\<forall>b' \<in> set items. view w1 ns (rb_Name b') \<noteq> None"
      using Cons.prems by (auto simp: w1(2) image_iff)
    from Cons.prems(1) have "distinct (map rb_Name items)" by simp
    from Cons.IH [OF this pre] obtain w' where w': "forE (delete_stale api u ns) items w1 = (Ok (), w')"
        "view w' = (view w1)(ns := (\<lambda>nm. if nm \<in> rb_Name ` set items \<and> owned u nm \<and> \<not> wanted u nm
                                       then None else view w1 ns nm))"
      by blast
    have "delete_stale api u ns b w = (Ok (), w1)"
      using True w1(1) by (simp add: delete_stale_eq)
    with w' True show ?thesis
      by (intro exI [of _ w']) (auto simp: w1(2) fun_eq_iff)
  qed
qed

lemma roleBindingName_inject [simp]: "roleBindingName u r = roleBindingName u r' \<longleftrightarrow> r = r'"
  by (simp add: roleBindingName_def)

lemma create_loop:
  assumes api: "rolebindings_ok view api" "rolebindings_serve view api"
  shows "distinct roles \<Longrightarrow>
    (\<forall>r \<in> set roles. roleBindingName u r \<notin> rb_Name ` set items \<longrightarrow> view w ns (roleBindingName u r) = None) \<Longrightarrow>
    \<exists>w'. forE (create_missing api u ns items) roles w = (Ok (), w') \<and>
      view w' = (view w)(ns := (\<lambda>nm. if nm \<in> roleBindingName u ` set roles \<and> nm \<notin> rb_Name ` set items
                                     then Some (newRoleBinding u (drop (Suc (length (ui_UID u))) nm))
                                     else view w ns nm))"
proof (induction roles arbitrary: w)
  case Nil
  then show ?case by simp
next
  case (Cons r roles)
  show ?case
  proof (cases "roleBindingName u r \<in> rb_Name ` set items")
    case True
    then have "create_missing api u ns items r = ret ()"
      by (auto simp: create_missing_def list_ex_iff)
    with Cons.IH [of w] Cons.prems True show ?thesis by (auto simp: fun_eq_iff)
  next
    case False
    then have cr: "create_missing api u ns items r =
        wrapE (\<lambda>_. internal_error) (rb_Create api ns (newRoleBinding u r))"
      by (auto simp: create_missing_def list_ex_iff image_iff)
    have nm: "rb_Name (newRoleBinding u r) = roleBindingName u r" by (simp add: newRoleBinding_def)
    from Cons.prems False obtain w1 where w1: "rb_Create api ns (newRoleBinding u r) w = (Ok (), w1)"
        "view w1 = (view w)(ns := (view w ns)(roleBindingName u r \<mapsto> newRoleBinding u r))"
      using serve_Create [OF api, of w ns "newRoleBinding u r"] by (auto simp: nm)
    have pre: "\<forall>r' \<in> set roles. roleBindingName u r' \<notin> rb_Name ` set items \<longrightarrow> view w1 ns (roleBindingName u r') = None"
      using Cons.prems by (auto simp: w1(2))
    from Cons.prems(1) have "distinct roles" by simp
    from Cons.IH [OF this pre] obtain w' where w': "forE (create_missing api u ns items) roles w1 = (Ok (), w')"
        "view w' = (view w1)(ns := (\<lambda>nm. if nm \<in> roleBindingName u ` set roles \<and> nm \<notin> rb_Name ` set items
                                       then Some (newRoleBinding u (drop (Suc (length (ui_UID u))) nm))
                                       else view w1 ns nm))"
      by blast
    have "drop (Suc (length (ui_UID u))) (roleBindingName u r) = r" by (simp add: roleBindingName_def)
    with w' False show ?thesis
      by (intro exI [of _ w']) (auto simp: cr w1 fun_eq_iff)
  qed
qed

section \<open>Properties of the synchronisation\<close>


text \<open>
  C5. Whatever the Kubernetes API answers, errors included, role synchronisation of a user
  never touches a binding whose name does not start with the user's id and an underscore,
  nor anything in another namespace.
\<close>

theorem syncRoleAssignmentsData_frame:
  assumes api: "rolebindings_ok view api" and run: "syncRoleAssignmentsData api u ns w = (r, w')"
    and "ns' \<noteq> ns \<or> (\<nexists>role. nm = roleBindingName u role)"
  shows "view w' ns' nm = view w ns' nm"
proof -
  let ?I = "\<lambda>x. view x ns' nm = view w ns' nm"
  have "keeps ?I (rb_List api ns)"
    using rb_ListD(1) [OF api] by (intro keepsI) simp
  moreover have "keeps ?I (rb_Delete api ns n)" if "ns' \<noteq> ns \<or> nm \<noteq> n" for n
    using that rb_DeleteD [OF api] by (intro keepsI) auto
  then have "keeps ?I (delete_stale api u ns b)" for b
    using assms(3) by (auto simp: delete_stale_eq owned_def intro!: keeps_wrapE)
  moreover have "keeps ?I (rb_Create api ns b)" if "ns' \<noteq> ns \<or> nm \<noteq> rb_Name b" for b
    using that rb_CreateD [OF api] by (intro keepsI) auto
  then have "keeps ?I (create_missing api u ns items role)" for items role
    using assms(3) by (auto simp: create_missing_def newRoleBinding_def intro!: keeps_wrapE)
  ultimately have "keeps ?I (syncRoleAssignmentsData api u ns)"
    unfolding syncRoleAssignmentsData_def by (intro keeps_intros) auto
  from keepsD [OF this _ run] show ?thesis by simp
qed

text \<open>
  A project on the black list is left alone: no call to Kubernetes is made, and the
  synchronisation counts as successful.
\<close>

lemma syncData_blacklisted:
  assumes "sy_syncConfig s = Some sc" and "ui_Extra u ProjectID = Some (pid # rest)"
    and "pid \<in> set (sc_ProjectBlackList sc)"
  shows "syncData s u w = (Ok (), w)"
proof -
  have "in_blacklist u ps = Ok (pid \<in> set ps)" for ps
    using assms(2) by (induction ps) (auto simp: extra0_def opt_list_def)
  with assms show ?thesis by (simp add: syncData_def deref_def)
qed

section \<open>Witnesses\<close>

definition demo_sync :: syncConfig where
  "demo_sync = \<lparr> sc_DataTypesToSync = [Projects], sc_NamespaceFormat = ''prj-%n-%i'',
     sc_ProjectBlackList = [''p0''] \<rparr>"

theorem formatNamespaceName_valid_witness:
  "ns_part (formatNamespaceName demo_sync ''p1'' ''demo'' ''d1'') \<and>
   formatNamespaceName demo_sync ''p1'' ''demo'' ''d1'' = ''prj-demo-p1''"
proof -
  have "validate demo_sync = Ok ()" by code_simp
  moreover have "ns_part ''p1''" "ns_part ''demo''" "ns_part ''d1''" by code_simp+
  ultimately have "ns_part (formatNamespaceName demo_sync ''p1'' ''demo'' ''d1'')"
    using formatNamespaceName_valid [of demo_sync "''p1''" "''demo''" "''d1''"] by simp
  moreover have "formatNamespaceName demo_sync ''p1'' ''demo'' ''d1'' = ''prj-demo-p1''"
    by code_simp
  ultimately show ?thesis by simp
qed

text \<open>A cluster held in memory: the role bindings of each namespace, the first of a name counting.\<close>

fun first_of_name :: "RoleBinding list \<Rightarrow> RoleBinding list" where
  "first_of_name [] = []"
| "first_of_name (b # bs) = b # filter (\<lambda>c. rb_Name c \<noteq> rb_Name b) (first_of_name bs)"

definition mem_cluster :: "(string \<Rightarrow> RoleBinding list) k8s_api" where
  "mem_cluster =
     \<lparr> ns_Get = (\<lambda>_. ret ()), ns_Create = (\<lambda>_. ret ()),
       rb_List = (\<lambda>ns w. (Ok (first_of_name (w ns)), w)),
       rb_Delete = (\<lambda>ns nm w. (Ok (), w(ns := filter (\<lambda>b. rb_Name b \<noteq> nm) (w ns)))),
       rb_Create = (\<lambda>ns b w. (Ok (), w(ns := b # w ns))) \<rparr>"

definition mem_view :: "(string \<Rightarrow> RoleBinding list) rb_view" where
  "mem_view w ns = by_name (w ns)"

lemma by_name_filter: "by_name (filter (\<lambda>b. rb_Name b \<noteq> nm) bs) = (by_name bs)(nm := None)"
  by (induction bs) (auto simp: by_name_def fun_eq_iff)

lemma by_name_first_of_name: "by_name (first_of_name bs) = by_name bs"
proof (induction bs)
  case (Cons b bs)
  have "by_name (first_of_name (b # bs)) = (by_name (filter (\<lambda>c. rb_Name c \<noteq> rb_Name b) (first_of_name bs)))(rb_Name b \<mapsto> b)"
    by (simp add: by_name_def)
  also have "\<dots> = by_name (b # bs)"
    by (simp only: by_name_filter Cons.IH) (simp add: by_name_def)
  finally show ?case .
qed simp

lemma distinct_first_of_name: "distinct (map rb_Name (first_of_name bs))"
  by (induction bs) (auto intro: distinct_map_filter)

lemma by_name_Cons: "by_name (b # bs) = (by_name bs)(rb_Name b \<mapsto> b)"
  by (simp add: by_name_def)

lemma mem_view_upd: "mem_view (w(ns := bs)) = (mem_view w)(ns := by_name bs)"
  by (simp add: mem_view_def fun_eq_iff)

lemma mem_cluster_ok: "rolebindings_ok mem_view mem_cluster" "rolebindings_serve mem_view mem_cluster"
  unfolding rolebindings_ok_def rolebindings_serve_def
  by (auto simp: mem_cluster_def mem_view_upd by_name_filter by_name_Cons distinct_first_of_name)
    (simp_all add: mem_view_def by_name_first_of_name)

definition demo_info :: userInfo where
  "demo_info = \<lparr> ui_Username = ''alice'', ui_UID = ''u1'', ui_Groups = [''p0''],
     ui_Extra = [Roles \<mapsto> [''admin'', ''member''], ProjectID \<mapsto> [''p0''], ProjectName \<mapsto> [''demo''],
                 DomainID \<mapsto> [''d1'']] \<rparr>"

lemma demo_info_roles: "user_roles demo_info = [''admin'', ''member'']"
  by (simp add: user_roles_def demo_info_def opt_list_def extra_keys)


theorem syncRoleAssignmentsData_frame_witness:
  "mem_view (snd (syncRoleAssignmentsData mem_cluster demo_info ''prj'' (\<lambda>_. []))) ''other'' ''x''
     = mem_view (\<lambda>_. []) ''other'' ''x''"
  by (rule syncRoleAssignmentsData_frame [OF mem_cluster_ok(1), of demo_info "''prj''" "\<lambda>_. []"
        "fst (syncRoleAssignmentsData mem_cluster demo_info ''prj'' (\<lambda>_. []))"]) simp_all

end
