(* ===== verification/Keystone_Webhook.thy ===== *)
theory Keystone_Webhook
  imports Keystone_Sync
begin

text \<open>
  The webhook server around the authorizer and the syncer: \<open>authenticator.go\<close>,
  \<open>keystone.go\<close> and \<open>config.go\<close> of \<open>pkg/identity/keystone\<close>.

  The mutable fields of \<open>KeystoneAuth\<close> (the policy list of the authorizer and the
  configuration of the syncer) and the outside world form the state \<open>'w ks\<close>. Requests and
  answers are JSON values: a body that cannot be decoded is \<open>Inl\<close> of the decoding error.
  Keystone, the Kubernetes client, the config map lister, the work queue, and the decoding of
  policies (JSON into a Go struct) and of sync configurations (YAML) are parameters.
\<close>

section \<open>Configuration\<close>

record Config =
  cf_Address :: string
  cf_CertFile :: string
  cf_KeyFile :: string
  cf_KeystoneURL :: string
  cf_KeystoneCA :: string
  cf_PolicyFile :: string
  cf_PolicyConfigMapName :: string
  cf_SyncConfigFile :: string
  cf_SyncConfigMapName :: string
  cf_Kubeconfig :: string

definition NewConfig :: "(string \<Rightarrow> string) \<Rightarrow> Config" where
  "NewConfig Getenv =
     \<lparr> cf_Address = ''0.0.0.0:8443'',
       cf_CertFile = Getenv ''TLS_CERT_FILE'',
       cf_KeyFile = Getenv ''TLS_PRIVATE_KEY_FILE'',
       cf_KeystoneURL = Getenv ''OS_AUTH_URL'',
       cf_KeystoneCA = Getenv ''KEYSTONE_CA_FILE'',
       cf_PolicyFile = Getenv ''KEYSTONE_POLICY_FILE'',
       cf_PolicyConfigMapName = Getenv ''KEYSTONE_POLICY_CONFIGMAP_NAME'',
       cf_SyncConfigFile = Getenv ''KEYSTONE_SYNC_CONFIG_FILE'',
       cf_SyncConfigMapName = Getenv ''KEYSTONE_SYNC_CONFIGMAP_NAME'',
       cf_Kubeconfig = Getenv ''KEYSTONE_KUBECONFIG_FILE'' \<rparr>"

definition ValidateFlags :: "Config \<Rightarrow> unit result" where
  "ValidateFlags c =
     (if cf_KeystoneURL c = '''' \<or> (cf_CertFile c = '''' \<or> cf_KeyFile c = '''')
      then Err (errors_New ''failed to validate the input parameters'') else Ok ())"

section \<open>Authentication\<close>

record keystoneResponse =
  kr_User_ID :: string
  kr_User_Name :: string
  kr_Domain_ID :: string
  kr_Domain_Name :: string
  kr_Project_ID :: string
  kr_Project_Name :: string
  kr_Roles :: "string list"

text \<open>
  Keystone: \<open>GET auth/tokens\<close> with the token, the body of the response, and the decoding of
  the body.
\<close>

record ('w, 'resp) keystone_api =
  ka_Request :: "string \<Rightarrow> ('w, 'resp) io"
  ka_ReadAll :: "'resp \<Rightarrow> ('w, string) io"
  ka_Unmarshal :: "string \<Rightarrow> keystoneResponse result"

definition auth_failed :: gerror where
  "auth_failed = errors_New ''Failed to authenticate''"

definition AuthenticateToken :: "('w, 'resp) keystone_api \<Rightarrow> string \<Rightarrow> ('w, DefaultInfo) io" where
  "AuthenticateToken client token =
     bindE (wrapE (\<lambda>_. auth_failed) (ka_Request client token)) (\<lambda>response.
     bindE (wrapE (\<lambda>_. auth_failed) (ka_ReadAll client response)) (\<lambda>bodyBytes.
     bindE (wrapE (\<lambda>_. auth_failed) (lift_result (ka_Unmarshal client bodyBytes))) (\<lambda>obj.
       let roles = kr_Roles obj;
           extra = [Roles \<mapsto> roles, ProjectID \<mapsto> [kr_Project_ID obj], ProjectName \<mapsto> [kr_Project_Name obj],
                    DomainID \<mapsto> [kr_Domain_ID obj], DomainName \<mapsto> [kr_Domain_Name obj]]
       in ret \<lparr> u_Name = kr_User_Name obj, u_UID = kr_User_ID obj, u_Groups = [kr_Project_ID obj],
                u_Extra = extra \<rparr>)))"

section \<open>Requests and answers\<close>

datatype json =
    JNull
  | JBool bool
  | JNum string
  | JStr string
  | JArr "json list"
  | JObj "(string \<times> json) list"

type_synonym jobj = "(string \<times> json) list"

definition type_panic :: string where
  "type_panic = ''interface conversion''"

definition as_string :: "json \<Rightarrow> string result" where
  "as_string j = (case j of JStr s \<Rightarrow> Ok s | _ \<Rightarrow> Panic type_panic)"

definition as_array :: "json \<Rightarrow> json list result" where
  "as_array j = (case j of JArr xs \<Rightarrow> Ok xs | _ \<Rightarrow> Panic type_panic)"

definition as_object :: "json \<Rightarrow> jobj result" where
  "as_object j = (case j of JObj kvs \<Rightarrow> Ok kvs | _ \<Rightarrow> Panic type_panic)"

text \<open>\<open>m[key]\<close> is the nil interface for a missing key, the decoded value of JSON's null.\<close>

definition field :: "jobj \<Rightarrow> string \<Rightarrow> json" where
  "field m key = (case map_of m key of None \<Rightarrow> JNull | Some v \<Rightarrow> v)"

definition obj_delete :: "jobj \<Rightarrow> string \<Rightarrow> jobj" where
  "obj_delete m key = filter (\<lambda>kv. fst kv \<noteq> key) m"

record status =
  st_Authenticated :: bool
  st_User :: userInfo

text \<open>
  What a handler writes: an error text with its code, or the request with its \<open>status\<close>
  field set, for a token review or for an access review.
\<close>

datatype http_out =
    HttpError gerror int
  | TokenReview int jobj status
  | AccessReview int jobj bool

record 'w ks =
  ks_pl :: policyList
  ks_syncConfig :: "syncConfig option"
  ks_out :: 'w

definition ext :: "('w, 'a) io \<Rightarrow> ('w ks, 'a) io" where
  "ext m s = (case m (ks_out s) of (r, w) \<Rightarrow> (r, s\<lparr> ks_out := w \<rparr>))"

definition empty_userInfo :: userInfo where
  "empty_userInfo = \<lparr> ui_Username = '''', ui_UID = '''', ui_Groups = [], ui_Extra = Map.empty \<rparr>"

definition authenticateToken ::
    "('w, 'resp) keystone_api \<Rightarrow> string \<Rightarrow> jobj \<Rightarrow> ('w, http_out \<times> userInfo option) io" where
  "authenticateToken authn token data =
     bindE (attempt (AuthenticateToken authn token)) (\<lambda>r.
       case r of
         Inl _ \<Rightarrow>
           ret (TokenReview 401 (obj_delete data ''status'')
                  \<lparr> st_Authenticated = False, st_User = empty_userInfo \<rparr>, None)
       | Inr user \<Rightarrow>
           let info = \<lparr> ui_Username = u_Name user, ui_UID = u_UID user, ui_Groups = u_Groups user,
                        ui_Extra = u_Extra user \<rparr>
           in ret (TokenReview 200 (obj_delete data ''status'')
                     \<lparr> st_Authenticated = True, st_User = info \<rparr>, Some info))"

definition getField :: "jobj \<Rightarrow> string \<Rightarrow> string result" where
  "getField data name = (case map_of data name of Some v \<Rightarrow> as_string v | None \<Rightarrow> Ok '''')"

text \<open>The loop that copies the \<open>extra\<close> field of an access review: values are appended per key.\<close>

definition add_extra :: "string \<Rightarrow> (string \<rightharpoonup> string list) \<Rightarrow> string \<Rightarrow> string \<rightharpoonup> string list" where
  "add_extra key extra v =
     (case extra key of Some data \<Rightarrow> extra(key \<mapsto> data @ [v]) | None \<Rightarrow> extra(key \<mapsto> [v]))"

fun add_extras :: "string \<Rightarrow> json list \<Rightarrow> (string \<rightharpoonup> string list) \<Rightarrow> (string \<rightharpoonup> string list) result" where
  "add_extras key [] extra = Ok extra"
| "add_extras key (v # vs) extra =
     bindR (as_string v) (\<lambda>s. add_extras key vs (add_extra key extra s))"

fun copy_extras :: "jobj \<Rightarrow> (string \<rightharpoonup> string list) \<Rightarrow> (string \<rightharpoonup> string list) result" where
  "copy_extras [] extra = Ok extra"
| "copy_extras ((key, v) # kvs) extra =
     bindR (as_array v) (\<lambda>vs. bindR (add_extras key vs extra) (copy_extras kvs))"

text \<open>The user an access review names; its UID is never filled in.\<close>

definition review_user :: "jobj \<Rightarrow> DefaultInfo result" where
  "review_user spec =
     bindR (as_string (field spec ''user'')) (\<lambda>username.
     bindR (as_array (field spec ''group'')) (\<lambda>groups.
     bindR (mapR as_string groups) (\<lambda>gs.
     bindR (case field spec ''extra'' of
              JObj extras \<Rightarrow> copy_extras extras Map.empty
            | _ \<Rightarrow> Ok Map.empty) (\<lambda>extra.
       Ok \<lparr> u_Name = username, u_UID = '''', u_Groups = gs, u_Extra = extra \<rparr>))))"

definition empty_attributes :: "DefaultInfo \<Rightarrow> Attributes" where
  "empty_attributes user =
     \<lparr> a_User = user, a_Verb = '''', a_Namespace = '''', a_APIGroup = '''', a_APIVersion = '''',
       a_Resource = '''', a_Name = '''', a_Path = '''', a_ResourceRequest = False \<rparr>"

text \<open>The attributes of the request, or None when it has neither kind of attributes.\<close>

definition review_attributes :: "jobj \<Rightarrow> DefaultInfo \<Rightarrow> Attributes option result" where
  "review_attributes spec user =
     (case map_of spec ''resourceAttributes'' of
        Some resourceAttributes \<Rightarrow>
          bindR (as_object resourceAttributes) (\<lambda>v.
          bindR (getField v ''verb'') (\<lambda>verb.
          bindR (getField v ''namespace'') (\<lambda>namespace.
          bindR (getField v ''group'') (\<lambda>group.
          bindR (getField v ''version'') (\<lambda>version.
          bindR (getField v ''resource'') (\<lambda>resource.
          bindR (getField v ''name'') (\<lambda>name.
            Ok (Some ((empty_attributes user)\<lparr> a_ResourceRequest := True, a_Verb := verb,
                 a_Namespace := namespace, a_APIGroup := group, a_APIVersion := version,
                 a_Resource := resource, a_Name := name \<rparr>)))))))))
      | None \<Rightarrow>
          (case map_of spec ''nonResourceAttributes'' of
             Some nonResourceAttributes \<Rightarrow>
               bindR (as_object nonResourceAttributes) (\<lambda>v.
               bindR (getField v ''verb'') (\<lambda>verb.
               bindR (getField v ''path'') (\<lambda>path.
                 Ok (Some ((empty_attributes user)\<lparr> a_ResourceRequest := False, a_Verb := verb,
                      a_Path := path \<rparr>)))))
           | None \<Rightarrow> Ok None))"

definition authorizeToken :: "policyList \<Rightarrow> jobj \<Rightarrow> http_out result" where
  "authorizeToken pl data =
     bindR (as_object (field data ''spec'')) (\<lambda>spec.
     bindR (review_user spec) (\<lambda>user.
     bindR (review_attributes spec user) (\<lambda>attrs.
       case attrs of
         None \<Rightarrow> Ok (HttpError (errors_New ''unable to find attributes'') 500)
       | Some a \<Rightarrow>
           bindR (if length pl > 0 then Authorize pl a else Ok (DecisionDeny, '''')) (\<lambda>(allowed, reason).
             Ok (AccessReview 200 (obj_delete (obj_delete data ''spec'') ''status'')
                   (allowed = DecisionAllow))))))"

record ('w, 'resp) ks_env =
  ke_authn :: "('w, 'resp) keystone_api"
  ke_k8sClient :: "'w k8s_api option"

text \<open>The syncer as the handler finds it: the current configuration and the client.\<close>

definition syncer :: "('w, 'resp) ks_env \<Rightarrow> 'w ks \<Rightarrow> 'w Syncer" where
  "syncer env s = \<lparr> sy_k8sClient = ke_k8sClient env, sy_syncConfig = ks_syncConfig s \<rparr>"

definition sync_after_login :: "('w, 'resp) ks_env \<Rightarrow> userInfo option \<Rightarrow> ('w ks, unit) io" where
  "sync_after_login env info s =
     (case info of
        None \<Rightarrow> (Ok (), s)
      | Some u \<Rightarrow>
          if ks_syncConfig s \<noteq> None \<and> length (opt_list (ui_Extra u ProjectID)) \<noteq> 0
          then bindE (attempt (ext (syncData (syncer env s) u))) (\<lambda>_. ret ()) s
          else (Ok (), s))"

definition Handler :: "('w, 'resp) ks_env \<Rightarrow> gerror + jobj \<Rightarrow> ('w ks, http_out) io" where
  "Handler env body =
     (case body of
        Inl err \<Rightarrow> ret (HttpError err 500)
      | Inr data \<Rightarrow>
          bindE (lift_result (as_string (field data ''apiVersion''))) (\<lambda>apiVersion.
          bindE (lift_result (as_string (field data ''kind''))) (\<lambda>kind.
            if apiVersion \<noteq> ''authentication.k8s.io/v1beta1'' \<and> apiVersion \<noteq> ''authorization.k8s.io/v1beta1''
            then ret (HttpError (Errorf ''unknown apiVersion %q'' [FStr apiVersion]) 400)
            else if kind = ''TokenReview'' then
              bindE (lift_result (as_object (field data ''spec''))) (\<lambda>spec.
              bindE (lift_result (as_string (field spec ''token''))) (\<lambda>token.
              bindE (ext (authenticateToken (ke_authn env) token data)) (\<lambda>(out, info).
              bindE (sync_after_login env info) (\<lambda>_. ret out))))
            else if kind = ''SubjectAccessReview'' then
              (\<lambda>s. (authorizeToken (ks_pl s) data, s))
            else ret (HttpError (Errorf ''unknown kind/apiVersion %q %q'' [FStr kind, FStr apiVersion]) 400))))"

section \<open>The config map worker\<close>

definition maxRetries :: nat where "maxRetries = 5"
definition cmNamespace :: string where "cmNamespace = ''kube-system''"

text \<open>
  A config map is its data field. \<open>cw_policies\<close> is \<open>json.Unmarshal\<close> into a policy list and
  \<open>cw_syncConfig\<close> is \<open>yaml.Unmarshal\<close> over a configuration: both also return what they had
  decoded when they report an error.
\<close>

type_synonym config_map = "string \<rightharpoonup> string"

record 'w cm_env =
  cw_config :: Config
  cw_Get :: "string \<Rightarrow> string \<Rightarrow> ('w, config_map) io"
  cw_SplitKey :: "string \<Rightarrow> (string \<times> string) result"
  cw_policies :: "string \<Rightarrow> policyList \<times> gerror option"
  cw_syncConfig :: "string \<Rightarrow> syncConfig \<Rightarrow> syncConfig \<times> gerror option"

definition map_get :: "config_map \<Rightarrow> string \<Rightarrow> string" where
  "map_get m k = (case m k of None \<Rightarrow> '''' | Some v \<Rightarrow> v)"

definition updatePolicies :: "'w cm_env \<Rightarrow> config_map \<Rightarrow> 'w ks \<Rightarrow> 'w ks" where
  "updatePolicies env cm s =
     (let (policy, err) = cw_policies env (map_get cm ''policies'')
      in s\<lparr> ks_pl := policy \<rparr>)"

definition updateSyncConfig :: "'w cm_env \<Rightarrow> config_map \<Rightarrow> 'w ks \<Rightarrow> 'w ks" where
  "updateSyncConfig env cm s =
     (let (sc, err) = cw_syncConfig env (map_get cm ''syncConfig'') newSyncConfig
      in s\<lparr> ks_syncConfig := Some sc \<rparr>)"

definition processItem :: "'w cm_env \<Rightarrow> string \<Rightarrow> ('w ks, unit) io" where
  "processItem env key =
     bindE (lift_result (cw_SplitKey env key)) (\<lambda>(namespace, name).
     bindE (attempt (ext (cw_Get env namespace name))) (\<lambda>r s.
       case r of
         Inl err \<Rightarrow>
           if err = K8sNotFound then
             (let s = (if name = cf_PolicyConfigMapName (cw_config env) then s\<lparr> ks_pl := [] \<rparr> else s);
                  s = (if name = cf_SyncConfigMapName (cw_config env)
                       then s\<lparr> ks_syncConfig := Some newSyncConfig \<rparr> else s)
              in (Ok (), s))
           else (Err (Errorf ''error fetching object with key %s: %v'' [FStr key, FErr err]), s)
       | Inr cm \<Rightarrow>
           (let s = (if name = cf_PolicyConfigMapName (cw_config env) then updatePolicies env cm s else s);
                s = (if name = cf_SyncConfigMapName (cw_config env) then updateSyncConfig env cm s else s)
            in (Ok (), s))))"

text \<open>The rate limiting work queue of client-go.\<close>

record 'w queue_api =
  q_Get :: "('w, string \<times> bool) io"
  q_Add :: "string \<Rightarrow> ('w, unit) io"
  q_Done :: "string \<Rightarrow> ('w, unit) io"
  q_Forget :: "string \<Rightarrow> ('w, unit) io"
  q_NumRequeues :: "string \<Rightarrow> ('w, nat) io"
  q_AddRateLimited :: "string \<Rightarrow> ('w, unit) io"

definition processNextItem :: "'w cm_env \<Rightarrow> 'w queue_api \<Rightarrow> ('w ks, bool) io" where
  "processNextItem env q =
     bindE (ext (q_Get q)) (\<lambda>(key, quit).
       if quit then ret False
       else
         bindE (attempt (processItem env key)) (\<lambda>err.
         bindE (case err of
                  Inr _ \<Rightarrow> ext (q_Forget q key)
                | Inl _ \<Rightarrow>
                    bindE (ext (q_NumRequeues q key)) (\<lambda>n.
                      if n < maxRetries then ext (q_AddRateLimited q key)
                      else ext (q_Forget q key))) (\<lambda>_.
         bindE (ext (q_Done q key)) (\<lambda>_. ret True))))"

partial_function (option) runWorker :: "'w cm_env \<Rightarrow> 'w queue_api \<Rightarrow> 'w ks \<Rightarrow> (unit result \<times> 'w ks) option" where
  "runWorker env q s =
     (case processNextItem env q s of
        (Ok again, s') \<Rightarrow> if again then runWorker env q s' else Some (Ok (), s')
      | (Err e, s') \<Rightarrow> Some (Err e, s')
      | (Panic p, s') \<Rightarrow> Some (Panic p, s'))"

text \<open>\<open>objKey\<close> is the key function of the informer cache.\<close>

definition enqueueConfigMap ::
    "'w cm_env \<Rightarrow> 'w queue_api \<Rightarrow> ('obj \<Rightarrow> string result) \<Rightarrow> 'obj \<Rightarrow> ('w ks, unit) io" where
  "enqueueConfigMap env q objKey obj =
     bindE (attempt (lift_result (bindR (objKey obj) (\<lambda>key. bindR (cw_SplitKey env key) (\<lambda>nn. Ok (key, nn)))))) (\<lambda>r.
       case r of
         Inl _ \<Rightarrow> ret ()
       | Inr (key, namespace, name) \<Rightarrow>
           if namespace = cmNamespace \<and>
              (name = cf_PolicyConfigMapName (cw_config env) \<or> name = cf_SyncConfigMapName (cw_config env))
           then ext (q_Add q key) else ret ())"

section \<open>Start-up\<close>

text \<open>
  \<open>createIdentityV3Provider\<close> and \<open>createKeystoneClient\<close>; the client library, the certificate
  pool and the transport are parameters.
\<close>

record ('w, 'client, 'pool, 'prov) client_lib =
  cl_NewClient :: "string \<Rightarrow> ('w, 'prov) io"
  cl_SetTransport :: "'prov \<Rightarrow> 'pool \<Rightarrow> 'prov"
  cl_ChooseVersion :: "'prov \<Rightarrow> ('w, string) io"
  cl_NewPool :: "string \<Rightarrow> ('w, 'pool) io"
  cl_NewIdentityV3 :: "'prov \<Rightarrow> ('w, 'client) io"

definition createIdentityV3Provider ::
    "('w, 'client, 'pool, 'prov) client_lib \<Rightarrow> string \<Rightarrow> 'pool option \<Rightarrow> ('w, 'prov) io" where
  "createIdentityV3Provider lib endpoint transport =
     bindE (cl_NewClient lib endpoint) (\<lambda>client0.
       let client = (case transport of None \<Rightarrow> client0 | Some t \<Rightarrow> cl_SetTransport lib client0 t) in
       bindE (wrapE (\<lambda>e. Errorf ''Unable to find identity API v3 version : %v'' [FErr e])
                (cl_ChooseVersion lib client)) (\<lambda>chosen.
         if chosen = ''v3'' then ret client
         else fail (Errorf ''Unsupported identity API version: %s'' [FStr chosen])))"

definition createKeystoneClient ::
    "('w, 'client, 'pool, 'prov) client_lib \<Rightarrow> string \<Rightarrow> string \<Rightarrow> ('w, 'client) io" where
  "createKeystoneClient lib authURL caFile =
     (if authURL = '''' then fail (errors_New ''auth URL is empty'')
      else
        bindE (if caFile \<noteq> '''' then bindE (cl_NewPool lib caFile) (\<lambda>roots. ret (Some roots)) else ret None) (\<lambda>transport.
        bindE (createIdentityV3Provider lib authURL transport) (\<lambda>provider.
          wrapE (\<lambda>_. errors_New ''failed to authenticate'') (cl_NewIdentityV3 lib provider))))"

text \<open>\<open>createKubernetesClient\<close>, with the calls of client-go as parameters.\<close>

record ('w, 'cfg) k8s_lib =
  kl_BuildConfig :: "string \<Rightarrow> ('w, 'cfg) io"
  kl_NewForConfig :: "'cfg \<Rightarrow> ('w, 'w k8s_api) io"
  kl_ServerVersion :: "'w k8s_api \<Rightarrow> ('w, string) io"

definition createKubernetesClient :: "('w, 'cfg) k8s_lib \<Rightarrow> string \<Rightarrow> ('w, 'w k8s_api) io" where
  "createKubernetesClient lib kubeConfig =
     bindE (kl_BuildConfig lib kubeConfig) (\<lambda>cfg.
     bindE (kl_NewForConfig lib cfg) (\<lambda>client.
     bindE (kl_ServerVersion lib client) (\<lambda>v. ret client)))"

text \<open>
  \<open>newFromFile\<close> and \<open>NewKeystoneAuth\<close>: the clients, the files and the decoders are
  parameters. The result is the initial state of the webhook and the client it syncs with;
  the queue and the informer are set up only when there is a client.
\<close>

definition newFromFile :: "(string \<Rightarrow> string result) \<Rightarrow> (string \<Rightarrow> policyList \<times> gerror option) \<Rightarrow> string \<Rightarrow> policyList result" where
  "newFromFile ReadFile decode path =
     bindR (ReadFile path) (\<lambda>file.
       case decode file of (data, Some err) \<Rightarrow> Err err | (data, None) \<Rightarrow> Ok data)"

record 'w start_env =
  se_ConfigMap :: "string \<Rightarrow> string \<Rightarrow> ('w, config_map) io"
  se_ReadFile :: "string \<Rightarrow> string result"
  se_policies :: "string \<Rightarrow> policyList \<times> gerror option"
  se_syncConfig :: "string \<Rightarrow> syncConfig \<Rightarrow> syncConfig \<times> gerror option"

definition start_policy :: "'w start_env \<Rightarrow> Config \<Rightarrow> ('w, policyList) io" where
  "start_policy env c =
     bindE (if cf_PolicyConfigMapName c \<noteq> '''' then
              bindE (wrapE (\<lambda>e. Errorf ''failed to get configmap %s: %v'' [FStr (cf_PolicyConfigMapName c), FErr e])
                       (se_ConfigMap env cmNamespace (cf_PolicyConfigMapName c))) (\<lambda>cm.
                case se_policies env (map_get cm ''policies'') of
                  (policy, Some e) \<Rightarrow>
                    fail (Errorf ''failed to parse policies defined in the configmap %s: %v''
                            [FStr (cf_PolicyConfigMapName c), FErr e])
                | (policy, None) \<Rightarrow> ret policy)
            else ret []) (\<lambda>policy.
       if cf_PolicyFile c \<noteq> '''' then
         wrapE (\<lambda>e. Errorf ''failed to extract policy from policy file %s: %v'' [FStr (cf_PolicyFile c), FErr e])
           (lift_result (newFromFile (se_ReadFile env) (se_policies env) (cf_PolicyFile c)))
       else ret policy)"

definition start_sync :: "'w start_env \<Rightarrow> Config \<Rightarrow> ('w, syncConfig option) io" where
  "start_sync env c =
     bindE (if cf_SyncConfigMapName c \<noteq> '''' then
              bindE (wrapE (\<lambda>e. Errorf ''failed to get configmap %s: %v'' [FStr (cf_SyncConfigMapName c), FErr e])
                       (se_ConfigMap env cmNamespace (cf_SyncConfigMapName c))) (\<lambda>cm.
                case se_syncConfig env (map_get cm ''syncConfig'') newSyncConfig of
                  (sc, Some e) \<Rightarrow>
                    fail (Errorf ''failed to parse sync config defined in the configmap %s: %v''
                            [FStr (cf_SyncConfigMapName c), FErr e])
                | (sc, None) \<Rightarrow> ret (Some sc))
            else ret None) (\<lambda>sc.
       bindE (if cf_SyncConfigFile c \<noteq> '''' then
                bindE (wrapE (\<lambda>e. Errorf ''failed to extract data from sync config file %s: %v''
                                [FStr (cf_SyncConfigFile c), FErr e])
                         (lift_result (newSyncConfigFromFile (se_ReadFile env) (se_syncConfig env) (cf_SyncConfigFile c))))
                  (\<lambda>sc. ret (Some sc))
              else ret sc) (\<lambda>sc.
         let ignored = (case sc of None \<Rightarrow> Ok () | Some c \<Rightarrow> validate c) in ret sc))"

definition NewKeystoneAuth ::
    "('w, 'client, 'pool, 'prov) client_lib \<Rightarrow> ('w, 'cfg) k8s_lib \<Rightarrow> 'w start_env \<Rightarrow> Config \<Rightarrow>
     ('w, 'client \<times> 'w k8s_api option \<times> policyList \<times> syncConfig option) io" where
  "NewKeystoneAuth lib klib env c =
     bindE (wrapE (\<lambda>e. Errorf ''failed to initialize keystone client: %v'' [FErr e])
              (createKeystoneClient lib (cf_KeystoneURL c) (cf_KeystoneCA c))) (\<lambda>keystoneClient.
     bindE (if cf_PolicyConfigMapName c \<noteq> '''' \<or> cf_SyncConfigMapName c \<noteq> '''' \<or> cf_SyncConfigFile c \<noteq> '''' then
              bindE (wrapE (\<lambda>e. Errorf ''failed to get kubernetes client: %v'' [FErr e])
                       (createKubernetesClient klib (cf_Kubeconfig c))) (\<lambda>k. ret (Some k))
            else ret None) (\<lambda>k8sClient.
     bindE (start_policy env c) (\<lambda>policy.
     bindE (start_sync env c) (\<lambda>sc.
       ret (keystoneClient, k8sClient, policy, sc)))))"

section \<open>Requesting a token\<close>

text \<open>
  \<open>GetToken\<close> of \<open>token_getter.go\<close>. The files, the TLS library and Keystone are parameters:
  \<open>tl_KeyPair\<close> is \<open>tls.X509KeyPair\<close>, \<open>tl_SetTransport\<close> sets the transport of the client from an
  optional key pair and an optional pool of certificates.
\<close>

record 'auth Options =
  op_AuthOptions :: 'auth
  op_IdentityEndpoint :: string
  op_ClientCertPath :: string
  op_ClientKeyPath :: string
  op_ClientCAPath :: string

record ('w, 'auth, 'prov, 'pair, 'pool, 'v3, 'res, 'tok) token_lib =
  tl_NewClient :: "string \<Rightarrow> ('w, 'prov) io"
  tl_ReadFile :: "string \<Rightarrow> ('w, string) io"
  tl_KeyPair :: "string \<Rightarrow> string \<Rightarrow> 'pair result"
  tl_NewPool :: "string \<Rightarrow> ('w, 'pool) io"
  tl_SetTransport :: "'prov \<Rightarrow> 'pair option \<Rightarrow> 'pool option \<Rightarrow> 'prov"
  tl_NewIdentityV3 :: "'prov \<Rightarrow> ('w, 'v3) io"
  tl_Create :: "'v3 \<Rightarrow> 'auth \<Rightarrow> ('w, 'res) io"
  tl_ExtractToken :: "'res \<Rightarrow> 'tok result"

definition client_pair ::
    "('w, 'auth, 'prov, 'pair, 'pool, 'v3, 'res, 'tok) token_lib \<Rightarrow> 'auth Options \<Rightarrow> ('w, 'pair option) io" where
  "client_pair lib options =
     (if op_ClientCertPath options \<noteq> '''' \<and> op_ClientKeyPath options \<noteq> '''' then
        bindE (wrapE (\<lambda>e. Errorf ''failed: Cannot read cert file: %v'' [FErr e])
                 (tl_ReadFile lib (op_ClientCertPath options))) (\<lambda>clientCert.
        bindE (wrapE (\<lambda>e. Errorf ''failed: Cannot read key file: %v'' [FErr e])
                 (tl_ReadFile lib (op_ClientKeyPath options))) (\<lambda>clientKey.
        bindE (wrapE (\<lambda>e. Errorf ''failed: Cannot create keypair:: %v'' [FErr e])
                 (lift_result (tl_KeyPair lib clientCert clientKey))) (\<lambda>cert.
          ret (Some cert))))
      else ret None)"

definition GetToken ::
    "('w, 'auth, 'prov, 'pair, 'pool, 'v3, 'res, 'tok) token_lib \<Rightarrow> 'auth Options \<Rightarrow> ('w, 'tok) io" where
  "GetToken lib options =
     bindE (wrapE (\<lambda>e. Errorf ''failed: Initializing openstack authentication client: %v'' [FErr e])
              (tl_NewClient lib (op_IdentityEndpoint options))) (\<lambda>client.
     bindE (client_pair lib options) (\<lambda>cert.
     bindE (if op_ClientCAPath options \<noteq> '''' then
              bindE (wrapE (\<lambda>e. Errorf ''failed: Cannot read CA file: %v'' [FErr e])
                       (tl_NewPool lib (op_ClientCAPath options))) (\<lambda>roots. ret (Some roots))
            else ret None) (\<lambda>roots.
       let client' = (if cert \<noteq> None \<or> roots \<noteq> None then tl_SetTransport lib client cert roots else client) in
       bindE (wrapE (\<lambda>e. Errorf ''failed: Initializing openstack authentication client: %v'' [FErr e])
                (tl_NewIdentityV3 lib client')) (\<lambda>v3Client.
       bindE (tl_Create lib v3Client (op_AuthOptions options)) (\<lambda>result.
         wrapE (\<lambda>_. errors_New ''failed: Cannot extract the token from the response'')
           (lift_result (tl_ExtractToken lib result)))))))"

section \<open>The webhook as a state machine\<close>

text \<open>
  Requests are served and config maps are processed in any order, and the outside world
  changes in between. The mutexes of the authorizer and the syncer make each of the listed
  operations atomic on the shared fields.
\<close>

inductive webhook_step ::
    "('w, 'resp) ks_env \<Rightarrow> 'w cm_env \<Rightarrow> 'w queue_api \<Rightarrow> 'w ks \<Rightarrow> 'w ks \<Rightarrow> bool"
  for env cenv q where
  request: "Handler env body s = (r, s') \<Longrightarrow> webhook_step env cenv q s s'"
| worker: "processNextItem cenv q s = (r, s') \<Longrightarrow> webhook_step env cenv q s s'"
| enqueue: "enqueueConfigMap cenv q objKey (obj :: string) s = (r, s') \<Longrightarrow> webhook_step env cenv q s s'"
| outside: "webhook_step env cenv q s (s\<lparr> ks_out := w \<rparr>)"

definition webhook_reachable ::
    "('w, 'resp) ks_env \<Rightarrow> 'w cm_env \<Rightarrow> 'w queue_api \<Rightarrow> 'w ks \<Rightarrow> 'w ks \<Rightarrow> bool" where
  "webhook_reachable env cenv q = (webhook_step env cenv q)\<^sup>*\<^sup>*"

lemma keeps_ext: "(\<And>s w. I s \<Longrightarrow> I (s\<lparr> ks_out := w \<rparr>)) \<Longrightarrow> keeps I (ext m)"
  by (auto simp: keeps_def ext_def split: prod.splits)

lemma keeps_sync_after_login:
  assumes "\<And>s w. I s \<Longrightarrow> I (s\<lparr> ks_out := w \<rparr>)"
  shows "keeps I (sync_after_login env info)"
proof (rule keepsI)
  fix s r s' assume I: "I s" and run: "sync_after_login env info s = (r, s')"
  have "keeps I (bindE (attempt (ext (syncData (syncer env s) u))) (\<lambda>_. ret ()))" for u
    by (intro keeps_intros keeps_ext assms)
  then show "I s'"
    using I run by (auto simp: sync_after_login_def keeps_def split: option.splits if_splits) (metis snd_conv)+
qed

lemma keeps_Handler:
  assumes "\<And>s w. I s \<Longrightarrow> I (s\<lparr> ks_out := w \<rparr>)"
  shows "keeps I (Handler env body)"
proof -
  have "keeps I (\<lambda>s. (authorizeToken (ks_pl s) data, s))" for data by (simp add: keeps_def)
  then show ?thesis
    unfolding Handler_def by (intro keeps_intros keeps_ext keeps_sync_after_login assms) auto
qed

text \<open>What processing a config map can do to the shared fields.\<close>

lemma keeps_processItem:
  assumes out: "\<And>s w. I s \<Longrightarrow> I (s\<lparr> ks_out := w \<rparr>)"
    and pl: "\<And>s pl. I s \<Longrightarrow> pl = [] \<or> (\<exists>t. pl = fst (cw_policies cenv t)) \<Longrightarrow> I (s\<lparr> ks_pl := pl \<rparr>)"
    and sc: "\<And>s sc. I s \<Longrightarrow> I (s\<lparr> ks_syncConfig := Some sc \<rparr>)"
  shows "keeps I (processItem cenv key)"
proof -
  have upd: "I (updatePolicies cenv cm s)" "I (updateSyncConfig cenv cm s)" if "I s" for cm s
    using that pl [OF that] sc [OF that]
    by (auto simp: updatePolicies_def updateSyncConfig_def split: prod.splits) (metis fst_conv)
  show ?thesis
    unfolding processItem_def
    by (intro keeps_intros keeps_ext out) (auto simp: keeps_def Let_def upd pl sc split: sum.splits)
qed

lemma keeps_processNextItem:
  assumes "\<And>s w. I s \<Longrightarrow> I (s\<lparr> ks_out := w \<rparr>)"
    and "\<And>s pl. I s \<Longrightarrow> pl = [] \<or> (\<exists>t. pl = fst (cw_policies cenv t)) \<Longrightarrow> I (s\<lparr> ks_pl := pl \<rparr>)"
    and "\<And>s sc. I s \<Longrightarrow> I (s\<lparr> ks_syncConfig := Some sc \<rparr>)"
  shows "keeps I (processNextItem cenv q)"
  unfolding processNextItem_def by (intro keeps_intros keeps_ext keeps_processItem assms)

lemma keeps_enqueue:
  assumes "\<And>s w. I s \<Longrightarrow> I (s\<lparr> ks_out := w \<rparr>)"
  shows "keeps I (enqueueConfigMap cenv q objKey obj)"
  unfolding enqueueConfigMap_def by (intro keeps_intros keeps_ext assms)

lemma webhook_invariant:
  assumes "webhook_reachable env cenv q s s'" and "I s"
    and "\<And>s w. I s \<Longrightarrow> I (s\<lparr> ks_out := w \<rparr>)"
    and "\<And>s pl. I s \<Longrightarrow> pl = [] \<or> (\<exists>t. pl = fst (cw_policies cenv t)) \<Longrightarrow> I (s\<lparr> ks_pl := pl \<rparr>)"
    and "\<And>s sc. I s \<Longrightarrow> I (s\<lparr> ks_syncConfig := Some sc \<rparr>)"
  shows "I s'"
proof -
  have handler: "keeps I (Handler env body)" for body using assms(3) by (rule keeps_Handler)
  have worker: "keeps I (processNextItem cenv q)" using assms(3-5) by (rule keeps_processNextItem)
  have enqueue: "keeps I (enqueueConfigMap cenv q objKey obj)" for objKey and obj :: string
    using assms(3) by (rule keeps_enqueue)
  from assms(1,2) show ?thesis unfolding webhook_reachable_def
  proof (induction rule: rtranclp_induct)
    case (step s1 s2)
    then have "I s1" by simp
    with step.hyps(2) show ?case
    proof cases
      case request
      then show ?thesis using keepsD [OF handler \<open>I s1\<close>] by blast
    next
      case worker
      then show ?thesis using keepsD [OF \<open>keeps I (processNextItem cenv q)\<close> \<open>I s1\<close>] by blast
    next
      case enqueue
      then show ?thesis using keepsD [OF \<open>keeps I (enqueueConfigMap cenv q _ _)\<close> \<open>I s1\<close>] by blast
    next
      case outside
      with \<open>I s1\<close> assms(3) show ?thesis by simp
    qed
  qed
qed

section \<open>Properties\<close>

definition access_review :: "jobj \<Rightarrow> Attributes \<Rightarrow> bool" where
  "access_review data a \<longleftrightarrow>
     field data ''apiVersion'' = JStr ''authorization.k8s.io/v1beta1'' \<and>
     field data ''kind'' = JStr ''SubjectAccessReview'' \<and>
     (\<exists>spec user. field data ''spec'' = JObj spec \<and> review_user spec = Ok user \<and>
        review_attributes spec user = Ok (Some a))"

lemma authorizeToken_correct:
  assumes "list_all policy_wf pl" and "access_review data a"
  shows "authorizeToken pl data =
    Ok (AccessReview 200 (obj_delete (obj_delete data ''spec'') ''status'')
         (\<exists>p. Some p \<in> set pl \<and> policy_grants p a))"
  using assms authorize_loop_iff [OF assms(1), of a]
  by (auto simp: authorizeToken_def access_review_def as_object_def Authorize_def)


text \<open>
  C6. Deleting the policy config map closes the webhook: the deletion is processed without
  an error, and afterwards every well-formed access review is answered with \<open>allowed\<close> false.
\<close>

theorem policy_deletion_denies:
  assumes "cw_SplitKey cenv key = Ok (ns, cf_PolicyConfigMapName (cw_config cenv))"
    and "cw_Get cenv ns (cf_PolicyConfigMapName (cw_config cenv)) (ks_out s) = (Err K8sNotFound, w')"
    and "access_review data a"
  shows "\<exists>s'. processItem cenv key s = (Ok (), s') \<and>
    Handler env (Inr data) s' =
      (Ok (AccessReview 200 (obj_delete (obj_delete data ''spec'') ''status'') False), s')"
proof -
  obtain s' where s': "processItem cenv key s = (Ok (), s')" "ks_pl s' = []"
    using assms(1,2) by (auto simp: processItem_def ext_def Let_def)
  with authorizeToken_correct [of "[]"] assms(3) show ?thesis
    by (auto simp: Handler_def access_review_def as_string_def)
qed

text \<open>
  A policy config map that does not decode is treated differently at start-up and on an
  update: at start-up the webhook refuses to start, on an update the decoder's partial result
  replaces the policies in force and the item counts as processed.
\<close>

theorem malformed_policies_installed:
  assumes "cw_SplitKey cenv key = Ok (cmNamespace, cf_PolicyConfigMapName (cw_config cenv))"
    and "cf_PolicyConfigMapName (cw_config cenv) \<noteq> ''''"
    and "cw_Get cenv cmNamespace (cf_PolicyConfigMapName (cw_config cenv)) (ks_out s) = (Ok cm, w')"
    and "cw_policies cenv (map_get cm ''policies'') = (partial, Some err)"
    and "se_policies senv = cw_policies cenv" and "se_ConfigMap senv = cw_Get cenv"
  shows "\<not> is_ok (fst (start_policy senv (cw_config cenv) (ks_out s))) \<and>
    (\<exists>s'. processItem cenv key s = (Ok (), s') \<and> ks_pl s' = partial)"
proof
  show "\<not> is_ok (fst (start_policy senv (cw_config cenv) (ks_out s)))"
    using assms by (simp add: start_policy_def)
  show "\<exists>s'. processItem cenv key s = (Ok (), s') \<and> ks_pl s' = partial"
    using assms by (auto simp: processItem_def ext_def Let_def updatePolicies_def updateSyncConfig_def
        split: prod.splits)
qed

definition token_review :: "jobj \<Rightarrow> string \<Rightarrow> bool" where
  "token_review data token \<longleftrightarrow>
     field data ''apiVersion'' = JStr ''authentication.k8s.io/v1beta1'' \<and>
     field data ''kind'' = JStr ''TokenReview'' \<and>
     (\<exists>spec. field data ''spec'' = JObj spec \<and> field spec ''token'' = JStr token)"

text \<open>Keystone accepts a token and describes it by \<open>obj\<close>.\<close>

definition token_valid ::
    "('w, 'resp) keystone_api \<Rightarrow> string \<Rightarrow> 'w \<Rightarrow> keystoneResponse \<Rightarrow> 'w \<Rightarrow> bool" where
  "token_valid authn token w obj w' \<longleftrightarrow>
     (\<exists>resp w1 bytes. ka_Request authn token w = (Ok resp, w1) \<and>
        ka_ReadAll authn resp w1 = (Ok bytes, w') \<and> ka_Unmarshal authn bytes = Ok obj)"

definition user_of :: "keystoneResponse \<Rightarrow> userInfo" where
  "user_of obj =
     \<lparr> ui_Username = kr_User_Name obj, ui_UID = kr_User_ID obj, ui_Groups = [kr_Project_ID obj],
       ui_Extra = [Roles \<mapsto> kr_Roles obj, ProjectID \<mapsto> [kr_Project_ID obj],
                   ProjectName \<mapsto> [kr_Project_Name obj], DomainID \<mapsto> [kr_Domain_ID obj],
                   DomainName \<mapsto> [kr_Domain_Name obj]] \<rparr>"

lemma authenticateToken_valid:
  "token_valid authn token w obj w' \<Longrightarrow>
   authenticateToken authn token data w =
     (Ok (TokenReview 200 (obj_delete data ''status'')
            \<lparr> st_Authenticated = True, st_User = user_of obj \<rparr>, Some (user_of obj)), w')"
  by (auto simp: token_valid_def authenticateToken_def AuthenticateToken_def user_of_def Let_def)

lemma authenticateToken_invalid:
  "AuthenticateToken authn token w = (Err e, w') \<Longrightarrow>
   authenticateToken authn token data w =
     (Ok (TokenReview 401 (obj_delete data ''status'')
            \<lparr> st_Authenticated = False, st_User = empty_userInfo \<rparr>, None), w')"
  by (simp add: authenticateToken_def)

lemma Handler_token_valid:
  assumes "token_review data token" and "token_valid (ke_authn env) token (ks_out s) obj w'"
  shows "Handler env (Inr data) s =
    bindE (sync_after_login env (Some (user_of obj)))
      (\<lambda>_. ret (TokenReview 200 (obj_delete data ''status'')
                 \<lparr> st_Authenticated = True, st_User = user_of obj \<rparr>)) (s\<lparr> ks_out := w' \<rparr>)"
  using assms authenticateToken_valid [OF assms(2), of data]
  by (auto simp: Handler_def token_review_def as_string_def as_object_def ext_def)

lemma project_of_user [simp]:
  "ui_Extra (user_of obj) ProjectID = Some [kr_Project_ID obj]"
  "ui_Extra (user_of obj) ProjectName = Some [kr_Project_Name obj]"
  "ui_Extra (user_of obj) DomainID = Some [kr_Domain_ID obj]"
  by (simp_all add: user_of_def extra_keys)

text \<open>
  An authenticated token whose project id is empty (an unscoped token) is synchronised
  like any other: with the default configuration the webhook looks up, and may create, the
  namespace with the empty name. The guard in the handler only tests that the list of project
  ids is not empty, and \<open>AuthenticateToken\<close> always puts one element into it.
\<close>

theorem unscoped_token_synced:
  assumes "token_review data token" and "token_valid (ke_authn env) token (ks_out s) obj w'"
    and "kr_Project_ID obj = ''''"
    and "ks_syncConfig s = Some newSyncConfig" and "ke_k8sClient env = Some api"
  shows "ks_out (snd (Handler env (Inr data) s)) =
    snd (bindE (syncProjectData api (user_of obj) '''')
           (\<lambda>_. syncRoleAssignmentsData api (user_of obj) '''') w')"
proof -
  let ?s = "s\<lparr> ks_out := w' \<rparr>"
  have name: "formatNamespaceName newSyncConfig '''' n d = ''''" for n d
    by (simp add: formatNamespaceName_def newSyncConfig_def)
  have cfg: "sc_ProjectBlackList newSyncConfig = []"
      "sc_DataTypesToSync newSyncConfig = [Projects, RoleAssignments]"
    by (simp_all add: newSyncConfig_def allowedDataTypesToSync_def)
  have "syncData (syncer env ?s) (user_of obj) =
      bindE (syncProjectData api (user_of obj) '''')
        (\<lambda>_. syncRoleAssignmentsData api (user_of obj) '''')"
    using assms(3-5)
    by (simp add: syncData_def syncer_def deref_def extra0_def opt_list_def name cfg)
      (simp add: Projects_def RoleAssignments_def)
  then show ?thesis
    using assms(4)
    by (simp add: Handler_token_valid [OF assms(1,2)] sync_after_login_def opt_list_def bindE_def
        attempt_def ext_def split: prod.splits result.splits)
qed

text \<open>
  What client-go documents of the rate limiting queue: \<open>NumRequeues\<close> counts the calls of
  \<open>AddRateLimited\<close> for a key since the last \<open>Forget\<close>. \<open>num\<close> reads the counters.
\<close>

definition queue_counts :: "('w \<Rightarrow> string \<Rightarrow> nat) \<Rightarrow> 'w queue_api \<Rightarrow> bool" where
  "queue_counts num q \<longleftrightarrow>
     (\<forall>w. num (snd (q_Get q w)) = num w) \<and>
     (\<forall>k w. num (snd (q_Done q k w)) = num w) \<and>
     (\<forall>k w. num (snd (q_Forget q k w)) = (num w)(k := 0)) \<and>
     (\<forall>k w. num (snd (q_NumRequeues q k w)) = num w \<and> fst (q_NumRequeues q k w) = Ok (num w k)) \<and>
     (\<forall>k w. num (snd (q_AddRateLimited q k w)) = (num w)(k := Suc (num w k)))"

text \<open>
  Retries are bounded: the worker never lets the retry counter of a key exceed
  \<open>maxRetries\<close>, whether items succeed or fail.
\<close>

theorem retries_bounded:
  assumes q: "queue_counts num q" and "\<And>ns n w. num (snd (cw_Get cenv ns n w)) = num w"
    and "\<And>k. num (ks_out s) k \<le> maxRetries" and "processNextItem cenv q s = (r, s')"
  shows "num (ks_out s') k \<le> maxRetries"
proof -
  let ?I = "\<lambda>s. \<forall>k. num (ks_out s) k \<le> maxRetries"
  have get: "keeps ?I (ext (q_Get q))"
    using q by (auto simp: queue_counts_def keeps_def ext_def split: prod.splits) (metis snd_conv)
  have don: "keeps ?I (ext (q_Done q key))" for key
    using q by (auto simp: queue_counts_def keeps_def ext_def split: prod.splits) (metis snd_conv)
  have forget: "keeps ?I (ext (q_Forget q key))" for key
    using q by (auto simp: queue_counts_def keeps_def ext_def split: prod.splits)
      (metis fun_upd_apply snd_conv zero_le)
  have item: "keeps ?I (processItem cenv key)" for key
  proof -
    have "keeps ?I (ext (cw_Get cenv ns n))" for ns n
      using assms(2) by (auto simp: keeps_def ext_def split: prod.splits) (metis snd_conv)
    then show ?thesis
      unfolding processItem_def
      by (intro keeps_intros)
        (auto simp: keeps_def Let_def updatePolicies_def updateSyncConfig_def split: sum.splits prod.splits)
  qed
  have requeue: "keeps ?I (bindE (ext (q_NumRequeues q key))
      (\<lambda>n. if n < maxRetries then ext (q_AddRateLimited q key) else ext (q_Forget q key)))" for key
  proof (rule keepsI)
    fix t r t' assume I: "?I t" and run: "bindE (ext (q_NumRequeues q key))
      (\<lambda>n. if n < maxRetries then ext (q_AddRateLimited q key) else ext (q_Forget q key)) t = (r, t')"
    obtain w where w: "q_NumRequeues q key (ks_out t) = (Ok (num (ks_out t) key), w)" "num w = num (ks_out t)"
      using q unfolding queue_counts_def by (metis prod.collapse)
    show "?I t'"
    proof (cases "num (ks_out t) key < maxRetries")
      case True
      then have "num (ks_out t') = (num (ks_out t))(key := Suc (num (ks_out t) key))"
        using run w q by (auto simp: bindE_def ext_def queue_counts_def split: prod.splits) (metis snd_conv)
      with True I show ?thesis by auto
    next
      case False
      then have "num (ks_out t') = (num (ks_out t))(key := 0)"
        using run w q by (auto simp: bindE_def ext_def queue_counts_def split: prod.splits) (metis snd_conv)
      with I show ?thesis by auto
    qed
  qed
  have "keeps ?I (processNextItem cenv q)"
    unfolding processNextItem_def by (intro keeps_intros get don forget item requeue)
  from keepsD [OF this _ assms(4)] assms(3) show ?thesis by blast
qed

section \<open>Witnesses\<close>

definition demo_spec :: jobj where
  "demo_spec =
     [(''user'', JStr ''alice''), (''group'', JArr [JStr ''p0'']),
      (''extra'', JObj [(Roles, JArr [JStr ''developer'', JStr ''member'']), (ProjectName, JArr [JStr ''demo''])]),
      (''resourceAttributes'',
        JObj [(''namespace'', JStr ''default''), (''resource'', JStr ''pods''), (''verb'', JStr ''get'')])]"

definition demo_review :: jobj where
  "demo_review =
     [(''apiVersion'', JStr ''authorization.k8s.io/v1beta1''), (''kind'', JStr ''SubjectAccessReview''),
      (''spec'', JObj demo_spec)]"

definition demo_reviewer :: DefaultInfo where
  "demo_reviewer = \<lparr> u_Name = ''alice'', u_UID = '''', u_Groups = [''p0''],
     u_Extra = [Roles \<mapsto> [''developer'', ''member''], ProjectName \<mapsto> [''demo'']] \<rparr>"

definition demo_attributes :: Attributes where
  "demo_attributes = (empty_attributes demo_reviewer)\<lparr> a_ResourceRequest := True, a_Verb := ''get'',
     a_Namespace := ''default'', a_APIGroup := '''', a_APIVersion := '''', a_Resource := ''pods'', a_Name := '''' \<rparr>"

lemma demo_review_user: "review_user demo_spec = Ok demo_reviewer"
  by (simp add: review_user_def demo_spec_def demo_reviewer_def field_def as_string_def as_array_def
      add_extra_def extra_keys fun_eq_iff)

lemma demo_access_review: "access_review demo_review demo_attributes"
  unfolding access_review_def
  using demo_review_user
  by (simp add: demo_review_def field_def)
    (simp add: review_attributes_def demo_spec_def as_object_def getField_def as_string_def demo_attributes_def)

definition demo_cm_env :: "policyList \<Rightarrow> gerror option \<Rightarrow> config_map result \<Rightarrow> 'w cm_env" where
  "demo_cm_env pl err cm =
     \<lparr> cw_config = (NewConfig (\<lambda>_. ''''))\<lparr> cf_PolicyConfigMapName := ''policy'' \<rparr>,
       cw_Get = (\<lambda>_ _ w. (cm, w)), cw_SplitKey = (\<lambda>key. Ok (cmNamespace, key)),
       cw_policies = (\<lambda>_. (pl, err)), cw_syncConfig = (\<lambda>_ sc. (sc, None)) \<rparr>"

definition demo_response :: keystoneResponse where
  "demo_response = \<lparr> kr_User_ID = ''u1'', kr_User_Name = ''alice'', kr_Domain_ID = ''d1'',
     kr_Domain_Name = ''Default'', kr_Project_ID = '''', kr_Project_Name = '''', kr_Roles = [] \<rparr>"

definition demo_env :: "(string \<Rightarrow> RoleBinding list, unit) ks_env" where
  "demo_env = \<lparr> ke_authn = \<lparr> ka_Request = (\<lambda>_. ret ()), ka_ReadAll = (\<lambda>_. ret ''''),
       ka_Unmarshal = (\<lambda>_. Ok demo_response) \<rparr>, ke_k8sClient = Some mem_cluster \<rparr>"

definition idle_queue :: "'w queue_api" where
  "idle_queue = \<lparr> q_Get = ret ('''', True), q_Add = (\<lambda>_. ret ()), q_Done = (\<lambda>_. ret ()),
     q_Forget = (\<lambda>_. ret ()), q_NumRequeues = (\<lambda>_. ret 0), q_AddRateLimited = (\<lambda>_. ret ()) \<rparr>"


theorem policy_deletion_denies_witness:
  "\<exists>s'. processItem (demo_cm_env [] None (Err K8sNotFound)) ''policy''
          \<lparr> ks_pl = [Some demo_policy], ks_syncConfig = None, ks_out = (\<lambda>_. []) \<rparr> = (Ok (), s') \<and>
     Handler demo_env (Inr demo_review) s' =
       (Ok (AccessReview 200 (obj_delete (obj_delete demo_review ''spec'') ''status'') False), s')"
  by (rule policy_deletion_denies [OF _ _ demo_access_review, where ns = cmNamespace and w' = "\<lambda>_. []"])
    (simp_all add: demo_cm_env_def)

theorem malformed_policies_installed_witness:
  "\<not> is_ok (fst (start_policy
       \<lparr> se_ConfigMap = (\<lambda>_ _ w. (Ok [''policies'' \<mapsto> ''[}''], w)), se_ReadFile = (\<lambda>_. Err (External '''')),
         se_policies = (\<lambda>_. ([Some demo_policy], Some (External ''bad users''))),
         se_syncConfig = (\<lambda>_ sc. (sc, None)) \<rparr>
       (cw_config (demo_cm_env [Some demo_policy] (Some (External ''bad users'')) (Ok [''policies'' \<mapsto> ''[}'']) :: unit cm_env))
       ())) \<and>
   (\<exists>s'. processItem (demo_cm_env [Some demo_policy] (Some (External ''bad users'')) (Ok [''policies'' \<mapsto> ''[}''])) ''policy''
          \<lparr> ks_pl = [], ks_syncConfig = None, ks_out = () \<rparr> = (Ok (), s') \<and> ks_pl s' = [Some demo_policy])"
  using malformed_policies_installed [of
      "demo_cm_env [Some demo_policy] (Some (External ''bad users'')) (Ok [''policies'' \<mapsto> ''[}''])" "''policy''"
      "\<lparr> ks_pl = [], ks_syncConfig = None, ks_out = () \<rparr>" "[''policies'' \<mapsto> ''[}'']" "()"
      "[Some demo_policy]" "External ''bad users''"
      "\<lparr> se_ConfigMap = (\<lambda>_ _ w. (Ok [''policies'' \<mapsto> ''[}''], w)), se_ReadFile = (\<lambda>_. Err (External '''')),
         se_policies = (\<lambda>_. ([Some demo_policy], Some (External ''bad users''))),
         se_syncConfig = (\<lambda>_ sc. (sc, None)) \<rparr>"]
  by (simp add: demo_cm_env_def)

theorem unscoped_token_synced_witness:
  "ks_out (snd (Handler demo_env
     (Inr [(''apiVersion'', JStr ''authentication.k8s.io/v1beta1''), (''kind'', JStr ''TokenReview''),
           (''spec'', JObj [(''token'', JStr ''t'')])])
     \<lparr> ks_pl = [], ks_syncConfig = Some newSyncConfig, ks_out = (\<lambda>_. []) \<rparr>)) =
   snd (bindE (syncProjectData mem_cluster (user_of demo_response) '''')
          (\<lambda>_. syncRoleAssignmentsData mem_cluster (user_of demo_response) '''') (\<lambda>_. []))"
  by (rule unscoped_token_synced [where token = "''t''"])
    (simp_all add: token_review_def token_valid_def field_def demo_env_def demo_response_def)

text \<open>A queue that only counts, and always hands out the policy key.\<close>

definition counting_queue :: "(string \<Rightarrow> nat) queue_api" where
  "counting_queue = \<lparr> q_Get = ret (''policy'', False), q_Add = (\<lambda>_. ret ()), q_Done = (\<lambda>_. ret ()),
     q_Forget = (\<lambda>k n. (Ok (), n(k := 0))), q_NumRequeues = (\<lambda>k n. (Ok (n k), n)),
     q_AddRateLimited = (\<lambda>k n. (Ok (), n(k := Suc (n k)))) \<rparr>"

theorem retries_bounded_witness:
  "ks_out (snd (processNextItem (demo_cm_env [] None (Err (External ''timeout''))) counting_queue
     \<lparr> ks_pl = [], ks_syncConfig = None, ks_out = (\<lambda>_. 5) \<rparr>)) ''policy'' \<le> maxRetries"
  by (rule retries_bounded [where num = "\<lambda>w. w" and q = counting_queue and r = "Ok True"
        and s = "\<lparr> ks_pl = [], ks_syncConfig = None, ks_out = (\<lambda>_. 5) \<rparr>"
        and cenv = "demo_cm_env [] None (Err (External ''timeout''))"])
    (simp_all add: queue_counts_def counting_queue_def demo_cm_env_def maxRetries_def
      processNextItem_def processItem_def ext_def bindE_def attempt_def)

end
