(* ===== verification/Kms_Plugin.thy ===== *)
theory Kms_Plugin
  imports Go_Prelude "HOL-Library.Word"
begin

text \<open>
  The KMS plugin: \<open>pkg/kms/encryption/aescbc/aescbc.go\<close>, \<open>pkg/kms/barbican\<close> and
  \<open>pkg/kms/server/server.go\<close>. Cipher block chaining, the padding and the in-place decryption
  are modelled on bytes. The AES block transformation is a parameter (\<open>cipher\<close>), of which
  only that decryption inverts encryption on blocks is used; random bytes, Barbican and gRPC
  are parameters too.
\<close>

unbundle bit_operations_syntax

type_synonym byte = "8 word"
type_synonym bytes = "byte list"

section \<open>AES in CBC mode\<close>

record cipher =
  bc_Encrypt :: "bytes \<Rightarrow> bytes \<Rightarrow> bytes"
  bc_Decrypt :: "bytes \<Rightarrow> bytes \<Rightarrow> bytes"

definition aes_BlockSize :: nat where "aes_BlockSize = 16"

definition key_ok :: "bytes \<Rightarrow> bool" where
  "key_ok key \<longleftrightarrow> length key \<in> {16, 24, 32}"

definition aes_NewCipher :: "bytes \<Rightarrow> unit result" where
  "aes_NewCipher key =
     (if key_ok key then Ok () else Err (Errorf ''crypto/aes: invalid key size %d'' [FInt (int (length key))]))"

definition xor_bytes :: "bytes \<Rightarrow> bytes \<Rightarrow> bytes" where
  "xor_bytes xs ys = map2 (XOR) xs ys"

function cbc_encrypt :: "(bytes \<Rightarrow> bytes) \<Rightarrow> bytes \<Rightarrow> bytes \<Rightarrow> bytes" where
  "cbc_encrypt E iv src =
     (if length src < aes_BlockSize then []
      else let c = E (xor_bytes iv (take aes_BlockSize src))
           in c @ cbc_encrypt E c (drop aes_BlockSize src))"
  by pat_completeness auto
termination
  by (relation "measure (\<lambda>(_, _, src). length src)") (auto simp: aes_BlockSize_def)

function cbc_decrypt :: "(bytes \<Rightarrow> bytes) \<Rightarrow> bytes \<Rightarrow> bytes \<Rightarrow> bytes" where
  "cbc_decrypt D iv src =
     (if length src < aes_BlockSize then []
      else let c = take aes_BlockSize src
           in xor_bytes (D c) iv @ cbc_decrypt D c (drop aes_BlockSize src))"
  by pat_completeness auto
termination
  by (relation "measure (\<lambda>(_, _, src). length src)") (auto simp: aes_BlockSize_def)

declare cbc_encrypt.simps [simp del] cbc_decrypt.simps [simp del]

definition paddingSize :: "bytes \<Rightarrow> nat" where
  "paddingSize data = aes_BlockSize - length data mod aes_BlockSize"

definition padded :: "bytes \<Rightarrow> bytes" where
  "padded data = data @ replicate (paddingSize data) (of_nat (paddingSize data))"

text \<open>\<open>rand\<close> is what reading the initialisation vector from the system's random source gave.\<close>

definition aescbc_Encrypt :: "cipher \<Rightarrow> bytes result \<Rightarrow> bytes \<Rightarrow> bytes \<Rightarrow> bytes result" where
  "aescbc_Encrypt C rand data key =
     bindR (aes_NewCipher key) (\<lambda>_.
     bindR rand (\<lambda>iv.
       Ok (iv @ cbc_encrypt (bc_Encrypt C key) iv (padded data))))"

definition remove_padding :: "bytes \<Rightarrow> bytes result" where
  "remove_padding plain =
     (if plain = [] then Panic ''index out of range''
      else
        let paddingLength = unat (last plain);
            dataLength = int (length plain) - int paddingLength
        in if dataLength < 0 then Panic ''slice bounds out of range''
           else Ok (take (nat dataLength) plain))"

text \<open>
  The second component is the caller's buffer afterwards: the blocks are decrypted in place,
  and the plaintext is a slice of that buffer.
\<close>

definition aescbc_Decrypt :: "cipher \<Rightarrow> bytes \<Rightarrow> bytes \<Rightarrow> bytes result \<times> bytes" where
  "aescbc_Decrypt C data key =
     (case aes_NewCipher key of
        Err e \<Rightarrow> (Err e, data)
      | Panic p \<Rightarrow> (Panic p, data)
      | Ok _ \<Rightarrow>
          if length data < aes_BlockSize then (Panic ''slice bounds out of range'', data)
          else
            let iv = take aes_BlockSize data;
                ciphertext = drop aes_BlockSize data
            in if length ciphertext mod aes_BlockSize \<noteq> 0
               then (Err (errors_New ''Invalid Data, not multiple of block size''), data)
               else
                 let plain = cbc_decrypt (bc_Decrypt C key) iv ciphertext;
                     data' = iv @ plain
                 in (remove_padding plain, data'))"

section \<open>Barbican\<close>

record kms_Config =
  kc_AuthURL :: string
  kc_Username :: string
  kc_UserID :: string
  kc_Password :: string
  kc_TenantID :: string
  kc_TenantName :: string
  kc_DomainID :: string
  kc_DomainName :: string
  kc_Region :: string
  kc_KeyID :: string

record AuthOptions =
  ao_IdentityEndpoint :: string
  ao_Username :: string
  ao_UserID :: string
  ao_Password :: string
  ao_TenantID :: string
  ao_TenantName :: string
  ao_DomainID :: string
  ao_DomainName :: string
  ao_AllowReauth :: bool

definition kms_toAuthOptions :: "kms_Config \<Rightarrow> AuthOptions" where
  "kms_toAuthOptions cfg =
     \<lparr> ao_IdentityEndpoint = kc_AuthURL cfg, ao_Username = kc_Username cfg, ao_UserID = kc_UserID cfg,
       ao_Password = kc_Password cfg, ao_TenantID = kc_TenantID cfg, ao_TenantName = kc_TenantName cfg,
       ao_DomainID = kc_DomainID cfg, ao_DomainName = kc_DomainName cfg, ao_AllowReauth = True \<rparr>"

record ('w, 'prov, 'client) barbican_api =
  ba_AuthenticatedClient :: "AuthOptions \<Rightarrow> ('w, 'prov) io"
  ba_NewKeyManagerV1 :: "'prov \<Rightarrow> string \<Rightarrow> ('w, 'client) io"
  ba_GetPayload :: "'client \<Rightarrow> string \<Rightarrow> string \<Rightarrow> ('w, bytes) io"

definition newBarbicanClient :: "('w, 'prov, 'client) barbican_api \<Rightarrow> kms_Config \<Rightarrow> ('w, 'client) io" where
  "newBarbicanClient api cfg =
     bindE (ba_AuthenticatedClient api (kms_toAuthOptions cfg)) (\<lambda>provider.
       ba_NewKeyManagerV1 api provider (kc_Region cfg))"

definition Barbican_GetSecret :: "('w, 'prov, 'client) barbican_api \<Rightarrow> kms_Config \<Rightarrow> ('w, bytes) io" where
  "Barbican_GetSecret api cfg =
     bindE (newBarbicanClient api cfg) (\<lambda>client.
       ba_GetPayload api client (kc_KeyID cfg) ''application/octet-stream'')"

text \<open>\<open>hex.DecodeString\<close>, for the key of the fake service.\<close>

definition hex_val :: "char \<Rightarrow> nat option" where
  "hex_val c =
     (let n = of_char c in
      if 48 \<le> n \<and> n \<le> 57 then Some (n - 48)
      else if 97 \<le> n \<and> n \<le> 102 then Some (n - 87)
      else if 65 \<le> n \<and> n \<le> 70 then Some (n - 55)
      else None)"

fun hex_DecodeString :: "string \<Rightarrow> bytes result" where
  "hex_DecodeString [] = Ok []"
| "hex_DecodeString [c] = Err (errors_New ''encoding/hex: odd length hex string'')"
| "hex_DecodeString (c # d # s) =
     (case hex_val c of
        None \<Rightarrow> Err (Errorf ''encoding/hex: invalid byte: %s'' [FStr [c]])
      | Some h \<Rightarrow>
          (case hex_val d of
             None \<Rightarrow> Err (Errorf ''encoding/hex: invalid byte: %s'' [FStr [d]])
           | Some l \<Rightarrow> bindR (hex_DecodeString s) (\<lambda>bs. Ok (of_nat (16 * h + l) # bs))))"

definition FakeBarbican_GetSecret :: "kms_Config \<Rightarrow> ('w, bytes) io" where
  "FakeBarbican_GetSecret cfg = lift_result (hex_DecodeString ''6368616e676520746869732070617373'')"

section \<open>The server\<close>

text \<open>A \<open>BarbicanService\<close> is its \<open>GetSecret\<close>.\<close>

record 'w KMSserver =
  s_cfg :: kms_Config
  s_barbican :: "kms_Config \<Rightarrow> ('w, bytes) io"

record VersionResponse =
  vr_Version :: string
  vr_RuntimeName :: string
  vr_RuntimeVersion :: string

definition KMS_Version :: "VersionResponse result" where
  "KMS_Version = Ok \<lparr> vr_Version = ''v1beta1'', vr_RuntimeName = ''barbican'', vr_RuntimeVersion = ''0.0.1'' \<rparr>"

definition KMS_Decrypt :: "cipher \<Rightarrow> 'w KMSserver \<Rightarrow> bytes \<Rightarrow> ('w, bytes) io" where
  "KMS_Decrypt C s req =
     bindE (s_barbican s (s_cfg s)) (\<lambda>key. lift_result (fst (aescbc_Decrypt C req key)))"

definition KMS_Encrypt :: "cipher \<Rightarrow> bytes result \<Rightarrow> 'w KMSserver \<Rightarrow> bytes \<Rightarrow> ('w, bytes) io" where
  "KMS_Encrypt C rand s req =
     bindE (s_barbican s (s_cfg s)) (\<lambda>key. lift_result (aescbc_Encrypt C rand req key))"

text \<open>\<open>initConfig\<close> opens the file and reads the configuration; \<open>Run\<close> serves until a signal stops it.\<close>

definition kms_initConfig ::
    "(string \<Rightarrow> 'f result) \<Rightarrow> ('f \<Rightarrow> kms_Config result) \<Rightarrow> string \<Rightarrow> kms_Config result" where
  "kms_initConfig Open ReadInto path = bindR (Open path) ReadInto"

datatype signal = SIGINT | SIGTERM | OtherSignal nat

fun wait_signal :: "signal list \<Rightarrow> bool" where
  "wait_signal [] = False"
| "wait_signal (sig # sigs) = (if sig = SIGINT \<or> sig = SIGTERM then True else wait_signal sigs)"

text \<open>
  The signals that have arrived so far are a list: None while the server keeps running. A
  socket that cannot be opened ends the process (\<open>klog.Fatalf\<close>).
\<close>

definition kms_Run :: "kms_Config result \<Rightarrow> unit result \<Rightarrow> signal list \<Rightarrow> unit result option" where
  "kms_Run config listen sigs =
     (case config of
        Err e \<Rightarrow> Some (Err e)
      | Panic p \<Rightarrow> Some (Panic p)
      | Ok cfg \<Rightarrow>
          (case listen of
             Err e \<Rightarrow> Some (Panic ''Failed to Listen'')
           | Panic p \<Rightarrow> Some (Panic p)
           | Ok _ \<Rightarrow> if wait_signal sigs then Some (Ok ()) else None))"

section \<open>Lemmas\<close>

text \<open>What a block cipher provides: for a good key, decryption inverts encryption on blocks.\<close>

definition cipher_ok :: "cipher \<Rightarrow> bool" where
  "cipher_ok C \<longleftrightarrow>
     (\<forall>key b. key_ok key \<longrightarrow> length b = aes_BlockSize \<longrightarrow>
        length (bc_Encrypt C key b) = aes_BlockSize \<and> bc_Decrypt C key (bc_Encrypt C key b) = b)"

lemma length_xor_bytes [simp]: "length (xor_bytes xs ys) = min (length xs) (length ys)"
  by (simp add: xor_bytes_def)

lemma xor_bytes_cancel: "length xs = length ys \<Longrightarrow> xor_bytes (xor_bytes xs ys) xs = ys"
  by (rule nth_equalityI) (auto simp: xor_bytes_def xor.assoc [symmetric] xor.commute)

lemma cbc_encrypt_Nil [simp]: "cbc_encrypt E iv [] = []"
  by (simp add: cbc_encrypt.simps [of E iv "[]"] aes_BlockSize_def)

lemma cbc_decrypt_Nil [simp]: "cbc_decrypt D iv [] = []"
  by (simp add: cbc_decrypt.simps [of D iv "[]"] aes_BlockSize_def)

lemma cbc_encrypt_block:
  "length b = aes_BlockSize \<Longrightarrow>
   cbc_encrypt E iv (b @ src) = E (xor_bytes iv b) @ cbc_encrypt E (E (xor_bytes iv b)) src"
  by (simp add: cbc_encrypt.simps [of E iv "b @ src"] Let_def)

lemma cbc_decrypt_block:
  "length b = aes_BlockSize \<Longrightarrow>
   cbc_decrypt D iv (b @ src) = xor_bytes (D b) iv @ cbc_decrypt D b src"
  by (simp add: cbc_decrypt.simps [of D iv "b @ src"] Let_def)

lemma cbc_roundtrip:
  assumes "\<And>b. length b = aes_BlockSize \<Longrightarrow> length (E b) = aes_BlockSize \<and> D (E b) = b"
    and "length iv = aes_BlockSize" and "length src = n * aes_BlockSize"
  shows "length (cbc_encrypt E iv src) = length src \<and> cbc_decrypt D iv (cbc_encrypt E iv src) = src"
  using assms(2,3)
proof (induction n arbitrary: iv src)
  case 0
  then show ?case by simp
next
  case (Suc n)
  define b rest where "b = take aes_BlockSize src" and "rest = drop aes_BlockSize src"
  have src: "src = b @ rest" by (simp add: b_def rest_def)
  have b: "length b = aes_BlockSize" and rest: "length rest = n * aes_BlockSize"
    using Suc.prems(2) by (simp_all add: b_def rest_def)
  let ?c = "E (xor_bytes iv b)"
  have c: "length ?c = aes_BlockSize" "D ?c = xor_bytes iv b"
    using assms(1) [of "xor_bytes iv b"] b Suc.prems(1) by simp_all
  have "xor_bytes (xor_bytes iv b) iv = b"
    using b Suc.prems(1) by (simp add: xor_bytes_cancel)
  with Suc.IH [OF c(1) rest] c b show ?case
    by (simp add: src cbc_encrypt_block cbc_decrypt_block)
qed

lemma length_padded:
  "length (padded data) = Suc (length data div aes_BlockSize) * aes_BlockSize"
proof -
  have lt: "length data mod aes_BlockSize < aes_BlockSize" by (simp add: aes_BlockSize_def)
  have eq: "length data div aes_BlockSize * aes_BlockSize + length data mod aes_BlockSize = length data"
    by simp
  have "length (padded data) = length data + (aes_BlockSize - length data mod aes_BlockSize)"
    by (simp add: padded_def paddingSize_def)
  with lt eq show ?thesis unfolding mult_Suc by linarith
qed

lemma paddingSize_bounds: "0 < paddingSize data" "paddingSize data \<le> 16"
  by (simp_all add: paddingSize_def aes_BlockSize_def)

lemma remove_padding_padded: "remove_padding (padded data) = Ok data"
proof -
  have "last (padded data) = of_nat (paddingSize data)" "padded data \<noteq> []"
    using paddingSize_bounds [of data] by (simp_all add: padded_def)
  moreover have "unat (of_nat (paddingSize data) :: byte) = paddingSize data"
    using paddingSize_bounds [of data] by (simp add: unat_of_nat)
  ultimately show ?thesis by (simp add: remove_padding_def Let_def) (simp add: padded_def)
qed

text \<open>
  The contract of a sealing scheme: what is sealed under a good key and nonce is opened under
  the same key.
\<close>

locale sealing =
  fixes seal :: "'n \<Rightarrow> 'p \<Rightarrow> 'k \<Rightarrow> 'c result" and unseal :: "'c \<Rightarrow> 'k \<Rightarrow> 'p result"
    and good_key :: "'k \<Rightarrow> bool" and good_nonce :: "'n \<Rightarrow> bool"
  assumes unseal_seal: "good_key k \<Longrightarrow> good_nonce n \<Longrightarrow> \<exists>c. seal n p k = Ok c \<and> unseal c k = Ok p"
begin

lemma seal_inject: "good_key k \<Longrightarrow> good_nonce n \<Longrightarrow> good_nonce n' \<Longrightarrow> seal n p k = seal n' p' k \<Longrightarrow> p = p'"
  using unseal_seal [of k n p] unseal_seal [of k n' p'] by auto

lemma seal_then_unseal:
  "good_key k \<Longrightarrow> good_nonce n \<Longrightarrow> bindR (seal n p k) (\<lambda>c. unseal c k) = Ok p"
  using unseal_seal [of k n p] by auto

end

definition good_rand :: "bytes result \<Rightarrow> bool" where
  "good_rand rand \<longleftrightarrow> (\<exists>iv. rand = Ok iv \<and> length iv = aes_BlockSize)"

lemma Decrypt_Encrypt:
  assumes "cipher_ok C" "key_ok key" "good_rand rand"
  shows "\<exists>c. aescbc_Encrypt C rand data key = Ok c \<and> fst (aescbc_Decrypt C c key) = Ok data"
proof -
  obtain iv where iv: "rand = Ok iv" "length iv = aes_BlockSize" using assms(3) by (auto simp: good_rand_def)
  let ?ct = "cbc_encrypt (bc_Encrypt C key) iv (padded data)"
  have rt: "length ?ct = length (padded data) \<and> cbc_decrypt (bc_Decrypt C key) iv ?ct = padded data"
    using assms(1,2) iv(2) length_padded [of data]
    by (intro cbc_roundtrip [where n = "Suc (length data div aes_BlockSize)"]) (auto simp: cipher_ok_def)

  have "aescbc_Encrypt C rand data key = Ok (iv @ ?ct)"
    using assms(2) iv by (simp add: aescbc_Encrypt_def aes_NewCipher_def)
  moreover have "fst (aescbc_Decrypt C (iv @ ?ct) key) = Ok data"
    using assms(2) iv rt length_padded [of data]
    by (simp add: aescbc_Decrypt_def aes_NewCipher_def Let_def remove_padding_padded)
  ultimately show ?thesis by blast
qed

interpretation aescbc: sealing "aescbc_Encrypt C" "\<lambda>c key. fst (aescbc_Decrypt C c key)"
    "\<lambda>key. cipher_ok C \<and> key_ok key" good_rand for C
  by unfold_locales (use Decrypt_Encrypt in blast)

section \<open>Properties\<close>

text \<open>
  C7. Round trip of \<open>aescbc\<close>: for data of any length, a key of 16, 24 or 32 bytes and a
  16-byte initialisation vector, encryption succeeds and decrypting its result gives the data
  back. The only assumption on AES is that block decryption inverts block encryption.
\<close>

theorem aescbc_roundtrip:
  assumes "cipher_ok C" and "key_ok key" and "length iv = aes_BlockSize"
  shows "bindR (aescbc_Encrypt C (Ok iv) data key) (\<lambda>c. fst (aescbc_Decrypt C c key)) = Ok data"
  using assms by (intro aescbc.seal_then_unseal) (auto simp: good_rand_def)

text \<open>
  C8. Round trip of the KMS server: what \<open>Encrypt\<close> returned, \<open>Decrypt\<close> turns back into the
  plain text in any later state in which Barbican hands out the same key.
\<close>

theorem KMS_roundtrip:
  assumes "cipher_ok C" and "key_ok key" and "length iv = aes_BlockSize"
    and "s_barbican s (s_cfg s) w1 = (Ok key, w1')" and "s_barbican s (s_cfg s) w2 = (Ok key, w2')"
  shows "\<exists>c. KMS_Encrypt C (Ok iv) s plain w1 = (Ok c, w1') \<and> KMS_Decrypt C s c w2 = (Ok plain, w2')"
proof -
  obtain c where "aescbc_Encrypt C (Ok iv) plain key = Ok c" "fst (aescbc_Decrypt C c key) = Ok plain"
    using aescbc.unseal_seal [of C key "Ok iv" plain] assms(1-3) by (auto simp: good_rand_def)
  with assms(4,5) show ?thesis by (simp add: KMS_Encrypt_def KMS_Decrypt_def)
qed

text \<open>
  Decryption does not check its input: with a good key, a request that is shorter than
  two blocks and not rejected for its length (fewer than 16 bytes, or exactly 16) makes the
  server panic instead of returning an error.
\<close>

theorem Decrypt_short_panics:
  assumes "key_ok key" and "length data \<le> aes_BlockSize"
    and "s_barbican s (s_cfg s) w = (Ok key, w')"
  shows "\<exists>p. KMS_Decrypt C s data w = (Panic p, w')"
  using assms
  by (auto simp: KMS_Decrypt_def aescbc_Decrypt_def aes_NewCipher_def remove_padding_def Let_def)

text \<open>
  The cipher text is one block for the vector and the padded data: its length is a
  multiple of the block size and tells only the number of started blocks of the data.
\<close>

lemma ciphertext_length:
  assumes "cipher_ok C" and "length iv = aes_BlockSize" and "aescbc_Encrypt C (Ok iv) data key = Ok c"
  shows "length c = (length data div aes_BlockSize + 2) * aes_BlockSize"
proof -
  have "key_ok key" and c: "c = iv @ cbc_encrypt (bc_Encrypt C key) iv (padded data)"
    using assms(3) by (auto simp: aescbc_Encrypt_def aes_NewCipher_def split: if_splits)
  then have "length (cbc_encrypt (bc_Encrypt C key) iv (padded data)) = length (padded data)"
    using assms(1,2) length_padded [of data]
      cbc_roundtrip [of "bc_Encrypt C key" "bc_Decrypt C key" iv "padded data" "Suc (length data div aes_BlockSize)"]
    by (auto simp: cipher_ok_def)
  then show ?thesis using assms(2) length_padded [of data] by (simp add: c)
qed

section \<open>Witnesses\<close>

text \<open>A block cipher that adds the first key byte.\<close>

definition shift_cipher :: cipher where
  "shift_cipher = \<lparr> bc_Encrypt = (\<lambda>key b. map (\<lambda>x. x + hd key) b),
     bc_Decrypt = (\<lambda>key b. map (\<lambda>x. x - hd key) b) \<rparr>"

lemma shift_cipher_ok: "cipher_ok shift_cipher"
  by (simp add: cipher_ok_def shift_cipher_def comp_def)

definition fake_server :: "unit KMSserver" where
  "fake_server = \<lparr> s_cfg = \<lparr> kc_AuthURL = '''', kc_Username = '''', kc_UserID = '''', kc_Password = '''',
     kc_TenantID = '''', kc_TenantName = '''', kc_DomainID = '''', kc_DomainName = '''', kc_Region = '''',
     kc_KeyID = '''' \<rparr>, s_barbican = FakeBarbican_GetSecret \<rparr>"

definition fake_key :: bytes where
  "fake_key = [0x63, 0x68, 0x61, 0x6e, 0x67, 0x65, 0x20, 0x74, 0x68, 0x69, 0x73, 0x20, 0x70, 0x61, 0x73, 0x73]"

lemma fake_secret: "s_barbican fake_server (s_cfg fake_server) () = (Ok fake_key, ())"
  by (simp add: fake_server_def FakeBarbican_GetSecret_def fake_key_def) code_simp

lemma fake_key_ok: "key_ok fake_key"
  by (simp add: key_ok_def fake_key_def)

theorem aescbc_roundtrip_witness:
  "bindR (aescbc_Encrypt shift_cipher (Ok (replicate 16 7)) [1, 2, 3] fake_key)
     (\<lambda>c. fst (aescbc_Decrypt shift_cipher c fake_key)) = Ok [1, 2, 3]"
  by (rule aescbc_roundtrip [OF shift_cipher_ok fake_key_ok]) (simp add: aes_BlockSize_def)

theorem KMS_roundtrip_witness:
  "\<exists>c. KMS_Encrypt shift_cipher (Ok (replicate 16 7)) fake_server [1, 2, 3] () = (Ok c, ()) \<and>
     KMS_Decrypt shift_cipher fake_server c () = (Ok [1, 2, 3], ())"
  by (rule KMS_roundtrip [OF shift_cipher_ok fake_key_ok _ fake_secret fake_secret]) (simp add: aes_BlockSize_def)

theorem Decrypt_short_panics_witness:
  "\<exists>p. KMS_Decrypt shift_cipher fake_server [1, 2, 3] () = (Panic p, ())"
  by (rule Decrypt_short_panics [OF fake_key_ok _ fake_secret]) (simp add: aes_BlockSize_def)

end
