(* ===== verification/Go_Net.thy ===== *)
theory Go_Net
  imports Go_Strings
begin

text \<open>
  The parts of Go's \<open>net\<close> package the repository uses: \<open>ParseIP\<close>, \<open>IP.To4\<close> and \<open>ParseCIDR\<close>,
  as in the Go releases of the time (leading zeros are accepted in decimal parts). An address
  is a list of 16 bytes, each a natural number below 256.
\<close>

type_synonym ip = "nat list"

section \<open>Numbers\<close>

definition dec_digit :: "char \<Rightarrow> nat option" where
  "dec_digit c = (let n = of_char c in if 48 \<le> n \<and> n \<le> 57 then Some (n - 48) else None)"

definition hex_digit :: "char \<Rightarrow> nat option" where
  "hex_digit c =
     (let n = of_char c in
      if 48 \<le> n \<and> n \<le> 57 then Some (n - 48)
      else if 97 \<le> n \<and> n \<le> 102 then Some (n - 87)
      else if 65 \<le> n \<and> n \<le> 70 then Some (n - 55)
      else None)"

definition net_big :: nat where "net_big = 0xFFFFFF"

text \<open>
  \<open>dtoi\<close> and \<open>xtoi\<close>: the number at the start of the text and the rest of the text; None when
  there is no digit or the number is too big.
\<close>

fun digits :: "(char \<Rightarrow> nat option) \<Rightarrow> nat \<Rightarrow> nat \<Rightarrow> string \<Rightarrow> (nat \<times> string) option" where
  "digits dig base n [] = Some (n, [])"
| "digits dig base n (c # s) =
     (case dig c of
        None \<Rightarrow> Some (n, c # s)
      | Some d \<Rightarrow>
          if n * base + d \<ge> net_big then None else digits dig base (n * base + d) s)"

definition net_number :: "(char \<Rightarrow> nat option) \<Rightarrow> nat \<Rightarrow> string \<Rightarrow> (nat \<times> string) option" where
  "net_number dig base s =
     (case s of
        [] \<Rightarrow> None
      | c # _ \<Rightarrow> if dig c = None then None else digits dig base 0 s)"

definition dtoi :: "string \<Rightarrow> (nat \<times> string) option" where
  "dtoi = net_number dec_digit 10"

definition xtoi :: "string \<Rightarrow> (nat \<times> string) option" where
  "xtoi = net_number hex_digit 16"

lemma digits_length: "digits dig base n s = Some (m, r) \<Longrightarrow> length r \<le> length s"
  by (induction dig base n s arbitrary: m r rule: digits.induct)
    (fastforce split: option.splits if_splits)+

lemma net_number_length: "net_number dig base s = Some (m, r) \<Longrightarrow> length r < length s"
  by (cases s) (auto simp: net_number_def split: if_splits option.splits dest!: digits_length)

lemma xtoi_length: "xtoi s = Some (m, r) \<Longrightarrow> length r < length s"
  by (simp add: xtoi_def net_number_length)

section \<open>Addresses\<close>

definition v4_prefix :: "nat list" where
  "v4_prefix = replicate 10 0 @ [255, 255]"

text \<open>\<open>n\<close> more decimal parts, each after a dot.\<close>

fun v4_parts :: "nat \<Rightarrow> string \<Rightarrow> nat list option" where
  "v4_parts 0 s = (if s = [] then Some [] else None)"
| "v4_parts (Suc n) s =
     (case s of
        [] \<Rightarrow> None
      | c # r \<Rightarrow>
          if c \<noteq> CHR ''.'' then None
          else case dtoi r of
            None \<Rightarrow> None
          | Some (m, r') \<Rightarrow> if m > 255 then None else map_option ((#) m) (v4_parts n r'))"

definition parseIPv4 :: "string \<Rightarrow> ip option" where
  "parseIPv4 s =
     (case dtoi s of
        None \<Rightarrow> None
      | Some (m, r) \<Rightarrow>
          if m > 255 then None
          else map_option (\<lambda>ps. v4_prefix @ m # ps) (v4_parts 3 r))"

text \<open>
  The loop of \<open>parseIPv6\<close>: \<open>acc\<close> holds the bytes parsed so far, \<open>ell\<close> the position of the
  ellipsis. The result is the bytes, the ellipsis and the unread text.
\<close>

function v6_loop :: "string \<Rightarrow> nat list \<Rightarrow> nat option \<Rightarrow> (nat list \<times> nat option \<times> string) option" where
  "v6_loop s acc ell =
     (if length acc \<ge> 16 then Some (acc, ell, s)
      else case xtoi s of
        None \<Rightarrow> None
      | Some (n, r) \<Rightarrow>
          if n > 0xFFFF then None
          else if r \<noteq> [] \<and> hd r = CHR ''.'' then
            (if ell = None \<and> length acc \<noteq> 12 then None
             else if length acc + 4 > 16 then None
             else case parseIPv4 s of
               None \<Rightarrow> None
             | Some ip4 \<Rightarrow> Some (acc @ drop 12 ip4, ell, []))
          else
            let acc' = acc @ [n div 256, n mod 256] in
            (case r of
               [] \<Rightarrow> Some (acc', ell, [])
             | [c] \<Rightarrow> None
             | c # d # r' \<Rightarrow>
                 if c \<noteq> CHR '':'' then None
                 else if d = CHR '':'' then
                   (if ell \<noteq> None then None
                    else if r' = [] then Some (acc', Some (length acc'), [])
                    else v6_loop r' acc' (Some (length acc')))
                 else v6_loop (d # r') acc' ell))"
  by pat_completeness auto
termination
  by (relation "measure (\<lambda>(s, _, _). length s)") (auto dest!: xtoi_length)

declare v6_loop.simps [simp del]

definition v6_expand :: "nat list \<times> nat option \<times> string \<Rightarrow> ip option" where
  "v6_expand r =
     (case r of (acc, ell, s) \<Rightarrow>
        if s \<noteq> [] then None
        else if length acc < 16 then
          (case ell of
             None \<Rightarrow> None
           | Some e \<Rightarrow> Some (take e acc @ replicate (16 - length acc) 0 @ drop e acc))
        else if ell \<noteq> None then None
        else Some acc)"

definition parseIPv6 :: "string \<Rightarrow> ip option" where
  "parseIPv6 s =
     (if HasPrefix s ''::'' then
        (let r = drop 2 s in
         if r = [] then Some (replicate 16 0)
         else Option.bind (v6_loop r [] (Some 0)) v6_expand)
      else Option.bind (v6_loop s [] None) v6_expand)"

definition ParseIP :: "string \<Rightarrow> ip option" where
  "ParseIP s =
     (case find (\<lambda>c. c = CHR ''.'' \<or> c = CHR '':'') s of
        None \<Rightarrow> None
      | Some c \<Rightarrow> if c = CHR ''.'' then parseIPv4 s else parseIPv6 s)"

text \<open>\<open>To4\<close> of a possibly nil address.\<close>

definition To4 :: "ip option \<Rightarrow> ip option" where
  "To4 ip =
     (case ip of
        None \<Rightarrow> None
      | Some a \<Rightarrow>
          if length a = 4 then Some a
          else if length a = 16 \<and> take 12 a = v4_prefix then Some (drop 12 a)
          else None)"

text \<open>The test \<open>net.ParseIP(s).To4() == nil\<close>: also true for a text that is no address at all.\<close>

definition isIPv6 :: "string \<Rightarrow> bool" where
  "isIPv6 s \<longleftrightarrow> To4 (ParseIP s) = None"

definition ParseCIDR_ip :: "string \<Rightarrow> ip option" where
  "ParseCIDR_ip s =
     (case SplitN2 s ''/'' of
        [address, bitsText] \<Rightarrow>
          (let ip4 = parseIPv4 address;
               ip = (case ip4 of None \<Rightarrow> parseIPv6 address | Some _ \<Rightarrow> ip4);
               bits = (if ip4 = None then 128 else 32)
           in case (ip, dtoi bitsText) of
                (Some a, Some (n, [])) \<Rightarrow> if n \<le> bits then Some a else None
              | _ \<Rightarrow> None)
      | _ \<Rightarrow> None)"

section \<open>Dotted decimal addresses\<close>

text \<open>Decimal text of a number below 1000, and the dotted decimal text of an IPv4 address.\<close>

definition dec_text :: "nat \<Rightarrow> string" where
  "dec_text n =
     (let d = (\<lambda>k. char_of (48 + k :: nat)) in
      if n < 10 then [d n]
      else if n < 100 then [d (n div 10), d (n mod 10)]
      else [d (n div 100), d (n div 10 mod 10), d (n mod 10)])"

definition v4_text :: "nat list \<Rightarrow> string" where
  "v4_text ps = strings_Join (map dec_text ps) ''.''"

lemma dec_digit_of: "k < 10 \<Longrightarrow> dec_digit (char_of (48 + k :: nat)) = Some k"
  by (simp add: dec_digit_def Let_def)

lemma digits_step:
  "m < 10 \<Longrightarrow> k * 10 + m < net_big \<Longrightarrow>
   digits dec_digit 10 k (char_of (48 + m) # s) = digits dec_digit 10 (k * 10 + m) s"
  by (simp add: dec_digit_of)

lemma dtoi_step: "m < 10 \<Longrightarrow> dtoi (char_of (48 + m) # s) = digits dec_digit 10 m s"
  by (simp add: dtoi_def net_number_def dec_digit_of net_big_def)

lemma dtoi_dec_text:
  assumes "n \<le> 255" and "\<And>c r'. r = c # r' \<Longrightarrow> dec_digit c = None"
  shows "dtoi (dec_text n @ r) = Some (n, r)"
proof -
  have stop: "digits dec_digit 10 n r = Some (n, r)"
    using assms(2) by (cases r) simp_all
  define q where "q = n div 10"
  have n: "q * 10 + n mod 10 = n" "n mod 10 < 10" and big: "n < net_big"
    using assms(1) by (simp_all add: q_def net_big_def)
  have q: "n div 100 * 10 + q mod 10 = q" "q mod 10 < 10" "n div 100 = q div 10"
    by (simp_all add: q_def div_mult2_eq [of n 10 10, simplified])
  consider "n < 10" | "10 \<le> n" "n < 100" | "100 \<le> n" by linarith
  then show ?thesis
  proof cases
    case 1
    then have "dec_text n = [char_of (48 + n)]" by (simp add: dec_text_def Let_def)
    with 1 stop show ?thesis by (simp only: append_Cons append_Nil dtoi_step)
  next
    case 2
    then have t: "dec_text n = [char_of (48 + q), char_of (48 + n mod 10)]"
      by (simp add: dec_text_def Let_def q_def)
    have "q < 10" using 2 by (simp add: q_def)
    with t stop n big show ?thesis
      by (simp only: append_Cons append_Nil dtoi_step digits_step)
  next
    case 3
    then have t: "dec_text n = [char_of (48 + n div 100), char_of (48 + q mod 10), char_of (48 + n mod 10)]"
      by (simp add: dec_text_def Let_def q_def)
    have "n div 100 < 10" "q < net_big" using assms(1) by (simp_all add: q_def net_big_def)
    with t stop n q(1,2) big show ?thesis
      by (simp only: append_Cons append_Nil dtoi_step digits_step)
  qed
qed

lemma dec_digit_dot: "dec_digit (CHR ''.'') = None"
  by (simp add: dec_digit_def Let_def)

lemma dec_digit_colon: "dec_digit (CHR '':'') = None"
  by (simp add: dec_digit_def Let_def)

lemma parseIPv4_text:
  assumes "a \<le> 255" "b \<le> 255" "c \<le> 255" "d \<le> 255"
  shows "parseIPv4 (v4_text [a, b, c, d]) = Some (v4_prefix @ [a, b, c, d])"
proof -
  have dot: "dtoi (dec_text n @ CHR ''.'' # r) = Some (n, CHR ''.'' # r)" if "n \<le> 255" for n r
    using that by (intro dtoi_dec_text) (auto simp: dec_digit_dot)
  have final: "dtoi (dec_text n) = Some (n, [])" if "n \<le> 255" for n
    using dtoi_dec_text [of n "[]"] that by simp
  show ?thesis
    using assms by (simp add: parseIPv4_def v4_text_def dot final numeral_3_eq_3)
qed

lemma dec_text_chars: "n \<le> 255 \<Longrightarrow> c \<in> set (dec_text n) \<Longrightarrow> dec_digit c \<noteq> None"
  by (auto simp: dec_text_def Let_def dec_digit_of split: if_splits)

lemma find_first: "\<forall>x \<in> set xs. \<not> P x \<Longrightarrow> P y \<Longrightarrow> find P (xs @ y # ys) = Some y"
  by (induction xs) simp_all

lemma ParseIP_v4_text:
  assumes "a \<le> 255" "b \<le> 255" "c \<le> 255" "d \<le> 255"
  shows "ParseIP (v4_text [a, b, c, d]) = Some (v4_prefix @ [a, b, c, d])"
proof -
  have "find (\<lambda>c. c = CHR ''.'' \<or> c = CHR '':'') (dec_text a @ CHR ''.'' # r) = Some (CHR ''.'')" for r
  proof -
    have "\<forall>x \<in> set (dec_text a). \<not> (x = CHR ''.'' \<or> x = CHR '':'')"
      using dec_text_chars [OF assms(1)] dec_digit_dot dec_digit_colon by metis
    then show ?thesis by (rule find_first) simp
  qed
  then show ?thesis
    using parseIPv4_text [OF assms] by (simp add: ParseIP_def v4_text_def)
qed

text \<open>Addresses in dotted decimal notation count as IPv4.\<close>

lemma isIPv6_v4_text: "a \<le> 255 \<Longrightarrow> b \<le> 255 \<Longrightarrow> c \<le> 255 \<Longrightarrow> d \<le> 255 \<Longrightarrow> \<not> isIPv6 (v4_text [a, b, c, d])"
  by (simp add: isIPv6_def ParseIP_v4_text To4_def v4_prefix_def)

end
