(* ===== verification/Openstack_Metadata.thy ===== *)
theory Openstack_Metadata
  imports Go_Strings
begin

text \<open>
  The instance metadata: \<open>pkg/util/metadata/metadata.go\<close>. The process-wide cache is part of the
  state; the file system, the mounter, \<open>blkid\<close>, HTTP and the decoding of JSON into a struct
  are parameters.
\<close>

record DeviceMetadata =
  dm_Type :: string
  dm_Bus :: string
  dm_Serial :: string
  dm_Address :: string

record Metadata =
  md_UUID :: string
  md_Name :: string
  md_AvailabilityZone :: string
  md_Devices :: "DeviceMetadata list"

definition defaultMetadataVersion :: string where "defaultMetadataVersion = ''latest''"
definition MetadataID :: string where "MetadataID = ''metadataService''"
definition ConfigDriveID :: string where "ConfigDriveID = ''configDrive''"
definition configDriveLabel :: string where "configDriveLabel = ''config-2''"

definition ErrBadMetadata :: gerror where
  "ErrBadMetadata = errors_New ''invalid OpenStack metadata, got empty uuid''"

definition parseMetadata :: "(string \<Rightarrow> Metadata result) \<Rightarrow> string \<Rightarrow> Metadata result" where
  "parseMetadata decode r =
     bindR (decode r) (\<lambda>metadata. if md_UUID metadata = '''' then Err ErrBadMetadata else Ok metadata)"

definition getMetadataURL :: "string \<Rightarrow> string" where
  "getMetadataURL version = ''http://169.254.169.254/openstack/'' @ version @ ''/meta_data.json''"

definition getConfigDrivePath :: "string \<Rightarrow> string" where
  "getConfigDrivePath version = ''openstack/'' @ version @ ''/meta_data.json''"

text \<open>
  The system: \<open>ms_Missing\<close> tells whether \<open>os.Stat\<close> reports that a path does not exist,
  \<open>ms_Open\<close> gives the content of a file, \<open>ms_HttpGet\<close> a status code and a body.
\<close>

record 'w md_sys =
  ms_Missing :: "string \<Rightarrow> ('w, bool) io"
  ms_blkid :: "string \<Rightarrow> ('w, string) io"
  ms_TempDir :: "('w, string) io"
  ms_Remove :: "string \<Rightarrow> ('w, unit) io"
  ms_Mount :: "string \<Rightarrow> string \<Rightarrow> string \<Rightarrow> ('w, unit) io"
  ms_Unmount :: "string \<Rightarrow> ('w, unit) io"
  ms_Open :: "string \<Rightarrow> ('w, string) io"
  ms_HttpGet :: "string \<Rightarrow> ('w, int \<times> string) io"
  ms_Glob :: "string \<Rightarrow> ('w, string list) io"
  ms_decode :: "string \<Rightarrow> Metadata result"

text \<open>A deferred call runs after the rest, whatever the rest returned.\<close>

definition deferred :: "('w, unit) io \<Rightarrow> ('w, 'a) io \<Rightarrow> ('w, 'a) io" where
  "deferred d m w =
     (case m w of (r, w') \<Rightarrow>
        (case d w' of
           (Panic p, w'') \<Rightarrow> (Panic p, w'')
         | (_, w'') \<Rightarrow> (r, w'')))"

definition config_device :: "'w md_sys \<Rightarrow> ('w, string) io" where
  "config_device sys =
     (let dev = ''/dev/disk/by-label/'' @ configDriveLabel in
      bindE (ms_Missing sys dev) (\<lambda>missing.
        if missing then
          bindE (wrapE (\<lambda>e. Errorf ''unable to run blkid: %v'' [FErr e])
                   (ms_blkid sys (''LABEL='' @ configDriveLabel))) (\<lambda>out. ret (TrimSpace out))
        else ret dev))"

definition GetFromConfigDrive :: "'w md_sys \<Rightarrow> string \<Rightarrow> ('w, Metadata) io" where
  "GetFromConfigDrive sys metadataVersion =
     bindE (config_device sys) (\<lambda>dev.
     bindE (ms_TempDir sys) (\<lambda>mntdir.
     deferred (ms_Remove sys mntdir) (
     bindE (attempt (ms_Mount sys dev mntdir ''iso9660'')) (\<lambda>r.
     bindE (case r of
              Inr _ \<Rightarrow> ret ()
            | Inl _ \<Rightarrow> wrapE (\<lambda>e. Errorf ''error mounting configdrive %s: %v'' [FStr dev, FErr e])
                        (ms_Mount sys dev mntdir ''vfat'')) (\<lambda>_.
     deferred (ms_Unmount sys mntdir) (
       let configDrivePath = getConfigDrivePath metadataVersion in
       bindE (wrapE (\<lambda>e. Errorf ''error reading %s on config drive: %v'' [FStr configDrivePath, FErr e])
                (ms_Open sys (mntdir @ ''/'' @ configDrivePath))) (\<lambda>f.
         lift_result (parseMetadata (ms_decode sys) f))))))))"

definition GetFromMetadataService :: "'w md_sys \<Rightarrow> string \<Rightarrow> ('w, Metadata) io" where
  "GetFromMetadataService sys metadataVersion =
     (let metadataURL = getMetadataURL metadataVersion in
      bindE (wrapE (\<lambda>e. Errorf ''error fetching %s: %v'' [FStr metadataURL, FErr e])
               (ms_HttpGet sys metadataURL)) (\<lambda>(code, body).
        if code \<noteq> 200 then
          fail (Errorf ''unexpected status code when reading metadata from %s: %s'' [FStr metadataURL, FInt code])
        else lift_result (parseMetadata (ms_decode sys) body)))"

fun find_device :: "'w md_sys \<Rightarrow> string \<Rightarrow> DeviceMetadata list \<Rightarrow> ('w, string) io" where
  "find_device sys volumeID [] = ret ''''"
| "find_device sys volumeID (device # devices) =
     (if dm_Type device = ''disk'' \<and> dm_Serial device = volumeID then
        bindE (attempt (ms_Glob sys (''/dev/disk/by-path/*-'' @ dm_Bus device @ ''-'' @ dm_Address device))) (\<lambda>r.
          case r of
            Inl _ \<Rightarrow> ret ''''
          | Inr [p] \<Rightarrow> ret p
          | Inr _ \<Rightarrow> find_device sys volumeID devices)
      else find_device sys volumeID devices)"

definition GetDevicePath :: "'w md_sys \<Rightarrow> string \<Rightarrow> ('w, string) io" where
  "GetDevicePath sys volumeID =
     bindE (attempt (GetFromMetadataService sys defaultMetadataVersion)) (\<lambda>r.
       case r of
         Inl _ \<Rightarrow> ret ''''
       | Inr instanceMetadata \<Rightarrow> find_device sys volumeID (md_Devices instanceMetadata))"

section \<open>The cache\<close>

type_synonym 'w cached = "Metadata option \<times> 'w"

definition md_Set :: "Metadata option \<Rightarrow> 'w cached \<Rightarrow> 'w cached" where
  "md_Set v s = (v, snd s)"

definition md_Clear :: "'w cached \<Rightarrow> 'w cached" where
  "md_Clear s = (None, snd s)"

definition bad_search_option :: "string \<Rightarrow> gerror" where
  "bad_search_option x =
     Errorf ''%s is not a valid metadata search order option. Supported options are %s and %s''
       [FStr x, FStr ConfigDriveID, FStr MetadataID]"

definition search_one :: "'w md_sys \<Rightarrow> string \<Rightarrow> ('w, Metadata) io" where
  "search_one sys x =
     (if x = ConfigDriveID then GetFromConfigDrive sys defaultMetadataVersion
      else if x = MetadataID then GetFromMetadataService sys defaultMetadataVersion
      else fail (bad_search_option x))"

text \<open>The sources are tried in order; the error of the last one is returned.\<close>

fun search :: "'w md_sys \<Rightarrow> string list \<Rightarrow> gerror \<Rightarrow> ('w, Metadata) io" where
  "search sys [] err = fail err"
| "search sys (x # elements) err =
     bindE (attempt (search_one sys (TrimSpace x))) (\<lambda>r.
       case r of
         Inr md \<Rightarrow> ret md
       | Inl e \<Rightarrow> search sys elements e)"

text \<open>
  \<open>Get\<close>. A split text has at least one element, so the initial error of the search is never
  returned.
\<close>

definition md_Get :: "'w md_sys \<Rightarrow> string \<Rightarrow> ('w cached, Metadata) io" where
  "md_Get sys order s =
     (case s of
        (Some md, w) \<Rightarrow> (Ok md, s)
      | (None, w) \<Rightarrow>
          (case search sys (strings_Split order (CHR '','')) (errors_New '''') w of
             (Ok md, w') \<Rightarrow> (Ok md, (Some md, w'))
           | (Err e, w') \<Rightarrow> (Err e, (None, w'))
           | (Panic p, w') \<Rightarrow> (Panic p, (None, w'))))"

section \<open>The configured search order\<close>

definition search_order_error :: "string \<Rightarrow> gerror" where
  "search_order_error x =
     Errorf ''invalid element %q found in section [Metadata] with key `search-order`.Supported elements include %q and %q''
       [FStr x, FStr ConfigDriveID, FStr MetadataID]"

fun check_elements :: "string list \<Rightarrow> unit result" where
  "check_elements [] = Ok ()"
| "check_elements (x # xs) =
     (if TrimSpace x = ConfigDriveID \<or> TrimSpace x = MetadataID then check_elements xs
      else Err (search_order_error (TrimSpace x)))"

definition checkMetadataSearchOrder :: "string \<Rightarrow> unit result" where
  "checkMetadataSearchOrder order =
     (if order = '''' then
        Err (errors_New ''invalid value in section [Metadata] with key `search-order`. Value cannot be empty'')
      else
        let elements = strings_Split order (CHR '','') in
        if length elements > 2 then
          Err (errors_New ''invalid value in section [Metadata] with key `search-order`. Value cannot contain more than 2 elements'')
        else check_elements elements)"

section \<open>Properties\<close>

lemma check_elements_Ok:
  "check_elements xs = Ok () \<longleftrightarrow> (\<forall>x \<in> set xs. TrimSpace x = ConfigDriveID \<or> TrimSpace x = MetadataID)"
  by (induction xs) auto

text \<open>Where a source asks, and what the search makes of the answers.\<close>

fun first_success :: "('w \<Rightarrow> 'a result \<times> 'w) list \<Rightarrow> gerror \<Rightarrow> 'w \<Rightarrow> 'a result \<times> 'w" where
  "first_success [] err w = (Err err, w)"
| "first_success (m # ms) err w =
     (case m w of
        (Ok x, w') \<Rightarrow> (Ok x, w')
      | (Err e, w') \<Rightarrow> first_success ms e w'
      | (Panic p, w') \<Rightarrow> (Panic p, w'))"

lemma search_first_success:
  "search sys xs err w = first_success (map (\<lambda>x. search_one sys (TrimSpace x)) xs) err w"
  by (induction xs arbitrary: err w) (auto simp: bindE_def attempt_def split: prod.splits result.splits)

text \<open>
  A search order that the configuration check accepts only names the two known sources:
  with an empty cache, \<open>Get\<close> asks them in the configured order, returns and caches the first
  answer, and otherwise returns the error of the last source, never a complaint about the
  search order; with a filled cache it answers from the cache.
\<close>

theorem md_Get_search_order:
  assumes "checkMetadataSearchOrder order = Ok ()"
  shows "\<exists>sources. sources \<noteq> [] \<and> length sources \<le> 2 \<and>
    set sources \<subseteq> {GetFromConfigDrive sys defaultMetadataVersion, GetFromMetadataService sys defaultMetadataVersion} \<and>
    (\<forall>w. md_Get sys order (None, w) =
       (case first_success sources (errors_New '''') w of
          (Ok md, w') \<Rightarrow> (Ok md, (Some md, w'))
        | (Err e, w') \<Rightarrow> (Err e, (None, w'))
        | (Panic p, w') \<Rightarrow> (Panic p, (None, w')))) \<and>
    (\<forall>md w. md_Get sys order (Some md, w) = (Ok md, (Some md, w)))"
proof -
  let ?xs = "strings_Split order (CHR '','')"
  let ?sources = "map (\<lambda>x. search_one sys (TrimSpace x)) ?xs"
  have len: "length ?xs \<le> 2" and ok: "\<forall>x \<in> set ?xs. TrimSpace x = ConfigDriveID \<or> TrimSpace x = MetadataID"
    using assms check_elements_Ok [of ?xs]
    by (auto simp: checkMetadataSearchOrder_def Let_def split: if_splits)
  have "set ?sources \<subseteq> {GetFromConfigDrive sys defaultMetadataVersion, GetFromMetadataService sys defaultMetadataVersion}"
    using ok by (auto simp: search_one_def)
  moreover have "?sources \<noteq> []" by (simp add: strings_Split_def)
  moreover have "length ?sources \<le> 2" using len by simp
  ultimately show ?thesis
    by (intro exI [of _ ?sources] conjI) (auto simp: md_Get_def search_first_success)
qed

text \<open>A machine without a config drive whose metadata service answers.\<close>

definition demo_md :: Metadata where
  "demo_md = \<lparr> md_UUID = ''83679162'', md_Name = ''test'', md_AvailabilityZone = ''nova'', md_Devices = [] \<rparr>"

definition demo_md_sys :: "'w md_sys" where
  "demo_md_sys = \<lparr> ms_Missing = (\<lambda>_. ret True), ms_blkid = (\<lambda>_. fail (External ''blkid'')), ms_TempDir = ret ''/tmp/c'',
     ms_Remove = (\<lambda>_. ret ()), ms_Mount = (\<lambda>_ _ _. fail (External ''mount'')), ms_Unmount = (\<lambda>_. ret ()),
     ms_Open = (\<lambda>_. fail (External ''open'')), ms_HttpGet = (\<lambda>_. ret (200, ''{}'')), ms_Glob = (\<lambda>_. ret []),
     ms_decode = (\<lambda>_. Ok demo_md) \<rparr>"

theorem md_Get_search_order_witness:
  "(\<exists>sources. sources \<noteq> [] \<and> length sources \<le> 2 \<and>
     set sources \<subseteq> {GetFromConfigDrive demo_md_sys defaultMetadataVersion,
                    GetFromMetadataService demo_md_sys defaultMetadataVersion} \<and>
     md_Get demo_md_sys ''configDrive, metadataService'' (None, ()) =
       (case first_success sources (errors_New '''') () of
          (Ok md, w') \<Rightarrow> (Ok md, (Some md, w'))
        | (Err e, w') \<Rightarrow> (Err e, (None, w'))
        | (Panic p, w') \<Rightarrow> (Panic p, (None, w')))) \<and>
   md_Get demo_md_sys ''configDrive, metadataService'' (None, ()) = (Ok demo_md, (Some demo_md, ()))"
proof
  have "checkMetadataSearchOrder ''configDrive, metadataService'' = Ok ()" by code_simp
  from md_Get_search_order [OF this, of demo_md_sys]
  show "\<exists>sources. sources \<noteq> [] \<and> length sources \<le> 2 \<and>
     set sources \<subseteq> {GetFromConfigDrive demo_md_sys defaultMetadataVersion,
                    GetFromMetadataService demo_md_sys defaultMetadataVersion} \<and>
     md_Get demo_md_sys ''configDrive, metadataService'' (None, ()) =
       (case first_success sources (errors_New '''') () of
          (Ok md, w') \<Rightarrow> (Ok md, (Some md, w'))
        | (Err e, w') \<Rightarrow> (Err e, (None, w'))
        | (Panic p, w') \<Rightarrow> (Panic p, (None, w')))" by blast
  show "md_Get demo_md_sys ''configDrive, metadataService'' (None, ()) = (Ok demo_md, (Some demo_md, ()))"
    by code_simp
qed

end
