(* ===== verification/Openstack_Nodes.thy ===== *)
theory Openstack_Nodes
  imports Go_Net Openstack_Metadata
begin

text \<open>
  Servers, node addresses and instances of the cloud provider: the server half of
  \<open>pkg/cloudprovider/providers/openstack/openstack.go\<close>, \<open>openstack_instances.go\<close> and
  \<open>pkg/apis/core/v1/helper/helpers.go\<close>.

  Nova is a parameter. A paginated list is the list of its pages, each
  the extracted items or an error; \<open>each_page\<close> is gophercloud's \<open>EachPage\<close>, which calls a
  handler until it fails or asks to stop.
\<close>

section \<open>Data\<close>

datatype NodeAddressType = NodeExternalIP | NodeInternalIP | NodeHostName | NodeExternalDNS | NodeInternalDNS

record NodeAddress =
  na_Type :: NodeAddressType
  na_Address :: string

record NetworkingOpts =
  no_IPv6SupportDisabled :: bool
  no_PublicNetworkName :: string
  no_InternalNetworkName :: string

record Address =
  ad_IPType :: string
  ad_Addr :: string

text \<open>A value of the flavor map: a string, or something else.\<close>

datatype flavor_val = FlavorStr string | FlavorOther

text \<open>
  A server with its availability zone. \<open>sv_Addresses\<close> is the decoded address map, in the
  order in which the code ranges over it, or the decoding error.
\<close>

record Server =
  sv_ID :: string
  sv_Name :: string
  sv_Status :: string
  sv_Addresses :: "(string \<times> Address list) list result"
  sv_AccessIPv4 :: string
  sv_AccessIPv6 :: string
  sv_Metadata :: "string \<rightharpoonup> string"
  sv_Flavor :: "string \<rightharpoonup> flavor_val"
  sv_AvailabilityZone :: string

record FixedIP =
  fx_IPAddress :: string
  fx_SubnetID :: string

record Interface =
  if_PortID :: string
  if_FixedIPs :: "FixedIP list"

text \<open>The calls to Nova: listing servers by a name pattern (empty for all), one server, its interfaces.\<close>

record 'w compute_api =
  cp_List :: "string \<Rightarrow> ('w, Server list result list) io"
  cp_Get :: "string \<Rightarrow> ('w, Server) io"
  cp_Interfaces :: "string \<Rightarrow> ('w, Interface list result list) io"

fun each_page :: "('p \<Rightarrow> 's \<Rightarrow> (bool \<times> 's) result) \<Rightarrow> 'p result list \<Rightarrow> 's \<Rightarrow> 's result" where
  "each_page h [] st = Ok st"
| "each_page h (page # pages) st =
     bindR page (\<lambda>p. bindR (h p st) (\<lambda>(cont, st'). if cont then each_page h pages st' else Ok st'))"

section \<open>Addresses of a server\<close>

fun AddToNodeAddresses :: "NodeAddress list \<Rightarrow> NodeAddress list \<Rightarrow> NodeAddress list" where
  "AddToNodeAddresses addresses [] = addresses"
| "AddToNodeAddresses addresses (add # adds) =
     AddToNodeAddresses
       (if list_ex (\<lambda>existing. na_Address existing = na_Address add \<and> na_Type existing = na_Type add) addresses
        then addresses else addresses @ [add]) adds"

definition TypeHostName :: string where "TypeHostName = ''hostname''"

text \<open>The type the code gives to an address of a network, None when the address is skipped.\<close>

definition address_type :: "NetworkingOpts \<Rightarrow> string \<Rightarrow> Address \<Rightarrow> NodeAddressType option" where
  "address_type opts network props =
     (if ad_IPType props = ''floating'' \<or> network = no_PublicNetworkName opts then Some NodeExternalIP
      else if no_InternalNetworkName opts = '''' \<or> network = no_InternalNetworkName opts
      then Some NodeInternalIP
      else None)"

definition add_address :: "NetworkingOpts \<Rightarrow> string \<Rightarrow> Address \<Rightarrow> NodeAddress list \<Rightarrow> NodeAddress list" where
  "add_address opts network props addrs =
     (case address_type opts network props of
        None \<Rightarrow> addrs
      | Some ty \<Rightarrow>
          if \<not> (isIPv6 (ad_Addr props) \<and> no_IPv6SupportDisabled opts)
          then AddToNodeAddresses addrs [\<lparr> na_Type = ty, na_Address = ad_Addr props \<rparr>]
          else addrs)"

definition add_network :: "NetworkingOpts \<Rightarrow> string \<times> Address list \<Rightarrow> NodeAddress list \<Rightarrow> NodeAddress list" where
  "add_network opts nw addrs = fold (add_address opts (fst nw)) (snd nw) addrs"

definition add_if :: "bool \<Rightarrow> NodeAddressType \<Rightarrow> string \<Rightarrow> NodeAddress list \<Rightarrow> NodeAddress list" where
  "add_if cond ty s addrs =
     (if cond then AddToNodeAddresses addrs [\<lparr> na_Type = ty, na_Address = s \<rparr>] else addrs)"

definition srv_hostname :: "Server \<Rightarrow> string" where
  "srv_hostname srv = (case sv_Metadata srv TypeHostName of None \<Rightarrow> '''' | Some h \<Rightarrow> h)"

definition nodeAddresses :: "Server \<Rightarrow> NetworkingOpts \<Rightarrow> NodeAddress list result" where
  "nodeAddresses srv opts =
     bindR (sv_Addresses srv) (\<lambda>addresses.
       let addrs = fold (add_network opts) addresses [];
           addrs = add_if (sv_AccessIPv4 srv \<noteq> '''') NodeExternalIP (sv_AccessIPv4 srv) addrs;
           addrs = add_if (sv_AccessIPv6 srv \<noteq> '''' \<and> \<not> no_IPv6SupportDisabled opts)
                     NodeExternalIP (sv_AccessIPv6 srv) addrs;
           addrs = add_if (srv_hostname srv \<noteq> '''') NodeHostName (srv_hostname srv) addrs
       in Ok addrs)"

section \<open>Finding servers\<close>

definition mapNodeNameToServerName :: "string \<Rightarrow> string" where
  "mapNodeNameToServerName nodeName = nodeName"

definition mapServerToNodeName :: "Server \<Rightarrow> string" where
  "mapServerToNodeName server = ToLower (sv_Name server)"

text \<open>\<open>regexp.QuoteMeta\<close>\<close>

definition QuoteMeta :: "string \<Rightarrow> string" where
  "QuoteMeta s =
     concat (map (\<lambda>c. if c \<in> set (CHR 0x5C # ''.+*?()|[]{}^$'') then [CHR 0x5C, c] else [c]) s)"

text \<open>The handler of \<open>foreachServer\<close> works on a state \<open>st\<close>, the variables it captures.\<close>

fun each_server :: "(Server \<Rightarrow> 's \<Rightarrow> (bool \<times> 's) result) \<Rightarrow> Server list \<Rightarrow> 's \<Rightarrow> (bool \<times> 's) result" where
  "each_server handler [] st = Ok (True, st)"
| "each_server handler (server # s) st =
     bindR (handler server st) (\<lambda>(ok, st'). if \<not> ok then Ok (False, st') else each_server handler s st')"

definition foreachServer ::
    "'w compute_api \<Rightarrow> string \<Rightarrow> (Server \<Rightarrow> 's \<Rightarrow> (bool \<times> 's) result) \<Rightarrow> 's \<Rightarrow> ('w, 's) io" where
  "foreachServer client opts handler st =
     bindE (cp_List client opts) (\<lambda>pages.
       lift_result (each_page (each_server handler) pages st))"

definition collect_servers :: "Server list \<Rightarrow> Server list \<Rightarrow> (bool \<times> Server list) result" where
  "collect_servers s serverList =
     (let serverList' = serverList @ s in
      if length serverList' > 1 then Err ErrMultipleResults else Ok (True, serverList'))"

definition getServerByName :: "'w compute_api \<Rightarrow> string \<Rightarrow> ('w, Server) io" where
  "getServerByName client name =
     bindE (cp_List client (''^'' @ QuoteMeta (mapNodeNameToServerName name) @ ''$'')) (\<lambda>pages.
     lift_result (bindR (each_page collect_servers pages []) (\<lambda>serverList.
       case serverList of [] \<Rightarrow> Err ErrNotFound | srv # _ \<Rightarrow> Ok srv)))"

definition getAddressesByName :: "'w compute_api \<Rightarrow> string \<Rightarrow> NetworkingOpts \<Rightarrow> ('w, NodeAddress list) io" where
  "getAddressesByName client name opts =
     bindE (getServerByName client name) (\<lambda>srv. lift_result (nodeAddresses srv opts))"

definition pick_address :: "NodeAddressType \<Rightarrow> bool \<Rightarrow> NodeAddress list \<Rightarrow> NodeAddress option" where
  "pick_address ty needIPv6 addrs = find (\<lambda>a. na_Type a = ty \<and> isIPv6 (na_Address a) = needIPv6) addrs"

definition getAddressByName ::
    "'w compute_api \<Rightarrow> string \<Rightarrow> bool \<Rightarrow> NetworkingOpts \<Rightarrow> ('w, string) io" where
  "getAddressByName client name needIPv6 opts =
     (if needIPv6 \<and> no_IPv6SupportDisabled opts then fail ErrIPv6SupportDisabled
      else
        bindE (getAddressesByName client name opts) (\<lambda>addrs.
          if length addrs = 0 then fail ErrNoAddressFound
          else case pick_address NodeInternalIP needIPv6 addrs of
            Some a \<Rightarrow> ret (na_Address a)
          | None \<Rightarrow>
              (case pick_address NodeExternalIP needIPv6 addrs of
                 Some a \<Rightarrow> ret (na_Address a)
               | None \<Rightarrow> fail ErrNoAddressFound)))"

definition getAttachedInterfacesByID :: "'w compute_api \<Rightarrow> string \<Rightarrow> ('w, Interface list) io" where
  "getAttachedInterfacesByID client serviceID =
     bindE (cp_Interfaces client serviceID) (\<lambda>pages.
       lift_result (each_page (\<lambda>s interfaces. Ok (True, interfaces @ s)) pages []))"

section \<open>Instances\<close>

definition ProviderName :: string where "ProviderName = ''openstack''"

record 'w Instances =
  in_compute :: "'w compute_api"
  in_SearchOrder :: string
  in_networkingOpts :: NetworkingOpts

definition CurrentNodeName :: "'w md_sys \<Rightarrow> 'w Instances \<Rightarrow> ('w cached, string) io" where
  "CurrentNodeName sys i = bindE (md_Get sys (in_SearchOrder i)) (\<lambda>md. ret (md_Name md))"

definition AddSSHKeyToAllInstances :: "('w, unit) io" where
  "AddSSHKeyToAllInstances = fail NotImplemented"

definition NodeAddresses :: "'w Instances \<Rightarrow> string \<Rightarrow> ('w, NodeAddress list) io" where
  "NodeAddresses i name = getAddressesByName (in_compute i) name (in_networkingOpts i)"

text \<open>The regular expression \<open>^openstack:///([^/]+)$\<close>.\<close>

definition provider_prefix :: string where
  "provider_prefix = ProviderName @ '':///''"

definition instanceIDFromProviderID :: "string \<Rightarrow> string result" where
  "instanceIDFromProviderID providerID =
     (let rest = drop (length provider_prefix) providerID in
      if HasPrefix providerID provider_prefix \<and> rest \<noteq> [] \<and> CHR ''/'' \<notin> set rest then Ok rest
      else Err (Errorf ''ProviderID \"%s\" didn't match expected format \"openstack:///InstanceID\"'' [FStr providerID]))"

definition NodeAddressesByProviderID :: "'w Instances \<Rightarrow> string \<Rightarrow> ('w, NodeAddress list) io" where
  "NodeAddressesByProviderID i providerID =
     bindE (lift_result (instanceIDFromProviderID providerID)) (\<lambda>instanceID.
     bindE (cp_Get (in_compute i) instanceID) (\<lambda>server.
       lift_result (nodeAddresses server (in_networkingOpts i))))"

text \<open>\<open>ErrNotFound\<close> of the package is reported as \<open>cloudprovider.InstanceNotFound\<close>.\<close>

definition instance_error :: "gerror \<Rightarrow> gerror" where
  "instance_error err = (if err = ErrNotFound then InstanceNotFound else err)"

definition ExternalID :: "'w Instances \<Rightarrow> string \<Rightarrow> ('w, string) io" where
  "ExternalID i name = wrapE instance_error (bindE (getServerByName (in_compute i) name) (\<lambda>srv. ret (sv_ID srv)))"

text \<open>\<open>errors.IsNotFound\<close> of \<open>pkg/util/errors\<close>.\<close>

definition IsNotFound :: "gerror \<Rightarrow> bool" where
  "IsNotFound err =
     (case err of
        ErrDefault404 \<Rightarrow> True
      | ErrUnexpectedResponseCode code \<Rightarrow> code = 404
      | _ \<Rightarrow> False)"

definition InstanceExistsByProviderID :: "'w Instances \<Rightarrow> string \<Rightarrow> ('w, bool) io" where
  "InstanceExistsByProviderID i providerID =
     bindE (lift_result (instanceIDFromProviderID providerID)) (\<lambda>instanceID.
     bindE (attempt (cp_Get (in_compute i) instanceID)) (\<lambda>r.
       case r of
         Inl err \<Rightarrow> if IsNotFound err then ret False else fail err
       | Inr _ \<Rightarrow> ret True))"

definition instanceShutoff :: string where "instanceShutoff = ''SHUTOFF''"

definition InstanceShutdownByProviderID :: "'w Instances \<Rightarrow> string \<Rightarrow> ('w, bool) io" where
  "InstanceShutdownByProviderID i providerID =
     bindE (lift_result (instanceIDFromProviderID providerID)) (\<lambda>instanceID.
     bindE (cp_Get (in_compute i) instanceID) (\<lambda>server.
       ret (sv_Status server = instanceShutoff)))"

definition InstanceID :: "'w Instances \<Rightarrow> string \<Rightarrow> ('w, string) io" where
  "InstanceID i name =
     wrapE instance_error (bindE (getServerByName (in_compute i) name) (\<lambda>srv. ret (''/'' @ sv_ID srv)))"

fun flavor_of :: "(string \<rightharpoonup> flavor_val) \<Rightarrow> string list \<Rightarrow> string result" where
  "flavor_of flavor [] = Err (errors_New ''flavor name/id not found'')"
| "flavor_of flavor (key # keys) =
     (case flavor key of
        Some (FlavorStr s) \<Rightarrow> Ok s
      | _ \<Rightarrow> flavor_of flavor keys)"

definition srvInstanceType :: "Server \<Rightarrow> string result" where
  "srvInstanceType srv = flavor_of (sv_Flavor srv) [''name'', ''id'', ''original_name'']"

definition InstanceTypeByProviderID :: "'w Instances \<Rightarrow> string \<Rightarrow> ('w, string) io" where
  "InstanceTypeByProviderID i providerID =
     bindE (lift_result (instanceIDFromProviderID providerID)) (\<lambda>instanceID.
     bindE (cp_Get (in_compute i) instanceID) (\<lambda>server. lift_result (srvInstanceType server)))"

definition InstanceType :: "'w Instances \<Rightarrow> string \<Rightarrow> ('w, string) io" where
  "InstanceType i name =
     bindE (getServerByName (in_compute i) name) (\<lambda>srv. lift_result (srvInstanceType srv))"

section \<open>Lemmas on addresses\<close>

lemma NodeAddress_eq: "na_Address a = na_Address b \<and> na_Type a = na_Type b \<longleftrightarrow> a = (b :: NodeAddress)"
  by (cases a; cases b) auto

lemma AddToNodeAddresses_one:
  "AddToNodeAddresses addrs [a] = (if a \<in> set addrs then addrs else addrs @ [a])"
  by (auto simp: list_ex_iff NodeAddress_eq)

lemma AddToNodeAddresses_set [simp]: "set (AddToNodeAddresses addrs adds) = set addrs \<union> set adds"
  by (induction addrs adds rule: AddToNodeAddresses.induct) (auto simp: list_ex_iff NodeAddress_eq)

lemma AddToNodeAddresses_distinct: "distinct addrs \<Longrightarrow> distinct (AddToNodeAddresses addrs adds)"
  by (induction addrs adds rule: AddToNodeAddresses.induct) (auto simp: list_ex_iff NodeAddress_eq)

declare AddToNodeAddresses.simps [simp del]

text \<open>What one address of a network contributes.\<close>

definition address_of :: "NetworkingOpts \<Rightarrow> string \<Rightarrow> Address \<Rightarrow> NodeAddress set" where
  "address_of opts network props =
     (case address_type opts network props of
        None \<Rightarrow> {}
      | Some ty \<Rightarrow>
          if isIPv6 (ad_Addr props) \<and> no_IPv6SupportDisabled opts then {}
          else {\<lparr> na_Type = ty, na_Address = ad_Addr props \<rparr>})"

definition server_addresses :: "Server \<Rightarrow> NetworkingOpts \<Rightarrow> (string \<times> Address list) set \<Rightarrow> NodeAddress set" where
  "server_addresses srv opts networks =
     (\<Union>(network, props) \<in> networks. \<Union>p \<in> set props. address_of opts network p) \<union>
     (if sv_AccessIPv4 srv \<noteq> '''' then {\<lparr> na_Type = NodeExternalIP, na_Address = sv_AccessIPv4 srv \<rparr>} else {}) \<union>
     (if sv_AccessIPv6 srv \<noteq> '''' \<and> \<not> no_IPv6SupportDisabled opts
      then {\<lparr> na_Type = NodeExternalIP, na_Address = sv_AccessIPv6 srv \<rparr>} else {}) \<union>
     (if srv_hostname srv \<noteq> '''' then {\<lparr> na_Type = NodeHostName, na_Address = srv_hostname srv \<rparr>} else {})"

lemma add_address_set: "set (add_address opts nw p addrs) = set addrs \<union> address_of opts nw p"
  by (auto simp: add_address_def address_of_def split: option.splits)

lemma add_address_distinct: "distinct addrs \<Longrightarrow> distinct (add_address opts nw p addrs)"
  by (auto simp: add_address_def AddToNodeAddresses_distinct split: option.splits)

lemma add_addresses_set:
  "set (fold (add_address opts nw) ps addrs) = set addrs \<union> (\<Union>p \<in> set ps. address_of opts nw p)"
  by (induction ps arbitrary: addrs) (auto simp: add_address_set)

lemma add_addresses_distinct: "distinct addrs \<Longrightarrow> distinct (fold (add_address opts nw) ps addrs)"
  by (induction ps arbitrary: addrs) (auto simp: add_address_distinct)

lemma add_networks_set:
  "set (fold (add_network opts) nws addrs) =
     set addrs \<union> (\<Union>(network, props) \<in> set nws. \<Union>p \<in> set props. address_of opts network p)"
  by (induction nws arbitrary: addrs) (auto simp: add_network_def add_addresses_set)

lemma add_networks_distinct: "distinct addrs \<Longrightarrow> distinct (fold (add_network opts) nws addrs)"
  by (induction nws arbitrary: addrs) (auto simp: add_network_def add_addresses_distinct)

lemma add_if_set: "set (add_if c ty s addrs) = set addrs \<union> (if c then {\<lparr> na_Type = ty, na_Address = s \<rparr>} else {})"
  by (simp add: add_if_def)

lemma add_if_distinct: "distinct addrs \<Longrightarrow> distinct (add_if c ty s addrs)"
  by (simp add: add_if_def AddToNodeAddresses_distinct)

lemma pick_address_Some:
  "pick_address ty v6 addrs = Some a \<Longrightarrow> a \<in> set addrs \<and> na_Type a = ty \<and> isIPv6 (na_Address a) = v6"
  by (auto simp: pick_address_def find_Some_iff)

lemma pick_address_None:
  "pick_address ty v6 addrs = None \<longleftrightarrow> (\<forall>a \<in> set addrs. na_Type a = ty \<longrightarrow> isIPv6 (na_Address a) \<noteq> v6)"
  by (auto simp: pick_address_def find_None_iff)

section \<open>Lemmas on listing\<close>

lemma each_page_all_ok:
  assumes "\<And>p st. h p st = Ok (True, f p st)"
  shows "each_page h (map Ok ps) st = Ok (fold f ps st)"
  by (induction ps arbitrary: st) (simp_all add: assms)

lemma each_page_collect:
  "length acc \<le> 1 \<Longrightarrow> each_page collect_servers (map Ok ps) acc =
     (if length (acc @ concat ps) > 1 then Err ErrMultipleResults else Ok (acc @ concat ps))"
proof (induction ps arbitrary: acc)
  case Nil
  then show ?case by simp
next
  case (Cons p ps)
  show ?case
  proof (cases "length (acc @ p) > 1")
    case True
    then show ?thesis by (simp add: collect_servers_def Let_def)
  next
    case False
    with Cons.IH [of "acc @ p"] show ?thesis by (simp add: collect_servers_def Let_def)
  qed
qed

section \<open>Properties\<close>


text \<open>
  The address of a node for routing has the requested IP family: \<open>getAddressByName\<close> only
  returns an internal address of that family or, if the node has none, an external one, and
  it fails with \<open>ErrNoAddressFound\<close> exactly when the node has neither.
\<close>

theorem getAddressByName_family:
  assumes "getAddressesByName client name opts w = (Ok addrs, w')"
    and "\<not> (needIPv6 \<and> no_IPv6SupportDisabled opts)"
  shows "case getAddressByName client name needIPv6 opts w of
      (Ok s, w'') \<Rightarrow> w'' = w' \<and> isIPv6 s = needIPv6 \<and>
        (\<lparr> na_Type = NodeInternalIP, na_Address = s \<rparr> \<in> set addrs \<or>
         \<lparr> na_Type = NodeExternalIP, na_Address = s \<rparr> \<in> set addrs \<and>
           (\<forall>a \<in> set addrs. na_Type a = NodeInternalIP \<longrightarrow> isIPv6 (na_Address a) \<noteq> needIPv6))
    | (Err e, w'') \<Rightarrow> w'' = w' \<and> e = ErrNoAddressFound \<and>
        (\<forall>a \<in> set addrs. na_Type a \<in> {NodeInternalIP, NodeExternalIP} \<longrightarrow>
           isIPv6 (na_Address a) \<noteq> needIPv6)
    | (Panic _, _) \<Rightarrow> False"
proof -
  consider "addrs = []"
    | a where "addrs \<noteq> []" "pick_address NodeInternalIP needIPv6 addrs = Some a"
    | a where "addrs \<noteq> []" "pick_address NodeInternalIP needIPv6 addrs = None"
        "pick_address NodeExternalIP needIPv6 addrs = Some a"
    | "addrs \<noteq> []" "pick_address NodeInternalIP needIPv6 addrs = None"
        "pick_address NodeExternalIP needIPv6 addrs = None"
    by (cases "pick_address NodeInternalIP needIPv6 addrs";
        cases "pick_address NodeExternalIP needIPv6 addrs") auto
  then show ?thesis
  proof cases
    case 1
    then show ?thesis using assms by (simp add: getAddressByName_def)
  next
    case (2 a)
    then have "\<lparr> na_Type = NodeInternalIP, na_Address = na_Address a \<rparr> = a"
      using pick_address_Some [OF 2(2)] by (simp add: NodeAddress_eq [symmetric])
    then have "\<lparr> na_Type = NodeInternalIP, na_Address = na_Address a \<rparr> \<in> set addrs"
      using pick_address_Some [OF 2(2)] by metis
    with 2 show ?thesis using assms pick_address_Some [OF 2(2)] by (simp add: getAddressByName_def)
  next
    case (3 a)
    then have "\<lparr> na_Type = NodeExternalIP, na_Address = na_Address a \<rparr> = a"
      using pick_address_Some [OF 3(3)] by (simp add: NodeAddress_eq [symmetric])
    then have "\<lparr> na_Type = NodeExternalIP, na_Address = na_Address a \<rparr> \<in> set addrs"
      using pick_address_Some [OF 3(3)] by metis
    with 3 show ?thesis
      using assms pick_address_Some [OF 3(3)] pick_address_None [THEN iffD1, OF 3(2)]
      by (simp add: getAddressByName_def)
  next
    case 4
    then show ?thesis
      using assms pick_address_None [THEN iffD1, OF 4(2)] pick_address_None [THEN iffD1, OF 4(3)]
      by (auto simp: getAddressByName_def)
  qed
qed

text \<open>
  Looking up a server by name: when the listing itself succeeds, the lookup returns the
  server if the listing has exactly one, \<open>ErrNotFound\<close> if it has none and
  \<open>ErrMultipleResults\<close> if it has several, no matter how the servers are spread over pages.
\<close>

theorem getServerByName_unique:
  assumes "cp_List client (''^'' @ QuoteMeta name @ ''$'') w = (Ok (map Ok pages), w')"
  shows "getServerByName client name w =
    (case concat pages of
       [] \<Rightarrow> Err ErrNotFound
     | [srv] \<Rightarrow> Ok srv
     | _ \<Rightarrow> Err ErrMultipleResults, w')"
proof -
  have "getServerByName client name w =
      (bindR (if length (concat pages) > 1 then Err ErrMultipleResults else Ok (concat pages))
         (\<lambda>serverList. case serverList of [] \<Rightarrow> Err ErrNotFound | srv # _ \<Rightarrow> Ok srv), w')"
    using assms each_page_collect [of "[]" pages]
    by (simp add: getServerByName_def mapNodeNameToServerName_def)
  then show ?thesis
    by (cases "concat pages" rule: remdups_adj.cases)
      (simp_all del: concat_eq_Nil_conv Nil_eq_concat_conv)
qed

text \<open>
  Provider ids round trip: the provider id built from what \<open>InstanceID\<close> returns (the
  provider's name, \<open>://\<close> and a slash with the server id) is read back to the server id by
  \<open>instanceIDFromProviderID\<close>, and a provider id is accepted only if it has this form.
\<close>

theorem providerID_roundtrip:
  "instanceIDFromProviderID providerID = Ok i \<longleftrightarrow>
     providerID = ProviderName @ ''://'' @ ''/'' @ i \<and> i \<noteq> '''' \<and> CHR ''/'' \<notin> set i"
  by (auto simp: instanceIDFromProviderID_def Let_def HasPrefix_iff provider_prefix_def)

text \<open>
  A node is reported as gone only when Nova answered that the server does not exist:
  \<open>InstanceExistsByProviderID\<close> returns false without an error exactly when the lookup failed
  with a not-found error. Every other failure is passed on as an error.
\<close>

theorem InstanceExists_false_iff:
  "InstanceExistsByProviderID i providerID w = (Ok False, w') \<longleftrightarrow>
     (\<exists>instanceID err. instanceIDFromProviderID providerID = Ok instanceID \<and>
        cp_Get (in_compute i) instanceID w = (Err err, w') \<and> IsNotFound err)"
proof (cases "instanceIDFromProviderID providerID")
  case (Ok instanceID)
  then show ?thesis
    by (cases "cp_Get (in_compute i) instanceID w"; cases "fst (cp_Get (in_compute i) instanceID w)")
      (auto simp: InstanceExistsByProviderID_def)
qed (simp_all add: InstanceExistsByProviderID_def)

section \<open>Witnesses\<close>

definition demo_server :: Server where
  "demo_server = \<lparr> sv_ID = ''s-1'', sv_Name = ''Node-1'', sv_Status = ''ACTIVE'',
     sv_Addresses = Ok [(''private'', [\<lparr> ad_IPType = ''fixed'', ad_Addr = ''10.0.0.7'' \<rparr>,
                                      \<lparr> ad_IPType = ''floating'', ad_Addr = ''50.56.176.36'' \<rparr>]),
                        (''public'', [\<lparr> ad_IPType = '''', ad_Addr = ''50.56.176.35'' \<rparr>])],
     sv_AccessIPv4 = ''50.56.176.36'', sv_AccessIPv6 = '''', sv_Metadata = [TypeHostName \<mapsto> ''node-1''],
     sv_Flavor = [''id'' \<mapsto> FlavorStr ''m1''], sv_AvailabilityZone = ''nova'' \<rparr>"

definition demo_networking :: NetworkingOpts where
  "demo_networking = \<lparr> no_IPv6SupportDisabled = False, no_PublicNetworkName = ''public'', no_InternalNetworkName = '''' \<rparr>"

definition demo_compute :: "'w compute_api" where
  "demo_compute = \<lparr> cp_List = (\<lambda>_. ret [Ok [], Ok [demo_server]]), cp_Get = (\<lambda>_. ret demo_server),
     cp_Interfaces = (\<lambda>_. ret [Ok [\<lparr> if_PortID = ''port-1'', if_FixedIPs = [\<lparr> fx_IPAddress = ''10.0.0.7'', fx_SubnetID = ''subnet-1'' \<rparr>] \<rparr>]]) \<rparr>"

lemma demo_v4_texts:
  "v4_text [10, 0, 0, 7] = ''10.0.0.7''" "v4_text [50, 56, 176, 36] = ''50.56.176.36''"
  "v4_text [50, 56, 176, 35] = ''50.56.176.35''"
  by code_simp+

lemma demo_not_IPv6: "\<not> isIPv6 ''10.0.0.7''" "\<not> isIPv6 ''50.56.176.36''" "\<not> isIPv6 ''50.56.176.35''"
  by (simp_all only: demo_v4_texts [symmetric], simp_all add: isIPv6_v4_text)

definition demo_addrs :: "NodeAddress list" where
  "demo_addrs =
     [\<lparr> na_Type = NodeInternalIP, na_Address = ''10.0.0.7'' \<rparr>,
      \<lparr> na_Type = NodeExternalIP, na_Address = ''50.56.176.36'' \<rparr>,
      \<lparr> na_Type = NodeExternalIP, na_Address = ''50.56.176.35'' \<rparr>,
      \<lparr> na_Type = NodeHostName, na_Address = ''node-1'' \<rparr>]"

lemma demo_nodeAddresses: "nodeAddresses demo_server demo_networking = Ok demo_addrs"
  by (simp add: nodeAddresses_def demo_server_def demo_networking_def add_network_def add_address_def
      address_type_def add_if_def AddToNodeAddresses_one demo_not_IPv6 srv_hostname_def demo_addrs_def Let_def)


lemma demo_getServerByName: "getServerByName demo_compute name w = (Ok demo_server, w)"
  by (simp add: getServerByName_def demo_compute_def collect_servers_def)

lemma demo_getAddressesByName:
  "getAddressesByName demo_compute name demo_networking w = (Ok demo_addrs, w)"
  by (simp add: getAddressesByName_def demo_getServerByName demo_nodeAddresses)

lemma demo_getAddressByName:
  "getAddressByName demo_compute name False demo_networking w = (Ok ''10.0.0.7'', w)"
  by (simp add: getAddressByName_def demo_getAddressesByName pick_address_def demo_addrs_def demo_not_IPv6)

theorem getAddressByName_family_witness:
  "case getAddressByName demo_compute ''node-1'' False demo_networking () of
      (Ok s, _) \<Rightarrow> isIPv6 s = False \<and> s = ''10.0.0.7'' | _ \<Rightarrow> False"
  using getAddressByName_family [OF demo_getAddressesByName [of "''node-1''" "()"], of False]
  by (simp add: demo_getAddressByName demo_not_IPv6)

theorem getServerByName_unique_witness:
  "getServerByName demo_compute ''node-1'' () = (Ok demo_server, ())"
  using getServerByName_unique [of demo_compute "''node-1''" "()" "[[], [demo_server]]" "()"]
  by (simp add: demo_compute_def)

end
