(* ===== verification/Openstack_Config.thy ===== *)
theory Openstack_Config
  imports Openstack_Nodes
begin

text \<open>
  Configuration and start-up of the cloud provider: the remaining half of
  \<open>pkg/cloudprovider/providers/openstack/openstack.go\<close> and \<open>openstack_client.go\<close>. The
  environment, the configuration file (gcfg), \<open>clouds.yaml\<close>, the certificate pool and the
  client constructors of gophercloud are parameters; durations are integers.
\<close>

section \<open>Configuration\<close>

record LoadBalancerOpts =
  lb_LBVersion :: string
  lb_UseOctavia :: bool
  lb_SubnetID :: string
  lb_FloatingNetworkID :: string
  lb_LBMethod :: string
  lb_LBProvider :: string
  lb_CreateMonitor :: bool
  lb_MonitorDelay :: int
  lb_MonitorTimeout :: int
  lb_MonitorMaxRetries :: nat
  lb_ManageSecurityGroups :: bool
  lb_NodeSecurityGroupIDs :: "string list"
  lb_InternalLB :: bool

record BlockStorageOpts =
  bs_BSVersion :: string
  bs_TrustDevicePath :: bool
  bs_IgnoreVolumeAZ :: bool

record RouterOpts =
  ro_RouterID :: string

record MetadataOpts =
  mo_SearchOrder :: string
  mo_RequestTimeout :: int

record os_Global =
  gl_AuthURL :: string
  gl_Username :: string
  gl_UserID :: string
  gl_Password :: string
  gl_TenantID :: string
  gl_TenantName :: string
  gl_TrustID :: string
  gl_DomainID :: string
  gl_DomainName :: string
  gl_Region :: string
  gl_CAFile :: string
  gl_UseClouds :: bool
  gl_CloudsFile :: string
  gl_Cloud :: string

record os_Config =
  oc_Global :: os_Global
  oc_LoadBalancer :: LoadBalancerOpts
  oc_BlockStorage :: BlockStorageOpts
  oc_Route :: RouterOpts
  oc_Metadata :: MetadataOpts
  oc_Networking :: NetworkingOpts

definition empty_LoadBalancerOpts :: LoadBalancerOpts where
  "empty_LoadBalancerOpts =
     \<lparr> lb_LBVersion = '''', lb_UseOctavia = False, lb_SubnetID = '''', lb_FloatingNetworkID = '''',
       lb_LBMethod = '''', lb_LBProvider = '''', lb_CreateMonitor = False, lb_MonitorDelay = 0,
       lb_MonitorTimeout = 0, lb_MonitorMaxRetries = 0, lb_ManageSecurityGroups = False,
       lb_NodeSecurityGroupIDs = [], lb_InternalLB = False \<rparr>"

definition or_else :: "string \<Rightarrow> string \<Rightarrow> string" where
  "or_else a b = (if a = '''' then b else a)"

definition default_search_order :: string where
  "default_search_order = ConfigDriveID @ '','' @ MetadataID"

definition configFromEnv :: "(string \<Rightarrow> string) \<Rightarrow> os_Config \<times> bool" where
  "configFromEnv Getenv =
     (let g = \<lparr> gl_AuthURL = Getenv ''OS_AUTH_URL'', gl_Username = Getenv ''OS_USERNAME'',
                gl_UserID = Getenv ''OS_USER_ID'', gl_Password = Getenv ''OS_PASSWORD'',
                gl_TenantID = or_else (Getenv ''OS_TENANT_ID'') (Getenv ''OS_PROJECT_ID''),
                gl_TenantName = or_else (Getenv ''OS_TENANT_NAME'') (Getenv ''OS_PROJECT_NAME''),
                gl_TrustID = Getenv ''OS_TRUST_ID'',
                gl_DomainID = or_else (Getenv ''OS_DOMAIN_ID'') (Getenv ''OS_USER_DOMAIN_ID''),
                gl_DomainName = or_else (Getenv ''OS_DOMAIN_NAME'') (Getenv ''OS_USER_DOMAIN_NAME''),
                gl_Region = Getenv ''OS_REGION_NAME'', gl_CAFile = '''', gl_UseClouds = False,
                gl_CloudsFile = '''', gl_Cloud = '''' \<rparr>;
          ok = gl_AuthURL g \<noteq> '''' \<and> gl_Username g \<noteq> '''' \<and> gl_Password g \<noteq> '''' \<and>
               (gl_TenantID g \<noteq> '''' \<or> gl_TenantName g \<noteq> '''' \<or> gl_DomainID g \<noteq> '''' \<or>
                gl_DomainName g \<noteq> '''' \<or> gl_Region g \<noteq> '''' \<or> gl_UserID g \<noteq> '''' \<or> gl_TrustID g \<noteq> '''')
      in (\<lparr> oc_Global = g, oc_LoadBalancer = empty_LoadBalancerOpts,
            oc_BlockStorage = \<lparr> bs_BSVersion = ''auto'', bs_TrustDevicePath = False, bs_IgnoreVolumeAZ = False \<rparr>,
            oc_Route = \<lparr> ro_RouterID = '''' \<rparr>,
            oc_Metadata = \<lparr> mo_SearchOrder = default_search_order, mo_RequestTimeout = 0 \<rparr>,
            oc_Networking = \<lparr> no_IPv6SupportDisabled = False, no_PublicNetworkName = ''public'',
                              no_InternalNetworkName = '''' \<rparr> \<rparr>, ok))"

definition replaceEmpty :: "string \<Rightarrow> string \<Rightarrow> string" where
  "replaceEmpty a b = (if a = '''' then b else a)"

record AuthInfo =
  ai_AuthURL :: string
  ai_Username :: string
  ai_UserID :: string
  ai_Password :: string
  ai_ProjectID :: string
  ai_ProjectName :: string
  ai_UserDomainID :: string
  ai_UserDomainName :: string

record Cloud =
  cl_AuthInfo :: "AuthInfo option"
  cl_RegionName :: string
  cl_CACertFile :: string

definition no_clouds_yaml :: gerror where
  "no_clouds_yaml = External ''unable to load clouds.yaml: no clouds.yaml file found''"

text \<open>\<open>GetCloudFromYAML\<close> returns a pointer and an error; it is given the name of the cloud.\<close>

definition ReadClouds :: "(string \<Rightarrow> Cloud option \<times> gerror option) \<Rightarrow> os_Config \<Rightarrow> os_Config result" where
  "ReadClouds GetCloudFromYAML cfg =
     (let g = oc_Global cfg; (cloud, err) = GetCloudFromYAML (gl_Cloud g) in
      case (err, err = Some no_clouds_yaml) of
        (Some e, False) \<Rightarrow> Err e
      | _ \<Rightarrow>
          (case cloud of
             None \<Rightarrow> Panic ''nil pointer dereference''
           | Some c \<Rightarrow>
               (case cl_AuthInfo c of
                  None \<Rightarrow> Panic ''nil pointer dereference''
                | Some a \<Rightarrow>
                    Ok (cfg\<lparr> oc_Global := g\<lparr>
                      gl_AuthURL := replaceEmpty (gl_AuthURL g) (ai_AuthURL a),
                      gl_Username := replaceEmpty (gl_Username g) (ai_Username a),
                      gl_UserID := replaceEmpty (gl_UserID g) (ai_UserID a),
                      gl_Password := replaceEmpty (gl_Password g) (ai_Password a),
                      gl_TenantID := replaceEmpty (gl_TenantID g) (ai_ProjectID a),
                      gl_TenantName := replaceEmpty (gl_TenantName g) (ai_ProjectName a),
                      gl_DomainID := replaceEmpty (gl_DomainID g) (ai_UserDomainID a),
                      gl_DomainName := replaceEmpty (gl_DomainName g) (ai_UserDomainName a),
                      gl_Region := replaceEmpty (gl_Region g) (cl_RegionName c),
                      gl_CAFile := replaceEmpty (gl_CAFile g) (cl_CACertFile c) \<rparr> \<rparr>))))"

text \<open>
  \<open>ReadInto\<close> is gcfg's decoder over the defaults, with its fatal error; \<open>clouds\<close> is the clouds
  file lookup, given the value set for \<open>OS_CLIENT_CONFIG_FILE\<close>, if any. No reader is None.
\<close>

definition ReadConfig ::
    "(string \<Rightarrow> string) \<Rightarrow> ('r \<Rightarrow> os_Config \<Rightarrow> os_Config \<times> gerror option) \<Rightarrow>
     (string option \<Rightarrow> string \<Rightarrow> Cloud option \<times> gerror option) \<Rightarrow> 'r option \<Rightarrow> os_Config result" where
  "ReadConfig Getenv ReadInto clouds config =
     (case config of
        None \<Rightarrow> Err (errors_New ''no OpenStack cloud provider config file given'')
      | Some r \<Rightarrow>
          (let cfg = fst (configFromEnv Getenv);
               cfg = cfg\<lparr> oc_BlockStorage := \<lparr> bs_BSVersion = ''auto'', bs_TrustDevicePath = False, bs_IgnoreVolumeAZ = False \<rparr>,
                           oc_Metadata := (oc_Metadata cfg)\<lparr> mo_SearchOrder := default_search_order \<rparr>,
                           oc_Networking := (oc_Networking cfg)\<lparr> no_IPv6SupportDisabled := False, no_PublicNetworkName := ''public'' \<rparr>,
                           oc_LoadBalancer := (oc_LoadBalancer cfg)\<lparr> lb_InternalLB := False \<rparr> \<rparr>;
               (cfg, err) = ReadInto r cfg
           in if gl_UseClouds (oc_Global cfg) then
                ReadClouds (clouds (if gl_CloudsFile (oc_Global cfg) \<noteq> '''' then Some (gl_CloudsFile (oc_Global cfg)) else None)) cfg
              else case err of None \<Rightarrow> Ok cfg | Some e \<Rightarrow> Err e))"

section \<open>Start-up\<close>

record AuthOpts =
  au_IdentityEndpoint :: string
  au_Username :: string
  au_UserID :: string
  au_Password :: string
  au_TenantID :: string
  au_TenantName :: string
  au_DomainID :: string
  au_DomainName :: string
  au_AllowReauth :: bool

definition toAuthOptions :: "os_Config \<Rightarrow> AuthOpts" where
  "toAuthOptions cfg = (let g = oc_Global cfg in
     \<lparr> au_IdentityEndpoint = gl_AuthURL g, au_Username = gl_Username g, au_UserID = gl_UserID g,
       au_Password = gl_Password g, au_TenantID = gl_TenantID g, au_TenantName = gl_TenantName g,
       au_DomainID = gl_DomainID g, au_DomainName = gl_DomainName g, au_AllowReauth = True \<rparr>)"

definition toAuth3Options :: "os_Config \<Rightarrow> AuthOpts" where
  "toAuth3Options cfg = (let g = oc_Global cfg in
     \<lparr> au_IdentityEndpoint = gl_AuthURL g, au_Username = gl_Username g, au_UserID = gl_UserID g,
       au_Password = gl_Password g, au_TenantID = '''', au_TenantName = '''',
       au_DomainID = gl_DomainID g, au_DomainName = gl_DomainName g, au_AllowReauth = True \<rparr>)"

record 'prov OpenStack =
  os_provider :: 'prov
  os_region :: string
  os_lbOpts :: LoadBalancerOpts
  os_bsOpts :: BlockStorageOpts
  os_routeOpts :: RouterOpts
  os_metadataOpts :: MetadataOpts
  os_networkingOpts :: NetworkingOpts
  os_localInstanceID :: string

definition checkOpenStackOpts :: "'prov OpenStack \<Rightarrow> unit result" where
  "checkOpenStackOpts os =
     (let lbOpts = os_lbOpts os in
      if lb_CreateMonitor lbOpts \<and> lb_MonitorDelay lbOpts = 0
      then Err (errors_New ''monitor-delay not set in cloud provider config'')
      else if lb_CreateMonitor lbOpts \<and> lb_MonitorTimeout lbOpts = 0
      then Err (errors_New ''monitor-timeout not set in cloud provider config'')
      else if lb_CreateMonitor lbOpts \<and> lb_MonitorMaxRetries lbOpts = 0
      then Err (errors_New ''monitor-max-retries not set in cloud provider config'')
      else checkMetadataSearchOrder (mo_SearchOrder (os_metadataOpts os)))"

record ('w, 'prov, 'pool) os_auth =
  oa_NewClient :: "string \<Rightarrow> ('w, 'prov) io"
  oa_NewPool :: "string \<Rightarrow> ('w, 'pool) io"
  oa_SetTransport :: "'prov \<Rightarrow> 'pool \<Rightarrow> 'prov"
  oa_AuthenticateV3 :: "'prov \<Rightarrow> string \<Rightarrow> AuthOpts \<Rightarrow> ('w, 'prov) io"
  oa_Authenticate :: "'prov \<Rightarrow> AuthOpts \<Rightarrow> ('w, 'prov) io"
  oa_SetTimeout :: "'prov \<Rightarrow> int \<Rightarrow> 'prov"

definition defaultTimeOut :: int where "defaultTimeOut = 60 * 10 ^ 9"

definition NewOpenStack :: "('w, 'prov, 'pool) os_auth \<Rightarrow> os_Config \<Rightarrow> ('w, 'prov OpenStack) io" where
  "NewOpenStack lib cfg =
     (let g = oc_Global cfg in
      bindE (oa_NewClient lib (gl_AuthURL g)) (\<lambda>provider.
      bindE (if gl_CAFile g \<noteq> '''' then
               bindE (oa_NewPool lib (gl_CAFile g)) (\<lambda>roots. ret (oa_SetTransport lib provider roots))
             else ret provider) (\<lambda>provider.
      bindE (if gl_TrustID g \<noteq> '''' then oa_AuthenticateV3 lib provider (gl_TrustID g) (toAuth3Options cfg)
             else oa_Authenticate lib provider (toAuthOptions cfg)) (\<lambda>provider.
        let timeout = (if mo_RequestTimeout (oc_Metadata cfg) = 0 then defaultTimeOut
                       else mo_RequestTimeout (oc_Metadata cfg));
            os = \<lparr> os_provider = oa_SetTimeout lib provider timeout, os_region = gl_Region g,
                   os_lbOpts = oc_LoadBalancer cfg, os_bsOpts = oc_BlockStorage cfg,
                   os_routeOpts = oc_Route cfg,
                   os_metadataOpts = (oc_Metadata cfg)\<lparr> mo_RequestTimeout := timeout \<rparr>,
                   os_networkingOpts = oc_Networking cfg, os_localInstanceID = '''' \<rparr>
        in bindE (lift_result (checkOpenStackOpts os)) (\<lambda>_. ret os)))))"

section \<open>Clients\<close>

record ('w, 'prov, 'client) os_clients =
  ol_Network :: "'prov \<Rightarrow> string \<Rightarrow> ('w, 'client) io"
  ol_Compute :: "'prov \<Rightarrow> string \<Rightarrow> ('w, 'client) io"
  ol_BlockStorageV1 :: "'prov \<Rightarrow> string \<Rightarrow> ('w, 'client) io"
  ol_BlockStorageV2 :: "'prov \<Rightarrow> string \<Rightarrow> ('w, 'client) io"
  ol_BlockStorageV3 :: "'prov \<Rightarrow> string \<Rightarrow> ('w, 'client) io"
  ol_LoadBalancer :: "'prov \<Rightarrow> string \<Rightarrow> ('w, 'client) io"

definition client_for :: "string \<Rightarrow> ('prov \<Rightarrow> string \<Rightarrow> ('w, 'client) io) \<Rightarrow> 'prov OpenStack \<Rightarrow> ('w, 'client) io" where
  "client_for msg new os =
     wrapE (\<lambda>e. Errorf msg [FStr (os_region os), FErr e]) (new (os_provider os) (os_region os))"

definition NewNetworkV2 :: "('w, 'prov, 'client) os_clients \<Rightarrow> 'prov OpenStack \<Rightarrow> ('w, 'client) io" where
  "NewNetworkV2 lib = client_for ''failed to find network v2 endpoint for region %s: %v'' (ol_Network lib)"

definition NewComputeV2 :: "('w, 'prov, 'client) os_clients \<Rightarrow> 'prov OpenStack \<Rightarrow> ('w, 'client) io" where
  "NewComputeV2 lib = client_for ''failed to find compute v2 endpoint for region %s: %v'' (ol_Compute lib)"

definition NewBlockStorageV1 :: "('w, 'prov, 'client) os_clients \<Rightarrow> 'prov OpenStack \<Rightarrow> ('w, 'client) io" where
  "NewBlockStorageV1 lib = client_for ''unable to initialize cinder v1 client for region %s: %v'' (ol_BlockStorageV1 lib)"

definition NewBlockStorageV2 :: "('w, 'prov, 'client) os_clients \<Rightarrow> 'prov OpenStack \<Rightarrow> ('w, 'client) io" where
  "NewBlockStorageV2 lib = client_for ''unable to initialize cinder v2 client for region %s: %v'' (ol_BlockStorageV2 lib)"

definition NewBlockStorageV3 :: "('w, 'prov, 'client) os_clients \<Rightarrow> 'prov OpenStack \<Rightarrow> ('w, 'client) io" where
  "NewBlockStorageV3 lib = client_for ''unable to initialize cinder v3 client for region %s: %v'' (ol_BlockStorageV3 lib)"

definition NewLoadBalancerV2 :: "('w, 'prov, 'client) os_clients \<Rightarrow> 'prov OpenStack \<Rightarrow> ('w, 'client) io" where
  "NewLoadBalancerV2 lib os =
     client_for ''failed to find load-balancer v2 endpoint for region %s: %v''
       (if lb_UseOctavia (os_lbOpts os) then ol_LoadBalancer lib else ol_Network lib) os"

datatype 'client volume_service =
    VolumesV1 'client BlockStorageOpts
  | VolumesV2 'client BlockStorageOpts
  | VolumesV3 'client BlockStorageOpts

definition autodetection_failed :: gerror where
  "autodetection_failed = errors_New ''BlockStorage API version autodetection failed. Please set it explicitly in cloud.conf in section [BlockStorage] with key `bs-version`''"

definition volumeService ::
    "('w, 'prov, 'client) os_clients \<Rightarrow> 'prov OpenStack \<Rightarrow> string \<Rightarrow> ('w, 'client volume_service) io" where
  "volumeService lib os forceVersion =
     (let bsOpts = os_bsOpts os;
          bsVersion = (if forceVersion = '''' then bs_BSVersion bsOpts else forceVersion)
      in if bsVersion = ''v1'' then bindE (NewBlockStorageV1 lib os) (\<lambda>c. ret (VolumesV1 c bsOpts))
         else if bsVersion = ''v2'' then bindE (NewBlockStorageV2 lib os) (\<lambda>c. ret (VolumesV2 c bsOpts))
         else if bsVersion = ''v3'' then bindE (NewBlockStorageV3 lib os) (\<lambda>c. ret (VolumesV3 c bsOpts))
         else if bsVersion = ''auto'' then
           bindE (attempt (NewBlockStorageV3 lib os)) (\<lambda>r3.
             case r3 of Inr c \<Rightarrow> ret (VolumesV3 c bsOpts)
             | Inl _ \<Rightarrow> bindE (attempt (NewBlockStorageV2 lib os)) (\<lambda>r2.
                 case r2 of Inr c \<Rightarrow> ret (VolumesV2 c bsOpts)
                 | Inl _ \<Rightarrow> bindE (attempt (NewBlockStorageV1 lib os)) (\<lambda>r1.
                     case r1 of Inr c \<Rightarrow> ret (VolumesV1 c bsOpts)
                     | Inl _ \<Rightarrow> fail autodetection_failed)))
         else fail (Errorf ''Config error: unrecognised bs-version %q'' [FStr (bs_BSVersion bsOpts)]))"

section \<open>Entry points\<close>

text \<open>\<open>compute_of\<close> is the Nova interface of a service client, \<open>extensions\<close> lists Neutron's extensions.\<close>

definition GetNodeNameByID ::
    "('w, 'prov, 'client) os_clients \<Rightarrow> ('client \<Rightarrow> 'w compute_api) \<Rightarrow> 'prov OpenStack \<Rightarrow> string \<Rightarrow> ('w, string) io" where
  "GetNodeNameByID lib compute_of os instanceID =
     bindE (NewComputeV2 lib os) (\<lambda>client.
     bindE (cp_Get (compute_of client) instanceID) (\<lambda>server. ret (mapServerToNodeName server)))"

definition os_Instances ::
    "('w, 'prov, 'client) os_clients \<Rightarrow> ('client \<Rightarrow> 'w compute_api) \<Rightarrow> 'prov OpenStack \<Rightarrow> ('w, 'w Instances option) io" where
  "os_Instances lib compute_of os =
     bindE (attempt (NewComputeV2 lib os)) (\<lambda>r.
       case r of
         Inl _ \<Rightarrow> ret None
       | Inr compute \<Rightarrow>
           ret (Some \<lparr> in_compute = compute_of compute, in_SearchOrder = mo_SearchOrder (os_metadataOpts os),
                       in_networkingOpts = os_networkingOpts os \<rparr>))"

record Zone =
  zo_FailureDomain :: string
  zo_Region :: string

definition GetZone :: "'w md_sys \<Rightarrow> 'prov OpenStack \<Rightarrow> ('w cached, Zone) io" where
  "GetZone sys os =
     bindE (md_Get sys (mo_SearchOrder (os_metadataOpts os))) (\<lambda>md.
       ret \<lparr> zo_FailureDomain = md_AvailabilityZone md, zo_Region = os_region os \<rparr>)"

definition GetZoneByProviderID ::
    "('w, 'prov, 'client) os_clients \<Rightarrow> ('client \<Rightarrow> 'w compute_api) \<Rightarrow> 'prov OpenStack \<Rightarrow> string \<Rightarrow> ('w, Zone) io" where
  "GetZoneByProviderID lib compute_of os providerID =
     bindE (lift_result (instanceIDFromProviderID providerID)) (\<lambda>instanceID.
     bindE (NewComputeV2 lib os) (\<lambda>compute.
     bindE (cp_Get (compute_of compute) instanceID) (\<lambda>srv.
       ret \<lparr> zo_FailureDomain = sv_AvailabilityZone srv, zo_Region = os_region os \<rparr>)))"

definition GetZoneByNodeName ::
    "('w, 'prov, 'client) os_clients \<Rightarrow> ('client \<Rightarrow> 'w compute_api) \<Rightarrow> 'prov OpenStack \<Rightarrow> string \<Rightarrow> ('w, Zone) io" where
  "GetZoneByNodeName lib compute_of os nodeName =
     bindE (NewComputeV2 lib os) (\<lambda>compute.
     bindE (wrapE instance_error (getServerByName (compute_of compute) nodeName)) (\<lambda>srv.
       ret \<lparr> zo_FailureDomain = sv_AvailabilityZone srv, zo_Region = os_region os \<rparr>))"

text \<open>The three service clients of a load balancer, or None when load balancing is not claimed.\<close>

definition os_LoadBalancer ::
    "('w, 'prov, 'client) os_clients \<Rightarrow> 'prov OpenStack \<Rightarrow> ('w, ('client \<times> 'client \<times> 'client \<times> LoadBalancerOpts) option) io" where
  "os_LoadBalancer lib os =
     (if os_lbOpts os = empty_LoadBalancerOpts then ret None
      else
        bindE (attempt (NewNetworkV2 lib os)) (\<lambda>n. case n of Inl _ \<Rightarrow> ret None | Inr network \<Rightarrow>
        bindE (attempt (NewComputeV2 lib os)) (\<lambda>c. case c of Inl _ \<Rightarrow> ret None | Inr compute \<Rightarrow>
        bindE (attempt (NewLoadBalancerV2 lib os)) (\<lambda>l. case l of Inl _ \<Rightarrow> ret None | Inr lb \<Rightarrow>
          if lb_LBVersion (os_lbOpts os) \<noteq> '''' \<and> lb_LBVersion (os_lbOpts os) \<noteq> ''v2'' then ret None
          else ret (Some (network, compute, lb, os_lbOpts os))))))"

definition instance_id_file :: string where
  "instance_id_file = ''/var/lib/cloud/data/instance-id''"

text \<open>
  \<open>readInstanceID\<close> with the two sources as actions. When both calls fail the error of the
  second is returned; the error variable is reused, so after a successful read of an unusable
  file the function returns the empty id and no error.
\<close>

definition readInstanceID :: "('w, Metadata) io \<Rightarrow> (string \<Rightarrow> ('w, string) io) \<Rightarrow> ('w, string) io" where
  "readInstanceID metadata_Get ReadFile =
     bindE (attempt metadata_Get) (\<lambda>r.
       case r of
         Inr md \<Rightarrow> ret (md_UUID md)
       | Inl _ \<Rightarrow>
           bindE (attempt (ReadFile instance_id_file)) (\<lambda>f.
             case f of
               Inr idBytes \<Rightarrow>
                 (let instanceID = TrimSpace idBytes in
                  if instanceID \<noteq> '''' \<and> instanceID \<noteq> ''iid-datasource-none'' then ret instanceID
                  else ret '''')
             | Inl err \<Rightarrow> fail err))"

text \<open>\<open>OpenStack.InstanceID\<close> caches what it read in the provider object, here the first component of the state.\<close>

definition os_InstanceID ::
    "('w, Metadata) io \<Rightarrow> (string \<Rightarrow> ('w, string) io) \<Rightarrow> ('prov OpenStack \<times> 'w, string) io" where
  "os_InstanceID metadata_Get ReadFile s =
     (case s of (os, w) \<Rightarrow>
        if length (os_localInstanceID os) = 0 then
          (case readInstanceID metadata_Get ReadFile w of
             (Ok i, w') \<Rightarrow> (Ok i, (os\<lparr> os_localInstanceID := i \<rparr>, w'))
           | (Err e, w') \<Rightarrow> (Err e, (os, w'))
           | (Panic p, w') \<Rightarrow> (Panic p, (os, w')))
        else (Ok (os_localInstanceID os), (os, w)))"

section \<open>Properties\<close>

text \<open>
  The instance id may come out empty without an error: when the metadata sources fail and
  the cloud-init file can be read but holds only white space or the placeholder
  \<open>iid-datasource-none\<close>, \<open>InstanceID\<close> reports success with the empty id.
\<close>

theorem InstanceID_empty:
  assumes "metadata_Get w = (Err e, w1)" and "ReadFile instance_id_file w1 = (Ok content, w2)"
    and "TrimSpace content \<in> {'''', ''iid-datasource-none''}" and "os_localInstanceID os = ''''"
  shows "fst (os_InstanceID metadata_Get ReadFile (os, w)) = Ok ''''"
  using assms by (auto simp: os_InstanceID_def readInstanceID_def Let_def)

text \<open>
  A missing \<open>clouds.yaml\<close> is meant to be tolerated, but when the lookup returns no cloud
  together with that error, as it does for every error, reading the configuration with
  \<open>use-clouds\<close> set panics.
\<close>

theorem ReadConfig_missing_clouds_panics:
  assumes "ReadInto r (fst (configFromEnv Getenv)) = (cfg, None)" and "gl_UseClouds (oc_Global cfg)"
    and "\<And>file name. clouds file name = (None, Some no_clouds_yaml)"
  shows "ReadConfig Getenv ReadInto clouds (Some r) = Panic ''nil pointer dereference''"
proof -
  have "(let cfg = fst (configFromEnv Getenv) in
      cfg\<lparr> oc_BlockStorage := \<lparr> bs_BSVersion = ''auto'', bs_TrustDevicePath = False, bs_IgnoreVolumeAZ = False \<rparr>,
           oc_Metadata := (oc_Metadata cfg)\<lparr> mo_SearchOrder := default_search_order \<rparr>,
           oc_Networking := (oc_Networking cfg)\<lparr> no_IPv6SupportDisabled := False, no_PublicNetworkName := ''public'' \<rparr>,
           oc_LoadBalancer := (oc_LoadBalancer cfg)\<lparr> lb_InternalLB := False \<rparr> \<rparr>) = fst (configFromEnv Getenv)"
    by (simp add: configFromEnv_def Let_def empty_LoadBalancerOpts_def)
  with assms show ?thesis by (simp add: ReadConfig_def Let_def ReadClouds_def)
qed

text \<open>
  Choosing the block storage version: with \<open>auto\<close> the newest version whose client can be
  created is used (v3, then v2, then v1), and only if none can, the lookup fails; the choice
  never depends on the versions after the chosen one.
\<close>

lemma volumeService_auto:
  assumes "bs_BSVersion (os_bsOpts os) = ''auto''"
    and "NewBlockStorageV3 lib os w = (r3, w3)" and "NewBlockStorageV2 lib os w3 = (r2, w2)"
    and "NewBlockStorageV1 lib os w2 = (r1, w1)"
    and "\<And>p. r3 \<noteq> Panic p" and "\<And>p. r2 \<noteq> Panic p" and "\<And>p. r1 \<noteq> Panic p"
  shows "volumeService lib os '''' w =
    (case r3 of Ok c \<Rightarrow> (Ok (VolumesV3 c (os_bsOpts os)), w3)
     | _ \<Rightarrow> (case r2 of Ok c \<Rightarrow> (Ok (VolumesV2 c (os_bsOpts os)), w2)
     | _ \<Rightarrow> (case r1 of Ok c \<Rightarrow> (Ok (VolumesV1 c (os_bsOpts os)), w1)
     | _ \<Rightarrow> (Err autodetection_failed, w1))))"
  using assms
  by (cases r3; cases r2; cases r1) (force simp: volumeService_def Let_def)+

section \<open>Witnesses\<close>

definition demo_os :: "unit OpenStack" where
  "demo_os = \<lparr> os_provider = (), os_region = ''r'', os_lbOpts = empty_LoadBalancerOpts,
     os_bsOpts = \<lparr> bs_BSVersion = ''auto'', bs_TrustDevicePath = False, bs_IgnoreVolumeAZ = False \<rparr>,
     os_routeOpts = \<lparr> ro_RouterID = '''' \<rparr>,
     os_metadataOpts = \<lparr> mo_SearchOrder = default_search_order, mo_RequestTimeout = 0 \<rparr>,
     os_networkingOpts = demo_networking, os_localInstanceID = '''' \<rparr>"

theorem InstanceID_empty_witness:
  "fst (os_InstanceID (fail (External ''down'')) (\<lambda>_. ret '' iid-datasource-none '') (demo_os, ())) = Ok ''''"
proof (rule InstanceID_empty)
  show "TrimSpace '' iid-datasource-none '' \<in> {'''', ''iid-datasource-none''}" by code_simp
qed (simp_all add: demo_os_def)

theorem ReadConfig_missing_clouds_panics_witness:
  "ReadConfig (\<lambda>_. '''') (\<lambda>r cfg. (cfg\<lparr> oc_Global := (oc_Global cfg)\<lparr> gl_UseClouds := True \<rparr> \<rparr>, None))
     (\<lambda>_ _. (None, Some no_clouds_yaml)) (Some ()) = Panic ''nil pointer dereference''"
  by (rule ReadConfig_missing_clouds_panics
      [where cfg = "(fst (configFromEnv (\<lambda>_. '''')))\<lparr> oc_Global :=
         (oc_Global (fst (configFromEnv (\<lambda>_. ''''))))\<lparr> gl_UseClouds := True \<rparr> \<rparr>"]) simp_all

end
