(* ===== verification/Go_Slices.thy ===== *)
theory Go_Slices
  imports Go_Prelude
begin

text \<open>
  Go slices with their aliasing: a slice is a header (the backing array and a length), and the
  arrays live in a heap, so that two headers may share an array. \<open>append\<close> writes into spare
  capacity if there is any and allocates a new array otherwise.
\<close>

record slice =
  sl_arr :: nat
  sl_len :: nat

record 'a heap =
  hp_arr :: "nat \<Rightarrow> 'a list"
  hp_next :: nat

definition empty_heap :: "'a heap" where
  "empty_heap = \<lparr> hp_arr = (\<lambda>_. []), hp_next = 0 \<rparr>"

definition slice_alloc :: "'a list \<Rightarrow> 'a heap \<Rightarrow> slice \<times> 'a heap" where
  "slice_alloc xs h =
     (\<lparr> sl_arr = hp_next h, sl_len = length xs \<rparr>,
      h\<lparr> hp_arr := (hp_arr h)(hp_next h := xs), hp_next := Suc (hp_next h) \<rparr>)"

definition slice_read :: "'a heap \<Rightarrow> slice \<Rightarrow> 'a list" where
  "slice_read h s = take (sl_len s) (hp_arr h (sl_arr s))"

definition slice_set :: "slice \<Rightarrow> nat \<Rightarrow> 'a \<Rightarrow> 'a heap \<Rightarrow> 'a heap" where
  "slice_set s i v h = h\<lparr> hp_arr := (hp_arr h)(sl_arr s := (hp_arr h (sl_arr s))[i := v]) \<rparr>"

definition slice_take :: "nat \<Rightarrow> slice \<Rightarrow> slice" where
  "slice_take n s = s\<lparr> sl_len := n \<rparr>"

definition slice_append :: "slice \<Rightarrow> 'a \<Rightarrow> 'a heap \<Rightarrow> slice \<times> 'a heap" where
  "slice_append s v h =
     (if sl_len s < length (hp_arr h (sl_arr s))
      then (s\<lparr> sl_len := Suc (sl_len s) \<rparr>, slice_set s (sl_len s) v h)
      else slice_alloc (slice_read h s @ [v]) h)"

text \<open>A header is valid when its array exists and is long enough.\<close>

definition slice_ok :: "'a heap \<Rightarrow> slice \<Rightarrow> bool" where
  "slice_ok h s \<longleftrightarrow> sl_arr s < hp_next h \<and> sl_len s \<le> length (hp_arr h (sl_arr s))"

lemma slice_alloc_ok: "slice_alloc xs h = (s, h') \<Longrightarrow> slice_ok h' s \<and> slice_read h' s = xs"
  by (auto simp: slice_alloc_def slice_ok_def slice_read_def)

lemma slice_append_read:
  assumes "slice_ok h s" and "slice_append s v h = (s', h')"
  shows "slice_read h' s' = slice_read h s @ [v]"
  using assms
  by (auto simp: slice_append_def slice_alloc_def slice_read_def slice_set_def slice_ok_def
      take_Suc_conv_app_nth split: if_splits)

text \<open>Appending never changes what the old header reads, even when the array is shared.\<close>

lemma slice_append_keeps:
  assumes "slice_ok h s" and "slice_append s v h = (s', h')"
  shows "slice_read h' s = slice_read h s"
  using assms
  by (auto simp: slice_append_def slice_alloc_def slice_read_def slice_set_def slice_ok_def
      split: if_splits)

text \<open>Writing through one header is visible through every header of the same array.\<close>

lemma slice_set_read:
  "sl_arr s' = sl_arr s \<Longrightarrow> slice_read (slice_set s i v h) s' = (slice_read h s')[i := v]"
  by (simp add: slice_read_def slice_set_def take_update_swap)

lemma slice_take_read: "n \<le> sl_len s \<Longrightarrow> slice_read h (slice_take n s) = take n (slice_read h s)"
  by (simp add: slice_read_def slice_take_def min_absorb1)

lemma slice_take_arr [simp]: "sl_arr (slice_take n s) = sl_arr s" "sl_len (slice_take n s) = n"
  by (simp_all add: slice_take_def)

end
