(* ===== verification/Openstack_Routes.thy ===== *)
theory Openstack_Routes
  imports Openstack_Config Go_Slices "HOL-Library.Multiset"
begin

text \<open>
  Routes of the cloud provider:
  \<open>pkg/cloudprovider/providers/openstack/openstack_routes.go\<close>. Neutron is a parameter. The
  route and address pair slices live in a heap, because \<open>DeleteRoute\<close> writes into the slice
  that the error unwinding later reads.
\<close>

section \<open>Data\<close>

record rt_Route =
  rt_DestinationCIDR :: string
  rt_NextHop :: string

record Router =
  rr_ID :: string
  rr_Routes :: "rt_Route list"

record Port =
  po_ID :: string
  po_AllowedAddressPairs :: "string list"

record cp_Route =
  cr_Name :: string
  cr_TargetNode :: string
  cr_DestinationCIDR :: string
  cr_Blackhole :: bool

text \<open>
  Neutron: routers and ports. An address pair is its address; the code never sets or reads the
  hardware address.
\<close>

record 'w network_api =
  nt_GetRouter :: "string \<Rightarrow> ('w, Router) io"
  nt_UpdateRoutes :: "string \<Rightarrow> rt_Route list \<Rightarrow> ('w, unit) io"
  nt_GetPort :: "string \<Rightarrow> ('w, Port option) io"
  nt_UpdatePairs :: "string \<Rightarrow> string list \<Rightarrow> ('w, unit) io"

record 'w Routes =
  rs_compute :: "'w compute_api"
  rs_network :: "'w network_api"
  rs_opts :: RouterOpts
  rs_networkingOpts :: NetworkingOpts

definition errNoRouterID :: gerror where
  "errNoRouterID = errors_New ''router-id not set in cloud provider config''"

definition NewRoutes ::
    "'w compute_api \<Rightarrow> 'w network_api \<Rightarrow> RouterOpts \<Rightarrow> NetworkingOpts \<Rightarrow> 'w Routes result" where
  "NewRoutes compute network opts networkingOpts =
     (if ro_RouterID opts = '''' then Err errNoRouterID
      else Ok \<lparr> rs_compute = compute, rs_network = network, rs_opts = opts, rs_networkingOpts = networkingOpts \<rparr>)"

definition os_Routes ::
    "('w, 'prov, 'client) os_clients \<Rightarrow> ('client \<Rightarrow> 'w compute_api) \<Rightarrow> ('client \<Rightarrow> 'w network_api) \<Rightarrow>
     ('client \<Rightarrow> ('w, string \<Rightarrow> bool) io) \<Rightarrow> 'prov OpenStack \<Rightarrow> ('w, 'w Routes option) io" where
  "os_Routes lib compute_of network_of networkExtensions os =
     bindE (attempt (NewNetworkV2 lib os)) (\<lambda>n. case n of Inl _ \<Rightarrow> ret None | Inr network \<Rightarrow>
     bindE (attempt (networkExtensions network)) (\<lambda>x. case x of Inl _ \<Rightarrow> ret None | Inr netExts \<Rightarrow>
       if \<not> netExts ''extraroute'' then ret None
       else bindE (attempt (NewComputeV2 lib os)) (\<lambda>c. case c of Inl _ \<Rightarrow> ret None | Inr compute \<Rightarrow>
         case NewRoutes (compute_of compute) (network_of network) (os_routeOpts os) (os_networkingOpts os) of
           Ok r \<Rightarrow> ret (Some r)
         | _ \<Rightarrow> ret None)))"

section \<open>Listing\<close>

definition index_server ::
    "NetworkingOpts \<Rightarrow> Server \<Rightarrow> (string \<rightharpoonup> string) \<Rightarrow> (bool \<times> (string \<rightharpoonup> string)) result" where
  "index_server opts srv names =
     bindR (nodeAddresses srv opts) (\<lambda>addrs.
       Ok (True, fold (\<lambda>a m. m(na_Address a \<mapsto> mapServerToNodeName srv)) addrs names))"

definition route_of :: "(string \<rightharpoonup> string) \<Rightarrow> rt_Route \<Rightarrow> cp_Route" where
  "route_of nodeNamesByAddr item =
     (let found = nodeNamesByAddr (rt_NextHop item) in
      \<lparr> cr_Name = rt_DestinationCIDR item,
        cr_TargetNode = (case found of None \<Rightarrow> rt_NextHop item | Some n \<Rightarrow> n),
        cr_DestinationCIDR = rt_DestinationCIDR item, cr_Blackhole = (found = None) \<rparr>)"

definition ListRoutes :: "'w Routes \<Rightarrow> ('w, cp_Route list) io" where
  "ListRoutes r =
     bindE (foreachServer (rs_compute r) '''' (index_server (rs_networkingOpts r)) Map.empty) (\<lambda>nodeNamesByAddr.
     bindE (nt_GetRouter (rs_network r) (ro_RouterID (rs_opts r))) (\<lambda>router.
       ret (map (route_of nodeNamesByAddr) (rr_Routes router))))"

section \<open>Changing\<close>

text \<open>
  The \<open>caller\<close> of \<open>openstack.go\<close>: a deferred unwinder runs unless the function reached its
  end, where the caller is disarmed.
\<close>

definition on_failure :: "('w, unit) io \<Rightarrow> ('w, 'a) io \<Rightarrow> ('w, 'a) io" where
  "on_failure unwind m w =
     (case m w of
        (Ok x, w') \<Rightarrow> (Ok x, w')
      | (Err e, w') \<Rightarrow> (Err e, snd (unwind w'))
      | (Panic p, w') \<Rightarrow> (Panic p, snd (unwind w')))"

text \<open>
  \<open>updateRoutes\<close> copies the header of \<open>router.Routes\<close> (\<open>orig\<close>), not the array; the unwinder
  reads the array again.
\<close>

definition updateRoutes ::
    "'w network_api \<Rightarrow> rt_Route heap \<Rightarrow> string \<Rightarrow> slice \<Rightarrow> slice \<Rightarrow> ('w, ('w, unit) io) io" where
  "updateRoutes network h routerID orig newRoutes =
     bindE (nt_UpdateRoutes network routerID (slice_read h newRoutes)) (\<lambda>_.
       ret (bindE (attempt (nt_UpdateRoutes network routerID (slice_read h orig))) (\<lambda>_. ret ())))"

definition updateAllowedAddressPairs ::
    "'w network_api \<Rightarrow> string heap \<Rightarrow> string \<Rightarrow> slice \<Rightarrow> slice \<Rightarrow> ('w, ('w, unit) io) io" where
  "updateAllowedAddressPairs network h portID orig newPairs =
     bindE (nt_UpdatePairs network portID (slice_read h newPairs)) (\<lambda>_.
       ret (bindE (attempt (nt_UpdatePairs network portID (slice_read h orig))) (\<lambda>_. ret ())))"

definition getPortIDByIP :: "'w compute_api \<Rightarrow> string \<Rightarrow> string \<Rightarrow> ('w, string) io" where
  "getPortIDByIP compute targetNode ipAddress =
     bindE (getServerByName compute targetNode) (\<lambda>srv.
     bindE (getAttachedInterfacesByID compute (sv_ID srv)) (\<lambda>interfaces.
       case find (\<lambda>intf. list_ex (\<lambda>fixedIP. fx_IPAddress fixedIP = ipAddress) (if_FixedIPs intf)) interfaces of
         Some intf \<Rightarrow> ret (if_PortID intf)
       | None \<Rightarrow> fail ErrNotFound))"

definition getPortByID :: "'w network_api \<Rightarrow> string \<Rightarrow> ('w, Port) io" where
  "getPortByID client portID =
     bindE (nt_GetPort client portID) (\<lambda>targetPort.
       case targetPort of None \<Rightarrow> fail ErrNotFound | Some p \<Rightarrow> ret p)"

definition isCIDRv6 :: "string \<Rightarrow> bool" where
  "isCIDRv6 cidr \<longleftrightarrow> To4 (ParseCIDR_ip cidr) = None"

text \<open>The port of the address on the target node gets the destination as an allowed pair.\<close>

definition allow_pair :: "'w Routes \<Rightarrow> cp_Route \<Rightarrow> string \<Rightarrow> ('w, unit) io" where
  "allow_pair r route address =
     bindE (getPortIDByIP (rs_compute r) (cr_TargetNode route) address) (\<lambda>portID.
     bindE (getPortByID (rs_network r) portID) (\<lambda>port.
       let (pairs, h) = slice_alloc (po_AllowedAddressPairs port) empty_heap in
       if list_ex (\<lambda>item. item = cr_DestinationCIDR route) (slice_read h pairs) then ret ()
       else
         let (newPairs, h') = slice_append pairs (cr_DestinationCIDR route) h in
         bindE (updateAllowedAddressPairs (rs_network r) h' (po_ID port) pairs newPairs) (\<lambda>unwind.
           on_failure unwind (ret ()))))"

definition CreateRoute :: "'w Routes \<Rightarrow> cp_Route \<Rightarrow> ('w, unit) io" where
  "CreateRoute r route =
     bindE (getAddressByName (rs_compute r) (cr_TargetNode route) (isCIDRv6 (cr_DestinationCIDR route))
              (rs_networkingOpts r)) (\<lambda>address.
     bindE (nt_GetRouter (rs_network r) (ro_RouterID (rs_opts r))) (\<lambda>router.
       let (routes, h) = slice_alloc (rr_Routes router) empty_heap in
       if list_ex (\<lambda>item. rt_DestinationCIDR item = cr_DestinationCIDR route \<and> rt_NextHop item = address)
            (slice_read h routes)
       then ret ()
       else
         let (newRoutes, h') =
           slice_append routes \<lparr> rt_DestinationCIDR = cr_DestinationCIDR route, rt_NextHop = address \<rparr> h in
         bindE (updateRoutes (rs_network r) h' (rr_ID router) routes newRoutes) (\<lambda>unwind.
           on_failure unwind (allow_pair r route address))))"

fun find_index :: "('a \<Rightarrow> bool) \<Rightarrow> 'a list \<Rightarrow> nat option" where
  "find_index P [] = None"
| "find_index P (x # xs) = (if P x then Some 0 else map_option Suc (find_index P xs))"

text \<open>Deleting element \<open>i\<close>: the last element is moved to its place and the slice is shortened.\<close>

definition swap_delete :: "nat \<Rightarrow> slice \<Rightarrow> 'a heap \<Rightarrow> slice \<times> 'a heap" where
  "swap_delete i s h =
     (let h' = slice_set s i (slice_read h s ! (sl_len s - 1)) h
      in (slice_take (sl_len s - 1) s, h'))"

definition disallow_pair :: "'w Routes \<Rightarrow> cp_Route \<Rightarrow> string \<Rightarrow> ('w, unit) io" where
  "disallow_pair r route address =
     bindE (getPortIDByIP (rs_compute r) (cr_TargetNode route) address) (\<lambda>portID.
     bindE (getPortByID (rs_network r) portID) (\<lambda>port.
       let (pairs, h) = slice_alloc (po_AllowedAddressPairs port) empty_heap in
       case find_index (\<lambda>item. item = cr_DestinationCIDR route) (slice_read h pairs) of
         None \<Rightarrow> ret ()
       | Some i \<Rightarrow>
           let (newPairs, h') = swap_delete i pairs h in
           bindE (updateAllowedAddressPairs (rs_network r) h' (po_ID port) pairs newPairs) (\<lambda>unwind.
             on_failure unwind (ret ()))))"

definition route_matches :: "cp_Route \<Rightarrow> string \<Rightarrow> rt_Route \<Rightarrow> bool" where
  "route_matches route address item \<longleftrightarrow>
     rt_DestinationCIDR item = cr_DestinationCIDR route \<and>
     (rt_NextHop item = address \<or> cr_Blackhole route \<and> rt_NextHop item = cr_TargetNode route)"

text \<open>The next hop of a route to delete: blackhole routes have none.\<close>

definition hop_of :: "'w Routes \<Rightarrow> cp_Route \<Rightarrow> ('w, string) io" where
  "hop_of r route =
     (if \<not> cr_Blackhole route
      then getAddressByName (rs_compute r) (cr_TargetNode route) (isCIDRv6 (cr_DestinationCIDR route))
             (rs_networkingOpts r)
      else ret '''')"

definition DeleteRoute :: "'w Routes \<Rightarrow> cp_Route \<Rightarrow> ('w, unit) io" where
  "DeleteRoute r route =
     bindE (hop_of r route) (\<lambda>address.
     bindE (nt_GetRouter (rs_network r) (ro_RouterID (rs_opts r))) (\<lambda>router.
       let (routes, h) = slice_alloc (rr_Routes router) empty_heap in
       case find_index (route_matches route address) (slice_read h routes) of
         None \<Rightarrow> ret ()
       | Some i \<Rightarrow>
           let (newRoutes, h') = swap_delete i routes h in
           bindE (updateRoutes (rs_network r) h' (rr_ID router) routes newRoutes) (\<lambda>unwind.
             if cr_Blackhole route then ret ()
             else on_failure unwind (disallow_pair r route address))))"

section \<open>What Neutron and Nova do\<close>

text \<open>
  The routes of each router and the allowed pairs of each port, as read out of the cloud by
  \<open>rview\<close> and \<open>pview\<close>: reading returns them, an update replaces them if it succeeds and leaves
  them if it fails, and Nova's calls do not touch them.
\<close>

definition neutron_ok ::
    "('w \<Rightarrow> string \<Rightarrow> rt_Route list) \<Rightarrow> ('w \<Rightarrow> string \<Rightarrow> string list) \<Rightarrow> 'w network_api \<Rightarrow> bool" where
  "neutron_ok rview pview net \<longleftrightarrow>
     (\<forall>i w r w'. nt_GetRouter net i w = (r, w') \<longrightarrow> rview w' = rview w \<and> pview w' = pview w \<and>
        (\<forall>rt. r = Ok rt \<longrightarrow> rr_ID rt = i \<and> rr_Routes rt = rview w i)) \<and>
     (\<forall>i rs w r w'. nt_UpdateRoutes net i rs w = (r, w') \<longrightarrow> pview w' = pview w \<and>
        rview w' = (if is_ok r then (rview w)(i := rs) else rview w)) \<and>
     (\<forall>i w r w'. nt_GetPort net i w = (r, w') \<longrightarrow> rview w' = rview w \<and> pview w' = pview w \<and>
        (\<forall>p. r = Ok (Some p) \<longrightarrow> po_ID p = i \<and> po_AllowedAddressPairs p = pview w i)) \<and>
     (\<forall>i ps w r w'. nt_UpdatePairs net i ps w = (r, w') \<longrightarrow> rview w' = rview w \<and>
        pview w' = (if is_ok r then (pview w)(i := ps) else pview w))"

definition nova_ok ::
    "('w \<Rightarrow> string \<Rightarrow> rt_Route list) \<Rightarrow> ('w \<Rightarrow> string \<Rightarrow> string list) \<Rightarrow> 'w compute_api \<Rightarrow> bool" where
  "nova_ok rview pview compute \<longleftrightarrow>
     (\<forall>x w. rview (snd (cp_List compute x w)) = rview w \<and> pview (snd (cp_List compute x w)) = pview w) \<and>
     (\<forall>x w. rview (snd (cp_Interfaces compute x w)) = rview w \<and> pview (snd (cp_Interfaces compute x w)) = pview w)"

definition cloud_ok ::
    "('w \<Rightarrow> string \<Rightarrow> rt_Route list) \<Rightarrow> ('w \<Rightarrow> string \<Rightarrow> string list) \<Rightarrow> 'w Routes \<Rightarrow> bool" where
  "cloud_ok rview pview r \<longleftrightarrow> neutron_ok rview pview (rs_network r) \<and> nova_ok rview pview (rs_compute r)"

lemma GetRouterD:
  assumes "cloud_ok rview pview r" and "nt_GetRouter (rs_network r) i w = (res, w')"
  shows "rview w' = rview w" "pview w' = pview w"
    and "res = Ok rt \<Longrightarrow> rr_ID rt = i \<and> rr_Routes rt = rview w i"
  using assms unfolding cloud_ok_def neutron_ok_def by blast+

lemma UpdateRoutesD:
  assumes "cloud_ok rview pview r" and "nt_UpdateRoutes (rs_network r) i rs w = (res, w')"
  shows "pview w' = pview w" "rview w' = (if is_ok res then (rview w)(i := rs) else rview w)"
  using assms unfolding cloud_ok_def neutron_ok_def by blast+

lemma GetPortD:
  assumes "cloud_ok rview pview r" and "nt_GetPort (rs_network r) i w = (res, w')"
  shows "rview w' = rview w" "pview w' = pview w"
    and "res = Ok (Some p) \<Longrightarrow> po_ID p = i \<and> po_AllowedAddressPairs p = pview w i"
  using assms unfolding cloud_ok_def neutron_ok_def by blast+

lemma UpdatePairsD:
  assumes "cloud_ok rview pview r" and "nt_UpdatePairs (rs_network r) i ps w = (res, w')"
  shows "rview w' = rview w" "pview w' = (if is_ok res then (pview w)(i := ps) else pview w)"
  using assms unfolding cloud_ok_def neutron_ok_def by blast+

text \<open>The lookups leave both views alone.\<close>

lemma keeps_lookups:
  assumes "cloud_ok rview pview r"
  defines "I \<equiv> \<lambda>w0 w. rview w = rview w0 \<and> pview w = pview w0"
  shows "keeps (I w0) (getAddressByName (rs_compute r) name v6 opts)"
    and "keeps (I w0) (getPortIDByIP (rs_compute r) node ip)"
proof -
  have lst: "keeps (I w0) (cp_List (rs_compute r) x)"
    and ifs: "keeps (I w0) (cp_Interfaces (rs_compute r) x)" for x
    using assms by (auto simp: keeps_def cloud_ok_def nova_ok_def)
  have srv: "keeps (I w0) (getServerByName (rs_compute r) n)" for n
    unfolding getServerByName_def by (intro keeps_intros lst)
  show "keeps (I w0) (getAddressByName (rs_compute r) name v6 opts)"
    unfolding getAddressByName_def getAddressesByName_def by (intro keeps_intros srv)
  show "keeps (I w0) (getPortIDByIP (rs_compute r) node ip)"
    unfolding getPortIDByIP_def getAttachedInterfacesByID_def by (intro keeps_intros srv ifs)
qed

lemma lookup_views:
  assumes "cloud_ok rview pview r"
  shows "getAddressByName (rs_compute r) name v6 opts w = (res, w') \<Longrightarrow> rview w' = rview w \<and> pview w' = pview w"
    and "getPortIDByIP (rs_compute r) node ip w = (res', w') \<Longrightarrow> rview w' = rview w \<and> pview w' = pview w"
  using keepsD [OF keeps_lookups(1) [OF assms]] keepsD [OF keeps_lookups(2) [OF assms]] by blast+

section \<open>Effects on the cloud\<close>

lemma find_index_Some: "find_index P xs = Some i \<Longrightarrow> i < length xs \<and> P (xs ! i) \<and> (\<forall>j < i. \<not> P (xs ! j))"
proof (induction xs arbitrary: i)
  case (Cons x xs)
  then show ?case by (cases i) (auto simp: less_Suc_eq_0_disj split: if_splits)
qed simp

lemma find_index_None: "find_index P xs = None \<longleftrightarrow> (\<forall>x \<in> set xs. \<not> P x)"
  by (induction xs) auto

lemma swap_delete_read:
  assumes "slice_alloc xs empty_heap = (s, h)" and "i < length xs" and "swap_delete i s h = (s', h')"
  shows "slice_read h' s' = butlast (xs[i := last xs])" and "slice_read h' s = xs[i := last xs]"
proof -
  have s: "slice_read h s = xs" "sl_len s = length xs"
    using assms(1) slice_alloc_ok [OF assms(1)] by (auto simp: slice_alloc_def)
  have l: "xs ! (length xs - 1) = last xs" using assms(2) by (cases xs) (auto simp: last_conv_nth)
  have h': "h' = slice_set s i (last xs) h" and s': "s' = slice_take (length xs - 1) s"
    using assms(3) s l by (auto simp: swap_delete_def)
  show "slice_read h' s = xs[i := last xs]" using s by (simp add: h' slice_set_read)
  then show "slice_read h' s' = butlast (xs[i := last xs])"
    using s by (simp add: s' slice_take_read butlast_conv_take)
qed

text \<open>Moving the last element to a position and shortening the list removes one element.\<close>

lemma mset_swap_delete:
  assumes "i < length xs"
  shows "mset (butlast (xs[i := last xs])) = mset xs - {#xs ! i#}"
proof (cases xs rule: rev_cases)
  case Nil
  with assms show ?thesis by simp
next
  case (snoc ys y)
  show ?thesis
  proof (cases "i < length ys")
    case True
    then have "butlast (xs[i := last xs]) = ys[i := y]" by (simp add: snoc list_update_append)
    moreover have "mset (ys[i := y]) = mset ys - {#ys ! i#} + {#y#}"
      using True by (simp add: mset_update)
    moreover have "{#ys ! i#} \<subseteq># mset ys" using True by simp
    ultimately show ?thesis using True by (simp add: snoc nth_append)
  next
    case False
    with assms have "i = length ys" by (simp add: snoc)
    then show ?thesis by (simp add: snoc)
  qed
qed

lemma on_failure_Ok: "on_failure unwind m w = (Ok x, w') \<longleftrightarrow> m w = (Ok x, w')"
  by (auto simp: on_failure_def split: prod.splits result.splits)

lemma on_failure_ret [simp]: "on_failure unwind (ret x) = ret x"
  by (simp add: on_failure_def fun_eq_iff)

lemma updateRoutes_run:
  assumes "nt_UpdateRoutes net i (slice_read h new) w = (Ok (), w')"
  shows "updateRoutes net h i orig new w =
    (Ok (bindE (attempt (nt_UpdateRoutes net i (slice_read h orig))) (\<lambda>_. ret ())), w')"
  using assms by (simp add: updateRoutes_def)

lemma getPortByID_views:
  assumes "cloud_ok rview pview r" and "getPortByID (rs_network r) i w = (res, w')"
  shows "rview w' = rview w \<and> pview w' = pview w"
    and "res = Ok p \<Longrightarrow> po_ID p = i \<and> po_AllowedAddressPairs p = pview w i"
proof -
  obtain r0 w0 where g: "nt_GetPort (rs_network r) i w = (r0, w0)" by fastforce
  note v = GetPortD [OF assms(1) g]
  show "rview w' = rview w \<and> pview w' = pview w"
    using assms(2) g v(1,2)
    by (cases r0) (auto simp: getPortByID_def split: option.splits)
  show "po_ID p = i \<and> po_AllowedAddressPairs p = pview w i" if "res = Ok p"
    using assms(2) g v(3) that
    by (cases r0) (auto simp: getPortByID_def split: option.splits)
qed

text \<open>Both operations on the port first find it; \<open>on_port\<close> is what they share.\<close>

definition on_port :: "'w Routes \<Rightarrow> cp_Route \<Rightarrow> string \<Rightarrow> (Port \<Rightarrow> ('w, unit) io) \<Rightarrow> ('w, unit) io" where
  "on_port r route address k =
     bindE (getPortIDByIP (rs_compute r) (cr_TargetNode route) address) (\<lambda>portID.
     bindE (getPortByID (rs_network r) portID) k)"

lemma on_port_cases:
  assumes "cloud_ok rview pview r" and "on_port r route address k w = (res, w')"
  obtains "\<not> is_ok res" "rview w' = rview w" "pview w' = pview w"
  | p w1 where "rview w1 = rview w" "pview w1 = pview w"
      "po_AllowedAddressPairs p = pview w (po_ID p)" "k p w1 = (res, w')"
proof -
  obtain r1 w1 where g: "getPortIDByIP (rs_compute r) (cr_TargetNode route) address w = (r1, w1)" by fastforce
  note v1 = lookup_views(2) [OF assms(1) g]
  show ?thesis
  proof (cases r1)
    case (Ok portID)
    obtain r2 w2 where p: "getPortByID (rs_network r) portID w1 = (r2, w2)" by fastforce
    note v2 = getPortByID_views [OF assms(1) p]
    show ?thesis
    proof (cases r2)
      case r2: (Ok p)
      then have "k p w2 = (res, w')" using assms(2) g p Ok by (simp add: on_port_def)
      moreover have "po_AllowedAddressPairs p = pview w (po_ID p)" using v2(2) [OF r2] v1 by simp
      ultimately show ?thesis using that(2) v1 v2(1) by metis
    qed (use assms(2) g p Ok v1 v2(1) that(1) in \<open>auto simp: on_port_def\<close>)
  qed (use assms(2) g v1 that(1) in \<open>auto simp: on_port_def\<close>)
qed

lemma update_pairs_views:
  assumes "cloud_ok rview pview r"
    and "bindE (updateAllowedAddressPairs (rs_network r) h i orig new) (\<lambda>unwind. ret ()) w = (res, w')"
  shows "rview w' = rview w \<and>
    pview w' = (if is_ok res then (pview w)(i := slice_read h new) else pview w)"
proof -
  obtain r0 w0 where u: "nt_UpdatePairs (rs_network r) i (slice_read h new) w = (r0, w0)" by fastforce
  have "res = r0 \<and> w' = w0"
    using assms(2) u by (cases r0) (auto simp: updateAllowedAddressPairs_def bindE_assoc)
  then show ?thesis using UpdatePairsD [OF assms(1) u] by simp
qed

lemma allow_pair_views:
  assumes "cloud_ok rview pview r" and "allow_pair r route address w = (res, w')"
  shows "rview w' = rview w"
    and "\<not> is_ok res \<Longrightarrow> pview w' = pview w"
    and "is_ok res \<Longrightarrow> \<exists>port. cr_DestinationCIDR route \<in> set (pview w' port) \<and>
      (pview w' = pview w \<or> pview w' = (pview w)(port := pview w port @ [cr_DestinationCIDR route]))"
proof -
  let ?k = "\<lambda>port. let (pairs, h) = slice_alloc (po_AllowedAddressPairs port) empty_heap in
       if list_ex (\<lambda>item. item = cr_DestinationCIDR route) (slice_read h pairs) then ret ()
       else
         let (newPairs, h') = slice_append pairs (cr_DestinationCIDR route) h in
         bindE (updateAllowedAddressPairs (rs_network r) h' (po_ID port) pairs newPairs) (\<lambda>unwind.
           on_failure unwind (ret ()))"
  have run: "on_port r route address ?k w = (res, w')"
    using assms(2) unfolding allow_pair_def on_port_def .
  have "rview w' = rview w \<and> (\<not> is_ok res \<longrightarrow> pview w' = pview w) \<and>
      (is_ok res \<longrightarrow> (\<exists>port. cr_DestinationCIDR route \<in> set (pview w' port) \<and>
        (pview w' = pview w \<or> pview w' = (pview w)(port := pview w port @ [cr_DestinationCIDR route]))))"
  proof (rule on_port_cases [OF assms(1) run], goal_cases)
    case (2 p w1)
    obtain s h where sh: "slice_alloc (po_AllowedAddressPairs p) empty_heap = (s, h)" by fastforce
    note alloc = slice_alloc_ok [OF sh]
    show ?thesis
    proof (cases "cr_DestinationCIDR route \<in> set (po_AllowedAddressPairs p)")
      case True
      with 2 sh alloc have "res = Ok () \<and> w' = w1" by (auto simp: list_ex_iff)
      with 2 True show ?thesis by auto
    next
      case False
      obtain s' h' where ap: "slice_append s (cr_DestinationCIDR route) h = (s', h')" by fastforce
      have run: "bindE (updateAllowedAddressPairs (rs_network r) h' (po_ID p) s s') (\<lambda>unwind. ret ()) w1 = (res, w')"
        using 2(4) False sh alloc ap by (auto simp: list_ex_iff)
      have "slice_read h' s' = pview w (po_ID p) @ [cr_DestinationCIDR route]"
        using slice_append_read [OF _ ap] alloc 2(3) by auto
      then show ?thesis
        using update_pairs_views [OF assms(1) run] 2(1,2) by (auto intro!: exI [of _ "po_ID p"])
    qed
  qed auto
  then show "rview w' = rview w"
    and "\<not> is_ok res \<Longrightarrow> pview w' = pview w"
    and "is_ok res \<Longrightarrow> \<exists>port. cr_DestinationCIDR route \<in> set (pview w' port) \<and>
      (pview w' = pview w \<or> pview w' = (pview w)(port := pview w port @ [cr_DestinationCIDR route]))"
    by blast+
qed

lemma disallow_pair_views:
  assumes "cloud_ok rview pview r" and "disallow_pair r route address w = (res, w')"
  shows "rview w' = rview w"
proof -
  let ?k = "\<lambda>port. let (pairs, h) = slice_alloc (po_AllowedAddressPairs port) empty_heap in
       case find_index (\<lambda>item. item = cr_DestinationCIDR route) (slice_read h pairs) of
         None \<Rightarrow> ret ()
       | Some i \<Rightarrow>
           let (newPairs, h') = swap_delete i pairs h in
           bindE (updateAllowedAddressPairs (rs_network r) h' (po_ID port) pairs newPairs) (\<lambda>unwind.
             on_failure unwind (ret ()))"
  have run: "on_port r route address ?k w = (res, w')"
    using assms(2) unfolding disallow_pair_def on_port_def .
  show ?thesis
  proof (rule on_port_cases [OF assms(1) run], goal_cases)
    case (2 p w1)
    obtain s h where sh: "slice_alloc (po_AllowedAddressPairs p) empty_heap = (s, h)" by fastforce
    show ?thesis
    proof (cases "find_index (\<lambda>item. item = cr_DestinationCIDR route) (slice_read h s)")
      case None
      with 2 sh show ?thesis by simp
    next
      case (Some i)
      obtain s' h' where sd: "swap_delete i s h = (s', h')" by fastforce
      have "bindE (updateAllowedAddressPairs (rs_network r) h' (po_ID p) s s') (\<lambda>unwind. ret ()) w1 = (res, w')"
        using 2(4) sh Some sd by simp
      from update_pairs_views [OF assms(1) this] 2(1) show ?thesis by simp
    qed
  qed simp
qed

section \<open>Properties\<close>

text \<open>What happens after the address and the router are known, for the route \<open>new\<close>.\<close>

lemma CreateRoute_run:
  assumes "getAddressByName (rs_compute r) (cr_TargetNode route) (isCIDRv6 (cr_DestinationCIDR route))
      (rs_networkingOpts r) w = (Ok address, w1)"
    and "nt_GetRouter (rs_network r) (ro_RouterID (rs_opts r)) w1 = (Ok router, w2)"
  defines "new \<equiv> \<lparr> rt_DestinationCIDR = cr_DestinationCIDR route, rt_NextHop = address \<rparr>"
  shows "CreateRoute r route w =
    (if new \<in> set (rr_Routes router) then (Ok (), w2)
     else bindE (nt_UpdateRoutes (rs_network r) (rr_ID router) (rr_Routes router @ [new])) (\<lambda>_.
       on_failure (bindE (attempt (nt_UpdateRoutes (rs_network r) (rr_ID router) (rr_Routes router))) (\<lambda>_. ret ()))
         (allow_pair r route address)) w2)"
proof -
  obtain s h where sh: "slice_alloc (rr_Routes router) empty_heap = (s, h)" by fastforce
  obtain s' h' where ap: "slice_append s new h = (s', h')" by fastforce
  note alloc = slice_alloc_ok [OF sh]
  have same: "rt_DestinationCIDR item = cr_DestinationCIDR route \<and> rt_NextHop item = address \<longleftrightarrow> item = new" for item
    by (cases item) (auto simp: new_def)
  have "slice_read h' s' = rr_Routes router @ [new]" "slice_read h' s = rr_Routes router"
    using slice_append_read [OF _ ap] slice_append_keeps [OF _ ap] alloc by auto
  moreover have "list_ex (\<lambda>item. rt_DestinationCIDR item = cr_DestinationCIDR route \<and> rt_NextHop item = address)
      (rr_Routes router) \<longleftrightarrow> new \<in> set (rr_Routes router)"
    using same by (simp add: list_ex_iff)
  ultimately show ?thesis
    using assms(1,2) sh ap alloc
    by (simp add: CreateRoute_def updateRoutes_def bindE_assoc new_def)
qed


text \<open>
  C27. A failed \<open>CreateRoute\<close> leaves nothing behind: whichever step fails, the routes of all
  routers and the pairs of all ports are as before, as long as setting the original routes
  again works.
\<close>

theorem CreateRoute_rollback:
  assumes cloud: "cloud_ok rview pview r" and run: "CreateRoute r route w = (Err e, w')"
    and revert: "\<And>v. is_ok (fst (nt_UpdateRoutes (rs_network r) (ro_RouterID (rs_opts r))
                       (rview w (ro_RouterID (rs_opts r))) v))"
  shows "rview w' = rview w \<and> pview w' = pview w"
proof -
  let ?rid = "ro_RouterID (rs_opts r)"
  obtain ra w1 where a: "getAddressByName (rs_compute r) (cr_TargetNode route)
      (isCIDRv6 (cr_DestinationCIDR route)) (rs_networkingOpts r) w = (ra, w1)" by fastforce
  obtain rg w2 where g: "nt_GetRouter (rs_network r) ?rid w1 = (rg, w2)" by fastforce
  note views = lookup_views(1) [OF cloud a] GetRouterD [OF cloud g]
  consider "w' = w1" | "w' = w2" | address router where "ra = Ok address" "rg = Ok router"
    using run a g by (cases ra; cases rg) (auto simp: CreateRoute_def)
  then show ?thesis
  proof cases
    case (3 address router)
    have router: "rr_ID router = ?rid" "rr_Routes router = rview w ?rid" using views 3 by auto
    let ?new = "\<lparr> rt_DestinationCIDR = cr_DestinationCIDR route, rt_NextHop = address \<rparr>"
    obtain ru w3 where u: "nt_UpdateRoutes (rs_network r) ?rid (rview w ?rid @ [?new]) w2 = (ru, w3)" by fastforce
    note vu = UpdateRoutesD [OF cloud u]
    obtain rp w4 where p: "allow_pair r route address w3 = (rp, w4)" by fastforce
    note vp = allow_pair_views(1,2) [OF cloud p]
    obtain rv w5 where v: "nt_UpdateRoutes (rs_network r) ?rid (rview w ?rid) w4 = (rv, w5)" by fastforce
    note vv = UpdateRoutesD [OF cloud v]
    have ok: "is_ok rv" using revert [of w4] v by simp
    then have restored: "rview w5 = (rview w4)(?rid := rview w ?rid)" "pview w5 = pview w4" using vv by auto
    have outcome: "(\<not> is_ok ru \<and> w' = w3) \<or> (is_ok ru \<and> \<not> is_ok rp \<and> w' = w5)"
      using run CreateRoute_run [OF a [unfolded 3] g [unfolded 3]] u p v router ok
      by (cases ru; cases rp; cases rv) (auto simp: on_failure_def split: if_splits)
    then show ?thesis
    proof
      assume "\<not> is_ok ru \<and> w' = w3"
      then show ?thesis using vu views by auto
    next
      assume "is_ok ru \<and> \<not> is_ok rp \<and> w' = w5"
      then have "rview w' = ((rview w)(?rid := rview w ?rid @ [?new]))(?rid := rview w ?rid)"
          "pview w' = pview w"
        using vu vp restored views by auto
      then show ?thesis by auto
    qed
  qed (use views in auto)
qed

text \<open>What happens after the address, the router and the route are found.\<close>

lemma DeleteRoute_run:
  assumes addr: "hop_of r route w = (Ok address, w1)"
    and get: "nt_GetRouter (rs_network r) (ro_RouterID (rs_opts r)) w1 = (Ok router, w2)"
    and found: "find_index (route_matches route address) (rr_Routes router) = Some i"
  defines "moved \<equiv> (rr_Routes router)[i := last (rr_Routes router)]"
  shows "DeleteRoute r route w =
    bindE (nt_UpdateRoutes (rs_network r) (rr_ID router) (butlast moved)) (\<lambda>_.
      if cr_Blackhole route then ret ()
      else on_failure (bindE (attempt (nt_UpdateRoutes (rs_network r) (rr_ID router) moved)) (\<lambda>_. ret ()))
        (disallow_pair r route address)) w2"
proof -
  obtain s h where sh: "slice_alloc (rr_Routes router) empty_heap = (s, h)" by fastforce
  obtain s' h' where sd: "swap_delete i s h = (s', h')" by fastforce
  have "slice_read h' s' = butlast moved" "slice_read h' s = moved"
    using swap_delete_read [OF sh _ sd] find_index_Some [OF found] by (auto simp: moved_def)
  moreover have "slice_read h s = rr_Routes router" using slice_alloc_ok [OF sh] by simp
  ultimately show ?thesis
    using sh sd found
    by (simp add: DeleteRoute_def addr get updateRoutes_def bindE_assoc)
qed


text \<open>
  C29. The rollback of \<open>DeleteRoute\<close> does not restore the routes. The saved \<open>origRoutes\<close> shares
  its array with the slice in which the deleted route was overwritten, so when taking the
  allowed pair away fails, the unwinder writes back the old routes with the deleted one
  replaced by a second copy of the last one.
\<close>

theorem DeleteRoute_unwind_corrupts:
  assumes cloud: "cloud_ok rview pview r" and node: "\<not> cr_Blackhole route"
    and a: "getAddressByName (rs_compute r) (cr_TargetNode route) (isCIDRv6 (cr_DestinationCIDR route))
          (rs_networkingOpts r) w = (Ok address, w1)"
    and g: "nt_GetRouter (rs_network r) (ro_RouterID (rs_opts r)) w1 = (Ok router, w2)"
    and found: "find_index (route_matches route address) (rview w (ro_RouterID (rs_opts r))) = Some i"
    and updates: "\<And>rs v. is_ok (fst (nt_UpdateRoutes (rs_network r) (ro_RouterID (rs_opts r)) rs v))"
    and pair: "\<And>v. \<not> is_ok (fst (disallow_pair r route address v))"
    and run: "DeleteRoute r route w = (res, w')"
  shows "\<not> is_ok res \<and> rview w' = (rview w)(ro_RouterID (rs_opts r) :=
      (rview w (ro_RouterID (rs_opts r)))[i := last (rview w (ro_RouterID (rs_opts r)))])"
proof -
  let ?rid = "ro_RouterID (rs_opts r)"
  note views = lookup_views(1) [OF cloud a] GetRouterD [OF cloud g]
  have router: "rr_ID router = ?rid" "rr_Routes router = rview w ?rid" using views by auto
  let ?moved = "(rview w ?rid)[i := last (rview w ?rid)]"
  obtain ru w3 where u: "nt_UpdateRoutes (rs_network r) ?rid (butlast ?moved) w2 = (ru, w3)" by fastforce
  obtain rp w4 where p: "disallow_pair r route address w3 = (rp, w4)" by fastforce
  obtain rv w5 where v: "nt_UpdateRoutes (rs_network r) ?rid ?moved w4 = (rv, w5)" by fastforce
  have oks: "is_ok ru" "\<not> is_ok rp" "is_ok rv"
    using updates [of "butlast ?moved" w2] updates [of ?moved w4] pair [of w3] u p v by auto
  have a': "hop_of r route w = (Ok address, w1)"
    using a node by (simp add: hop_of_def)
  have "\<not> is_ok res \<and> w' = w5"
    using run oks u p v node unfolding DeleteRoute_run [OF a' g, unfolded router, OF found]
    by (cases ru; cases rp; cases rv) (auto simp: on_failure_def)
  moreover have "rview w5 = (rview w)(?rid := ?moved)"
    using UpdateRoutesD(2) [OF cloud u] UpdateRoutesD(2) [OF cloud v] disallow_pair_views [OF cloud p] oks views by auto
  ultimately show ?thesis by simp
qed

section \<open>A concrete cloud\<close>

text \<open>
  Routers and ports in memory. The port of the node may be missing, which makes the second half
  of both operations fail.
\<close>

type_synonym mem_cloud = "(string \<Rightarrow> rt_Route list) \<times> (string \<Rightarrow> string list)"

definition mem_network :: "bool \<Rightarrow> mem_cloud network_api" where
  "mem_network port_there = \<lparr>
     nt_GetRouter = (\<lambda>i w. (Ok \<lparr> rr_ID = i, rr_Routes = fst w i \<rparr>, w)),
     nt_UpdateRoutes = (\<lambda>i rs w. (Ok (), ((fst w)(i := rs), snd w))),
     nt_GetPort = (\<lambda>i w. (Ok (if port_there then Some \<lparr> po_ID = i, po_AllowedAddressPairs = snd w i \<rparr> else None), w)),
     nt_UpdatePairs = (\<lambda>i ps w. (Ok (), (fst w, (snd w)(i := ps)))) \<rparr>"

definition mem_routes :: "bool \<Rightarrow> mem_cloud Routes" where
  "mem_routes port_there = \<lparr> rs_compute = demo_compute, rs_network = mem_network port_there,
     rs_opts = \<lparr> ro_RouterID = ''router-1'' \<rparr>, rs_networkingOpts = demo_networking \<rparr>"

definition demo_route :: cp_Route where
  "demo_route = \<lparr> cr_Name = '''', cr_TargetNode = ''node-1'', cr_DestinationCIDR = ''10.1.0.0/24'', cr_Blackhole = False \<rparr>"

definition via :: "string \<Rightarrow> rt_Route" where
  "via ip = \<lparr> rt_DestinationCIDR = ''10.1.0.0/24'', rt_NextHop = ip \<rparr>"

definition demo_cloud :: "rt_Route list \<Rightarrow> mem_cloud" where
  "demo_cloud rs = ((\<lambda>_. [])(''router-1'' := rs), \<lambda>_. [])"

lemma mem_routes_ok: "cloud_ok fst snd (mem_routes port_there)"
  by (auto simp: cloud_ok_def neutron_ok_def nova_ok_def mem_routes_def mem_network_def demo_compute_def)

lemma demo_CIDR: "\<not> isCIDRv6 ''10.1.0.0/24''"
proof -
  have "SplitN2 ''10.1.0.0/24'' ''/'' = [''10.1.0.0'', ''24'']" by code_simp
  moreover have "v4_text [10, 1, 0, 0] = ''10.1.0.0''" "dec_text 24 = ''24''" by code_simp+
  ultimately show ?thesis
    using parseIPv4_text [of 10 1 0 0] dtoi_dec_text [of 24 "[]"]
    by (simp add: isCIDRv6_def ParseCIDR_ip_def To4_def v4_prefix_def)
qed

lemmas mem_simps = mem_routes_def mem_network_def demo_route_def demo_CIDR demo_getAddressByName demo_getServerByName

lemma demo_Interfaces:
  "cp_Interfaces demo_compute i = ret [Ok [\<lparr> if_PortID = ''port-1'', if_FixedIPs = [\<lparr> fx_IPAddress = ''10.0.0.7'', fx_SubnetID = ''subnet-1'' \<rparr>] \<rparr>]]"
  by (simp add: demo_compute_def)

lemma demo_port: "getPortIDByIP demo_compute node ''10.0.0.7'' w = (Ok ''port-1'', w)"
  by (simp add: getPortIDByIP_def demo_getServerByName getAttachedInterfacesByID_def demo_Interfaces)

lemma demo_destination: "cr_DestinationCIDR demo_route = ''10.1.0.0/24''"
  by (simp add: demo_route_def)

lemma demo_allow_pair:
  assumes "snd w ''port-1'' = []"
  shows "allow_pair (mem_routes port_there) demo_route ''10.0.0.7'' w =
    (if port_there then (Ok (), (fst w, (snd w)(''port-1'' := [''10.1.0.0/24'']))) else (Err ErrNotFound, w))"
  using assms
  by (simp add: allow_pair_def mem_simps demo_port getPortByID_def
      updateAllowedAddressPairs_def Let_def slice_alloc_def slice_append_def
      slice_read_def empty_heap_def split: prod.splits)

lemma demo_disallow_pair:
  "disallow_pair (mem_routes False) demo_route ''10.0.0.7'' w = (Err ErrNotFound, w)"
  by (simp add: disallow_pair_def mem_simps demo_port getPortByID_def)

lemma demo_address:
  "getAddressByName (rs_compute (mem_routes port_there)) (cr_TargetNode demo_route)
      (isCIDRv6 (cr_DestinationCIDR demo_route)) (rs_networkingOpts (mem_routes port_there)) w = (Ok ''10.0.0.7'', w)"
  by (simp add: mem_simps)

lemma demo_router:
  "nt_GetRouter (rs_network (mem_routes port_there)) (ro_RouterID (rs_opts (mem_routes port_there))) w =
     (Ok \<lparr> rr_ID = ''router-1'', rr_Routes = fst w ''router-1'' \<rparr>, w)"
  by (simp add: mem_simps)

lemma demo_UpdateRoutes:
  "nt_UpdateRoutes (rs_network (mem_routes port_there)) i rs w = (Ok (), ((fst w)(i := rs), snd w))"
  by (simp add: mem_simps)

lemma demo_CreateRoute:
  "CreateRoute (mem_routes port_there) demo_route (demo_cloud []) =
     (if port_there
      then (Ok (), ((\<lambda>_. [])(''router-1'' := [via ''10.0.0.7'']), (\<lambda>_. [])(''port-1'' := [''10.1.0.0/24''])))
      else (Err ErrNotFound, demo_cloud []))"
  unfolding CreateRoute_run [OF demo_address demo_router]
  by (simp add: demo_UpdateRoutes on_failure_def demo_allow_pair demo_cloud_def via_def demo_destination)

lemma demo_rid: "ro_RouterID (rs_opts (mem_routes port_there)) = ''router-1''"
  by (simp add: mem_routes_def)


theorem CreateRoute_rollback_witness:
  "CreateRoute (mem_routes False) demo_route (demo_cloud []) = (Err ErrNotFound, demo_cloud []) \<and>
   fst (demo_cloud []) = fst (demo_cloud []) \<and> snd (demo_cloud []) = snd (demo_cloud [])"
  using CreateRoute_rollback [OF mem_routes_ok demo_CreateRoute [of False, simplified]]
  by (simp add: demo_CreateRoute demo_UpdateRoutes)

definition demo_three :: mem_cloud where
  "demo_three = demo_cloud [via ''10.0.0.7'', via ''10.0.0.8'', via ''10.0.0.9'']"

lemma demo_found:
  "find_index (route_matches demo_route ''10.0.0.7'') (fst demo_three ''router-1'') = Some 0"
  by (simp add: demo_three_def demo_cloud_def route_matches_def via_def demo_destination)

lemma demo_hop: "hop_of (mem_routes port_there) demo_route w = (Ok ''10.0.0.7'', w)"
  using demo_address by (simp add: hop_of_def demo_route_def)

lemma demo_node: "\<not> cr_Blackhole demo_route"
  by (simp add: demo_route_def)

lemma demo_DeleteRoute:
  "DeleteRoute (mem_routes port_there) demo_route demo_three =
     (if port_there then (Ok (), demo_cloud [via ''10.0.0.9'', via ''10.0.0.8''])
      else (Err ErrNotFound, demo_cloud [via ''10.0.0.9'', via ''10.0.0.8'', via ''10.0.0.9'']))"
proof -
  have "disallow_pair (mem_routes True) demo_route ''10.0.0.7'' w = (Ok (), w)" if "snd w ''port-1'' = []" for w
    using that by (simp add: disallow_pair_def mem_simps demo_port getPortByID_def slice_alloc_def slice_read_def
        empty_heap_def)
  then show ?thesis
    using demo_node DeleteRoute_run [OF demo_hop [of port_there demo_three] demo_router, of 0]
    by (simp add: demo_found demo_UpdateRoutes on_failure_def demo_disallow_pair)
      (simp add: demo_three_def demo_cloud_def)
qed


theorem DeleteRoute_unwind_corrupts_witness:
  "let r = mem_routes False; (res, w') = DeleteRoute r demo_route demo_three in
     \<not> is_ok res \<and> fst w' ''router-1'' = [via ''10.0.0.9'', via ''10.0.0.8'', via ''10.0.0.9'']"
  using DeleteRoute_unwind_corrupts 
    [OF mem_routes_ok _ demo_address demo_router _ _ _ demo_DeleteRoute [of False, simplified], of 0]
  by (simp add: demo_DeleteRoute demo_UpdateRoutes demo_disallow_pair demo_found demo_rid demo_node)
    (simp add: demo_three_def demo_cloud_def)

end
