(* ===== verification/Volume_Util.thy ===== *)
theory Volume_Util
  imports Go_Prelude
begin

text \<open>
  Sizes of volumes: \<open>pkg/volume/util/util.go\<close>, and the two error values of
  \<open>pkg/volume/util/error.go\<close> and \<open>pkg/volume/volume.go\<close>. Byte counts are 64-bit integers;
  a quantity of the Kubernetes library is given by its value in bytes.
\<close>

definition GIB :: int where "GIB = 1024 * 1024 * 1024"

definition RoundUpSize :: "int \<Rightarrow> int \<Rightarrow> int result" where
  "RoundUpSize volumeSizeBytes allocationUnitBytes =
     (if allocationUnitBytes = 0 then Panic ''integer divide by zero''
      else
        let roundedUp = wrap64 (volumeSizeBytes sdiv allocationUnitBytes) in
        Ok (if volumeSizeBytes smod allocationUnitBytes > 0 then wrap64 (roundedUp + 1) else roundedUp))"

definition RoundUpSizeInt :: "int \<Rightarrow> int \<Rightarrow> int result" where
  "RoundUpSizeInt volumeSizeBytes allocationUnitBytes =
     bindR (RoundUpSize volumeSizeBytes allocationUnitBytes) (\<lambda>roundedUp.
       let roundedUpInt = wrap64 roundedUp in
       if roundedUpInt \<noteq> roundedUp
       then Err (Errorf ''capacity %v is too great, casting results in integer overflow'' [FInt roundedUp])
       else Ok roundedUpInt)"

definition RoundUpToGiBInt :: "int \<Rightarrow> int result" where
  "RoundUpToGiBInt requestBytes = RoundUpSizeInt requestBytes GIB"

definition NewDanglingError :: "string \<Rightarrow> string \<Rightarrow> string \<Rightarrow> gerror" where
  "NewDanglingError msg node devicePath = DanglingAttachError msg node devicePath"

definition ProvisionedVolumeName :: string where
  "ProvisionedVolumeName = ''placeholder-for-provisioning''"

definition NewDeletedVolumeInUseError :: "string \<Rightarrow> gerror" where
  "NewDeletedVolumeInUseError message = DeletedVolumeInUseError message"

definition IsDeletedVolumeInUse :: "gerror \<Rightarrow> bool" where
  "IsDeletedVolumeInUse err = (case err of DeletedVolumeInUseError _ \<Rightarrow> True | _ \<Rightarrow> False)"

section \<open>Rounding up\<close>

lemma sdiv_pos_unit:
  fixes a u :: int
  assumes "u > 0"
  shows "a sdiv u = (if a \<ge> 0 then a div u else - (- a div u))"
    and "a smod u = (if a \<ge> 0 then a mod u else - (- a mod u))"
  using assms by (auto simp: signed_divide_int_def signed_modulo_int_def sgn_if)

lemma ceiling_cases:
  fixes a u :: int
  assumes "u > 0"
  shows "- (- a div u) = (if a smod u > 0 then a sdiv u + 1 else a sdiv u)"
proof (cases "a \<ge> 0")
  case True
  moreover have "a mod u \<ge> 0" using assms by simp
  then have "a mod u > 0 \<longleftrightarrow> a mod u \<noteq> 0" by linarith
  ultimately show ?thesis
    using assms by (auto simp: sdiv_pos_unit zdiv_zminus1_eq_if)
next
  case False
  moreover have "\<not> - a mod u < 0" using assms by (simp add: not_less)
  ultimately show ?thesis using assms by (auto simp: sdiv_pos_unit)
qed

lemma ceiling_range:
  fixes a u :: int
  assumes "int64_range a" and "u > 0"
  shows "int64_range (- (- a div u))" and "int64_range (a sdiv u)"
proof -
  have pos: "0 \<le> x div u \<and> x div u \<le> x" if "x \<ge> 0" for x
    using zdiv_mono2 [of x 1 u] that assms(2) by (simp add: pos_imp_zdiv_nonneg_iff)
  have neg: "x \<le> x div u \<and> x div u \<le> 0" if "x < 0" for x
    using zdiv_mono2_neg [of x 1 u] div_neg_pos_less0 [of x u] that assms(2) by auto
  show "int64_range (- (- a div u))"
    using assms pos [of "- a"] neg [of "- a"] by (cases "a \<le> 0") (auto simp: int64_range_def)
  show "int64_range (a sdiv u)"
    using assms pos [of a] pos [of "- a"] by (auto simp: int64_range_def sdiv_pos_unit)
qed

lemma RoundUpSize_ceiling:
  assumes "int64_range bytes" and "unit > 0"
  shows "RoundUpSize bytes unit = Ok (- (- bytes div unit))"
  using ceiling_range [OF assms] ceiling_cases [OF assms(2), of bytes] assms(2)
  by (auto simp: RoundUpSize_def Let_def wrap64_id split: if_splits)

lemma RoundUpSizeInt_ceiling:
  assumes "int64_range bytes" and "unit > 0"
  shows "RoundUpSizeInt bytes unit = Ok (- (- bytes div unit))"
  using ceiling_range [OF assms] ceiling_cases [OF assms(2), of bytes] assms(2)
  by (auto simp: RoundUpSizeInt_def RoundUpSize_def Let_def wrap64_id split: if_splits)



end
