(* ===== verification/Openstack_Volumes.thy ===== *)
theory Openstack_Volumes
  imports Openstack_Config Volume_Util
begin

text \<open>
  Block storage of the cloud provider:
  \<open>pkg/cloudprovider/providers/openstack/openstack_volumes.go\<close>. Cinder's three API versions
  and Nova's volume attachments are parameters. The metrics the code records are left out;
  they do not influence any result.
\<close>

section \<open>Data\<close>

record Volume =
  vo_AttachedServerID :: string
  vo_AttachedDevice :: string
  vo_AvailabilityZone :: string
  vo_ID :: string
  vo_Name :: string
  vo_Status :: string
  vo_Size :: int

record volumeCreateOpts =
  vc_Size :: int
  vc_Availability :: string
  vc_Name :: string
  vc_VolumeType :: string
  vc_Metadata :: "string \<rightharpoonup> string"

definition volumeAvailableStatus :: string where "volumeAvailableStatus = ''available''"
definition volumeInUseStatus :: string where "volumeInUseStatus = ''in-use''"
definition volumeDeletedStatus :: string where "volumeDeletedStatus = ''deleted''"
definition volumeErrorStatus :: string where "volumeErrorStatus = ''error''"
definition newtonMetadataVersion :: string where "newtonMetadataVersion = ''2016-06-30''"
definition operationFinishSteps :: nat where "operationFinishSteps = 15"
definition LabelZoneFailureDomain :: string where
  "LabelZoneFailureDomain = ''failure-domain.beta.kubernetes.io/zone''"
definition LabelZoneRegion :: string where
  "LabelZoneRegion = ''failure-domain.beta.kubernetes.io/region''"

text \<open>
  What Cinder returns. An attachment is a record in versions 2 and 3 and a decoded JSON object
  in version 1, where a missing key and a null are both nil.
\<close>

record Attachment =
  at_ServerID :: string
  at_Device :: string

datatype iface = IString string | IOther

record 'att cinder_volume =
  cv_ID :: string
  cv_Name :: string
  cv_Status :: string
  cv_AvailabilityZone :: string
  cv_Size :: int
  cv_Attachments :: "'att list"

record ('w, 'att) cinder_api =
  ca_Create :: "volumeCreateOpts \<Rightarrow> ('w, 'att cinder_volume) io"
  ca_Get :: "string \<Rightarrow> ('w, 'att cinder_volume) io"
  ca_Delete :: "string \<Rightarrow> ('w, unit) io"
  ca_ExtendSize :: "string \<Rightarrow> int \<Rightarrow> ('w, unit) io"

type_synonym attachment_v1 = "string \<rightharpoonup> iface"

record 'w attach_api =
  aa_Create :: "string \<Rightarrow> string \<Rightarrow> ('w, unit) io"
  aa_Delete :: "string \<Rightarrow> string \<Rightarrow> ('w, unit) io"

text \<open>
  The surroundings of the operations: how service clients are made and what they offer, the
  machine's metadata and files, and \<open>wait.ExponentialBackoff\<close>, which gets the number of steps
  and the condition. The condition assigns the captured variable \<open>devicePath\<close>, which is kept
  beside the world.
\<close>

record ('w, 'prov, 'client) vol_env =
  ve_clients :: "('w, 'prov, 'client) os_clients"
  ve_compute_of :: "'client \<Rightarrow> 'w compute_api"
  ve_v1 :: "'client \<Rightarrow> ('w, attachment_v1) cinder_api"
  ve_v2 :: "'client \<Rightarrow> ('w, Attachment) cinder_api"
  ve_v3 :: "'client \<Rightarrow> ('w, Attachment) cinder_api"
  ve_attach_of :: "'client \<Rightarrow> 'w attach_api"
  ve_md :: "'w md_sys"
  ve_ReadDir :: "string \<Rightarrow> ('w, string list) io"
  ve_Backoff :: "nat \<Rightarrow> ('w \<times> string, bool) io \<Rightarrow> ('w \<times> string, unit) io"

section \<open>The three API versions\<close>

definition create_with :: "('w, 'att) cinder_api \<Rightarrow> volumeCreateOpts \<Rightarrow> ('w, string \<times> string) io" where
  "create_with api opts = bindE (ca_Create api opts) (\<lambda>vol. ret (cv_ID vol, cv_AvailabilityZone vol))"

definition createVolume :: "('w, 'prov, 'client) vol_env \<Rightarrow> 'client volume_service \<Rightarrow> volumeCreateOpts \<Rightarrow>
    ('w, string \<times> string) io" where
  "createVolume env volumes opts =
     (case volumes of
        VolumesV1 c _ \<Rightarrow> create_with (ve_v1 env c) opts
      | VolumesV2 c _ \<Rightarrow> create_with (ve_v2 env c) opts
      | VolumesV3 c _ \<Rightarrow> create_with (ve_v3 env c) opts)"

text \<open>The server and the device of the first attachment, empty if there is none.\<close>

definition attached_v1 :: "attachment_v1 list \<Rightarrow> (string \<times> string) result" where
  "attached_v1 atts =
     (case atts of
        [] \<Rightarrow> Ok ('''', '''')
      | a # _ \<Rightarrow>
          (case a ''server_id'' of
             None \<Rightarrow> Ok ('''', '''')
           | Some (IString server) \<Rightarrow>
               (case a ''device'' of
                  Some (IString device) \<Rightarrow> Ok (server, device)
                | _ \<Rightarrow> Panic ''interface conversion'')
           | Some IOther \<Rightarrow> Panic ''interface conversion''))"

definition attached_v2 :: "Attachment list \<Rightarrow> (string \<times> string) result" where
  "attached_v2 atts = (case atts of [] \<Rightarrow> Ok ('''', '''') | a # _ \<Rightarrow> Ok (at_ServerID a, at_Device a))"

definition get_with ::
    "('w, 'att) cinder_api \<Rightarrow> ('att list \<Rightarrow> (string \<times> string) result) \<Rightarrow> string \<Rightarrow> ('w, Volume) io" where
  "get_with api attached volumeID =
     bindE (wrapE (\<lambda>e. Errorf ''error occurred getting volume by ID: %s, err: %v'' [FStr volumeID, FErr e])
              (ca_Get api volumeID)) (\<lambda>v.
     bindE (lift_result (attached (cv_Attachments v))) (\<lambda>(server, device).
       ret \<lparr> vo_AttachedServerID = server, vo_AttachedDevice = device,
             vo_AvailabilityZone = cv_AvailabilityZone v, vo_ID = cv_ID v, vo_Name = cv_Name v,
             vo_Status = cv_Status v, vo_Size = cv_Size v \<rparr>))"

definition service_getVolume ::
    "('w, 'prov, 'client) vol_env \<Rightarrow> 'client volume_service \<Rightarrow> string \<Rightarrow> ('w, Volume) io" where
  "service_getVolume env volumes volumeID =
     (case volumes of
        VolumesV1 c _ \<Rightarrow> get_with (ve_v1 env c) attached_v1 volumeID
      | VolumesV2 c _ \<Rightarrow> get_with (ve_v2 env c) attached_v2 volumeID
      | VolumesV3 c _ \<Rightarrow> get_with (ve_v3 env c) attached_v2 volumeID)"

definition deleteVolume ::
    "('w, 'prov, 'client) vol_env \<Rightarrow> 'client volume_service \<Rightarrow> string \<Rightarrow> ('w, unit) io" where
  "deleteVolume env volumes volumeID =
     (case volumes of
        VolumesV1 c _ \<Rightarrow> ca_Delete (ve_v1 env c) volumeID
      | VolumesV2 c _ \<Rightarrow> ca_Delete (ve_v2 env c) volumeID
      | VolumesV3 c _ \<Rightarrow> ca_Delete (ve_v3 env c) volumeID)"

definition expandVolume ::
    "('w, 'prov, 'client) vol_env \<Rightarrow> 'client volume_service \<Rightarrow> string \<Rightarrow> int \<Rightarrow> ('w, unit) io" where
  "expandVolume env volumes volumeID newSize =
     (case volumes of
        VolumesV1 c _ \<Rightarrow> ca_ExtendSize (ve_v1 env c) volumeID newSize
      | VolumesV2 c _ \<Rightarrow> ca_ExtendSize (ve_v2 env c) volumeID newSize
      | VolumesV3 c _ \<Rightarrow> ca_ExtendSize (ve_v3 env c) volumeID newSize)"

section \<open>Operations\<close>

definition no_cinder :: "'prov OpenStack \<Rightarrow> gerror \<Rightarrow> gerror" where
  "no_cinder os e = Errorf ''unable to initialize cinder client for region: %s, err: %v'' [FStr (os_region os), FErr e]"

definition getVolume :: "('w, 'prov, 'client) vol_env \<Rightarrow> 'prov OpenStack \<Rightarrow> string \<Rightarrow> ('w, Volume) io" where
  "getVolume env os volumeID =
     bindE (wrapE (no_cinder os) (volumeService (ve_clients env) os '''')) (\<lambda>volumes.
       service_getVolume env volumes volumeID)"

text \<open>The status that comes with the error is the one the error names.\<close>

definition OperationPending ::
    "('w, 'prov, 'client) vol_env \<Rightarrow> 'prov OpenStack \<Rightarrow> string \<Rightarrow> ('w, bool \<times> string) io" where
  "OperationPending env os diskName =
     bindE (getVolume env os diskName) (\<lambda>volume.
       let volumeStatus = vo_Status volume in
       if volumeStatus = volumeErrorStatus
       then fail (Errorf ''status of volume %s is %s'' [FStr diskName, FStr volumeStatus])
       else if volumeStatus = volumeAvailableStatus \<or> volumeStatus = volumeInUseStatus \<or>
               volumeStatus = volumeDeletedStatus
       then ret (False, volumeStatus)
       else ret (True, volumeStatus))"

definition attach_msg :: "string \<Rightarrow> Volume \<Rightarrow> string" where
  "attach_msg volumeID volume =
     ''disk '' @ volumeID @ '' path '' @ vo_AttachedDevice volume @ '' is attached to a different instance ('' @
     vo_AttachedServerID volume @ '')''"

definition AttachDisk ::
    "('w, 'prov, 'client) vol_env \<Rightarrow> 'prov OpenStack \<Rightarrow> string \<Rightarrow> string \<Rightarrow> ('w, string) io" where
  "AttachDisk env os instanceID volumeID =
     bindE (getVolume env os volumeID) (\<lambda>volume.
     bindE (NewComputeV2 (ve_clients env) os) (\<lambda>cClient.
       if vo_AttachedServerID volume \<noteq> '''' then
         if instanceID = vo_AttachedServerID volume then ret (vo_ID volume)
         else
           bindE (attempt (GetNodeNameByID (ve_clients env) (ve_compute_of env) os (vo_AttachedServerID volume))) (\<lambda>r.
             case r of
               Inl _ \<Rightarrow> fail (errors_New (attach_msg volumeID volume))
             | Inr nodeName \<Rightarrow>
                 fail (NewDanglingError (attach_msg volumeID volume) nodeName (vo_AttachedDevice volume)))
       else
         bindE (wrapE (\<lambda>e. Errorf ''failed to attach %s volume to %s compute: %v''
                             [FStr volumeID, FStr instanceID, FErr e])
                  (aa_Create (ve_attach_of env cClient) instanceID (vo_ID volume))) (\<lambda>_.
           ret (vo_ID volume))))"

definition DetachDisk ::
    "('w, 'prov, 'client) vol_env \<Rightarrow> 'prov OpenStack \<Rightarrow> string \<Rightarrow> string \<Rightarrow> ('w, unit) io" where
  "DetachDisk env os instanceID volumeID =
     bindE (getVolume env os volumeID) (\<lambda>volume.
       if vo_Status volume = volumeAvailableStatus then ret ()
       else if vo_Status volume \<noteq> volumeInUseStatus
       then fail (Errorf ''can not detach volume %s, its status is %s'' [FStr (vo_Name volume), FStr (vo_Status volume)])
       else
         bindE (NewComputeV2 (ve_clients env) os) (\<lambda>cClient.
           if vo_AttachedServerID volume \<noteq> instanceID
           then fail (Errorf ''disk: %s has no attachments or is not attached to compute: %s''
                        [FStr (vo_Name volume), FStr instanceID])
           else
             wrapE (\<lambda>e. Errorf ''failed to delete volume %s from compute %s attached %v''
                          [FStr (vo_ID volume), FStr instanceID, FErr e])
               (aa_Delete (ve_attach_of env cClient) instanceID (vo_ID volume))))"

text \<open>
  Quantities are a library type \<open>'q\<close> with a value in bytes and a parser. On an error the old
  size is returned with it.
\<close>

definition os_ExpandVolume ::
    "('w, 'prov, 'client) vol_env \<Rightarrow> ('q \<Rightarrow> int) \<Rightarrow> (string \<Rightarrow> int \<Rightarrow> 'q) \<Rightarrow> 'prov OpenStack \<Rightarrow> string \<Rightarrow> 'q \<Rightarrow>
     ('w, 'q) io" where
  "os_ExpandVolume env q_Value MustParse os volumeID newSize =
     bindE (getVolume env os volumeID) (\<lambda>volume.
       if vo_Status volume \<noteq> volumeAvailableStatus then fail (errors_New ''volume status is not available'')
       else
         bindE (lift_result (RoundUpToGiBInt (q_Value newSize))) (\<lambda>volSizeGiB.
           let newSizeQuant = MustParse ''%dGi'' volSizeGiB in
           if vo_Size volume \<ge> volSizeGiB then ret newSizeQuant
           else
             bindE (volumeService (ve_clients env) os '''') (\<lambda>volumes.
             bindE (expandVolume env volumes volumeID volSizeGiB) (\<lambda>_. ret newSizeQuant))))"

definition os_CreateVolume ::
    "('w, 'prov, 'client) vol_env \<Rightarrow> 'prov OpenStack \<Rightarrow> string \<Rightarrow> int \<Rightarrow> string \<Rightarrow> string \<Rightarrow>
     (string \<rightharpoonup> string) option \<Rightarrow> ('w, string \<times> string \<times> string \<times> bool) io" where
  "os_CreateVolume env os name size' vtype availability tags =
     bindE (wrapE (no_cinder os) (volumeService (ve_clients env) os '''')) (\<lambda>volumes.
     bindE (wrapE (\<lambda>e. Errorf ''failed to create a %d GB volume: %v'' [FInt size', FErr e])
              (createVolume env volumes
                 \<lparr> vc_Size = size', vc_Availability = availability, vc_Name = name, vc_VolumeType = vtype,
                   vc_Metadata = (case tags of None \<Rightarrow> Map.empty | Some m \<Rightarrow> m) \<rparr>)) (\<lambda>(volumeID, volumeAZ).
       ret (volumeID, volumeAZ, os_region os, bs_IgnoreVolumeAZ (os_bsOpts os))))"

definition diskIsUsed :: "('w, 'prov, 'client) vol_env \<Rightarrow> 'prov OpenStack \<Rightarrow> string \<Rightarrow> ('w, bool) io" where
  "diskIsUsed env os volumeID =
     bindE (getVolume env os volumeID) (\<lambda>volume. ret (vo_AttachedServerID volume \<noteq> ''''))"

text \<open>The verb \<open>%q\<close>, for printable ASCII text.\<close>

definition quoted :: "string \<Rightarrow> string" where
  "quoted s = CHR 0x22 # concat (map (\<lambda>c. if c \<in> {CHR 0x22, CHR 0x5C} then [CHR 0x5C, c] else [c]) s) @ [CHR 0x22]"

definition os_DeleteVolume :: "('w, 'prov, 'client) vol_env \<Rightarrow> 'prov OpenStack \<Rightarrow> string \<Rightarrow> ('w, unit) io" where
  "os_DeleteVolume env os volumeID =
     bindE (diskIsUsed env os volumeID) (\<lambda>used.
       if used
       then fail (NewDeletedVolumeInUseError
              (''Cannot delete the volume '' @ quoted volumeID @ '', it'' @ [CHR 0x27] @ ''s still attached to a node''))
       else
         bindE (wrapE (no_cinder os) (volumeService (ve_clients env) os '''')) (\<lambda>volumes.
           deleteVolume env volumes volumeID))"

section \<open>Device paths\<close>

text \<open>
  \<open>GetDevicePathBySerialID\<close> slices the first twenty bytes off the volume id. The entries of
  \<open>/dev/disk/by-id/\<close> are plain names, for which \<open>path.Join\<close> is concatenation; an unreadable
  directory counts as empty.
\<close>

definition candidateDeviceNodes :: "string \<Rightarrow> string list result" where
  "candidateDeviceNodes volumeID =
     (if length volumeID < 20 then Panic ''slice bounds out of range''
      else Ok [''virtio-'' @ take 20 volumeID, ''scsi-0QEMU_QEMU_HARDDISK_'' @ take 20 volumeID,
               ''wwn-0x'' @ filter (\<lambda>c. c \<noteq> CHR ''-'') volumeID])"

definition GetDevicePathBySerialID :: "('w, 'prov, 'client) vol_env \<Rightarrow> string \<Rightarrow> ('w, string) io" where
  "GetDevicePathBySerialID env volumeID =
     bindE (lift_result (candidateDeviceNodes volumeID)) (\<lambda>candidates.
     bindE (attempt (ve_ReadDir env ''/dev/disk/by-id/'')) (\<lambda>r.
       case find (\<lambda>f. list_ex (\<lambda>c. c = f) candidates) (case r of Inl _ \<Rightarrow> [] | Inr files \<Rightarrow> files) of
         Some f \<Rightarrow> ret (''/dev/disk/by-id/'' @ f)
       | None \<Rightarrow> ret ''''))"

definition getDevicePathFromInstanceMetadata :: "('w, 'prov, 'client) vol_env \<Rightarrow> string \<Rightarrow> ('w, string) io" where
  "getDevicePathFromInstanceMetadata env volumeID =
     bindE (attempt (GetFromMetadataService (ve_md env) newtonMetadataVersion)) (\<lambda>r.
       case r of
         Inl _ \<Rightarrow> ret ''''
       | Inr md \<Rightarrow>
           (case find (\<lambda>d. dm_Type d = ''disk'' \<and> dm_Serial d = volumeID) (md_Devices md) of
              None \<Rightarrow> ret ''''
            | Some d \<Rightarrow>
                bindE (attempt (ms_Glob (ve_md env) (''/dev/disk/by-path/*-'' @ dm_Bus d @ ''-'' @ dm_Address d))) (\<lambda>g.
                  case g of
                    Inl _ \<Rightarrow> ret ''''
                  | Inr diskPaths \<Rightarrow> (case diskPaths of [p] \<Rightarrow> ret p | _ \<Rightarrow> ret ''''))))"

text \<open>The condition of the loop, over the world and the variable \<open>devicePath\<close>.\<close>

definition device_condition :: "('w, 'prov, 'client) vol_env \<Rightarrow> string \<Rightarrow> ('w \<times> string, bool) io" where
  "device_condition env volumeID st =
     (case bindE (GetDevicePathBySerialID env volumeID) (\<lambda>p.
             if p \<noteq> '''' then ret p else getDevicePathFromInstanceMetadata env volumeID) (fst st) of
        (Ok p, w) \<Rightarrow> (Ok (p \<noteq> ''''), (w, p))
      | (Err e, w) \<Rightarrow> (Err e, (w, snd st))
      | (Panic s, w) \<Rightarrow> (Panic s, (w, snd st)))"

definition os_GetDevicePath :: "('w, 'prov, 'client) vol_env \<Rightarrow> string \<Rightarrow> ('w, string) io" where
  "os_GetDevicePath env volumeID w =
     (case ve_Backoff env operationFinishSteps (device_condition env volumeID) (w, '''') of
        (Panic s, (w', _)) \<Rightarrow> (Panic s, w')
      | (r, (w', devicePath)) \<Rightarrow>
          (if r = Err ErrWaitTimeout
           then (Err (Errorf ''Failed to find device for the volumeID: %q within the alloted time'' [FStr volumeID]), w')
           else if devicePath = ''''
           then (Err (Errorf ''Device path was empty for volumeID: %q'' [FStr volumeID]), w')
           else (Ok devicePath, w')))"

section \<open>Attachments\<close>

definition GetAttachmentDiskPath ::
    "('w, 'prov, 'client) vol_env \<Rightarrow> 'prov OpenStack \<Rightarrow> string \<Rightarrow> string \<Rightarrow> ('w, string) io" where
  "GetAttachmentDiskPath env os instanceID volumeID =
     bindE (getVolume env os volumeID) (\<lambda>volume.
       if vo_Status volume \<noteq> volumeInUseStatus
       then fail (Errorf ''can not get device path of volume %s, its status is %s ''
                    [FStr (vo_Name volume), FStr (vo_Status volume)])
       else if vo_AttachedServerID volume \<noteq> '''' then
         if instanceID = vo_AttachedServerID volume then ret (vo_AttachedDevice volume)
         else fail (Errorf ''disk %q is attached to a different compute: %q, should be detached before proceeding''
                      [FStr volumeID, FStr (vo_AttachedServerID volume)])
       else fail (Errorf ''volume %s has no ServerId'' [FStr volumeID]))"

definition DiskIsAttached ::
    "('w, 'prov, 'client) vol_env \<Rightarrow> 'prov OpenStack \<Rightarrow> string \<Rightarrow> string \<Rightarrow> ('w, bool) io" where
  "DiskIsAttached env os instanceID volumeID =
     bindE (getVolume env os volumeID) (\<lambda>volume. ret (instanceID = vo_AttachedServerID volume))"

text \<open>\<open>"/" + srv.ID\<close>, cut after its last slash.\<close>

definition instance_of :: "Server \<Rightarrow> string" where
  "instance_of srv =
     (let instanceID = CHR ''/'' # sv_ID srv; ind = LastIndexByte instanceID (CHR ''/'')
      in if ind \<ge> 0 then drop (nat (ind + 1)) instanceID else instanceID)"

definition DiskIsAttachedByName ::
    "('w, 'prov, 'client) vol_env \<Rightarrow> 'prov OpenStack \<Rightarrow> string \<Rightarrow> string \<Rightarrow> ('w, bool \<times> string) io" where
  "DiskIsAttachedByName env os nodeName volumeID =
     bindE (NewComputeV2 (ve_clients env) os) (\<lambda>cClient.
     bindE (attempt (getServerByName (ve_compute_of env cClient) nodeName)) (\<lambda>r.
       case r of
         Inl e \<Rightarrow> if e = ErrNotFound then ret (False, '''') else fail e
       | Inr srv \<Rightarrow>
           bindE (DiskIsAttached env os (instance_of srv) volumeID) (\<lambda>attached.
             ret (attached, instance_of srv))))"

fun disks_loop ::
    "('w, 'prov, 'client) vol_env \<Rightarrow> 'prov OpenStack \<Rightarrow> string \<Rightarrow> string list \<Rightarrow> (string \<rightharpoonup> bool) \<Rightarrow>
     ('w, string \<rightharpoonup> bool) io" where
  "disks_loop env os instanceID [] attached = ret attached"
| "disks_loop env os instanceID (volumeID # rest) attached =
     bindE (attempt (DiskIsAttached env os instanceID volumeID)) (\<lambda>r.
       case r of
         Inl err \<Rightarrow>
           disks_loop env os instanceID rest (attached(volumeID \<mapsto> (err \<noteq> ErrNotFound)))
       | Inr isAttached \<Rightarrow> disks_loop env os instanceID rest (attached(volumeID \<mapsto> isAttached)))"

definition DisksAreAttached ::
    "('w, 'prov, 'client) vol_env \<Rightarrow> 'prov OpenStack \<Rightarrow> string \<Rightarrow> string list \<Rightarrow> ('w, string \<rightharpoonup> bool) io" where
  "DisksAreAttached env os instanceID volumeIDs = disks_loop env os instanceID volumeIDs Map.empty"

definition DisksAreAttachedByName ::
    "('w, 'prov, 'client) vol_env \<Rightarrow> 'prov OpenStack \<Rightarrow> string \<Rightarrow> string list \<Rightarrow> ('w, string \<rightharpoonup> bool) io" where
  "DisksAreAttachedByName env os nodeName volumeIDs =
     bindE (NewComputeV2 (ve_clients env) os) (\<lambda>cClient.
     bindE (attempt (getServerByName (ve_compute_of env cClient) nodeName)) (\<lambda>r.
       case r of
         Inl e \<Rightarrow> if e = ErrNotFound then ret (\<lambda>v. if v \<in> set volumeIDs then Some False else None) else fail e
       | Inr srv \<Rightarrow> DisksAreAttached env os (instance_of srv) volumeIDs))"

definition ShouldTrustDevicePath :: "'prov OpenStack \<Rightarrow> bool" where
  "ShouldTrustDevicePath os = bs_TrustDevicePath (os_bsOpts os)"

text \<open>A persistent volume by the id of its Cinder source, if it has one; nil labels are None.\<close>

definition GetLabelsForVolume ::
    "('w, 'prov, 'client) vol_env \<Rightarrow> 'prov OpenStack \<Rightarrow> string option \<Rightarrow> ('w, (string \<rightharpoonup> string) option) io" where
  "GetLabelsForVolume env os pv =
     (case pv of
        None \<Rightarrow> ret None
      | Some volumeID \<Rightarrow>
          if volumeID = ProvisionedVolumeName then ret None
          else bindE (getVolume env os volumeID) (\<lambda>volume.
            ret (Some [LabelZoneFailureDomain \<mapsto> vo_AvailabilityZone volume, LabelZoneRegion \<mapsto> os_region os])))"

section \<open>What Cinder and Nova do\<close>

text \<open>
  \<open>att w i\<close> is the server the volume \<open>i\<close> is attached to, Some of the empty text when it is not
  attached and None when there is no such volume. Reading tells it and changes nothing; a call
  on one volume leaves all others alone, expanding never changes an attachment, and creating
  leaves the existing volumes alone.
\<close>

definition api_ok ::
    "('w \<Rightarrow> string \<Rightarrow> string option) \<Rightarrow> ('att list \<Rightarrow> (string \<times> string) result) \<Rightarrow> ('w, 'att) cinder_api \<Rightarrow> bool" where
  "api_ok att attached api \<longleftrightarrow>
     (\<forall>i w r w'. ca_Get api i w = (r, w') \<longrightarrow> att w' = att w \<and>
        (\<forall>v s d. r = Ok v \<and> attached (cv_Attachments v) = Ok (s, d) \<longrightarrow> cv_ID v = i \<and> att w i = Some s)) \<and>
     (\<forall>i w j. j \<noteq> i \<longrightarrow> att (snd (ca_Delete api i w)) j = att w j) \<and>
     (\<forall>i n w. att (snd (ca_ExtendSize api i n w)) = att w) \<and>
     (\<forall>opts w j. att w j \<noteq> None \<longrightarrow> att (snd (ca_Create api opts w)) j = att w j)"

definition volumes_ok :: "('w \<Rightarrow> string \<Rightarrow> string option) \<Rightarrow> ('w, 'prov, 'client) vol_env \<Rightarrow> bool" where
  "volumes_ok att env \<longleftrightarrow>
     (\<forall>c. api_ok att attached_v1 (ve_v1 env c) \<and> api_ok att attached_v2 (ve_v2 env c) \<and>
        api_ok att attached_v2 (ve_v3 env c)) \<and>
     (\<forall>c s i w j. j \<noteq> i \<longrightarrow> att (snd (aa_Create (ve_attach_of env c) s i w)) j = att w j \<and>
        att (snd (aa_Delete (ve_attach_of env c) s i w)) j = att w j) \<and>
     (\<forall>c i w. att (snd (cp_Get (ve_compute_of env c) i w)) = att w) \<and>
     (\<forall>p s w. att (snd (ol_Compute (ve_clients env) p s w)) = att w \<and>
        att (snd (ol_BlockStorageV1 (ve_clients env) p s w)) = att w \<and>
        att (snd (ol_BlockStorageV2 (ve_clients env) p s w)) = att w \<and>
        att (snd (ol_BlockStorageV3 (ve_clients env) p s w)) = att w)"

section \<open>Attachments are respected\<close>

lemma keeps_clients:
  assumes "volumes_ok att env"
  shows "keeps (\<lambda>w. P (att w)) (volumeService (ve_clients env) os v)"
    and "keeps (\<lambda>w. P (att w)) (NewComputeV2 (ve_clients env) os)"
proof -
  have calls: "keeps (\<lambda>w. P (att w)) (ol_Compute (ve_clients env) p s)"
    "keeps (\<lambda>w. P (att w)) (ol_BlockStorageV1 (ve_clients env) p s)"
    "keeps (\<lambda>w. P (att w)) (ol_BlockStorageV2 (ve_clients env) p s)"
    "keeps (\<lambda>w. P (att w)) (ol_BlockStorageV3 (ve_clients env) p s)" for p s
    using assms by (auto simp: volumes_ok_def keeps_def)
  show "keeps (\<lambda>w. P (att w)) (volumeService (ve_clients env) os v)"
    and "keeps (\<lambda>w. P (att w)) (NewComputeV2 (ve_clients env) os)"
    unfolding volumeService_def NewBlockStorageV1_def NewBlockStorageV2_def NewBlockStorageV3_def
      NewComputeV2_def client_for_def
    by (intro keeps_intros calls)+
qed

lemma get_with_reads:
  assumes "api_ok att attached api" and "get_with api attached i w = (r, w')"
  shows "att w' = att w" and "r = Ok v \<Longrightarrow> vo_ID v = i \<and> att w i = Some (vo_AttachedServerID v)"
proof -
  obtain r0 w0 where g: "ca_Get api i w = (r0, w0)" by fastforce
  then have a: "att w0 = att w"
    and b: "\<And>v s d. r0 = Ok v \<Longrightarrow> attached (cv_Attachments v) = Ok (s, d) \<Longrightarrow> cv_ID v = i \<and> att w i = Some s"
    using assms(1) unfolding api_ok_def by blast+
  have "att w' = att w \<and> (\<forall>v. r = Ok v \<longrightarrow> vo_ID v = i \<and> att w i = Some (vo_AttachedServerID v))"
  proof (cases r0)
    case (Ok v0)
    show ?thesis
    proof (cases "attached (cv_Attachments v0)")
      case att: (Ok sd)
      obtain s d where "sd = (s, d)" by (cases sd)
      with att have at: "attached (cv_Attachments v0) = Ok (s, d)" by simp
      then show ?thesis using assms(2) g Ok a b [OF Ok at] by (auto simp: get_with_def)
    qed (use assms(2) g Ok a in \<open>auto simp: get_with_def\<close>)
  qed (use assms(2) g a in \<open>auto simp: get_with_def\<close>)
  then show "att w' = att w" and "r = Ok v \<Longrightarrow> vo_ID v = i \<and> att w i = Some (vo_AttachedServerID v)"
    by blast+
qed

lemma getVolume_reads:
  assumes "volumes_ok att env" and "getVolume env os i w = (r, w')"
  shows "att w' = att w" and "r = Ok v \<Longrightarrow> vo_ID v = i \<and> att w i = Some (vo_AttachedServerID v)"
proof -
  obtain r1 w1 where s: "wrapE (no_cinder os) (volumeService (ve_clients env) os '''') w = (r1, w1)" by fastforce
  have a1: "att w1 = att w"
    by (rule keepsD [OF keeps_wrapE [OF keeps_clients(1) [OF assms(1), of "\<lambda>x. x = att w"]] _ s]) simp
  have step: "att w' = att w1 \<and> (\<forall>v. r = Ok v \<longrightarrow> vo_ID v = i \<and> att w1 i = Some (vo_AttachedServerID v))"
    if "r1 = Ok svc" for svc
  proof -
    have run: "service_getVolume env svc i w1 = (r, w')" using assms(2) s that by (simp add: getVolume_def)
    have api: "api_ok att attached_v1 (ve_v1 env c)" "api_ok att attached_v2 (ve_v2 env c)"
      "api_ok att attached_v2 (ve_v3 env c)" for c
      using assms(1) by (auto simp: volumes_ok_def)
    show ?thesis
    proof (cases svc)
      case (VolumesV1 c b)
      with run have "get_with (ve_v1 env c) attached_v1 i w1 = (r, w')" by (simp add: service_getVolume_def)
      from get_with_reads [OF api(1) this] show ?thesis by blast
    next
      case (VolumesV2 c b)
      with run have "get_with (ve_v2 env c) attached_v2 i w1 = (r, w')" by (simp add: service_getVolume_def)
      from get_with_reads [OF api(2) this] show ?thesis by blast
    next
      case (VolumesV3 c b)
      with run have "get_with (ve_v3 env c) attached_v2 i w1 = (r, w')" by (simp add: service_getVolume_def)
      from get_with_reads [OF api(3) this] show ?thesis by blast
    qed
  qed
  show "att w' = att w"
    using step a1 assms(2) s by (cases r1) (auto simp: getVolume_def)
  show "vo_ID v = i \<and> att w i = Some (vo_AttachedServerID v)" if "r = Ok v"
    using step a1 assms(2) s that by (cases r1) (auto simp: getVolume_def)
qed

text \<open>The operations of the provider that change volumes, and a sequence of them: a failed operation does
  not stop the next one.\<close>

datatype vol_op =
    OpAttach string string
  | OpDetach string string
  | OpDelete string
  | OpExpand string int
  | OpCreate string int string string "(string \<rightharpoonup> string) option"

definition run_op :: "('w, 'prov, 'client) vol_env \<Rightarrow> 'prov OpenStack \<Rightarrow> vol_op \<Rightarrow> ('w, unit) io" where
  "run_op env os op =
     (case op of
        OpAttach instanceID volumeID \<Rightarrow> bindE (AttachDisk env os instanceID volumeID) (\<lambda>_. ret ())
      | OpDetach instanceID volumeID \<Rightarrow> DetachDisk env os instanceID volumeID
      | OpDelete volumeID \<Rightarrow> os_DeleteVolume env os volumeID
      | OpExpand volumeID bytes \<Rightarrow>
          bindE (os_ExpandVolume env (\<lambda>q. q) (\<lambda>_ n. n) os volumeID bytes) (\<lambda>_. ret ())
      | OpCreate name n vtype az tags \<Rightarrow> bindE (os_CreateVolume env os name n vtype az tags) (\<lambda>_. ret ()))"

definition run_ops :: "('w, 'prov, 'client) vol_env \<Rightarrow> 'prov OpenStack \<Rightarrow> vol_op list \<Rightarrow> ('w, unit) io" where
  "run_ops env os ops = forE (\<lambda>op. bindE (attempt (run_op env os op)) (\<lambda>_. ret ())) ops"

lemma keeps_getVolume:
  assumes "volumes_ok att env"
  shows "keeps (\<lambda>w. P (att w)) (getVolume env os i)"
  by (rule keepsI) (simp add: getVolume_reads(1) [OF assms])

lemma api_keeps:
  assumes "api_ok att attached a"
  shows "keeps (\<lambda>w. att w vol = Some s) (ca_ExtendSize a i n)"
    and "keeps (\<lambda>w. att w vol = Some s) (ca_Create a opts)"
    and "i \<noteq> vol \<Longrightarrow> keeps (\<lambda>w. att w vol = Some s) (ca_Delete a i)"
  using assms by (auto simp: api_ok_def keeps_def)

lemma keeps_calls:
  fixes att :: "'w \<Rightarrow> string \<Rightarrow> string option" and vol s :: string
  assumes "volumes_ok att env"
  defines "I \<equiv> \<lambda>w. att w vol = Some s"
  shows "keeps I (cp_Get (ve_compute_of env c) i)" and "keeps I (expandVolume env svc i n)"
    and "keeps I (createVolume env svc opts)"
    and "i \<noteq> vol \<Longrightarrow> keeps I (deleteVolume env svc i)"
    and "i \<noteq> vol \<Longrightarrow> keeps I (aa_Create (ve_attach_of env c) srv i)"
    and "i \<noteq> vol \<Longrightarrow> keeps I (aa_Delete (ve_attach_of env c) srv i)"
proof -
  show "keeps I (cp_Get (ve_compute_of env c) i)" using assms by (simp add: volumes_ok_def keeps_def)
  show "keeps I (aa_Create (ve_attach_of env c) srv i)" "keeps I (aa_Delete (ve_attach_of env c) srv i)" if "i \<noteq> vol"
    using assms that by (auto simp: volumes_ok_def keeps_def)
  have api: "api_ok att attached_v1 (ve_v1 env c)" "api_ok att attached_v2 (ve_v2 env c)"
      "api_ok att attached_v2 (ve_v3 env c)" for c
    using assms(1) by (auto simp: volumes_ok_def)
  note calls = api_keeps [OF api(1), where vol = vol and s = s, folded I_def] api_keeps [OF api(2), where vol = vol and s = s, folded I_def]
    api_keeps [OF api(3), where vol = vol and s = s, folded I_def]
  show "keeps I (expandVolume env svc i n)" by (cases svc) (simp_all add: expandVolume_def calls)
  show "keeps I (createVolume env svc opts)"
    by (cases svc) (auto simp: createVolume_def create_with_def intro!: keeps_intros calls)
  show "keeps I (deleteVolume env svc i)" if "i \<noteq> vol"
    using that by (cases svc) (simp_all add: deleteVolume_def calls)
qed

lemma keeps_run_op:
  assumes ok: "volumes_ok att env" and "s \<noteq> ''''" and "op \<noteq> OpDetach s vol"
  shows "keeps (\<lambda>w. att w vol = Some s) (run_op env os op)"
proof -
  let ?I = "\<lambda>w. att w vol = Some s"
  note clients = keeps_clients [OF ok, where P = "\<lambda>a. a vol = Some s"]
  note calls = keeps_calls [OF ok, where vol = vol and s = s]
  have get: "keeps ?I (getVolume env os i)" for i
    by (rule keeps_getVolume [OF ok, where P = "\<lambda>a. a vol = Some s"])
  have after_get: "keeps ?I (bindE (getVolume env os i) k)"
    if "\<And>v. (i = vol \<Longrightarrow> vo_AttachedServerID v = s) \<Longrightarrow> vo_ID v = i \<Longrightarrow> keeps ?I (k v)"
    for i and k :: "Volume \<Rightarrow> ('a, 'x) io"
  proof (rule keeps_bindE_returns [OF get])
    show "(i = vol \<longrightarrow> vo_AttachedServerID v = s) \<and> vo_ID v = i"
      if "?I w" "getVolume env os i w = (Ok v, w')" for w v w'
      using getVolume_reads(2) [OF ok that(2), of v] that(1) by auto
  qed (use that in blast)
  show ?thesis
  proof (cases op)
    case (OpAttach inst i)
    have "keeps ?I (AttachDisk env os inst i)"
      unfolding AttachDisk_def GetNodeNameByID_def
      by (rule after_get) (intro keeps_intros clients calls; use assms(2) in auto)
    then show ?thesis by (auto simp: run_op_def OpAttach intro: keeps_intros)
  next
    case (OpDetach inst i)
    have "keeps ?I (DetachDisk env os inst i)"
      unfolding DetachDisk_def
      by (rule after_get) (intro keeps_intros clients calls; use assms(3) OpDetach in auto)
    then show ?thesis by (simp add: run_op_def OpDetach)
  next
    case (OpDelete i)
    have "keeps ?I (os_DeleteVolume env os i)"
      unfolding os_DeleteVolume_def diskIsUsed_def bindE_assoc bindE_ret
      by (rule after_get) (intro keeps_intros clients calls; use assms(2) in auto)
    then show ?thesis by (simp add: run_op_def OpDelete)
  next
    case (OpExpand i n)
    then show ?thesis
      unfolding run_op_def os_ExpandVolume_def by (auto intro!: keeps_intros clients calls get)
  next
    case (OpCreate a b c d e)
    then show ?thesis
      unfolding run_op_def os_CreateVolume_def by (auto intro!: keeps_intros clients calls)
  qed
qed

text \<open>
  C31. Attached volumes are respected: whatever sequence of attach, detach, delete, expand and
  create requests the provider serves, successful or not, a volume attached to a server stays
  attached to it and is not deleted unless its detachment from that very server is requested.
  The guards of the code ensure this on their own: Cinder and Nova are not assumed to refuse
  anything.
\<close>

theorem attached_kept:
  assumes "volumes_ok att env" and "s \<noteq> ''''" and "att w vol = Some s"
    and "OpDetach s vol \<notin> set ops" and "run_ops env os ops w = (r, w')"
  shows "att w' vol = Some s"
proof -
  have "keeps (\<lambda>w. att w vol = Some s) (run_ops env os ops)"
    unfolding run_ops_def using assms(1,2,4) by (intro keeps_intros keeps_run_op) auto
  from keepsD [OF this assms(3,5)] show ?thesis .
qed

section \<open>Queries of many volumes\<close>

text \<open>A Cinder that is up also answers: with the volume if it exists and with an error if not.\<close>

definition api_up ::
    "('w \<Rightarrow> string \<Rightarrow> string option) \<Rightarrow> ('att list \<Rightarrow> (string \<times> string) result) \<Rightarrow> ('w, 'att) cinder_api \<Rightarrow> bool" where
  "api_up att attached api \<longleftrightarrow>
     (\<forall>i w. case att w i of
        None \<Rightarrow> (\<exists>e. fst (ca_Get api i w) = Err e)
      | Some s \<Rightarrow> (\<exists>v d. fst (ca_Get api i w) = Ok v \<and> attached (cv_Attachments v) = Ok (s, d)))"

definition volumes_up :: "('w \<Rightarrow> string \<Rightarrow> string option) \<Rightarrow> ('w, 'prov, 'client) vol_env \<Rightarrow> 'prov OpenStack \<Rightarrow> bool" where
  "volumes_up att env os \<longleftrightarrow>
     (\<forall>c. api_up att attached_v1 (ve_v1 env c) \<and> api_up att attached_v2 (ve_v2 env c) \<and>
        api_up att attached_v2 (ve_v3 env c)) \<and>
     (\<forall>w. is_ok (fst (volumeService (ve_clients env) os '''' w)))"

lemma get_with_up:
  assumes "api_up att attached api"
  shows "case att w i of
      None \<Rightarrow> \<exists>e. fst (get_with api attached i w) =
          Err (Errorf ''error occurred getting volume by ID: %s, err: %v'' [FStr i, FErr e])
    | Some s \<Rightarrow> \<exists>v. fst (get_with api attached i w) = Ok v"
proof -
  have up: "case att w i of None \<Rightarrow> (\<exists>e. fst (ca_Get api i w) = Err e)
      | Some s \<Rightarrow> (\<exists>v d. fst (ca_Get api i w) = Ok v \<and> attached (cv_Attachments v) = Ok (s, d))"
    using assms unfolding api_up_def by blast
  obtain r w' where g: "ca_Get api i w = (r, w')" by fastforce
  show ?thesis using up g by (cases "att w i") (auto simp: get_with_def)
qed

lemma DiskIsAttached_up:
  assumes "volumes_ok att env" and "volumes_up att env os"
  obtains w' e where "att w' = att w" "e \<noteq> ErrNotFound"
    "DiskIsAttached env os inst i w = (case att w i of None \<Rightarrow> Err e | Some s \<Rightarrow> Ok (inst = s), w')"
proof -
  obtain r w' where g: "getVolume env os i w = (r, w')" by fastforce
  note reads = getVolume_reads [OF assms(1) g]
  obtain svc w1 where s: "volumeService (ve_clients env) os '''' w = (Ok svc, w1)"
    using assms(2) unfolding volumes_up_def is_ok_iff by (metis prod.collapse)
  have a1: "att w1 = att w"
    by (rule keepsD [OF keeps_clients(1) [OF assms(1), of "\<lambda>x. x = att w"] _ s]) simp
  have run: "service_getVolume env svc i w1 = (r, w')" using g s by (simp add: getVolume_def)
  have up: "api_up att attached_v1 (ve_v1 env c)" "api_up att attached_v2 (ve_v2 env c)"
      "api_up att attached_v2 (ve_v3 env c)" for c
    using assms(2) by (auto simp: volumes_up_def)
  have "case att w1 i of
      None \<Rightarrow> \<exists>e. fst (service_getVolume env svc i w1) =
          Err (Errorf ''error occurred getting volume by ID: %s, err: %v'' [FStr i, FErr e])
    | Some s \<Rightarrow> \<exists>v. fst (service_getVolume env svc i w1) = Ok v"
    by (cases svc) (simp only: service_getVolume_def volume_service.case, rule get_with_up, rule up)+
  then consider e where "att w i = None" "r = Err e" "e \<noteq> ErrNotFound" | s v where "att w i = Some s" "r = Ok v"
    using run a1 by (auto split: option.splits)
  then show ?thesis
  proof cases
    case (1 e)
    then show ?thesis using that [of w' e] reads(1) g by (simp add: DiskIsAttached_def)
  next
    case (2 s v)
    then show ?thesis using that [of w' ErrDefault404] reads(1) reads(2) [OF 2(2)] g by (simp add: DiskIsAttached_def)
  qed
qed

lemma disks_loop_up:
  assumes "volumes_ok att env" and "volumes_up att env os"
  shows "\<exists>w'. disks_loop env os inst ids m w =
    (Ok (\<lambda>v. if v \<in> set ids then Some (case att w v of None \<Rightarrow> True | Some s \<Rightarrow> inst = s) else m v), w')"
proof (induction ids arbitrary: m w)
  case (Cons i ids)
  obtain w' e where w': "att w' = att w" "e \<noteq> ErrNotFound"
    "DiskIsAttached env os inst i w = (case att w i of None \<Rightarrow> Err e | Some s \<Rightarrow> Ok (inst = s), w')"
    by (rule DiskIsAttached_up [OF assms, of w inst i])
  let ?b = "case att w i of None \<Rightarrow> True | Some s \<Rightarrow> inst = s"
  have "disks_loop env os inst (i # ids) m w = disks_loop env os inst ids (m(i \<mapsto> ?b)) w'"
    using w' by (cases "att w i") simp_all
  moreover obtain w'' where "disks_loop env os inst ids (m(i \<mapsto> ?b)) w' =
      (Ok (\<lambda>v. if v \<in> set ids then Some (case att w' v of None \<Rightarrow> True | Some s \<Rightarrow> inst = s) else (m(i \<mapsto> ?b)) v), w'')"
    using Cons.IH by blast
  ultimately show ?case by (auto simp: w'(1) fun_eq_iff)
qed simp

text \<open>
  \<open>DisksAreAttached\<close> answers for every volume asked for, and only for those, whether it is
  attached to the instance. For a volume that no longer exists the answer is that it is
  attached: the loop looks for \<open>ErrNotFound\<close>, but \<open>getVolume\<close> wraps every error of Cinder in a
  new one.
\<close>

theorem DisksAreAttached_answers:
  assumes "volumes_ok att env" and "volumes_up att env os"
  shows "\<exists>w'. DisksAreAttached env os inst ids w =
    (Ok (\<lambda>v. if v \<in> set ids then Some (case att w v of None \<Rightarrow> True | Some s \<Rightarrow> inst = s) else None), w')"
  unfolding DisksAreAttached_def by (rule disks_loop_up [OF assms])

section \<open>A concrete cloud\<close>

definition mem_cinder :: "(string \<Rightarrow> 'att) \<Rightarrow> (string \<rightharpoonup> string, 'att) cinder_api" where
  "mem_cinder enc = \<lparr>
     ca_Create = (\<lambda>opts w. (if w (vc_Name opts) = None then
         (Ok \<lparr> cv_ID = vc_Name opts, cv_Name = vc_Name opts, cv_Status = ''creating'', cv_AvailabilityZone = '''',
               cv_Size = vc_Size opts, cv_Attachments = [] \<rparr>, w(vc_Name opts \<mapsto> ''''))
       else (Err (External ''conflict''), w))),
     ca_Get = (\<lambda>i w. (case w i of None \<Rightarrow> Err ErrDefault404 | Some s \<Rightarrow>
         Ok \<lparr> cv_ID = i, cv_Name = i, cv_Status = (if s = '''' then ''available'' else ''in-use''),
              cv_AvailabilityZone = '''', cv_Size = 1, cv_Attachments = (if s = '''' then [] else [enc s]) \<rparr>, w)),
     ca_Delete = (\<lambda>i w. (Ok (), w(i := None))),
     ca_ExtendSize = (\<lambda>i n w. (Ok (), w)) \<rparr>"

definition mem_vols :: "(string \<rightharpoonup> string, unit, unit) vol_env" where
  "mem_vols = \<lparr>
     ve_clients = \<lparr> ol_Network = (\<lambda>_ _. ret ()), ol_Compute = (\<lambda>_ _. ret ()), ol_BlockStorageV1 = (\<lambda>_ _. ret ()),
       ol_BlockStorageV2 = (\<lambda>_ _. ret ()), ol_BlockStorageV3 = (\<lambda>_ _. ret ()), ol_LoadBalancer = (\<lambda>_ _. ret ()) \<rparr>,
     ve_compute_of = (\<lambda>_. demo_compute),
     ve_v1 = (\<lambda>_. mem_cinder (\<lambda>s. [''server_id'' \<mapsto> IString s, ''device'' \<mapsto> IString ''/dev/vdb''])),
     ve_v2 = (\<lambda>_. mem_cinder (\<lambda>s. \<lparr> at_ServerID = s, at_Device = ''/dev/vdb'' \<rparr>)),
     ve_v3 = (\<lambda>_. mem_cinder (\<lambda>s. \<lparr> at_ServerID = s, at_Device = ''/dev/vdb'' \<rparr>)),
     ve_attach_of = (\<lambda>_. \<lparr> aa_Create = (\<lambda>s i w. (Ok (), w(i \<mapsto> s))), aa_Delete = (\<lambda>s i w. (Ok (), w(i \<mapsto> ''''))) \<rparr>),
     ve_md = demo_md_sys, ve_ReadDir = (\<lambda>_. ret []), ve_Backoff = (\<lambda>_ _. fail ErrWaitTimeout) \<rparr>"

lemma mem_cinder_ok:
  assumes "\<And>s. attached [enc s] = Ok (s, d)" and "attached [] = Ok ('''', d')"
  shows "api_ok (\<lambda>w. w) attached (mem_cinder enc)" and "api_up (\<lambda>w. w) attached (mem_cinder enc)"
  using assms by (auto simp: api_ok_def api_up_def mem_cinder_def split: option.splits if_splits)

lemma mem_vols_ok: "volumes_ok (\<lambda>w. w) mem_vols" and mem_vols_up: "volumes_up (\<lambda>w. w) mem_vols demo_os"
proof -
  have v1: "attached_v1 [[''server_id'' \<mapsto> IString s, ''device'' \<mapsto> IString ''/dev/vdb'']] = Ok (s, ''/dev/vdb'')" for s
    by (simp add: attached_v1_def)
  have v2: "attached_v2 [\<lparr> at_ServerID = s, at_Device = ''/dev/vdb'' \<rparr>] = Ok (s, ''/dev/vdb'')" for s
    by (simp add: attached_v2_def)
  have none: "attached_v1 [] = Ok ('''', '''')" "attached_v2 [] = Ok ('''', '''')"
    by (simp_all add: attached_v1_def attached_v2_def)
  show "volumes_ok (\<lambda>w. w) mem_vols"
    using mem_cinder_ok(1) [OF v1 none(1)] mem_cinder_ok(1) [OF v2 none(2)]
    by (simp add: volumes_ok_def mem_vols_def demo_compute_def)
  have "volumeService (ve_clients mem_vols) demo_os '''' w = (Ok (VolumesV3 () (os_bsOpts demo_os)), w)" for w
    by (simp add: volumeService_def demo_os_def NewBlockStorageV3_def client_for_def mem_vols_def Let_def)
  then show "volumes_up (\<lambda>w. w) mem_vols demo_os"
    using mem_cinder_ok(2) [OF v1 none(1)] mem_cinder_ok(2) [OF v2 none(2)]
    by (simp add: volumes_up_def mem_vols_def)
qed

theorem attached_kept_witness:
  "snd (run_ops mem_vols demo_os [OpDelete ''vol-1'', OpDetach ''other'' ''vol-1'', OpAttach ''other'' ''vol-1'']
          [''vol-1'' \<mapsto> ''srv'']) ''vol-1'' = Some ''srv''"
  by (rule attached_kept [OF mem_vols_ok, where w = "[''vol-1'' \<mapsto> ''srv'']"
        and ops = "[OpDelete ''vol-1'', OpDetach ''other'' ''vol-1'', OpAttach ''other'' ''vol-1'']"
        and os = demo_os and r = "fst (run_ops mem_vols demo_os [OpDelete ''vol-1'', OpDetach ''other'' ''vol-1'',
           OpAttach ''other'' ''vol-1''] [''vol-1'' \<mapsto> ''srv''])"
        and w' = "snd (run_ops mem_vols demo_os [OpDelete ''vol-1'', OpDetach ''other'' ''vol-1'',
           OpAttach ''other'' ''vol-1''] [''vol-1'' \<mapsto> ''srv''])"]) simp_all

theorem DisksAreAttached_answers_witness:
  "\<exists>m w'. DisksAreAttached mem_vols demo_os ''srv'' [''vol-1'', ''gone''] [''vol-1'' \<mapsto> ''srv''] = (Ok m, w') \<and>
     m ''vol-1'' = Some True \<and> m ''gone'' = Some True"
  using DisksAreAttached_answers [OF mem_vols_ok mem_vols_up, of "''srv''" "[''vol-1'', ''gone'']" "[''vol-1'' \<mapsto> ''srv'']"]
  by auto

end
