(* ===== verification/Go_Conv.thy ===== *)
theory Go_Conv
  imports Go_Prelude
begin

text \<open>
  The parts of Go's \<open>strconv\<close> the components use: decimal text of integers (also what the verb
  \<open>%d\<close> prints) and \<open>Atoi\<close>, which accepts an optional sign and decimal digits and rejects
  values outside the range of a 64-bit integer.
\<close>

fun nat_text :: "nat \<Rightarrow> string" where
  "nat_text n = (if n < 10 then [char_of (48 + n)] else nat_text (n div 10) @ [char_of (48 + n mod 10)])"

declare nat_text.simps [simp del]

definition Itoa :: "int \<Rightarrow> string" where
  "Itoa i = (if i < 0 then CHR ''-'' # nat_text (nat (- i)) else nat_text (nat i))"

definition digit_val :: "char \<Rightarrow> nat option" where
  "digit_val c = (let n = of_char c in if 48 \<le> n \<and> n \<le> 57 then Some (n - 48) else None)"

fun digits_val :: "nat \<Rightarrow> string \<Rightarrow> nat option" where
  "digits_val acc [] = Some acc"
| "digits_val acc (c # s) =
     (case digit_val c of None \<Rightarrow> None | Some d \<Rightarrow> digits_val (acc * 10 + d) s)"

definition parse_nat :: "string \<Rightarrow> nat option" where
  "parse_nat s = (if s = [] then None else digits_val 0 s)"

definition in_range :: "int \<Rightarrow> int option" where
  "in_range i = (if int64_range i then Some i else None)"

definition Atoi :: "string \<Rightarrow> int option" where
  "Atoi s =
     (case s of
        [] \<Rightarrow> None
      | c # r \<Rightarrow>
          if c = CHR ''-'' then Option.bind (parse_nat r) (\<lambda>n. in_range (- int n))
          else if c = CHR ''+'' then Option.bind (parse_nat r) (\<lambda>n. in_range (int n))
          else Option.bind (parse_nat s) (\<lambda>n. in_range (int n)))"

text \<open>\<open>strconv.ParseBool\<close>\<close>

definition ParseBool :: "string \<Rightarrow> bool option" where
  "ParseBool str =
     (if str \<in> {''1'', ''t'', ''T'', ''true'', ''TRUE'', ''True''} then Some True
      else if str \<in> {''0'', ''f'', ''F'', ''false'', ''FALSE'', ''False''} then Some False
      else None)"

section \<open>Round trip\<close>

lemma nat_text_small: "n < 10 \<Longrightarrow> nat_text n = [char_of (48 + n)]"
  by (simp add: nat_text.simps [of n])

lemma nat_text_step: "\<not> n < 10 \<Longrightarrow> nat_text n = nat_text (n div 10) @ [char_of (48 + n mod 10)]"
  by (simp add: nat_text.simps [of n])

lemma digit_val_of: "k < 10 \<Longrightarrow> digit_val (char_of (48 + k :: nat)) = Some k"
  by (simp add: digit_val_def Let_def)

lemma digits_val_append:
  "digits_val acc (s @ t) = Option.bind (digits_val acc s) (\<lambda>n. digits_val n t)"
  by (induction s arbitrary: acc) (auto split: option.splits)

lemma digits_val_nat_text: "digits_val acc (nat_text n) = Some (acc * 10 ^ length (nat_text n) + n)"
proof (induction n arbitrary: acc rule: nat_text.induct)
  case (1 n)
  show ?case
  proof (cases "n < 10")
    case True
    then show ?thesis by (simp add: nat_text.simps [of n] digit_val_of)
  next
    case False
    have "n mod 10 < 10" by simp
    then show ?thesis
      using False 1 [of acc] by (simp add: nat_text.simps [of n] digits_val_append digit_val_of algebra_simps)
  qed
qed

lemma nat_text_not_Nil [simp]: "nat_text n \<noteq> []"
  by (subst nat_text.simps) simp

lemma nat_text_digits: "c \<in> set (nat_text n) \<Longrightarrow> digit_val c \<noteq> None"
proof (induction n rule: nat_text.induct)
  case (1 n)
  have "n mod 10 < 10" by simp
  then show ?case using 1 by (auto simp: nat_text.simps [of n] digit_val_of split: if_splits)
qed

lemma parse_nat_text [simp]: "parse_nat (nat_text n) = Some n"
  by (simp add: parse_nat_def digits_val_nat_text)

lemma digit_val_sign: "digit_val (CHR ''-'') = None" "digit_val (CHR ''+'') = None"
  by (simp_all add: digit_val_def Let_def)

lemma Atoi_Itoa:
  assumes "int64_range i"
  shows "Atoi (Itoa i) = Some i"
proof (cases "i < 0")
  case True
  then show ?thesis using assms by (simp add: Atoi_def Itoa_def in_range_def)
next
  case False
  obtain c r where cr: "nat_text (nat i) = c # r" by (cases "nat_text (nat i)") auto
  then have "c \<noteq> CHR ''-''" "c \<noteq> CHR ''+''"
    using nat_text_digits [of c "nat i"] by (auto simp: digit_val_sign)
  moreover have "parse_nat (c # r) = Some (nat i)" using parse_nat_text [of "nat i"] cr by simp
  ultimately show ?thesis using False assms cr by (simp add: Atoi_def Itoa_def in_range_def)
qed

lemma nat_text_inject [simp]: "nat_text m = nat_text n \<longleftrightarrow> m = n"
  using parse_nat_text by (metis option.inject)

end
