(* ===== verification/Net_Sets.thy ===== *)
theory Net_Sets
  imports Go_Net Go_Conv "HOL-Library.AList"
begin

text \<open>
  Sets of IP networks: \<open>pkg/util/net/sets/ipnet.go\<close>, and the source ranges of a service:
  \<open>pkg/api/v1/service/util.go\<close>. Of Go's \<open>net\<close> package this adds what \<open>ParseCIDR\<close> returns as the
  network and the text of a network, which is the key of the sets. A Go map is an association
  list with distinct keys, in the order in which a range over it visits the keys; that order is
  arbitrary, and no theorem depends on it.
\<close>

section \<open>Networks\<close>

text \<open>A network: the bytes of its address (4 or 16) and the number of leading ones of its mask.\<close>

record IPNet =
  in_IP :: "nat list"
  in_Ones :: nat

text \<open>Byte \<open>i\<close> of an address under a mask with \<open>n\<close> leading ones.\<close>

definition mask_byte :: "nat \<Rightarrow> nat \<Rightarrow> nat \<Rightarrow> nat" where
  "mask_byte n i b = (let z = 8 - min 8 (n - 8 * i) in b div 2 ^ z * 2 ^ z)"

definition Mask_ip :: "nat \<Rightarrow> nat list \<Rightarrow> nat list" where
  "Mask_ip n ip = map (\<lambda>(i, b). mask_byte n i b) (zip [0..<length ip] ip)"

definition ParseCIDR :: "string \<Rightarrow> IPNet result" where
  "ParseCIDR s =
     (case SplitN2 s ''/'' of
        [address, bitsText] \<Rightarrow>
          (let ip4 = parseIPv4 address;
               ip = (case ip4 of None \<Rightarrow> parseIPv6 address | Some a \<Rightarrow> Some (drop 12 a));
               bits = (if ip4 = None then 128 else 32)
           in case (ip, dtoi bitsText) of
                (Some a, Some (n, [])) \<Rightarrow>
                  if n \<le> bits then Ok \<lparr> in_IP = Mask_ip n a, in_Ones = n \<rparr>
                  else Err (Errorf ''invalid CIDR address: %s'' [FStr s])
              | _ \<Rightarrow> Err (Errorf ''invalid CIDR address: %s'' [FStr s]))
      | _ \<Rightarrow> Err (Errorf ''invalid CIDR address: %s'' [FStr s]))"

definition hex_char :: "nat \<Rightarrow> char" where
  "hex_char n = char_of (if n < 10 then 48 + n else 87 + n)"

fun hex_text :: "nat \<Rightarrow> string" where
  "hex_text n = (if n < 16 then [hex_char n] else hex_text (n div 16) @ [hex_char (n mod 16)])"

declare hex_text.simps [simp del]

fun groups16 :: "nat list \<Rightarrow> nat list" where
  "groups16 (a # b # r) = (a * 256 + b) # groups16 r"
| "groups16 _ = []"

text \<open>The longest run of zero groups, the first one of several.\<close>

definition zero_run :: "nat list \<Rightarrow> nat \<times> nat" where
  "zero_run g =
     foldl (\<lambda>(e0, e1) i.
       let j = i + length (takeWhile (\<lambda>x. x = 0) (drop i g)) in
       if j > i \<and> j - i > e1 - e0 then (i, j) else (e0, e1)) (0, 0) [0..<length g]"

definition v6_String :: "nat list \<Rightarrow> string" where
  "v6_String ip =
     (let g = groups16 ip; (e0, e1) = zero_run g in
      if e1 - e0 \<le> 1 then strings_Join (map hex_text g) '':''
      else strings_Join (map hex_text (take e0 g)) '':'' @ ''::'' @ strings_Join (map hex_text (drop e1 g)) '':'')"

text \<open>The text of a network; an IPv4 address in IPv6 form loses its prefix and 96 bits of the mask.\<close>

definition IPNet_String :: "IPNet \<Rightarrow> string" where
  "IPNet_String n =
     (case To4 (Some (in_IP n)) of
        Some ip \<Rightarrow> v4_text ip @ ''/'' @ nat_text (if length (in_IP n) = 16 then in_Ones n - 96 else in_Ones n)
      | None \<Rightarrow> v6_String (in_IP n) @ ''/'' @ nat_text (in_Ones n))"

section \<open>Sets\<close>

type_synonym IPNet_set = "(string \<times> IPNet) list"

fun ParseIPNets_loop :: "string list \<Rightarrow> IPNet_set \<Rightarrow> IPNet_set result" where
  "ParseIPNets_loop [] ipnetset = Ok ipnetset"
| "ParseIPNets_loop (spec # specs) ipnetset =
     bindR (ParseCIDR (TrimSpace spec)) (\<lambda>ipnet.
       ParseIPNets_loop specs (AList.update (IPNet_String ipnet) ipnet ipnetset))"

definition ParseIPNets :: "string list \<Rightarrow> IPNet_set result" where
  "ParseIPNets specs = ParseIPNets_loop specs []"

fun ipnet_Insert :: "IPNet_set \<Rightarrow> IPNet list \<Rightarrow> IPNet_set" where
  "ipnet_Insert s [] = s"
| "ipnet_Insert s (item # items) = ipnet_Insert (AList.update (IPNet_String item) item s) items"

fun ipnet_Delete :: "IPNet_set \<Rightarrow> IPNet list \<Rightarrow> IPNet_set" where
  "ipnet_Delete s [] = s"
| "ipnet_Delete s (item # items) = ipnet_Delete (AList.delete (IPNet_String item) s) items"

definition ipnet_Has :: "IPNet_set \<Rightarrow> IPNet \<Rightarrow> bool" where
  "ipnet_Has s item \<longleftrightarrow> map_of s (IPNet_String item) \<noteq> None"

definition ipnet_HasAll :: "IPNet_set \<Rightarrow> IPNet list \<Rightarrow> bool" where
  "ipnet_HasAll s items \<longleftrightarrow> list_all (ipnet_Has s) items"

definition ipnet_Difference :: "IPNet_set \<Rightarrow> IPNet_set \<Rightarrow> IPNet_set" where
  "ipnet_Difference s s2 = filter (\<lambda>(k, i). map_of s2 k = None) s"

definition ipnet_StringSlice :: "IPNet_set \<Rightarrow> string list" where
  "ipnet_StringSlice s = map fst s"

definition ipnet_IsSuperset :: "IPNet_set \<Rightarrow> IPNet_set \<Rightarrow> bool" where
  "ipnet_IsSuperset s s2 \<longleftrightarrow> list_all (\<lambda>(k, i). map_of s k \<noteq> None) s2"

definition ipnet_Equal :: "IPNet_set \<Rightarrow> IPNet_set \<Rightarrow> bool" where
  "ipnet_Equal s s2 \<longleftrightarrow> length s = length s2 \<and> ipnet_IsSuperset s s2"

definition ipnet_Len :: "IPNet_set \<Rightarrow> nat" where
  "ipnet_Len s = length s"

section \<open>Source ranges of a service\<close>

definition defaultLoadBalancerSourceRanges :: string where
  "defaultLoadBalancerSourceRanges = ''0.0.0.0/0''"

definition IsAllowAll :: "IPNet_set \<Rightarrow> bool" where
  "IsAllowAll ipnets \<longleftrightarrow> list_ex (\<lambda>s. s = ''0.0.0.0/0'') (ipnet_StringSlice ipnets)"

definition AnnotationLoadBalancerSourceRangesKey :: string where
  "AnnotationLoadBalancerSourceRangesKey = ''service.beta.kubernetes.io/load-balancer-source-ranges''"

text \<open>The arguments are the field of the specification and the annotations of the service.\<close>

definition GetLoadBalancerSourceRanges :: "string list \<Rightarrow> (string \<rightharpoonup> string) \<Rightarrow> IPNet_set result" where
  "GetLoadBalancerSourceRanges LoadBalancerSourceRanges Annotations =
     (if length LoadBalancerSourceRanges > 0 then
        (case ParseIPNets LoadBalancerSourceRanges of
           Err e \<Rightarrow> Err (Errorf ''service.Spec.LoadBalancerSourceRanges: %v is not valid. Expecting a list of IP ranges. For example, 10.0.0.0/24. Error msg: %v''
                       [FList LoadBalancerSourceRanges, FErr e])
         | r \<Rightarrow> r)
      else
        (let val = (case Annotations AnnotationLoadBalancerSourceRangesKey of None \<Rightarrow> '''' | Some v \<Rightarrow> v);
             val = TrimSpace val;
             val = (if val = '''' then defaultLoadBalancerSourceRanges else val)
         in case ParseIPNets (strings_Split val (CHR '','')) of
              Err e \<Rightarrow> Err (Errorf ''%s: %s is not valid. Expecting a comma-separated list of source IP ranges. For example, 10.0.0.0/24,192.168.2.0/24''
                          [FStr AnnotationLoadBalancerSourceRangesKey, FStr val])
            | r \<Rightarrow> r))"

section \<open>The sets as an abstract data type\<close>

text \<open>
  What the operations promise: \<open>elems\<close> is the set of texts a set stands for, and every operation
  on sets that satisfy \<open>invar\<close> is the one on mathematical sets. \<open>Equal\<close> only compares sizes and
  tests one inclusion; that this is equality follows from the laws.
\<close>

locale text_set =
  fixes invar :: "'s \<Rightarrow> bool" and elems :: "'s \<Rightarrow> string set"
    and text_of :: "'i \<Rightarrow> string"
    and ins :: "'s \<Rightarrow> 'i list \<Rightarrow> 's" and del :: "'s \<Rightarrow> 'i list \<Rightarrow> 's"
    and diff :: "'s \<Rightarrow> 's \<Rightarrow> 's" and has :: "'s \<Rightarrow> 'i \<Rightarrow> bool"
    and superset :: "'s \<Rightarrow> 's \<Rightarrow> bool" and len :: "'s \<Rightarrow> nat"
  assumes elems_finite: "invar s \<Longrightarrow> finite (elems s)"
    and ins_law: "invar s \<Longrightarrow> invar (ins s xs) \<and> elems (ins s xs) = elems s \<union> text_of ` set xs"
    and del_law: "invar s \<Longrightarrow> invar (del s xs) \<and> elems (del s xs) = elems s - text_of ` set xs"
    and diff_law: "invar s \<Longrightarrow> invar t \<Longrightarrow> invar (diff s t) \<and> elems (diff s t) = elems s - elems t"
    and has_law: "invar s \<Longrightarrow> has s x \<longleftrightarrow> text_of x \<in> elems s"
    and superset_law: "invar s \<Longrightarrow> invar t \<Longrightarrow> superset s t \<longleftrightarrow> elems t \<subseteq> elems s"
    and len_law: "invar s \<Longrightarrow> len s = card (elems s)"
begin

lemma equal_iff:
  assumes "invar s" and "invar t"
  shows "len s = len t \<and> superset s t \<longleftrightarrow> elems s = elems t"
  using assms elems_finite card_subset_eq len_law superset_law by (metis order_refl)

lemma ins_has: "invar s \<Longrightarrow> has (ins s xs) x \<longleftrightarrow> has s x \<or> text_of x \<in> text_of ` set xs"
  using ins_law has_law by auto

lemma del_ins:
  assumes "invar s" and "\<And>x. x \<in> set xs \<Longrightarrow> \<not> has s x"
  shows "elems (del (ins s xs) xs) = elems s"
  using assms ins_law [of s xs] del_law [of "ins s xs" xs] has_law [of s] by blast

lemma difference_partitions:
  assumes "invar s" and "invar t"
  shows "len s = len (diff s t) + card (elems s \<inter> elems t)"
proof -
  have "card (elems s) = card (elems s - elems t) + card (elems s \<inter> elems t)"
    using elems_finite [OF assms(1)] by (metis Int_Diff_Un Int_Diff_disjoint card_Un_disjoint finite_Diff finite_Int add.commute)
  then show ?thesis using len_law diff_law assms by simp
qed

end

definition ipnet_invar :: "IPNet_set \<Rightarrow> bool" where
  "ipnet_invar s \<longleftrightarrow> distinct (map fst s)"

definition ipnet_elems :: "IPNet_set \<Rightarrow> string set" where
  "ipnet_elems s = fst ` set s"

lemma ipnet_elems_map_of: "k \<in> ipnet_elems s \<longleftrightarrow> map_of s k \<noteq> None"
  by (simp add: ipnet_elems_def map_of_eq_None_iff)

lemma ipnet_update:
  "ipnet_invar s \<Longrightarrow> ipnet_invar (AList.update k v s)" "ipnet_elems (AList.update k v s) = insert k (ipnet_elems s)"
  by (auto simp: ipnet_invar_def ipnet_elems_def distinct_update dom_update)

lemma ipnet_Insert_law:
  "ipnet_invar s \<Longrightarrow> ipnet_invar (ipnet_Insert s xs) \<and> ipnet_elems (ipnet_Insert s xs) = ipnet_elems s \<union> IPNet_String ` set xs"
  by (induction s xs rule: ipnet_Insert.induct) (auto simp: ipnet_update)

lemma ipnet_Delete_law:
  "ipnet_invar s \<Longrightarrow> ipnet_invar (ipnet_Delete s xs) \<and> ipnet_elems (ipnet_Delete s xs) = ipnet_elems s - IPNet_String ` set xs"
proof (induction s xs rule: ipnet_Delete.induct)
  case (2 s item items)
  have "ipnet_invar (AList.delete (IPNet_String item) s)" using 2(2) by (simp add: ipnet_invar_def distinct_delete)
  moreover have "ipnet_elems (AList.delete (IPNet_String item) s) = ipnet_elems s - {IPNet_String item}"
    by (auto simp: ipnet_elems_def AList.delete_eq)
  ultimately show ?case using 2(1) by auto
qed simp

interpretation ipnets: text_set ipnet_invar ipnet_elems IPNet_String ipnet_Insert ipnet_Delete ipnet_Difference
  ipnet_Has ipnet_IsSuperset ipnet_Len
proof unfold_locales
  fix s t :: IPNet_set
  assume s: "ipnet_invar s"
  show "finite (ipnet_elems s)" by (simp add: ipnet_elems_def)
  show "ipnet_Len s = card (ipnet_elems s)"
    using s distinct_card [of "map fst s"] by (simp add: ipnet_Len_def ipnet_invar_def ipnet_elems_def)
  show "ipnet_Has s x \<longleftrightarrow> IPNet_String x \<in> ipnet_elems s" for x
    by (simp add: ipnet_Has_def ipnet_elems_map_of)
  show "ipnet_invar (ipnet_Insert s xs) \<and> ipnet_elems (ipnet_Insert s xs) = ipnet_elems s \<union> IPNet_String ` set xs" for xs
    using s by (rule ipnet_Insert_law)
  show "ipnet_invar (ipnet_Delete s xs) \<and> ipnet_elems (ipnet_Delete s xs) = ipnet_elems s - IPNet_String ` set xs" for xs
    using s by (rule ipnet_Delete_law)
  assume t: "ipnet_invar t"
  have "distinct (map fst (filter P s))" for P
    using s by (simp add: ipnet_invar_def distinct_map_filter)
  then show "ipnet_invar (ipnet_Difference s t) \<and> ipnet_elems (ipnet_Difference s t) = ipnet_elems s - ipnet_elems t"
    by (auto simp: ipnet_Difference_def ipnet_invar_def ipnet_elems_def map_of_eq_None_iff image_iff)
  show "ipnet_IsSuperset s t \<longleftrightarrow> ipnet_elems t \<subseteq> ipnet_elems s"
    unfolding ipnet_IsSuperset_def list_all_iff subset_iff ipnet_elems_map_of [of _ s]
    by (auto simp: ipnet_elems_def)
qed


section \<open>IPv4 ranges\<close>

lemma dec_text_nat_text:
  assumes "n < 1000"
  shows "dec_text n = nat_text n"
proof -
  consider (1) "n < 10" | (2) "\<not> n < 10" "n div 10 < 10" | (3) "\<not> n < 10" "\<not> n div 10 < 10" "n div 10 div 10 < 10"
    using assms by linarith
  then show ?thesis
  proof cases
    case 1
    then show ?thesis by (simp add: dec_text_def nat_text_small)
  next
    case 2
    then have "nat_text n = [char_of (48 + n div 10), char_of (48 + n mod 10)]"
      by (simp only: nat_text_step [of n] nat_text_small append.simps simp_thms)
    moreover have "n < 100" using 2 by linarith
    ultimately show ?thesis using 2(1) by (simp add: dec_text_def)
  next
    case 3
    then have "nat_text n = [char_of (48 + n div 10 div 10), char_of (48 + n div 10 mod 10), char_of (48 + n mod 10)]"
      by (simp only: nat_text_step [of n] nat_text_step [of "n div 10"] nat_text_small append.simps simp_thms)
    moreover have "\<not> n < 100" using 3 by linarith
    moreover have "n div 10 div 10 = n div 100" by (simp flip: div_mult2_eq)
    ultimately show ?thesis using 3(1) unfolding dec_text_def Let_def by (simp only: if_False)
  qed
qed

definition octets :: "nat list \<Rightarrow> bool" where
  "octets ps \<longleftrightarrow> length ps = 4 \<and> (\<forall>b \<in> set ps. b \<le> 255)"

lemma octets_cases:
  assumes "octets ps"
  obtains a b c d where "ps = [a, b, c, d]" "a \<le> 255" "b \<le> 255" "c \<le> 255" "d \<le> 255"
proof -
  from assms obtain a b c d where "ps = [a, b, c, d]"
    by (auto simp: octets_def numeral_eq_Suc length_Suc_conv)
  with assms that show thesis by (auto simp: octets_def)
qed

definition cidr4 :: "nat list \<times> nat \<Rightarrow> string" where
  "cidr4 r = v4_text (fst r) @ ''/'' @ nat_text (snd r)"

definition range4 :: "nat list \<times> nat \<Rightarrow> bool" where
  "range4 r \<longleftrightarrow> octets (fst r) \<and> snd r \<le> 32"

lemma mask_byte_le: "mask_byte n i b \<le> b"
  by (simp add: mask_byte_def Let_def)

lemma mask_byte_idem: "mask_byte n i (mask_byte n i b) = mask_byte n i b"
  by (simp add: mask_byte_def Let_def)

lemma Mask_ip_4: "Mask_ip n [a, b, c, d] = [mask_byte n 0 a, mask_byte n 1 b, mask_byte n 2 c, mask_byte n 3 d]"
  by (simp add: Mask_ip_def upt_rec numeral_2_eq_2 numeral_3_eq_3)

lemma Mask_ip_octets: "octets ps \<Longrightarrow> octets (Mask_ip n ps)"
  by (erule octets_cases) (auto simp: Mask_ip_4 octets_def intro: le_trans [OF mask_byte_le])

lemma v4_text_no_slash: "octets ps \<Longrightarrow> CHR ''/'' \<notin> set (v4_text ps)"
proof (erule octets_cases)
  fix a b c d :: nat
  assume *: "ps = [a, b, c, d]" "a \<le> 255" "b \<le> 255" "c \<le> 255" "d \<le> 255"
  have "CHR ''/'' \<notin> set (dec_text n)" if "n \<le> 255" for n
    using dec_text_chars [OF that, of "CHR ''/''"] by (auto simp: dec_digit_def Let_def)
  with * show ?thesis by (simp add: v4_text_def)
qed

lemma SplitN2_slash:
  assumes "CHR ''/'' \<notin> set s"
  shows "SplitN2 (s @ CHR ''/'' # t) ''/'' = [s, t]"
proof -
  have "\<forall>c \<in> set s. c \<noteq> CHR ''/''" using assms by auto
  then show ?thesis by (simp add: SplitN2_char_cases)
qed

lemma ParseCIDR_v4:
  assumes "range4 r"
  shows "ParseCIDR (cidr4 r) = Ok \<lparr> in_IP = Mask_ip (snd r) (fst r), in_Ones = snd r \<rparr>"
proof -
  obtain ps n where r: "r = (ps, n)" by (cases r)
  with assms have ps: "octets ps" and n: "n \<le> 32" by (auto simp: range4_def)
  have "dtoi (nat_text n) = Some (n, [])"
    using dtoi_dec_text [of n "[]"] dec_text_nat_text [of n] n by simp
  moreover have "parseIPv4 (v4_text ps) = Some (v4_prefix @ ps)"
    using ps by (auto elim!: octets_cases simp: parseIPv4_text)
  ultimately show ?thesis
    using n SplitN2_slash [OF v4_text_no_slash [OF ps], of "nat_text n"]
    by (simp add: r ParseCIDR_def cidr4_def v4_prefix_def)
qed

text \<open>A network and its normal form, the text with the bits behind the prefix cleared.\<close>

definition norm4 :: "nat list \<times> nat \<Rightarrow> nat list \<times> nat" where
  "norm4 r = (Mask_ip (snd r) (fst r), snd r)"

lemma norm4_range4: "range4 r \<Longrightarrow> range4 (norm4 r)"
  by (simp add: range4_def norm4_def Mask_ip_octets)

lemma IPNet_String_v4:
  assumes "range4 r"
  shows "IPNet_String \<lparr> in_IP = Mask_ip (snd r) (fst r), in_Ones = snd r \<rparr> = cidr4 (norm4 r)"
proof -
  have len: "length (Mask_ip (snd r) (fst r)) = 4"
    using Mask_ip_octets [of "fst r" "snd r"] assms unfolding range4_def octets_def by blast
  then have "To4 (Some (Mask_ip (snd r) (fst r))) = Some (Mask_ip (snd r) (fst r))" by (simp add: To4_def)
  with len show ?thesis by (simp add: IPNet_String_def cidr4_def norm4_def)
qed

lemma ParseIPNets_loop_v4:
  assumes "\<forall>r \<in> set rs. range4 r" and "\<forall>r \<in> set rs. TrimSpace (f r) = cidr4 r" and "ipnet_invar s"
  shows "\<exists>t. ParseIPNets_loop (map f rs) s = Ok t \<and> ipnet_invar t \<and>
    ipnet_elems t = ipnet_elems s \<union> (cidr4 \<circ> norm4) ` set rs"
  using assms
proof (induction rs arbitrary: s)
  case (Cons r rs)
  let ?n = "\<lparr> in_IP = Mask_ip (snd r) (fst r), in_Ones = snd r \<rparr>"
  have r: "ParseCIDR (TrimSpace (f r)) = Ok ?n" "IPNet_String ?n = cidr4 (norm4 r)"
    using Cons.prems ParseCIDR_v4 [of r] IPNet_String_v4 [of r] by auto
  from Cons.IH [of "AList.update (cidr4 (norm4 r)) ?n s"] Cons.prems r show ?case
    by (auto simp: ipnet_update)
qed simp

lemma TrimSpace_digits:
  assumes "s \<noteq> []" and "digit_val (hd s) \<noteq> None" and "digit_val (last s) \<noteq> None"
  shows "TrimSpace s = s"
proof -
  have no: "digit_val (hd p) = None" "digit_val (last p) = None" if "p \<in> set go_spaces" for p
    using that by (auto simp: go_spaces_def digit_val_def Let_def)
  have "trim_left go_spaces s = s"
    using assms no by (intro trim_left_id) (auto simp: HasPrefix_iff)
  moreover have "trim_left (map rev go_spaces) (rev s) = rev s"
  proof (rule trim_left_id)
    fix p assume p: "p \<in> set (map rev go_spaces)" "p \<noteq> []"
    then have "digit_val (hd p) = None" using no(2) by (auto simp: hd_rev)
    moreover have "digit_val (hd (rev s)) \<noteq> None" using assms by (simp add: hd_rev)
    ultimately show "\<not> HasPrefix (rev s) p" using p(2) by (auto simp: HasPrefix_iff)
  qed
  ultimately show ?thesis by (simp add: TrimSpace_def)
qed

lemma TrimSpace_cidr4:
  assumes "range4 r"
  shows "TrimSpace (cidr4 r) = cidr4 r"
proof (rule TrimSpace_digits)
  have "octets (fst r)" using assms by (simp add: range4_def)
  then obtain a b c d where a: "fst r = [a, b, c, d]" "a \<le> 255" by (auto elim: octets_cases)
  then have "dec_text a = nat_text a" by (simp add: dec_text_nat_text)
  then obtain z where z: "cidr4 r = nat_text a @ z" using a by (auto simp: cidr4_def v4_text_def)
  then show "cidr4 r \<noteq> []" by simp
  have "hd (nat_text a) \<in> set (nat_text a)" by simp
  with z show "digit_val (hd (cidr4 r)) \<noteq> None"
    using nat_text_digits [of "hd (nat_text a)" a] by simp
  have "last (nat_text (snd r)) \<in> set (nat_text (snd r))" by simp
  then show "digit_val (last (cidr4 r)) \<noteq> None"
    using nat_text_digits [of "last (nat_text (snd r))" "snd r"] by (simp add: cidr4_def)
qed

lemma norm4_idem:
  assumes "range4 r"
  shows "norm4 (norm4 r) = norm4 r"
proof -
  have "octets (fst r)" using assms by (simp add: range4_def)
  then show ?thesis by (auto elim!: octets_cases simp: norm4_def Mask_ip_4 mask_byte_idem)
qed

lemma ParseCIDR_norm4: "range4 r \<Longrightarrow> ParseCIDR (cidr4 (norm4 r)) = ParseCIDR (cidr4 r)"
  using ParseCIDR_v4 [of r] ParseCIDR_v4 [of "norm4 r"] norm4_range4 [of r] norm4_idem [of r]
  by (simp add: norm4_def)

definition zero4 :: "nat list \<times> nat" where "zero4 = ([0, 0, 0, 0], 0)"

lemma zero4_range4: "range4 zero4"
  by (simp add: zero4_def range4_def octets_def)

lemma char_48: "char_of (48 :: nat) = CHR ''0''"
  by code_simp

lemma zero4_text: "cidr4 zero4 = ''0.0.0.0/0''"
  by (simp add: cidr4_def zero4_def v4_text_def dec_text_def nat_text_small char_48)

lemma norm4_zero:
  assumes "range4 r"
  shows "cidr4 (norm4 r) = ''0.0.0.0/0'' \<longleftrightarrow> snd r = 0"
proof
  assume "cidr4 (norm4 r) = ''0.0.0.0/0''"
  then have "ParseCIDR (cidr4 (norm4 r)) = ParseCIDR (cidr4 zero4)" by (simp add: zero4_text)
  then show "snd r = 0"
    using ParseCIDR_v4 [OF assms] ParseCIDR_v4 [OF zero4_range4] ParseCIDR_norm4 [OF assms] by (simp add: zero4_def)
next
  assume z: "snd r = 0"
  have "octets (fst r)" using assms by (simp add: range4_def)
  moreover have "mask_byte 0 i b = 0" if "b \<le> 255" for i b using that by (simp add: mask_byte_def)
  ultimately have "Mask_ip 0 (fst r) = [0, 0, 0, 0]" by (auto elim!: octets_cases simp: Mask_ip_4)
  then show "cidr4 (norm4 r) = ''0.0.0.0/0''" using z zero4_text by (simp add: norm4_def zero4_def)
qed

lemma default_ranges: "\<exists>t. GetLoadBalancerSourceRanges [] Map.empty = Ok t \<and> IsAllowAll t"
proof -
  have "TrimSpace '''' = ''''" "strings_Split ''0.0.0.0/0'' (CHR '','') = [cidr4 zero4]"
    unfolding zero4_text by code_simp+
  moreover obtain t where "ParseIPNets [cidr4 zero4] = Ok t" "ipnet_elems t = {cidr4 (norm4 zero4)}"
    using ParseIPNets_loop_v4 [of "[zero4]" cidr4 "[]"] zero4_range4 TrimSpace_cidr4
    by (auto simp: ParseIPNets_def ipnet_invar_def ipnet_elems_def)
  moreover have "cidr4 (norm4 zero4) = ''0.0.0.0/0''"
    using norm4_zero [OF zero4_range4] by (simp add: zero4_def)
  ultimately show ?thesis
    by (auto simp: GetLoadBalancerSourceRanges_def defaultLoadBalancerSourceRanges_def IsAllowAll_def
        list_ex_iff ipnet_StringSlice_def ipnet_elems_def Let_def)
qed

text \<open>
  C25. Source ranges: for a service with valid IPv4 ranges the set holds exactly their normal
  forms, whose text parses back to the same network; everything is allowed if and only if one
  of the ranges has prefix length 0. Without ranges and without the annotation everything is
  allowed.
\<close>

theorem source_ranges_correct:
  assumes "rs \<noteq> []" and "\<forall>r \<in> set rs. range4 r"
  shows "\<exists>s. GetLoadBalancerSourceRanges (map cidr4 rs) ann = Ok s \<and> ipnet_invar s \<and>
    ipnet_elems s = (cidr4 \<circ> norm4) ` set rs \<and>
    (\<forall>r \<in> set rs. ParseCIDR (cidr4 (norm4 r)) = ParseCIDR (cidr4 r)) \<and>
    (IsAllowAll s \<longleftrightarrow> (\<exists>r \<in> set rs. snd r = 0)) \<and>
    (\<exists>t. GetLoadBalancerSourceRanges [] Map.empty = Ok t \<and> IsAllowAll t)"
proof -
  obtain s where s: "ParseIPNets (map cidr4 rs) = Ok s" "ipnet_invar s"
      "ipnet_elems s = (cidr4 \<circ> norm4) ` set rs"
    using ParseIPNets_loop_v4 [OF assms(2), of cidr4 "[]"] TrimSpace_cidr4 assms(2)
    by (auto simp: ParseIPNets_def ipnet_invar_def ipnet_elems_def)
  have "IsAllowAll s \<longleftrightarrow> ''0.0.0.0/0'' \<in> ipnet_elems s"
    by (auto simp: IsAllowAll_def list_ex_iff ipnet_StringSlice_def ipnet_elems_def)
  also have "\<dots> \<longleftrightarrow> (\<exists>r \<in> set rs. snd r = 0)"
  proof -
    have "''0.0.0.0/0'' \<in> ipnet_elems s \<longleftrightarrow> (\<exists>r \<in> set rs. cidr4 (norm4 r) = ''0.0.0.0/0'')"
      unfolding s(3) image_iff comp_apply by (simp only: eq_commute)
    then show ?thesis using norm4_zero assms(2) by (simp cong: bex_cong)
  qed
  finally have "IsAllowAll s \<longleftrightarrow> (\<exists>r \<in> set rs. snd r = 0)" .
  moreover have "\<forall>r \<in> set rs. ParseCIDR (cidr4 (norm4 r)) = ParseCIDR (cidr4 r)"
    using ParseCIDR_norm4 assms(2) by blast
  moreover have "GetLoadBalancerSourceRanges (map cidr4 rs) ann = Ok s"
    using s(1) assms(1) by (simp add: GetLoadBalancerSourceRanges_def)
  ultimately show ?thesis using s(2,3) default_ranges by (simp only: result.inject simp_thms ex_simps)
qed

theorem source_ranges_correct_witness:
  "\<exists>s. GetLoadBalancerSourceRanges (map cidr4 [([10, 0, 0, 7], 8), ([1, 2, 3, 4], 0)]) Map.empty = Ok s \<and> IsAllowAll s \<and>
     cidr4 (norm4 ([10, 0, 0, 7], 8)) \<in> ipnet_elems s"
  using source_ranges_correct [of "[([10, 0, 0, 7], 8), ([1, 2, 3, 4], 0)]" Map.empty]
  by (auto simp: range4_def octets_def)


end
