(* ===== verification/Lb_Base.thy ===== *)
theory Lb_Base
  imports Openstack_Routes Net_Sets
begin

text \<open>
  Load balancers of the cloud provider, first part of
  \<open>pkg/cloudprovider/providers/openstack/openstack_loadbalancer.go\<close>: data, the calls to
  Neutron and Octavia, lookups, names, annotations and waiting. The calls are parameters,
  collected in one record. \<open>wait.ExponentialBackoff\<close> is a parameter too; its condition may assign
  one captured variable, which is kept beside the world.
\<close>

section \<open>Data\<close>

record ServicePort =
  sp_Protocol :: string
  sp_Port :: int
  sp_NodePort :: int

record Service =
  svc_Name :: string
  svc_Namespace :: string
  svc_UID :: string
  svc_Annotations :: "string \<rightharpoonup> string"
  svc_Ports :: "ServicePort list"
  svc_LoadBalancerIP :: string
  svc_LoadBalancerSourceRanges :: "string list"
  svc_SessionAffinity :: string

record Node =
  nd_Name :: string
  nd_ProviderID :: string
  nd_Addresses :: "NodeAddress list"

record LoadBalancer =
  lbr_ID :: string
  lbr_Name :: string
  lbr_ProvisioningStatus :: string
  lbr_VipPortID :: string
  lbr_VipAddress :: string

record lb_CreateOpts =
  lc_Name :: string
  lc_Description :: string
  lc_Provider :: string
  lc_VipPortID :: string
  lc_VipSubnetID :: string
  lc_VipAddress :: string

record Listener =
  li_ID :: string
  li_Protocol :: string
  li_ProtocolPort :: int
  li_ConnLimit :: int
  li_Loadbalancers :: "string list"

record listener_CreateOpts =
  lic_Name :: string
  lic_Protocol :: string
  lic_ProtocolPort :: int
  lic_ConnLimit :: int
  lic_LoadbalancerID :: string
  lic_TimeoutClientData :: "int option"
  lic_TimeoutMemberData :: "int option"
  lic_TimeoutMemberConnect :: "int option"
  lic_TimeoutTCPInspect :: "int option"
  lic_InsertHeaders :: "string \<rightharpoonup> string"

record Pool =
  pl_ID :: string
  pl_Listeners :: "string list"
  pl_MonitorID :: string

record pool_CreateOpts =
  plc_Name :: string
  plc_Protocol :: string
  plc_LBMethod :: string
  plc_ListenerID :: string
  plc_Persistence :: "string option"

record Member =
  mb_ID :: string
  mb_Address :: string
  mb_ProtocolPort :: int

record member_CreateOpts =
  mbc_Name :: string
  mbc_ProtocolPort :: int
  mbc_Address :: string
  mbc_SubnetID :: string

record monitor_CreateOpts =
  moc_Name :: string
  moc_PoolID :: string
  moc_Type :: string
  moc_Delay :: int
  moc_Timeout :: int
  moc_MaxRetries :: int

record FloatingIP =
  fi_ID :: string
  fi_FloatingIP :: string
  fi_PortID :: string

datatype fip_ListOpts = FipByFloatingIP string | FipByPortID string

record fip_CreateOpts =
  fic_FloatingNetworkID :: string
  fic_PortID :: string
  fic_Description :: string
  fic_SubnetID :: string
  fic_FloatingIP :: string

record rule_opts =
  ru_Direction :: string
  ru_PortRangeMax :: int
  ru_PortRangeMin :: int
  ru_Protocol :: string
  ru_RemoteGroupID :: string
  ru_RemoteIPPrefix :: string
  ru_SecGroupID :: string
  ru_EtherType :: string

record np_Port =
  np_ID :: string
  np_SecurityGroups :: "string list"

datatype port_ListOpts = PortByDeviceID string | PortByTag string

record Network =
  nw_ID :: string
  nw_External :: bool

record Subnet =
  su_ID :: string
  su_CIDR :: string

text \<open>
  The calls. Paginated lists are lists of pages; \<open>AllPages\<close> with extraction is one call. A rule
  is listed by the fields that are set in the options and given by its id. \<open>le_legacyName\<close> is
  \<open>cloudprovider.DefaultLoadBalancerName\<close>.
\<close>

record 'w lb_env =
  le_compute :: "'w compute_api"
  le_Backoff :: "nat \<Rightarrow> ('w \<times> string, bool) io \<Rightarrow> ('w \<times> string, unit) io"
  le_legacyName :: "Service \<Rightarrow> string"
  lbs_List :: "string \<Rightarrow> ('w, LoadBalancer list) io"
  lbs_Get :: "string \<Rightarrow> ('w, LoadBalancer) io"
  lbs_Create :: "lb_CreateOpts \<Rightarrow> ('w, LoadBalancer) io"
  lbs_Delete :: "string \<Rightarrow> bool \<Rightarrow> ('w, unit) io"
  listeners_List :: "string \<Rightarrow> ('w, Listener list result list) io"
  listeners_Create :: "listener_CreateOpts \<Rightarrow> ('w, Listener) io"
  listeners_Update :: "string \<Rightarrow> int \<Rightarrow> ('w, unit) io"
  listeners_Delete :: "string \<Rightarrow> ('w, unit) io"
  pools_List :: "string \<Rightarrow> ('w, Pool list result list) io"
  pools_Create :: "pool_CreateOpts \<Rightarrow> ('w, Pool) io"
  pools_Delete :: "string \<Rightarrow> ('w, unit) io"
  members_List :: "string \<Rightarrow> ('w, Member list result list) io"
  members_Create :: "string \<Rightarrow> member_CreateOpts \<Rightarrow> ('w, unit) io"
  members_Delete :: "string \<Rightarrow> string \<Rightarrow> ('w, unit) io"
  monitors_Create :: "monitor_CreateOpts \<Rightarrow> ('w, string) io"
  monitors_Delete :: "string \<Rightarrow> ('w, unit) io"
  fips_List :: "fip_ListOpts \<Rightarrow> ('w, FloatingIP list result list) io"
  fips_Create :: "fip_CreateOpts \<Rightarrow> ('w, FloatingIP) io"
  fips_Update :: "string \<Rightarrow> string \<Rightarrow> ('w, FloatingIP) io"
  fips_Delete :: "string \<Rightarrow> ('w, unit) io"
  networks_List :: "('w, Network list result list) io"
  subnets_List :: "string \<Rightarrow> ('w, Subnet list) io"
  subnets_Get :: "string \<Rightarrow> ('w, Subnet) io"
  groups_IDFromName :: "string \<Rightarrow> ('w, string) io"
  groups_Create :: "string \<Rightarrow> string \<Rightarrow> ('w, string) io"
  groups_Delete :: "string \<Rightarrow> ('w, unit) io"
  rules_List :: "rule_opts \<Rightarrow> ('w, string list result list) io"
  rules_Create :: "rule_opts \<Rightarrow> ('w, unit) io"
  rules_Delete :: "string \<Rightarrow> ('w, unit) io"
  ports_List :: "port_ListOpts \<Rightarrow> ('w, np_Port list) io"
  ports_Get :: "string \<Rightarrow> ('w, np_Port option) io"
  ports_Update :: "string \<Rightarrow> string list \<Rightarrow> ('w, unit) io"
  tags_Add :: "string \<Rightarrow> string \<Rightarrow> ('w, unit) io"
  tags_Delete :: "string \<Rightarrow> string \<Rightarrow> ('w, unit) io"

definition loadbalancerActiveSteps :: nat where "loadbalancerActiveSteps = 19"
definition loadbalancerDeleteSteps :: nat where "loadbalancerDeleteSteps = 13"
definition activeStatus :: string where "activeStatus = ''ACTIVE''"
definition errorStatus :: string where "errorStatus = ''ERROR''"
definition ProtocolTCP :: string where "ProtocolTCP = ''TCP''"

definition AnnConnLimit :: string where "AnnConnLimit = ''loadbalancer.openstack.org/connection-limit''"
definition AnnFloatingNetworkID :: string where "AnnFloatingNetworkID = ''loadbalancer.openstack.org/floating-network-id''"
definition AnnFloatingSubnet :: string where "AnnFloatingSubnet = ''loadbalancer.openstack.org/floating-subnet''"
definition AnnFloatingSubnetID :: string where "AnnFloatingSubnetID = ''loadbalancer.openstack.org/floating-subnet-id''"
definition AnnInternal :: string where "AnnInternal = ''service.beta.kubernetes.io/openstack-internal-load-balancer''"
definition AnnKeepFloatingIP :: string where "AnnKeepFloatingIP = ''loadbalancer.openstack.org/keep-floatingip''"
definition AnnPortID :: string where "AnnPortID = ''loadbalancer.openstack.org/port-id''"
definition AnnProxyEnabled :: string where "AnnProxyEnabled = ''loadbalancer.openstack.org/proxy-protocol''"
definition AnnSubnetID :: string where "AnnSubnetID = ''loadbalancer.openstack.org/subnet-id''"
definition AnnTimeoutClientData :: string where "AnnTimeoutClientData = ''loadbalancer.openstack.org/timeout-client-data''"
definition AnnTimeoutMemberConnect :: string where "AnnTimeoutMemberConnect = ''loadbalancer.openstack.org/timeout-member-connect''"
definition AnnTimeoutMemberData :: string where "AnnTimeoutMemberData = ''loadbalancer.openstack.org/timeout-member-data''"
definition AnnTimeoutTCPInspect :: string where "AnnTimeoutTCPInspect = ''loadbalancer.openstack.org/timeout-tcp-inspect''"
definition AnnXForwardedFor :: string where "AnnXForwardedFor = ''loadbalancer.openstack.org/x-forwarded-for''"

section \<open>Lookups\<close>

definition not_found_as :: "gerror \<Rightarrow> gerror" where
  "not_found_as err = (if IsNotFound err then ErrNotFound else err)"

definition networkExtensions :: "('w, string list result list) io \<Rightarrow> ('w, string \<Rightarrow> bool) io" where
  "networkExtensions list_extensions =
     bindE list_extensions (\<lambda>pages.
       lift_result (each_page (\<lambda>exts seen. Ok (True, \<lambda>a. a \<in> set exts \<or> seen a)) pages (\<lambda>_. False)))"

definition getFloatingIP :: "'w lb_env \<Rightarrow> fip_ListOpts \<Rightarrow> ('w, FloatingIP) io" where
  "getFloatingIP env opts =
     bindE (wrapE not_found_as (bindE (fips_List env opts) (\<lambda>pages.
       lift_result (each_page (\<lambda>f l.
         let l' = l @ f in if length l' > 1 then Err ErrMultipleResults else Ok (True, l')) pages [])))) (\<lambda>floatingIPList.
       case floatingIPList of
         [] \<Rightarrow> fail ErrNotFound
       | [f] \<Rightarrow> ret f
       | _ \<Rightarrow> fail ErrMultipleResults)"

definition getFloatingIPByFloatingIP :: "'w lb_env \<Rightarrow> string \<Rightarrow> ('w, FloatingIP) io" where
  "getFloatingIPByFloatingIP env floatingIP = getFloatingIP env (FipByFloatingIP floatingIP)"

definition getFloatingIPByPortID :: "'w lb_env \<Rightarrow> string \<Rightarrow> ('w, FloatingIP) io" where
  "getFloatingIPByPortID env portID = getFloatingIP env (FipByPortID portID)"

definition getLoadBalancers :: "'w lb_env \<Rightarrow> string \<Rightarrow> ('w, LoadBalancer list) io" where
  "getLoadBalancers env name = lbs_List env name"

definition lb_valid :: "LoadBalancer \<Rightarrow> bool" where
  "lb_valid lb \<longleftrightarrow> lbr_ProvisioningStatus lb \<noteq> ''DELETED'' \<and> lbr_ProvisioningStatus lb \<noteq> ''PENDING_DELETE''"

definition getLoadbalancerByName :: "'w lb_env \<Rightarrow> string \<Rightarrow> string \<Rightarrow> ('w, LoadBalancer) io" where
  "getLoadbalancerByName env name legacyName =
     bindE (getLoadBalancers env name) (\<lambda>found.
     bindE (if length found = 0
            then if length legacyName > 0 then getLoadBalancers env legacyName else fail ErrNotFound
            else ret found) (\<lambda>allLoadbalancers.
       case filter lb_valid allLoadbalancers of
         [] \<Rightarrow> fail ErrNotFound
       | [lb] \<Rightarrow> ret lb
       | _ \<Rightarrow> fail ErrMultipleResults))"

definition getListenersByLoadBalancerID :: "'w lb_env \<Rightarrow> string \<Rightarrow> ('w, Listener list) io" where
  "getListenersByLoadBalancerID env lbid =
     bindE (listeners_List env lbid) (\<lambda>pages.
       lift_result (each_page (\<lambda>listenerList existing.
         Ok (True, existing @ filter (\<lambda>l. list_ex (\<lambda>lb. lb = lbid) (li_Loadbalancers l)) listenerList)) pages []))"

definition toListenersProtocol :: "string \<Rightarrow> string" where
  "toListenersProtocol protocol = (if protocol = ProtocolTCP then ''TCP'' else protocol)"

definition toRuleProtocol :: "string \<Rightarrow> string" where
  "toRuleProtocol protocol =
     (if protocol = ProtocolTCP then ''tcp'' else if protocol = ''UDP'' then ''udp'' else ToLower protocol)"

definition getListenerForPort :: "Listener list \<Rightarrow> ServicePort \<Rightarrow> Listener option" where
  "getListenerForPort existingListeners port =
     find (\<lambda>l. li_Protocol l = toListenersProtocol (sp_Protocol port) \<and> li_ProtocolPort l = sp_Port port) existingListeners"

definition getPoolByListenerID :: "'w lb_env \<Rightarrow> string \<Rightarrow> string \<Rightarrow> ('w, Pool) io" where
  "getPoolByListenerID env loadbalancerID listenerID =
     bindE (wrapE not_found_as (bindE (pools_List env loadbalancerID) (\<lambda>pages.
       lift_result (each_page (\<lambda>poolsList l.
         let l' = l @ concat (map (\<lambda>p. concat (map (\<lambda>x. if x = listenerID then [p] else []) (pl_Listeners p))) poolsList)
         in if length l' > 1 then Err ErrMultipleResults else Ok (True, l')) pages [])))) (\<lambda>listenerPools.
       case listenerPools of
         [] \<Rightarrow> fail ErrNotFound
       | [p] \<Rightarrow> ret p
       | _ \<Rightarrow> fail ErrMultipleResults)"

definition getMembersByPoolID :: "'w lb_env \<Rightarrow> string \<Rightarrow> ('w, Member list) io" where
  "getMembersByPoolID env pid =
     bindE (members_List env pid) (\<lambda>pages.
       lift_result (each_page (\<lambda>membersList members. Ok (True, members @ membersList)) pages []))"

definition member_at :: "string \<Rightarrow> int \<Rightarrow> Member \<Rightarrow> bool" where
  "member_at addr port member \<longleftrightarrow> mb_Address member = addr \<and> mb_ProtocolPort member = port"

definition memberExists :: "Member list \<Rightarrow> string \<Rightarrow> int \<Rightarrow> bool" where
  "memberExists members addr port \<longleftrightarrow> list_ex (member_at addr port) members"

definition popListener :: "Listener list \<Rightarrow> string \<Rightarrow> Listener list" where
  "popListener existingListeners lid =
     (case find_index (\<lambda>l. li_ID l = lid) existingListeners of
        None \<Rightarrow> existingListeners
      | Some i \<Rightarrow> butlast (existingListeners[i := last existingListeners]))"

text \<open>
  \<open>popMember\<close> does not stop at the first match: the range goes on over the array of the original
  slice, while \<open>members\<close>, of length \<open>n\<close>, has become shorter.
\<close>

fun popMember_loop :: "string \<Rightarrow> int \<Rightarrow> nat list \<Rightarrow> Member list \<Rightarrow> nat \<Rightarrow> (Member list \<times> nat) result" where
  "popMember_loop addr port [] arr n = Ok (arr, n)"
| "popMember_loop addr port (i # is) arr n =
     (if member_at addr port (arr ! i)
      then if i < n then popMember_loop addr port is (arr[i := arr ! (n - 1)]) (n - 1)
           else Panic ''index out of range''
      else popMember_loop addr port is arr n)"

definition popMember :: "Member list \<Rightarrow> string \<Rightarrow> int \<Rightarrow> Member list result" where
  "popMember members addr port =
     bindR (popMember_loop addr port [0..<length members] members (length members)) (\<lambda>(arr, n). Ok (take n arr))"

definition cutString :: "string \<Rightarrow> string" where
  "cutString original = (if length original > 255 then take 255 original else original)"

definition getSecurityGroupName :: "Service \<Rightarrow> string" where
  "getSecurityGroupName service =
     (let securityGroupName = ''lb-sg-'' @ svc_UID service @ ''-'' @ svc_Namespace service @ ''-'' @ svc_Name service
      in if length securityGroupName > 255 then take 255 securityGroupName else securityGroupName)"

definition getSecurityGroupRules :: "'w lb_env \<Rightarrow> rule_opts \<Rightarrow> ('w, string list) io" where
  "getSecurityGroupRules env opts =
     bindE (rules_List env opts) (\<lambda>pages.
       lift_result (each_page (\<lambda>ruleList securityRules. Ok (True, securityRules @ ruleList)) pages []))"

section \<open>Waiting\<close>

text \<open>The condition polls once and assigns \<open>provisioningStatus\<close>.\<close>

definition active_condition :: "'w lb_env \<Rightarrow> string \<Rightarrow> ('w \<times> string, bool) io" where
  "active_condition env loadbalancerID st =
     (case lbs_Get env loadbalancerID (fst st) of
        (Ok lb, w) \<Rightarrow>
          (if lbr_ProvisioningStatus lb = activeStatus then Ok True
           else if lbr_ProvisioningStatus lb = errorStatus
           then Err (errors_New ''loadbalancer has gone into ERROR state'')
           else Ok False, (w, lbr_ProvisioningStatus lb))
      | (Err e, w) \<Rightarrow> (Err e, (w, snd st))
      | (Panic p, w) \<Rightarrow> (Panic p, (w, snd st)))"

text \<open>The status is returned with the error, if any.\<close>

definition waitLoadbalancerActiveProvisioningStatus ::
    "'w lb_env \<Rightarrow> string \<Rightarrow> ('w, string \<times> gerror option) io" where
  "waitLoadbalancerActiveProvisioningStatus env loadbalancerID w =
     (case le_Backoff env loadbalancerActiveSteps (active_condition env loadbalancerID) (w, '''') of
        (Ok _, (w', status)) \<Rightarrow> (Ok (status, None), w')
      | (Err e, (w', status)) \<Rightarrow>
          (Ok (status, Some (if e = ErrWaitTimeout
             then errors_New ''loadbalancer failed to go into ACTIVE provisioning status within allotted time''
             else e)), w')
      | (Panic p, (w', _)) \<Rightarrow> (Panic p, w'))"

text \<open>What follows every change: wait, and give up with a message that names the status.\<close>

definition wait_active :: "'w lb_env \<Rightarrow> string \<Rightarrow> string \<Rightarrow> ('w, unit) io" where
  "wait_active env loadbalancerID msg =
     bindE (waitLoadbalancerActiveProvisioningStatus env loadbalancerID) (\<lambda>(provisioningStatus, err).
       case err of None \<Rightarrow> ret () | Some _ \<Rightarrow> fail (Errorf msg [FStr provisioningStatus]))"

definition deleted_condition :: "'w lb_env \<Rightarrow> string \<Rightarrow> ('w \<times> string, bool) io" where
  "deleted_condition env loadbalancerID st =
     (case lbs_Get env loadbalancerID (fst st) of
        (Ok _, w) \<Rightarrow> (Ok False, (w, snd st))
      | (Err e, w) \<Rightarrow> (if IsNotFound e then Ok True else Err e, (w, snd st))
      | (Panic p, w) \<Rightarrow> (Panic p, (w, snd st)))"

definition waitLoadbalancerDeleted :: "'w lb_env \<Rightarrow> string \<Rightarrow> ('w, unit) io" where
  "waitLoadbalancerDeleted env loadbalancerID w =
     (case le_Backoff env loadbalancerDeleteSteps (deleted_condition env loadbalancerID) (w, '''') of
        (r, (w', _)) \<Rightarrow>
          (if r = Err ErrWaitTimeout
           then Err (errors_New ''loadbalancer failed to delete within the allotted time'') else r, w'))"

end
