(* ===== verification/Lb_Model.thy ===== *)
theory Lb_Model
  imports Lb_Base
begin

text \<open>
  Load balancers of the cloud provider, second part of
  \<open>pkg/cloudprovider/providers/openstack/openstack_loadbalancer.go\<close>: the operations on load
  balancers and their security groups. The options of the provider are part of the state,
  because the operations overwrite the subnet and the node security groups in them.
\<close>

section \<open>Annotations and addresses\<close>

definition getStringFromServiceAnnotation :: "Service \<Rightarrow> string \<Rightarrow> string \<Rightarrow> string" where
  "getStringFromServiceAnnotation service annotationKey defaultSetting =
     (case svc_Annotations service annotationKey of Some v \<Rightarrow> v | None \<Rightarrow> defaultSetting)"

definition getIntFromServiceAnnotation :: "Service \<Rightarrow> string \<Rightarrow> int option" where
  "getIntFromServiceAnnotation service annotationKey =
     (let intString = getStringFromServiceAnnotation service annotationKey '''' in
      if length intString > 0 then Atoi intString else None)"

definition getBoolFromServiceAnnotation :: "Service \<Rightarrow> string \<Rightarrow> bool \<Rightarrow> bool result" where
  "getBoolFromServiceAnnotation service annotationKey defaultSetting =
     (case svc_Annotations service annotationKey of
        Some v \<Rightarrow>
          if v = ''true'' then Ok True
          else if v = ''false'' then Ok False
          else Err (Errorf ''unknown %s annotation: %v, specify \"true\" or \"false\" '' [FStr annotationKey, FStr v])
      | None \<Rightarrow> Ok defaultSetting)"

definition nodeAddressForLB :: "Node \<Rightarrow> string result" where
  "nodeAddressForLB node =
     (let addrs = nd_Addresses node in
      if length addrs = 0 then Err ErrNoAddressFound
      else case find (\<lambda>a. na_Type a = NodeInternalIP) addrs of
        Some a \<Rightarrow> Ok (na_Address a)
      | None \<Rightarrow>
          (case find (\<lambda>a. na_Type a = NodeExternalIP) addrs of
             Some a \<Rightarrow> Ok (na_Address a)
           | None \<Rightarrow> Err ErrNoAddressFound))"

definition after_last_slash :: "string \<Rightarrow> string" where
  "after_last_slash s = (let ind = LastIndexByte s (CHR ''/'') in if ind \<ge> 0 then drop (nat (ind + 1)) s else s)"

definition getSubnetIDForLB :: "'w compute_api \<Rightarrow> Node \<Rightarrow> ('w, string) io" where
  "getSubnetIDForLB compute node =
     bindE (lift_result (nodeAddressForLB node)) (\<lambda>ipAddress.
     bindE (getAttachedInterfacesByID compute (after_last_slash (nd_ProviderID node))) (\<lambda>interfaces.
       case find (\<lambda>fixedIP. fx_IPAddress fixedIP = ipAddress) (concat (map if_FixedIPs interfaces)) of
         Some fixedIP \<Rightarrow> ret (fx_SubnetID fixedIP)
       | None \<Rightarrow> fail ErrNotFound))"

definition GetLoadBalancerName :: "string \<Rightarrow> Service \<Rightarrow> string" where
  "GetLoadBalancerName clusterName service =
     cutString (''kube_service_'' @ clusterName @ ''_'' @ svc_Namespace service @ ''_'' @ svc_Name service)"

definition GetLoadBalancerLegacyName :: "'w lb_env \<Rightarrow> Service \<Rightarrow> string" where
  "GetLoadBalancerLegacyName env service = le_legacyName env service"

text \<open>The code stops at a second external network with an error it then ignores.\<close>

definition getFloatingNetworkIDForLB :: "'w lb_env \<Rightarrow> ('w, string) io" where
  "getFloatingNetworkIDForLB env =
     bindE (networks_List env) (\<lambda>pages.
       let handler = (\<lambda>ns ids.
             let ids' = ids @ map nw_ID (filter nw_External ns) in
             Ok (length ids' \<le> 1, ids'))
       in bindE (wrapE not_found_as (lift_result (each_page handler pages []))) (\<lambda>ids.
            case ids of [] \<Rightarrow> fail ErrNotFound | i # _ \<Rightarrow> ret i))"

section \<open>Creating and finding\<close>

definition createLoadBalancer ::
    "'w lb_env \<Rightarrow> LoadBalancerOpts \<Rightarrow> Service \<Rightarrow> string \<Rightarrow> string \<Rightarrow> bool \<Rightarrow> string \<Rightarrow> ('w, LoadBalancer) io" where
  "createLoadBalancer env opts service name clusterName internalAnnotation vipPort =
     wrapE (\<lambda>e. Errorf ''error creating loadbalancer %v: %v'' [FStr name, FErr e])
       (lbs_Create env \<lparr> lc_Name = name,
          lc_Description = ''Kubernetes external service '' @ svc_Namespace service @ ''/'' @ svc_Name service @
            '' from cluster '' @ clusterName,
          lc_Provider = lb_LBProvider opts,
          lc_VipPortID = vipPort,
          lc_VipSubnetID = (if vipPort \<noteq> '''' then '''' else lb_SubnetID opts),
          lc_VipAddress = (if svc_LoadBalancerIP service \<noteq> '''' \<and> internalAnnotation
                           then svc_LoadBalancerIP service else '''') \<rparr>)"

text \<open>The status is the address reported for the load balancer; None when there is no load balancer.\<close>

definition GetLoadBalancer :: "'w lb_env \<Rightarrow> string \<Rightarrow> Service \<Rightarrow> ('w, string option) io" where
  "GetLoadBalancer env clusterName service =
     bindE (attempt (getLoadbalancerByName env (GetLoadBalancerName clusterName service)
                       (GetLoadBalancerLegacyName env service))) (\<lambda>r.
       case r of
         Inl e \<Rightarrow> if e = ErrNotFound then ret None else fail e
       | Inr loadbalancer \<Rightarrow>
           if lbr_VipPortID loadbalancer \<noteq> '''' then
             bindE (wrapE (\<lambda>e. Errorf ''error getting floating ip for port %s: %v'' [FStr (lbr_VipPortID loadbalancer), FErr e])
                      (getFloatingIPByPortID env (lbr_VipPortID loadbalancer))) (\<lambda>floatIP.
               ret (Some (fi_FloatingIP floatIP)))
           else ret (Some (lbr_VipAddress loadbalancer)))"

definition getSubnet :: "'w lb_env \<Rightarrow> string \<Rightarrow> ('w, Subnet option) io" where
  "getSubnet env subnet =
     (if subnet = '''' then ret None
      else bindE (wrapE (\<lambda>e. Errorf ''error listing subnets: %v'' [FErr e]) (subnets_List env subnet)) (\<lambda>subs.
        case subs of
          [] \<Rightarrow> fail (Errorf ''could not find subnet %s'' [FStr subnet])
        | [s] \<Rightarrow> ret (Some s)
        | _ \<Rightarrow> fail (Errorf ''find multiple subnets with name %s'' [FStr subnet])))"

section \<open>Security groups\<close>

text \<open>The sorted list of a string set.\<close>

definition sets_List :: "string list \<Rightarrow> string list" where
  "sets_List xs = sort (remdups xs)"

definition node_rule :: "string \<Rightarrow> string \<Rightarrow> int \<Rightarrow> string \<Rightarrow> string \<Rightarrow> rule_opts" where
  "node_rule sgid protocol port remote ether =
     \<lparr> ru_Direction = ''ingress'', ru_PortRangeMax = port, ru_PortRangeMin = port, ru_Protocol = protocol,
       ru_RemoteGroupID = remote, ru_RemoteIPPrefix = '''', ru_SecGroupID = sgid, ru_EtherType = ether \<rparr>"

definition createNodeSecurityGroup :: "'w lb_env \<Rightarrow> string \<Rightarrow> int \<Rightarrow> string \<Rightarrow> string \<Rightarrow> ('w, unit) io" where
  "createNodeSecurityGroup env nodeSecurityGroupID port protocol lbSecGroup =
     bindE (rules_Create env (node_rule nodeSecurityGroupID (toRuleProtocol protocol) port lbSecGroup ''IPv4'')) (\<lambda>_.
     rules_Create env (node_rule nodeSecurityGroupID (toRuleProtocol protocol) port lbSecGroup ''IPv6''))"

definition getPorts :: "'w lb_env \<Rightarrow> port_ListOpts \<Rightarrow> ('w, np_Port list) io" where
  "getPorts env listOpts = ports_List env listOpts"

definition apply_to_port :: "'w lb_env \<Rightarrow> string \<Rightarrow> np_Port \<Rightarrow> ('w, unit) io" where
  "apply_to_port env sg port =
     bindE (wrapE (\<lambda>e. Errorf ''failed to update security group for port %s: %v'' [FStr (np_ID port), FErr e])
              (ports_Update env (np_ID port) (np_SecurityGroups port @ [sg]))) (\<lambda>_.
     wrapE (\<lambda>_. Errorf ''failed to add tag %s to port %s: %v'' [FStr sg, FStr (np_ID port)])
       (tags_Add env (np_ID port) sg))"

definition applyNodeSecurityGroupIDForLB :: "'w lb_env \<Rightarrow> Node list \<Rightarrow> string \<Rightarrow> ('w, unit) io" where
  "applyNodeSecurityGroupIDForLB env nodes sg =
     forE (\<lambda>node.
       bindE (getServerByName (le_compute env) (nd_Name node)) (\<lambda>srv.
       bindE (getPorts env (PortByDeviceID (sv_ID srv))) (forE (apply_to_port env sg)))) nodes"

definition remove_from_port :: "'w lb_env \<Rightarrow> string \<Rightarrow> np_Port \<Rightarrow> ('w, unit) io" where
  "remove_from_port env sg port =
     bindE (wrapE (\<lambda>e. Errorf ''failed to update security group for port %s: %v'' [FStr (np_ID port), FErr e])
              (ports_Update env (np_ID port) (sets_List (filter (\<lambda>x. x \<noteq> sg) (np_SecurityGroups port))))) (\<lambda>_.
     wrapE (\<lambda>_. Errorf ''failed to remove tag %s to port %s: %v'' [FStr sg, FStr (np_ID port)])
       (tags_Delete env (np_ID port) sg))"

definition disassociateSecurityGroupForLB :: "'w lb_env \<Rightarrow> string \<Rightarrow> ('w, unit) io" where
  "disassociateSecurityGroupForLB env sg =
     bindE (getPorts env (PortByTag sg)) (forE (remove_from_port env sg))"

fun node_groups :: "'w lb_env \<Rightarrow> Node list \<Rightarrow> string list \<Rightarrow> ('w, string list) io" where
  "node_groups env [] secGroupIDs = ret secGroupIDs"
| "node_groups env (node # nodes) secGroupIDs =
     bindE (getServerByName (le_compute env) (nd_Name node)) (\<lambda>srv.
     bindE (getPorts env (PortByDeviceID (sv_ID srv))) (\<lambda>allPorts.
       node_groups env nodes (secGroupIDs @ concat (map np_SecurityGroups allPorts))))"

definition getNodeSecurityGroupIDForLB :: "'w lb_env \<Rightarrow> Node list \<Rightarrow> ('w, string list) io" where
  "getNodeSecurityGroupIDForLB env nodes = bindE (node_groups env nodes []) (\<lambda>ids. ret (sets_List ids))"

definition isSecurityGroupNotFound :: "gerror \<Rightarrow> bool" where
  "isSecurityGroupNotFound err \<longleftrightarrow> err = ErrResourceNotFound"

text \<open>Listing rules, where a missing group or rule counts as none.\<close>

definition rules_or_none :: "'w lb_env \<Rightarrow> (gerror \<Rightarrow> gerror) \<Rightarrow> rule_opts \<Rightarrow> ('w, string list) io" where
  "rules_or_none env msg opts =
     bindE (attempt (getSecurityGroupRules env opts)) (\<lambda>r.
       case r of
         Inr rs \<Rightarrow> ret rs
       | Inl e \<Rightarrow> if IsNotFound e then ret [] else fail (msg e))"

definition ensure_node_rule :: "'w lb_env \<Rightarrow> Service \<Rightarrow> string \<Rightarrow> ServicePort \<Rightarrow> string \<Rightarrow> ('w, unit) io" where
  "ensure_node_rule env apiService lbSecGroupID port nodeSecurityGroupID =
     bindE (rules_or_none env
              (\<lambda>e. Errorf ''Error finding rules for remote group id %s in security group id %s: %v''
                     [FStr lbSecGroupID, FStr nodeSecurityGroupID, FErr e])
              (node_rule nodeSecurityGroupID (sp_Protocol port) (sp_NodePort port) lbSecGroupID '''')) (\<lambda>secGroupRules.
       if length secGroupRules \<noteq> 0 then ret ()
       else
         wrapE (\<lambda>e. Errorf ''error occurred creating security group for loadbalancer service %s/%s: %v''
                      [FStr (svc_Namespace apiService), FStr (svc_Name apiService), FErr e])
           (createNodeSecurityGroup env nodeSecurityGroupID (sp_NodePort port) (sp_Protocol port) lbSecGroupID))"

definition lb_rule :: "string \<Rightarrow> int \<Rightarrow> int \<Rightarrow> string \<Rightarrow> string \<Rightarrow> string \<Rightarrow> rule_opts" where
  "lb_rule sgid pmax pmin protocol prefix ether =
     \<lparr> ru_Direction = ''ingress'', ru_PortRangeMax = pmax, ru_PortRangeMin = pmin, ru_Protocol = protocol,
       ru_RemoteGroupID = '''', ru_RemoteIPPrefix = prefix, ru_SecGroupID = sgid, ru_EtherType = ether \<rparr>"

definition create_lb_rule :: "'w lb_env \<Rightarrow> string \<Rightarrow> rule_opts \<Rightarrow> ('w, unit) io" where
  "create_lb_rule env sgid opts =
     wrapE (\<lambda>e. Errorf ''error occurred creating rule for SecGroup %s: %v'' [FStr sgid, FErr e]) (rules_Create env opts)"

text \<open>The keys of the source range set come from \<open>ParseCIDR\<close>; the code parses them again.\<close>

definition source_rule :: "'w lb_env \<Rightarrow> string \<Rightarrow> ServicePort \<Rightarrow> string \<Rightarrow> ('w, unit) io" where
  "source_rule env sgid port sourceRange =
     (case ParseCIDR_ip sourceRange of
        None \<Rightarrow> fail (Errorf ''error parsing source range %s as a CIDR: %v'' [FStr sourceRange])
      | Some ip \<Rightarrow>
          create_lb_rule env sgid
            (lb_rule sgid (sp_Port port) (sp_Port port) (toRuleProtocol (sp_Protocol port)) sourceRange
               (if To4 (Some ip) = None then ''IPv6'' else ''IPv4'')))"

definition add_vip_group :: "'w lb_env \<Rightarrow> Service \<Rightarrow> LoadBalancer \<Rightarrow> string \<Rightarrow> ('w, unit) io" where
  "add_vip_group env apiService loadbalancer sgid =
     (let portID = lbr_VipPortID loadbalancer in
      bindE (ports_Get env portID) (\<lambda>p.
        case p of
          None \<Rightarrow> fail ErrNotFound
        | Some port \<Rightarrow>
            if list_ex (\<lambda>g. g = sgid) (np_SecurityGroups port) then ret ()
            else wrapE (\<lambda>e. Errorf ''Error occurred updating port %s for loadbalancer service %s/%s: %v''
                             [FStr portID, FStr (svc_Namespace apiService), FStr (svc_Name apiService), FErr e])
                   (ports_Update env portID (np_SecurityGroups port @ [sgid]))))"

definition create_lb_group ::
    "'w lb_env \<Rightarrow> LoadBalancerOpts \<Rightarrow> string \<Rightarrow> Service \<Rightarrow> IPNet_set \<Rightarrow> LoadBalancer \<Rightarrow> ('w, string) io" where
  "create_lb_group env opts clusterName apiService sourceRanges loadbalancer =
     bindE (wrapE (\<lambda>e. Errorf ''failed to create Security Group for loadbalancer service %s/%s: %v''
                         [FStr (svc_Namespace apiService), FStr (svc_Name apiService), FErr e])
              (groups_Create env (getSecurityGroupName apiService)
                 (''Security Group for '' @ svc_Namespace apiService @ ''/'' @ svc_Name apiService @
                  '' Service LoadBalancer in cluster '' @ clusterName))) (\<lambda>sgid.
       if lb_UseOctavia opts then ret sgid
       else
         bindE (forE (\<lambda>port. forE (source_rule env sgid port) (ipnet_StringSlice sourceRanges)) (svc_Ports apiService)) (\<lambda>_.
         bindE (create_lb_rule env sgid (lb_rule sgid 4 3 ''icmp'' ''0.0.0.0/0'' ''IPv4'')) (\<lambda>_.
         bindE (create_lb_rule env sgid (lb_rule sgid 0 2 ''icmp'' ''::/0'' ''IPv6'')) (\<lambda>_.
         bindE (add_vip_group env apiService loadbalancer sgid) (\<lambda>_. ret sgid)))))"

definition ensure_octavia_rule ::
    "'w lb_env \<Rightarrow> LoadBalancerOpts \<Rightarrow> Node list \<Rightarrow> string \<Rightarrow> ServicePort \<Rightarrow> ('w, unit) io" where
  "ensure_octavia_rule env opts nodes lbSecGroupID port =
     bindE (wrapE (\<lambda>e. Errorf ''failed to find subnet %s from openstack: %v'' [FStr (lb_SubnetID opts), FErr e])
              (subnets_Get env (lb_SubnetID opts))) (\<lambda>subnet.
     bindE (rules_or_none env
              (\<lambda>e. Errorf ''failed to find security group rules in %s: %v'' [FStr lbSecGroupID, FErr e])
              (lb_rule lbSecGroupID (sp_NodePort port) (sp_NodePort port) (sp_Protocol port) (su_CIDR subnet) '''')) (\<lambda>sgRules.
       if length sgRules \<noteq> 0 then ret ()
       else
         bindE (wrapE (\<lambda>e. Errorf ''failed to create rule for security group %s: %v'' [FStr lbSecGroupID, FErr e])
                  (rules_Create env (lb_rule lbSecGroupID (sp_NodePort port) (sp_NodePort port)
                     (toRuleProtocol (sp_Protocol port)) (su_CIDR subnet) ''IPv4''))) (\<lambda>_.
         applyNodeSecurityGroupIDForLB env nodes lbSecGroupID)))"

section \<open>State\<close>

record 'w lb_st =
  st_opts :: LoadBalancerOpts
  st_w :: 'w

definition onw :: "('w, 'a) io \<Rightarrow> ('w lb_st, 'a) io" where
  "onw m s = (case m (st_w s) of (r, w) \<Rightarrow> (r, s\<lparr> st_w := w \<rparr>))"

definition get_opts :: "('w lb_st, LoadBalancerOpts) io" where
  "get_opts s = (Ok (st_opts s), s)"

definition set_opts :: "(LoadBalancerOpts \<Rightarrow> LoadBalancerOpts) \<Rightarrow> ('w lb_st, unit) io" where
  "set_opts f s = (Ok (), s\<lparr> st_opts := f (st_opts s) \<rparr>)"

section \<open>Deleting\<close>

definition ignore_missing :: "(gerror \<Rightarrow> gerror) \<Rightarrow> ('w, unit) io \<Rightarrow> ('w, unit) io" where
  "ignore_missing msg m =
     bindE (attempt m) (\<lambda>r.
       case r of Inr _ \<Rightarrow> ret () | Inl e \<Rightarrow> if IsNotFound e then ret () else fail (msg e))"

definition after_msg :: "string \<Rightarrow> string" where
  "after_msg what = ''timeout when waiting for loadbalancer to be ACTIVE after '' @ what @ '', current provisioning status %s''"

definition delete_member :: "'w lb_env \<Rightarrow> (Member \<Rightarrow> gerror \<Rightarrow> gerror) \<Rightarrow> string \<Rightarrow> string \<Rightarrow> Member \<Rightarrow> ('w, unit) io" where
  "delete_member env msg lbid poolID member =
     bindE (ignore_missing (msg member) (members_Delete env poolID (mb_ID member))) (\<lambda>_.
     wait_active env lbid (after_msg ''deleting member''))"

text \<open>A list that is missing counts as empty.\<close>

definition members_or_none :: "'w lb_env \<Rightarrow> (gerror \<Rightarrow> gerror) \<Rightarrow> string \<Rightarrow> ('w, Member list) io" where
  "members_or_none env msg poolID =
     bindE (attempt (getMembersByPoolID env poolID)) (\<lambda>r.
       case r of Inr ms \<Rightarrow> ret ms | Inl e \<Rightarrow> if IsNotFound e then ret [] else fail (msg e))"

definition pool_or_none :: "'w lb_env \<Rightarrow> (gerror \<Rightarrow> gerror) \<Rightarrow> string \<Rightarrow> string \<Rightarrow> ('w, Pool option) io" where
  "pool_or_none env msg lbid listenerID =
     bindE (attempt (getPoolByListenerID env lbid listenerID)) (\<lambda>r.
       case r of Inr p \<Rightarrow> ret (Some p) | Inl e \<Rightarrow> if e = ErrNotFound then ret None else fail (msg e))"

definition delete_rules :: "'w lb_env \<Rightarrow> string list \<Rightarrow> ('w, unit) io" where
  "delete_rules env rs =
     forE (\<lambda>rule. ignore_missing (\<lambda>e. Errorf ''error occurred deleting security group rule: %s: %v'' [FStr rule, FErr e])
             (rules_Delete env rule)) rs"

definition EnsureSecurityGroupDeleted :: "'w lb_env \<Rightarrow> LoadBalancerOpts \<Rightarrow> Service \<Rightarrow> ('w, unit) io" where
  "EnsureSecurityGroupDeleted env opts service =
     (let lbSecGroupName = getSecurityGroupName service in
      bindE (attempt (groups_IDFromName env lbSecGroupName)) (\<lambda>r.
        case r of
          Inl e \<Rightarrow>
            if isSecurityGroupNotFound e then ret ()
            else fail (Errorf ''error occurred finding security group: %s: %v'' [FStr lbSecGroupName, FErr e])
        | Inr lbSecGroupID \<Rightarrow>
            bindE (if lb_UseOctavia opts
                   then wrapE (\<lambda>e. Errorf ''failed to disassociate security group %s: %v'' [FStr lbSecGroupID, FErr e])
                          (disassociateSecurityGroupForLB env lbSecGroupID)
                   else ret ()) (\<lambda>_.
            bindE (ignore_missing (\<lambda>e. e) (groups_Delete env lbSecGroupID)) (\<lambda>_.
              forE (\<lambda>nodeSecurityGroupID.
                bindE (rules_or_none env
                         (\<lambda>e. Errorf ''error finding rules for remote group id %s in security group id %s: %v''
                                [FStr lbSecGroupID, FStr nodeSecurityGroupID, FErr e])
                         \<lparr> ru_Direction = '''', ru_PortRangeMax = 0, ru_PortRangeMin = 0, ru_Protocol = '''',
                           ru_RemoteGroupID = lbSecGroupID, ru_RemoteIPPrefix = '''',
                           ru_SecGroupID = nodeSecurityGroupID, ru_EtherType = '''' \<rparr>)
                  (delete_rules env)) (lb_NodeSecurityGroupIDs opts)))))"

text \<open>The ids of the pools and of the monitors of the listeners.\<close>

fun pools_and_monitors ::
    "'w lb_env \<Rightarrow> string \<Rightarrow> Listener list \<Rightarrow> string list \<Rightarrow> string list \<Rightarrow> ('w, string list \<times> string list) io" where
  "pools_and_monitors env lbid [] poolIDs monitorIDs = ret (poolIDs, monitorIDs)"
| "pools_and_monitors env lbid (listener # ls) poolIDs monitorIDs =
     bindE (pool_or_none env (\<lambda>e. Errorf ''error getting pool for listener %s: %v'' [FStr (li_ID listener), FErr e])
              lbid (li_ID listener)) (\<lambda>p.
       case p of
         None \<Rightarrow> pools_and_monitors env lbid ls poolIDs monitorIDs
       | Some pool \<Rightarrow>
           pools_and_monitors env lbid ls (poolIDs @ [pl_ID pool])
             (if pl_MonitorID pool \<noteq> '''' then monitorIDs @ [pl_MonitorID pool] else monitorIDs))"

definition delete_monitor :: "'w lb_env \<Rightarrow> (gerror \<Rightarrow> gerror) \<Rightarrow> string \<Rightarrow> string \<Rightarrow> ('w, unit) io" where
  "delete_monitor env msg lbid monitorID =
     bindE (ignore_missing msg (monitors_Delete env monitorID)) (\<lambda>_.
     wait_active env lbid (after_msg ''deleting monitor''))"

definition delete_pool_only :: "'w lb_env \<Rightarrow> (gerror \<Rightarrow> gerror) \<Rightarrow> string \<Rightarrow> string \<Rightarrow> ('w, unit) io" where
  "delete_pool_only env msg lbid poolID =
     bindE (ignore_missing msg (pools_Delete env poolID)) (\<lambda>_.
     wait_active env lbid (after_msg ''deleting pool''))"

definition delete_listener_only :: "'w lb_env \<Rightarrow> (gerror \<Rightarrow> gerror) \<Rightarrow> string \<Rightarrow> string \<Rightarrow> ('w, unit) io" where
  "delete_listener_only env msg lbid listenerID =
     bindE (ignore_missing msg (listeners_Delete env listenerID)) (\<lambda>_.
     wait_active env lbid (after_msg ''deleting listener''))"

definition delete_pool :: "'w lb_env \<Rightarrow> string \<Rightarrow> string \<Rightarrow> ('w, unit) io" where
  "delete_pool env lbid poolID =
     bindE (members_or_none env (\<lambda>e. Errorf ''error getting pool members %s: %v'' [FStr poolID, FErr e]) poolID) (\<lambda>membersList.
     bindE (forE (delete_member env (\<lambda>_ e. e) lbid poolID) membersList) (\<lambda>_.
     delete_pool_only env (\<lambda>e. e) lbid poolID))"

definition delete_tree :: "'w lb_env \<Rightarrow> string \<Rightarrow> ('w, unit) io" where
  "delete_tree env lbid =
     bindE (wrapE (\<lambda>e. Errorf ''error getting LB %s listeners: %v'' [FStr lbid, FErr e])
              (getListenersByLoadBalancerID env lbid)) (\<lambda>listenerList.
     bindE (pools_and_monitors env lbid listenerList [] []) (\<lambda>(poolIDs, monitorIDs).
     bindE (forE (delete_monitor env (\<lambda>e. e) lbid) monitorIDs) (\<lambda>_.
     bindE (forE (delete_pool env lbid) poolIDs) (\<lambda>_.
     bindE (forE (\<lambda>l. delete_listener_only env (\<lambda>e. e) lbid (li_ID l)) listenerList) (\<lambda>_.
     bindE (ignore_missing (\<lambda>e. e) (lbs_Delete env lbid False)) (\<lambda>_.
     wrapE (\<lambda>e. Errorf ''failed to delete loadbalancer: %v'' [FErr e]) (waitLoadbalancerDeleted env lbid)))))))"

definition delete_floating_ip :: "'w lb_env \<Rightarrow> string \<Rightarrow> ('w, unit) io" where
  "delete_floating_ip env portID =
     bindE (attempt (getFloatingIPByPortID env portID)) (\<lambda>r.
       case r of
         Inl e \<Rightarrow> if e = ErrNotFound then ret () else fail e
       | Inr floatingIP \<Rightarrow> ignore_missing (\<lambda>e. e) (fips_Delete env (fi_ID floatingIP)))"

definition EnsureLoadBalancerDeleted ::
    "'w lb_env \<Rightarrow> LoadBalancerOpts \<Rightarrow> string \<Rightarrow> Service \<Rightarrow> ('w, unit) io" where
  "EnsureLoadBalancerDeleted env opts clusterName service =
     bindE (attempt (getLoadbalancerByName env (GetLoadBalancerName clusterName service)
                       (GetLoadBalancerLegacyName env service))) (\<lambda>r.
       case r of
         Inl e \<Rightarrow> if e = ErrNotFound then ret () else fail e
       | Inr loadbalancer \<Rightarrow>
           bindE (lift_result (getBoolFromServiceAnnotation service AnnKeepFloatingIP False)) (\<lambda>keepFloatingAnnotation.
           bindE (if \<not> keepFloatingAnnotation \<and> lbr_VipPortID loadbalancer \<noteq> ''''
                  then delete_floating_ip env (lbr_VipPortID loadbalancer) else ret ()) (\<lambda>_.
           bindE (if lb_UseOctavia opts
                  then wrapE (\<lambda>e. Errorf ''failed to delete loadbalancer %s: %v'' [FStr (lbr_ID loadbalancer), FErr e])
                         (lbs_Delete env (lbr_ID loadbalancer) True)
                  else delete_tree env (lbr_ID loadbalancer)) (\<lambda>_.
             if lb_ManageSecurityGroups opts
             then wrapE (\<lambda>e. Errorf ''failed to delete Security Group for loadbalancer service %s: %v''
                               [FStr (svc_Namespace service @ ''/'' @ svc_Name service), FErr e])
                    (EnsureSecurityGroupDeleted env opts service)
             else ret ()))))"

section \<open>Ensuring\<close>

definition find_lb_group :: "'w lb_env \<Rightarrow> Service \<Rightarrow> ('w, string) io" where
  "find_lb_group env apiService =
     (let lbSecGroupName = getSecurityGroupName apiService in
      bindE (attempt (groups_IDFromName env lbSecGroupName)) (\<lambda>r.
        case r of
          Inr i \<Rightarrow> ret i
        | Inl e \<Rightarrow>
            if isSecurityGroupNotFound e then ret ''''
            else fail (Errorf ''error occurred finding security group: %s: %v'' [FStr lbSecGroupName, FErr e])))"

definition ensure_groups ::
    "'w lb_env \<Rightarrow> LoadBalancerOpts \<Rightarrow> string \<Rightarrow> Service \<Rightarrow> Node list \<Rightarrow> LoadBalancer \<Rightarrow> ('w, unit) io" where
  "ensure_groups env opts clusterName apiService nodes loadbalancer =
     (let ports = svc_Ports apiService in
      if length ports = 0 then fail (errors_New ''no ports provided to openstack load balancer'')
      else
        bindE (wrapE (\<lambda>e. Errorf ''failed to get source ranges for loadbalancer service %s/%s: %v''
                            [FStr (svc_Namespace apiService), FStr (svc_Name apiService), FErr e])
                 (lift_result (GetLoadBalancerSourceRanges (svc_LoadBalancerSourceRanges apiService)
                    (svc_Annotations apiService)))) (\<lambda>sourceRanges.
        bindE (find_lb_group env apiService) (\<lambda>found.
        bindE (if length found = 0
               then create_lb_group env opts clusterName apiService sourceRanges loadbalancer
               else ret found) (\<lambda>lbSecGroupID.
          forE (\<lambda>port.
            if lb_UseOctavia opts then ensure_octavia_rule env opts nodes lbSecGroupID port
            else forE (ensure_node_rule env apiService lbSecGroupID port) (lb_NodeSecurityGroupIDs opts)) ports))))"

definition ensureSecurityGroup ::
    "'w lb_env \<Rightarrow> string \<Rightarrow> Service \<Rightarrow> Node list \<Rightarrow> LoadBalancer \<Rightarrow> ('w lb_st, unit) io" where
  "ensureSecurityGroup env clusterName apiService nodes loadbalancer =
     bindE get_opts (\<lambda>opts.
     bindE (if length (lb_NodeSecurityGroupIDs opts) = 0 \<and> \<not> lb_UseOctavia opts
            then bindE (onw (wrapE (\<lambda>e. Errorf ''failed to find node-security-group for loadbalancer service %s/%s: %v''
                                          [FStr (svc_Namespace apiService), FStr (svc_Name apiService), FErr e])
                               (getNodeSecurityGroupIDForLB env nodes))) (\<lambda>ids.
                   set_opts (lb_NodeSecurityGroupIDs_update (\<lambda>_. ids)))
            else ret ()) (\<lambda>_.
     bindE get_opts (\<lambda>opts. onw (ensure_groups env opts clusterName apiService nodes loadbalancer))))"

text \<open>The listener of a port: found and adjusted, or created. The flag tells whether a new listener keeps the client's address.\<close>

definition conn_limit :: "Service \<Rightarrow> int" where
  "conn_limit apiService =
     (case Atoi (getStringFromServiceAnnotation apiService AnnConnLimit ''-1'') of None \<Rightarrow> -1 | Some n \<Rightarrow> n)"

definition create_listener ::
    "'w lb_env \<Rightarrow> Service \<Rightarrow> string \<Rightarrow> string \<Rightarrow> nat \<Rightarrow> ServicePort \<Rightarrow> ('w, Listener \<times> bool) io" where
  "create_listener env apiService lbid name portIndex port =
     bindE (lift_result (getBoolFromServiceAnnotation apiService AnnXForwardedFor False)) (\<lambda>keepClientIP.
     bindE (wrapE (\<lambda>e. Errorf ''error creating LB listener: %v'' [FErr e])
              (listeners_Create env
                 \<lparr> lic_Name = cutString (''listener_'' @ nat_text portIndex @ ''_'' @ name),
                   lic_Protocol = (if keepClientIP then ''HTTP'' else sp_Protocol port),
                   lic_ProtocolPort = sp_Port port, lic_ConnLimit = conn_limit apiService, lic_LoadbalancerID = lbid,
                   lic_TimeoutClientData = getIntFromServiceAnnotation apiService AnnTimeoutClientData,
                   lic_TimeoutMemberData = getIntFromServiceAnnotation apiService AnnTimeoutMemberData,
                   lic_TimeoutMemberConnect = getIntFromServiceAnnotation apiService AnnTimeoutMemberConnect,
                   lic_TimeoutTCPInspect = getIntFromServiceAnnotation apiService AnnTimeoutTCPInspect,
                   lic_InsertHeaders = (if keepClientIP then [''X-Forwarded-For'' \<mapsto> ''true''] else Map.empty) \<rparr>)) (\<lambda>listener.
     bindE (wait_active env lbid (after_msg ''creating listener'')) (\<lambda>_.
       ret (listener, keepClientIP))))"

definition ensure_listener ::
    "'w lb_env \<Rightarrow> Service \<Rightarrow> string \<Rightarrow> string \<Rightarrow> nat \<Rightarrow> ServicePort \<Rightarrow> Listener list \<Rightarrow> ('w, Listener \<times> bool) io" where
  "ensure_listener env apiService lbid name portIndex port oldListeners =
     (case getListenerForPort oldListeners port of
        None \<Rightarrow> create_listener env apiService lbid name portIndex port
      | Some listener \<Rightarrow>
          if conn_limit apiService \<noteq> li_ConnLimit listener then
            bindE (wrapE (\<lambda>e. Errorf ''error updating LB listener: %v'' [FErr e])
                     (listeners_Update env (li_ID listener) (conn_limit apiService))) (\<lambda>_.
            bindE (wait_active env lbid (after_msg ''updating listener'')) (\<lambda>_. ret (listener, False)))
          else ret (listener, False))"

definition ensure_pool ::
    "'w lb_env \<Rightarrow> LoadBalancerOpts \<Rightarrow> Service \<Rightarrow> string \<Rightarrow> string \<Rightarrow> string option \<Rightarrow> nat \<Rightarrow> bool \<Rightarrow> Listener \<Rightarrow>
     ('w, Pool) io" where
  "ensure_pool env opts apiService lbid name persistence portIndex keepClientIP listener =
     bindE (pool_or_none env (\<lambda>e. Errorf ''error getting pool for listener %s: %v'' [FStr (li_ID listener), FErr e])
              lbid (li_ID listener)) (\<lambda>p.
       case p of
         Some pool \<Rightarrow> ret pool
       | None \<Rightarrow>
           bindE (lift_result (getBoolFromServiceAnnotation apiService AnnProxyEnabled False)) (\<lambda>useProxyProtocol.
             if useProxyProtocol \<and> keepClientIP
             then fail (Errorf ''annotation %s and %s cannot be used together'' [FStr AnnProxyEnabled, FStr AnnXForwardedFor])
             else
               bindE (wrapE (\<lambda>e. Errorf ''error creating pool for listener %s: %v'' [FStr (li_ID listener), FErr e])
                        (pools_Create env
                           \<lparr> plc_Name = cutString (''pool_'' @ nat_text portIndex @ ''_'' @ name),
                             plc_Protocol = (if useProxyProtocol then ''PROXY'' else if keepClientIP then ''HTTP'' else ''TCP''),
                             plc_LBMethod = (if lb_LBMethod opts = '''' then ''ROUND_ROBIN'' else lb_LBMethod opts),
                             plc_ListenerID = li_ID listener, plc_Persistence = persistence \<rparr>)) (\<lambda>pool.
               bindE (wait_active env lbid (after_msg ''creating pool'')) (\<lambda>_. ret pool))))"

text \<open>One pass over the nodes; \<open>members\<close> are the members not yet claimed by a node.\<close>

definition create_member ::
    "'w lb_env \<Rightarrow> string \<Rightarrow> string \<Rightarrow> string \<Rightarrow> string \<Rightarrow> nat \<Rightarrow> ServicePort \<Rightarrow> Node \<Rightarrow> string \<Rightarrow> ('w, unit) io" where
  "create_member env subnetID lbid poolID name portIndex port node addr =
     bindE (wrapE (\<lambda>e. Errorf ''error creating LB pool member for node: %s, %v'' [FStr (nd_Name node), FErr e])
              (members_Create env poolID
                 \<lparr> mbc_Name = cutString (''member_'' @ nat_text portIndex @ ''_'' @ nd_Name node @ ''_'' @ name),
                   mbc_ProtocolPort = sp_NodePort port, mbc_Address = addr, mbc_SubnetID = subnetID \<rparr>)) (\<lambda>_.
     wait_active env lbid (after_msg ''creating member''))"

fun ensure_members ::
    "'w lb_env \<Rightarrow> string \<Rightarrow> string \<Rightarrow> string \<Rightarrow> string \<Rightarrow> nat \<Rightarrow> ServicePort \<Rightarrow> Node list \<Rightarrow> Member list \<Rightarrow>
     ('w, Member list) io" where
  "ensure_members env subnetID lbid poolID name portIndex port [] members = ret members"
| "ensure_members env subnetID lbid poolID name portIndex port (node # nodes) members =
     (case nodeAddressForLB node of
        Err e \<Rightarrow>
          if e = ErrNotFound then ensure_members env subnetID lbid poolID name portIndex port nodes members
          else fail (Errorf ''error getting address for node %s: %v'' [FStr (nd_Name node), FErr e])
      | Panic s \<Rightarrow> crash s
      | Ok addr \<Rightarrow>
          if \<not> memberExists members addr (sp_NodePort port) then
            bindE (create_member env subnetID lbid poolID name portIndex port node addr) (\<lambda>_.
            ensure_members env subnetID lbid poolID name portIndex port nodes members)
          else
            bindE (lift_result (popMember members addr (sp_NodePort port))) (\<lambda>members'.
            ensure_members env subnetID lbid poolID name portIndex port nodes members'))"

definition obsolete_member_error :: "string \<Rightarrow> Member \<Rightarrow> gerror \<Rightarrow> gerror" where
  "obsolete_member_error poolID member e =
     Errorf ''error deleting obsolete member %s for pool %s address %s: %v''
       [FStr (mb_ID member), FStr poolID, FStr (mb_Address member), FErr e]"

definition sync_members ::
    "'w lb_env \<Rightarrow> string \<Rightarrow> string \<Rightarrow> string \<Rightarrow> string \<Rightarrow> nat \<Rightarrow> ServicePort \<Rightarrow> Node list \<Rightarrow> ('w, unit) io" where
  "sync_members env subnetID lbid poolID name portIndex port nodes =
     bindE (members_or_none env (\<lambda>e. Errorf ''error getting pool members %s: %v'' [FStr poolID, FErr e]) poolID) (\<lambda>members.
     bindE (ensure_members env subnetID lbid poolID name portIndex port nodes members) (\<lambda>rest.
     forE (delete_member env (obsolete_member_error poolID) lbid poolID) rest))"

definition ensure_monitor ::
    "'w lb_env \<Rightarrow> LoadBalancerOpts \<Rightarrow> string \<Rightarrow> string \<Rightarrow> nat \<Rightarrow> ServicePort \<Rightarrow> Pool \<Rightarrow> ('w, unit) io" where
  "ensure_monitor env opts lbid name portIndex port pool =
     (if pl_MonitorID pool = '''' \<and> lb_CreateMonitor opts then
        bindE (wrapE (\<lambda>e. Errorf ''error creating LB pool healthmonitor: %v'' [FErr e])
                 (monitors_Create env
                    \<lparr> moc_Name = cutString (''monitor_'' @ nat_text portIndex @ ''_'' @ name @ '')''), moc_PoolID = pl_ID pool,
                      moc_Type = sp_Protocol port, moc_Delay = lb_MonitorDelay opts sdiv 10 ^ 9,
                      moc_Timeout = lb_MonitorTimeout opts sdiv 10 ^ 9,
                      moc_MaxRetries = int (lb_MonitorMaxRetries opts) \<rparr>)) (\<lambda>_.
        wait_active env lbid (after_msg ''creating monitor''))
      else ret ())"

fun ensure_ports ::
    "'w lb_env \<Rightarrow> LoadBalancerOpts \<Rightarrow> Service \<Rightarrow> string \<Rightarrow> string \<Rightarrow> string option \<Rightarrow> Node list \<Rightarrow>
     (nat \<times> ServicePort) list \<Rightarrow> Listener list \<Rightarrow> ('w, Listener list) io" where
  "ensure_ports env opts apiService lbid name persistence nodes [] oldListeners = ret oldListeners"
| "ensure_ports env opts apiService lbid name persistence nodes ((portIndex, port) # ports) oldListeners =
     bindE (ensure_listener env apiService lbid name portIndex port oldListeners) (\<lambda>(listener, keepClientIP).
     bindE (ensure_pool env opts apiService lbid name persistence portIndex keepClientIP listener) (\<lambda>pool.
     bindE (sync_members env (lb_SubnetID opts) lbid (pl_ID pool) name portIndex port nodes) (\<lambda>_.
     bindE (ensure_monitor env opts lbid name portIndex port pool) (\<lambda>_.
     ensure_ports env opts apiService lbid name persistence nodes ports (popListener oldListeners (li_ID listener))))))"

definition delete_obsolete_pool :: "'w lb_env \<Rightarrow> string \<Rightarrow> Listener \<Rightarrow> Pool \<Rightarrow> ('w, unit) io" where
  "delete_obsolete_pool env lbid listener pool =
     bindE (if pl_MonitorID pool \<noteq> ''''
            then delete_monitor env (\<lambda>e. Errorf ''error deleting obsolete monitor %s for pool %s: %v''
                     [FStr (pl_MonitorID pool), FStr (pl_ID pool), FErr e]) lbid (pl_MonitorID pool)
            else ret ()) (\<lambda>_.
     bindE (members_or_none env (\<lambda>e. Errorf ''error getting members for pool %s: %v'' [FStr (pl_ID pool), FErr e])
              (pl_ID pool)) (\<lambda>members.
     bindE (forE (delete_member env (obsolete_member_error (pl_ID pool)) lbid (pl_ID pool)) members) (\<lambda>_.
     delete_pool_only env (\<lambda>e. Errorf ''error deleting obsolete pool %s for listener %s: %v''
       [FStr (pl_ID pool), FStr (li_ID listener), FErr e]) lbid (pl_ID pool))))"

definition delete_obsolete_listener :: "'w lb_env \<Rightarrow> string \<Rightarrow> Listener \<Rightarrow> ('w, unit) io" where
  "delete_obsolete_listener env lbid listener =
     bindE (pool_or_none env (\<lambda>e. Errorf ''error getting pool for obsolete listener %s: %v''
                                    [FStr (li_ID listener), FErr e]) lbid (li_ID listener)) (\<lambda>p.
     bindE (case p of None \<Rightarrow> ret () | Some pool \<Rightarrow> delete_obsolete_pool env lbid listener pool) (\<lambda>_.
     delete_listener_only env (\<lambda>e. Errorf ''error deleteting obsolete listener: %v'' [FErr e]) lbid (li_ID listener)))"

text \<open>Listeners, pools, members and monitors of the load balancer.\<close>

definition sync_listeners ::
    "'w lb_env \<Rightarrow> LoadBalancerOpts \<Rightarrow> Service \<Rightarrow> LoadBalancer \<Rightarrow> string \<Rightarrow> string option \<Rightarrow> Node list \<Rightarrow> ('w, unit) io" where
  "sync_listeners env opts apiService loadbalancer name persistence nodes =
     bindE (wrapE (\<lambda>e. Errorf ''error getting LB %s listeners: %v'' [FStr (lbr_Name loadbalancer), FErr e])
              (getListenersByLoadBalancerID env (lbr_ID loadbalancer))) (\<lambda>oldListeners.
     bindE (ensure_ports env opts apiService (lbr_ID loadbalancer) name persistence nodes
              (zip [0..<length (svc_Ports apiService)] (svc_Ports apiService)) oldListeners) (\<lambda>obsolete.
     forE (delete_obsolete_listener env (lbr_ID loadbalancer)) obsolete))"

section \<open>Floating addresses\<close>

definition floating_subnet :: "'w lb_env \<Rightarrow> Service \<Rightarrow> ('w, string) io" where
  "floating_subnet env apiService =
     (let byID = getStringFromServiceAnnotation apiService AnnFloatingSubnetID '''' in
      if byID \<noteq> '''' then ret byID
      else
        let byName = getStringFromServiceAnnotation apiService AnnFloatingSubnet '''' in
        if byName \<noteq> '''' then
          bindE (wrapE (\<lambda>e. Errorf ''failed to find floatingip subnet: %v'' [FErr e]) (getSubnet env byName)) (\<lambda>s.
            ret (case s of None \<Rightarrow> '''' | Some sub \<Rightarrow> su_ID sub))
        else ret '''')"

definition create_floating_ip :: "'w lb_env \<Rightarrow> string \<Rightarrow> Service \<Rightarrow> string \<Rightarrow> string \<Rightarrow> ('w, FloatingIP) io" where
  "create_floating_ip env clusterName apiService floatingPool portID =
     bindE (floating_subnet env apiService) (\<lambda>subnet.
     wrapE (\<lambda>e. Errorf ''error creating LB floatingip %+v: %v'' [FStr floatingPool, FErr e])
       (fips_Create env
          \<lparr> fic_FloatingNetworkID = floatingPool, fic_PortID = portID,
            fic_Description = ''Floating IP for Kubernetes external service '' @ svc_Namespace apiService @ ''/'' @
              svc_Name apiService @ '' from cluster '' @ clusterName,
            fic_SubnetID = subnet, fic_FloatingIP = svc_LoadBalancerIP apiService \<rparr>))"

text \<open>A requested address is taken over if it exists unused in the project, and created otherwise.\<close>

definition new_floating_ip :: "'w lb_env \<Rightarrow> string \<Rightarrow> Service \<Rightarrow> string \<Rightarrow> string \<Rightarrow> ('w, FloatingIP) io" where
  "new_floating_ip env clusterName apiService floatingPool portID =
     (if svc_LoadBalancerIP apiService \<noteq> '''' then
        bindE (attempt (getFloatingIPByFloatingIP env (svc_LoadBalancerIP apiService))) (\<lambda>r.
          case r of
            Inl _ \<Rightarrow> create_floating_ip env clusterName apiService floatingPool portID
          | Inr floatingip \<Rightarrow>
              if length (fi_PortID floatingip) = 0 then
                wrapE (\<lambda>e. Errorf ''error updating LB floatingip %+v: %v'' [FStr portID, FErr e])
                  (fips_Update env (fi_ID floatingip) portID)
              else fail (errors_New ''floatingip is attached already to another port''))
      else create_floating_ip env clusterName apiService floatingPool portID)"

definition ensure_floating_ip ::
    "'w lb_env \<Rightarrow> string \<Rightarrow> Service \<Rightarrow> string \<Rightarrow> bool \<Rightarrow> LoadBalancer \<Rightarrow> ('w, FloatingIP option) io" where
  "ensure_floating_ip env clusterName apiService floatingPool internalAnnotation loadbalancer =
     (let portID = lbr_VipPortID loadbalancer in
      bindE (attempt (getFloatingIPByPortID env portID)) (\<lambda>r.
        case r of
          Inr floatIP \<Rightarrow> ret (Some floatIP)
        | Inl e \<Rightarrow>
            if e \<noteq> ErrNotFound
            then fail (Errorf ''error getting floating ip for port %s: %v'' [FStr portID, FErr e])
            else if floatingPool \<noteq> '''' \<and> \<not> internalAnnotation
            then bindE (new_floating_ip env clusterName apiService floatingPool portID) (\<lambda>f. ret (Some f))
            else ret None))"

section \<open>EnsureLoadBalancer\<close>

text \<open>The subnet: from the annotation, from the options, or that of a node; it is stored in the options.\<close>

definition no_subnet :: "Service \<Rightarrow> gerror \<Rightarrow> gerror" where
  "no_subnet service e =
     Errorf ''no subnet-id for service %s/%s : subnet-id not set in cloud provider config, and failed to find subnet-id from OpenStack: %v''
       [FStr (svc_Namespace service), FStr (svc_Name service), FErr e]"

definition pick_subnet :: "'w lb_env \<Rightarrow> Service \<Rightarrow> Node list \<Rightarrow> ('w lb_st, unit) io" where
  "pick_subnet env service nodes =
     bindE (set_opts (\<lambda>opts. opts\<lparr> lb_SubnetID :=
              getStringFromServiceAnnotation service AnnSubnetID (lb_SubnetID opts) \<rparr>)) (\<lambda>_.
     bindE get_opts (\<lambda>opts.
       case nodes of
         node # _ \<Rightarrow>
           if length (lb_SubnetID opts) = 0 then
             bindE (onw (wrapE (no_subnet service) (getSubnetIDForLB (le_compute env) node))) (\<lambda>subnetID.
               set_opts (lb_SubnetID_update (\<lambda>_. subnetID)))
           else ret ()
       | [] \<Rightarrow> ret ()))"

definition persistence_of :: "string \<Rightarrow> string option result" where
  "persistence_of affinity =
     (if affinity = ''None'' then Ok None
      else if affinity = ''ClientIP'' then Ok (Some ''SOURCE_IP'')
      else Err (Errorf ''unsupported load balancer affinity: %v'' [FStr affinity]))"

definition floating_pool :: "'w lb_env \<Rightarrow> LoadBalancerOpts \<Rightarrow> Service \<Rightarrow> ('w, string) io" where
  "floating_pool env opts apiService =
     (let p = getStringFromServiceAnnotation apiService AnnFloatingNetworkID (lb_FloatingNetworkID opts) in
      if length p = 0
      then bindE (attempt (getFloatingNetworkIDForLB env)) (\<lambda>r. ret (case r of Inl _ \<Rightarrow> '''' | Inr i \<Rightarrow> i))
      else ret p)"

definition find_or_create ::
    "'w lb_env \<Rightarrow> LoadBalancerOpts \<Rightarrow> string \<Rightarrow> Service \<Rightarrow> bool \<Rightarrow> ('w, LoadBalancer) io" where
  "find_or_create env opts clusterName apiService internalAnnotation =
     (let name = GetLoadBalancerName clusterName apiService in
      bindE (attempt (getLoadbalancerByName env name (GetLoadBalancerLegacyName env apiService))) (\<lambda>r.
        case r of
          Inr lb \<Rightarrow> ret lb
        | Inl e \<Rightarrow>
            if e \<noteq> ErrNotFound
            then fail (Errorf ''error getting loadbalancer for Service %s: %v''
                         [FStr (svc_Namespace apiService @ ''/'' @ svc_Name apiService), FErr e])
            else
              wrapE (\<lambda>e. Errorf ''error creating loadbalancer %s: %v'' [FStr name, FErr e])
                (createLoadBalancer env opts apiService name clusterName internalAnnotation
                   (getStringFromServiceAnnotation apiService AnnPortID ''''))))"

text \<open>The checks before anything is created: they give the pool of floating addresses, the kind of the
  load balancer and the session persistence.\<close>

definition check_service ::
    "'w lb_env \<Rightarrow> LoadBalancerOpts \<Rightarrow> Service \<Rightarrow> ('w, string \<times> bool \<times> string option) io" where
  "check_service env opts apiService =
     (if length (svc_Ports apiService) = 0 then fail (errors_New ''no ports provided to openstack load balancer'')
      else
        bindE (floating_pool env opts apiService) (\<lambda>floatingPool.
        bindE (lift_result (getBoolFromServiceAnnotation apiService AnnInternal (lb_InternalLB opts))) (\<lambda>internalAnnotation.
          if \<not> internalAnnotation \<and> length floatingPool = 0
          then fail (errors_New ''floating-network-id or loadbalancer.openstack.org/floating-network-id should be specified when ensuring an external loadbalancer service'')
          else if list_ex (\<lambda>port. sp_Protocol port \<noteq> ProtocolTCP) (svc_Ports apiService)
          then fail (errors_New ''only TCP LoadBalancer is supported for openstack load balancers'')
          else
            bindE (wrapE (\<lambda>e. Errorf ''failed to get source ranges for loadbalancer service %s: %v''
                                [FStr (svc_Namespace apiService @ ''/'' @ svc_Name apiService), FErr e])
                     (lift_result (GetLoadBalancerSourceRanges (svc_LoadBalancerSourceRanges apiService)
                        (svc_Annotations apiService)))) (\<lambda>sourceRanges.
              if \<not> IsAllowAll sourceRanges \<and> \<not> lb_ManageSecurityGroups opts
              then fail (errors_New ''source range restrictions are not supported for openstack load balancers without managing security groups'')
              else
                bindE (lift_result (persistence_of (svc_SessionAffinity apiService))) (\<lambda>persistence.
                  ret (floatingPool, internalAnnotation, persistence))))))"

definition ensure_lb ::
    "'w lb_env \<Rightarrow> LoadBalancerOpts \<Rightarrow> string \<Rightarrow> Service \<Rightarrow> Node list \<Rightarrow> ('w, LoadBalancer \<times> FloatingIP option) io" where
  "ensure_lb env opts clusterName apiService nodes =
     bindE (check_service env opts apiService) (\<lambda>(floatingPool, internalAnnotation, persistence).
     bindE (find_or_create env opts clusterName apiService internalAnnotation) (\<lambda>loadbalancer.
     bindE (wait_active env (lbr_ID loadbalancer)
              ''timeout when waiting for loadbalancer to be ACTIVE, current provisioning status %s'') (\<lambda>_.
     bindE (sync_listeners env opts apiService loadbalancer (GetLoadBalancerName clusterName apiService) persistence nodes) (\<lambda>_.
     bindE (ensure_floating_ip env clusterName apiService floatingPool internalAnnotation loadbalancer) (\<lambda>floatIP.
       ret (loadbalancer, floatIP))))))"

text \<open>The status is the address of the load balancer. When the security groups fail, what was created is deleted.\<close>

definition EnsureLoadBalancer ::
    "'w lb_env \<Rightarrow> string \<Rightarrow> Service \<Rightarrow> Node list \<Rightarrow> ('w lb_st, string) io" where
  "EnsureLoadBalancer env clusterName apiService nodes =
     (if length nodes = 0
      then fail (Errorf ''there are no available nodes for LoadBalancer service %s''
                   [FStr (svc_Namespace apiService @ ''/'' @ svc_Name apiService)])
      else
        bindE (pick_subnet env apiService nodes) (\<lambda>_.
        bindE get_opts (\<lambda>opts.
        bindE (onw (ensure_lb env opts clusterName apiService nodes)) (\<lambda>(loadbalancer, floatIP).
          let status = (case floatIP of Some f \<Rightarrow> fi_FloatingIP f | None \<Rightarrow> lbr_VipAddress loadbalancer) in
          if lb_ManageSecurityGroups opts then
            bindE (attempt (ensureSecurityGroup env clusterName apiService nodes loadbalancer)) (\<lambda>r.
              case r of
                Inr _ \<Rightarrow> ret status
              | Inl err \<Rightarrow>
                  bindE get_opts (\<lambda>opts.
                  bindE (attempt (onw (EnsureLoadBalancerDeleted env opts clusterName apiService))) (\<lambda>_. fail err)))
          else ret status))))"

section \<open>UpdateLoadBalancer\<close>

fun listener_pools :: "'w lb_env \<Rightarrow> string \<Rightarrow> string list \<Rightarrow> (string \<rightharpoonup> Pool) \<Rightarrow> ('w, string \<rightharpoonup> Pool) io" where
  "listener_pools env lbid [] lbPools = ret lbPools"
| "listener_pools env lbid (listenerID # ids) lbPools =
     bindE (wrapE (\<lambda>e. Errorf ''error getting pool for listener %s: %v'' [FStr listenerID, FErr e])
              (getPoolByListenerID env lbid listenerID)) (\<lambda>pool.
     listener_pools env lbid ids (lbPools(listenerID \<mapsto> pool)))"

text \<open>The addresses that should be members with their nodes, and the members by address: maps, in the order
  in which a range visits them.\<close>

fun node_addrs :: "Node list \<Rightarrow> (string \<times> Node) list \<Rightarrow> (string \<times> Node) list result" where
  "node_addrs [] addrs = Ok addrs"
| "node_addrs (node # nodes) addrs =
     bindR (nodeAddressForLB node) (\<lambda>addr. node_addrs nodes (AList.update addr node addrs))"

fun members_by_addr :: "Member list \<Rightarrow> (string \<times> Member) list \<Rightarrow> (string \<times> Member) list" where
  "members_by_addr [] m = m"
| "members_by_addr (member # ms) m = members_by_addr ms (AList.update (mb_Address member) member m)"

definition update_members ::
    "'w lb_env \<Rightarrow> string \<Rightarrow> LoadBalancer \<Rightarrow> string \<Rightarrow> nat \<Rightarrow> ServicePort \<Rightarrow> (string \<times> Node) list \<Rightarrow> ('w, unit) io" where
  "update_members env subnetID loadbalancer poolID portIndex port addrs =
     bindE (wrapE (\<lambda>e. Errorf ''error getting pool members %s: %v'' [FStr poolID, FErr e])
              (getMembersByPoolID env poolID)) (\<lambda>got.
       let members = members_by_addr got [] in
       bindE (forE (\<lambda>(addr, node).
         if (case map_of members addr of Some m \<Rightarrow> mb_ProtocolPort m = sp_NodePort port | None \<Rightarrow> False) then ret ()
         else
           bindE (members_Create env poolID
                    \<lparr> mbc_Name = cutString (''member_'' @ nat_text portIndex @ ''_'' @ nd_Name node @ ''_'' @ lbr_Name loadbalancer @ ''_''),
                      mbc_ProtocolPort = sp_NodePort port, mbc_Address = addr, mbc_SubnetID = subnetID \<rparr>) (\<lambda>_.
           wait_active env (lbr_ID loadbalancer) (after_msg ''creating member''))) addrs) (\<lambda>_.
       forE (\<lambda>(addr, member).
         if map_of addrs (mb_Address member) \<noteq> None \<and> mb_ProtocolPort member = sp_NodePort port then ret ()
         else delete_member env (\<lambda>_ e. e) (lbr_ID loadbalancer) poolID member) members))"

definition update_port ::
    "'w lb_env \<Rightarrow> string \<Rightarrow> LoadBalancer \<Rightarrow> Listener list \<Rightarrow> (string \<rightharpoonup> Pool) \<Rightarrow> (string \<times> Node) list \<Rightarrow>
     nat \<times> ServicePort \<Rightarrow> ('w, unit) io" where
  "update_port env subnetID loadbalancer allListeners lbPools addrs ip =
     (case ip of (portIndex, port) \<Rightarrow>
        (case find (\<lambda>l. li_Protocol l = toListenersProtocol (sp_Protocol port) \<and> li_ProtocolPort l = sp_Port port)
                (rev allListeners) of
           None \<Rightarrow> fail (Errorf ''loadbalancer %s does not contain required listener for port %d and protocol %s''
                           [FStr (lbr_ID loadbalancer), FInt (sp_Port port), FStr (sp_Protocol port)])
         | Some listener \<Rightarrow>
             (case lbPools (li_ID listener) of
                None \<Rightarrow> fail (Errorf ''loadbalancer %s does not contain required pool for listener %s''
                                [FStr (lbr_ID loadbalancer), FStr (li_ID listener)])
              | Some pool \<Rightarrow> update_members env subnetID loadbalancer (pl_ID pool) portIndex port addrs)))"

definition update_group_rules ::
    "'w lb_env \<Rightarrow> Service \<Rightarrow> string \<Rightarrow> string list \<Rightarrow> string list \<Rightarrow> ServicePort \<Rightarrow> ('w, unit) io" where
  "update_group_rules env apiService lbSecGroupID removals current port =
     bindE (forE (\<lambda>removal.
       bindE (rules_or_none env
                (\<lambda>e. Errorf ''error finding rules for remote group id %s in security group id %s: %v''
                       [FStr lbSecGroupID, FStr removal, FErr e])
                (node_rule removal (sp_Protocol port) (sp_NodePort port) lbSecGroupID '''')) (delete_rules env)) removals) (\<lambda>_.
     forE (ensure_node_rule env apiService lbSecGroupID port) current)"

text \<open>On an error of the lookup the options are left with no node security groups.\<close>

definition updateSecurityGroup ::
    "'w lb_env \<Rightarrow> Service \<Rightarrow> Node list \<Rightarrow> ('w lb_st, unit) io" where
  "updateSecurityGroup env apiService nodes =
     bindE get_opts (\<lambda>opts.
     bindE (attempt (onw (getNodeSecurityGroupIDForLB env nodes))) (\<lambda>r.
     bindE (set_opts (lb_NodeSecurityGroupIDs_update (\<lambda>_. case r of Inl _ \<Rightarrow> [] | Inr ids \<Rightarrow> ids))) (\<lambda>_.
       case r of
         Inl e \<Rightarrow> fail (Errorf ''failed to find node-security-group for loadbalancer service %s/%s: %v''
                          [FStr (svc_Namespace apiService), FStr (svc_Name apiService), FErr e])
       | Inr current \<Rightarrow>
           let removals = filter (\<lambda>g. g \<notin> set current) (remdups (lb_NodeSecurityGroupIDs opts));
               lbSecGroupName = getSecurityGroupName apiService
           in onw (
             bindE (wrapE (\<lambda>e. Errorf ''error occurred finding security group: %s: %v'' [FStr lbSecGroupName, FErr e])
                      (groups_IDFromName env lbSecGroupName)) (\<lambda>lbSecGroupID.
               if length (svc_Ports apiService) = 0
               then fail (errors_New ''no ports provided to openstack load balancer'')
               else forE (update_group_rules env apiService lbSecGroupID removals current) (svc_Ports apiService))))))"

definition update_lb ::
    "'w lb_env \<Rightarrow> LoadBalancerOpts \<Rightarrow> string \<Rightarrow> Service \<Rightarrow> Node list \<Rightarrow> ('w, unit) io" where
  "update_lb env opts clusterName service nodes =
     (if length (svc_Ports service) = 0 then fail (errors_New ''no ports provided to openstack load balancer'')
      else
        bindE (getLoadbalancerByName env (GetLoadBalancerName clusterName service)
                 (GetLoadBalancerName clusterName service)) (\<lambda>loadbalancer.
        bindE (wrapE (\<lambda>e. Errorf ''error getting listeners for LB %s: %v'' [FStr (lbr_ID loadbalancer), FErr e])
                 (getListenersByLoadBalancerID env (lbr_ID loadbalancer))) (\<lambda>allListeners.
        bindE (listener_pools env (lbr_ID loadbalancer) (map li_ID allListeners) Map.empty) (\<lambda>lbPools.
        bindE (lift_result (node_addrs nodes [])) (\<lambda>addrs.
          forE (update_port env (lb_SubnetID opts) loadbalancer allListeners lbPools addrs)
            (zip [0..<length (svc_Ports service)] (svc_Ports service)))))))"

definition UpdateLoadBalancer ::
    "'w lb_env \<Rightarrow> string \<Rightarrow> Service \<Rightarrow> Node list \<Rightarrow> ('w lb_st, unit) io" where
  "UpdateLoadBalancer env clusterName service nodes =
     bindE (pick_subnet env service nodes) (\<lambda>_.
     bindE get_opts (\<lambda>opts.
     bindE (onw (update_lb env opts clusterName service nodes)) (\<lambda>_.
       if lb_ManageSecurityGroups opts then
         wrapE (\<lambda>e. Errorf ''failed to update Security Group for loadbalancer service %s: %v''
                      [FStr (svc_Namespace service @ ''/'' @ svc_Name service), FErr e])
           (updateSecurityGroup env service nodes)
       else ret ())))"

end
