(* ===== verification/Go_Wait.thy ===== *)
theory Go_Wait
  imports Go_Prelude
begin

text \<open>
  The documented behaviour of \<open>wait.ExponentialBackoff\<close> of the Kubernetes libraries, which the
  polling loops of the components are given as a parameter: call the condition at most \<open>Steps\<close>
  times, sleep in between, stop with the condition's error or with \<open>ErrWaitTimeout\<close>. The lemmas
  bound the number of polls, say what holds when the loop succeeds, and what it keeps.
\<close>

fun backoff :: "('s \<Rightarrow> 's) \<Rightarrow> nat \<Rightarrow> ('s, bool) io \<Rightarrow> ('s, unit) io" where
  "backoff sleep 0 c = fail ErrWaitTimeout"
| "backoff sleep (Suc n) c =
     bindE c (\<lambda>ok. if ok then ret () else if n = 0 then fail ErrWaitTimeout else (\<lambda>s. backoff sleep n c (sleep s)))"

lemma backoff_again:
  "c s = (Ok False, s') \<Longrightarrow> 0 < n \<Longrightarrow> backoff sleep (Suc n) c s = backoff sleep n c (sleep s')"
  by (simp add: bindE_def)

lemma keeps_backoff:
  assumes "keeps I c" "\<And>s. I s \<Longrightarrow> I (sleep s)"
  shows "keeps I (backoff sleep n c)"
proof (induction n)
  case 0
  then show ?case by (simp only: backoff.simps keeps_fail)
next
  case (Suc n)
  have "keeps I (\<lambda>s. backoff sleep n c (sleep s))"
    using Suc assms(2) by (simp add: keeps_def)
  then show ?case
    using assms(1) by (auto intro!: keeps_intros)
qed

text \<open>\<open>n\<close> steps give at most \<open>n\<close> more polls than \<open>polls\<close> had counted, whatever the answers are.\<close>

lemma backoff_counts:
  assumes one: "\<And>s r s'. c s = (r, s') \<Longrightarrow> polls s' = Suc (polls s) \<and> (\<forall>p. r \<noteq> Panic p)"
    and none: "\<And>s. polls (sleep s) = polls s"
  shows "backoff sleep n c s = (r, s') \<Longrightarrow>
    (\<forall>p. r \<noteq> Panic p) \<and> polls s' \<le> polls s + n \<and> polls s \<le> polls s'"
proof (induction n arbitrary: s)
  case 0
  then show ?case by auto
next
  case (Suc n)
  obtain q s1 where c: "c s = (q, s1)" by (cases "c s")
  with one have s1: "polls s1 = Suc (polls s)" and np: "\<And>p. q \<noteq> Panic p" by blast+
  show ?case
  proof (cases q)
    case (Ok ok)
    show ?thesis
    proof (cases "ok \<or> n = 0")
      case True
      then show ?thesis using Suc.prems c Ok s1 by (auto split: if_splits)
    next
      case False
      then have "backoff sleep n c (sleep s1) = (r, s')"
        using Suc.prems c Ok backoff_again [of c s s1 n sleep] by simp
      from Suc.IH [OF this] show ?thesis using s1 none by auto
    qed
  next
    case (Err e)
    then show ?thesis using Suc.prems c s1 by auto
  next
    case (Panic p)
    then show ?thesis using np by simp
  qed
qed

text \<open>When it returns no error, the last thing it did is to see the condition hold.\<close>

lemma backoff_Ok:
  "backoff sleep n c s = (Ok u, s') \<Longrightarrow> \<exists>s0. c s0 = (Ok True, s')"
  by (induction n arbitrary: s) (auto simp: bindE_eq_Ok split: if_splits)

text \<open>\<open>if err == wait.ErrWaitTimeout { err = e }\<close>\<close>

definition on_timeout :: "gerror \<Rightarrow> ('w, 'a) io \<Rightarrow> ('w, 'a) io" where
  "on_timeout e = wrapE (\<lambda>err. if err = ErrWaitTimeout then e else err)"

lemma on_timeout_eq_Ok [simp]: "on_timeout e m w = (Ok x, w') \<longleftrightarrow> m w = (Ok x, w')"
  by (simp add: on_timeout_def wrapE_eq_Ok)

lemma keeps_on_timeout [keeps_intros]: "keeps I m \<Longrightarrow> keeps I (on_timeout e m)"
  by (simp add: on_timeout_def keeps_wrapE)

text \<open>A condition that never holds ends in the time-out, if it never fails either.\<close>

lemma backoff_times_out:
  assumes "\<And>s. I s \<Longrightarrow> \<exists>s'. c s = (Ok False, s') \<and> I s'" and "\<And>s. I s \<Longrightarrow> I (sleep s)" and "I s"
  shows "\<exists>s'. backoff sleep n c s = (Err ErrWaitTimeout, s') \<and> I s'"
  using assms(3)
proof (induction n arbitrary: s)
  case 0
  then show ?case by simp
next
  case (Suc n)
  obtain s1 where c: "c s = (Ok False, s1)" and s1: "I s1"
    using assms(1) Suc.prems by blast
  show ?case
  proof (cases "n = 0")
    case True
    then show ?thesis using c s1 by (simp add: bindE_def)
  next
    case False
    then show ?thesis
      using backoff_again [where c = c and sleep = sleep and n = n, OF c] Suc.IH [OF assms(2) [OF s1]] by simp
  qed
qed

end
