(* ===== verification/Lb_Wait.thy ===== *)
theory Lb_Wait
  imports Lb_Model Go_Wait
begin

text \<open>
  The polling loops of the load balancers. \<open>wait.ExponentialBackoff\<close> of the Kubernetes
  libraries is a parameter of the model; here is what follows from its documented behaviour
  (\<open>Go_Wait\<close>) for
  \<open>waitLoadbalancerActiveProvisioningStatus\<close> and \<open>waitLoadbalancerDeleted\<close>: they end after a bounded
  number of polls, they succeed when the status is reached in time, and they change the world
  only by polling and sleeping.
\<close>

definition backoff_ok :: "'w lb_env \<Rightarrow> ('w \<Rightarrow> 'w) \<Rightarrow> bool" where
  "backoff_ok env sleep \<longleftrightarrow> le_Backoff env = backoff (\<lambda>(w, status). (sleep w, status))"

lemma keeps_active_condition:
  "keeps I (lbs_Get env lbid) \<Longrightarrow> keeps (\<lambda>s. I (fst s)) (active_condition env lbid)"
  by (rule keepsI) (auto simp: active_condition_def split: prod.splits result.splits dest: keepsD)

lemma keeps_deleted_condition:
  "keeps I (lbs_Get env lbid) \<Longrightarrow> keeps (\<lambda>s. I (fst s)) (deleted_condition env lbid)"
  by (rule keepsI) (auto simp: deleted_condition_def split: prod.splits result.splits dest: keepsD)

lemma keeps_on_status:
  assumes "keeps (\<lambda>s. I (fst s)) m" "I w" "m (w, st) = (r, (w', st'))"
  shows "I w'"
  using keepsD [OF assms(1) _ assms(3)] assms(2) by simp

lemma keeps_waitActive:
  assumes "backoff_ok env sleep" "keeps I (lbs_Get env lbid)" "\<And>w. I w \<Longrightarrow> I (sleep w)"
  shows "keeps I (waitLoadbalancerActiveProvisioningStatus env lbid)"
proof -
  have "keeps (\<lambda>s. I (fst s)) (le_Backoff env n (active_condition env lbid))" for n
    using assms by (auto simp: backoff_ok_def intro!: keeps_backoff keeps_active_condition)
  then show ?thesis
    by (intro keepsI)
      (auto simp: waitLoadbalancerActiveProvisioningStatus_def split: prod.splits result.splits
         dest: keeps_on_status)
qed

lemma keeps_wait_active:
  assumes "backoff_ok env sleep" "keeps I (lbs_Get env lbid)" "\<And>w. I w \<Longrightarrow> I (sleep w)"
  shows "keeps I (wait_active env lbid msg)"
  unfolding wait_active_def using keeps_waitActive [OF assms] by (auto intro!: keeps_intros)

lemma keeps_waitDeleted:
  assumes "backoff_ok env sleep" "keeps I (lbs_Get env lbid)" "\<And>w. I w \<Longrightarrow> I (sleep w)"
  shows "keeps I (waitLoadbalancerDeleted env lbid)"
proof -
  have "keeps (\<lambda>s. I (fst s)) (le_Backoff env n (deleted_condition env lbid))" for n
    using assms by (auto simp: backoff_ok_def intro!: keeps_backoff keeps_deleted_condition)
  then show ?thesis
    by (intro keepsI)
      (auto simp: waitLoadbalancerDeleted_def split: prod.splits dest: keeps_on_status)
qed

section \<open>The number of polls\<close>

lemma active_condition_True:
  "active_condition env lbid s = (Ok True, s') \<Longrightarrow> snd s' = activeStatus"
  by (auto simp: active_condition_def split: prod.splits result.splits if_splits)

lemma waitActive_Ok:
  assumes "backoff_ok env sleep"
    and "backoff (\<lambda>(w, status). (sleep w, status)) loadbalancerActiveSteps (active_condition env lbid) (w, '''') = (Ok u, (w', st))"
  shows "waitLoadbalancerActiveProvisioningStatus env lbid w = (Ok (st, None), w')"
  using assms by (simp add: waitLoadbalancerActiveProvisioningStatus_def backoff_ok_def)

lemma waitActive_Err:
  assumes "backoff_ok env sleep"
    and "backoff (\<lambda>(w, status). (sleep w, status)) loadbalancerActiveSteps (active_condition env lbid) (w, '''') = (Err e, (w', st))"
  shows "\<exists>e'. waitLoadbalancerActiveProvisioningStatus env lbid w = (Ok (st, Some e'), w')"
  using assms by (simp add: waitLoadbalancerActiveProvisioningStatus_def backoff_ok_def)

text \<open>
  C12. \<open>waitLoadbalancerActiveProvisioningStatus\<close> always comes back (a poll that returns or fails is
  all it needs), it polls the load balancer at most 19 times, and it reports success only with the
  status \<open>ACTIVE\<close>.
\<close>

theorem waitActive_terminates:
  assumes "backoff_ok env sleep"
    and "\<And>w r w'. lbs_Get env lbid w = (r, w') \<Longrightarrow> polls w' = Suc (polls w) \<and> (\<forall>p. r \<noteq> Panic p)"
    and "\<And>w. polls (sleep w) = polls w"
  shows "\<exists>status err w'. waitLoadbalancerActiveProvisioningStatus env lbid w = (Ok (status, err), w') \<and>
    polls w' \<le> polls w + 19 \<and> (err = None \<longrightarrow> status = ''ACTIVE'')"
proof -
  let ?c = "active_condition env lbid" and ?sleep = "\<lambda>(w, status). (sleep w, status)"
  have one: "(polls \<circ> fst) s' = Suc ((polls \<circ> fst) s) \<and> (\<forall>p. r \<noteq> Panic p)" if "?c s = (r, s')" for s r s'
    using that assms(2) [of "fst s"]
    by (auto simp: active_condition_def split: prod.splits result.splits if_splits)
  let ?n = loadbalancerActiveSteps
  obtain r w' st where run: "backoff ?sleep ?n ?c (w, '''') = (r, (w', st))"
    by (metis surj_pair)
  have none: "(polls \<circ> fst) (?sleep s) = (polls \<circ> fst) s" for s
    by (cases s) (simp add: assms(3))
  have counts: "(\<forall>p. r \<noteq> Panic p) \<and> polls w' \<le> polls w + ?n"
    using backoff_counts [where polls = "polls \<circ> fst" and c = ?c and sleep = ?sleep, OF one none run] by simp
  show ?thesis
  proof (cases r)
    case (Ok u)
    from backoff_Ok [OF run [unfolded Ok]] have "st = activeStatus"
      using active_condition_True by fastforce
    then show ?thesis
      using waitActive_Ok [OF assms(1) run [unfolded Ok]] counts
      by (simp add: loadbalancerActiveSteps_def activeStatus_def)
  next
    case (Err e)
    then show ?thesis
      using waitActive_Err [OF assms(1) run [unfolded Err]] counts
      by (auto simp: loadbalancerActiveSteps_def)
  next
    case (Panic p)
    then show ?thesis using counts by simp
  qed
qed

section \<open>Success\<close>

text \<open>The world before the \<open>k\<close>th poll, when all polls before said to go on.\<close>

definition poll_world :: "'w lb_env \<Rightarrow> ('w \<Rightarrow> 'w) \<Rightarrow> string \<Rightarrow> nat \<Rightarrow> 'w \<Rightarrow> 'w" where
  "poll_world env sleep lbid k = (\<lambda>w. sleep (snd (lbs_Get env lbid w))) ^^ k"

lemma poll_world_Suc:
  "lbs_Get env lbid w = (r, w') \<Longrightarrow> poll_world env sleep lbid (Suc k) w = poll_world env sleep lbid k (sleep w')"
  by (simp add: poll_world_def funpow_swap1 del: funpow.simps(2) add: funpow_Suc_right)

definition polled :: "'w lb_env \<Rightarrow> string \<Rightarrow> 'w \<Rightarrow> string option" where
  "polled env lbid w = (case lbs_Get env lbid w of (Ok lb, _) \<Rightarrow> Some (lbr_ProvisioningStatus lb) | _ \<Rightarrow> None)"

lemma backoff_reaches:
  assumes "k < n"
    and "\<And>j. j < k \<Longrightarrow> \<exists>st. polled env lbid (poll_world env sleep lbid j w) = Some st \<and> st \<noteq> activeStatus \<and> st \<noteq> errorStatus"
    and "polled env lbid (poll_world env sleep lbid k w) = Some activeStatus"
  shows "backoff (\<lambda>(w, status). (sleep w, status)) n (active_condition env lbid) (w, s) =
    (Ok (), (snd (lbs_Get env lbid (poll_world env sleep lbid k w)), activeStatus))"
  using assms
proof (induction n arbitrary: k w s)
  case 0
  then show ?case by simp
next
  case (Suc n)
  show ?case
  proof (cases k)
    case 0
    then show ?thesis
      using Suc.prems(3)
      by (auto simp: poll_world_def polled_def active_condition_def split: prod.splits result.splits)
  next
    case (Suc k')
    obtain lb w' where get: "lbs_Get env lbid w = (Ok lb, w')"
      and st: "lbr_ProvisioningStatus lb \<noteq> activeStatus" "lbr_ProvisioningStatus lb \<noteq> errorStatus"
      using Suc.prems(2) [of 0] Suc
      by (auto simp: polled_def poll_world_def split: prod.splits result.splits)
    have go: "active_condition env lbid (w, s) = (Ok False, (w', lbr_ProvisioningStatus lb))"
      by (simp add: active_condition_def get st)
    note shift = poll_world_Suc [OF get, of sleep]
    have "backoff (\<lambda>(w, status). (sleep w, status)) n (active_condition env lbid) (sleep w', lbr_ProvisioningStatus lb) =
      (Ok (), (snd (lbs_Get env lbid (poll_world env sleep lbid k' (sleep w'))), activeStatus))"
    proof (rule Suc.IH)
      show "k' < n" using Suc.prems(1) Suc by simp
      show "\<exists>st. polled env lbid (poll_world env sleep lbid j (sleep w')) = Some st \<and> st \<noteq> activeStatus \<and> st \<noteq> errorStatus"
        if "j < k'" for j
        using Suc.prems(2) [of "Suc j"] that Suc by (simp add: shift)
      show "polled env lbid (poll_world env sleep lbid k' (sleep w')) = Some activeStatus"
        using Suc.prems(3) Suc by (simp add: shift)
    qed
    moreover have "backoff (\<lambda>(w, status). (sleep w, status)) (Suc n) (active_condition env lbid) (w, s) =
        backoff (\<lambda>(w, status). (sleep w, status)) n (active_condition env lbid) (sleep w', lbr_ProvisioningStatus lb)"
      using backoff_again [where c = "active_condition env lbid" and s = "(w, s)", OF go] Suc.prems(1) Suc
      by simp
    ultimately show ?thesis
      by (simp only: Suc shift)
  qed
qed

text \<open>
  C13. If the load balancer becomes \<open>ACTIVE\<close> within 19 polls and none of the polls before finds it in
  \<open>ERROR\<close> or fails, the wait succeeds, at exactly that poll.
\<close>

theorem waitActive_succeeds:
  assumes "backoff_ok env sleep" "k < 19"
    and "\<And>j. j < k \<Longrightarrow> \<exists>st. polled env lbid (poll_world env sleep lbid j w) = Some st \<and> st \<noteq> ''ACTIVE'' \<and> st \<noteq> ''ERROR''"
    and "polled env lbid (poll_world env sleep lbid k w) = Some ''ACTIVE''"
  shows "waitLoadbalancerActiveProvisioningStatus env lbid w =
    (Ok (''ACTIVE'', None), snd (lbs_Get env lbid (poll_world env sleep lbid k w)))"
proof -
  have "backoff (\<lambda>(w, status). (sleep w, status)) loadbalancerActiveSteps (active_condition env lbid) (w, '''') =
    (Ok (), (snd (lbs_Get env lbid (poll_world env sleep lbid k w)), activeStatus))"
    using assms(2-4)
    by (intro backoff_reaches) (simp_all add: activeStatus_def errorStatus_def loadbalancerActiveSteps_def)
  from waitActive_Ok [OF assms(1) this] show ?thesis
    by (simp add: activeStatus_def)
qed

end
