(* ===== verification/Lb_Contract.thy ===== *)
theory Lb_Contract
  imports Lb_Wait
begin

text \<open>
  What the load-balancer operations rely on of Octavia, for one load balancer: lists return what
  exists, a creation adds one object with a new id, a deletion removes one, waiting changes
  nothing, and nobody else changes the load balancer meanwhile. What exists is a view of the
  world: the listeners (id, protocol and port), the pools (id and listener) and the members of
  each pool (id, address and port). From it, what the lookups return and what the deletions do.
\<close>

type_synonym ident = string
type_synonym endpoint = "string \<times> int"

record lb_view =
  v_listeners :: "(ident \<times> endpoint) list"
  v_pools :: "(ident \<times> ident) list"
  v_members :: "ident \<Rightarrow> (ident \<times> endpoint) list"

definition listener_entry :: "Listener \<Rightarrow> ident \<times> endpoint" where
  "listener_entry l = (li_ID l, li_Protocol l, li_ProtocolPort l)"

definition pool_entry :: "Pool \<Rightarrow> ident \<times> ident list" where
  "pool_entry p = (pl_ID p, pl_Listeners p)"

definition member_entry :: "Member \<Rightarrow> ident \<times> endpoint" where
  "member_entry m = (mb_ID m, mb_Address m, mb_ProtocolPort m)"

definition without :: "ident \<Rightarrow> (ident \<times> 'a) list \<Rightarrow> (ident \<times> 'a) list" where
  "without i xs = filter (\<lambda>x. fst x \<noteq> i) xs"

definition set_members :: "ident \<Rightarrow> (ident \<times> endpoint) list \<Rightarrow> lb_view \<Rightarrow> lb_view" where
  "set_members p ms v = v\<lparr> v_members := (v_members v)(p := ms) \<rparr>"

lemma set_members_simps [simp]:
  "v_members (set_members p ms v) q = (if q = p then ms else v_members v q)"
  "v_listeners (set_members p ms v) = v_listeners v"
  "v_pools (set_members p ms v) = v_pools v"
  "set_members p ms (set_members p ms' v) = set_members p ms v"
  "set_members p (v_members v p) v = v"
  by (simp_all add: set_members_def)

text \<open>\<open>paged f r v xs\<close>: if the listing \<open>r\<close> succeeds its pages show the entries \<open>xs\<close>.\<close>

definition paged :: "('p \<Rightarrow> 'e) \<Rightarrow> 'p list result list result \<Rightarrow> 'e list \<Rightarrow> bool" where
  "paged f r es \<longleftrightarrow> (\<forall>pages. r = Ok (map Ok pages) \<longrightarrow> map f (concat pages) = es)"

definition gone :: "unit result \<Rightarrow> bool" where
  "gone r \<longleftrightarrow> r = Ok () \<or> (\<exists>e. r = Err e \<and> IsNotFound e)"

definition waits_ok :: "'w lb_env \<Rightarrow> string \<Rightarrow> ('w \<Rightarrow> lb_view) \<Rightarrow> ('w \<Rightarrow> 'w) \<Rightarrow> bool" where
  "waits_ok env lbid view sleep \<longleftrightarrow>
     backoff_ok env sleep \<and> (\<forall>w. view (sleep w) = view w) \<and>
     (\<forall>v. keeps (\<lambda>w. view w = v) (lbs_Get env lbid))"

definition members_ok :: "'w lb_env \<Rightarrow> ('w \<Rightarrow> lb_view) \<Rightarrow> bool" where
  "members_ok env view \<longleftrightarrow>
     (\<forall>p w r w'. members_List env p w = (r, w') \<longrightarrow>
        view w' = view w \<and> paged member_entry r (v_members (view w) p) \<and>
        (\<forall>e. r = Err e \<and> IsNotFound e \<longrightarrow> v_members (view w) p = []) \<and>
        (\<forall>pages e. r = Ok pages \<and> Err e \<in> set pages \<longrightarrow> \<not> IsNotFound e)) \<and>
     (\<forall>p o' w w'. members_Create env p o' w = (Ok (), w') \<longrightarrow>
        (\<exists>i. i \<notin> fst ` set (v_members (view w) p) \<and>
           view w' = set_members p (v_members (view w) p @ [(i, mbc_Address o', mbc_ProtocolPort o')]) (view w))) \<and>
     (\<forall>p i w r w'. members_Delete env p i w = (r, w') \<and> gone r \<longrightarrow>
        view w' = set_members p (without i (v_members (view w) p)) (view w))"

definition pools_ok :: "'w lb_env \<Rightarrow> string \<Rightarrow> ('w \<Rightarrow> lb_view) \<Rightarrow> bool" where
  "pools_ok env lbid view \<longleftrightarrow>
     (\<forall>w r w'. pools_List env lbid w = (r, w') \<longrightarrow>
        view w' = view w \<and> paged pool_entry r (map (\<lambda>(p, l). (p, [l])) (v_pools (view w))) \<and>
        (\<forall>e. r = Err e \<or> (\<exists>pages. r = Ok pages \<and> Err e \<in> set pages) \<longrightarrow> not_found_as e \<noteq> ErrNotFound)) \<and>
     (\<forall>o' w p w'. pools_Create env o' w = (Ok p, w') \<longrightarrow>
        pl_ID p \<notin> fst ` set (v_pools (view w)) \<and>
        view w' = set_members (pl_ID p) [] ((view w)\<lparr> v_pools := v_pools (view w) @ [(pl_ID p, plc_ListenerID o')] \<rparr>)) \<and>
     (\<forall>i w r w'. pools_Delete env i w = (r, w') \<and> gone r \<longrightarrow>
        view w' = set_members i [] ((view w)\<lparr> v_pools := without i (v_pools (view w)) \<rparr>)) \<and>
     (\<forall>o' v. keeps (\<lambda>w. view w = v) (monitors_Create env o')) \<and>
     (\<forall>i v. keeps (\<lambda>w. view w = v) (monitors_Delete env i))"

definition listeners_ok :: "'w lb_env \<Rightarrow> string \<Rightarrow> ('w \<Rightarrow> lb_view) \<Rightarrow> bool" where
  "listeners_ok env lbid view \<longleftrightarrow>
     (\<forall>w r w'. listeners_List env lbid w = (r, w') \<longrightarrow>
        view w' = view w \<and> paged listener_entry r (v_listeners (view w)) \<and>
        (\<forall>pages l. r = Ok (map Ok pages) \<and> l \<in> set (concat pages) \<longrightarrow> lbid \<in> set (li_Loadbalancers l))) \<and>
     (\<forall>o' w l w'. listeners_Create env o' w = (Ok l, w') \<and> lic_LoadbalancerID o' = lbid \<longrightarrow>
        li_ID l \<notin> fst ` set (v_listeners (view w)) \<and> li_ID l \<notin> snd ` set (v_pools (view w)) \<and>
        listener_entry l = (li_ID l, lic_Protocol o', lic_ProtocolPort o') \<and>
        view w' = (view w)\<lparr> v_listeners := v_listeners (view w) @ [listener_entry l] \<rparr>) \<and>
     (\<forall>i n v. keeps (\<lambda>w. view w = v) (listeners_Update env i n)) \<and>
     (\<forall>i w r w'. listeners_Delete env i w = (r, w') \<and> gone r \<longrightarrow>
        view w' = (view w)\<lparr> v_listeners := without i (v_listeners (view w)) \<rparr>)"

definition octavia_ok :: "'w lb_env \<Rightarrow> string \<Rightarrow> ('w \<Rightarrow> lb_view) \<Rightarrow> ('w \<Rightarrow> 'w) \<Rightarrow> bool" where
  "octavia_ok env lbid view sleep \<longleftrightarrow>
     waits_ok env lbid view sleep \<and> members_ok env view \<and> pools_ok env lbid view \<and> listeners_ok env lbid view"

text \<open>Object ids are unique, every listener has one pool at most, and no two members of a pool are alike.\<close>

definition view_wf :: "lb_view \<Rightarrow> bool" where
  "view_wf v \<longleftrightarrow> distinct (map fst (v_listeners v)) \<and> distinct (map fst (v_pools v)) \<and> distinct (map snd (v_pools v)) \<and>
     (\<forall>p. distinct (map fst (v_members v p)))"

section \<open>Lookups\<close>

lemma in_without [simp]: "x \<in> set (without i xs) \<longleftrightarrow> x \<in> set xs \<and> fst x \<noteq> i"
  by (auto simp: without_def)

lemma distinct_without [simp]: "distinct (map f xs) \<Longrightarrow> distinct (map f (without i xs))"
  by (simp add: without_def distinct_map_filter)

lemma each_page_append:
  assumes "each_page (\<lambda>p acc. Ok (True, acc @ f p)) pages acc = Ok res"
  shows "\<exists>ps. pages = map Ok ps \<and> res = acc @ concat (map f ps)"
  using assms
proof (induction pages arbitrary: acc)
  case Nil
  then show ?case by simp
next
  case (Cons page pages)
  then obtain p where p: "page = Ok p" by (cases page) simp_all
  with Cons.prems have "each_page (\<lambda>p acc. Ok (True, acc @ f p)) pages (acc @ f p) = Ok res" by simp
  from Cons.IH [OF this] obtain ps where "pages = map Ok ps" "res = (acc @ f p) @ concat (map f ps)"
    by blast
  then have "page # pages = map Ok (p # ps) \<and> res = acc @ concat (map f (p # ps))"
    by (simp add: p)
  then show ?case by (rule exI)
qed

lemma each_page_error:
  assumes "each_page (\<lambda>p acc. Ok (True, acc @ f p)) pages acc = Err e"
  shows "Err e \<in> set pages"
  using assms
proof (induction pages arbitrary: acc)
  case (Cons page pages)
  then show ?case by (cases page) auto
qed simp

lemma view_wait:
  assumes "waits_ok env lbid view sleep" "wait_active env lbid msg w = (r, w')"
  shows "view w' = view w"
proof -
  have "keeps (\<lambda>x. view x = view w) (wait_active env lbid msg)"
    using assms(1) unfolding waits_ok_def by (intro keeps_wait_active [of env sleep]) auto
  from keepsD [OF this _ assms(2)] show ?thesis by simp
qed

lemma ignore_missing_gone:
  "ignore_missing msg m w = (Ok (), w') \<Longrightarrow> \<exists>r. m w = (r, w') \<and> gone r"
  by (auto simp: ignore_missing_def gone_def bindE_attempt_eq_Ok split: if_splits)

lemma getMembers_view:
  assumes "members_ok env view" "getMembersByPoolID env p w = (Ok ms, w')"
  shows "view w' = view w \<and> map member_entry ms = v_members (view w) p"
proof -
  obtain pages where l: "members_List env p w = (Ok pages, w')"
    and e: "each_page (\<lambda>membersList members. Ok (True, members @ membersList)) pages [] = Ok ms"
    using assms(2) by (auto simp: getMembersByPoolID_def bindE_eq_Ok)
  from each_page_append [OF e] obtain ps where "pages = map Ok ps" "ms = concat ps" by auto
  with l assms(1) show ?thesis unfolding members_ok_def paged_def by fastforce
qed

lemma members_or_none_view:
  assumes "members_ok env view" "members_or_none env msg p w = (Ok ms, w')"
  shows "view w' = view w \<and> map member_entry ms = v_members (view w) p"
proof -
  consider "getMembersByPoolID env p w = (Ok ms, w')"
    | e where "getMembersByPoolID env p w = (Err e, w')" "IsNotFound e" "ms = []"
    using assms(2) by (auto simp: members_or_none_def bindE_attempt_eq_Ok split: if_splits)
  then show ?thesis
  proof cases
    case 1
    then show ?thesis using getMembers_view [OF assms(1)] by simp
  next
    case 2
    have "members_List env p w = (Err e, w')"
    proof (rule ccontr)
      assume "members_List env p w \<noteq> (Err e, w')"
      then obtain pages where "members_List env p w = (Ok pages, w')" "Err e \<in> set pages"
        using 2(1) each_page_error [of "\<lambda>x. x"]
        by (auto simp: getMembersByPoolID_def bindE_eq_Err)
      with assms(1) 2(2) show False unfolding members_ok_def by blast
    qed
    then show ?thesis using assms(1) 2 unfolding members_ok_def by fastforce
  qed
qed

end
