(* ===== verification/Lb_Memory.thy ===== *)
theory Lb_Memory
  imports Lb_Contract
begin

text \<open>
  A load-balancer service in memory, which keeps the contract of \<open>Lb_Contract\<close>: the contract can be
  met, and the witnesses of the load-balancer properties run on it. Its world holds one load
  balancer that becomes \<open>ACTIVE\<close> after some sleeps.
\<close>

record mem =
  m_view :: lb_view
  m_lbs :: "LoadBalancer list"
  m_pending :: nat
  m_polls :: nat

definition mem_sleep :: "mem \<Rightarrow> mem" where
  "mem_sleep w = w\<lparr> m_pending := m_pending w - 1 \<rparr>"

definition fresh :: "string list \<Rightarrow> string" where
  "fresh ids = replicate (Suc (sum_list (map length ids))) (CHR ''i'')"

lemma fresh_new: "fresh ids \<notin> set ids"
proof
  assume "fresh ids \<in> set ids"
  then have "length (fresh ids) \<in> set (map length ids)" by auto
  from member_le_sum_list [OF this] show False by (simp add: fresh_def)
qed

lemma fresh_pairs [simp]:
  "(fresh (map fst xs), b) \<notin> set xs"
  "(fresh (map fst xs @ ys), b) \<notin> set xs"
  "(a, fresh (ys @ map snd zs)) \<notin> set zs"
  using fresh_new [of "map fst xs"] fresh_new [of "map fst xs @ ys"] fresh_new [of "ys @ map snd zs"]
  by force+

definition mem_poll :: "string \<Rightarrow> (mem, LoadBalancer) io" where
  "mem_poll i w =
     (case find (\<lambda>lb. lbr_ID lb = i) (m_lbs w) of
        None \<Rightarrow> Err ErrDefault404
      | Some lb \<Rightarrow> Ok (if m_pending w = 0 then lb else lb\<lparr> lbr_ProvisioningStatus := ''PENDING_UPDATE'' \<rparr>),
      w\<lparr> m_polls := Suc (m_polls w) \<rparr>)"

definition on_view :: "(lb_view \<Rightarrow> lb_view) \<Rightarrow> (mem, unit) io" where
  "on_view f w = (Ok (), w\<lparr> m_view := f (m_view w) \<rparr>)"

definition mem_listeners :: "string \<Rightarrow> (mem, Listener list result list) io" where
  "mem_listeners i w =
     (Ok [Ok (map (\<lambda>(l, pr, po). \<lparr> li_ID = l, li_Protocol = pr, li_ProtocolPort = po, li_ConnLimit = -1,
        li_Loadbalancers = [i] \<rparr>) (v_listeners (m_view w)))], w)"

definition mem_create_listener :: "listener_CreateOpts \<Rightarrow> (mem, Listener) io" where
  "mem_create_listener o' w =
     (let v = m_view w; i = fresh (map fst (v_listeners v) @ map snd (v_pools v)) in
      (Ok \<lparr> li_ID = i, li_Protocol = lic_Protocol o', li_ProtocolPort = lic_ProtocolPort o',
            li_ConnLimit = lic_ConnLimit o', li_Loadbalancers = [lic_LoadbalancerID o'] \<rparr>,
       w\<lparr> m_view := v\<lparr> v_listeners := v_listeners v @ [(i, lic_Protocol o', lic_ProtocolPort o')] \<rparr> \<rparr>))"

definition mem_pools :: "string \<Rightarrow> (mem, Pool list result list) io" where
  "mem_pools i w =
     (Ok [Ok (map (\<lambda>(p, l). \<lparr> pl_ID = p, pl_Listeners = [l], pl_MonitorID = '''' \<rparr>) (v_pools (m_view w)))], w)"

definition mem_create_pool :: "pool_CreateOpts \<Rightarrow> (mem, Pool) io" where
  "mem_create_pool o' w =
     (let v = m_view w; i = fresh (map fst (v_pools v)) in
      (Ok \<lparr> pl_ID = i, pl_Listeners = [plc_ListenerID o'], pl_MonitorID = '''' \<rparr>,
       w\<lparr> m_view := set_members i [] (v\<lparr> v_pools := v_pools v @ [(i, plc_ListenerID o')] \<rparr>) \<rparr>))"

definition mem_members :: "string \<Rightarrow> (mem, Member list result list) io" where
  "mem_members p w =
     (Ok [Ok (map (\<lambda>(i, a, po). \<lparr> mb_ID = i, mb_Address = a, mb_ProtocolPort = po \<rparr>) (v_members (m_view w) p))], w)"

definition mem_create_member :: "string \<Rightarrow> member_CreateOpts \<Rightarrow> (mem, unit) io" where
  "mem_create_member p o' =
     on_view (\<lambda>v. set_members p (v_members v p @ [(fresh (map fst (v_members v p)), mbc_Address o', mbc_ProtocolPort o')]) v)"

definition mem_env :: "mem lb_env" where
  "mem_env =
     \<lparr> le_compute = demo_compute, le_Backoff = backoff (\<lambda>(w, status). (mem_sleep w, status)), le_legacyName = (\<lambda>_. ''''),
       lbs_List = (\<lambda>n w. (Ok (filter (\<lambda>lb. lbr_Name lb = n) (m_lbs w)), w)),
       lbs_Get = mem_poll,
       lbs_Create = (\<lambda>_. fail (External ''quota'')),
       lbs_Delete = (\<lambda>i _ w. (Ok (), w\<lparr> m_lbs := filter (\<lambda>lb. lbr_ID lb \<noteq> i) (m_lbs w) \<rparr>)),
       listeners_List = mem_listeners, listeners_Create = mem_create_listener,
       listeners_Update = (\<lambda>_ _. ret ()),
       listeners_Delete = (\<lambda>i. on_view (\<lambda>v. v\<lparr> v_listeners := without i (v_listeners v) \<rparr>)),
       pools_List = mem_pools, pools_Create = mem_create_pool,
       pools_Delete = (\<lambda>i. on_view (\<lambda>v. set_members i [] (v\<lparr> v_pools := without i (v_pools v) \<rparr>))),
       members_List = mem_members, members_Create = mem_create_member,
       members_Delete = (\<lambda>p i. on_view (\<lambda>v. set_members p (without i (v_members v p)) v)),
       monitors_Create = (\<lambda>_. ret ''monitor''), monitors_Delete = (\<lambda>_. ret ()),
       fips_List = (\<lambda>_. ret []),
       fips_Create = (\<lambda>o'. ret \<lparr> fi_ID = ''fip'', fi_FloatingIP = ''203.0.113.5'', fi_PortID = fic_PortID o' \<rparr>),
       fips_Update = (\<lambda>i p. ret \<lparr> fi_ID = i, fi_FloatingIP = ''203.0.113.5'', fi_PortID = p \<rparr>),
       fips_Delete = (\<lambda>_. ret ()),
       networks_List = ret [], subnets_List = (\<lambda>_. ret []), subnets_Get = (\<lambda>i. ret \<lparr> su_ID = i, su_CIDR = ''10.0.0.0/24'' \<rparr>),
       groups_IDFromName = (\<lambda>_. fail ErrResourceNotFound), groups_Create = (\<lambda>_ _. ret ''sg''), groups_Delete = (\<lambda>_. ret ()),
       rules_List = (\<lambda>_. ret []), rules_Create = (\<lambda>_. ret ()), rules_Delete = (\<lambda>_. ret ()),
       ports_List = (\<lambda>_. ret []), ports_Get = (\<lambda>_. ret None), ports_Update = (\<lambda>_ _. ret ()),
       tags_Add = (\<lambda>_ _. ret ()), tags_Delete = (\<lambda>_ _. ret ()) \<rparr>"

lemma mem_backoff: "backoff_ok mem_env mem_sleep"
  unfolding backoff_ok_def by (simp add: mem_env_def)

lemma mem_waits: "waits_ok mem_env lbid m_view mem_sleep"
proof -
  have "keeps (\<lambda>w. m_view w = v) (lbs_Get mem_env lbid)" for v
    by (auto simp: mem_env_def mem_poll_def keeps_def)
  then show ?thesis by (simp add: waits_ok_def mem_backoff mem_sleep_def)
qed

lemma mem_members_ok: "members_ok mem_env m_view"
  unfolding members_ok_def
proof (intro conjI allI impI)
  fix p o' w w' assume "members_Create mem_env p o' w = (Ok (), w')"
  then show "\<exists>i. i \<notin> fst ` set (v_members (m_view w) p) \<and>
      m_view w' = set_members p (v_members (m_view w) p @ [(i, mbc_Address o', mbc_ProtocolPort o')]) (m_view w)"
    using fresh_new [of "map fst (v_members (m_view w) p)"]
    by (auto simp: mem_env_def mem_create_member_def on_view_def)
qed (auto simp: mem_env_def mem_members_def on_view_def paged_def member_entry_def Cons_eq_map_conv comp_def
       case_prod_unfold)

lemma mem_pools_ok: "pools_ok mem_env lbid m_view"
  by (auto simp: pools_ok_def mem_env_def mem_pools_def mem_create_pool_def on_view_def paged_def pool_entry_def
      Cons_eq_map_conv comp_def case_prod_unfold keeps_def gone_def Let_def)

lemma mem_listeners_ok: "listeners_ok mem_env lbid m_view"
  by (auto simp: listeners_ok_def mem_env_def mem_listeners_def mem_create_listener_def on_view_def paged_def
      listener_entry_def Cons_eq_map_conv comp_def case_prod_unfold keeps_def Let_def)

lemma mem_octavia: "octavia_ok mem_env lbid m_view mem_sleep"
  by (simp add: octavia_ok_def mem_waits mem_members_ok mem_pools_ok mem_listeners_ok)

section \<open>Waiting\<close>

definition demo_lb :: LoadBalancer where
  "demo_lb = \<lparr> lbr_ID = ''lb-1'', lbr_Name = ''kube_service_k8s_default_web'', lbr_ProvisioningStatus = ''ACTIVE'',
     lbr_VipPortID = ''vip-port'', lbr_VipAddress = ''10.0.0.9'' \<rparr>"

definition empty_view :: lb_view where
  "empty_view = \<lparr> v_listeners = [], v_pools = [], v_members = (\<lambda>_. []) \<rparr>"

definition pending_mem :: "nat \<Rightarrow> mem" where
  "pending_mem n = \<lparr> m_view = empty_view, m_lbs = [demo_lb], m_pending = n, m_polls = 0 \<rparr>"

lemma mem_poll_world:
  "poll_world mem_env mem_sleep ''lb-1'' k w = w\<lparr> m_pending := m_pending w - k, m_polls := m_polls w + k \<rparr>"
  by (induction k) (simp_all add: poll_world_def mem_env_def mem_poll_def mem_sleep_def)
lemma mem_polls:
  "lbs_Get mem_env ''lb-1'' w = (r, w') \<Longrightarrow> m_polls w' = Suc (m_polls w) \<and> (\<forall>p. r \<noteq> Panic p)"
  by (auto simp: mem_env_def mem_poll_def split: option.splits)

theorem waitActive_terminates_witness:
  "\<exists>status err w'. waitLoadbalancerActiveProvisioningStatus mem_env ''lb-1'' (pending_mem 30) = (Ok (status, err), w') \<and>
     m_polls w' \<le> m_polls (pending_mem 30) + 19 \<and> (err = None \<longrightarrow> status = ''ACTIVE'')"
  by (rule waitActive_terminates [where polls = m_polls, OF mem_backoff mem_polls])
    (simp_all add: mem_sleep_def)

lemma mem_polled:
  "polled mem_env ''lb-1'' (poll_world mem_env mem_sleep ''lb-1'' j (pending_mem n)) =
     Some (if n \<le> j then ''ACTIVE'' else ''PENDING_UPDATE'')"
  by (simp add: mem_poll_world polled_def pending_mem_def demo_lb_def) (simp add: mem_env_def mem_poll_def)

theorem waitActive_succeeds_witness:
  "waitLoadbalancerActiveProvisioningStatus mem_env ''lb-1'' (pending_mem 3) =
     (Ok (''ACTIVE'', None), snd (lbs_Get mem_env ''lb-1'' (poll_world mem_env mem_sleep ''lb-1'' 3 (pending_mem 3))))"
  by (rule waitActive_succeeds [OF mem_backoff]) (simp_all add: mem_polled)

end
