(* ===== verification/Lb_Members.thy ===== *)
theory Lb_Members
  imports Lb_Memory
begin

text \<open>
  The members of a pool. EnsureLoadBalancer and UpdateLoadBalancer have each their own loop that
  makes the members of a pool those of the given nodes; both keep the same contract, the locale
  \<open>pool_sync\<close>, so they lead to the same members.
\<close>

definition endpoint_of :: "Member \<Rightarrow> endpoint" where
  "endpoint_of m = (mb_Address m, mb_ProtocolPort m)"

lemma snd_member_entry [simp]: "snd (member_entry m) = endpoint_of m"
  by (simp add: member_entry_def endpoint_of_def)

lemma fst_member_entry [simp]: "fst (member_entry m) = mb_ID m"
  by (simp add: member_entry_def)

section \<open>popMember\<close>

lemma popMember_loop_skip:
  assumes "\<And>i. i \<in> set is \<Longrightarrow> \<not> member_at addr port (arr ! i)"
  shows "popMember_loop addr port (is @ js) arr n = popMember_loop addr port js arr n"
  using assms by (induction "is") auto

text \<open>With one match only, \<open>popMember\<close> removes it; the order of the others may change.\<close>

lemma popMember_one:
  assumes "i < length ms" "member_at addr port (ms ! i)"
    and only: "\<And>j. j < length ms \<Longrightarrow> member_at addr port (ms ! j) \<Longrightarrow> j = i"
  shows "popMember ms addr port = Ok (butlast (ms[i := last ms]))"
proof -
  let ?n = "length ms" and ?arr = "ms[i := ms ! (length ms - 1)]"
  have split: "[0..<?n] = [0..<i] @ i # [Suc i..<?n]"
    using assms(1) upt_add_eq_append [of 0 i "?n - i"] by (simp add: upt_conv_Cons)
  have "popMember_loop addr port [0..<?n] ms ?n = popMember_loop addr port (i # [Suc i..<?n]) ms ?n"
    unfolding split using assms(1) only by (intro popMember_loop_skip notI) (metis atLeastLessThan_iff less_irrefl less_trans set_upt)
  also have "\<dots> = popMember_loop addr port ([Suc i..<?n] @ []) ?arr (?n - 1)"
    using assms(1,2) by simp
  also have "\<dots> = popMember_loop addr port [] ?arr (?n - 1)"
  proof (intro popMember_loop_skip notI)
    fix j assume "j \<in> set [Suc i..<?n]" and "member_at addr port (?arr ! j)"
    then show False using only [of j] by simp
  qed
  finally have "popMember_loop addr port [0..<?n] ms ?n = Ok (?arr, ?n - 1)" by simp
  moreover have "ms ! (?n - 1) = last ms" using assms(1) by (cases ms) (auto simp: last_conv_nth)
  ultimately show ?thesis by (simp add: popMember_def butlast_conv_take)
qed

lemma popMember_ok:
  assumes "distinct (map endpoint_of ms)" "memberExists ms addr port"
  obtains ms' where "popMember ms addr port = Ok ms'" "distinct (map endpoint_of ms')"
    "set ms' \<subseteq> set ms" "endpoint_of ` set ms' = endpoint_of ` set ms - {(addr, port)}"
proof -
  obtain i where i: "i < length ms" "member_at addr port (ms ! i)"
    using assms(2) by (auto simp: memberExists_def list_ex_iff in_set_conv_nth)
  have at: "member_at addr port m \<longleftrightarrow> endpoint_of m = (addr, port)" for m
    by (simp add: member_at_def endpoint_of_def)
  have only: "j = i" if "j < length ms" "member_at addr port (ms ! j)" for j
    using nth_eq_iff_index_eq [OF assms(1), of j i] i that by (simp add: at)
  let ?ms' = "butlast (ms[i := last ms])"
  have mset: "mset ms = add_mset (ms ! i) (mset ?ms')"
    using i(1) by (simp add: mset_swap_delete)
  then have "mset (map endpoint_of ms) = add_mset (addr, port) (mset (map endpoint_of ?ms'))"
    using i(2) at by simp
  moreover from this assms(1) have "distinct ((addr, port) # map endpoint_of ?ms')"
    by (metis mset.simps(2) mset_eq_imp_distinct_iff)
  moreover from mset have "set ms = insert (ms ! i) (set ?ms')"
    by (metis set_mset_add_mset_insert set_mset_mset)
  ultimately show thesis
    using that [of ?ms'] popMember_one [OF i only] i(2) at by auto
qed

text \<open>A pool with two members at the same address and port makes \<open>popMember\<close> index out of range.\<close>

lemma popMember_twice_panics:
  "popMember [m, m'] addr port = Panic ''index out of range''" if "member_at addr port m" "member_at addr port m'"
  using that by (simp add: popMember_def upt_conv_Cons)

section \<open>Deleting members\<close>



lemma delete_member_view:
  assumes "members_ok env view" "waits_ok env lbid view sleep"
    and "delete_member env msg lbid p m w = (Ok (), w')"
  shows "view w' = set_members p (without (mb_ID m) (v_members (view w) p)) (view w)"
proof -
  obtain w1 where d: "ignore_missing (msg m) (members_Delete env p (mb_ID m)) w = (Ok (), w1)"
    and wt: "wait_active env lbid (after_msg ''deleting member'') w1 = (Ok (), w')"
    using assms(3) by (auto simp: delete_member_def bindE_eq_Ok)
  from ignore_missing_gone [OF d] assms(1)
  have "view w1 = set_members p (without (mb_ID m) (v_members (view w) p)) (view w)"
    unfolding members_ok_def by blast
  then show ?thesis using view_wait [OF assms(2) wt] by simp
qed

lemma delete_members_view:
  assumes "members_ok env view" "waits_ok env lbid view sleep"
    and "forE (delete_member env msg lbid p) ms w = (Ok (), w')"
  shows "view w' = set_members p (filter (\<lambda>x. fst x \<notin> mb_ID ` set ms) (v_members (view w) p)) (view w)"
  using assms(3)
proof (induction ms arbitrary: w)
  case Nil
  then show ?case by simp
next
  case (Cons m ms)
  then obtain w1 where d: "delete_member env msg lbid p m w = (Ok (), w1)"
    and f: "forE (delete_member env msg lbid p) ms w1 = (Ok (), w')"
    by (auto simp: bindE_eq_Ok)
  from Cons.IH [OF f] delete_member_view [OF assms(1,2) d] show ?case
    by (simp add: without_def conj_comms)
qed

text \<open>What is left when the obsolete members \<open>rest\<close> are deleted and members \<open>new\<close> were added.\<close>

lemma kept_endpoints:
  assumes "map member_entry ms = v" "distinct (map fst (v @ new))" "distinct (map endpoint_of ms)"
    and "set rest \<subseteq> set ms" "endpoint_of ` set rest = endpoint_of ` set ms - wanted"
    and "snd ` set new \<subseteq> wanted" "wanted \<subseteq> snd ` set new \<union> endpoint_of ` set ms"
  shows "snd ` set (filter (\<lambda>x. fst x \<notin> mb_ID ` set rest) (v @ new)) = wanted"
proof (intro equalityI subsetI)
  fix e assume "e \<in> snd ` set (filter (\<lambda>x. fst x \<notin> mb_ID ` set rest) (v @ new))"
  then obtain i where ie: "(i, e) \<in> set v \<union> set new" "i \<notin> mb_ID ` set rest" by fastforce
  show "e \<in> wanted"
  proof (cases "(i, e) \<in> set new")
    case True
    then show ?thesis using assms(6) by force
  next
    case False
    with ie assms(1) obtain m where m: "m \<in> set ms" "member_entry m = (i, e)" by auto
    show ?thesis
    proof (rule ccontr)
      assume "e \<notin> wanted"
      with m have "e \<in> endpoint_of ` set rest"
        using assms(5) by (metis Diff_iff image_eqI snd_conv snd_member_entry)
      then obtain r where r: "r \<in> set rest" "endpoint_of r = e" by auto
      with assms(3,4) m have "r = m"
        by (metis distinct_map inj_on_def snd_conv snd_member_entry subsetD)
      with m ie(2) r(1) show False by (metis fst_conv fst_member_entry image_eqI)
    qed
  qed
next
  fix e assume e: "e \<in> wanted"
  have ids: "mb_ID ` set rest \<subseteq> fst ` set v"
  proof
    fix i assume "i \<in> mb_ID ` set rest"
    then obtain r where "r \<in> set ms" "i = fst (member_entry r)" using assms(4) by auto
    then show "i \<in> fst ` set v" by (simp add: image_image flip: assms(1))
  qed
  have keep: "e \<in> snd ` set (filter (\<lambda>x. fst x \<notin> mb_ID ` set rest) (v @ new))"
    if "(i, e) \<in> set v \<union> set new" "i \<notin> mb_ID ` set rest" for i
    using that by (intro image_eqI [of _ _ "(i, e)"]) auto
  show "e \<in> snd ` set (filter (\<lambda>x. fst x \<notin> mb_ID ` set rest) (v @ new))"
  proof (cases "e \<in> snd ` set new")
    case True
    then obtain i where i: "(i, e) \<in> set new" by auto
    with assms(2) have "i \<notin> fst ` set v" by force
    with ids i show ?thesis by (intro keep [of i]) auto
  next
    case False
    then obtain m where m: "m \<in> set ms" "endpoint_of m = e" using e assms(7) by auto
    have "mb_ID m \<notin> mb_ID ` set rest"
    proof
      assume "mb_ID m \<in> mb_ID ` set rest"
      then obtain r where r: "r \<in> set rest" "mb_ID r = mb_ID m" by auto
      have "map fst v = map mb_ID ms" by (simp flip: assms(1))
      with assms(2) have "inj_on mb_ID (set ms)" by (simp add: distinct_map)
      with r m assms(4) have "r = m" by (metis inj_onD subsetD)
      with r(1) m e assms(5) show False by blast
    qed
    moreover have "(mb_ID m, e) \<in> set v"
      using m by (auto simp: member_entry_def endpoint_of_def simp flip: assms(1))
    ultimately show ?thesis by (intro keep) auto
  qed
qed

section \<open>The loop of EnsureLoadBalancer\<close>

definition node_endpoints :: "ServicePort \<Rightarrow> Node list \<Rightarrow> endpoint set" where
  "node_endpoints port nodes = {(addr, sp_NodePort port) | addr. \<exists>node \<in> set nodes. nodeAddressForLB node = Ok addr}"

lemma node_endpoints_simps [simp]:
  "node_endpoints port [] = {}"
  "nodeAddressForLB node = Ok addr \<Longrightarrow>
     node_endpoints port (node # nodes) = insert (addr, sp_NodePort port) (node_endpoints port nodes)"
  by (auto simp: node_endpoints_def)

lemma nodeAddressForLB_not_ErrNotFound: "nodeAddressForLB node \<noteq> Err ErrNotFound"
  by (auto simp: nodeAddressForLB_def Let_def split: option.splits list.splits)

lemma create_member_view:
  assumes "members_ok env view" "waits_ok env lbid view sleep"
    and "create_member env subnetID lbid p name idx port node addr w = (Ok (), w')"
  shows "\<exists>i. i \<notin> fst ` set (v_members (view w) p) \<and>
    view w' = set_members p (v_members (view w) p @ [(i, addr, sp_NodePort port)]) (view w)"
proof -
  obtain o' w1 where c: "members_Create env p o' w = (Ok (), w1)"
    and o': "mbc_Address o' = addr" "mbc_ProtocolPort o' = sp_NodePort port"
    and wt: "wait_active env lbid (after_msg ''creating member'') w1 = (Ok (), w')"
    using assms(3) by (auto simp: create_member_def io_eqs)
  have "\<exists>i. i \<notin> fst ` set (v_members (view w) p) \<and>
      view w1 = set_members p (v_members (view w) p @ [(i, mbc_Address o', mbc_ProtocolPort o')]) (view w)"
    using assms(1) c unfolding members_ok_def by blast
  then show ?thesis using view_wait [OF assms(2) wt] o' by simp
qed

text \<open>What the pass over the nodes returns and has created.\<close>

definition passed :: "Member list \<Rightarrow> endpoint set \<Rightarrow> Member list \<Rightarrow> (ident \<times> endpoint) list \<Rightarrow> bool" where
  "passed members wanted rest new \<longleftrightarrow>
     set rest \<subseteq> set members \<and> endpoint_of ` set rest = endpoint_of ` set members - wanted \<and>
     snd ` set new \<subseteq> wanted \<and> wanted \<subseteq> snd ` set new \<union> endpoint_of ` set members"

lemma passed_pop:
  assumes "passed members' W rest new" "set members' \<subseteq> set members"
    and "endpoint_of ` set members' = endpoint_of ` set members - {e}" "e \<in> endpoint_of ` set members" "W' = insert e W"
  shows "passed members W' rest new"
proof -
  have sets: "R = E - insert e W \<and> N \<subseteq> insert e W \<and> insert e W \<subseteq> N \<union> E"
    if "R = (E - {e}) - W" "e \<in> E" "N \<subseteq> W" "W \<subseteq> N \<union> (E - {e})" for R E N :: "endpoint set"
    using that by blast
  show ?thesis
    using assms sets [of "endpoint_of ` set rest" "endpoint_of ` set members" "snd ` set new"]
    unfolding passed_def by (simp only:) (meson order_trans)
qed

lemma passed_new:
  assumes "passed members W rest new" "e \<notin> endpoint_of ` set members" "W' = insert e W"
  shows "passed members W' rest ((i, e) # new)"
proof -
  have sets: "E - W = E - insert e W \<and> insert e N \<subseteq> insert e W \<and> insert e W \<subseteq> insert e N \<union> E"
    if "e \<notin> E" "N \<subseteq> W" "W \<subseteq> N \<union> E" for E N :: "endpoint set"
    using that by blast
  show ?thesis
    using assms sets [of "endpoint_of ` set members" "snd ` set new"]
    unfolding passed_def by simp
qed

lemma ensure_members_view:
  assumes "members_ok env view" "waits_ok env lbid view sleep"
    and "ensure_members env subnetID lbid p name idx port nodes members w = (Ok rest, w')"
    and "distinct (map endpoint_of members)" "distinct (map fst (v_members (view w) p))"
  shows "\<exists>new. view w' = set_members p (v_members (view w) p @ new) (view w) \<and>
    distinct (map fst (v_members (view w) p @ new)) \<and> passed members (node_endpoints port nodes) rest new"
  using assms(3-5)
proof (induction nodes arbitrary: members w)
  case Nil
  then show ?case by (intro exI [of _ "[]"]) (simp add: passed_def)
next
  case (Cons node nodes)
  let ?pass = "ensure_members env subnetID lbid p name idx port"
  obtain addr where addr: "nodeAddressForLB node = Ok addr"
    using Cons.prems(1) nodeAddressForLB_not_ErrNotFound [of node] by (auto split: result.splits if_splits)
  let ?e = "(addr, sp_NodePort port)"
  have ex: "memberExists members addr (sp_NodePort port) \<longleftrightarrow> ?e \<in> endpoint_of ` set members"
    by (auto simp: memberExists_def list_ex_iff member_at_def endpoint_of_def)
  show ?case
  proof (cases "memberExists members addr (sp_NodePort port)")
    case False
    then obtain w1 where c: "create_member env subnetID lbid p name idx port node addr w = (Ok (), w1)"
      and r: "?pass nodes members w1 = (Ok rest, w')"
      using Cons.prems(1) addr by (auto simp: bindE_eq_Ok)
    from create_member_view [OF assms(1,2) c] obtain i where i: "i \<notin> fst ` set (v_members (view w) p)"
      and v1: "view w1 = set_members p (v_members (view w) p @ [(i, ?e)]) (view w)" by blast
    from Cons.IH [OF r Cons.prems(2)] i v1 Cons.prems(3) obtain new where
      "view w' = set_members p (v_members (view w) p @ (i, ?e) # new) (view w)"
      "distinct (map fst (v_members (view w) p @ (i, ?e) # new))"
      "passed members (node_endpoints port nodes) rest new"
      by auto
    moreover from this(3) have "passed members (node_endpoints port (node # nodes)) rest ((i, ?e) # new)"
      by (rule passed_new) (use False ex addr in simp_all)
    ultimately show ?thesis by blast
  next
    case True
    from popMember_ok [OF Cons.prems(2) True] obtain members' where
      pop: "popMember members addr (sp_NodePort port) = Ok members'" "distinct (map endpoint_of members')"
        "set members' \<subseteq> set members" "endpoint_of ` set members' = endpoint_of ` set members - {?e}" .
    have r: "?pass nodes members' w = (Ok rest, w')"
      using Cons.prems(1) addr True pop(1) by simp
    from Cons.IH [OF r pop(2) Cons.prems(3)] obtain new where
      "view w' = set_members p (v_members (view w) p @ new) (view w)"
      "distinct (map fst (v_members (view w) p @ new))"
      "passed members' (node_endpoints port nodes) rest new" by blast
    moreover from this(3) have "passed members (node_endpoints port (node # nodes)) rest new"
      by (rule passed_pop [OF _ pop(3,4)]) (use True ex addr in simp_all)
    ultimately show ?thesis by blast
  qed
qed

lemma sync_members_view:
  assumes "members_ok env view" "waits_ok env lbid view sleep"
    and "sync_members env subnetID lbid p name idx port nodes w = (Ok (), w')"
    and "distinct (map fst (v_members (view w) p))" "distinct (map snd (v_members (view w) p))"
  shows "\<exists>ms. view w' = set_members p ms (view w) \<and> distinct (map fst ms) \<and> snd ` set ms = node_endpoints port nodes"
proof -
  obtain members w1 rest w2 msg where
    m: "members_or_none env msg p w = (Ok members, w1)" and
    e: "ensure_members env subnetID lbid p name idx port nodes members w1 = (Ok rest, w2)" and
    d: "forE (delete_member env (obsolete_member_error p) lbid p) rest w2 = (Ok (), w')"
    using assms(3) by (auto simp: sync_members_def bindE_eq_Ok)
  from members_or_none_view [OF assms(1) m] have v1: "view w1 = view w" "map member_entry members = v_members (view w) p"
    by auto
  have ends: "map endpoint_of members = map snd (v_members (view w) p)"
    by (simp flip: v1(2))
  obtain new where new: "view w2 = set_members p (v_members (view w) p @ new) (view w)"
      "distinct (map fst (v_members (view w) p @ new))" "passed members (node_endpoints port nodes) rest new"
    using ensure_members_view [OF assms(1,2) e] assms(4,5) v1 ends by auto
  let ?ms = "filter (\<lambda>x. fst x \<notin> mb_ID ` set rest) (v_members (view w) p @ new)"
  have "view w' = set_members p ?ms (view w)"
    using delete_members_view [OF assms(1,2) d] new(1) by simp
  moreover have "distinct (map fst ?ms)" using new(2) by (intro distinct_map_filter)
  moreover have "snd ` set ?ms = node_endpoints port nodes"
    using new(3) assms(5) ends unfolding passed_def
    by (intro kept_endpoints [OF v1(2) new(2)]) auto
  ultimately show ?thesis by blast
qed

section \<open>The loop of UpdateLoadBalancer\<close>

lemma update_new: "k \<notin> fst ` set al \<Longrightarrow> AList.update k v al = al @ [(k, v)]"
  by (induction al) auto

lemma members_by_addr_distinct:
  assumes "distinct (map mb_Address ms)" "mb_Address ` set ms \<inter> fst ` set al = {}"
  shows "members_by_addr ms al = al @ map (\<lambda>m. (mb_Address m, m)) ms"
  using assms by (induction ms arbitrary: al) (auto simp: update_new)

lemma node_addrs_ok:
  assumes "node_addrs nodes al = Ok addrs" "distinct (map fst al)"
  shows "distinct (map fst addrs) \<and>
    fst ` set addrs = fst ` set al \<union> {addr. \<exists>node \<in> set nodes. nodeAddressForLB node = Ok addr}"
  using assms
proof (induction nodes arbitrary: al)
  case Nil
  then show ?case by simp
next
  case (Cons node nodes)
  then obtain addr where a: "nodeAddressForLB node = Ok addr" "node_addrs nodes (AList.update addr node al) = Ok addrs"
    by (auto simp: bindR_eq_Ok)
  have "fst ` set (AList.update addr node al) = insert addr (fst ` set al)"
    by (simp add: AList.dom_update)
  with Cons.IH [OF a(2) AList.distinct_update [OF Cons.prems(2)]] show ?case
    using a(1) by auto
qed

lemma map_of_by_addr:
  assumes "distinct (map mb_Address ms)"
  shows "map_of (map (\<lambda>m. (mb_Address m, m)) ms) addr = Some m \<longleftrightarrow> m \<in> set ms \<and> mb_Address m = addr"
  using assms by (subst map_of_eq_Some_iff) (auto simp: comp_def)

lemma create_missing_view:
  assumes "members_ok env view" "waits_ok env lbid view sleep"
    and "\<And>x. mbc_Address (opts x) = fst x \<and> mbc_ProtocolPort (opts x) = port"
    and "forE (\<lambda>x. bindE (members_Create env p (opts x)) (\<lambda>_. wait_active env lbid msg)) xs w = (Ok (), w')"
    and "distinct (map fst (v_members (view w) p))"
  shows "\<exists>new. view w' = set_members p (v_members (view w) p @ new) (view w) \<and>
    distinct (map fst (v_members (view w) p @ new)) \<and> snd ` set new = (\<lambda>x. (fst x, port)) ` set xs"
  using assms(4,5)
proof (induction xs arbitrary: w)
  case Nil
  then show ?case by (intro exI [of _ "[]"]) simp
next
  case (Cons x xs)
  then obtain w1 w2 where c: "members_Create env p (opts x) w = (Ok (), w1)"
    and wt: "wait_active env lbid msg w1 = (Ok (), w2)"
    and r: "forE (\<lambda>x. bindE (members_Create env p (opts x)) (\<lambda>_. wait_active env lbid msg)) xs w2 = (Ok (), w')"
    by (auto simp: bindE_eq_Ok)
  have "\<exists>i. i \<notin> fst ` set (v_members (view w) p) \<and>
      view w1 = set_members p (v_members (view w) p @ [(i, mbc_Address (opts x), mbc_ProtocolPort (opts x))]) (view w)"
    using assms(1) c unfolding members_ok_def by blast
  then obtain i where i: "i \<notin> fst ` set (v_members (view w) p)"
    and v2: "view w2 = set_members p (v_members (view w) p @ [(i, fst x, port)]) (view w)"
    using view_wait [OF assms(2) wt] assms(3) [of x] by auto
  from Cons.IH [OF r] i v2 Cons.prems(2) obtain new where
    "view w' = set_members p (v_members (view w) p @ (i, fst x, port) # new) (view w)"
    "distinct (map fst (v_members (view w) p @ (i, fst x, port) # new))"
    "snd ` set new = (\<lambda>x. (fst x, port)) ` set xs"
    by auto
  then show ?case by (intro exI [of _ "(i, fst x, port) # new"]) simp
qed

lemma image_avoiding: "f ` {x \<in> S. f x \<notin> E} = f ` S - E"
  by blast

definition addr_endpoints :: "ServicePort \<Rightarrow> (string \<times> Node) list \<Rightarrow> endpoint set" where
  "addr_endpoints port addrs = (\<lambda>x. (fst x, sp_NodePort port)) ` set addrs"

lemma update_members_view:
  assumes "members_ok env view" "waits_ok env (lbr_ID lb) view sleep"
    and "update_members env subnetID lb p idx port addrs w = (Ok (), w')"
    and "distinct (map fst (v_members (view w) p))" "distinct (map (fst \<circ> snd) (v_members (view w) p))"
  shows "\<exists>ms. view w' = set_members p ms (view w) \<and> distinct (map fst ms) \<and> snd ` set ms = addr_endpoints port addrs"
proof -
  let ?W = "addr_endpoints port addrs"
  obtain got w1 where g: "getMembersByPoolID env p w = (Ok got, w1)"
    using assms(3) by (auto simp: update_members_def io_eqs)
  from getMembers_view [OF assms(1) g] have v1: "view w1 = view w" "map member_entry got = v_members (view w) p"
    by auto
  have "map mb_Address got = map (fst \<circ> snd) (v_members (view w) p)"
    by (simp add: endpoint_of_def flip: v1(2))
  with assms(5) have da: "distinct (map mb_Address got)" by simp
  then have de: "distinct (map endpoint_of got)"
    by (auto simp: distinct_map inj_on_def endpoint_of_def)
  have byaddr: "members_by_addr got [] = map (\<lambda>m. (mb_Address m, m)) got"
    using members_by_addr_distinct [OF da, of "[]"] by simp
  have have_it: "(case map_of (map (\<lambda>m. (mb_Address m, m)) got) addr of Some m \<Rightarrow> mb_ProtocolPort m = sp_NodePort port | None \<Rightarrow> False)
      \<longleftrightarrow> (addr, sp_NodePort port) \<in> endpoint_of ` set got" for addr
  proof -
    have "(\<exists>m. map_of (map (\<lambda>m. (mb_Address m, m)) got) addr = Some m \<and> mb_ProtocolPort m = sp_NodePort port)
        \<longleftrightarrow> (addr, sp_NodePort port) \<in> endpoint_of ` set got"
      unfolding map_of_by_addr [OF da] by (auto simp: endpoint_of_def)
    then show ?thesis by (auto split: option.splits)
  qed
  have want_it: "map_of addrs (mb_Address m) \<noteq> None \<and> mb_ProtocolPort m = sp_NodePort port \<longleftrightarrow> endpoint_of m \<in> ?W" for m
    by (auto simp: addr_endpoints_def endpoint_of_def map_of_eq_None_iff)
  let ?todo = "filter (\<lambda>x. (fst x, sp_NodePort port) \<notin> endpoint_of ` set got) addrs"
  let ?rest = "filter (\<lambda>m. endpoint_of m \<notin> ?W) got"
  obtain opts w2 where o: "\<And>x. mbc_Address (opts x) = fst x \<and> mbc_ProtocolPort (opts x) = sp_NodePort port"
    and c: "forE (\<lambda>x. bindE (members_Create env p (opts x)) (\<lambda>_. wait_active env (lbr_ID lb) (after_msg ''creating member''))) ?todo w1 = (Ok (), w2)"
    and d: "forE (delete_member env (\<lambda>_ e. e) (lbr_ID lb) p) ?rest w2 = (Ok (), w')"
  proof -
    let ?o = "\<lambda>x. \<lparr> mbc_Name = cutString (''member_'' @ nat_text idx @ ''_'' @ nd_Name (snd x) @ ''_'' @ lbr_Name lb @ ''_''),
      mbc_ProtocolPort = sp_NodePort port, mbc_Address = fst x, mbc_SubnetID = subnetID \<rparr>"
    have "update_members env subnetID lb p idx port addrs w =
        bindE (forE (\<lambda>x. if (fst x, sp_NodePort port) \<in> endpoint_of ` set got then ret ()
                          else bindE (members_Create env p (?o x))
                                 (\<lambda>_. wait_active env (lbr_ID lb) (after_msg ''creating member''))) addrs) (\<lambda>_.
          forE (\<lambda>m. if endpoint_of m \<in> ?W then ret () else delete_member env (\<lambda>_ e. e) (lbr_ID lb) p m) got) w1"
      by (simp add: update_members_def g byaddr case_prod_unfold have_it forE_map want_it
          del: forE.simps not_None_eq cong: if_cong)
    with assms(3) that [of ?o] show thesis
      unfolding forE_skip by (auto simp: bindE_eq_Ok)
  qed
  from create_missing_view [OF assms(1,2) o c] assms(4) v1 obtain new where
    new: "view w2 = set_members p (v_members (view w) p @ new) (view w)"
      "distinct (map fst (v_members (view w) p @ new))" "snd ` set new = (\<lambda>x. (fst x, sp_NodePort port)) ` set ?todo"
    by auto
  let ?ms = "filter (\<lambda>x. fst x \<notin> mb_ID ` set ?rest) (v_members (view w) p @ new)"
  have "view w' = set_members p ?ms (view w)"
    using delete_members_view [OF assms(1,2) d] new(1) by simp
  moreover have "distinct (map fst ?ms)" using new(2) by (intro distinct_map_filter)
  moreover have "snd ` set ?ms = ?W"
  proof (rule kept_endpoints [OF v1(2) new(2) de])
    have sets: "snd ` set new = ?W - endpoint_of ` set got"
      unfolding new(3) addr_endpoints_def set_filter by (rule image_avoiding)
    show "set ?rest \<subseteq> set got" by simp
    show "endpoint_of ` set ?rest = endpoint_of ` set got - ?W"
      unfolding set_filter by (rule image_avoiding)
    show "snd ` set new \<subseteq> ?W" "?W \<subseteq> snd ` set new \<union> endpoint_of ` set got"
      by (simp_all add: sets)
  qed
  ultimately show ?thesis by blast
qed

section \<open>One contract for both loops\<close>

text \<open>
  \<open>sync env lbid p port nodes\<close> makes the members of the pool \<open>p\<close> the \<open>wanted\<close> ones and touches
  nothing else of the load balancer.
\<close>

locale pool_sync =
  fixes sync :: "'w lb_env \<Rightarrow> string \<Rightarrow> ident \<Rightarrow> ServicePort \<Rightarrow> 'n \<Rightarrow> ('w, unit) io"
    and wanted :: "ServicePort \<Rightarrow> 'n \<Rightarrow> endpoint set"
  assumes sync_view:
    "members_ok env view \<Longrightarrow> waits_ok env lbid view sleep \<Longrightarrow> sync env lbid p port ns w = (Ok (), w') \<Longrightarrow>
     distinct (map fst (v_members (view w) p)) \<Longrightarrow> distinct (map (fst \<circ> snd) (v_members (view w) p)) \<Longrightarrow>
     \<exists>ms. view w' = set_members p ms (view w) \<and> distinct (map fst ms) \<and> snd ` set ms = wanted port ns"
begin

lemma sync_endpoints:
  assumes "members_ok env view" "waits_ok env lbid view sleep" "sync env lbid p port ns w = (Ok (), w')"
    and "distinct (map fst (v_members (view w) p))" "distinct (map (fst \<circ> snd) (v_members (view w) p))"
  shows "snd ` set (v_members (view w') p) = wanted port ns"
proof -
  obtain ms where "view w' = set_members p ms (view w)" "snd ` set ms = wanted port ns"
    using sync_view [OF assms] by blast
  then show ?thesis by simp
qed

lemma sync_frame:
  assumes "members_ok env view" "waits_ok env lbid view sleep" "sync env lbid p port ns w = (Ok (), w')"
    and "distinct (map fst (v_members (view w) p))" "distinct (map (fst \<circ> snd) (v_members (view w) p))"
  shows "v_listeners (view w') = v_listeners (view w) \<and> v_pools (view w') = v_pools (view w) \<and>
    (\<forall>q. q \<noteq> p \<longrightarrow> v_members (view w') q = v_members (view w) q)"
  using sync_view [OF assms] by auto

end

interpretation ensuring: pool_sync
  "\<lambda>env lbid p port nodes. sync_members env subnetID lbid p name idx port nodes" node_endpoints
  for subnetID name idx
  by unfold_locales (rule sync_members_view, assumption+, simp add: distinct_map inj_on_def)

interpretation updating: pool_sync
  "\<lambda>env lbid p port addrs. update_members env subnetID (lb\<lparr> lbr_ID := lbid \<rparr>) p idx port addrs" addr_endpoints
  for subnetID lb idx
  by unfold_locales (rule update_members_view, simp_all)

text \<open>
  C11. When the member loop of \<open>EnsureLoadBalancer\<close> succeeds, the members of the pool are exactly the
  nodes' addresses with the node port: every node got its member, obsolete members are gone, and the
  listeners, the pools and the members of the other pools are as before. The pool must not have two
  members with the same address and port, which Octavia rules out.
\<close>

theorem sync_members_correct:
  assumes "members_ok env view" "waits_ok env lbid view sleep"
    and "distinct (map fst (v_members (view w) p))" "distinct (map snd (v_members (view w) p))"
    and "sync_members env subnetID lbid p name idx port nodes w = (Ok (), w')"
  shows "snd ` set (v_members (view w') p) =
      {(addr, sp_NodePort port) | addr. \<exists>node \<in> set nodes. nodeAddressForLB node = Ok addr} \<and>
    v_listeners (view w') = v_listeners (view w) \<and> v_pools (view w') = v_pools (view w) \<and>
    (\<forall>q. q \<noteq> p \<longrightarrow> v_members (view w') q = v_members (view w) q)"
proof -
  obtain ms where "view w' = set_members p ms (view w)" "snd ` set ms = node_endpoints port nodes"
    using sync_members_view [OF assms(1,2,5,3,4)] by blast
  then show ?thesis by (simp add: node_endpoints_def)
qed

definition demo_node :: "string \<Rightarrow> string \<Rightarrow> Node" where
  "demo_node n addr = \<lparr> nd_Name = n, nd_ProviderID = ''openstack:///'' @ n,
     nd_Addresses = [\<lparr> na_Type = NodeInternalIP, na_Address = addr \<rparr>] \<rparr>"

definition demo_nodes :: "Node list" where
  "demo_nodes = [demo_node ''a'' ''10.0.0.1'', demo_node ''b'' ''10.0.0.2'']"

definition demo_port :: ServicePort where
  "demo_port = \<lparr> sp_Protocol = ''TCP'', sp_Port = 80, sp_NodePort = 30080 \<rparr>"

text \<open>A pool with the member of node \<open>a\<close> and one of a node that is gone.\<close>

definition demo_mem :: mem where
  "demo_mem = (pending_mem 0)\<lparr> m_view := \<lparr> v_listeners = [(''l1'', ''TCP'', 80)], v_pools = [(''p1'', ''l1'')],
     v_members = (\<lambda>p. if p = ''p1'' then [(''m1'', ''10.0.0.9'', 30080), (''m2'', ''10.0.0.1'', 30080)] else []) \<rparr> \<rparr>"

lemma demo_node_address [simp]: "nodeAddressForLB (demo_node n addr) = Ok addr"
  by (simp add: nodeAddressForLB_def demo_node_def)

lemma demo_view [simp]:
  "v_members (m_view demo_mem) ''p1'' = [(''m1'', ''10.0.0.9'', 30080), (''m2'', ''10.0.0.1'', 30080)]"
  "v_listeners (m_view demo_mem) = [(''l1'', ''TCP'', 80)]" "v_pools (m_view demo_mem) = [(''p1'', ''l1'')]"
  by (simp_all add: demo_mem_def)

lemma mem_env_simps:
  "lbs_Get mem_env = mem_poll" "members_List mem_env = mem_members" "members_Create mem_env = mem_create_member"
  "members_Delete mem_env = (\<lambda>p i. on_view (\<lambda>v. set_members p (without i (v_members v p)) v))"
  by (simp_all add: mem_env_def)

text \<open>With nothing pending a wait is one poll.\<close>

lemma mem_wait_now:
  assumes "m_pending w = 0" "m_lbs w = [demo_lb]"
  shows "wait_active mem_env ''lb-1'' msg w = (Ok (), w\<lparr> m_polls := Suc (m_polls w) \<rparr>)"
proof -
  have "polled mem_env ''lb-1'' (poll_world mem_env mem_sleep ''lb-1'' 0 w) = Some ''ACTIVE''"
    using assms by (simp add: polled_def poll_world_def mem_env_simps mem_poll_def demo_lb_def)
  then have "backoff (\<lambda>(w, status). (mem_sleep w, status)) loadbalancerActiveSteps (active_condition mem_env ''lb-1'') (w, '''') =
      (Ok (), (snd (lbs_Get mem_env ''lb-1'' (poll_world mem_env mem_sleep ''lb-1'' 0 w)), activeStatus))"
    by (intro backoff_reaches) (simp_all add: loadbalancerActiveSteps_def activeStatus_def)
  from waitActive_Ok [OF mem_backoff this] show ?thesis
    by (simp add: wait_active_def poll_world_def mem_env_simps mem_poll_def)
qed

lemma demo_mem_simps [simp]: "m_pending demo_mem = 0" "m_lbs demo_mem = [demo_lb]"
  by (simp_all add: demo_mem_def pending_mem_def)

lemma mem_getMembers:
  "getMembersByPoolID mem_env p w =
     (Ok (map (\<lambda>(i, a, po). \<lparr> mb_ID = i, mb_Address = a, mb_ProtocolPort = po \<rparr>) (v_members (m_view w) p)), w)"
  by (simp add: getMembersByPoolID_def mem_env_simps mem_members_def)

definition demo_synced :: mem where
  "demo_synced = demo_mem\<lparr> m_view := set_members ''p1'' [(''m2'', ''10.0.0.1'', 30080), (fresh [''m1'', ''m2''], ''10.0.0.2'', 30080)] (m_view demo_mem),
     m_polls := 2 \<rparr>"

lemma demo_sync:
  "sync_members mem_env ''subnet'' ''lb-1'' ''p1'' ''web'' 0 demo_port demo_nodes demo_mem = (Ok (), demo_synced)"
proof -
  let ?m1 = "\<lparr> mb_ID = ''m1'', mb_Address = ''10.0.0.9'', mb_ProtocolPort = 30080 \<rparr>"
  let ?w1 = "demo_mem\<lparr> m_view := set_members ''p1'' [(''m1'', ''10.0.0.9'', 30080), (''m2'', ''10.0.0.1'', 30080),
      (fresh [''m1'', ''m2''], ''10.0.0.2'', 30080)] (m_view demo_mem), m_polls := 1 \<rparr>"
  have create: "create_member mem_env ''subnet'' ''lb-1'' ''p1'' ''web'' 0 demo_port (demo_node ''b'' ''10.0.0.2'') ''10.0.0.2'' demo_mem = (Ok (), ?w1)"
    by (simp add: create_member_def mem_env_simps mem_create_member_def on_view_def mem_wait_now demo_port_def)
      (simp add: demo_mem_def pending_mem_def)
  have ensure: "ensure_members mem_env ''subnet'' ''lb-1'' ''p1'' ''web'' 0 demo_port demo_nodes
      [?m1, \<lparr> mb_ID = ''m2'', mb_Address = ''10.0.0.1'', mb_ProtocolPort = 30080 \<rparr>] demo_mem = (Ok [?m1], ?w1)"
    by (simp add: demo_nodes_def memberExists_def member_at_def popMember_def upt_conv_Cons demo_port_def
        create [unfolded demo_port_def])
  have neq: "fresh [''m1'', ''m2''] \<noteq> ''m1''" using fresh_new [of "[''m1'', ''m2'']"] by auto
  have delete: "forE (delete_member mem_env (obsolete_member_error ''p1'') ''lb-1'' ''p1'') [?m1] ?w1 = (Ok (), demo_synced)"
    by (simp add: delete_member_def ignore_missing_def mem_env_simps on_view_def mem_wait_now without_def neq demo_synced_def)
  show ?thesis
    by (simp add: sync_members_def members_or_none_def mem_getMembers ensure delete [unfolded One_nat_def]
        del: ensure_members.simps forE.simps)
qed

theorem sync_members_correct_witness:
  "snd ` set (v_members (m_view demo_synced) ''p1'') =
     {(addr, sp_NodePort demo_port) | addr. \<exists>node \<in> set demo_nodes. nodeAddressForLB node = Ok addr}"
proof -
  have "distinct (map fst (v_members (m_view demo_mem) ''p1''))" "distinct (map snd (v_members (m_view demo_mem) ''p1''))"
    by simp_all
  from sync_members_correct [OF mem_members_ok mem_waits this demo_sync] show ?thesis by blast
qed


definition demo_alist :: "(string \<times> Node) list" where
  "demo_alist = [(''10.0.0.1'', demo_node ''a'' ''10.0.0.1''), (''10.0.0.2'', demo_node ''b'' ''10.0.0.2'')]"

lemma demo_update:
  "update_members mem_env ''subnet'' demo_lb ''p1'' 0 demo_port demo_alist demo_mem = (Ok (), demo_synced)"
proof -
  let ?m1 = "\<lparr> mb_ID = ''m1'', mb_Address = ''10.0.0.9'', mb_ProtocolPort = 30080 \<rparr>"
  have neq: "fresh [''m1'', ''m2''] \<noteq> ''m1''" using fresh_new [of "[''m1'', ''m2'']"] by auto
  have i: "lbr_ID demo_lb = ''lb-1''" by (simp add: demo_lb_def)
  have p: "m_polls demo_mem = 0" by (simp add: demo_mem_def pending_mem_def)
  show ?thesis
    by (simp add: update_members_def mem_getMembers demo_alist_def demo_port_def mem_env_simps mem_create_member_def
        on_view_def i mem_wait_now delete_member_def ignore_missing_def without_def neq demo_synced_def p)
qed


end
