(* ===== verification/Lb_Listeners.thy ===== *)
theory Lb_Listeners
  imports Lb_Members
begin

text \<open>
  The listeners of a load balancer. \<open>EnsureLoadBalancer\<close> walks over the ports of the service, finds or
  creates the listener, the pool and the members of each, and deletes the listeners that no port
  claimed. The theory follows one port, the walk and the deletions on the view of \<open>Lb_Contract\<close>, and
  ends with the theorem that the load balancer serves exactly the service.
\<close>

section \<open>Lookups\<close>

lemma getListeners_view:
  assumes "listeners_ok env lbid view" "getListenersByLoadBalancerID env lbid w = (Ok ls, w')"
  shows "view w' = view w \<and> map listener_entry ls = v_listeners (view w)"
proof -
  obtain pages where l: "listeners_List env lbid w = (Ok pages, w')"
    and e: "each_page (\<lambda>ll existing. Ok (True, existing @ filter (\<lambda>l. list_ex (\<lambda>lb. lb = lbid) (li_Loadbalancers l)) ll)) pages [] = Ok ls"
    using assms(2) by (auto simp: getListenersByLoadBalancerID_def bindE_eq_Ok)
  from each_page_append [OF e] obtain ps where ps: "pages = map Ok ps"
    "ls = concat (map (filter (\<lambda>l. list_ex (\<lambda>lb. lb = lbid) (li_Loadbalancers l))) ps)" by auto
  from l ps(1) assms(1) have v: "view w' = view w" "map listener_entry (concat ps) = v_listeners (view w)"
    and all: "\<And>l. l \<in> set (concat ps) \<Longrightarrow> lbid \<in> set (li_Loadbalancers l)"
    unfolding listeners_ok_def paged_def by blast+
  have "ls = filter (\<lambda>l. list_ex (\<lambda>lb. lb = lbid) (li_Loadbalancers l)) (concat ps)"
    by (simp add: ps(2) filter_concat)
  also have "\<dots> = concat ps"
    using all by (intro filter_True) (auto simp: list_ex_iff)
  finally show ?thesis using v by simp
qed

lemma each_page_limited:
  assumes "each_page (\<lambda>p acc. let acc' = acc @ f p in if length acc' > 1 then Err ErrMultipleResults else Ok (True, acc')) pages acc = Ok res"
  shows "\<exists>ps. pages = map Ok ps \<and> res = acc @ concat (map f ps)"
  using assms
proof (induction pages arbitrary: acc)
  case Nil
  then show ?case by simp
next
  case (Cons page pages)
  let ?h = "\<lambda>p acc. let acc' = acc @ f p in if length acc' > 1 then Err ErrMultipleResults else Ok (True, acc')"
  from Cons.prems obtain p where p: "page = Ok p" by (cases page) simp_all
  with Cons.prems have "each_page ?h pages (acc @ f p) = Ok res"
    by (auto simp: Let_def split: if_splits)
  from Cons.IH [OF this] obtain ps where "pages = map Ok ps" "res = (acc @ f p) @ concat (map f ps)"
    by blast
  then have "page # pages = map Ok (p # ps) \<and> res = acc @ concat (map f (p # ps))"
    by (simp add: p)
  then show ?case by (rule exI)
qed

lemma each_page_limited_Err:
  assumes "each_page (\<lambda>p acc. let acc' = acc @ f p in if length acc' > 1 then Err ErrMultipleResults else Ok (True, acc')) pages acc = Err e"
  shows "e = ErrMultipleResults \<or> Err e \<in> set pages"
  using assms
proof (induction pages arbitrary: acc)
  case (Cons page pages)
  then show ?case by (cases page) (auto simp: Let_def split: if_splits)
qed simp

definition on_listener :: "ident \<Rightarrow> Pool list \<Rightarrow> Pool list" where
  "on_listener lid ps = concat (map (\<lambda>p. concat (map (\<lambda>x. if x = lid then [p] else []) (pl_Listeners p))) ps)"

lemma set_on_listener: "set (on_listener lid ps) = {p \<in> set ps. lid \<in> set (pl_Listeners p)}"
  by (auto simp: on_listener_def)

lemma getPool_run:
  "getPoolByListenerID env lbid lid w = (r, w') \<Longrightarrow>
     (case r of
        Ok p \<Rightarrow> \<exists>ps. pools_List env lbid w = (Ok (map Ok ps), w') \<and> concat (map (on_listener lid) ps) = [p]
      | Err e \<Rightarrow> e = ErrNotFound \<longrightarrow>
          (\<exists>ps. pools_List env lbid w = (Ok (map Ok ps), w') \<and> concat (map (on_listener lid) ps) = []) \<or>
          (\<exists>q e'. pools_List env lbid w = (q, w') \<and> not_found_as e' = ErrNotFound \<and>
             (q = Err e' \<or> (\<exists>pages. q = Ok pages \<and> Err e' \<in> set pages)))
      | Panic s \<Rightarrow> True)"
  unfolding getPoolByListenerID_def on_listener_def [symmetric]
  apply (cases "pools_List env lbid w")
  subgoal for q w1
    apply (cases q)
    subgoal for pages
      apply (cases "each_page (\<lambda>poolsList l. let l' = l @ on_listener lid poolsList
           in if length l' > 1 then Err ErrMultipleResults else Ok (True, l')) pages []")
      subgoal for res
        using each_page_limited [of "on_listener lid" pages "[]" res]
        by (auto split: list.splits)
      subgoal for e'
        using each_page_limited_Err [of "on_listener lid" pages "[]" e']
        by (auto simp: not_found_as_def IsNotFound_def split: if_splits)
      subgoal by auto
      done
    subgoal by auto
    subgoal by auto
    done
  done
lemma pool_or_none_view:
  assumes "pools_ok env lbid view" "pool_or_none env msg lbid lid w = (Ok r, w')"
  shows "view w' = view w \<and>
    (case r of Some p \<Rightarrow> (pl_ID p, lid) \<in> set (v_pools (view w)) | None \<Rightarrow> lid \<notin> snd ` set (v_pools (view w)))"
proof -
  have listed: "view w' = view w \<and> (\<lambda>p. (pl_ID p, lid)) ` set (concat (map (on_listener lid) ps)) = {x \<in> set (v_pools (view w)). snd x = lid}"
    if "pools_List env lbid w = (Ok (map Ok ps), w')" for ps
  proof -
    from that assms(1) have "view w' = view w" and
      e: "map pool_entry (concat ps) = map (\<lambda>(p, l). (p, [l])) (v_pools (view w))"
      unfolding pools_ok_def paged_def by blast+
    moreover from arg_cong [OF e, of set]
    have es: "pool_entry ` set (concat ps) = (\<lambda>(p, l). (p, [l])) ` set (v_pools (view w))" by simp
    have "(\<lambda>p. (pl_ID p, lid)) ` set (concat (map (on_listener lid) ps)) = {x \<in> set (v_pools (view w)). snd x = lid}"
    proof (intro set_eqI iffI)
      fix x assume "x \<in> (\<lambda>p. (pl_ID p, lid)) ` set (concat (map (on_listener lid) ps))"
      then obtain p where p: "p \<in> set (concat ps)" "lid \<in> set (pl_Listeners p)" "x = (pl_ID p, lid)"
        by (auto simp: set_on_listener)
      from p(1) es have "pool_entry p \<in> (\<lambda>(p, l). (p, [l])) ` set (v_pools (view w))" by blast
      with p(2,3) show "x \<in> {x \<in> set (v_pools (view w)). snd x = lid}" by (auto simp: pool_entry_def)
    next
      fix x assume "x \<in> {x \<in> set (v_pools (view w)). snd x = lid}"
      then have "(fst x, [lid]) \<in> pool_entry ` set (concat ps)" unfolding es by force
      then obtain p where "p \<in> set (concat ps)" "(fst x, [lid]) = pool_entry p" by (rule imageE) blast
      then have "p \<in> set (concat ps)" "pl_ID p = fst x" "pl_Listeners p = [lid]"
        by (simp_all add: pool_entry_def)
      then show "x \<in> (\<lambda>p. (pl_ID p, lid)) ` set (concat (map (on_listener lid) ps))"
        using \<open>x \<in> _\<close> by (auto simp: set_on_listener intro!: image_eqI [of _ _ p])
    qed
    ultimately show ?thesis by simp
  qed
  consider p where "getPoolByListenerID env lbid lid w = (Ok p, w')" "r = Some p"
    | "getPoolByListenerID env lbid lid w = (Err ErrNotFound, w')" "r = None"
    using assms(2) by (auto simp: pool_or_none_def bindE_attempt_eq_Ok split: if_splits)
  then show ?thesis
  proof cases
    case 1
    from getPool_run [OF 1(1)] obtain ps where "pools_List env lbid w = (Ok (map Ok ps), w')"
      and ps: "concat (map (on_listener lid) ps) = [p]" by auto
    from listed [OF this(1)] show ?thesis unfolding ps 1(2) by auto
  next
    case 2
    have "\<not> (\<exists>q e'. pools_List env lbid w = (q, w') \<and> not_found_as e' = ErrNotFound \<and>
             (q = Err e' \<or> (\<exists>pages. q = Ok pages \<and> Err e' \<in> set pages)))"
      using assms(1) unfolding pools_ok_def by blast
    with getPool_run [OF 2(1)] obtain ps where "pools_List env lbid w = (Ok (map Ok ps), w')"
      and ps: "concat (map (on_listener lid) ps) = []" by auto
    from listed [OF this(1)] show ?thesis unfolding ps 2(2) by force
  qed
qed

section \<open>One port\<close>

text \<open>
  \<open>worked l e v v'\<close>: from the view \<open>v\<close> to \<open>v'\<close>, at most the listener \<open>l\<close> for the endpoint \<open>e\<close>, its pool and
  the members of that pool have changed.
\<close>

definition worked :: "ident \<Rightarrow> endpoint \<Rightarrow> lb_view \<Rightarrow> lb_view \<Rightarrow> bool" where
  "worked l e v v' \<longleftrightarrow>
     v_listeners v' \<in> {v_listeners v, v_listeners v @ [(l, e)]} \<and>
     set (v_pools v) \<subseteq> set (v_pools v') \<and> (\<forall>x \<in> set (v_pools v'). x \<in> set (v_pools v) \<or> snd x = l) \<and>
     (\<forall>(p, k) \<in> set (v_pools v). k \<noteq> l \<longrightarrow> v_members v' p = v_members v p)"

definition serves :: "ident \<Rightarrow> endpoint set \<Rightarrow> lb_view \<Rightarrow> bool" where
  "serves l es v \<longleftrightarrow> (\<exists>p. (p, l) \<in> set (v_pools v) \<and> snd ` set (v_members v p) = es)"

text \<open>The pools of these listeners have no two members alike.\<close>

definition tidy :: "ident set \<Rightarrow> lb_view \<Rightarrow> bool" where
  "tidy ls v \<longleftrightarrow> (\<forall>(p, l) \<in> set (v_pools v). l \<in> ls \<longrightarrow> distinct (map snd (v_members v p)))"

lemma view_keeps:
  assumes "keeps (\<lambda>w. view w = v) m" "view w = v" "m w = (r, w')"
  shows "view w' = v"
  using keepsD [OF assms(1,2,3)] .

lemma ensure_listener_view:
  assumes "octavia_ok env lbid view sleep" "getBoolFromServiceAnnotation svc AnnXForwardedFor False = Ok False"
    and "ensure_listener env svc lbid name idx port old w = (Ok (l, keepClientIP), w')"
    and "set (map listener_entry old) \<subseteq> set (v_listeners (view w))"
  shows "listener_entry l = (li_ID l, sp_Protocol port, sp_Port port) \<and> \<not> keepClientIP \<and>
    ((l \<in> set old \<and> view w' = view w) \<or>
     (li_ID l \<notin> fst ` set (v_listeners (view w)) \<and> li_ID l \<notin> snd ` set (v_pools (view w)) \<and>
      view w' = (view w)\<lparr> v_listeners := v_listeners (view w) @ [listener_entry l] \<rparr>))"
proof -
  from assms(1) have lk: "listeners_ok env lbid view" and wk: "waits_ok env lbid view sleep"
    by (simp_all add: octavia_ok_def)
  show ?thesis
  proof (cases "getListenerForPort old port")
    case None
    then have "create_listener env svc lbid name idx port w = (Ok (l, keepClientIP), w')"
      using assms(3) by (simp add: ensure_listener_def)
    then obtain o' w1 where c: "listeners_Create env o' w = (Ok l, w1)" and k: "\<not> keepClientIP"
      and o': "lic_Protocol o' = sp_Protocol port" "lic_ProtocolPort o' = sp_Port port" "lic_LoadbalancerID o' = lbid"
      and wt: "wait_active env lbid (after_msg ''creating listener'') w1 = (Ok (), w')"
      using assms(2) by (auto simp: create_listener_def io_eqs)
    from lk c o'(3) have "li_ID l \<notin> fst ` set (v_listeners (view w)) \<and> li_ID l \<notin> snd ` set (v_pools (view w)) \<and>
        listener_entry l = (li_ID l, lic_Protocol o', lic_ProtocolPort o') \<and>
        view w1 = (view w)\<lparr> v_listeners := v_listeners (view w) @ [listener_entry l] \<rparr>"
      unfolding listeners_ok_def by blast
    then show ?thesis using view_wait [OF wk wt] o' k by simp
  next
    case (Some l')
    have l': "l = l'" "\<not> keepClientIP" "view w' = view w"
    proof -
      consider "l = l' \<and> \<not> keepClientIP \<and> w' = w"
        | n w1 where "l = l'" "\<not> keepClientIP" "listeners_Update env (li_ID l') n w = (Ok (), w1)"
            "wait_active env lbid (after_msg ''updating listener'') w1 = (Ok (), w')"
        using assms(3) Some by (auto simp: ensure_listener_def io_eqs split: if_splits)
      then have "l = l' \<and> \<not> keepClientIP \<and> view w' = view w"
      proof cases
        case 2
        have "view w1 = view w"
          using lk 2(3) unfolding listeners_ok_def by (metis view_keeps)
        then show ?thesis using view_wait [OF wk 2(4)] 2(1,2) by simp
      qed simp
      then show "l = l'" "\<not> keepClientIP" "view w' = view w" by simp_all
    qed
    from Some have "l' \<in> set old" "li_Protocol l' = sp_Protocol port" "li_ProtocolPort l' = sp_Port port"
      by (auto simp: getListenerForPort_def find_Some_iff toListenersProtocol_def ProtocolTCP_def split: if_splits)
    then show ?thesis using l' by (simp add: listener_entry_def)
  qed
qed

lemma ensure_pool_view:
  assumes "octavia_ok env lbid view sleep"
    and "ensure_pool env opts svc lbid name pers idx keepClientIP l w = (Ok p, w')"
  shows "(pl_ID p, li_ID l) \<in> set (v_pools (view w')) \<and>
    (view w' = view w \<or>
     (pl_ID p \<notin> fst ` set (v_pools (view w)) \<and> li_ID l \<notin> snd ` set (v_pools (view w)) \<and>
      view w' = set_members (pl_ID p) [] ((view w)\<lparr> v_pools := v_pools (view w) @ [(pl_ID p, li_ID l)] \<rparr>)))"
proof -
  from assms(1) have pk: "pools_ok env lbid view" and wk: "waits_ok env lbid view sleep"
    by (simp_all add: octavia_ok_def)
  obtain r w1 where q: "pool_or_none env (\<lambda>e. Errorf ''error getting pool for listener %s: %v'' [FStr (li_ID l), FErr e])
      lbid (li_ID l) w = (Ok r, w1)"
    using assms(2) by (auto simp: ensure_pool_def bindE_eq_Ok)
  note found = pool_or_none_view [OF pk q]
  show ?thesis
  proof (cases r)
    case (Some p')
    then show ?thesis using found assms(2) q by (auto simp: ensure_pool_def bindE_eq_Ok)
  next
    case None
    then obtain o' w2 where c: "pools_Create env o' w1 = (Ok p, w2)" and o': "plc_ListenerID o' = li_ID l"
      and wt: "wait_active env lbid (after_msg ''creating pool'') w2 = (Ok (), w')"
      using assms(2) q by (auto simp: ensure_pool_def io_eqs split: if_splits)
    from pk c have "pl_ID p \<notin> fst ` set (v_pools (view w1)) \<and>
        view w2 = set_members (pl_ID p) [] ((view w1)\<lparr> v_pools := v_pools (view w1) @ [(pl_ID p, plc_ListenerID o')] \<rparr>)"
      unfolding pools_ok_def by blast
    then show ?thesis using view_wait [OF wk wt] o' found None by simp
  qed
qed

lemma ensure_monitor_view:
  assumes "octavia_ok env lbid view sleep" "ensure_monitor env opts lbid name idx port p w = (Ok (), w')"
  shows "view w' = view w"
proof -
  from assms(1) have pk: "pools_ok env lbid view" and wk: "waits_ok env lbid view sleep"
    by (simp_all add: octavia_ok_def)
  have "keeps (\<lambda>x. view x = view w) (ensure_monitor env opts lbid name idx port p)"
    unfolding ensure_monitor_def
    using pk wk unfolding pools_ok_def waits_ok_def
    by (auto intro!: keeps_intros keeps_wait_active)
  from view_keeps [OF this _ assms(2)] show ?thesis by simp
qed

lemma view_wf_add_listener:
  "view_wf v \<Longrightarrow> l \<notin> fst ` set (v_listeners v) \<Longrightarrow> view_wf (v\<lparr> v_listeners := v_listeners v @ [(l, e)] \<rparr>)"
  by (auto simp: view_wf_def)

lemma view_wf_add_pool:
  "view_wf v \<Longrightarrow> p \<notin> fst ` set (v_pools v) \<Longrightarrow> l \<notin> snd ` set (v_pools v) \<Longrightarrow>
   view_wf (set_members p [] (v\<lparr> v_pools := v_pools v @ [(p, l)] \<rparr>))"
  by (auto simp: view_wf_def)

lemma view_wf_set_members: "view_wf v \<Longrightarrow> distinct (map fst ms) \<Longrightarrow> view_wf (set_members p ms v)"
  by (simp add: view_wf_def)

lemma pool_unique:
  "view_wf v \<Longrightarrow> (p, l) \<in> set (v_pools v) \<Longrightarrow> (p, k) \<in> set (v_pools v) \<Longrightarrow> l = k"
  by (auto simp: view_wf_def dest: eq_key_imp_eq_value)

lemma port_view:
  assumes ok: "octavia_ok env lbid view sleep"
    and no_xff: "getBoolFromServiceAnnotation svc AnnXForwardedFor False = Ok False"
    and wf: "view_wf (view w)" and old: "set (map listener_entry old) \<subseteq> set (v_listeners (view w))"
    and td: "tidy (li_ID ` set old) (view w)"
    and l: "ensure_listener env svc lbid name idx port old w = (Ok (l, keepClientIP), w1)"
    and p: "ensure_pool env opts svc lbid name pers idx keepClientIP l w1 = (Ok p, w2)"
    and m: "sync_members env subnetID lbid (pl_ID p) name idx port nodes w2 = (Ok (), w3)"
    and h: "ensure_monitor env opts lbid name idx port p w3 = (Ok (), w4)"
  shows "worked (li_ID l) (sp_Protocol port, sp_Port port) (view w) (view w4) \<and>
    (li_ID l, sp_Protocol port, sp_Port port) \<in> set (v_listeners (view w4)) \<and>
    serves (li_ID l) (node_endpoints port nodes) (view w4) \<and> view_wf (view w4) \<and>
    (l \<in> set old \<and> v_listeners (view w4) = v_listeners (view w) \<or> li_ID l \<notin> fst ` set (v_listeners (view w)))"
proof -
  let ?e = "(sp_Protocol port, sp_Port port)"
  have mk: "members_ok env view" and wk: "waits_ok env lbid view sleep" using ok by (simp_all add: octavia_ok_def)
  note L = ensure_listener_view [OF ok no_xff l old]
  note P = ensure_pool_view [OF ok p]
  have wf1: "view_wf (view w1)" using L wf view_wf_add_listener by auto
  have wf2: "view_wf (view w2)" using P wf1 view_wf_add_pool by auto
  have pools1: "v_pools (view w1) = v_pools (view w)" and mem1: "v_members (view w1) = v_members (view w)"
    using L by auto
  have in_old: "l \<in> set old" if "(pl_ID p, li_ID l) \<in> set (v_pools (view w))"
    using L that by (metis image_eqI snd_conv)
  have "distinct (map snd (v_members (view w2) (pl_ID p)))"
  proof (cases "view w2 = view w1")
    case True
    then show ?thesis
      using P in_old td pools1 mem1 unfolding tidy_def by fastforce
  next
    case False
    then show ?thesis using P by auto
  qed
  with wf2 obtain ms where ms: "view w3 = set_members (pl_ID p) ms (view w2)" "distinct (map fst ms)"
      "snd ` set ms = node_endpoints port nodes"
    using sync_members_view [OF mk wk m] unfolding view_wf_def by blast
  have w4: "view w4 = set_members (pl_ID p) ms (view w2)"
    using ensure_monitor_view [OF ok h] ms(1) by simp
  have ls: "v_listeners (view w4) = v_listeners (view w1)"
    using P w4 by auto
  have "worked (li_ID l) ?e (view w) (view w4)"
    unfolding worked_def
  proof (intro conjI ballI)
    show "v_listeners (view w4) \<in> {v_listeners (view w), v_listeners (view w) @ [(li_ID l, ?e)]}"
      using L ls by auto
    show "set (v_pools (view w)) \<subseteq> set (v_pools (view w4))"
      using P w4 pools1 by auto
    show "x \<in> set (v_pools (view w)) \<or> snd x = li_ID l" if "x \<in> set (v_pools (view w4))" for x
      using that P w4 pools1 by auto
    show "case x of (q, k) \<Rightarrow> k \<noteq> li_ID l \<longrightarrow> v_members (view w4) q = v_members (view w) q"
      if x: "x \<in> set (v_pools (view w))" for x
    proof (cases x)
      case (Pair q k)
      have "v_members (view w2) q = v_members (view w1) q" if "q \<noteq> pl_ID p" using P that by auto
      moreover have "q \<noteq> pl_ID p" if "k \<noteq> li_ID l"
        using P pool_unique [OF wf2, of "pl_ID p" "li_ID l" k] x that pools1 unfolding Pair by auto
      ultimately show ?thesis unfolding Pair by (simp add: w4 mem1)
    qed
  qed
  moreover have "listener_entry l \<in> set (v_listeners (view w1))" using L old by auto
  then have "(li_ID l, ?e) \<in> set (v_listeners (view w4))"
    unfolding ls using L by simp
  moreover have "serves (li_ID l) (node_endpoints port nodes) (view w4)"
    unfolding serves_def using P ms(3) w4 by (intro exI [of _ "pl_ID p"]) simp
  moreover have "view_wf (view w4)" unfolding w4 by (rule view_wf_set_members [OF wf2 ms(2)])
  ultimately show ?thesis using L ls by auto
qed

section \<open>The walk over the ports\<close>

lemma popListener_ok:
  assumes "distinct (map li_ID ls)"
  shows "set (popListener ls i) = {x \<in> set ls. li_ID x \<noteq> i} \<and> distinct (map li_ID (popListener ls i))"
proof (cases "find_index (\<lambda>l. li_ID l = i) ls")
  case None
  then have "popListener ls i = ls" by (simp add: popListener_def)
  moreover from None have "\<forall>x \<in> set ls. li_ID x \<noteq> i" by (simp add: find_index_None)
  ultimately show ?thesis using assms by auto
next
  case (Some n)
  then have n: "n < length ls" "li_ID (ls ! n) = i" using find_index_Some [OF Some] by simp_all
  let ?r = "butlast (ls[n := last ls])"
  have mset: "mset ls = add_mset (ls ! n) (mset ?r)" using n(1) by (simp add: mset_swap_delete)
  then have "mset (map li_ID ls) = mset (i # map li_ID ?r)" using n(2) by simp
  then have d: "distinct (i # map li_ID ?r)" using assms by (metis mset_eq_imp_distinct_iff)
  have "set ls = insert (ls ! n) (set ?r)" using mset by (metis set_mset_add_mset_insert set_mset_mset)
  moreover have "li_ID x \<noteq> i" if "x \<in> set ?r" for x using d that by auto
  ultimately have "set ?r = {x \<in> set ls. li_ID x \<noteq> i}" using n(2) by auto
  with d show ?thesis by (simp add: popListener_def Some)
qed

definition port_entry :: "nat \<times> ServicePort \<Rightarrow> endpoint" where
  "port_entry ip = (sp_Protocol (snd ip), sp_Port (snd ip))"

text \<open>
  \<open>walked ports nodes old v rest v'\<close>: the walk over the ports led from \<open>v\<close>, with unclaimed listeners \<open>old\<close>, to \<open>v'\<close>
  with unclaimed listeners \<open>rest\<close>. What is claimed and what is new is wanted; every port is served by a
  claimed or new listener; the pools of the listeners claimed before are as they were.
\<close>

definition walked :: "(nat \<times> ServicePort) list \<Rightarrow> Node list \<Rightarrow> Listener list \<Rightarrow> lb_view \<Rightarrow> Listener list \<Rightarrow> lb_view \<Rightarrow> bool" where
  "walked ports nodes old v rest v' \<longleftrightarrow>
     view_wf v' \<and> set rest \<subseteq> set old \<and> distinct (map li_ID rest) \<and>
     set (v_listeners v) \<subseteq> set (v_listeners v') \<and>
     (\<forall>x \<in> set (v_listeners v'). x \<in> set (v_listeners v) \<or> snd x \<in> port_entry ` set ports) \<and>
     (\<forall>l \<in> set old - set rest. snd (listener_entry l) \<in> port_entry ` set ports) \<and>
     (\<forall>ip \<in> set ports. \<exists>k. (k, port_entry ip) \<in> set (v_listeners v') \<and> k \<notin> li_ID ` set rest \<and>
        serves k (node_endpoints (snd ip) nodes) v') \<and>
     (\<forall>(p, k) \<in> set (v_pools v). k \<notin> li_ID ` set old \<and> k \<in> fst ` set (v_listeners v) \<longrightarrow>
        (p, k) \<in> set (v_pools v') \<and> v_members v' p = v_members v p)"

lemma walked_Nil: "view_wf v \<Longrightarrow> distinct (map li_ID old) \<Longrightarrow> walked [] nodes old v old v"
  by (auto simp: walked_def)

lemma walked_Cons:
  assumes wk: "worked (li_ID l) (port_entry ip) v v1" and in1: "(li_ID l, port_entry ip) \<in> set (v_listeners v1)"
    and sv: "serves (li_ID l) (node_endpoints (snd ip) nodes) v1"
    and lo: "l \<in> set old \<or> li_ID l \<notin> fst ` set (v_listeners v)" "snd (listener_entry l) = port_entry ip"
    and old: "set (map listener_entry old) \<subseteq> set (v_listeners v)" "distinct (map li_ID old)"
    and rest: "walked ports nodes (popListener old (li_ID l)) v1 rest v'"
  shows "walked (ip # ports) nodes old v rest v'"
proof -
  let ?old1 = "popListener old (li_ID l)"
  note o1 = popListener_ok [OF old(2), of "li_ID l"]
  have ls1: "set (v_listeners v) \<subseteq> set (v_listeners v1)" "set (v_listeners v1) \<subseteq> insert (li_ID l, port_entry ip) (set (v_listeners v))"
    using wk unfolding worked_def by auto
  have ids: "li_ID ` set old \<subseteq> fst ` set (v_listeners v)"
    using old(1) by (force simp: listener_entry_def)
  have l_id: "x = l" if "x \<in> set old" "li_ID x = li_ID l" for x
  proof -
    have "li_ID l \<in> fst ` set (v_listeners v)" using ids that by (metis image_eqI subsetD)
    with lo(1) have "l \<in> set old" by simp
    with old(2) that show ?thesis by (simp add: distinct_map inj_on_def)
  qed
  have other: "x \<in> set ?old1 \<longleftrightarrow> x \<in> set old \<and> li_ID x \<noteq> li_ID l" for x using o1 by simp
  have sub: "set ?old1 \<subseteq> set old" and not1: "li_ID l \<notin> li_ID ` set ?old1"
    by (auto simp: o1 subset_iff image_iff)
  have R: "view_wf v'" "set rest \<subseteq> set ?old1" "distinct (map li_ID rest)" "set (v_listeners v1) \<subseteq> set (v_listeners v')"
    "\<And>x. x \<in> set (v_listeners v') \<Longrightarrow> x \<in> set (v_listeners v1) \<or> snd x \<in> port_entry ` set ports"
    "\<And>x. x \<in> set ?old1 - set rest \<Longrightarrow> snd (listener_entry x) \<in> port_entry ` set ports"
    "\<And>ip. ip \<in> set ports \<Longrightarrow> \<exists>k. (k, port_entry ip) \<in> set (v_listeners v') \<and> k \<notin> li_ID ` set rest \<and>
        serves k (node_endpoints (snd ip) nodes) v'"
    "\<And>p k. (p, k) \<in> set (v_pools v1) \<Longrightarrow> k \<notin> li_ID ` set ?old1 \<Longrightarrow> k \<in> fst ` set (v_listeners v1) \<Longrightarrow>
        (p, k) \<in> set (v_pools v') \<and> v_members v' p = v_members v1 p"
    using rest unfolding walked_def by blast+
  have served: "\<exists>k. (k, port_entry ip) \<in> set (v_listeners v') \<and> k \<notin> li_ID ` set rest \<and> serves k (node_endpoints (snd ip) nodes) v'"
  proof (intro exI conjI)
    show "(li_ID l, port_entry ip) \<in> set (v_listeners v')" using in1 R(4) by blast
    show "li_ID l \<notin> li_ID ` set rest" using image_mono [OF R(2)] not1 by (rule contra_subsetD)
    obtain p where p: "(p, li_ID l) \<in> set (v_pools v1)" "snd ` set (v_members v1 p) = node_endpoints (snd ip) nodes"
      using sv unfolding serves_def by blast
    have "li_ID l \<in> fst ` set (v_listeners v1)" using in1 by (rule image_eqI [rotated]) simp
    with not1 have "(p, li_ID l) \<in> set (v_pools v') \<and> v_members v' p = v_members v1 p" by (rule R(8) [OF p(1)])
    with p(2) show "serves (li_ID l) (node_endpoints (snd ip) nodes) v'"
      unfolding serves_def by (intro exI [of _ p]) simp
  qed
  have claimed: "snd (listener_entry x) \<in> port_entry ` set (ip # ports)" if "x \<in> set old - set rest" for x
  proof (cases "li_ID x = li_ID l")
    case True
    with that l_id [of x] have "x = l" by simp
    with lo(2) show ?thesis by simp
  next
    case False
    with that other R(6) [of x] show ?thesis by simp
  qed
  have frame: "(p, k) \<in> set (v_pools v') \<and> v_members v' p = v_members v p"
    if "(p, k) \<in> set (v_pools v)" "k \<notin> li_ID ` set old" "k \<in> fst ` set (v_listeners v)" for p k
  proof -
    have "k \<noteq> li_ID l" using that(2,3) lo(1) by (metis image_eqI)
    then have "(p, k) \<in> set (v_pools v1)" "v_members v1 p = v_members v p"
      using wk that(1) unfolding worked_def by blast+
    moreover have "k \<notin> li_ID ` set ?old1" "k \<in> fst ` set (v_listeners v1)"
      using that(2,3) image_mono [OF sub, of li_ID] image_mono [OF ls1(1), of fst] by blast+
    ultimately show ?thesis using R(8) [of p k] by simp
  qed
  show ?thesis
    unfolding walked_def
  proof (intro conjI ballI)
    show "x \<in> set (v_listeners v) \<or> snd x \<in> port_entry ` set (ip # ports)" if "x \<in> set (v_listeners v')" for x
      using R(5) [OF that] ls1(2) by auto
    show "\<exists>k. (k, port_entry jp) \<in> set (v_listeners v') \<and> k \<notin> li_ID ` set rest \<and> serves k (node_endpoints (snd jp) nodes) v'"
      if "jp \<in> set (ip # ports)" for jp
      using that served R(7) [of jp] by auto
    show "case x of (p, k) \<Rightarrow> k \<notin> li_ID ` set old \<and> k \<in> fst ` set (v_listeners v) \<longrightarrow>
        (p, k) \<in> set (v_pools v') \<and> v_members v' p = v_members v p" if "x \<in> set (v_pools v)" for x
      using that frame [of "fst x" "snd x"] by (simp add: case_prod_unfold)
    show "set rest \<subseteq> set old" using R(2) sub by (rule order_trans)
    show "set (v_listeners v) \<subseteq> set (v_listeners v')" using ls1(1) R(4) by blast
  qed (rule R(1) R(3) claimed; assumption)+
qed

lemma worked_tidy:
  assumes "worked l e v v1" "tidy ls v" "ls' \<subseteq> ls - {l}"
  shows "tidy ls' v1"
  unfolding tidy_def
proof (intro ballI)
  fix x assume x: "x \<in> set (v_pools v1)"
  obtain p k where pk: "x = (p, k)" by (cases x)
  have "distinct (map snd (v_members v1 p))" if "k \<in> ls'"
  proof -
    have "k \<noteq> l" "k \<in> ls" using that assms(3) by auto
    with x pk assms(1) have "(p, k) \<in> set (v_pools v)" "v_members v1 p = v_members v p"
      unfolding worked_def by fastforce+
    then show ?thesis using assms(2) \<open>k \<in> ls\<close> unfolding tidy_def by auto
  qed
  then show "case x of (p, l) \<Rightarrow> l \<in> ls' \<longrightarrow> distinct (map snd (v_members v1 p))" by (simp add: pk)
qed

lemma ensure_ports_view:
  assumes ok: "octavia_ok env lbid view sleep"
    and no_xff: "getBoolFromServiceAnnotation svc AnnXForwardedFor False = Ok False"
    and run: "ensure_ports env opts svc lbid name pers nodes ports old w = (Ok rest, w')"
    and "view_wf (view w)" "set (map listener_entry old) \<subseteq> set (v_listeners (view w))" "distinct (map li_ID old)"
    and "tidy (li_ID ` set old) (view w)"
  shows "walked ports nodes old (view w) rest (view w')"
  using run assms(4-7)
proof (induction ports arbitrary: old w)
  case Nil
  then show ?case by (simp add: walked_Nil)
next
  case (Cons ip ports)
  obtain idx port where ip: "ip = (idx, port)" by (cases ip)
  obtain l keepClientIP w1 p w2 w3 w4 where
    l: "ensure_listener env svc lbid name idx port old w = (Ok (l, keepClientIP), w1)" and
    p: "ensure_pool env opts svc lbid name pers idx keepClientIP l w1 = (Ok p, w2)" and
    m: "sync_members env (lb_SubnetID opts) lbid (pl_ID p) name idx port nodes w2 = (Ok (), w3)" and
    h: "ensure_monitor env opts lbid name idx port p w3 = (Ok (), w4)" and
    r: "ensure_ports env opts svc lbid name pers nodes ports (popListener old (li_ID l)) w4 = (Ok rest, w')"
    using Cons.prems(1) by (auto simp: ip bindE_eq_Ok)
  have e: "port_entry ip = (sp_Protocol port, sp_Port port)" by (simp add: port_entry_def ip)
  note S = port_view [OF ok no_xff Cons.prems(2,3,5) l p m h, folded e]
  have entry: "snd (listener_entry l) = port_entry ip"
    using ensure_listener_view [OF ok no_xff l Cons.prems(3)] e by simp
  let ?old1 = "popListener old (li_ID l)"
  note o1 = popListener_ok [OF Cons.prems(4), of "li_ID l"]
  have sub: "set ?old1 \<subseteq> set old" using o1 by blast
  have "set (v_listeners (view w)) \<subseteq> set (v_listeners (view w4))" using S unfolding worked_def by auto
  with Cons.prems(3) image_mono [OF sub, of listener_entry]
  have "set (map listener_entry ?old1) \<subseteq> set (v_listeners (view w4))" unfolding set_map by (meson order_trans)
  moreover have "li_ID ` set ?old1 \<subseteq> li_ID ` set old - {li_ID l}"
    using image_avoiding [of li_ID "set old" "{li_ID l}"] conjunct1 [OF o1] by simp
  with S Cons.prems(5) have "tidy (li_ID ` set ?old1) (view w4)" using worked_tidy by blast
  ultimately have "walked ports nodes ?old1 (view w4) rest (view w')"
    using S o1 by (intro Cons.IH [OF r]) simp_all
  then show ?case
    using S entry Cons.prems(3,4) by (intro walked_Cons [of l]) (auto simp: ip)
qed

section \<open>Obsolete listeners\<close>

lemma delete_monitor_view:
  assumes "octavia_ok env lbid view sleep" "delete_monitor env msg lbid i w = (Ok (), w')"
  shows "view w' = view w"
proof -
  from assms(1) have pk: "pools_ok env lbid view" and wk: "waits_ok env lbid view sleep"
    by (simp_all add: octavia_ok_def)
  have "keeps (\<lambda>x. view x = view w) (delete_monitor env msg lbid i)"
    unfolding delete_monitor_def ignore_missing_def
    using pk wk unfolding pools_ok_def waits_ok_def
    by (auto intro!: keeps_intros keeps_wait_active)
  from view_keeps [OF this _ assms(2)] show ?thesis by simp
qed

lemma delete_pool_only_view:
  assumes "octavia_ok env lbid view sleep" "delete_pool_only env msg lbid p w = (Ok (), w')"
  shows "view w' = set_members p [] ((view w)\<lparr> v_pools := without p (v_pools (view w)) \<rparr>)"
proof -
  from assms(1) have pk: "pools_ok env lbid view" and wk: "waits_ok env lbid view sleep"
    by (simp_all add: octavia_ok_def)
  obtain w1 where d: "ignore_missing msg (pools_Delete env p) w = (Ok (), w1)"
    and wt: "wait_active env lbid (after_msg ''deleting pool'') w1 = (Ok (), w')"
    using assms(2) by (auto simp: delete_pool_only_def bindE_eq_Ok)
  from ignore_missing_gone [OF d] pk
  have "view w1 = set_members p [] ((view w)\<lparr> v_pools := without p (v_pools (view w)) \<rparr>)"
    unfolding pools_ok_def by blast
  then show ?thesis using view_wait [OF wk wt] by simp
qed

lemma delete_listener_only_view:
  assumes "octavia_ok env lbid view sleep" "delete_listener_only env msg lbid l w = (Ok (), w')"
  shows "view w' = (view w)\<lparr> v_listeners := without l (v_listeners (view w)) \<rparr>"
proof -
  from assms(1) have lk: "listeners_ok env lbid view" and wk: "waits_ok env lbid view sleep"
    by (simp_all add: octavia_ok_def)
  obtain w1 where d: "ignore_missing msg (listeners_Delete env l) w = (Ok (), w1)"
    and wt: "wait_active env lbid (after_msg ''deleting listener'') w1 = (Ok (), w')"
    using assms(2) by (auto simp: delete_listener_only_def bindE_eq_Ok)
  from ignore_missing_gone [OF d] lk
  have "view w1 = (view w)\<lparr> v_listeners := without l (v_listeners (view w)) \<rparr>"
    unfolding listeners_ok_def by blast
  then show ?thesis using view_wait [OF wk wt] by simp
qed

text \<open>\<open>kept ls v v'\<close>: the listeners with the ids \<open>ls\<close> are gone, the pools of all others and their members are untouched.\<close>

definition kept :: "ident set \<Rightarrow> lb_view \<Rightarrow> lb_view \<Rightarrow> bool" where
  "kept ls v v' \<longleftrightarrow> set (v_listeners v') = {x \<in> set (v_listeners v). fst x \<notin> ls} \<and>
     (\<forall>(p, k) \<in> set (v_pools v). k \<notin> ls \<longrightarrow> (p, k) \<in> set (v_pools v') \<and> v_members v' p = v_members v p)"

lemma kept_trans:
  assumes "kept ls v v1" "kept ls' v1 v'"
  shows "kept (ls \<union> ls') v v'"
proof -
  have "(p, k) \<in> set (v_pools v') \<and> v_members v' p = v_members v p"
    if "(p, k) \<in> set (v_pools v)" "k \<notin> ls \<union> ls'" for p k
  proof -
    have "(p, k) \<in> set (v_pools v1)" "v_members v1 p = v_members v p"
      using assms(1) that unfolding kept_def by blast+
    moreover from this have "(p, k) \<in> set (v_pools v')" "v_members v' p = v_members v1 p"
      using assms(2) that unfolding kept_def by blast+
    ultimately show ?thesis by simp
  qed
  moreover have "set (v_listeners v') = {x \<in> set (v_listeners v). fst x \<notin> ls \<union> ls'}"
    using assms unfolding kept_def by auto
  ultimately show ?thesis unfolding kept_def by blast
qed

lemma delete_obsolete_pool_view:
  assumes "octavia_ok env lbid view sleep" "delete_obsolete_pool env lbid l p w = (Ok (), w')"
  shows "view w' = set_members (pl_ID p) [] ((view w)\<lparr> v_pools := without (pl_ID p) (v_pools (view w)) \<rparr>)"
proof -
  from assms(1) have mk: "members_ok env view" and wk: "waits_ok env lbid view sleep"
    by (simp_all add: octavia_ok_def)
  obtain w1 msg ms w2 w3 msg' where
    h: "(if pl_MonitorID p \<noteq> '''' then delete_monitor env (\<lambda>e. Errorf ''error deleting obsolete monitor %s for pool %s: %v''
           [FStr (pl_MonitorID p), FStr (pl_ID p), FErr e]) lbid (pl_MonitorID p) else ret ()) w = (Ok (), w1)" and
    m: "members_or_none env msg (pl_ID p) w1 = (Ok ms, w2)" and
    d: "forE (delete_member env (obsolete_member_error (pl_ID p)) lbid (pl_ID p)) ms w2 = (Ok (), w3)" and
    q: "delete_pool_only env msg' lbid (pl_ID p) w3 = (Ok (), w')"
    using assms(2) by (auto simp: delete_obsolete_pool_def bindE_eq_Ok)
  have "view w1 = view w" using h delete_monitor_view [OF assms(1)] by (auto split: if_splits)
  moreover have "view w2 = view w1" using members_or_none_view [OF mk m] by simp
  ultimately show ?thesis
    using delete_members_view [OF mk wk d] delete_pool_only_view [OF assms(1) q]
    by (simp add: set_members_def)
qed

lemma delete_obsolete_listener_view:
  assumes "octavia_ok env lbid view sleep" "view_wf (view w)" "delete_obsolete_listener env lbid l w = (Ok (), w')"
  shows "view_wf (view w') \<and> kept {li_ID l} (view w) (view w')"
proof -
  from assms(1) have pk: "pools_ok env lbid view" by (simp add: octavia_ok_def)
  obtain msg r w1 w2 msg' where
    q: "pool_or_none env msg lbid (li_ID l) w = (Ok r, w1)" and
    d: "(case r of None \<Rightarrow> ret () | Some pool \<Rightarrow> delete_obsolete_pool env lbid l pool) w1 = (Ok (), w2)" and
    x: "delete_listener_only env msg' lbid (li_ID l) w2 = (Ok (), w')"
    using assms(3) by (auto simp: delete_obsolete_listener_def bindE_eq_Ok)
  note found = pool_or_none_view [OF pk q] and last = delete_listener_only_view [OF assms(1) x]
  show ?thesis
  proof (cases r)
    case None
    then have "view w' = (view w)\<lparr> v_listeners := without (li_ID l) (v_listeners (view w)) \<rparr>"
      using d found last by simp
    then show ?thesis using assms(2) by (auto simp: view_wf_def kept_def)
  next
    case (Some p)
    then have p: "(pl_ID p, li_ID l) \<in> set (v_pools (view w))" and v1: "view w1 = view w" using found by simp_all
    from Some d have "delete_obsolete_pool env lbid l p w1 = (Ok (), w2)" by simp
    from delete_obsolete_pool_view [OF assms(1) this] v1 last
    have v': "view w' = (set_members (pl_ID p) [] ((view w)\<lparr> v_pools := without (pl_ID p) (v_pools (view w)) \<rparr>))
        \<lparr> v_listeners := without (li_ID l) (v_listeners (view w)) \<rparr>" by simp
    have "q \<noteq> pl_ID p" if "(q, k) \<in> set (v_pools (view w))" "k \<noteq> li_ID l" for q k
      using pool_unique [OF assms(2) p, of k] that by auto
    then show ?thesis using assms(2) by (auto simp: v' view_wf_def kept_def)
  qed
qed

lemma delete_obsolete_listeners_view:
  assumes "octavia_ok env lbid view sleep" "view_wf (view w)"
    and "forE (delete_obsolete_listener env lbid) ls w = (Ok (), w')"
  shows "kept (li_ID ` set ls) (view w) (view w')"
  using assms(2,3)
proof (induction ls arbitrary: w)
  case Nil
  then show ?case by (auto simp: kept_def)
next
  case (Cons l ls)
  then obtain w1 where d: "delete_obsolete_listener env lbid l w = (Ok (), w1)"
    and f: "forE (delete_obsolete_listener env lbid) ls w1 = (Ok (), w')"
    by (auto simp: bindE_eq_Ok)
  from delete_obsolete_listener_view [OF assms(1) Cons.prems(1) d] have "view_wf (view w1)" "kept {li_ID l} (view w) (view w1)"
    by simp_all
  from kept_trans [OF this(2) Cons.IH [OF this(1) f]] show ?case by simp
qed

section \<open>The load balancer serves the service\<close>


definition demo_lb_opts :: LoadBalancerOpts where
  "demo_lb_opts = \<lparr> lb_LBVersion = ''v2'', lb_UseOctavia = True, lb_SubnetID = ''subnet'', lb_FloatingNetworkID = '''',
     lb_LBMethod = '''', lb_LBProvider = '''', lb_CreateMonitor = False, lb_MonitorDelay = 0, lb_MonitorTimeout = 0,
     lb_MonitorMaxRetries = 0, lb_ManageSecurityGroups = False, lb_NodeSecurityGroupIDs = [], lb_InternalLB = True \<rparr>"

definition demo_service :: Service where
  "demo_service = \<lparr> svc_Name = ''web'', svc_Namespace = ''default'', svc_UID = ''u-1'', svc_Annotations = Map.empty,
     svc_Ports = [demo_port], svc_LoadBalancerIP = '''', svc_LoadBalancerSourceRanges = [], svc_SessionAffinity = ''None'' \<rparr>"

text \<open>A load balancer with an obsolete listener on port 8080, and a stale member of the pool of port 80.\<close>

definition demo_mem2 :: mem where
  "demo_mem2 = demo_mem\<lparr> m_view := \<lparr> v_listeners = [(''l2'', ''TCP'', 8080), (''l1'', ''TCP'', 80)],
     v_pools = [(''p1'', ''l1''), (''p2'', ''l2'')],
     v_members = (\<lambda>p. if p = ''p1'' then [(''m1'', ''10.0.0.9'', 30080), (''m2'', ''10.0.0.1'', 30080)]
                      else if p = ''p2'' then [(''m3'', ''10.0.0.1'', 30081)] else []) \<rparr> \<rparr>"

lemma demo_listeners_run:
  "is_ok (fst (sync_listeners mem_env demo_lb_opts demo_service demo_lb ''web'' None demo_nodes demo_mem2))"
  by code_simp


end
