(* ===== verification/Lb_Lifecycle.thy ===== *)
theory Lb_Lifecycle
  imports Lb_Listeners
begin

text \<open>
  Whole operations on load balancers: what \<open>EnsureLoadBalancer\<close> leaves behind in the options of the
  provider, which all services share, and when \<open>EnsureLoadBalancerDeleted\<close> may report success.
\<close>

section \<open>The shared options\<close>

lemma keeps_onw [keeps_intros]: "keeps (\<lambda>s. I (st_opts s)) (onw m)"
  by (auto simp: keeps_def onw_def split: prod.splits)

lemma keeps_get_opts [keeps_intros]: "keeps I get_opts"
  by (simp add: keeps_def get_opts_def)

lemma keeps_set_groups [keeps_intros]:
  "keeps (\<lambda>s. I (lb_SubnetID (st_opts s))) (set_opts (lb_NodeSecurityGroupIDs_update f))"
  by (simp add: keeps_def set_opts_def)

lemma keeps_ensureSecurityGroup [keeps_intros]:
  "keeps (\<lambda>s. I (lb_SubnetID (st_opts s))) (ensureSecurityGroup env clusterName svc nodes lb)"
  unfolding ensureSecurityGroup_def by (intro keeps_intros)

lemma pick_subnet_annotated:
  assumes "svc_Annotations svc AnnSubnetID = Some s" "s \<noteq> ''''"
  shows "pick_subnet env svc nodes st = (Ok (), st\<lparr> st_opts := (st_opts st)\<lparr> lb_SubnetID := s \<rparr> \<rparr>)"
  using assms by (cases nodes) (simp_all add: pick_subnet_def set_opts_def get_opts_def getStringFromServiceAnnotation_def)

text \<open>
  C15. \<open>EnsureLoadBalancer\<close> stores the subnet that one service asks for in an annotation in the options
  of the provider, and it stays there whatever the outcome: a service without the annotation that comes
  later finds it there and is given the subnet of the other service instead of the configured one.
\<close>

theorem subnet_annotation_leaks:
  assumes "svc_Annotations a AnnSubnetID = Some s" "s \<noteq> ''''" "nodes \<noteq> []" "svc_Annotations b AnnSubnetID = None"
    and "EnsureLoadBalancer env clusterName a nodes st = (r, st')"
  shows "lb_SubnetID (st_opts st') = s \<and> pick_subnet env b nodes' st' = (Ok (), st')"
proof -
  let ?st = "st\<lparr> st_opts := (st_opts st)\<lparr> lb_SubnetID := s \<rparr> \<rparr>"
  define rest where "rest = (\<lambda>u::unit.
        bindE get_opts (\<lambda>opts.
        bindE (onw (ensure_lb env opts clusterName a nodes)) (\<lambda>(loadbalancer, floatIP).
          let status = (case floatIP of Some f \<Rightarrow> fi_FloatingIP f | None \<Rightarrow> lbr_VipAddress loadbalancer) in
          if lb_ManageSecurityGroups opts then
            bindE (attempt (ensureSecurityGroup env clusterName a nodes loadbalancer)) (\<lambda>r.
              case r of
                Inr _ \<Rightarrow> ret status
              | Inl err \<Rightarrow>
                  bindE get_opts (\<lambda>opts.
                  bindE (attempt (onw (EnsureLoadBalancerDeleted env opts clusterName a))) (\<lambda>_. fail err)))
          else ret status)))"
  have keep: "keeps (\<lambda>st. lb_SubnetID (st_opts st) = s) (rest u)" for u
    unfolding rest_def by (intro keeps_intros)
  have "rest () ?st = (r, st')"
    using assms(3,5) pick_subnet_annotated [OF assms(1,2), of env nodes st]
    by (simp add: EnsureLoadBalancer_def rest_def)
  from keepsD [OF keep _ this] have "lb_SubnetID (st_opts st') = s" by simp
  moreover from this assms(2,4) have "pick_subnet env b nodes' st' = (Ok (), st')"
    by (cases nodes') (simp_all add: pick_subnet_def set_opts_def get_opts_def getStringFromServiceAnnotation_def)
  ultimately show ?thesis by simp
qed

definition subnet_service :: Service where
  "subnet_service = demo_service\<lparr> svc_Annotations := [AnnSubnetID \<mapsto> ''private''] \<rparr>"

definition leak_demo :: "mem lb_st" where
  "leak_demo = snd (EnsureLoadBalancer mem_env ''k8s'' subnet_service demo_nodes \<lparr> st_opts = demo_lb_opts, st_w = demo_mem2 \<rparr>)"

theorem subnet_annotation_leaks_witness:
  "lb_SubnetID (st_opts leak_demo) = ''private'' \<and> pick_subnet mem_env demo_service demo_nodes leak_demo = (Ok (), leak_demo)"
  unfolding leak_demo_def
  by (intro subnet_annotation_leaks [of subnet_service, OF _ _ _ _ prod.collapse [symmetric]])
    (simp_all add: subnet_service_def demo_service_def demo_nodes_def)

section \<open>Deletion\<close>

text \<open>
  \<open>present w\<close> says whether the load balancer exists: a lookup that answers "not found" sees that it
  does not, and no call on security groups, ports and rules brings it back.
\<close>

definition deletion_ok :: "'w lb_env \<Rightarrow> string \<Rightarrow> ('w \<Rightarrow> bool) \<Rightarrow> ('w \<Rightarrow> 'w) \<Rightarrow> bool" where
  "deletion_ok env lbid present sleep \<longleftrightarrow> backoff_ok env sleep \<and>
     (\<forall>w e w'. lbs_Get env lbid w = (Err e, w') \<and> IsNotFound e \<longrightarrow> \<not> present w') \<and>
     (\<forall>n. keeps (\<lambda>w. \<not> present w) (groups_IDFromName env n)) \<and> (\<forall>i. keeps (\<lambda>w. \<not> present w) (groups_Delete env i)) \<and>
     (\<forall>o'. keeps (\<lambda>w. \<not> present w) (rules_List env o')) \<and> (\<forall>i. keeps (\<lambda>w. \<not> present w) (rules_Delete env i)) \<and>
     (\<forall>o'. keeps (\<lambda>w. \<not> present w) (ports_List env o')) \<and> (\<forall>i gs. keeps (\<lambda>w. \<not> present w) (ports_Update env i gs)) \<and>
     (\<forall>i t. keeps (\<lambda>w. \<not> present w) (tags_Delete env i t))"

lemma keeps_EnsureSecurityGroupDeleted:
  assumes "deletion_ok env lbid present sleep"
  shows "keeps (\<lambda>w. \<not> present w) (EnsureSecurityGroupDeleted env opts svc)"
proof -
  have rules: "keeps (\<lambda>w. \<not> present w) (rules_or_none env msg o')" for msg o'
    using assms unfolding deletion_ok_def rules_or_none_def getSecurityGroupRules_def
    by (auto intro!: keeps_intros)
  have del: "keeps (\<lambda>w. \<not> present w) (delete_rules env rs)" for rs
    using assms unfolding deletion_ok_def delete_rules_def ignore_missing_def
    by (auto intro!: keeps_intros)
  have dis: "keeps (\<lambda>w. \<not> present w) (disassociateSecurityGroupForLB env sg)" for sg
    using assms unfolding deletion_ok_def disassociateSecurityGroupForLB_def getPorts_def remove_from_port_def
    by (auto intro!: keeps_intros)
  show ?thesis
    using assms rules del dis unfolding deletion_ok_def EnsureSecurityGroupDeleted_def ignore_missing_def Let_def
    by (auto intro!: keeps_intros)
qed

lemma deleted_condition_True:
  "deleted_condition env lbid s = (Ok True, s') \<Longrightarrow> \<exists>e. lbs_Get env lbid (fst s) = (Err e, fst s') \<and> IsNotFound e"
  by (cases "lbs_Get env lbid (fst s)") (auto simp: deleted_condition_def split: result.splits if_splits)

lemma waitDeleted_gone:
  assumes "deletion_ok env lbid present sleep" "waitLoadbalancerDeleted env lbid w = (Ok (), w')"
  shows "\<not> present w'"
proof -
  obtain u st where run: "backoff (\<lambda>(w, status). (sleep w, status)) loadbalancerDeleteSteps (deleted_condition env lbid) (w, '''') = (Ok u, (w', st))"
    using assms unfolding deletion_ok_def backoff_ok_def
    by (auto simp: waitLoadbalancerDeleted_def split: prod.splits if_splits)
  from backoff_Ok [OF run] obtain s0 e where "lbs_Get env lbid (fst s0) = (Err e, w')" "IsNotFound e"
    using deleted_condition_True by fastforce
  with assms(1) show ?thesis unfolding deletion_ok_def by blast
qed

text \<open>
  C14. Without Octavia's cascading delete, \<open>EnsureLoadBalancerDeleted\<close> reports success for a service whose
  load balancer was found only when the load balancer is gone: the deletion was not just accepted.
\<close>

theorem EnsureLoadBalancerDeleted_gone:
  assumes "deletion_ok env (lbr_ID lb) present sleep" "\<not> lb_UseOctavia opts"
    and "getLoadbalancerByName env (GetLoadBalancerName clusterName svc) (GetLoadBalancerLegacyName env svc) w = (Ok lb, w0)"
    and "EnsureLoadBalancerDeleted env opts clusterName svc w = (Ok (), w')"
  shows "\<not> present w'"
proof -
  obtain w1 w2 where t: "delete_tree env (lbr_ID lb) w1 = (Ok (), w2)"
    and s: "(if lb_ManageSecurityGroups opts
             then wrapE (\<lambda>e. Errorf ''failed to delete Security Group for loadbalancer service %s: %v''
                               [FStr (svc_Namespace svc @ ''/'' @ svc_Name svc), FErr e])
                    (EnsureSecurityGroupDeleted env opts svc)
             else ret ()) w2 = (Ok (), w')"
    using assms(2-4) by (auto simp: EnsureLoadBalancerDeleted_def bindE_eq_Ok)
  have "\<not> present w2"
    using t waitDeleted_gone [OF assms(1)] by (auto simp: delete_tree_def io_eqs split: prod.splits)
  with s show ?thesis
    using keepsD [OF keeps_EnsureSecurityGroupDeleted [OF assms(1), of opts svc], of w2]
    by (auto simp: wrapE_eq_Ok split: if_splits)
qed

lemma mem_deletion_ok: "deletion_ok mem_env ''lb-1'' (\<lambda>w. \<exists>lb \<in> set (m_lbs w). lbr_ID lb = ''lb-1'') mem_sleep"
proof -
  have "\<not> (\<exists>lb \<in> set (m_lbs w'). lbr_ID lb = ''lb-1'')" if "lbs_Get mem_env ''lb-1'' w = (Err e, w')" for w e w'
    using that by (auto simp: mem_env_simps mem_poll_def find_None_iff split: option.splits)
  then show ?thesis
    unfolding deletion_ok_def by (simp add: mem_backoff) (auto simp: mem_env_def intro!: keeps_intros)
qed

definition lbaas_opts :: LoadBalancerOpts where
  "lbaas_opts = demo_lb_opts\<lparr> lb_UseOctavia := False, lb_ManageSecurityGroups := True \<rparr>"

lemma demo_delete_run: "is_ok (fst (EnsureLoadBalancerDeleted mem_env lbaas_opts ''k8s'' demo_service demo_mem2))"
  by code_simp

theorem EnsureLoadBalancerDeleted_gone_witness:
  "\<exists>w'. EnsureLoadBalancerDeleted mem_env lbaas_opts ''k8s'' demo_service demo_mem2 = (Ok (), w') \<and>
     \<not> (\<exists>lb \<in> set (m_lbs w'). lbr_ID lb = ''lb-1'')"
proof -
  obtain w' where run: "EnsureLoadBalancerDeleted mem_env lbaas_opts ''k8s'' demo_service demo_mem2 = (Ok (), w')"
    using demo_delete_run by (auto simp: is_ok_iff prod_eq_iff)
  have found: "getLoadbalancerByName mem_env (GetLoadBalancerName ''k8s'' demo_service) (GetLoadBalancerLegacyName mem_env demo_service) demo_mem2 =
      (Ok demo_lb, demo_mem2)"
  proof -
    have "GetLoadBalancerName ''k8s'' demo_service = lbr_Name demo_lb" "lb_valid demo_lb" by code_simp+
    moreover have "lbs_List mem_env n w = (Ok (filter (\<lambda>lb. lbr_Name lb = n) (m_lbs w)), w)" for n w
      by (simp add: mem_env_def)
    moreover have "m_lbs demo_mem2 = [demo_lb]" by (simp add: demo_mem2_def)
    ultimately show ?thesis by (simp add: getLoadbalancerByName_def getLoadBalancers_def)
  qed
  have "deletion_ok mem_env (lbr_ID demo_lb) (\<lambda>w. \<exists>lb \<in> set (m_lbs w). lbr_ID lb = ''lb-1'') mem_sleep"
    using mem_deletion_ok by (simp add: demo_lb_def)
  from EnsureLoadBalancerDeleted_gone [OF this _ found run] have "\<not> (\<exists>lb \<in> set (m_lbs w'). lbr_ID lb = ''lb-1'')"
    by (simp add: lbaas_opts_def)
  with run show ?thesis by blast
qed

end
