(* ===== verification/Csi_Openstack.thy ===== *)
theory Csi_Openstack
  imports Go_Wait Openstack_Nodes Openstack_Config
begin

text \<open>
  The cloud side of the Cinder CSI driver: \<open>pkg/csi/cinder/openstack/openstack_volumes.go\<close>,
  \<open>openstack_snapshots.go\<close> and \<open>openstack.go\<close>. The calls of gophercloud are the fields of
  \<open>block_api\<close> and \<open>provider_api\<close>; \<open>AllPages\<close> and the extraction of its pages are one call. The
  methods of the type \<open>OpenStack\<close> are collected in a record with the methods of the interface
  \<open>IOpenStack\<close>, which the controller server is written against.
\<close>

section \<open>Data\<close>

record block_attachment =
  ba_ServerID :: string
  ba_Device :: string

record block_volume =
  bv_ID :: string
  bv_Name :: string
  bv_Status :: string
  bv_Size :: int
  bv_AvailabilityZone :: string
  bv_Attachments :: "block_attachment list"

record block_CreateOpts =
  bo_Name :: string
  bo_Size :: int
  bo_VolumeType :: string
  bo_AvailabilityZone :: string
  bo_Description :: string
  bo_SnapshotID :: string
  bo_Metadata :: "(string \<rightharpoonup> string) option"

record block_snapshot =
  bs_ID :: string
  bs_Name :: string
  bs_VolumeID :: string
  bs_Status :: string
  bs_Size :: int
  bs_CreatedAt :: int

record snapshot_CreateOpts =
  so_VolumeID :: string
  so_Name :: string
  so_Description :: string
  so_Metadata :: "(string \<rightharpoonup> string) option"

record snapshot_ListOpts =
  sl_Name :: string
  sl_Status :: string
  sl_VolumeID :: string

record csi_Volume =
  cv_AttachedServerId :: string
  cv_AttachedDevice :: string
  cv_ID :: string
  cv_Name :: string
  cv_Status :: string
  cv_Size :: int
  cv_AZ :: string

definition VolumeAvailableStatus :: string where "VolumeAvailableStatus = ''available''"
definition VolumeInUseStatus :: string where "VolumeInUseStatus = ''in-use''"
definition diskAttachSteps :: nat where "diskAttachSteps = 15"
definition diskDetachSteps :: nat where "diskDetachSteps = 13"
definition volumeDescription :: string where
  "volumeDescription = ''Created by OpenStack Cinder CSI driver''"
definition SnapshotReadyStatus :: string where "SnapshotReadyStatus = ''available''"
definition snapReadySteps :: nat where "snapReadySteps = 10"

text \<open>
  The calls of gophercloud. A list of volumes is asked for by the name in its options, all of them
  by the empty name. \<open>ap_Backoff\<close> is \<open>wait.ExponentialBackoff\<close> with the number of its steps.
\<close>

record 'w block_api =
  ap_volumes_Create :: "block_CreateOpts \<Rightarrow> ('w, block_volume) io"
  ap_volumes_List :: "string \<Rightarrow> ('w, block_volume list) io"
  ap_volumes_Get :: "string \<Rightarrow> ('w, block_volume) io"
  ap_volumes_Delete :: "string \<Rightarrow> ('w, unit) io"
  ap_volumeattach_Create :: "string \<Rightarrow> string \<Rightarrow> ('w, unit) io"
  ap_volumeattach_Delete :: "string \<Rightarrow> string \<Rightarrow> ('w, unit) io"
  ap_snapshots_Create :: "snapshot_CreateOpts \<Rightarrow> ('w, block_snapshot) io"
  ap_snapshots_List :: "snapshot_ListOpts \<Rightarrow> ('w, block_snapshot list) io"
  ap_snapshots_Get :: "string \<Rightarrow> ('w, block_snapshot) io"
  ap_snapshots_Delete :: "string \<Rightarrow> ('w, unit) io"
  ap_Backoff :: "nat \<Rightarrow> ('w, bool) io \<Rightarrow> ('w, unit) io"

section \<open>Volumes\<close>

definition csi_CreateVolume ::
  "'w block_api \<Rightarrow> string \<Rightarrow> int \<Rightarrow> string \<Rightarrow> string \<Rightarrow> string \<Rightarrow> (string \<rightharpoonup> string) option \<Rightarrow>
    ('w, string \<times> string \<times> int) io" where
  "csi_CreateVolume api name sz vtype availability snapshotID tags =
     bindE (ap_volumes_Create api
        \<lparr> bo_Name = name, bo_Size = sz, bo_VolumeType = vtype, bo_AvailabilityZone = availability,
          bo_Description = volumeDescription, bo_SnapshotID = snapshotID, bo_Metadata = tags \<rparr>) (\<lambda>vol.
     ret (bv_ID vol, bv_AvailabilityZone vol, bv_Size vol))"

definition listed_volume :: "block_volume \<Rightarrow> csi_Volume" where
  "listed_volume v =
     \<lparr> cv_AttachedServerId = '''', cv_AttachedDevice = '''', cv_ID = bv_ID v, cv_Name = bv_Name v,
       cv_Status = bv_Status v, cv_Size = bv_Size v, cv_AZ = bv_AvailabilityZone v \<rparr>"

definition csi_ListVolumes :: "'w block_api \<Rightarrow> ('w, csi_Volume list) io" where
  "csi_ListVolumes api = bindE (ap_volumes_List api '''') (\<lambda>vols. ret (map listed_volume vols))"

definition csi_GetVolumesByName :: "'w block_api \<Rightarrow> string \<Rightarrow> ('w, csi_Volume list) io" where
  "csi_GetVolumesByName api n = bindE (ap_volumes_List api n) (\<lambda>vols. ret (map listed_volume vols))"

definition csi_GetVolume :: "'w block_api \<Rightarrow> string \<Rightarrow> ('w, csi_Volume) io" where
  "csi_GetVolume api volumeID =
     bindE (ap_volumes_Get api volumeID) (\<lambda>vol.
       let volume = \<lparr> cv_AttachedServerId = '''', cv_AttachedDevice = '''', cv_ID = bv_ID vol, cv_Name = bv_Name vol,
                      cv_Status = bv_Status vol, cv_Size = 0, cv_AZ = '''' \<rparr> in
       ret (case bv_Attachments vol of
              [] \<Rightarrow> volume
            | a # _ \<Rightarrow> volume\<lparr> cv_AttachedServerId := ba_ServerID a, cv_AttachedDevice := ba_Device a \<rparr>))"

definition csi_diskIsAttached :: "'w block_api \<Rightarrow> string \<Rightarrow> string \<Rightarrow> ('w, bool) io" where
  "csi_diskIsAttached api instanceID volumeID =
     bindE (csi_GetVolume api volumeID) (\<lambda>volume. ret (instanceID = cv_AttachedServerId volume))"

definition csi_diskIsUsed :: "'w block_api \<Rightarrow> string \<Rightarrow> ('w, bool) io" where
  "csi_diskIsUsed api volumeID =
     bindE (csi_GetVolume api volumeID) (\<lambda>volume. ret (cv_AttachedServerId volume \<noteq> ''''))"

definition csi_DeleteVolume :: "'w block_api \<Rightarrow> string \<Rightarrow> ('w, unit) io" where
  "csi_DeleteVolume api volumeID =
     bindE (csi_diskIsUsed api volumeID) (\<lambda>used.
       if used
       then fail (Errorf ''Cannot delete the volume %q, it's still attached to a node'' [FStr volumeID])
       else ap_volumes_Delete api volumeID)"

definition csi_AttachVolume :: "'w block_api \<Rightarrow> string \<Rightarrow> string \<Rightarrow> ('w, string) io" where
  "csi_AttachVolume api instanceID volumeID =
     bindE (csi_GetVolume api volumeID) (\<lambda>volume.
       if cv_AttachedServerId volume \<noteq> '''' then
         if instanceID = cv_AttachedServerId volume then ret (cv_ID volume)
         else fail (Errorf ''disk %s is attached to a different instance (%s)''
                [FStr volumeID, FStr (cv_AttachedServerId volume)])
       else
         bindE (wrapE (\<lambda>err. Errorf ''failed to attach %s volume to %s compute: %v''
                         [FStr volumeID, FStr instanceID, FErr err])
                  (ap_volumeattach_Create api instanceID (cv_ID volume))) (\<lambda>_.
         ret (cv_ID volume)))"

text \<open>
  The condition \<open>WaitDiskAttached\<close> polls. A volume that is not found counts as not attached.
\<close>

definition attached_condition :: "'w block_api \<Rightarrow> string \<Rightarrow> string \<Rightarrow> ('w, bool) io" where
  "attached_condition api instanceID volumeID =
     bindE (attempt (csi_diskIsAttached api instanceID volumeID)) (\<lambda>r.
       case r of
         Inl err \<Rightarrow> if \<not> IsNotFound err then fail err else ret False
       | Inr attached \<Rightarrow> ret attached)"

definition csi_WaitDiskAttached :: "'w block_api \<Rightarrow> string \<Rightarrow> string \<Rightarrow> ('w, unit) io" where
  "csi_WaitDiskAttached api instanceID volumeID =
     on_timeout (Errorf ''Volume %q failed to be attached within the alloted time'' [FStr volumeID])
       (ap_Backoff api diskAttachSteps (attached_condition api instanceID volumeID))"

definition csi_DetachVolume :: "'w block_api \<Rightarrow> string \<Rightarrow> string \<Rightarrow> ('w, unit) io" where
  "csi_DetachVolume api instanceID volumeID =
     bindE (csi_GetVolume api volumeID) (\<lambda>volume.
       if cv_Status volume = VolumeAvailableStatus then ret ()
       else if cv_Status volume \<noteq> VolumeInUseStatus then
         fail (Errorf ''can not detach volume %s, its status is %s'' [FStr (cv_Name volume), FStr (cv_Status volume)])
       else if cv_AttachedServerId volume \<noteq> instanceID then
         fail (Errorf ''disk: %s has no attachments or is not attached to compute: %s''
                [FStr (cv_Name volume), FStr instanceID])
       else
         wrapE (\<lambda>err. Errorf ''failed to delete volume %s from compute %s attached %v''
                        [FStr (cv_ID volume), FStr instanceID, FErr err])
           (ap_volumeattach_Delete api instanceID (cv_ID volume)))"

definition detached_condition :: "'w block_api \<Rightarrow> string \<Rightarrow> string \<Rightarrow> ('w, bool) io" where
  "detached_condition api instanceID volumeID =
     bindE (csi_diskIsAttached api instanceID volumeID) (\<lambda>attached. ret (\<not> attached))"

definition csi_WaitDiskDetached :: "'w block_api \<Rightarrow> string \<Rightarrow> string \<Rightarrow> ('w, unit) io" where
  "csi_WaitDiskDetached api instanceID volumeID =
     on_timeout (Errorf ''Volume %q failed to detach within the alloted time'' [FStr volumeID])
       (ap_Backoff api diskDetachSteps (detached_condition api instanceID volumeID))"

definition csi_GetAttachmentDiskPath :: "'w block_api \<Rightarrow> string \<Rightarrow> string \<Rightarrow> ('w, string) io" where
  "csi_GetAttachmentDiskPath api instanceID volumeID =
     bindE (csi_GetVolume api volumeID) (\<lambda>volume.
       if cv_Status volume \<noteq> VolumeInUseStatus then
         fail (Errorf ''can not get device path of volume %s, its status is %s ''
                [FStr (cv_Name volume), FStr (cv_Status volume)])
       else if cv_AttachedServerId volume \<noteq> '''' then
         if instanceID = cv_AttachedServerId volume then ret (cv_AttachedDevice volume)
         else fail (Errorf ''disk %q is attached to a different compute: %q, should be detached before proceeding''
                [FStr volumeID, FStr (cv_AttachedServerId volume)])
       else fail (Errorf ''volume %s has no ServerId'' [FStr volumeID]))"

section \<open>Snapshots\<close>

definition csi_CreateSnapshot ::
  "'w block_api \<Rightarrow> string \<Rightarrow> string \<Rightarrow> string \<Rightarrow> (string \<rightharpoonup> string) option \<Rightarrow> ('w, block_snapshot) io" where
  "csi_CreateSnapshot api name volID description tags =
     ap_snapshots_Create api
       \<lparr> so_VolumeID = volID, so_Name = name, so_Description = description, so_Metadata = tags \<rparr>"

definition csi_ListSnapshots ::
  "'w block_api \<Rightarrow> int \<Rightarrow> int \<Rightarrow> (string \<rightharpoonup> string) \<Rightarrow> ('w, block_snapshot list) io" where
  "csi_ListSnapshots api limit offset filters =
     ap_snapshots_List api \<lparr> sl_Name = '''', sl_Status = SnapshotReadyStatus, sl_VolumeID = '''' \<rparr>"

definition csi_GetSnapshotByNameAndVolumeID ::
  "'w block_api \<Rightarrow> string \<Rightarrow> string \<Rightarrow> ('w, block_snapshot list) io" where
  "csi_GetSnapshotByNameAndVolumeID api n volumeId =
     ap_snapshots_List api \<lparr> sl_Name = n, sl_Status = '''', sl_VolumeID = volumeId \<rparr>"

definition csi_DeleteSnapshot :: "'w block_api \<Rightarrow> string \<Rightarrow> ('w, unit) io" where
  "csi_DeleteSnapshot api snapID = ap_snapshots_Delete api snapID"

definition csi_GetSnapshotByID :: "'w block_api \<Rightarrow> string \<Rightarrow> ('w, block_snapshot) io" where
  "csi_GetSnapshotByID api snapshotID = ap_snapshots_Get api snapshotID"

definition csi_snapshotIsReady :: "'w block_api \<Rightarrow> string \<Rightarrow> ('w, bool) io" where
  "csi_snapshotIsReady api snapshotID =
     bindE (csi_GetSnapshotByID api snapshotID) (\<lambda>snap. ret (bs_Status snap = SnapshotReadyStatus))"

definition csi_WaitSnapshotReady :: "'w block_api \<Rightarrow> string \<Rightarrow> ('w, unit) io" where
  "csi_WaitSnapshotReady api snapshotID =
     on_timeout (Errorf ''Timeout, Snapshot  %s is still not Ready %v'' [FStr snapshotID, FErr ErrWaitTimeout])
       (ap_Backoff api snapReadySteps (csi_snapshotIsReady api snapshotID))"

section \<open>The interface \<open>IOpenStack\<close>\<close>

record 'w IOpenStack =
  io_CreateVolume :: "string \<Rightarrow> int \<Rightarrow> string \<Rightarrow> string \<Rightarrow> string \<Rightarrow> (string \<rightharpoonup> string) option \<Rightarrow>
    ('w, string \<times> string \<times> int) io"
  io_DeleteVolume :: "string \<Rightarrow> ('w, unit) io"
  io_AttachVolume :: "string \<Rightarrow> string \<Rightarrow> ('w, string) io"
  io_ListVolumes :: "('w, csi_Volume list) io"
  io_WaitDiskAttached :: "string \<Rightarrow> string \<Rightarrow> ('w, unit) io"
  io_DetachVolume :: "string \<Rightarrow> string \<Rightarrow> ('w, unit) io"
  io_WaitDiskDetached :: "string \<Rightarrow> string \<Rightarrow> ('w, unit) io"
  io_GetAttachmentDiskPath :: "string \<Rightarrow> string \<Rightarrow> ('w, string) io"
  io_GetVolumesByName :: "string \<Rightarrow> ('w, csi_Volume list) io"
  io_CreateSnapshot :: "string \<Rightarrow> string \<Rightarrow> string \<Rightarrow> (string \<rightharpoonup> string) option \<Rightarrow> ('w, block_snapshot) io"
  io_ListSnapshots :: "int \<Rightarrow> int \<Rightarrow> (string \<rightharpoonup> string) \<Rightarrow> ('w, block_snapshot list) io"
  io_DeleteSnapshot :: "string \<Rightarrow> ('w, unit) io"
  io_GetSnapshotByNameAndVolumeID :: "string \<Rightarrow> string \<Rightarrow> ('w, block_snapshot list) io"
  io_GetSnapshotByID :: "string \<Rightarrow> ('w, block_snapshot) io"
  io_WaitSnapshotReady :: "string \<Rightarrow> ('w, unit) io"

definition csi_OpenStack :: "'w block_api \<Rightarrow> 'w IOpenStack" where
  "csi_OpenStack api =
     \<lparr> io_CreateVolume = csi_CreateVolume api,
       io_DeleteVolume = csi_DeleteVolume api,
       io_AttachVolume = csi_AttachVolume api,
       io_ListVolumes = csi_ListVolumes api,
       io_WaitDiskAttached = csi_WaitDiskAttached api,
       io_DetachVolume = csi_DetachVolume api,
       io_WaitDiskDetached = csi_WaitDiskDetached api,
       io_GetAttachmentDiskPath = csi_GetAttachmentDiskPath api,
       io_GetVolumesByName = csi_GetVolumesByName api,
       io_CreateSnapshot = csi_CreateSnapshot api,
       io_ListSnapshots = csi_ListSnapshots api,
       io_DeleteSnapshot = csi_DeleteSnapshot api,
       io_GetSnapshotByNameAndVolumeID = csi_GetSnapshotByNameAndVolumeID api,
       io_GetSnapshotByID = csi_GetSnapshotByID api,
       io_WaitSnapshotReady = csi_WaitSnapshotReady api \<rparr>"

section \<open>The provider\<close>

record csi_Config =
  cg_AuthUrl :: string
  cg_Username :: string
  cg_UserId :: string
  cg_Password :: string
  cg_TenantId :: string
  cg_TenantName :: string
  cg_DomainId :: string
  cg_DomainName :: string
  cg_Region :: string
  cg_CAFile :: string

definition csi_toAuthOptions :: "csi_Config \<Rightarrow> AuthOpts" where
  "csi_toAuthOptions cfg =
     \<lparr> au_IdentityEndpoint = cg_AuthUrl cfg, au_Username = cg_Username cfg, au_UserID = cg_UserId cfg,
       au_Password = cg_Password cfg, au_TenantID = cg_TenantId cfg, au_TenantName = cg_TenantName cfg,
       au_DomainID = cg_DomainId cfg, au_DomainName = cg_DomainName cfg, au_AllowReauth = True \<rparr>"

text \<open>
  The package variables \<open>OsInstance\<close> (the compute and the block storage client) and
  \<open>configFile\<close>, and the system: the content of a file, the decoding of it by gcfg, and the
  environment.
\<close>

record 'client csi_globals =
  OsInstance :: "('client \<times> 'client) option"
  configFile :: string

record ('w, 'prov, 'pool, 'client) provider_api =
  pv_Open :: "string \<Rightarrow> ('w, string) io"
  pv_ReadInto :: "string \<Rightarrow> csi_Config result"
  pv_AuthOptionsFromEnv :: "('w, AuthOpts) io"
  pv_Getenv :: "string \<Rightarrow> ('w, string) io"
  pv_auth :: "('w, 'prov, 'pool) os_auth"
  pv_clients :: "('w, 'prov, 'client) os_clients"

definition initial_globals :: "'client csi_globals" where
  "initial_globals = \<lparr> OsInstance = None, configFile = ''/etc/cloud.conf'' \<rparr>"

definition InitOpenStackProvider :: "string \<Rightarrow> 'client csi_globals \<Rightarrow> 'client csi_globals" where
  "InitOpenStackProvider cfg g = g\<lparr> configFile := cfg \<rparr>"

definition GetConfigFromFile ::
  "('w, 'prov, 'pool, 'client) provider_api \<Rightarrow> string \<Rightarrow> ('w, csi_Config \<times> string) io" where
  "GetConfigFromFile lib configFilePath =
     bindE (pv_Open lib configFilePath) (\<lambda>config.
     bindE (lift_result (pv_ReadInto lib config)) (\<lambda>cfg.
     ret (cfg, cg_Region cfg)))"

definition GetConfigFromEnv :: "('w, 'prov, 'pool, 'client) provider_api \<Rightarrow> ('w, AuthOpts \<times> string) io" where
  "GetConfigFromEnv lib =
     bindE (pv_AuthOptionsFromEnv lib) (\<lambda>authOpts.
     bindE (pv_Getenv lib ''OS_REGION_NAME'') (\<lambda>region.
     ret (authOpts, region)))"

definition provider_config ::
  "('w, 'prov, 'pool, 'client) provider_api \<Rightarrow> string \<Rightarrow> ('w, AuthOpts \<times> string \<times> string) io" where
  "provider_config lib file =
     bindE (attempt (GetConfigFromFile lib file)) (\<lambda>r.
       case r of
         Inr (cfg, region) \<Rightarrow> ret (csi_toAuthOptions cfg, region, cg_CAFile cfg)
       | Inl _ \<Rightarrow> bindE (GetConfigFromEnv lib) (\<lambda>(authOpts, region). ret (authOpts, region, '''')))"

definition new_instance :: "('w, 'prov, 'pool, 'client) provider_api \<Rightarrow> string \<Rightarrow> ('w, 'client \<times> 'client) io" where
  "new_instance lib file =
     bindE (provider_config lib file) (\<lambda>(authOpts, region, caFile).
     bindE (oa_NewClient (pv_auth lib) (au_IdentityEndpoint authOpts)) (\<lambda>provider.
     bindE (if caFile \<noteq> '''' then
              bindE (oa_NewPool (pv_auth lib) caFile) (\<lambda>roots. ret (oa_SetTransport (pv_auth lib) provider roots))
            else ret provider) (\<lambda>provider.
     bindE (oa_Authenticate (pv_auth lib) provider authOpts) (\<lambda>provider.
     bindE (ol_Compute (pv_clients lib) provider region) (\<lambda>computeclient.
     bindE (ol_BlockStorageV3 (pv_clients lib) provider region) (\<lambda>blockstorageclient.
     ret (computeclient, blockstorageclient)))))))"

definition CreateOpenStackProvider ::
  "('w, 'prov, 'pool, 'client) provider_api \<Rightarrow> ('client csi_globals \<times> 'w, 'client \<times> 'client) io" where
  "CreateOpenStackProvider lib = (\<lambda>(g, w).
     case new_instance lib (configFile g) w of
       (Ok os, w') \<Rightarrow> (Ok os, (g\<lparr> OsInstance := Some os \<rparr>, w'))
     | (Err e, w') \<Rightarrow> (Err e, (g, w'))
     | (Panic p, w') \<Rightarrow> (Panic p, (g, w')))"

definition GetOpenStackProvider ::
  "('w, 'prov, 'pool, 'client) provider_api \<Rightarrow> ('client csi_globals \<times> 'w, 'client \<times> 'client) io" where
  "GetOpenStackProvider lib = (\<lambda>(g, w).
     case OsInstance g of
       Some os \<Rightarrow> (Ok os, (g, w))
     | None \<Rightarrow> CreateOpenStackProvider lib (g, w))"

text \<open>
  A provider that was created once is handed out ever after, without a call to the outside, and a
  failed creation leaves no provider behind.
\<close>

lemma GetOpenStackProvider_cached:
  assumes "GetOpenStackProvider lib (g, w) = (r, (g', w'))"
  shows "(\<exists>os. r = Ok os \<and> GetOpenStackProvider lib (g', v) = (Ok os, (g', v))) \<or> (\<not> is_ok r \<and> OsInstance g' = None)"
  using assms
  by (auto simp: GetOpenStackProvider_def CreateOpenStackProvider_def
      split: option.splits prod.splits result.splits)

section \<open>The metadata of the instance\<close>

text \<open>
  \<open>pkg/csi/cinder/openstack/openstack_metadata.go\<close>. A reply that is not 200 is no error: its body is
  taken to be empty, and decoding it fails.
\<close>

record csi_metadata =
  mt_UUID :: string
  mt_AvailabilityZone :: string

definition getMetadata :: "(string \<Rightarrow> ('w, int \<times> string) io) \<Rightarrow> string \<Rightarrow> ('w, string) io" where
  "getMetadata http_Get metadataURL =
     bindE (http_Get metadataURL) (\<lambda>(code, body). if code \<noteq> 200 then ret '''' else ret body)"

record 'w md_api =
  mp_HttpGet :: "string \<Rightarrow> ('w, int \<times> string) io"
  mp_Unmarshal :: "string \<Rightarrow> csi_metadata result"

definition getMetaDataInfo :: "'w md_api \<Rightarrow> ('w, csi_metadata) io" where
  "getMetaDataInfo api =
     bindE (getMetadata (mp_HttpGet api) (getMetadataURL defaultMetadataVersion)) (\<lambda>md.
     lift_result (mp_Unmarshal api md))"

definition md_GetInstanceID :: "'w md_api \<Rightarrow> ('w, string) io" where
  "md_GetInstanceID api = bindE (getMetaDataInfo api) (\<lambda>md. ret (mt_UUID md))"

definition md_GetAvailabilityZone :: "'w md_api \<Rightarrow> ('w, string) io" where
  "md_GetAvailabilityZone api = bindE (getMetaDataInfo api) (\<lambda>md. ret (mt_AvailabilityZone md))"

section \<open>What the block storage service promises\<close>

text \<open>
  \<open>vols w\<close> are the volumes of the tenant, by their ids. The laws are those of the documentation of
  Cinder and Nova: a call that fails changes no volume; \<open>Get\<close> and \<open>List\<close> report the volumes; \<open>Create\<close>
  gives a volume with a new id and the name and size asked for, attached to nothing; attaching
  adds an attachment to the volume (also to one that has some already: the service knows volumes
  with several), detaching removes those of the instance; time changes nothing but the status.
  \<open>ap_Backoff\<close> is the documented loop.
\<close>

definition still :: "(string \<rightharpoonup> block_volume) \<Rightarrow> (string \<rightharpoonup> block_volume) \<Rightarrow> bool" where
  "still m m' \<longleftrightarrow> (\<forall>i. map_option (bv_Status_update (\<lambda>_. '''')) (m' i) = map_option (bv_Status_update (\<lambda>_. '''')) (m i))"

definition fails_unchanged :: "('w \<Rightarrow> 'm) \<Rightarrow> ('w, 'a) io \<Rightarrow> bool" where
  "fails_unchanged vols m \<longleftrightarrow> (\<forall>w r w'. m w = (r, w') \<longrightarrow> \<not> is_ok r \<longrightarrow> vols w' = vols w)"

definition block_ok :: "'w block_api \<Rightarrow> ('w \<Rightarrow> string \<rightharpoonup> block_volume) \<Rightarrow> bool" where
  "block_ok api vols \<longleftrightarrow>
     (\<forall>w i v. vols w i = Some v \<longrightarrow> bv_ID v = i) \<and>
     (\<forall>n. reads vols (ap_volumes_List api n)) \<and>
     (\<forall>n w vs w'. ap_volumes_List api n w = (Ok vs, w') \<longrightarrow>
        distinct vs \<and> set vs = {v \<in> ran (vols w). n = '''' \<or> bv_Name v = n}) \<and>
     (\<forall>i. reads vols (ap_volumes_Get api i)) \<and>
     (\<forall>i w v w'. ap_volumes_Get api i w = (Ok v, w') \<longrightarrow> vols w i = Some v) \<and>
     (\<forall>o'. fails_unchanged vols (ap_volumes_Create api o')) \<and>
     (\<forall>o' w v w'. ap_volumes_Create api o' w = (Ok v, w') \<longrightarrow>
        vols w (bv_ID v) = None \<and> bv_Name v = bo_Name o' \<and> bv_Size v = bo_Size o' \<and> bv_Attachments v = [] \<and>
        vols w' = (vols w)(bv_ID v \<mapsto> v)) \<and>
     (\<forall>i. fails_unchanged vols (ap_volumes_Delete api i)) \<and>
     (\<forall>i w u w'. ap_volumes_Delete api i w = (Ok u, w') \<longrightarrow> vols w' = (vols w)(i := None)) \<and>
     (\<forall>s i. fails_unchanged vols (ap_volumeattach_Create api s i)) \<and>
     (\<forall>s i w u w'. ap_volumeattach_Create api s i w = (Ok u, w') \<longrightarrow> s \<noteq> '''' \<and>
        (\<exists>v st d. vols w i = Some v \<and> vols w' = (vols w)(i \<mapsto>
            v\<lparr> bv_Status := st, bv_Attachments := bv_Attachments v @ [\<lparr> ba_ServerID = s, ba_Device = d \<rparr>] \<rparr>))) \<and>
     (\<forall>s i. fails_unchanged vols (ap_volumeattach_Delete api s i)) \<and>
     (\<forall>s i w u w'. ap_volumeattach_Delete api s i w = (Ok u, w') \<longrightarrow>
        (\<exists>v st. vols w i = Some v \<and> vols w' = (vols w)(i \<mapsto>
            v\<lparr> bv_Status := st, bv_Attachments := filter (\<lambda>a. ba_ServerID a \<noteq> s) (bv_Attachments v) \<rparr>))) \<and>
     (\<forall>o'. reads vols (ap_snapshots_Create api o')) \<and>
     (\<forall>o'. reads vols (ap_snapshots_List api o')) \<and>
     (\<forall>i. reads vols (ap_snapshots_Get api i)) \<and>
     (\<forall>i. reads vols (ap_snapshots_Delete api i)) \<and>
     (\<exists>sleep. ap_Backoff api = backoff sleep \<and> (\<forall>w. still (vols w) (vols (sleep w))))"

text \<open>The instance a volume is attached to, the empty id if none.\<close>

definition vol_owner :: "block_volume \<Rightarrow> string" where
  "vol_owner v = (case bv_Attachments v of [] \<Rightarrow> '''' | a # _ \<Rightarrow> ba_ServerID a)"

definition owners :: "(string \<rightharpoonup> block_volume) \<Rightarrow> string \<rightharpoonup> string" where
  "owners m i = map_option vol_owner (m i)"

text \<open>
  Well-formed: the key is the id, no volume has two attachments, and an attachment names its
  instance.
\<close>

definition single_attached :: "(string \<rightharpoonup> block_volume) \<Rightarrow> bool" where
  "single_attached m \<longleftrightarrow> (\<forall>i v. m i = Some v \<longrightarrow> bv_ID v = i \<and> length (bv_Attachments v) \<le> 1 \<and>
     (\<forall>a \<in> set (bv_Attachments v). ba_ServerID a \<noteq> ''''))"

lemma still_refl [simp]: "still m m"
  by (simp add: still_def)

lemma still_trans: "still m m' \<Longrightarrow> still m' m'' \<Longrightarrow> still m m''"
  by (simp add: still_def)

lemma vol_owner_status [simp]: "vol_owner (v\<lparr> bv_Status := st \<rparr>) = vol_owner v"
  by (simp add: vol_owner_def)

lemma still_owners: "still m m' \<Longrightarrow> owners m' = owners m"
proof
  fix i
  assume "still m m'"
  then have "map_option vol_owner (map_option (bv_Status_update (\<lambda>_. '''')) (m' i)) =
      map_option vol_owner (map_option (bv_Status_update (\<lambda>_. '''')) (m i))"
    by (simp add: still_def)
  then show "owners m' i = owners m i"
    by (simp add: owners_def option.map_comp comp_def)
qed

lemma still_volume:
  assumes "still m m'" "m' i = Some v'"
  shows "\<exists>v. m i = Some v \<and> bv_ID v' = bv_ID v \<and> bv_Attachments v' = bv_Attachments v"
proof -
  have "map_option (bv_Status_update (\<lambda>_. '''')) (m' i) = map_option (bv_Status_update (\<lambda>_. '''')) (m i)"
    using assms(1) by (simp add: still_def)
  then obtain v where v: "m i = Some v" "bv_Status_update (\<lambda>_. '''') v' = bv_Status_update (\<lambda>_. '''') v"
    using assms(2) by (cases "m i") auto
  from arg_cong [OF v(2), of bv_ID] arg_cong [OF v(2), of bv_Attachments] v(1) show ?thesis
    by simp
qed

lemma still_single_attached: "still m m' \<Longrightarrow> single_attached m \<Longrightarrow> single_attached m'"
  unfolding single_attached_def by (metis still_volume)

lemma reads_keeps: "reads vols m \<Longrightarrow> keeps (\<lambda>w. still M (vols w)) m"
  by (auto simp: reads_def intro!: keepsI)

section \<open>The contract of \<open>IOpenStack\<close>\<close>

text \<open>
  What a client of \<open>IOpenStack\<close> may rely on. \<open>cloud e\<close> is the implementation made from \<open>e\<close>, \<open>fine e\<close>
  what it needs from below, \<open>vols e\<close> the volumes of the cloud.
\<close>

locale csi_cloud =
  fixes cloud :: "'e \<Rightarrow> 'w IOpenStack" and fine :: "'e \<Rightarrow> bool" and vols :: "'e \<Rightarrow> 'w \<Rightarrow> string \<rightharpoonup> block_volume"
  assumes by_name_reads: "fine e \<Longrightarrow> reads (vols e) (io_GetVolumesByName (cloud e) n)"
    and by_name: "fine e \<Longrightarrow> n \<noteq> '''' \<Longrightarrow> io_GetVolumesByName (cloud e) n w = (Ok vs, w') \<Longrightarrow>
      \<exists>bs. vs = map listed_volume bs \<and> distinct bs \<and> set bs = {v \<in> ran (vols e w). bv_Name v = n}"
    and create: "fine e \<Longrightarrow> io_CreateVolume (cloud e) n sz ty az sn tg w = (r, w') \<Longrightarrow>
      (case r of
         Ok (i, az', sz') \<Rightarrow> vols e w i = None \<and> sz' = sz \<and>
           (\<exists>v. bv_ID v = i \<and> bv_Name v = n \<and> bv_Size v = sz \<and> bv_AvailabilityZone v = az' \<and> bv_Attachments v = [] \<and>
              vols e w' = (vols e w)(i \<mapsto> v))
       | _ \<Rightarrow> vols e w' = vols e w)"
    and delete: "fine e \<Longrightarrow> io_DeleteVolume (cloud e) i w = (ru, w') \<Longrightarrow> single_attached (vols e w) \<Longrightarrow>
      vols e w' = vols e w \<or> owners (vols e w) i = Some '''' \<and> vols e w' = (vols e w)(i := None)"
    and attach: "fine e \<Longrightarrow> io_AttachVolume (cloud e) s i w = (rs, w') \<Longrightarrow> single_attached (vols e w) \<Longrightarrow>
      vols e w' = vols e w \<and> (is_ok rs \<longrightarrow> s \<noteq> '''' \<and> owners (vols e w) i = Some s) \<or>
      is_ok rs \<and> s \<noteq> '''' \<and> owners (vols e w) i = Some '''' \<and>
        (\<exists>v st d. vols e w i = Some v \<and> vols e w' = (vols e w)(i \<mapsto>
            v\<lparr> bv_Status := st, bv_Attachments := [\<lparr> ba_ServerID = s, ba_Device = d \<rparr>] \<rparr>))"
    and wait_attached: "fine e \<Longrightarrow> io_WaitDiskAttached (cloud e) s i w = (ru, w') \<Longrightarrow>
      still (vols e w) (vols e w') \<and> (is_ok ru \<longrightarrow> owners (vols e w') i = Some s)"
    and path_reads: "fine e \<Longrightarrow> reads (vols e) (io_GetAttachmentDiskPath (cloud e) s i)"
    and path: "fine e \<Longrightarrow> io_GetAttachmentDiskPath (cloud e) s i w = (Ok p, w') \<Longrightarrow>
      \<exists>v a as. vols e w i = Some v \<and> bv_Status v = ''in-use'' \<and> bv_Attachments v = a # as \<and>
        ba_ServerID a = s \<and> ba_Device a = p"
    and detach: "fine e \<Longrightarrow> io_DetachVolume (cloud e) s i w = (ru, w') \<Longrightarrow> single_attached (vols e w) \<Longrightarrow>
      vols e w' = vols e w \<or>
      owners (vols e w) i = Some s \<and>
        (\<exists>v st. vols e w i = Some v \<and> vols e w' = (vols e w)(i \<mapsto> v\<lparr> bv_Status := st, bv_Attachments := [] \<rparr>))"
    and wait_detached: "fine e \<Longrightarrow> io_WaitDiskDetached (cloud e) s i w = (ru, w') \<Longrightarrow>
      still (vols e w) (vols e w') \<and> (is_ok ru \<longrightarrow> (\<exists>s'. owners (vols e w') i = Some s' \<and> s' \<noteq> s))"
    and list_reads: "fine e \<Longrightarrow> reads (vols e) (io_ListVolumes (cloud e))"
    and snapshots_still: "fine e \<Longrightarrow> reads (vols e) (io_CreateSnapshot (cloud e) n i ds tg)"
      "fine e \<Longrightarrow> reads (vols e) (io_ListSnapshots (cloud e) l k f)"
      "fine e \<Longrightarrow> reads (vols e) (io_DeleteSnapshot (cloud e) i)"
      "fine e \<Longrightarrow> reads (vols e) (io_GetSnapshotByNameAndVolumeID (cloud e) n i)"
      "fine e \<Longrightarrow> io_WaitSnapshotReady (cloud e) i w = (ru, w') \<Longrightarrow> still (vols e w) (vols e w')"

section \<open>\<open>OpenStack\<close> implements the contract\<close>

lemma block_ok_laws:
  assumes "block_ok api vols"
  shows "\<forall>w i v. vols w i = Some v \<longrightarrow> bv_ID v = i"
    and "\<forall>n. reads vols (ap_volumes_List api n)"
    and "\<forall>n w vs w'. ap_volumes_List api n w = (Ok vs, w') \<longrightarrow>
        distinct vs \<and> set vs = {v \<in> ran (vols w). n = '''' \<or> bv_Name v = n}"
    and "\<forall>i. reads vols (ap_volumes_Get api i)"
    and "\<forall>i w v w'. ap_volumes_Get api i w = (Ok v, w') \<longrightarrow> vols w i = Some v"
    and "\<forall>o'. fails_unchanged vols (ap_volumes_Create api o')"
    and "\<forall>o' w v w'. ap_volumes_Create api o' w = (Ok v, w') \<longrightarrow>
        vols w (bv_ID v) = None \<and> bv_Name v = bo_Name o' \<and> bv_Size v = bo_Size o' \<and> bv_Attachments v = [] \<and>
        vols w' = (vols w)(bv_ID v \<mapsto> v)"
    and "\<forall>i. fails_unchanged vols (ap_volumes_Delete api i)"
    and "\<forall>i w u w'. ap_volumes_Delete api i w = (Ok u, w') \<longrightarrow> vols w' = (vols w)(i := None)"
    and "\<forall>s i. fails_unchanged vols (ap_volumeattach_Create api s i)"
    and "\<forall>s i w u w'. ap_volumeattach_Create api s i w = (Ok u, w') \<longrightarrow> s \<noteq> '''' \<and>
        (\<exists>v st d. vols w i = Some v \<and> vols w' = (vols w)(i \<mapsto>
            v\<lparr> bv_Status := st, bv_Attachments := bv_Attachments v @ [\<lparr> ba_ServerID = s, ba_Device = d \<rparr>] \<rparr>))"
    and "\<forall>s i. fails_unchanged vols (ap_volumeattach_Delete api s i)"
    and "\<forall>s i w u w'. ap_volumeattach_Delete api s i w = (Ok u, w') \<longrightarrow>
        (\<exists>v st. vols w i = Some v \<and> vols w' = (vols w)(i \<mapsto>
            v\<lparr> bv_Status := st, bv_Attachments := filter (\<lambda>a. ba_ServerID a \<noteq> s) (bv_Attachments v) \<rparr>))"
    and "\<forall>o'. reads vols (ap_snapshots_Create api o')"
    and "\<forall>o'. reads vols (ap_snapshots_List api o')"
    and "\<forall>i. reads vols (ap_snapshots_Get api i)"
    and "\<forall>i. reads vols (ap_snapshots_Delete api i)"
    and "\<exists>sleep. ap_Backoff api = backoff sleep \<and> (\<forall>w. still (vols w) (vols (sleep w)))"
  by (insert assms, unfold block_ok_def, (elim conjE, assumption)+)

lemmas block_okD = block_ok_laws [rule_format]

lemma csi_GetVolume_spec:
  assumes "block_ok api vols" "csi_GetVolume api i w = (r, w')"
  shows "vols w' = vols w"
    and "r = Ok c \<Longrightarrow> \<exists>v. vols w i = Some v \<and> cv_ID c = i \<and> cv_AttachedServerId c = vol_owner v \<and>
      cv_Status c = bv_Status v \<and> cv_AttachedDevice c = (case bv_Attachments v of [] \<Rightarrow> '''' | a # _ \<Rightarrow> ba_Device a)"
proof -
  show "vols w' = vols w"
    using assms(2) block_okD(4) [OF assms(1), of i]
    by (auto simp: csi_GetVolume_def Let_def reads_def bindE_def split: prod.splits result.splits)
  assume "r = Ok c"
  then obtain v where get: "ap_volumes_Get api i w = (Ok v, w')"
    and c: "c = (let volume = \<lparr> cv_AttachedServerId = '''', cv_AttachedDevice = '''', cv_ID = bv_ID v, cv_Name = bv_Name v,
                      cv_Status = bv_Status v, cv_Size = 0, cv_AZ = '''' \<rparr> in
       case bv_Attachments v of
              [] \<Rightarrow> volume
            | a # _ \<Rightarrow> volume\<lparr> cv_AttachedServerId := ba_ServerID a, cv_AttachedDevice := ba_Device a \<rparr>)"
    using assms(2) by (auto simp: csi_GetVolume_def bindE_eq_Ok Let_def)
  from block_okD(5) [OF assms(1) get] have "vols w i = Some v" .
  with block_okD(1) [OF assms(1) this] c
  show "\<exists>v. vols w i = Some v \<and> cv_ID c = i \<and> cv_AttachedServerId c = vol_owner v \<and>
      cv_Status c = bv_Status v \<and> cv_AttachedDevice c = (case bv_Attachments v of [] \<Rightarrow> '''' | a # _ \<Rightarrow> ba_Device a)"
    by (simp add: vol_owner_def split: list.splits)
qed

lemma reads_csi_GetVolume: "block_ok api vols \<Longrightarrow> reads vols (csi_GetVolume api i)"
  unfolding reads_def by (blast dest: csi_GetVolume_spec(1))

lemma reads_csi_diskIsAttached: "block_ok api vols \<Longrightarrow> reads vols (csi_diskIsAttached api s i)"
  unfolding csi_diskIsAttached_def by (intro reads_bindE reads_csi_GetVolume) simp_all

lemma csi_diskIsAttached_spec:
  assumes "block_ok api vols" "csi_diskIsAttached api s i w = (Ok b, w')"
  shows "vols w' = vols w \<and> (\<exists>s'. owners (vols w') i = Some s' \<and> b = (s = s'))"
proof -
  from assms(2) obtain c where get: "csi_GetVolume api i w = (Ok c, w')" and b: "b = (s = cv_AttachedServerId c)"
    by (auto simp: csi_diskIsAttached_def bindE_eq_Ok)
  from csi_GetVolume_spec(2) [OF assms(1) get refl] csi_GetVolume_spec(1) [OF assms(1) get] b
  show ?thesis by (auto simp: owners_def)
qed

lemma fails_unchangedD: "fails_unchanged vols m \<Longrightarrow> m w = (r, w') \<Longrightarrow> \<not> is_ok r \<Longrightarrow> vols w' = vols w"
  unfolding fails_unchanged_def by blast

lemma fails_unchanged_wrapE: "fails_unchanged vols m \<Longrightarrow> fails_unchanged vols (wrapE f m)"
  unfolding fails_unchanged_def by (auto simp: wrapE_def split: prod.splits result.splits)

lemma unattached: "vol_owner v = '''' \<Longrightarrow> single_attached m \<Longrightarrow> m i = Some v \<Longrightarrow> bv_Attachments v = []"
  by (cases "bv_Attachments v") (auto simp: vol_owner_def single_attached_def)

lemma attached_once:
  assumes "single_attached m" "m i = Some v"
  shows "filter (\<lambda>a. ba_ServerID a \<noteq> vol_owner v) (bv_Attachments v) = []"
  using assms unfolding single_attached_def vol_owner_def
  by (cases "bv_Attachments v") fastforce+

lemma csi_CreateVolume_law:
  assumes "block_ok api vols" "csi_CreateVolume api n sz ty az sn tg w = (r, w')"
  shows "case r of
      Ok (i, az', sz') \<Rightarrow> vols w i = None \<and> sz' = sz \<and>
        (\<exists>v. bv_ID v = i \<and> bv_Name v = n \<and> bv_Size v = sz \<and> bv_AvailabilityZone v = az' \<and> bv_Attachments v = [] \<and>
           vols w' = (vols w)(i \<mapsto> v))
    | _ \<Rightarrow> vols w' = vols w"
proof -
  let ?o = "\<lparr> bo_Name = n, bo_Size = sz, bo_VolumeType = ty, bo_AvailabilityZone = az,
          bo_Description = volumeDescription, bo_SnapshotID = sn, bo_Metadata = tg \<rparr>"
  obtain q w1 where call: "ap_volumes_Create api ?o w = (q, w1)" by (cases "ap_volumes_Create api ?o w")
  show ?thesis
  proof (cases q)
    case (Ok v)
    from block_okD(7) [OF assms(1) call [unfolded Ok]] assms(2) call Ok show ?thesis
      by (auto simp: csi_CreateVolume_def)
  next
    case (Err e)
    with fails_unchangedD [OF block_okD(6) [OF assms(1)] call] assms(2) call show ?thesis
      by (auto simp: csi_CreateVolume_def)
  next
    case (Panic p)
    with fails_unchangedD [OF block_okD(6) [OF assms(1)] call] assms(2) call show ?thesis
      by (auto simp: csi_CreateVolume_def)
  qed
qed

lemma csi_DeleteVolume_law:
  assumes "block_ok api vols" "csi_DeleteVolume api i w = (r, w')"
  shows "vols w' = vols w \<or> owners (vols w) i = Some '''' \<and> vols w' = (vols w)(i := None)"
proof (cases "csi_GetVolume api i w")
  case (Pair q w1)
  note get = csi_GetVolume_spec [OF assms(1) Pair]
  show ?thesis
  proof (cases "\<exists>c. q = Ok c \<and> cv_AttachedServerId c = ''''")
    case True
    then obtain c where c: "q = Ok c" "cv_AttachedServerId c = ''''" by blast
    then have own: "owners (vols w) i = Some ''''" using get(2) by (fastforce simp: owners_def)
    have del: "ap_volumes_Delete api i w1 = (r, w')"
      using assms(2) Pair c by (simp add: csi_DeleteVolume_def csi_diskIsUsed_def bindE_def)
    show ?thesis
    proof (cases r)
      case (Ok u)
      then show ?thesis using block_okD(9) [OF assms(1) del [unfolded Ok]] own get(1) by simp
    qed (use fails_unchangedD [OF block_okD(8) [OF assms(1)] del] get(1) in simp_all)
  next
    case False
    then show ?thesis
      using assms(2) Pair get(1)
      by (cases q) (auto simp: csi_DeleteVolume_def csi_diskIsUsed_def bindE_def)
  qed
qed

lemma csi_AttachVolume_law:
  assumes "block_ok api vols" "csi_AttachVolume api s i w = (r, w')" "single_attached (vols w)"
  shows "vols w' = vols w \<and> (is_ok r \<longrightarrow> s \<noteq> '''' \<and> owners (vols w) i = Some s) \<or>
      is_ok r \<and> s \<noteq> '''' \<and> owners (vols w) i = Some '''' \<and>
        (\<exists>v st d. vols w i = Some v \<and> vols w' = (vols w)(i \<mapsto>
            v\<lparr> bv_Status := st, bv_Attachments := [\<lparr> ba_ServerID = s, ba_Device = d \<rparr>] \<rparr>))"
proof (cases "csi_GetVolume api i w")
  case (Pair q w1)
  note get = csi_GetVolume_spec [OF assms(1) Pair]
  show ?thesis
  proof (cases "\<exists>c. q = Ok c \<and> cv_AttachedServerId c = ''''")
    case True
    then obtain c where c: "q = Ok c" "cv_AttachedServerId c = ''''" by blast
    then obtain v where v: "vols w i = Some v" "vol_owner v = ''''" "cv_ID c = i" using get(2) by fastforce
    from unattached [OF v(2) assms(3) v(1)] have none: "bv_Attachments v = []" .
    obtain q2 w2 where att: "ap_volumeattach_Create api s i w1 = (q2, w2)" by (cases "ap_volumeattach_Create api s i w1")
    show ?thesis
    proof (cases q2)
      case (Ok u)
      have "r = Ok i" "w' = w2"
        using assms(2) Pair c att Ok v(3) by (auto simp: csi_AttachVolume_def wrapE_def bindE_def)
      then show ?thesis
        using block_okD(11) [OF assms(1) att [unfolded Ok]] none v get(1) by (auto simp: owners_def)
    next
      case (Err e)
      then show ?thesis
        using assms(2) Pair c att v(3) get(1) fails_unchangedD [OF block_okD(10) [OF assms(1)] att]
        by (auto simp: csi_AttachVolume_def wrapE_def bindE_def)
    next
      case (Panic p)
      then show ?thesis
        using assms(2) Pair c att v(3) get(1) fails_unchangedD [OF block_okD(10) [OF assms(1)] att]
        by (auto simp: csi_AttachVolume_def wrapE_def bindE_def)
    qed
  next
    case False
    then show ?thesis
      using assms(2) Pair get
      by (cases q) (auto simp: csi_AttachVolume_def owners_def split: if_splits)
  qed
qed

lemma csi_DetachVolume_law:
  assumes "block_ok api vols" "csi_DetachVolume api s i w = (r, w')" "single_attached (vols w)"
  shows "vols w' = vols w \<or> owners (vols w) i = Some s \<and>
        (\<exists>v st. vols w i = Some v \<and> vols w' = (vols w)(i \<mapsto> v\<lparr> bv_Status := st, bv_Attachments := [] \<rparr>))"
proof (cases "csi_GetVolume api i w")
  case (Pair q w1)
  note get = csi_GetVolume_spec [OF assms(1) Pair]
  show ?thesis
  proof (cases "\<exists>c. q = Ok c \<and> cv_Status c = VolumeInUseStatus \<and> cv_AttachedServerId c = s")
    case True
    then obtain c where c: "q = Ok c" "cv_Status c = VolumeInUseStatus" "cv_AttachedServerId c = s" by blast
    then obtain v where v: "vols w i = Some v" "vol_owner v = s" "cv_ID c = i" using get(2) by fastforce
    from attached_once [OF assms(3) v(1)] v(2)
    have none: "filter (\<lambda>a. ba_ServerID a \<noteq> s) (bv_Attachments v) = []" by simp
    obtain q2 w2 where det: "ap_volumeattach_Delete api s i w1 = (q2, w2)" by (cases "ap_volumeattach_Delete api s i w1")
    have run: "is_ok q2 = is_ok r" "w' = w2"
      using assms(2) Pair c det v(3)
      by (auto simp: csi_DetachVolume_def wrapE_def VolumeInUseStatus_def VolumeAvailableStatus_def split: result.splits)
    show ?thesis
    proof (cases q2)
      case (Ok u)
      then show ?thesis
        using block_okD(13) [OF assms(1) det [unfolded Ok]] none v get(1) run by (auto simp: owners_def)
    qed (use run get(1) fails_unchangedD [OF block_okD(12) [OF assms(1)] det] in simp_all)
  next
    case False
    then show ?thesis
      using assms(2) Pair get(1) by (cases q) (auto simp: csi_DetachVolume_def split: if_splits)
  qed
qed

lemma keeps_stillD: "(\<And>M. keeps (\<lambda>w. still M (vols w)) m) \<Longrightarrow> m w = (r, w') \<Longrightarrow> still (vols w) (vols w')"
  unfolding keeps_def by (metis snd_conv still_refl)

lemma keeps_api_Backoff:
  assumes "block_ok api vols" "reads vols c"
  shows "keeps (\<lambda>w. still M (vols w)) (ap_Backoff api n c)"
proof -
  obtain sleep where sleep: "ap_Backoff api = backoff sleep" "\<And>w. still (vols w) (vols (sleep w))"
    using block_okD(18) [OF assms(1)] by blast
  show ?thesis
    unfolding sleep(1) by (intro keeps_backoff reads_keeps assms(2)) (blast intro: still_trans sleep(2))
qed

lemma api_Backoff_Ok:
  "block_ok api vols \<Longrightarrow> ap_Backoff api n c w = (Ok u, w') \<Longrightarrow> \<exists>w0. c w0 = (Ok True, w')"
  using block_okD(18) [of api vols] by (metis backoff_Ok)

lemma reads_attached_condition: "block_ok api vols \<Longrightarrow> reads vols (attached_condition api s i)"
  unfolding attached_condition_def
  by (intro reads_bindE reads_attempt reads_csi_diskIsAttached) (auto split: sum.splits)

lemma reads_detached_condition: "block_ok api vols \<Longrightarrow> reads vols (detached_condition api s i)"
  unfolding detached_condition_def by (intro reads_bindE reads_csi_diskIsAttached) auto

lemma csi_WaitDiskAttached_law:
  assumes "block_ok api vols" "csi_WaitDiskAttached api s i w = (r, w')"
  shows "still (vols w) (vols w') \<and> (is_ok r \<longrightarrow> owners (vols w') i = Some s)"
proof
  have "keeps (\<lambda>w'. still M (vols w')) (csi_WaitDiskAttached api s i)" for M
    unfolding csi_WaitDiskAttached_def
    by (intro keeps_on_timeout keeps_api_Backoff reads_attached_condition assms(1))
  from keeps_stillD [OF this assms(2)] show "still (vols w) (vols w')" .
  show "is_ok r \<longrightarrow> owners (vols w') i = Some s"
  proof
    assume "is_ok r"
    then have "ap_Backoff api diskAttachSteps (attached_condition api s i) w = (Ok (), w')"
      using assms(2) by (auto simp: csi_WaitDiskAttached_def is_ok_iff)
    from api_Backoff_Ok [OF assms(1) this] obtain w0 where "attached_condition api s i w0 = (Ok True, w')" ..
    then have "csi_diskIsAttached api s i w0 = (Ok True, w')"
      by (auto simp: attached_condition_def bindE_attempt_eq_Ok split: if_splits)
    from csi_diskIsAttached_spec [OF assms(1) this] show "owners (vols w') i = Some s" by auto
  qed
qed

lemma csi_WaitDiskDetached_law:
  assumes "block_ok api vols" "csi_WaitDiskDetached api s i w = (r, w')"
  shows "still (vols w) (vols w') \<and> (is_ok r \<longrightarrow> (\<exists>s'. owners (vols w') i = Some s' \<and> s' \<noteq> s))"
proof
  have "keeps (\<lambda>w'. still M (vols w')) (csi_WaitDiskDetached api s i)" for M
    unfolding csi_WaitDiskDetached_def
    by (intro keeps_on_timeout keeps_api_Backoff reads_detached_condition assms(1))
  from keeps_stillD [OF this assms(2)] show "still (vols w) (vols w')" .
  show "is_ok r \<longrightarrow> (\<exists>s'. owners (vols w') i = Some s' \<and> s' \<noteq> s)"
  proof
    assume "is_ok r"
    then have "ap_Backoff api diskDetachSteps (detached_condition api s i) w = (Ok (), w')"
      using assms(2) by (auto simp: csi_WaitDiskDetached_def is_ok_iff)
    from api_Backoff_Ok [OF assms(1) this] obtain w0 where "detached_condition api s i w0 = (Ok True, w')" ..
    then have "csi_diskIsAttached api s i w0 = (Ok False, w')"
      by (auto simp: detached_condition_def bindE_eq_Ok)
    from csi_diskIsAttached_spec [OF assms(1) this]
    show "\<exists>s'. owners (vols w') i = Some s' \<and> s' \<noteq> s" by auto
  qed
qed

lemma csi_WaitSnapshotReady_law:
  assumes "block_ok api vols" "csi_WaitSnapshotReady api i w = (r, w')"
  shows "still (vols w) (vols w')"
proof -
  have "reads vols (csi_snapshotIsReady api i)"
    unfolding csi_snapshotIsReady_def csi_GetSnapshotByID_def
    by (intro reads_bindE block_okD(16) assms(1)) simp
  then have "keeps (\<lambda>w'. still M (vols w')) (csi_WaitSnapshotReady api i)" for M
    unfolding csi_WaitSnapshotReady_def by (intro keeps_on_timeout keeps_api_Backoff assms(1))
  from keeps_stillD [OF this assms(2)] show ?thesis .
qed

lemma csi_GetAttachmentDiskPath_law:
  assumes "block_ok api vols" "csi_GetAttachmentDiskPath api s i w = (Ok p, w')"
  shows "\<exists>v a as. vols w i = Some v \<and> bv_Status v = ''in-use'' \<and> bv_Attachments v = a # as \<and>
    ba_ServerID a = s \<and> ba_Device a = p"
proof -
  from assms(2) obtain c where get: "csi_GetVolume api i w = (Ok c, w')"
    and c: "cv_Status c = VolumeInUseStatus" "cv_AttachedServerId c \<noteq> ''''" "s = cv_AttachedServerId c" "p = cv_AttachedDevice c"
    by (auto simp: csi_GetAttachmentDiskPath_def bindE_eq_Ok split: if_splits)
  from csi_GetVolume_spec(2) [OF assms(1) get refl] obtain v where "vols w i = Some v"
    "cv_AttachedServerId c = vol_owner v" "cv_Status c = bv_Status v"
    "cv_AttachedDevice c = (case bv_Attachments v of [] \<Rightarrow> '''' | a # _ \<Rightarrow> ba_Device a)" by blast
  with c show ?thesis
    by (cases "bv_Attachments v") (auto simp: vol_owner_def VolumeInUseStatus_def)
qed

interpretation csi: csi_cloud "\<lambda>e. csi_OpenStack (fst e)" "\<lambda>e. block_ok (fst e) (snd e)" snd
proof (unfold_locales, goal_cases)
  case (1 e n)
  then show ?case
    unfolding csi_OpenStack_def IOpenStack.simps csi_GetVolumesByName_def
    by (intro reads_bindE block_okD(2)) simp_all
next
  case (2 e n w vs w')
  from 2(3) obtain bs where "ap_volumes_List (fst e) n w = (Ok bs, w')" "vs = map listed_volume bs"
    by (auto simp: csi_OpenStack_def csi_GetVolumesByName_def bindE_eq_Ok)
  with block_okD(3) [OF 2(1)] 2(2) show ?case by blast
next
  case (3 e n sz ty az sn tg w r w')
  then show ?case using csi_CreateVolume_law [of "fst e" "snd e"] by (simp add: csi_OpenStack_def)
next
  case (4 e i w ru w')
  then show ?case using csi_DeleteVolume_law [of "fst e" "snd e"] by (simp add: csi_OpenStack_def)
next
  case (5 e s i w rs w')
  then show ?case using csi_AttachVolume_law [of "fst e" "snd e"] by (simp add: csi_OpenStack_def)
next
  case (6 e s i w ru w')
  then show ?case using csi_WaitDiskAttached_law [of "fst e" "snd e"] by (simp add: csi_OpenStack_def)
next
  case (7 e s i)
  then show ?case
    unfolding csi_OpenStack_def IOpenStack.simps csi_GetAttachmentDiskPath_def
    by (intro reads_bindE reads_csi_GetVolume) simp_all
next
  case (8 e s i w p w')
  then show ?case using csi_GetAttachmentDiskPath_law [of "fst e" "snd e"] by (simp add: csi_OpenStack_def)
next
  case (9 e s i w ru w')
  then show ?case using csi_DetachVolume_law [of "fst e" "snd e"] by (simp add: csi_OpenStack_def)
next
  case (10 e s i w ru w')
  then show ?case using csi_WaitDiskDetached_law [of "fst e" "snd e"] by (simp add: csi_OpenStack_def)
next
  case (11 e)
  then show ?case
    unfolding csi_OpenStack_def IOpenStack.simps csi_ListVolumes_def
    by (intro reads_bindE block_okD(2)) simp_all
next
  case (12 e n i ds tg)
  then show ?case by (simp add: csi_OpenStack_def csi_CreateSnapshot_def block_okD(14))
next
  case (13 e l k f)
  then show ?case by (simp add: csi_OpenStack_def csi_ListSnapshots_def block_okD(15))
next
  case (14 e i)
  then show ?case by (simp add: csi_OpenStack_def csi_DeleteSnapshot_def block_okD(17))
next
  case (15 e n i)
  then show ?case by (simp add: csi_OpenStack_def csi_GetSnapshotByNameAndVolumeID_def block_okD(15))
next
  case (16 e i w ru w')
  then show ?case using csi_WaitSnapshotReady_law [of "fst e" "snd e"] by (simp add: csi_OpenStack_def)
qed

section \<open>An in-memory block storage\<close>

text \<open>A list of volumes; the newest entry of an id counts.\<close>

definition mb_vols :: "block_volume list \<Rightarrow> string \<rightharpoonup> block_volume" where
  "mb_vols w = map_of (map (\<lambda>v. (bv_ID v, v)) w)"

definition mb_fresh :: "block_volume list \<Rightarrow> string" where
  "mb_fresh w = concat (map bv_ID w) @ ''v''"

definition mb_set :: "string \<Rightarrow> string \<Rightarrow> block_attachment list \<Rightarrow> (block_volume list, unit) io" where
  "mb_set i st as w =
     (case mb_vols w i of
        None \<Rightarrow> (Err ErrDefault404, w)
      | Some v \<Rightarrow> (Ok (), v\<lparr> bv_Status := st, bv_Attachments := as \<rparr> # w))"

definition mem_block :: "block_volume list block_api" where
  "mem_block = \<lparr>
     ap_volumes_Create = (\<lambda>o' w. let v = \<lparr> bv_ID = mb_fresh w, bv_Name = bo_Name o', bv_Status = ''available'',
       bv_Size = bo_Size o', bv_AvailabilityZone = bo_AvailabilityZone o', bv_Attachments = [] \<rparr> in (Ok v, v # w)),
     ap_volumes_List = (\<lambda>n w. (Ok (filter (\<lambda>v. n = '''' \<or> bv_Name v = n)
       (map (\<lambda>i. the (mb_vols w i)) (remdups (map bv_ID w)))), w)),
     ap_volumes_Get = (\<lambda>i w. case mb_vols w i of None \<Rightarrow> (Err ErrDefault404, w) | Some v \<Rightarrow> (Ok v, w)),
     ap_volumes_Delete = (\<lambda>i w. (Ok (), filter (\<lambda>v. bv_ID v \<noteq> i) w)),
     ap_volumeattach_Create = (\<lambda>s i w.
       if s = '''' then (Err ErrDefault404, w)
       else mb_set i ''in-use'' ((case mb_vols w i of None \<Rightarrow> [] | Some v \<Rightarrow> bv_Attachments v) @
                                   [\<lparr> ba_ServerID = s, ba_Device = ''/dev/vdb'' \<rparr>]) w),
     ap_volumeattach_Delete = (\<lambda>s i w.
       mb_set i ''available'' (filter (\<lambda>a. ba_ServerID a \<noteq> s) (case mb_vols w i of None \<Rightarrow> [] | Some v \<Rightarrow> bv_Attachments v)) w),
     ap_snapshots_Create = (\<lambda>o' w. (Ok \<lparr> bs_ID = ''s'', bs_Name = so_Name o', bs_VolumeID = so_VolumeID o',
       bs_Status = ''available'', bs_Size = 1, bs_CreatedAt = 0 \<rparr>, w)),
     ap_snapshots_List = (\<lambda>_ w. (Ok [], w)),
     ap_snapshots_Get = (\<lambda>i w. (Err ErrDefault404, w)),
     ap_snapshots_Delete = (\<lambda>_ w. (Ok (), w)),
     ap_Backoff = backoff (\<lambda>w. w) \<rparr>"

lemma mb_vols_Cons [simp]: "mb_vols (v # w) = (mb_vols w)(bv_ID v \<mapsto> v)"
  by (simp add: mb_vols_def)

lemma mb_vols_id: "mb_vols w i = Some v \<Longrightarrow> bv_ID v = i"
  by (auto simp: mb_vols_def dest: map_of_SomeD)

lemma mb_vols_None: "mb_vols w i = None \<longleftrightarrow> i \<notin> bv_ID ` set w"
  by (simp add: mb_vols_def map_of_eq_None_iff image_comp comp_def)

lemma mb_fresh: "mb_vols w (mb_fresh w) = None"
proof -
  have "length (bv_ID v) < length (mb_fresh w)" if "v \<in> set w" for v
  proof -
    have "length (bv_ID v) \<le> length (concat (map bv_ID w))"
      using that by (induction w) auto
    then show ?thesis by (simp add: mb_fresh_def)
  qed
  then show ?thesis unfolding mb_vols_None by fastforce
qed

lemma mb_vols_delete: "mb_vols (filter (\<lambda>v. bv_ID v \<noteq> i) w) = (mb_vols w)(i := None)"
  by (induction w) (auto simp: mb_vols_def)

lemma mb_listed:
  "distinct (map (\<lambda>i. the (mb_vols w i)) (remdups (map bv_ID w)))"
  "set (map (\<lambda>i. the (mb_vols w i)) (remdups (map bv_ID w))) = ran (mb_vols w)"
proof -
  have some: "\<exists>v. mb_vols w i = Some v" if "i \<in> bv_ID ` set w" for i
    using that mb_vols_None [of w i] by (cases "mb_vols w i") auto
  show "distinct (map (\<lambda>i. the (mb_vols w i)) (remdups (map bv_ID w)))"
    unfolding distinct_map
    by (auto intro!: inj_onI) (metis image_eqI mb_vols_id option.sel some)
  show "set (map (\<lambda>i. the (mb_vols w i)) (remdups (map bv_ID w))) = ran (mb_vols w)"
  proof
    show "set (map (\<lambda>i. the (mb_vols w i)) (remdups (map bv_ID w))) \<subseteq> ran (mb_vols w)"
      using some by (fastforce simp: ran_def)
    show "ran (mb_vols w) \<subseteq> set (map (\<lambda>i. the (mb_vols w i)) (remdups (map bv_ID w)))"
    proof
      fix v
      assume "v \<in> ran (mb_vols w)"
      then obtain i where i: "mb_vols w i = Some v" by (auto simp: ran_def)
      then have "i \<in> bv_ID ` set w" using mb_vols_None [of w i] by auto
      then show "v \<in> set (map (\<lambda>i. the (mb_vols w i)) (remdups (map bv_ID w)))"
        using i by (auto intro!: image_eqI [where x = i])
    qed
  qed
qed

lemma mb_set_spec:
  "mb_set i st as w = (r, w') \<Longrightarrow> (\<not> is_ok r \<and> mb_vols w' = mb_vols w) \<or>
     (r = Ok () \<and> (\<exists>v. mb_vols w i = Some v \<and> mb_vols w' = (mb_vols w)(i \<mapsto> v\<lparr> bv_Status := st, bv_Attachments := as \<rparr>)))"
  by (auto simp: mb_set_def split: option.splits dest: mb_vols_id)

lemma mem_block_ok: "block_ok mem_block mb_vols"
  unfolding block_ok_def
proof (intro conjI allI impI, goal_cases)
  case (3 n w vs w')
  then show ?case using mb_listed [of w] by (auto simp: mem_block_def)
next
  case (4 n w vs w')
  then show ?case using mb_listed [of w] by (auto simp: mem_block_def)
next
  case (8 o' w v w')
  then show ?case by (auto simp: mem_block_def mb_fresh Let_def)
next
  case (14 i w u w')
  then show ?case by (auto simp: mem_block_def mb_vols_delete)
next
  case (17 s i w u w')
  then obtain v where "mb_vols w i = Some v" "mb_vols w' = (mb_vols w)(i \<mapsto>
      v\<lparr> bv_Status := ''in-use'', bv_Attachments := bv_Attachments v @ [\<lparr> ba_ServerID = s, ba_Device = ''/dev/vdb'' \<rparr>] \<rparr>)"
    by (auto simp: mem_block_def split: if_splits dest!: mb_set_spec)
  then show ?case by blast
qed (auto simp: mem_block_def reads_def fails_unchanged_def mb_vols_id Let_def mb_fresh split: if_splits option.splits
   dest!: mb_set_spec)

end
