(* ===== verification/Csi_Driver.thy ===== *)
theory Csi_Driver
  imports Csi_Openstack
begin

text \<open>
  The frame of the Cinder CSI driver: \<open>pkg/csi/cinder/driver.go\<close> (the driver and the capabilities
  it advertises), \<open>identityserver.go\<close>, \<open>utils.go\<close> and the part of \<open>server.go\<close> before the listener
  is handed to gRPC.
\<close>

section \<open>The driver\<close>

datatype ControllerCap =
    CS_UNKNOWN | CS_CREATE_DELETE_VOLUME | CS_PUBLISH_UNPUBLISH_VOLUME | CS_LIST_VOLUMES | CS_GET_CAPACITY
  | CS_CREATE_DELETE_SNAPSHOT | CS_LIST_SNAPSHOTS | CS_CLONE_VOLUME | CS_PUBLISH_READONLY | CS_EXPAND_VOLUME

datatype NodeCap = NS_UNKNOWN | NS_STAGE_UNSTAGE_VOLUME | NS_GET_VOLUME_STATS | NS_EXPAND_VOLUME

datatype AccessMode =
    AM_UNKNOWN | AM_SINGLE_NODE_WRITER | AM_SINGLE_NODE_READER_ONLY | AM_MULTI_NODE_READER_ONLY
  | AM_MULTI_NODE_SINGLE_WRITER | AM_MULTI_NODE_MULTI_WRITER

datatype PluginCap = PC_UNKNOWN | PC_CONTROLLER_SERVICE | PC_VOLUME_ACCESSIBILITY_CONSTRAINTS

record CinderDriver =
  cd_name :: string
  cd_nodeID :: string
  cd_version :: string
  cd_endpoint :: string
  cd_cluster :: string
  cd_vcap :: "AccessMode list"
  cd_cscap :: "ControllerCap list"
  cd_nscap :: "NodeCap list"

definition driverName :: string where "driverName = ''cinder.csi.openstack.org''"
definition topologyKey :: string where "topologyKey = ''topology.'' @ driverName @ ''/zone''"
definition driver_version :: string where "driver_version = ''1.0.0''"

definition AddControllerServiceCapabilities :: "ControllerCap list \<Rightarrow> CinderDriver \<Rightarrow> CinderDriver" where
  "AddControllerServiceCapabilities cl d = d\<lparr> cd_cscap := cl \<rparr>"

definition AddVolumeCapabilityAccessModes :: "AccessMode list \<Rightarrow> CinderDriver \<Rightarrow> CinderDriver" where
  "AddVolumeCapabilityAccessModes vc d = d\<lparr> cd_vcap := vc \<rparr>"

definition AddNodeServiceCapabilities :: "NodeCap list \<Rightarrow> CinderDriver \<Rightarrow> CinderDriver" where
  "AddNodeServiceCapabilities nl d = d\<lparr> cd_nscap := nl \<rparr>"

definition NewDriver :: "string \<Rightarrow> string \<Rightarrow> string \<Rightarrow> CinderDriver" where
  "NewDriver nodeID endpoint cluster =
     AddNodeServiceCapabilities [NS_STAGE_UNSTAGE_VOLUME]
    (AddVolumeCapabilityAccessModes [AM_SINGLE_NODE_WRITER]
    (AddControllerServiceCapabilities
       [CS_LIST_VOLUMES, CS_CREATE_DELETE_VOLUME, CS_PUBLISH_UNPUBLISH_VOLUME, CS_CREATE_DELETE_SNAPSHOT, CS_LIST_SNAPSHOTS]
       \<lparr> cd_name = driverName, cd_nodeID = nodeID, cd_version = driver_version, cd_endpoint = endpoint,
         cd_cluster = cluster, cd_vcap = [], cd_cscap = [], cd_nscap = [] \<rparr>))"

fun cap_name :: "ControllerCap \<Rightarrow> string" where
  "cap_name CS_UNKNOWN = ''UNKNOWN''"
| "cap_name CS_CREATE_DELETE_VOLUME = ''CREATE_DELETE_VOLUME''"
| "cap_name CS_PUBLISH_UNPUBLISH_VOLUME = ''PUBLISH_UNPUBLISH_VOLUME''"
| "cap_name CS_LIST_VOLUMES = ''LIST_VOLUMES''"
| "cap_name CS_GET_CAPACITY = ''GET_CAPACITY''"
| "cap_name CS_CREATE_DELETE_SNAPSHOT = ''CREATE_DELETE_SNAPSHOT''"
| "cap_name CS_LIST_SNAPSHOTS = ''LIST_SNAPSHOTS''"
| "cap_name CS_CLONE_VOLUME = ''CLONE_VOLUME''"
| "cap_name CS_PUBLISH_READONLY = ''PUBLISH_READONLY''"
| "cap_name CS_EXPAND_VOLUME = ''EXPAND_VOLUME''"

fun has_cap :: "ControllerCap \<Rightarrow> ControllerCap list \<Rightarrow> bool" where
  "has_cap c [] = False"
| "has_cap c (cap # caps) = (if c = cap then True else has_cap c caps)"

definition ValidateControllerServiceRequest :: "CinderDriver \<Rightarrow> ControllerCap \<Rightarrow> unit result" where
  "ValidateControllerServiceRequest d c =
     (if c = CS_UNKNOWN then Ok ()
      else if has_cap c (cd_cscap d) then Ok ()
      else Err (GrpcStatus ''InvalidArgument'' (errors_New (cap_name c))))"

definition GetVolumeCapabilityAccessModes :: "CinderDriver \<Rightarrow> AccessMode list" where
  "GetVolumeCapabilityAccessModes d = cd_vcap d"

section \<open>The identity server\<close>

definition GetPluginInfo :: "CinderDriver \<Rightarrow> (string \<times> string) result" where
  "GetPluginInfo d =
     (if cd_name d = '''' then Err (GrpcStatus ''Unavailable'' (errors_New ''Driver name not configured''))
      else if cd_version d = '''' then Err (GrpcStatus ''Unavailable'' (errors_New ''Driver is missing version''))
      else Ok (cd_name d, cd_version d))"

definition Probe :: "('w, 'prov, 'pool, 'client) provider_api \<Rightarrow> ('client csi_globals \<times> 'w, unit) io" where
  "Probe lib =
     wrapE (\<lambda>_. GrpcStatus ''FailedPrecondition'' (errors_New ''Failed to communicate with openstack''))
       (bindE (CreateOpenStackProvider lib) (\<lambda>_. ret ()))"

definition GetPluginCapabilities :: "PluginCap list" where
  "GetPluginCapabilities = [PC_CONTROLLER_SERVICE, PC_VOLUME_ACCESSIBILITY_CONSTRAINTS]"

section \<open>The endpoint\<close>

definition ParseEndpoint :: "string \<Rightarrow> (string \<times> string) result" where
  "ParseEndpoint ep =
     (if HasPrefix (ToLower ep) ''unix://'' \<or> HasPrefix (ToLower ep) ''tcp://'' then
        let s = SplitN2 ep ''://'' in
        if s ! 1 \<noteq> '''' then Ok (s ! 0, s ! 1)
        else Err (Errorf ''Invalid endpoint: %v'' [FStr ep])
      else Err (Errorf ''Invalid endpoint: %v'' [FStr ep]))"

text \<open>
  The part of \<open>serve\<close> up to the listener: \<open>klog.Fatal\<close> ends the process, a \<open>Panic\<close> here;
  \<open>Remove\<close> answers \<open>None\<close> where \<open>os.IsNotExist\<close> holds of its error.
\<close>

definition serve_listen ::
  "(string \<Rightarrow> ('w, unit option) io) \<Rightarrow> (string \<Rightarrow> string \<Rightarrow> ('w, 'l) io) \<Rightarrow> string \<Rightarrow> ('w, 'l) io" where
  "serve_listen Remove net_Listen endpoint =
     (case ParseEndpoint endpoint of
        Err e \<Rightarrow> crash ''Invalid endpoint''
      | Panic p \<Rightarrow> crash p
      | Ok (proto, addr) \<Rightarrow>
          let addr' = (if proto = ''unix'' then ''/'' @ addr else addr) in
          bindE (if proto = ''unix'' then attempt (Remove addr') else ret (Inr None)) (\<lambda>r.
            case r of
              Inl _ \<Rightarrow> crash ''Failed to remove''
            | Inr _ \<Rightarrow>
                bindE (attempt (net_Listen proto addr')) (\<lambda>l.
                  case l of
                    Inl _ \<Rightarrow> crash ''Failed to listen''
                  | Inr listener \<Rightarrow> ret listener)))"

section \<open>Properties\<close>

lemma has_cap_iff: "has_cap c cs \<longleftrightarrow> c \<in> set cs"
  by (induction cs) auto

text \<open>A request is let through exactly if its capability is advertised (or is the unknown one).\<close>

lemma ValidateControllerServiceRequest_iff:
  "ValidateControllerServiceRequest (NewDriver n e c) cap = Ok () \<longleftrightarrow>
     cap \<in> {CS_UNKNOWN, CS_LIST_VOLUMES, CS_CREATE_DELETE_VOLUME, CS_PUBLISH_UNPUBLISH_VOLUME, CS_CREATE_DELETE_SNAPSHOT, CS_LIST_SNAPSHOTS}"
  by (cases cap)
    (simp_all add: ValidateControllerServiceRequest_def NewDriver_def AddNodeServiceCapabilities_def
      AddVolumeCapabilityAccessModes_def AddControllerServiceCapabilities_def)

lemma GetPluginInfo_NewDriver: "GetPluginInfo (NewDriver n e c) = Ok (driverName, ''1.0.0'')"
  by (simp add: GetPluginInfo_def NewDriver_def AddNodeServiceCapabilities_def driverName_def driver_version_def
      AddVolumeCapabilityAccessModes_def AddControllerServiceCapabilities_def)

end
