(* ===== verification/Csi_Controller.thy ===== *)
theory Csi_Controller
  imports Csi_Driver Volume_Util
begin

text \<open>
  The controller server of the Cinder CSI driver, \<open>pkg/csi/cinder/controllerserver.go\<close>: one
  definition per RPC, on the interface \<open>IOpenStack\<close>. The request and response messages are records
  of the fields the code reads and writes; the conversion of a time to a protobuf timestamp is a
  parameter, which gives nothing for a time out of its range.
\<close>

section \<open>Messages\<close>

record TopologyRequirement =
  tr_Preferred :: "(string \<rightharpoonup> string) list"
  tr_Requisite :: "(string \<rightharpoonup> string) list"

datatype VolumeContentSource = SnapshotSource string | OtherSource

record CreateVolumeRequest =
  cr_Name :: string
  cr_CapacityRange :: "int option"
  cr_Parameters :: "string \<rightharpoonup> string"
  cr_AccessibilityRequirements :: "TopologyRequirement option"
  cr_VolumeContentSource :: "VolumeContentSource option"

record csi_VolumeMsg =
  vm_VolumeId :: string
  vm_CapacityBytes :: int
  vm_AccessibleTopology :: "(string \<rightharpoonup> string) list"
  vm_ContentSource :: "VolumeContentSource option"

record CreateSnapshotRequest =
  cs_Name :: string
  cs_SourceVolumeId :: string
  cs_Parameters :: "string \<rightharpoonup> string"

record 'ts csi_SnapshotMsg =
  sm_SnapshotId :: string
  sm_SizeBytes :: int
  sm_SourceVolumeId :: string
  sm_CreationTime :: "'ts option"
  sm_ReadyToUse :: bool

definition map_get :: "(string \<rightharpoonup> string) \<Rightarrow> string \<Rightarrow> string" where
  "map_get m k = (case m k of None \<Rightarrow> '''' | Some v \<Rightarrow> v)"

text \<open>\<open>int64(n * 1024 * 1024 * 1024)\<close>\<close>

definition gib_bytes :: "int \<Rightarrow> int" where
  "gib_bytes n = wrap64 (n * GIB)"

fun zone_of :: "(string \<rightharpoonup> string) list \<Rightarrow> string option" where
  "zone_of [] = None"
| "zone_of (topology # topologies) =
     (case topology topologyKey of Some zone \<Rightarrow> Some zone | None \<Rightarrow> zone_of topologies)"

definition getAZFromTopology :: "TopologyRequirement \<Rightarrow> string" where
  "getAZFromTopology requirement =
     (case zone_of (tr_Preferred requirement) of
        Some zone \<Rightarrow> zone
      | None \<Rightarrow> (case zone_of (tr_Requisite requirement) of Some zone \<Rightarrow> zone | None \<Rightarrow> ''''))"

section \<open>Volumes\<close>

definition requested_zone :: "CreateVolumeRequest \<Rightarrow> string" where
  "requested_zone req =
     (let volAvailability =
            (case cr_AccessibilityRequirements req of None \<Rightarrow> '''' | Some r \<Rightarrow> getAZFromTopology r)
      in if volAvailability = '''' then map_get (cr_Parameters req) ''availability'' else volAvailability)"

definition requested_bytes :: "CreateVolumeRequest \<Rightarrow> int" where
  "requested_bytes req = (case cr_CapacityRange req of None \<Rightarrow> GIB | Some required \<Rightarrow> required)"

definition snapshot_of :: "VolumeContentSource option \<Rightarrow> string" where
  "snapshot_of content = (case content of Some (SnapshotSource s) \<Rightarrow> s | _ \<Rightarrow> '''')"

definition created_response :: "string \<Rightarrow> string \<Rightarrow> int \<Rightarrow> string \<Rightarrow> csi_VolumeMsg" where
  "created_response resID resAvailability resSize snapshotID =
     \<lparr> vm_VolumeId = resID, vm_CapacityBytes = gib_bytes resSize,
       vm_AccessibleTopology = [[topologyKey \<mapsto> resAvailability]],
       vm_ContentSource = (if snapshotID \<noteq> '''' then Some (SnapshotSource snapshotID) else None) \<rparr>"

definition cs_CreateVolume ::
  "CinderDriver \<Rightarrow> 'w IOpenStack \<Rightarrow> CreateVolumeRequest \<Rightarrow> ('w, csi_VolumeMsg) io" where
  "cs_CreateVolume driver cloud req =
     (if cr_Name req = '''' then fail (GrpcStatus ''InvalidArgument'' (errors_New ''''))
      else
        bindE (lift_result (RoundUpSize (requested_bytes req) GIB)) (\<lambda>volSizeGB.
        bindE (attempt (io_GetVolumesByName cloud (cr_Name req))) (\<lambda>r.
          let volumes = (case r of Inl _ \<Rightarrow> [] | Inr vs \<Rightarrow> vs) in
          case volumes of
            [v] \<Rightarrow> ret (created_response (cv_ID v) (cv_AZ v) (cv_Size v) '''')
          | _ # _ # _ \<Rightarrow> fail (errors_New ''multiple volumes reported by Cinder with same name'')
          | [] \<Rightarrow>
              let snapshotID = snapshot_of (cr_VolumeContentSource req) in
              bindE (io_CreateVolume cloud (cr_Name req) volSizeGB (map_get (cr_Parameters req) ''type'')
                       (requested_zone req) snapshotID
                       (Some [''cinder.csi.openstack.org/cluster'' \<mapsto> cd_cluster driver]))
                (\<lambda>(resID, resAvailability, resSize).
                   ret (created_response resID resAvailability resSize snapshotID)))))"

definition cs_DeleteVolume :: "'w IOpenStack \<Rightarrow> string \<Rightarrow> ('w, unit) io" where
  "cs_DeleteVolume cloud volID = io_DeleteVolume cloud volID"

definition ControllerPublishVolume :: "'w IOpenStack \<Rightarrow> string \<Rightarrow> string \<Rightarrow> ('w, string \<rightharpoonup> string) io" where
  "ControllerPublishVolume cloud instanceID volumeID =
     bindE (io_AttachVolume cloud instanceID volumeID) (\<lambda>_.
     bindE (io_WaitDiskAttached cloud instanceID volumeID) (\<lambda>_.
     bindE (io_GetAttachmentDiskPath cloud instanceID volumeID) (\<lambda>devicePath.
     ret [''DevicePath'' \<mapsto> devicePath])))"

definition ControllerUnpublishVolume :: "'w IOpenStack \<Rightarrow> string \<Rightarrow> string \<Rightarrow> ('w, unit) io" where
  "ControllerUnpublishVolume cloud instanceID volumeID =
     bindE (io_DetachVolume cloud instanceID volumeID) (\<lambda>_.
     io_WaitDiskDetached cloud instanceID volumeID)"

definition cs_ListVolumes :: "'w IOpenStack \<Rightarrow> ('w, csi_VolumeMsg list) io" where
  "cs_ListVolumes cloud =
     bindE (io_ListVolumes cloud) (\<lambda>vlist.
       ret (map (\<lambda>v. \<lparr> vm_VolumeId = cv_ID v, vm_CapacityBytes = gib_bytes (cv_Size v),
                       vm_AccessibleTopology = [], vm_ContentSource = None \<rparr>) vlist))"

section \<open>Snapshots\<close>

definition snapshot_response :: "(int \<Rightarrow> 'ts option) \<Rightarrow> block_snapshot \<Rightarrow> 'ts csi_SnapshotMsg" where
  "snapshot_response TimestampProto snap =
     \<lparr> sm_SnapshotId = bs_ID snap, sm_SizeBytes = gib_bytes (bs_Size snap), sm_SourceVolumeId = bs_VolumeID snap,
       sm_CreationTime = TimestampProto (bs_CreatedAt snap), sm_ReadyToUse = True \<rparr>"

definition cs_CreateSnapshot ::
  "(int \<Rightarrow> 'ts option) \<Rightarrow> 'w IOpenStack \<Rightarrow> CreateSnapshotRequest \<Rightarrow> ('w, 'ts csi_SnapshotMsg) io" where
  "cs_CreateSnapshot TimestampProto cloud req =
     bindE (attempt (io_GetSnapshotByNameAndVolumeID cloud (cs_Name req) (cs_SourceVolumeId req))) (\<lambda>r.
       let snapshots = (case r of Inl _ \<Rightarrow> [] | Inr ss \<Rightarrow> ss) in
       bindE (case snapshots of
                [snap] \<Rightarrow> ret snap
              | _ # _ # _ \<Rightarrow> fail (errors_New ''multiple snapshots reported by Cinder with same name'')
              | [] \<Rightarrow> io_CreateSnapshot cloud (cs_Name req) (cs_SourceVolumeId req) '''' (Some (cs_Parameters req)))
         (\<lambda>snap.
       bindE (io_WaitSnapshotReady cloud (bs_ID snap)) (\<lambda>_.
       ret (snapshot_response TimestampProto snap))))"

definition cs_DeleteSnapshot :: "'w IOpenStack \<Rightarrow> string \<Rightarrow> ('w, unit) io" where
  "cs_DeleteSnapshot cloud snapID = io_DeleteSnapshot cloud snapID"

definition cs_ListSnapshots ::
  "(int \<Rightarrow> 'ts option) \<Rightarrow> 'w IOpenStack \<Rightarrow> int \<Rightarrow> ('w, 'ts csi_SnapshotMsg list) io" where
  "cs_ListSnapshots TimestampProto cloud MaxEntries =
     bindE (io_ListSnapshots cloud MaxEntries 0 Map.empty) (\<lambda>vlist.
       ret (map (snapshot_response TimestampProto) vlist))"

definition ControllerGetCapabilities :: "CinderDriver \<Rightarrow> ControllerCap list" where
  "ControllerGetCapabilities driver = cd_cscap driver"

definition ValidateVolumeCapabilities :: "unit result" where
  "ValidateVolumeCapabilities =
     Err (GrpcStatus ''Unimplemented'' (errors_New ''ValidateVolumeCapabilities is not yet implemented''))"

definition GetCapacity :: "unit result" where
  "GetCapacity = Err (GrpcStatus ''Unimplemented'' (errors_New ''GetCapacity is not yet implemented''))"

definition ControllerExpandVolume :: "unit result" where
  "ControllerExpandVolume =
     Err (GrpcStatus ''Unimplemented'' (errors_New ''ControllerExpandVolume is not yet implemented''))"

section \<open>The controller on any cloud that keeps the contract\<close>

text \<open>
  The RPCs, and what each of them may do to the owners of the volumes: nothing; create a free
  volume; delete a free volume; give a free volume to the node of the request; free a volume of
  the node of the request.
\<close>

datatype csi_rpc =
    RpcCreateVolume CreateVolumeRequest | RpcDeleteVolume string
  | RpcPublish string string | RpcUnpublish string string | RpcListVolumes
  | RpcCreateSnapshot CreateSnapshotRequest | RpcDeleteSnapshot string | RpcListSnapshots int

definition run_rpc :: "CinderDriver \<Rightarrow> (int \<Rightarrow> 'ts option) \<Rightarrow> 'w IOpenStack \<Rightarrow> csi_rpc \<Rightarrow> 'w \<Rightarrow> 'w" where
  "run_rpc driver TimestampProto cloud rpc w =
     (case rpc of
        RpcCreateVolume req \<Rightarrow> snd (cs_CreateVolume driver cloud req w)
      | RpcDeleteVolume i \<Rightarrow> snd (cs_DeleteVolume cloud i w)
      | RpcPublish s i \<Rightarrow> snd (ControllerPublishVolume cloud s i w)
      | RpcUnpublish s i \<Rightarrow> snd (ControllerUnpublishVolume cloud s i w)
      | RpcListVolumes \<Rightarrow> snd (cs_ListVolumes cloud w)
      | RpcCreateSnapshot req \<Rightarrow> snd (cs_CreateSnapshot TimestampProto cloud req w)
      | RpcDeleteSnapshot i \<Rightarrow> snd (cs_DeleteSnapshot cloud i w)
      | RpcListSnapshots n \<Rightarrow> snd (cs_ListSnapshots TimestampProto cloud n w))"

definition run_rpcs :: "CinderDriver \<Rightarrow> (int \<Rightarrow> 'ts option) \<Rightarrow> 'w IOpenStack \<Rightarrow> csi_rpc list \<Rightarrow> 'w \<Rightarrow> 'w" where
  "run_rpcs driver TimestampProto cloud = fold (run_rpc driver TimestampProto cloud)"

inductive exclusive_step :: "csi_rpc \<Rightarrow> (string \<rightharpoonup> string) \<Rightarrow> (string \<rightharpoonup> string) \<Rightarrow> bool" where
  unchanged: "exclusive_step rpc m m"
| created: "m i = None \<Longrightarrow> exclusive_step (RpcCreateVolume req) m (m(i \<mapsto> ''''))"
| deleted: "m i = Some '''' \<Longrightarrow> exclusive_step (RpcDeleteVolume i) m (m(i := None))"
| attached: "m i = Some '''' \<Longrightarrow> s \<noteq> '''' \<Longrightarrow> exclusive_step (RpcPublish s i) m (m(i \<mapsto> s))"
| detached: "m i = Some s \<Longrightarrow> exclusive_step (RpcUnpublish s i) m (m(i \<mapsto> ''''))"

inductive_cases exclusive_stepE: "exclusive_step rpc m m'"

text \<open>An owner loses its volume by its own unpublish only.\<close>

lemma exclusive_step_owner:
  "exclusive_step rpc m m' \<Longrightarrow> m i = Some s \<Longrightarrow> s \<noteq> '''' \<Longrightarrow> rpc \<noteq> RpcUnpublish s i \<Longrightarrow> m' i = Some s"
  by (erule exclusive_step.cases) auto

lemma owners_upd: "owners (m(i \<mapsto> v)) = (owners m)(i \<mapsto> vol_owner v)" "owners (m(i := None)) = (owners m)(i := None)"
  by (auto simp: owners_def)

lemma single_attached_upd:
  "single_attached m \<Longrightarrow> bv_ID v = i \<Longrightarrow> length (bv_Attachments v) \<le> 1 \<Longrightarrow>
   (\<And>a. a \<in> set (bv_Attachments v) \<Longrightarrow> ba_ServerID a \<noteq> '''') \<Longrightarrow> single_attached (m(i \<mapsto> v))"
  "single_attached m \<Longrightarrow> single_attached (m(i := None))"
  by (auto simp: single_attached_def)

text \<open>\<open>moves rpc m m'\<close>: a permitted step that leaves well-formed volumes well-formed.\<close>

definition moves :: "csi_rpc \<Rightarrow> (string \<rightharpoonup> block_volume) \<Rightarrow> (string \<rightharpoonup> block_volume) \<Rightarrow> bool" where
  "moves rpc m m' \<longleftrightarrow> exclusive_step rpc (owners m) (owners m') \<and> single_attached m'"

lemma moves_refl: "single_attached m \<Longrightarrow> moves rpc m m"
  by (simp add: moves_def unchanged)

lemma moves_still: "moves rpc m m' \<Longrightarrow> still m' m'' \<Longrightarrow> moves rpc m m''"
  by (simp add: moves_def still_owners still_single_attached)

lemma single_attached_id: "single_attached m \<Longrightarrow> m i = Some v \<Longrightarrow> bv_ID v = i"
  by (simp add: single_attached_def)

section \<open>The branches of \<open>CreateVolume\<close>\<close>

definition create_call :: "CinderDriver \<Rightarrow> 'w IOpenStack \<Rightarrow> CreateVolumeRequest \<Rightarrow> int \<Rightarrow> ('w, string \<times> string \<times> int) io" where
  "create_call driver cloud req volSizeGB =
     io_CreateVolume cloud (cr_Name req) volSizeGB (map_get (cr_Parameters req) ''type'') (requested_zone req)
       (snapshot_of (cr_VolumeContentSource req)) (Some [''cinder.csi.openstack.org/cluster'' \<mapsto> cd_cluster driver])"

lemma RoundUpSize_GIB: "\<exists>n. RoundUpSize b GIB = Ok n"
  by (simp add: RoundUpSize_def GIB_def Let_def)

lemma cs_CreateVolume_run:
  assumes "cr_Name req \<noteq> ''''" "RoundUpSize (requested_bytes req) GIB = Ok n"
    "io_GetVolumesByName cl (cr_Name req) w = (q, w1)"
  shows "q = Ok [v] \<Longrightarrow> cs_CreateVolume d cl req w = (Ok (created_response (cv_ID v) (cv_AZ v) (cv_Size v) ''''), w1)"
    and "q = Ok (v # v' # vs) \<Longrightarrow>
      cs_CreateVolume d cl req w = (Err (errors_New ''multiple volumes reported by Cinder with same name''), w1)"
    and "q = Panic p \<Longrightarrow> cs_CreateVolume d cl req w = (Panic p, w1)"
    and "q = Ok [] \<or> q = Err err \<Longrightarrow> cs_CreateVolume d cl req w =
      bindE (create_call d cl req n) (\<lambda>(resID, resAvailability, resSize).
        ret (created_response resID resAvailability resSize (snapshot_of (cr_VolumeContentSource req)))) w1"
  using assms by (auto simp: cs_CreateVolume_def create_call_def Let_def bindE_def attempt_def)



context csi_cloud
begin

lemma CreateVolume_moves:
  assumes "fine e" "single_attached (vols e w)" "cs_CreateVolume d (cloud e) req w = (r, w')"
  shows "moves (RpcCreateVolume req) (vols e w) (vols e w')"
proof (cases "cr_Name req = ''''")
  case True
  then show ?thesis using assms(2,3) moves_refl by (auto simp: cs_CreateVolume_def)
next
  case False
  obtain n where n: "RoundUpSize (requested_bytes req) GIB = Ok n" using RoundUpSize_GIB by blast
  obtain q w1 where q: "io_GetVolumesByName (cloud e) (cr_Name req) w = (q, w1)" by fastforce
  note run = cs_CreateVolume_run [OF False n q, where d = d]
  have w1: "vols e w1 = vols e w" using readsD [OF by_name_reads [OF assms(1)] q] .
  show ?thesis
  proof (cases "q = Ok [] \<or> (\<exists>err. q = Err err)")
    case True
    then have "cs_CreateVolume d (cloud e) req w =
      bindE (create_call d (cloud e) req n) (\<lambda>(resID, resAvailability, resSize).
        ret (created_response resID resAvailability resSize (snapshot_of (cr_VolumeContentSource req)))) w1"
      using run(4) by blast
    with assms(3) obtain c where "create_call d (cloud e) req n w1 = (c, w')"
      by (auto simp: bindE_def split: prod.splits result.splits)
    from create [OF assms(1) this [unfolded create_call_def]] w1
    have "vols e w' = vols e w \<or>
      (\<exists>i v. vols e w i = None \<and> bv_ID v = i \<and> bv_Attachments v = [] \<and> vols e w' = (vols e w)(i \<mapsto> v))"
      by (auto split: result.splits)
    then show ?thesis
    proof
      assume "vols e w' = vols e w"
      then show ?thesis using moves_refl assms(2) by simp
    next
      assume "\<exists>i v. vols e w i = None \<and> bv_ID v = i \<and> bv_Attachments v = [] \<and> vols e w' = (vols e w)(i \<mapsto> v)"
      then obtain i v where v: "vols e w i = None" "bv_ID v = i" "bv_Attachments v = []" "vols e w' = (vols e w)(i \<mapsto> v)"
        by blast
      have "exclusive_step (RpcCreateVolume req) (owners (vols e w)) ((owners (vols e w))(i \<mapsto> ''''))"
        by (rule created) (simp add: owners_def v(1))
      then show ?thesis
        using single_attached_upd(1) [OF assms(2) v(2)] v(3) by (simp add: moves_def v(4) owners_upd vol_owner_def)
    qed
  next
    case False
    then have "w' = w1"
    proof (cases q)
      case (Ok vs)
      then show ?thesis
        using False run(1,2) assms(3) by (cases vs; cases "tl vs") auto
    qed (use run(3) assms(3) in auto)
    then show ?thesis using moves_refl assms(2) w1 by simp
  qed
qed

lemma DeleteVolume_moves:
  assumes "fine e" "single_attached (vols e w)" "cs_DeleteVolume (cloud e) i w = (r, w')"
  shows "moves (RpcDeleteVolume i) (vols e w) (vols e w')"
  using delete [OF assms(1) assms(3) [unfolded cs_DeleteVolume_def] assms(2)]
proof
  assume "vols e w' = vols e w"
  then show ?thesis using moves_refl assms(2) by simp
next
  assume "owners (vols e w) i = Some '''' \<and> vols e w' = (vols e w)(i := None)"
  then show ?thesis
    using deleted assms(2) by (simp add: moves_def owners_upd single_attached_upd)
qed

lemma Attach_moves:
  assumes "fine e" "single_attached (vols e w)" "io_AttachVolume (cloud e) s i w = (r, w')"
  shows "moves (RpcPublish s i) (vols e w) (vols e w') \<and> (is_ok r \<longrightarrow> s \<noteq> '''' \<and> owners (vols e w') i = Some s)"
  using attach [OF assms(1,3,2)]
proof
  assume "vols e w' = vols e w \<and> (is_ok r \<longrightarrow> s \<noteq> '''' \<and> owners (vols e w) i = Some s)"
  then show ?thesis using moves_refl assms(2) by simp
next
  assume a: "is_ok r \<and> s \<noteq> '''' \<and> owners (vols e w) i = Some '''' \<and>
        (\<exists>v st d. vols e w i = Some v \<and> vols e w' = (vols e w)(i \<mapsto>
            v\<lparr> bv_Status := st, bv_Attachments := [\<lparr> ba_ServerID = s, ba_Device = d \<rparr>] \<rparr>))"
  then obtain v st d where v: "vols e w i = Some v"
    "vols e w' = (vols e w)(i \<mapsto> v\<lparr> bv_Status := st, bv_Attachments := [\<lparr> ba_ServerID = s, ba_Device = d \<rparr>] \<rparr>)" by blast
  have "exclusive_step (RpcPublish s i) (owners (vols e w)) ((owners (vols e w))(i \<mapsto> s))"
    using a by (intro exclusive_step.attached) simp_all
  moreover have "single_attached (vols e w')"
    unfolding v(2) using a single_attached_id [OF assms(2) v(1)] assms(2)
    by (intro single_attached_upd(1)) simp_all
  ultimately show ?thesis
    using a by (simp add: moves_def v(2) owners_upd vol_owner_def)
qed

lemma Publish_moves:
  assumes "fine e" "single_attached (vols e w)" "ControllerPublishVolume (cloud e) s i w = (r, w')"
  shows "moves (RpcPublish s i) (vols e w) (vols e w')"
proof -
  obtain q1 w1 where q1: "io_AttachVolume (cloud e) s i w = (q1, w1)" by fastforce
  obtain q2 w2 where q2: "io_WaitDiskAttached (cloud e) s i w1 = (q2, w2)" by fastforce
  obtain q3 w3 where q3: "io_GetAttachmentDiskPath (cloud e) s i w2 = (q3, w3)" by fastforce
  have one: "moves (RpcPublish s i) (vols e w) (vols e w1)" using Attach_moves [OF assms(1,2) q1] ..
  have two: "moves (RpcPublish s i) (vols e w) (vols e w2)"
    using moves_still [OF one] wait_attached [OF assms(1) q2] by blast
  have three: "vols e w3 = vols e w2" using readsD [OF path_reads [OF assms(1)] q3] .
  have "w' \<in> {w1, w2, w3}"
    using assms(3) q1 q2 q3
    by (auto simp: ControllerPublishVolume_def bindE_def split: result.splits)
  then show ?thesis using one two three by auto
qed

lemma Unpublish_moves:
  assumes "fine e" "single_attached (vols e w)" "ControllerUnpublishVolume (cloud e) s i w = (r, w')"
  shows "moves (RpcUnpublish s i) (vols e w) (vols e w')"
proof -
  obtain q1 w1 where q1: "io_DetachVolume (cloud e) s i w = (q1, w1)" by fastforce
  obtain q2 w2 where q2: "io_WaitDiskDetached (cloud e) s i w1 = (q2, w2)" by fastforce
  have one: "moves (RpcUnpublish s i) (vols e w) (vols e w1)"
    using detach [OF assms(1) q1 assms(2)]
  proof
    assume "vols e w1 = vols e w"
    then show ?thesis using moves_refl assms(2) by simp
  next
    assume "owners (vols e w) i = Some s \<and>
      (\<exists>v st. vols e w i = Some v \<and> vols e w1 = (vols e w)(i \<mapsto> v\<lparr> bv_Status := st, bv_Attachments := [] \<rparr>))"
    then obtain v st where v: "owners (vols e w) i = Some s" "vols e w i = Some v"
      "vols e w1 = (vols e w)(i \<mapsto> v\<lparr> bv_Status := st, bv_Attachments := [] \<rparr>)" by blast
    have "exclusive_step (RpcUnpublish s i) (owners (vols e w)) ((owners (vols e w))(i \<mapsto> ''''))"
      by (rule detached) (rule v(1))
    then show ?thesis
      using single_attached_upd(1) [OF assms(2), of "v\<lparr> bv_Status := st, bv_Attachments := [] \<rparr>" i]
        single_attached_id [OF assms(2) v(2)]
      by (simp add: moves_def v(3) owners_upd vol_owner_def)
  qed
  have two: "moves (RpcUnpublish s i) (vols e w) (vols e w2)"
    using moves_still [OF one] wait_detached [OF assms(1) q2] by blast
  have "w' \<in> {w1, w2}"
    using assms(3) q1 q2 by (auto simp: ControllerUnpublishVolume_def bindE_def split: result.splits)
  then show ?thesis using one two by auto
qed

lemma CreateSnapshot_still:
  assumes "fine e" "cs_CreateSnapshot ts (cloud e) req w = (r, w')"
  shows "still (vols e w) (vols e w')"
proof -
  have "keeps (\<lambda>w'. still M (vols e w')) (cs_CreateSnapshot ts (cloud e) req)" for M
  proof -
    have wait: "keeps (\<lambda>w'. still M (vols e w')) (io_WaitSnapshotReady (cloud e) i)" for i
      by (rule keepsI) (blast intro: still_trans snapshots_still(5) [OF assms(1)])
    show ?thesis
      unfolding cs_CreateSnapshot_def Let_def
      by (intro keeps_intros wait reads_keeps snapshots_still assms(1))
  qed
  from keeps_stillD [OF this assms(2)] show ?thesis .
qed

theorem rpc_moves:
  assumes "fine e" "single_attached (vols e w)"
  shows "moves rpc (vols e w) (vols e (run_rpc d ts (cloud e) rpc w))"
proof (cases rpc)
  case (RpcCreateVolume req)
  then show ?thesis using CreateVolume_moves [OF assms] by (simp add: run_rpc_def) (metis prod.collapse)
next
  case (RpcDeleteVolume i)
  then show ?thesis using DeleteVolume_moves [OF assms] by (simp add: run_rpc_def) (metis prod.collapse)
next
  case (RpcPublish s i)
  then show ?thesis using Publish_moves [OF assms] by (simp add: run_rpc_def) (metis prod.collapse)
next
  case (RpcUnpublish s i)
  then show ?thesis using Unpublish_moves [OF assms] by (simp add: run_rpc_def) (metis prod.collapse)
next
  case RpcListVolumes
  have "reads (vols e) (cs_ListVolumes (cloud e))"
    unfolding cs_ListVolumes_def by (intro reads_bindE list_reads assms(1)) simp
  then show ?thesis
    using RpcListVolumes moves_refl [OF assms(2)] by (simp add: run_rpc_def) (metis prod.collapse readsD)
next
  case (RpcCreateSnapshot req)
  obtain r w' where run: "cs_CreateSnapshot ts (cloud e) req w = (r, w')" by fastforce
  from moves_still [OF moves_refl [OF assms(2)] CreateSnapshot_still [OF assms(1) run]] show ?thesis
    by (simp add: run_rpc_def RpcCreateSnapshot run)
next
  case (RpcDeleteSnapshot i)
  have "reads (vols e) (cs_DeleteSnapshot (cloud e) i)"
    unfolding cs_DeleteSnapshot_def by (intro snapshots_still assms(1))
  then show ?thesis
    using RpcDeleteSnapshot moves_refl [OF assms(2)] by (simp add: run_rpc_def) (metis prod.collapse readsD)
next
  case (RpcListSnapshots n)
  have "reads (vols e) (cs_ListSnapshots ts (cloud e) n)"
    unfolding cs_ListSnapshots_def by (intro reads_bindE snapshots_still assms(1)) simp
  then show ?thesis
    using RpcListSnapshots moves_refl [OF assms(2)] by (simp add: run_rpc_def) (metis prod.collapse readsD)
qed

lemma rpcs_single_attached:
  "fine e \<Longrightarrow> single_attached (vols e w) \<Longrightarrow> single_attached (vols e (run_rpcs d ts (cloud e) rpcs w))"
proof (induction rpcs arbitrary: w)
  case Nil
  then show ?case by (simp add: run_rpcs_def)
next
  case (Cons rpc rpcs)
  then show ?case using rpc_moves [OF Cons.prems, of rpc d ts] by (simp add: run_rpcs_def moves_def)
qed

lemma rpcs_owner:
  "fine e \<Longrightarrow> single_attached (vols e w) \<Longrightarrow> owners (vols e w) i = Some s \<Longrightarrow> s \<noteq> '''' \<Longrightarrow>
   RpcUnpublish s i \<notin> set rpcs \<Longrightarrow> owners (vols e (run_rpcs d ts (cloud e) rpcs w)) i = Some s"
proof (induction rpcs arbitrary: w)
  case Nil
  then show ?case by (simp add: run_rpcs_def)
next
  case (Cons rpc rpcs)
  from rpc_moves [OF Cons.prems(1,2), of rpc d ts]
  have "exclusive_step rpc (owners (vols e w)) (owners (vols e (run_rpc d ts (cloud e) rpc w)))"
    "single_attached (vols e (run_rpc d ts (cloud e) rpc w))" by (simp_all add: moves_def)
  moreover have "owners (vols e (run_rpc d ts (cloud e) rpc w)) i = Some s"
    by (rule exclusive_step_owner [OF calculation(1) Cons.prems(3,4)]) (use Cons.prems(5) in auto)
  ultimately show ?case
    using Cons by (simp add: run_rpcs_def)
qed

end

context csi_cloud
begin

text \<open>The volumes with a name, and what \<open>GetVolumesByName\<close> makes of them.\<close>

lemma by_name_one:
  assumes "fine e" "n \<noteq> ''''" "io_GetVolumesByName (cloud e) n w = (Ok vs, w')"
    "\<And>i v. vols e w i = Some v \<Longrightarrow> bv_Name v = n \<longleftrightarrow> i = j" "vols e w j = Some u"
  shows "vs = [listed_volume u]"
proof -
  obtain bs where bs: "vs = map listed_volume bs" "distinct bs" "set bs = {v \<in> ran (vols e w). bv_Name v = n}"
    using by_name [OF assms(1-3)] by blast
  have "{v \<in> ran (vols e w). bv_Name v = n} = {u}"
    using assms(4,5) unfolding ran_def by (intro set_eqI) (auto, metis option.inject)
  with bs(2,3) have "bs = [u]"
    by (metis card_1_singleton_iff distinct_card length_0_conv length_Suc_conv list.simps(15) list.set(1) singleton_insert_inj_eq)
  then show ?thesis using bs(1) by simp
qed

text \<open>What a successful \<open>CreateVolume\<close> leaves: exactly one volume has the name, the response describes it.\<close>

lemma CreateVolume_Ok:
  assumes "fine e" "\<And>w. is_ok (fst (io_GetVolumesByName (cloud e) (cr_Name req) w))"
    "cs_CreateVolume d (cloud e) req w = (Ok resp, w')" "\<And>i v. vols e w i = Some v \<Longrightarrow> bv_ID v = i"
  shows "cr_Name req \<noteq> '''' \<and> (\<exists>u sn. vols e w' (bv_ID u) = Some u \<and> resp = created_response (bv_ID u) (bv_AvailabilityZone u) (bv_Size u) sn \<and>
    (\<forall>i v. vols e w' i = Some v \<longrightarrow> (bv_Name v = cr_Name req \<longleftrightarrow> i = bv_ID u)))"
proof -
  have name: "cr_Name req \<noteq> ''''" using assms(3) by (auto simp: cs_CreateVolume_def)
  obtain n where n: "RoundUpSize (requested_bytes req) GIB = Ok n" using RoundUpSize_GIB by blast
  obtain vs w1 where q: "io_GetVolumesByName (cloud e) (cr_Name req) w = (Ok vs, w1)"
    using assms(2) [of w] by (metis is_ok_iff prod.collapse)
  note run = cs_CreateVolume_run [OF name n q, where d = d]
  have w1: "vols e w1 = vols e w" using readsD [OF by_name_reads [OF assms(1)] q] .
  obtain bs where bs: "vs = map listed_volume bs" "distinct bs" "set bs = {v \<in> ran (vols e w). bv_Name v = cr_Name req}"
    using by_name [OF assms(1) name q] by blast
  show ?thesis
  proof (cases bs)
    case Nil
    then have none: "\<And>i v. vols e w i = Some v \<Longrightarrow> bv_Name v \<noteq> cr_Name req"
      using bs(3) by (auto simp: ran_def)
    obtain i az sz where call: "create_call d (cloud e) req n w1 = (Ok (i, az, sz), w')"
      "resp = created_response i az sz (snapshot_of (cr_VolumeContentSource req))"
    proof -
      have "vs = []" using Nil bs(1) by simp
      then have "bindE (create_call d (cloud e) req n) (\<lambda>(resID, resAvailability, resSize).
          ret (created_response resID resAvailability resSize (snapshot_of (cr_VolumeContentSource req)))) w1 = (Ok resp, w')"
        using run(4) assms(3) by simp
      then show ?thesis using that by (auto simp: bindE_eq_Ok)
    qed
    from create [OF assms(1) call(1) [unfolded create_call_def]] w1 none call(2) show ?thesis
      using name by (auto split: if_splits)
  next
    case (Cons u us)
    then have us: "us = []"
      using run(2) bs(1) assms(3) by (cases us) auto
    then have "resp = created_response (bv_ID u) (bv_AvailabilityZone u) (bv_Size u) ''''" "w' = w1"
      using run(1) Cons bs(1) assms(3) by (auto simp: listed_volume_def)
    moreover have "vols e w (bv_ID u) = Some u"
    proof -
      have "u \<in> ran (vols e w)" using Cons bs(3) by auto
      then show ?thesis using assms(4) by (auto simp: ran_def)
    qed
    moreover have "bv_Name v = cr_Name req \<longleftrightarrow> i = bv_ID u" if "vols e w i = Some v" for i v
    proof
      assume "bv_Name v = cr_Name req"
      then have "v \<in> set bs" using that bs(3) by (auto simp: ran_def)
      then show "i = bv_ID u" using Cons us assms(4) [OF that] by simp
    next
      assume "i = bv_ID u"
      then have "v = u" using that calculation(3) by simp
      then show "bv_Name v = cr_Name req" using Cons bs(3) by auto
    qed
    ultimately show ?thesis using w1 name by metis
  qed
qed

lemma CreateVolume_again:
  assumes "fine e" "\<And>w. is_ok (fst (io_GetVolumesByName (cloud e) (cr_Name req) w))"
    "cs_CreateVolume d (cloud e) req w = (Ok resp, w')" "\<And>i v. vols e w i = Some v \<Longrightarrow> bv_ID v = i"
  shows "\<exists>w''. cs_CreateVolume d (cloud e) req w' = (Ok (resp\<lparr> vm_ContentSource := None \<rparr>), w'') \<and> vols e w'' = vols e w' \<and>
    {i. \<exists>v. vols e w'' i = Some v \<and> bv_Name v = cr_Name req} = {vm_VolumeId resp}"
proof -
  from CreateVolume_Ok [OF assms] obtain u sn where name: "cr_Name req \<noteq> ''''" and u: "vols e w' (bv_ID u) = Some u"
    "resp = created_response (bv_ID u) (bv_AvailabilityZone u) (bv_Size u) sn"
    "\<And>i v. vols e w' i = Some v \<Longrightarrow> bv_Name v = cr_Name req \<longleftrightarrow> i = bv_ID u" by blast
  obtain n where n: "RoundUpSize (requested_bytes req) GIB = Ok n" using RoundUpSize_GIB by blast
  obtain vs w'' where q: "io_GetVolumesByName (cloud e) (cr_Name req) w' = (Ok vs, w'')"
    using assms(2) [of w'] by (metis is_ok_iff prod.collapse)
  have same: "vols e w'' = vols e w'" using readsD [OF by_name_reads [OF assms(1)] q] .
  have "vs = [listed_volume u]" by (rule by_name_one [OF assms(1) name q u(3,1)])
  with cs_CreateVolume_run(1) [OF name n q] u(2) have
    "cs_CreateVolume d (cloud e) req w' = (Ok (resp\<lparr> vm_ContentSource := None \<rparr>), w'')"
    by (simp add: listed_volume_def created_response_def)
  moreover have "{i. \<exists>v. vols e w'' i = Some v \<and> bv_Name v = cr_Name req} = {vm_VolumeId resp}"
    using u same by (auto simp: created_response_def)
  ultimately show ?thesis using same by blast
qed

end

section \<open>The driver on Cinder\<close>


definition demo_request :: CreateVolumeRequest where
  "demo_request = \<lparr> cr_Name = ''pvc-1'', cr_CapacityRange = Some 1500000000, cr_Parameters = Map.empty,
     cr_AccessibilityRequirements = None, cr_VolumeContentSource = Some (SnapshotSource ''s'') \<rparr>"

definition demo_driver :: CinderDriver where
  "demo_driver = NewDriver ''n'' ''unix://csi.sock'' ''kubernetes''"

definition demo_volumes :: "block_volume list" where
  "demo_volumes = [\<lparr> bv_ID = ''a'', bv_Name = ''pvc-0'', bv_Status = ''in-use'', bv_Size = 1, bv_AvailabilityZone = ''nova'',
     bv_Attachments = [\<lparr> ba_ServerID = ''n1'', ba_Device = ''/dev/vdc'' \<rparr>] \<rparr>,
     \<lparr> bv_ID = ''b'', bv_Name = ''pvc-2'', bv_Status = ''available'', bv_Size = 1, bv_AvailabilityZone = ''nova'',
     bv_Attachments = [] \<rparr>]"

lemma demo_volumes_single: "single_attached (mb_vols demo_volumes)"
  by (auto simp: single_attached_def demo_volumes_def mb_vols_def split: if_splits)




text \<open>
  An attachment survives every sequence of RPCs that does not contain the unpublish of that
  volume from that node: no publish to another node, delete, create or snapshot takes it away.
\<close>

theorem csi_attachment_kept:
  assumes "block_ok api vols" "single_attached (vols w)" "owners (vols w) i = Some s" "s \<noteq> ''''"
    and "RpcUnpublish s i \<notin> set rpcs"
  shows "owners (vols (run_rpcs d ts (csi_OpenStack api) rpcs w)) i = Some s"
  using csi.rpcs_owner [of "(api, vols)" w i s rpcs d ts] assms by simp

theorem csi_attachment_kept_witness:
  "owners (mb_vols (run_rpcs demo_driver (\<lambda>_. Some ()) (csi_OpenStack mem_block)
     [RpcPublish ''n2'' ''a'', RpcDeleteVolume ''a'', RpcUnpublish ''n2'' ''a''] demo_volumes)) ''a'' = Some ''n1''"
  by (rule csi_attachment_kept [OF mem_block_ok demo_volumes_single])
    (simp_all add: demo_volumes_def mb_vols_def owners_def vol_owner_def)

text \<open>
  C18. A repeated \<open>CreateVolume\<close> creates nothing: while Cinder answers the queries, the second call
  returns the same volume id, capacity and topology as the first, exactly one volume has the name,
  and no volume has changed. The one difference is the content source, which the second response
  never has.
\<close>

theorem cs_CreateVolume_idempotent:
  assumes "block_ok api vols" "\<And>w. is_ok (fst (ap_volumes_List api (cr_Name req) w))"
    and "cs_CreateVolume d (csi_OpenStack api) req w = (Ok resp, w1)"
  shows "\<exists>w2. cs_CreateVolume d (csi_OpenStack api) req w1 = (Ok (resp\<lparr> vm_ContentSource := None \<rparr>), w2) \<and>
    vols w2 = vols w1 \<and> {i. \<exists>v. vols w2 i = Some v \<and> bv_Name v = cr_Name req} = {vm_VolumeId resp}"
proof -
  have "is_ok (fst (io_GetVolumesByName (csi_OpenStack api) (cr_Name req) w))" for w
    using assms(2) [of w]
    by (auto simp: csi_OpenStack_def csi_GetVolumesByName_def bindE_def is_ok_def split: prod.splits result.splits)
  then show ?thesis
    using csi.CreateVolume_again [of "(api, vols)" req d w resp w1] assms(1,3) block_okD(1) [OF assms(1)] by simp
qed

lemma demo_create: "is_ok (fst (cs_CreateVolume demo_driver (csi_OpenStack mem_block) demo_request demo_volumes))"
  by code_simp

theorem cs_CreateVolume_idempotent_witness:
  "\<exists>resp w1 w2. cs_CreateVolume demo_driver (csi_OpenStack mem_block) demo_request demo_volumes = (Ok resp, w1) \<and>
    cs_CreateVolume demo_driver (csi_OpenStack mem_block) demo_request w1 = (Ok (resp\<lparr> vm_ContentSource := None \<rparr>), w2) \<and>
    mb_vols w2 = mb_vols w1 \<and> {i. \<exists>v. mb_vols w2 i = Some v \<and> bv_Name v = ''pvc-1''} = {vm_VolumeId resp}"
proof -
  obtain resp w1 where run: "cs_CreateVolume demo_driver (csi_OpenStack mem_block) demo_request demo_volumes = (Ok resp, w1)"
    using demo_create by (auto simp: is_ok_iff prod_eq_iff)
  have "is_ok (fst (ap_volumes_List mem_block (cr_Name demo_request) w))" for w
    by (simp add: mem_block_def)
  from cs_CreateVolume_idempotent [OF mem_block_ok this run] run show ?thesis
    by (auto simp: demo_request_def)
qed

context csi_cloud
begin

lemma Publish_result:
  assumes "fine e" "single_attached (vols e w)" "ControllerPublishVolume (cloud e) s i w = (r, w')"
  shows "case r of
      Ok pvInfo \<Rightarrow> owners (vols e w) i \<in> {Some '''', Some s} \<and>
        (\<exists>v a. vols e w' i = Some v \<and> bv_Status v = ''in-use'' \<and> bv_Attachments v = [a] \<and> ba_ServerID a = s \<and>
           pvInfo = [''DevicePath'' \<mapsto> ba_Device a])
    | _ \<Rightarrow> owners (vols e w) i \<notin> {Some '''', Some s} \<longrightarrow> vols e w' = vols e w"
proof (cases r)
  case (Ok pvInfo)
  with assms(3) obtain x w1 u w2 p where run: "io_AttachVolume (cloud e) s i w = (Ok x, w1)"
    "io_WaitDiskAttached (cloud e) s i w1 = (Ok u, w2)" "io_GetAttachmentDiskPath (cloud e) s i w2 = (Ok p, w')"
    "pvInfo = [''DevicePath'' \<mapsto> p]"
    by (auto simp: ControllerPublishVolume_def bindE_eq_Ok)
  have own: "owners (vols e w) i \<in> {Some '''', Some s}" using attach [OF assms(1) run(1) assms(2)] by auto
  have "single_attached (vols e w1)"
    using Attach_moves [OF assms(1,2) run(1)] by (simp add: moves_def)
  then have "single_attached (vols e w2)" using wait_attached [OF assms(1) run(2)] still_single_attached by blast
  moreover have "vols e w' = vols e w2" using readsD [OF path_reads [OF assms(1)] run(3)] .
  ultimately show ?thesis
    using path [OF assms(1) run(3)] run(4) own Ok by (force simp: single_attached_def)
next
  case (Err err)
  have "vols e w' = vols e w" if "owners (vols e w) i \<notin> {Some '''', Some s}"
  proof -
    obtain q1 w1 where q1: "io_AttachVolume (cloud e) s i w = (q1, w1)" by fastforce
    have "vols e w1 = vols e w \<and> \<not> is_ok q1" using attach [OF assms(1) q1 assms(2)] that by auto
    then show ?thesis
      using assms(3) q1 by (cases q1) (auto simp: ControllerPublishVolume_def)
  qed
  then show ?thesis using Err by simp
next
  case (Panic p)
  have "vols e w' = vols e w" if "owners (vols e w) i \<notin> {Some '''', Some s}"
  proof -
    obtain q1 w1 where q1: "io_AttachVolume (cloud e) s i w = (q1, w1)" by fastforce
    have "vols e w1 = vols e w \<and> \<not> is_ok q1" using attach [OF assms(1) q1 assms(2)] that by auto
    then show ?thesis
      using assms(3) q1 by (cases q1) (auto simp: ControllerPublishVolume_def)
  qed
  then show ?thesis using Panic by simp
qed

end

text \<open>
  C19. \<open>ControllerPublishVolume\<close> succeeds only for a volume that was free or already the node's, and
  then the volume is in use, attached to the node and to nothing else, and the publish context holds
  its device; when the volume belongs to another node, or does not exist, it fails and changes
  nothing.
\<close>

theorem publish_correct:
  assumes "block_ok api vols" "single_attached (vols w)"
    and "ControllerPublishVolume (csi_OpenStack api) s i w = (r, w')"
  shows "case r of
      Ok pvInfo \<Rightarrow> owners (vols w) i \<in> {Some '''', Some s} \<and>
        (\<exists>v a. vols w' i = Some v \<and> bv_Status v = ''in-use'' \<and> bv_Attachments v = [a] \<and> ba_ServerID a = s \<and>
           pvInfo = [''DevicePath'' \<mapsto> ba_Device a])
    | _ \<Rightarrow> owners (vols w) i \<notin> {Some '''', Some s} \<longrightarrow> vols w' = vols w"
  using csi.Publish_result [of "(api, vols)" w s i r w'] assms by (cases r) simp_all

lemma demo_publish: "is_ok (fst (ControllerPublishVolume (csi_OpenStack mem_block) ''n1'' ''b'' demo_volumes))"
  by code_simp

theorem publish_correct_witness:
  "\<exists>w' v a. mb_vols w' ''b'' = Some v \<and> bv_Status v = ''in-use'' \<and> bv_Attachments v = [a] \<and> ba_ServerID a = ''n1'' \<and>
     ControllerPublishVolume (csi_OpenStack mem_block) ''n1'' ''b'' demo_volumes = (Ok [''DevicePath'' \<mapsto> ba_Device a], w')"
proof -
  obtain pv w' where run: "ControllerPublishVolume (csi_OpenStack mem_block) ''n1'' ''b'' demo_volumes = (Ok pv, w')"
    using demo_publish by (auto simp: is_ok_iff prod_eq_iff)
  from publish_correct [OF mem_block_ok demo_volumes_single run] run show ?thesis by auto
qed

text \<open>
  \<open>ControllerUnpublishVolume\<close> without a node id, which asks to detach the volume from every node,
  never succeeds for a volume that is already detached: the wait takes the missing owner for the
  missing node id, sees the volume attached on every poll and gives up after its 13 polls.
\<close>

theorem unpublish_without_node_times_out:
  assumes "block_ok api vols" "\<And>w. vols w i \<noteq> None \<Longrightarrow> is_ok (fst (ap_volumes_Get api i w))"
    and "vols w i = Some v" "bv_Status v = ''available''" "bv_Attachments v = []"
  shows "\<exists>w'. ControllerUnpublishVolume (csi_OpenStack api) '''' i w =
    (Err (Errorf ''Volume %q failed to detach within the alloted time'' [FStr i]), w')"
proof -
  let ?I = "\<lambda>w. owners (vols w) i = Some ''''"
  have get: "\<exists>c w'. csi_GetVolume api i w = (Ok c, w')" if "?I w" for w
  proof -
    have "is_ok (fst (ap_volumes_Get api i w))" using that assms(2) by (auto simp: owners_def)
    then show ?thesis
      by (auto simp: csi_GetVolume_def is_ok_iff bindE_def Let_def split: prod.splits result.splits)
  qed
  have step: "\<exists>w'. detached_condition api '''' i w = (Ok False, w') \<and> ?I w'" if I: "?I w" for w
  proof -
    obtain c w' where c: "csi_GetVolume api i w = (Ok c, w')" using get [OF I] by blast
    from csi_GetVolume_spec(1) [OF assms(1) c] csi_GetVolume_spec(2) [OF assms(1) c refl] I
    have "cv_AttachedServerId c = ''''" "?I w'" by (auto simp: owners_def)
    then show ?thesis using c by (simp add: detached_condition_def csi_diskIsAttached_def bindE_def)
  qed
  obtain sleep where sleep: "ap_Backoff api = backoff sleep" "\<And>w. still (vols w) (vols (sleep w))"
    using block_okD(18) [OF assms(1)] by blast
  have I: "?I w" using assms(3,5) by (simp add: owners_def vol_owner_def)
  obtain c w1 where c: "csi_GetVolume api i w = (Ok c, w1)" using get [OF I] by blast
  then have det: "csi_DetachVolume api '''' i w = (Ok (), w1)"
    using csi_GetVolume_spec(2) [OF assms(1) c refl] assms(3,4)
    by (auto simp: csi_DetachVolume_def VolumeAvailableStatus_def)
  have I1: "?I w1" using I csi_GetVolume_spec(1) [OF assms(1) c] by simp
  obtain w' where "backoff sleep diskDetachSteps (detached_condition api '''' i) w1 = (Err ErrWaitTimeout, w')"
    using backoff_times_out [of ?I "detached_condition api '''' i" sleep w1] step I1
    by (metis sleep(2) still_owners)
  then show ?thesis
    using det by (simp add: ControllerUnpublishVolume_def csi_OpenStack_def csi_WaitDiskDetached_def on_timeout_def sleep(1))
qed

theorem unpublish_without_node_times_out_witness:
  "\<exists>w'. ControllerUnpublishVolume (csi_OpenStack mem_block) '''' ''b'' demo_volumes =
    (Err (Errorf ''Volume %q failed to detach within the alloted time'' [FStr ''b'']), w')"
proof (rule unpublish_without_node_times_out [OF mem_block_ok])
  show "is_ok (fst (ap_volumes_Get mem_block ''b'' w))" if "mb_vols w ''b'' \<noteq> None" for w
    using that by (auto simp: mem_block_def)
  show "mb_vols demo_volumes ''b'' = Some (demo_volumes ! 1)" by (simp add: demo_volumes_def mb_vols_def)
qed (simp_all add: demo_volumes_def)

lemma gib_rounded:
  assumes "0 < bytes" "bytes < 2 ^ 63"
  shows "RoundUpSize bytes GIB = Ok n \<Longrightarrow> if bytes \<le> 2 ^ 63 - 2 ^ 30 then bytes \<le> gib_bytes n \<and> gib_bytes n < bytes + 2 ^ 30
    else gib_bytes n = - (2 ^ 63)"
proof -
  assume "RoundUpSize bytes GIB = Ok n"
  then have n: "n = - (- bytes div GIB)"
    using RoundUpSize_ceiling [of bytes GIB] assms by (simp add: int64_range_def GIB_def)
  have GIB: "GIB = 2 ^ 30" by (simp add: GIB_def)
  have bounds: "bytes \<le> n * GIB" "n * GIB < bytes + GIB"
    using div_mult_mod_eq [of "- bytes" GIB] pos_mod_bound [of GIB "- bytes"] pos_mod_sign [of GIB "- bytes"]
    by (simp_all add: n GIB)
  show ?thesis
  proof (cases "bytes \<le> 2 ^ 63 - 2 ^ 30")
    case True
    have "int64_range (n * GIB)" using bounds True assms by (simp add: int64_range_def GIB)
    then show ?thesis using True bounds by (simp add: gib_bytes_def wrap64_id GIB)
  next
    case False
    have "n * GIB < 2 ^ 63 + 2 ^ 30" "2 ^ 63 - 2 ^ 30 < n * GIB"
      using bounds False assms by (simp_all add: GIB)
    then have "n = 2 ^ 33" by (simp add: GIB)
    then show ?thesis using False by (simp add: gib_bytes_def GIB wrap64_def signed_take_bit_def not_int_def mask_eq_exp_minus_1)
  qed
qed

text \<open>
  The capacity of a newly created volume is the requested number of bytes rounded up to whole
  GiB: never less than asked for, and less than one GiB more, for every request up to
  \<open>2\<^sup>6\<^sup>3 - 2\<^sup>3\<^sup>0\<close> bytes; above that, the number of bytes reported overflows to \<open>- 2\<^sup>6\<^sup>3\<close>.
\<close>

theorem cs_CreateVolume_capacity:
  assumes "block_ok api vols" "\<And>w. is_ok (fst (ap_volumes_List api (cr_Name req) w))"
    and "\<And>i v. vols w i = Some v \<Longrightarrow> bv_Name v \<noteq> cr_Name req"
    and "cr_CapacityRange req = Some bytes" "0 < bytes" "bytes < 2 ^ 63"
    and "cs_CreateVolume d (csi_OpenStack api) req w = (Ok resp, w')"
  shows "if bytes \<le> 2 ^ 63 - 2 ^ 30 then bytes \<le> vm_CapacityBytes resp \<and> vm_CapacityBytes resp < bytes + 2 ^ 30
    else vm_CapacityBytes resp = - (2 ^ 63)"
proof -
  have name: "cr_Name req \<noteq> ''''" using assms(7) by (auto simp: cs_CreateVolume_def)
  obtain n where n: "RoundUpSize (requested_bytes req) GIB = Ok n" using RoundUpSize_GIB by blast
  obtain vs w1 where q: "ap_volumes_List api (cr_Name req) w = (Ok vs, w1)"
    using assms(2) [of w] by (metis is_ok_iff prod.collapse)
  have "set vs = {}" using block_okD(3) [OF assms(1) q] assms(3) name by (auto simp: ran_def)
  then have "vs = []" by simp
  then have "io_GetVolumesByName (csi_OpenStack api) (cr_Name req) w = (Ok [], w1)"
    using q by (simp add: csi_OpenStack_def csi_GetVolumesByName_def)
  from cs_CreateVolume_run(4) [OF name n this, where d = d] assms(7)
  obtain i az sz where call: "create_call d (csi_OpenStack api) req n w1 = (Ok (i, az, sz), w')"
    "resp = created_response i az sz (snapshot_of (cr_VolumeContentSource req))"
    by (auto simp: bindE_eq_Ok eq_commute [of "(Ok resp, w')"])
  have "sz = n"
    using csi_CreateVolume_law [OF assms(1)] call(1) by (fastforce simp: create_call_def csi_OpenStack_def)
  then show ?thesis
    using gib_rounded [OF assms(5,6)] n assms(4) call(2)
    by (simp add: created_response_def requested_bytes_def split: if_splits)
qed

theorem cs_CreateVolume_capacity_witness:
  "\<exists>resp w'. cs_CreateVolume demo_driver (csi_OpenStack mem_block) demo_request demo_volumes = (Ok resp, w') \<and>
     1500000000 \<le> vm_CapacityBytes resp \<and> vm_CapacityBytes resp < 1500000000 + 2 ^ 30"
proof -
  obtain resp w' where run: "cs_CreateVolume demo_driver (csi_OpenStack mem_block) demo_request demo_volumes = (Ok resp, w')"
    using demo_create by (auto simp: is_ok_iff prod_eq_iff)
  have "is_ok (fst (ap_volumes_List mem_block (cr_Name demo_request) w))" for w
    by (simp add: mem_block_def)
  moreover have "bv_Name v \<noteq> cr_Name demo_request" if "mb_vols demo_volumes i = Some v" for i v
    using that by (auto simp: demo_volumes_def demo_request_def mb_vols_def split: if_splits)
  moreover have "cr_CapacityRange demo_request = Some 1500000000" by (simp add: demo_request_def)
  ultimately show ?thesis
    using cs_CreateVolume_capacity [OF mem_block_ok _ _ _ _ _ run, of 1500000000] run by simp
qed

end
