(* ===== verification/Csi_Node.thy ===== *)
theory Csi_Node
  imports Csi_Controller
begin

text \<open>
  The node server of the Cinder CSI driver: \<open>pkg/csi/cinder/mount/mount.go\<close>, on the calls of the
  operating system and of the Kubernetes mount library (the record \<open>mount_sys\<close>), and
  \<open>pkg/csi/cinder/nodeserver.go\<close>, on the interface \<open>IMount\<close> that \<open>mount.go\<close> implements.
\<close>

section \<open>\<open>mount.go\<close>\<close>

text \<open>
  \<open>sy_IsNotExist\<close> is \<open>os.IsNotExist\<close>; a failed \<open>ReadDir\<close> lists nothing; \<open>sy_Backoff\<close> is
  \<open>wait.ExponentialBackoff\<close> on a condition that also writes the variable \<open>devicePath\<close>.
\<close>

record 'w mount_sys =
  sy_ReadDir :: "string \<Rightarrow> ('w, string list) io"
  sy_ReadFile :: "string \<Rightarrow> ('w, string) io"
  sy_WriteFile :: "string \<Rightarrow> string \<Rightarrow> ('w, unit) io"
  sy_udevadm_trigger :: "('w, unit) io"
  sy_PathExists :: "string \<Rightarrow> ('w, bool) io"
  sy_MkdirAll :: "string \<Rightarrow> ('w, unit) io"
  sy_IsNotExist :: "gerror \<Rightarrow> bool"
  sy_IsLikelyNotMountPoint :: "string \<Rightarrow> ('w, bool) io"
  sy_FormatAndMount :: "string \<Rightarrow> string \<Rightarrow> string \<Rightarrow> string list \<Rightarrow> ('w, unit) io"
  sy_Mount :: "string \<Rightarrow> string \<Rightarrow> string \<Rightarrow> string list \<Rightarrow> ('w, unit) io"
  sy_CleanupMountPoint :: "string \<Rightarrow> ('w, unit) io"
  sy_Backoff :: "nat \<Rightarrow> ('w \<times> string, bool) io \<Rightarrow> ('w \<times> string, unit) io"

definition instanceIDFile :: string where "instanceIDFile = ''/var/lib/cloud/data/instance-id''"
definition mount_operationFinishSteps :: nat where "mount_operationFinishSteps = 15"

definition probeVolume :: "'w mount_sys \<Rightarrow> ('w, unit) io" where
  "probeVolume sys =
     (let scsi_path = ''/sys/class/scsi_host/'' in
      bindE (attempt (sy_ReadDir sys scsi_path)) (\<lambda>r.
      bindE (case r of
               Inl _ \<Rightarrow> ret ()
             | Inr dirs \<Rightarrow>
                 forE (\<lambda>f. bindE (attempt (sy_WriteFile sys (scsi_path @ f @ ''/scan'') ''- - -'')) (\<lambda>_. ret ())) dirs) (\<lambda>_.
      sy_udevadm_trigger sys)))"

definition csi_candidateDeviceNodes :: "string \<Rightarrow> string list result" where
  "csi_candidateDeviceNodes volumeID =
     (if length volumeID < 20 then Panic ''slice bounds out of range''
      else Ok [''virtio-'' @ take 20 volumeID, ''scsi-0QEMU_QEMU_HARDDISK_'' @ take 20 volumeID,
               ''wwn-0x'' @ ReplaceAll volumeID ''-'' ''''])"

fun find_candidate :: "string list \<Rightarrow> string list \<Rightarrow> string" where
  "find_candidate candidates [] = ''''"
| "find_candidate candidates (f # files) =
     (if f \<in> set candidates then ''/dev/disk/by-id/'' @ f else find_candidate candidates files)"

definition csi_getDevicePathBySerialID :: "'w mount_sys \<Rightarrow> string \<Rightarrow> ('w, string) io" where
  "csi_getDevicePathBySerialID sys volumeID =
     bindE (lift_result (csi_candidateDeviceNodes volumeID)) (\<lambda>candidates.
     bindE (attempt (sy_ReadDir sys ''/dev/disk/by-id/'')) (\<lambda>r.
       ret (find_candidate candidates (case r of Inl _ \<Rightarrow> [] | Inr files \<Rightarrow> files))))"

definition csi_device_condition :: "'w mount_sys \<Rightarrow> string \<Rightarrow> ('w \<times> string, bool) io" where
  "csi_device_condition sys volumeID st =
     (case csi_getDevicePathBySerialID sys volumeID (fst st) of
        (Ok p, w') \<Rightarrow> (Ok (p \<noteq> ''''), (w', p))
      | (Err e, w') \<Rightarrow> (Err e, (w', snd st))
      | (Panic s, w') \<Rightarrow> (Panic s, (w', snd st)))"

definition mount_GetDevicePath :: "'w mount_sys \<Rightarrow> string \<Rightarrow> ('w, string) io" where
  "mount_GetDevicePath sys volumeID w =
     (case sy_Backoff sys mount_operationFinishSteps (csi_device_condition sys volumeID) (w, '''') of
        (r, (w', devicePath)) \<Rightarrow>
          (case r of
             Panic s \<Rightarrow> (Panic s, w')
           | _ \<Rightarrow>
               if r = Err ErrWaitTimeout
               then (Err (Errorf ''Failed to find device for the volumeID: %q within the alloted time'' [FStr volumeID]), w')
               else if devicePath = ''''
               then (Err (Errorf ''Device path was empty for volumeID: %q'' [FStr volumeID]), w')
               else (Ok devicePath, w')))"

text \<open>
  The loop of \<open>ScanForAttach\<close>, for the number of ticks of the one-second ticker that come before the
  timer of 60 seconds.
\<close>

fun ScanForAttach :: "'w mount_sys \<Rightarrow> string \<Rightarrow> nat \<Rightarrow> ('w, unit) io" where
  "ScanForAttach sys devicePath 0 =
     fail (Errorf ''Could not find attached Cinder disk %s. Timeout waiting for mount paths to be created.'' [FStr devicePath])"
| "ScanForAttach sys devicePath (Suc ticks) =
     bindE (attempt (probeVolume sys)) (\<lambda>_.
     bindE (attempt (sy_PathExists sys devicePath)) (\<lambda>r.
       if r = Inr True then ret () else ScanForAttach sys devicePath ticks))"

definition IsLikelyNotMountPointAttach :: "'w mount_sys \<Rightarrow> string \<Rightarrow> ('w, bool) io" where
  "IsLikelyNotMountPointAttach sys targetpath =
     bindE (attempt (sy_IsLikelyNotMountPoint sys targetpath)) (\<lambda>r.
       case r of
         Inr notMnt \<Rightarrow> ret notMnt
       | Inl err \<Rightarrow>
           if sy_IsNotExist sys err then bindE (sy_MkdirAll sys targetpath) (\<lambda>_. ret True)
           else fail err)"

definition IsLikelyNotMountPointDetach :: "'w mount_sys \<Rightarrow> string \<Rightarrow> ('w, bool) io" where
  "IsLikelyNotMountPointDetach sys targetpath =
     wrapE (\<lambda>err. if sy_IsNotExist sys err then errors_New ''targetpath not found'' else err)
       (sy_IsLikelyNotMountPoint sys targetpath)"

definition UnmountPath :: "'w mount_sys \<Rightarrow> string \<Rightarrow> ('w, unit) io" where
  "UnmountPath sys mountPath = sy_CleanupMountPoint sys mountPath"

text \<open>An empty file gives the empty id and no error: \<open>err\<close> is still nil there.\<close>

definition mount_GetInstanceID :: "'w mount_sys \<Rightarrow> ('w, string) io" where
  "mount_GetInstanceID sys =
     bindE (sy_ReadFile sys instanceIDFile) (\<lambda>idBytes.
       let instanceID = TrimSpace idBytes in
       if instanceID \<noteq> '''' then ret instanceID else ret '''')"

record 'w IMount =
  im_ScanForAttach :: "string \<Rightarrow> nat \<Rightarrow> ('w, unit) io"
  im_GetDevicePath :: "string \<Rightarrow> ('w, string) io"
  im_IsLikelyNotMountPointAttach :: "string \<Rightarrow> ('w, bool) io"
  im_FormatAndMount :: "string \<Rightarrow> string \<Rightarrow> string \<Rightarrow> string list \<Rightarrow> ('w, unit) io"
  im_IsLikelyNotMountPointDetach :: "string \<Rightarrow> ('w, bool) io"
  im_Mount :: "string \<Rightarrow> string \<Rightarrow> string \<Rightarrow> string list \<Rightarrow> ('w, unit) io"
  im_UnmountPath :: "string \<Rightarrow> ('w, unit) io"
  im_GetInstanceID :: "('w, string) io"

definition csi_Mount :: "'w mount_sys \<Rightarrow> 'w IMount" where
  "csi_Mount sys = \<lparr> im_ScanForAttach = ScanForAttach sys, im_GetDevicePath = mount_GetDevicePath sys,
     im_IsLikelyNotMountPointAttach = IsLikelyNotMountPointAttach sys, im_FormatAndMount = sy_FormatAndMount sys,
     im_IsLikelyNotMountPointDetach = IsLikelyNotMountPointDetach sys, im_Mount = sy_Mount sys,
     im_UnmountPath = UnmountPath sys, im_GetInstanceID = mount_GetInstanceID sys \<rparr>"

section \<open>\<open>nodeserver.go\<close>\<close>

datatype AccessType = MountVolume string "string list" | BlockVolume | NoAccessType

record 'w nodeServer =
  no_Driver :: CinderDriver
  no_Mount :: "'w IMount"
  no_Metadata :: "'w md_api"
  no_md_sys :: "'w md_sys"

definition internal :: "gerror \<Rightarrow> gerror" where
  "internal err = GrpcStatus ''Internal'' err"

definition fs_type :: "AccessType \<Rightarrow> string" where
  "fs_type cap = (case cap of MountVolume fsType _ \<Rightarrow> if fsType \<noteq> '''' then fsType else ''ext4'' | _ \<Rightarrow> ''ext4'')"

definition NodePublishVolume ::
  "'w nodeServer \<Rightarrow> string \<Rightarrow> string \<Rightarrow> AccessType option \<Rightarrow> bool \<Rightarrow> ('w, unit) io" where
  "NodePublishVolume ns source targetPath volumeCapability readonly =
     (case volumeCapability of
        None \<Rightarrow> fail (GrpcStatus ''InvalidArgument'' (errors_New ''NodePublishVolume missing required arguments''))
      | Some cap \<Rightarrow>
          if source = '''' \<or> targetPath = ''''
          then fail (GrpcStatus ''InvalidArgument'' (errors_New ''NodePublishVolume missing required arguments''))
          else
            bindE (wrapE internal (im_IsLikelyNotMountPointAttach (no_Mount ns) targetPath)) (\<lambda>notMnt.
              if notMnt then
                wrapE internal
                  (im_Mount (no_Mount ns) source targetPath (fs_type cap) [''bind'', if readonly then ''ro'' else ''rw''])
              else ret ()))"

definition unmount_target :: "'w nodeServer \<Rightarrow> string \<Rightarrow> string \<Rightarrow> ('w, unit) io" where
  "unmount_target ns msg target =
     (if target = '''' then fail (GrpcStatus ''InvalidArgument'' (errors_New msg))
      else
        bindE (wrapE internal (im_IsLikelyNotMountPointDetach (no_Mount ns) target)) (\<lambda>notMnt.
          if notMnt then fail (GrpcStatus ''NotFound'' (errors_New ''Volume not mounted''))
          else wrapE internal (im_UnmountPath (no_Mount ns) target)))"

definition NodeUnpublishVolume :: "'w nodeServer \<Rightarrow> string \<Rightarrow> ('w, unit) io" where
  "NodeUnpublishVolume ns targetPath =
     unmount_target ns ''NodeUnpublishVolume Target Path must be provided'' targetPath"

definition NodeUnstageVolume :: "'w nodeServer \<Rightarrow> string \<Rightarrow> ('w, unit) io" where
  "NodeUnstageVolume ns stagingTargetPath =
     unmount_target ns ''NodeUnstageVolume Staging Target Path must be provided'' stagingTargetPath"

definition getDevicePath :: "'w nodeServer \<Rightarrow> string \<Rightarrow> ('w, string) io" where
  "getDevicePath ns volumeID =
     bindE (attempt (im_GetDevicePath (no_Mount ns) volumeID)) (\<lambda>r.
       let devicePath = (case r of Inl _ \<Rightarrow> '''' | Inr p \<Rightarrow> p) in
       if devicePath = '''' then GetDevicePath (no_md_sys ns) volumeID else ret devicePath)"

definition NodeStageVolume :: "'w nodeServer \<Rightarrow> string \<Rightarrow> string \<Rightarrow> AccessType option \<Rightarrow> ('w, unit) io" where
  "NodeStageVolume ns volumeID stagingTarget volumeCapability =
     (if stagingTarget = '''' then fail (GrpcStatus ''InvalidArgument'' (errors_New ''Staging target not provided''))
      else
        case volumeCapability of
          None \<Rightarrow> fail (GrpcStatus ''InvalidArgument'' (errors_New ''NodeStageVolume Volume Capability must be provided''))
        | Some cap \<Rightarrow>
            bindE (getDevicePath ns volumeID) (\<lambda>devicePath.
              if devicePath = '''' then
                fail (GrpcStatus ''Internal'' (errors_New ''Unable to find Device path for volume''))
              else
                bindE (wrapE internal (im_IsLikelyNotMountPointAttach (no_Mount ns) stagingTarget)) (\<lambda>notMnt.
                  if notMnt then
                    (case cap of
                       BlockVolume \<Rightarrow> fail (GrpcStatus ''Unimplemented'' (errors_New ''Block volume support is not yet implemented''))
                     | _ \<Rightarrow>
                         wrapE internal
                           (im_FormatAndMount (no_Mount ns) devicePath stagingTarget (fs_type cap)
                             (case cap of MountVolume _ mountFlags \<Rightarrow> mountFlags | _ \<Rightarrow> [])))
                  else ret ())))"

definition getNodeIDMountProvider :: "'w IMount \<Rightarrow> ('w, string) io" where
  "getNodeIDMountProvider m = im_GetInstanceID m"

definition getNodeIDMetdataService :: "'w md_api \<Rightarrow> ('w, string) io" where
  "getNodeIDMetdataService m = md_GetInstanceID m"

definition getAvailabilityZoneMetadataService :: "'w md_api \<Rightarrow> ('w, string) io" where
  "getAvailabilityZoneMetadataService m = md_GetAvailabilityZone m"

definition getNodeID :: "'w IMount \<Rightarrow> 'w md_api \<Rightarrow> ('w, string) io" where
  "getNodeID m md =
     bindE (attempt (getNodeIDMountProvider m)) (\<lambda>r.
       case r of
         Inr nodeID \<Rightarrow> ret nodeID
       | Inl _ \<Rightarrow> getNodeIDMetdataService md)"

definition NodeGetInfo :: "'w nodeServer \<Rightarrow> ('w, string \<times> (string \<rightharpoonup> string)) io" where
  "NodeGetInfo ns =
     bindE (getNodeID (no_Mount ns) (no_Metadata ns)) (\<lambda>nodeID.
     bindE (attempt (getAvailabilityZoneMetadataService (no_Metadata ns))) (\<lambda>r.
       let zone = (case r of Inl _ \<Rightarrow> '''' | Inr z \<Rightarrow> z) in
       ret (nodeID, [topologyKey \<mapsto> zone])))"

definition NodeGetCapabilities :: "'w nodeServer \<Rightarrow> NodeCap list" where
  "NodeGetCapabilities ns = cd_nscap (no_Driver ns)"

definition NodeGetVolumeStats :: "unit result" where
  "NodeGetVolumeStats = Err (GrpcStatus ''Unimplemented'' (errors_New ''NodeGetVolumeStats is not yet implemented''))"

definition NodeExpandVolume :: "unit result" where
  "NodeExpandVolume = Err (GrpcStatus ''Unimplemented'' (errors_New ''NodeExpandVolume is not yet implemented''))"

section \<open>The mount table\<close>

text \<open>
  \<open>mnt w\<close> gives the source, the type and the options of every mount point, \<open>dirs w\<close> the paths that
  exist. What the mount library documents: a path that does not exist is reported by an error for
  which \<open>os.IsNotExist\<close> holds, and only such a path; a mount adds an entry; \<open>CleanupMountPoint\<close>
  unmounts the path and removes the directory.
\<close>

type_synonym mount_entry = "string \<times> string \<times> string list"

definition mounts_ok :: "'w mount_sys \<Rightarrow> ('w \<Rightarrow> string \<rightharpoonup> mount_entry) \<Rightarrow> ('w \<Rightarrow> string set) \<Rightarrow> bool" where
  "mounts_ok sys mnt dirs \<longleftrightarrow>
     (\<forall>p w r w'. sy_IsLikelyNotMountPoint sys p w = (r, w') \<longrightarrow> mnt w' = mnt w \<and> dirs w' = dirs w \<and>
        (case r of Ok b \<Rightarrow> p \<in> dirs w \<and> b = (mnt w p = None) | Err e \<Rightarrow> sy_IsNotExist sys e = (p \<notin> dirs w) | Panic _ \<Rightarrow> False)) \<and>
     (\<forall>p w r w'. sy_MkdirAll sys p w = (r, w') \<longrightarrow> mnt w' = mnt w \<and> (is_ok r \<longrightarrow> dirs w' = insert p (dirs w))) \<and>
     (\<forall>s t f opts w u w'. sy_Mount sys s t f opts w = (Ok u, w') \<longrightarrow> mnt w' = (mnt w)(t \<mapsto> (s, f, opts)) \<and> dirs w' = dirs w) \<and>
     (\<forall>p w u w'. sy_CleanupMountPoint sys p w = (Ok u, w') \<longrightarrow> mnt w' = (mnt w)(p := None) \<and> dirs w' = dirs w - {p})"

lemma mounts_ok_laws:
  assumes "mounts_ok sys mnt dirs"
  shows "\<forall>p w r w'. sy_IsLikelyNotMountPoint sys p w = (r, w') \<longrightarrow> mnt w' = mnt w \<and> dirs w' = dirs w \<and>
        (case r of Ok b \<Rightarrow> p \<in> dirs w \<and> b = (mnt w p = None) | Err e \<Rightarrow> sy_IsNotExist sys e = (p \<notin> dirs w) | Panic _ \<Rightarrow> False)"
    and "\<forall>p w r w'. sy_MkdirAll sys p w = (r, w') \<longrightarrow> mnt w' = mnt w \<and> (is_ok r \<longrightarrow> dirs w' = insert p (dirs w))"
    and "\<forall>s t f opts w u w'. sy_Mount sys s t f opts w = (Ok u, w') \<longrightarrow> mnt w' = (mnt w)(t \<mapsto> (s, f, opts)) \<and> dirs w' = dirs w"
    and "\<forall>p w u w'. sy_CleanupMountPoint sys p w = (Ok u, w') \<longrightarrow> mnt w' = (mnt w)(p := None) \<and> dirs w' = dirs w - {p}"
  by (insert assms, unfold mounts_ok_def, (elim conjE, assumption)+)

lemmas mounts_okD = mounts_ok_laws [rule_format]

locale csi_mount =
  fixes mounter :: "'e \<Rightarrow> 'w IMount" and fine :: "'e \<Rightarrow> bool"
    and mnt :: "'e \<Rightarrow> 'w \<Rightarrow> string \<rightharpoonup> mount_entry" and dirs :: "'e \<Rightarrow> 'w \<Rightarrow> string set"
  assumes attach_check: "fine e \<Longrightarrow> im_IsLikelyNotMountPointAttach (mounter e) t w = (Ok b, w') \<Longrightarrow>
      mnt e w' = mnt e w \<and> (t \<in> dirs e w \<longrightarrow> b = (mnt e w t = None)) \<and> (t \<notin> dirs e w \<longrightarrow> b) \<and> t \<in> dirs e w'"
    and detach_check: "fine e \<Longrightarrow> im_IsLikelyNotMountPointDetach (mounter e) t w = (r, w') \<Longrightarrow>
      mnt e w' = mnt e w \<and> dirs e w' = dirs e w \<and>
      (t \<notin> dirs e w \<longrightarrow> r = Err (errors_New ''targetpath not found'')) \<and> (r = Ok b \<longrightarrow> b = (mnt e w t = None))"
    and mounted: "fine e \<Longrightarrow> im_Mount (mounter e) s t f opts w = (Ok u, w') \<Longrightarrow>
      mnt e w' = (mnt e w)(t \<mapsto> (s, f, opts)) \<and> dirs e w' = dirs e w"
    and unmounted: "fine e \<Longrightarrow> im_UnmountPath (mounter e) t w = (Ok u, w') \<Longrightarrow>
      mnt e w' = (mnt e w)(t := None) \<and> dirs e w' = dirs e w - {t}"
begin

lemma publish_mounts:
  assumes "fine e" "no_Mount ns = mounter e" "mnt e w target = None"
    and "NodePublishVolume ns source target (Some cap) ro w = (Ok u, w')"
  shows "mnt e w' = (mnt e w)(target \<mapsto> (source, fs_type cap, [''bind'', if ro then ''ro'' else ''rw'']))"
    and "target \<noteq> ''''" "target \<in> dirs e w'"
proof -
  from assms(4) obtain b w1 where check: "im_IsLikelyNotMountPointAttach (mounter e) target w = (Ok b, w1)"
    and rest: "(if b then wrapE internal (im_Mount (mounter e) source target (fs_type cap)
      [''bind'', if ro then ''ro'' else ''rw'']) else ret ()) w1 = (Ok u, w')" and t: "target \<noteq> ''''"
    by (auto simp: NodePublishVolume_def assms(2) bindE_eq_Ok wrapE_eq_Ok split: if_splits)
  from attach_check [OF assms(1) check] assms(3) have b: "b" and w1: "mnt e w1 = mnt e w" "target \<in> dirs e w1" by auto
  with rest have "im_Mount (mounter e) source target (fs_type cap) [''bind'', if ro then ''ro'' else ''rw''] w1 = (Ok u, w')"
    by (simp add: wrapE_eq_Ok del: if_split)
  from mounted [OF assms(1) this] w1 show
    "mnt e w' = (mnt e w)(target \<mapsto> (source, fs_type cap, [''bind'', if ro then ''ro'' else ''rw'']))"
    "target \<in> dirs e w'" by (simp_all del: if_split)
  show "target \<noteq> ''''" by (rule t)
qed

lemma unmount_target_unmounts:
  assumes "fine e" "no_Mount ns = mounter e" "unmount_target ns msg target w = (Ok u, w')"
  shows "mnt e w' = (mnt e w)(target := None) \<and> target \<notin> dirs e w' \<and> mnt e w target \<noteq> None"
proof -
  from assms(3) obtain b w1 where check: "im_IsLikelyNotMountPointDetach (mounter e) target w = (Ok b, w1)"
    and b: "\<not> b" and um: "im_UnmountPath (mounter e) target w1 = (Ok u, w')"
    by (auto simp: unmount_target_def assms(2) bindE_eq_Ok wrapE_eq_Ok split: if_splits)
  from detach_check [OF assms(1) check, of b] b unmounted [OF assms(1) um] show ?thesis by auto
qed

lemma unmount_target_gone:
  assumes "fine e" "no_Mount ns = mounter e" "target \<notin> dirs e w" "target \<noteq> ''''"
  shows "\<exists>w'. unmount_target ns msg target w = (Err (GrpcStatus ''Internal'' (errors_New ''targetpath not found'')), w') \<and>
    mnt e w' = mnt e w"
proof -
  obtain r w' where check: "im_IsLikelyNotMountPointDetach (mounter e) target w = (r, w')" by fastforce
  from detach_check [OF assms(1) check] assms(3,4) check show ?thesis
    by (auto simp: unmount_target_def assms(2) wrapE_def bindE_def internal_def)
qed

end

interpretation cm: csi_mount "\<lambda>e. csi_Mount (fst e)" "\<lambda>e. mounts_ok (fst e) (fst (snd e)) (snd (snd e))"
  "\<lambda>e. fst (snd e)" "\<lambda>e. snd (snd e)"
proof (unfold_locales, goal_cases)
  case (1 e t w b w')
  obtain r w1 where check: "sy_IsLikelyNotMountPoint (fst e) t w = (r, w1)" by fastforce
  have law: "fst (snd e) w1 = fst (snd e) w" "snd (snd e) w1 = snd (snd e) w"
    "case r of Ok b \<Rightarrow> t \<in> snd (snd e) w \<and> b = (fst (snd e) w t = None)
      | Err x \<Rightarrow> sy_IsNotExist (fst e) x = (t \<notin> snd (snd e) w) | Panic _ \<Rightarrow> False"
    using mounts_okD(1) [OF 1(1) check] by simp_all
  show ?case
  proof (cases r)
    case (Ok b')
    then show ?thesis using 1(2) law check by (auto simp: csi_Mount_def IsLikelyNotMountPointAttach_def bindE_def attempt_def)
  next
    case (Err x)
    with 1(2) check obtain u where mk: "sy_IsNotExist (fst e) x" "sy_MkdirAll (fst e) t w1 = (Ok u, w')" "b"
      by (auto simp: csi_Mount_def IsLikelyNotMountPointAttach_def bindE_attempt_eq_Ok bindE_eq_Ok split: if_splits)
    have "fst (snd e) w' = fst (snd e) w1" "snd (snd e) w' = insert t (snd (snd e) w1)"
      using mounts_okD(2) [OF 1(1) mk(2)] by simp_all
    then show ?thesis using law mk Err by simp
  next
    case (Panic p)
    then show ?thesis using law by simp
  qed
next
  case (2 e t w r w' b)
  obtain q where check: "sy_IsLikelyNotMountPoint (fst e) t w = (q, w')"
    and r: "r = (case q of Ok b \<Rightarrow> Ok b | Err x \<Rightarrow> Err (if sy_IsNotExist (fst e) x then errors_New ''targetpath not found'' else x) | Panic p \<Rightarrow> Panic p)"
    using 2(2) by (auto simp: csi_Mount_def IsLikelyNotMountPointDetach_def wrapE_def split: prod.splits result.splits)
  show ?case using mounts_okD(1) [OF 2(1) check] r by (auto split: result.splits)
next
  case (3 e s t f opts w u w')
  then show ?case using mounts_okD(3) [OF 3(1)] by (simp add: csi_Mount_def)
next
  case (4 e t w u w')
  then show ?case using mounts_okD(4) [OF 4(1)] by (simp add: csi_Mount_def UnmountPath_def)
qed

section \<open>Properties\<close>


text \<open>An in-memory node: its mount points, and the paths that exist.\<close>

definition mem_mounts :: "((string \<times> mount_entry) list \<times> string list) mount_sys" where
  "mem_mounts = \<lparr>
     sy_ReadDir = (\<lambda>_. ret []), sy_ReadFile = (\<lambda>_. ret '' ''), sy_WriteFile = (\<lambda>_ _. ret ()), sy_udevadm_trigger = ret (),
     sy_PathExists = (\<lambda>_. ret False), sy_MkdirAll = (\<lambda>p (m, d). (Ok (), (m, p # d))),
     sy_IsNotExist = (\<lambda>e. e = External ''no such file''),
     sy_IsLikelyNotMountPoint = (\<lambda>p (m, d).
       if p \<in> set d then (Ok (map_of m p = None), (m, d)) else (Err (External ''no such file''), (m, d))),
     sy_FormatAndMount = (\<lambda>s t f opts (m, d). (Ok (), ((t, (s, f, opts)) # m, d))),
     sy_Mount = (\<lambda>s t f opts (m, d). (Ok (), ((t, (s, f, opts)) # m, d))),
     sy_CleanupMountPoint = (\<lambda>p (m, d). (Ok (), (filter (\<lambda>(q, _). q \<noteq> p) m, filter (\<lambda>q. q \<noteq> p) d))),
     sy_Backoff = backoff (\<lambda>s. s) \<rparr>"

lemma map_of_without: "map_of (filter (\<lambda>(q, _). q \<noteq> p) m) = (map_of m)(p := None)"
  by (induction m) (auto split: prod.splits)

lemma mem_mounts_ok: "mounts_ok mem_mounts (\<lambda>w. map_of (fst w)) (\<lambda>w. set (snd w))"
  unfolding mounts_ok_def
  by (auto simp: mem_mounts_def map_of_without split: if_splits)

definition demo_node :: "((string \<times> mount_entry) list \<times> string list) nodeServer" where
  "demo_node = \<lparr> no_Driver = demo_driver, no_Mount = csi_Mount mem_mounts,
     no_Metadata = \<lparr> mp_HttpGet = (\<lambda>_. ret (200, ''md'')), mp_Unmarshal = (\<lambda>_. Ok \<lparr> mt_UUID = ''uuid'', mt_AvailabilityZone = ''nova'' \<rparr>) \<rparr>,
     no_md_sys = demo_md_sys \<rparr>"


text \<open>
  An instance-id file that is there but blank makes \<open>NodeGetInfo\<close> report the empty node id: the
  mount provider returns no error with it, and the metadata service, the fallback, is not asked.
\<close>

theorem blank_instance_id_reported:
  assumes "sy_ReadFile sys instanceIDFile w = (Ok content, w')" "TrimSpace content = ''''"
    and "no_Mount ns = csi_Mount sys"
    and "md_GetAvailabilityZone (no_Metadata ns) w' = (r, w'')" "\<And>p. r \<noteq> Panic p"
  shows "\<exists>topology. NodeGetInfo ns w = (Ok ('''', topology), w'')"
  using assms
  by (cases r)
    (auto simp: NodeGetInfo_def getNodeID_def getNodeIDMountProvider_def csi_Mount_def mount_GetInstanceID_def
      getAvailabilityZoneMetadataService_def bindE_def attempt_def)

theorem blank_instance_id_reported_witness:
  "\<exists>topology. NodeGetInfo demo_node ([], []) = (Ok ('''', topology), ([], []))"
proof (rule blank_instance_id_reported)
  show "sy_ReadFile mem_mounts instanceIDFile ([], []) = (Ok '' '', ([], []))" by (simp add: mem_mounts_def)
  show "TrimSpace '' '' = ''''" by code_simp
  show "no_Mount demo_node = csi_Mount mem_mounts" by (simp add: demo_node_def)
  show "md_GetAvailabilityZone (no_Metadata demo_node) ([], []) = (Ok ''nova'', ([], []))"
    by (simp add: demo_node_def md_GetAvailabilityZone_def getMetaDataInfo_def getMetadata_def)
qed simp

text \<open>
  A volume id of fewer than 20 bytes makes \<open>NodeStageVolume\<close> panic, in the slice of
  \<open>getDevicePathBySerialID\<close>: nothing checks the id of the request.
\<close>

lemma short_volume_id_panics:
  assumes "length volumeID < 20" "sy_Backoff sys = backoff sleep" "no_Mount ns = csi_Mount sys" "stagingTarget \<noteq> ''''"
  shows "\<exists>w'. NodeStageVolume ns volumeID stagingTarget (Some cap) w = (Panic ''slice bounds out of range'', w')"
proof -
  have "csi_device_condition sys volumeID (w, '''') = (Panic ''slice bounds out of range'', (w, ''''))"
    using assms(1) by (simp add: csi_device_condition_def csi_getDevicePathBySerialID_def csi_candidateDeviceNodes_def)
  then have "sy_Backoff sys mount_operationFinishSteps (csi_device_condition sys volumeID) (w, '''') =
      (Panic ''slice bounds out of range'', (w, ''''))"
    by (simp add: assms(2) mount_operationFinishSteps_def numeral_eq_Suc)
  then show ?thesis
    using assms(3,4)
    by (simp add: NodeStageVolume_def getDevicePath_def csi_Mount_def mount_GetDevicePath_def)
qed

end
