(* ===== verification/Ingress_Octavia.thy ===== *)
theory Ingress_Octavia
  imports Lb_Base Go_Wait Go_Conv
begin

text \<open>
  The Octavia side of the ingress controller: \<open>pkg/ingress/controller/openstack/octavia.go\<close> and
  \<open>pkg/ingress/utils/utils.go\<close>. The calls of gophercloud are the fields of \<open>octavia_api\<close>, paginated
  lists are lists of pages. The hash of \<open>utils.Hash\<close> (SHA-256 in hexadecimal) is a parameter.
\<close>

section \<open>Data\<close>

record ing_LoadBalancer =
  ilb_ID :: string
  ilb_Name :: string
  ilb_Description :: string
  ilb_ProvisioningStatus :: string
  ilb_VipAddress :: string
  ilb_VipPortID :: string

record ing_lb_CreateOpts =
  ilo_Name :: string
  ilo_Description :: string
  ilo_VipSubnetID :: string
  ilo_Provider :: string

record ing_Listener =
  ili_ID :: string
  ili_Name :: string

record ing_listener_CreateOpts =
  ilc_Name :: string
  ilc_Protocol :: string
  ilc_ProtocolPort :: int
  ilc_LoadbalancerID :: string

record ing_Pool =
  ipo_ID :: string
  ipo_Name :: string
  ipo_Listeners :: "string list"

record ing_pool_CreateOpts =
  ipc_Name :: string
  ipc_Protocol :: string
  ipc_LBMethod :: string
  ipc_ListenerID :: string
  ipc_LoadbalancerID :: string

record ing_Member =
  ime_Address :: string
  ime_ProtocolPort :: int

record ing_policy_CreateOpts =
  iyc_ListenerID :: string
  iyc_Action :: string
  iyc_Description :: string
  iyc_RedirectPoolID :: string

record ing_rule_CreateOpts =
  irc_RuleType :: string
  irc_CompareType :: string
  irc_Value :: string

text \<open>A node: the fields of \<open>Node\<close> and those that decide whether it takes traffic.\<close>

record ing_Node = Node +
  nd_Unschedulable :: bool
  nd_Labels :: "string \<rightharpoonup> string"
  nd_Conditions :: "(string \<times> string) list"

record 'w octavia_api =
  oi_lb_Get :: "string \<Rightarrow> ('w, ing_LoadBalancer) io"
  oi_lb_List :: "string \<Rightarrow> ('w, ing_LoadBalancer list result list) io"
  oi_lb_Create :: "ing_lb_CreateOpts \<Rightarrow> ('w, ing_LoadBalancer) io"
  oi_lb_Delete :: "string \<Rightarrow> ('w, unit) io"
  oi_lb_Update :: "string \<Rightarrow> string \<Rightarrow> ('w, unit) io"
  oi_listener_List :: "string \<Rightarrow> string \<Rightarrow> ('w, ing_Listener list result list) io"
  oi_listener_Create :: "ing_listener_CreateOpts \<Rightarrow> ('w, ing_Listener) io"
  oi_pool_List :: "string \<Rightarrow> string \<Rightarrow> ('w, ing_Pool list result list) io"
  oi_pool_Create :: "ing_pool_CreateOpts \<Rightarrow> ('w, ing_Pool) io"
  oi_pool_Delete :: "string \<Rightarrow> ('w, unit) io"
  oi_member_List :: "string \<Rightarrow> ('w, ing_Member list result list) io"
  oi_member_BatchUpdate :: "string \<Rightarrow> ing_Member list \<Rightarrow> ('w, unit) io"
  oi_policy_List :: "string \<Rightarrow> ('w, string list result list) io"
  oi_policy_Create :: "ing_policy_CreateOpts \<Rightarrow> ('w, string) io"
  oi_policy_Delete :: "string \<Rightarrow> ('w, unit) io"
  oi_policy_CreateRule :: "string \<Rightarrow> ing_rule_CreateOpts \<Rightarrow> ('w, unit) io"
  oi_Backoff :: "nat \<Rightarrow> ('w \<times> string, bool) io \<Rightarrow> ('w \<times> string, unit) io"

definition ing_loadbalancerActiveSteps :: nat where "ing_loadbalancerActiveSteps = 240"

section \<open>\<open>utils.go\<close>\<close>

definition GetResourceName :: "string \<Rightarrow> string \<Rightarrow> string \<Rightarrow> string" where
  "GetResourceName namespace name clusterName = ''k8s_ing_'' @ clusterName @ ''_'' @ namespace @ ''_'' @ name"

definition NodeNames :: "ing_Node list \<Rightarrow> string list" where
  "NodeNames nodes = map nd_Name nodes"

definition stringSlicesEqual :: "string list \<Rightarrow> string list \<Rightarrow> bool" where
  "stringSlicesEqual x y \<longleftrightarrow>
     length x = length y \<and>
     (let x' = (if sorted x then x else sort x); y' = (if sorted y then y else sort y) in
      list_all (\<lambda>i. x' ! i = y' ! i) [0..<length x'])"

definition NodeSlicesEqual :: "ing_Node list \<Rightarrow> ing_Node list \<Rightarrow> bool" where
  "NodeSlicesEqual x y \<longleftrightarrow> length x = length y \<and> stringSlicesEqual (NodeNames x) (NodeNames y)"

text \<open>The provider id is matched against \<open>^openstack:///([^/]+)$\<close>.\<close>

definition GetNodeID :: "ing_Node \<Rightarrow> string result" where
  "GetNodeID node =
     (let p = nd_ProviderID node; instanceID = drop 13 p in
      if HasPrefix p ''openstack:///'' \<and> instanceID \<noteq> '''' \<and> CHR ''/'' \<notin> set instanceID then Ok instanceID
      else Err (Errorf ''failed to find instance ID from node provider ID %s'' [FStr p]))"

text \<open>\<open>sets.String\<close> as the sorted list of its members, which is what \<open>List\<close> returns.\<close>

definition Convert2Set :: "string list \<Rightarrow> string list" where
  "Convert2Set l = sort (remdups l)"

section \<open>Lookups\<close>

fun internal_address :: "NodeAddress list \<Rightarrow> string option" where
  "internal_address [] = None"
| "internal_address (addr # addrs) =
     (if na_Type addr = NodeInternalIP then Some (na_Address addr) else internal_address addrs)"

definition getNodeAddressForLB :: "ing_Node \<Rightarrow> string result" where
  "getNodeAddressForLB node =
     (case nd_Addresses node of
        [] \<Rightarrow> Err (errors_New ''no address found for host'')
      | a # _ \<Rightarrow> (case internal_address (nd_Addresses node) of Some addr \<Rightarrow> Ok addr | None \<Rightarrow> Ok (na_Address a)))"

definition ing_active_condition :: "'w octavia_api \<Rightarrow> string \<Rightarrow> ('w \<times> string, bool) io" where
  "ing_active_condition api loadbalancerID st =
     (case oi_lb_Get api loadbalancerID (fst st) of
        (Ok lb, w) \<Rightarrow>
          (if ilb_ProvisioningStatus lb = activeStatus then Ok True
           else if ilb_ProvisioningStatus lb = errorStatus
           then Err (errors_New ''loadbalancer has gone into ERROR state'')
           else Ok False, (w, ilb_ProvisioningStatus lb))
      | (Err e, w) \<Rightarrow> (Err e, (w, snd st))
      | (Panic p, w) \<Rightarrow> (Panic p, (w, snd st)))"

text \<open>The callers of the wait look at the error only; the status is returned without one.\<close>

definition ing_wait :: "'w octavia_api \<Rightarrow> string \<Rightarrow> ('w, string) io" where
  "ing_wait api loadbalancerID w =
     (case oi_Backoff api ing_loadbalancerActiveSteps (ing_active_condition api loadbalancerID) (w, '''') of
        (Ok _, (w', provisioningStatus)) \<Rightarrow> (Ok provisioningStatus, w')
      | (Err e, (w', _)) \<Rightarrow>
          (Err (if e = ErrWaitTimeout
                then errors_New ''loadbalancer failed to go into ACTIVE provisioning status within alloted time'' else e), w')
      | (Panic p, (w', _)) \<Rightarrow> (Panic p, w'))"

text \<open>The handler of the pages of a lookup that may find one object at most.\<close>

definition at_most_one :: "'a list \<Rightarrow> 'a list \<Rightarrow> (bool \<times> 'a list) result" where
  "at_most_one v l = (let l' = l @ v in if length l' > 1 then Err ErrMultipleResults else Ok (True, l'))"

definition find_one :: "('w, 'a list result list) io \<Rightarrow> ('w, 'a) io" where
  "find_one lister =
     bindE (wrapE not_found_as (bindE lister (\<lambda>pages. lift_result (each_page at_most_one pages [])))) (\<lambda>l.
       case l of [] \<Rightarrow> fail ErrNotFound | x # _ \<Rightarrow> ret x)"

definition GetLoadbalancerByName :: "'w octavia_api \<Rightarrow> string \<Rightarrow> ('w, ing_LoadBalancer) io" where
  "GetLoadbalancerByName api name = find_one (oi_lb_List api name)"

definition getListenerByName :: "'w octavia_api \<Rightarrow> string \<Rightarrow> string \<Rightarrow> ('w, ing_Listener) io" where
  "getListenerByName api name lbID = find_one (oi_listener_List api name lbID)"

definition getPoolByName :: "'w octavia_api \<Rightarrow> string \<Rightarrow> string \<Rightarrow> ('w, ing_Pool) io" where
  "getPoolByName api name lbID =
     bindE (wrapE not_found_as (bindE (oi_pool_List api name lbID) (\<lambda>pages.
              lift_result (each_page at_most_one pages [])))) (\<lambda>listenerPools.
       case listenerPools of
         [] \<Rightarrow> fail ErrNotFound
       | [p] \<Rightarrow> ret p
       | _ \<Rightarrow> fail ErrMultipleResults)"

definition GetPools :: "'w octavia_api \<Rightarrow> string \<Rightarrow> bool \<Rightarrow> ('w, ing_Pool list) io" where
  "GetPools api lbID shared =
     bindE (oi_pool_List api '''' lbID) (\<lambda>pages.
       lift_result (each_page (\<lambda>v lbPools.
         Ok (True, lbPools @ filter (\<lambda>p. \<not> (shared \<and> ipo_Listeners p \<noteq> [])) v)) pages []))"

definition GetMembers :: "'w octavia_api \<Rightarrow> string \<Rightarrow> ('w, ing_Member list) io" where
  "GetMembers api poolID =
     bindE (oi_member_List api poolID) (\<lambda>pages.
       lift_result (each_page (\<lambda>v members. Ok (True, members @ v)) pages []))"

definition GetL7policies :: "'w octavia_api \<Rightarrow> string \<Rightarrow> ('w, string list) io" where
  "GetL7policies api listenerID =
     bindE (oi_policy_List api listenerID) (\<lambda>pages.
       lift_result (each_page (\<lambda>v policies. Ok (True, policies @ v)) pages []))"

section \<open>Operations\<close>

definition wait_active_err :: "string \<Rightarrow> gerror \<Rightarrow> gerror" where
  "wait_active_err lbID err = Errorf ''error waiting for loadbalancer %s to be active: %v'' [FStr lbID, FErr err]"

definition DeletePool :: "'w octavia_api \<Rightarrow> string \<Rightarrow> string \<Rightarrow> ('w, unit) io" where
  "DeletePool api poolID lbID =
     bindE (wrapE (\<lambda>err. Errorf ''failed to delete pool %s: %v'' [FStr poolID, FErr err]) (oi_pool_Delete api poolID)) (\<lambda>_.
     bindE (wrapE (\<lambda>err. Errorf ''failed to wait for loadbalancer to be active: %v'' [FErr err]) (ing_wait api lbID)) (\<lambda>_.
     ret ()))"

definition DeleteL7policy :: "'w octavia_api \<Rightarrow> string \<Rightarrow> string \<Rightarrow> ('w, unit) io" where
  "DeleteL7policy api policyID lbID =
     bindE (wrapE (\<lambda>err. Errorf ''failed to delete l7 policy: %v'' [FErr err]) (oi_policy_Delete api policyID)) (\<lambda>_.
     bindE (wrapE (\<lambda>err. Errorf ''failed to wait for loadbalancer to be active: %v'' [FErr err]) (ing_wait api lbID)) (\<lambda>_.
     ret ()))"

definition DeleteLoadbalancer :: "'w octavia_api \<Rightarrow> string \<Rightarrow> ('w, unit) io" where
  "DeleteLoadbalancer api lbID =
     bindE (attempt (oi_lb_Delete api lbID)) (\<lambda>r.
       case r of
         Inl err \<Rightarrow>
           if \<not> IsNotFound err then fail (Errorf ''error deleting loadbalancer %s: %v'' [FStr lbID, FErr err]) else ret ()
       | Inr _ \<Rightarrow> ret ())"

definition ing_EnsureLoadBalancer ::
  "'w octavia_api \<Rightarrow> string \<Rightarrow> string \<Rightarrow> string \<Rightarrow> string \<Rightarrow> string \<Rightarrow> ('w, ing_LoadBalancer) io" where
  "ing_EnsureLoadBalancer api name subnetID ingNamespace ingName clusterName =
     bindE (attempt (GetLoadbalancerByName api name)) (\<lambda>r.
     bindE (case r of
              Inr lb \<Rightarrow> ret lb
            | Inl err \<Rightarrow>
                if err \<noteq> ErrNotFound then fail (Errorf ''error getting loadbalancer %s: %v'' [FStr name, FErr err])
                else
                  let createOpts = \<lparr> ilo_Name = name,
                        ilo_Description = ''Kubernetes ingress '' @ ingName @ '' in namespace '' @ ingNamespace @ '' from cluster '' @ clusterName,
                        ilo_VipSubnetID = subnetID, ilo_Provider = ''octavia'' \<rparr> in
                  wrapE (\<lambda>err. Errorf ''error creating loadbalancer %v: %v'' [FStr name, FErr err])
                    (oi_lb_Create api createOpts)) (\<lambda>loadbalancer.
     bindE (wrapE (\<lambda>err. Errorf ''error creating loadbalancer: %v'' [FErr err]) (ing_wait api (ilb_ID loadbalancer))) (\<lambda>_.
     ret loadbalancer)))"

definition UpdateLoadBalancerDescription :: "'w octavia_api \<Rightarrow> string \<Rightarrow> string \<Rightarrow> ('w, unit) io" where
  "UpdateLoadBalancerDescription api lbID newDescription =
     wrapE (\<lambda>err. Errorf ''failed to update loadbalancer description: %v'' [FErr err]) (oi_lb_Update api lbID newDescription)"

definition EnsureListener :: "'w octavia_api \<Rightarrow> string \<Rightarrow> string \<Rightarrow> ('w, ing_Listener) io" where
  "EnsureListener api name lbID =
     bindE (attempt (getListenerByName api name lbID)) (\<lambda>r.
     bindE (case r of
              Inr listener \<Rightarrow> ret listener
            | Inl err \<Rightarrow>
                if err \<noteq> ErrNotFound then fail (Errorf ''error getting listener %s: %v'' [FStr name, FErr err])
                else
                  wrapE (\<lambda>err. Errorf ''error creating listener: %v'' [FErr err])
                    (oi_listener_Create api \<lparr> ilc_Name = name, ilc_Protocol = ''HTTP'', ilc_ProtocolPort = 80, ilc_LoadbalancerID = lbID \<rparr>))
       (\<lambda>listener.
     bindE (wrapE (\<lambda>err. Errorf ''error creating listener: %v'' [FErr err]) (ing_wait api lbID)) (\<lambda>_.
     ret listener)))"

text \<open>The members of the pool; a nil port is dereferenced for the first node that has an address.\<close>

fun pool_members :: "int option \<Rightarrow> ing_Node list \<Rightarrow> ing_Member list result" where
  "pool_members nodePort [] = Ok []"
| "pool_members nodePort (node # nodes) =
     (case getNodeAddressForLB node of
        Ok addr \<Rightarrow>
          (case nodePort of
             None \<Rightarrow> Panic ''nil pointer dereference''
           | Some port \<Rightarrow>
               bindR (pool_members nodePort nodes) (\<lambda>members.
                 Ok (\<lparr> ime_Address = addr, ime_ProtocolPort = port \<rparr> # members)))
      | _ \<Rightarrow> pool_members nodePort nodes)"

definition delete_pool_members :: "'w octavia_api \<Rightarrow> string \<Rightarrow> string \<Rightarrow> ('w, string option) io" where
  "delete_pool_members api poolName lbID =
     bindE (attempt (getPoolByName api poolName lbID)) (\<lambda>r.
       case r of
         Inl err \<Rightarrow>
           if err \<noteq> ErrNotFound then fail (Errorf ''error getting pool %s: %v'' [FStr poolName, FErr err]) else ret None
       | Inr pool \<Rightarrow>
           bindE (attempt (oi_pool_Delete api (ipo_ID pool))) (\<lambda>d.
             case d of
               Inl err \<Rightarrow>
                 if \<not> IsNotFound err then fail (Errorf ''error deleting pool %s: %v'' [FStr (ipo_ID pool), FErr err])
                 else bindE (wrapE (wait_active_err lbID) (ing_wait api lbID)) (\<lambda>_. ret None)
             | Inr _ \<Rightarrow> bindE (wrapE (wait_active_err lbID) (ing_wait api lbID)) (\<lambda>_. ret None)))"

definition ing_ensure_pool :: "'w octavia_api \<Rightarrow> string \<Rightarrow> string \<Rightarrow> string \<Rightarrow> ('w, ing_Pool) io" where
  "ing_ensure_pool api poolName lbID listenerID =
     bindE (attempt (getPoolByName api poolName lbID)) (\<lambda>r.
       case r of
         Inr pool \<Rightarrow> ret pool
       | Inl err \<Rightarrow>
           if err \<noteq> ErrNotFound then fail (Errorf ''error getting pool %s: %v'' [FStr poolName, FErr err])
           else
             wrapE (\<lambda>err. Errorf ''error creating pool: %v'' [FErr err])
               (oi_pool_Create api
                  \<lparr> ipc_Name = poolName, ipc_Protocol = ''HTTP'', ipc_LBMethod = ''ROUND_ROBIN'',
                    ipc_ListenerID = listenerID, ipc_LoadbalancerID = (if listenerID \<noteq> '''' then '''' else lbID) \<rparr>))"

definition EnsurePoolMembers ::
  "'w octavia_api \<Rightarrow> bool \<Rightarrow> string \<Rightarrow> string \<Rightarrow> string \<Rightarrow> int option \<Rightarrow> ing_Node list \<Rightarrow> ('w, string option) io" where
  "EnsurePoolMembers api deleted poolName lbID listenerID nodePort nodes =
     (if deleted then delete_pool_members api poolName lbID
      else
        bindE (ing_ensure_pool api poolName lbID listenerID) (\<lambda>pool.
        bindE (wrapE (wait_active_err lbID) (ing_wait api lbID)) (\<lambda>_.
        bindE (lift_result (pool_members nodePort nodes)) (\<lambda>members.
          if members = [] then fail (Errorf ''error because no members in pool: %s'' [FStr (ipo_ID pool)])
          else
            bindE (wrapE (\<lambda>err. Errorf ''error batch updating members for pool %s: %v'' [FStr (ipo_ID pool), FErr err])
                     (oi_member_BatchUpdate api (ipo_ID pool) members)) (\<lambda>_.
            bindE (wrapE (wait_active_err lbID) (ing_wait api lbID)) (\<lambda>_.
            ret (Some (ipo_ID pool))))))))"

definition create_rule :: "'w octavia_api \<Rightarrow> string \<Rightarrow> string \<Rightarrow> string \<Rightarrow> string \<Rightarrow> string \<Rightarrow> ('w, unit) io" where
  "create_rule api lbID policyID ruleType compareType v =
     (if v \<noteq> '''' then
        bindE (wrapE (\<lambda>err. Errorf ''error creating l7 rule: %v'' [FErr err])
                 (oi_policy_CreateRule api policyID
                    \<lparr> irc_RuleType = ruleType, irc_CompareType = compareType, irc_Value = v \<rparr>)) (\<lambda>_.
        bindE (wrapE (wait_active_err lbID) (ing_wait api lbID)) (\<lambda>_. ret ()))
      else ret ())"

definition CreatePolicyRules :: "'w octavia_api \<Rightarrow> string \<Rightarrow> string \<Rightarrow> string \<Rightarrow> string \<Rightarrow> string \<Rightarrow> ('w, unit) io" where
  "CreatePolicyRules api lbID listenerID poolID host path =
     bindE (wrapE (\<lambda>err. Errorf ''error creating l7policy: %v'' [FErr err])
              (oi_policy_Create api
                 \<lparr> iyc_ListenerID = listenerID, iyc_Action = ''REDIRECT_TO_POOL'',
                   iyc_Description = ''Created by kubernetes ingress'', iyc_RedirectPoolID = poolID \<rparr>)) (\<lambda>policyID.
     bindE (wrapE (wait_active_err lbID) (ing_wait api lbID)) (\<lambda>_.
     bindE (create_rule api lbID policyID ''HOST_NAME'' ''EQUAL_TO'' host) (\<lambda>_.
     create_rule api lbID policyID ''PATH'' ''STARTS_WITH'' path)))"

fun update_pools :: "'w octavia_api \<Rightarrow> string \<Rightarrow> ing_Node list \<Rightarrow> ing_Pool list \<Rightarrow> ('w, unit) io" where
  "update_pools api lbID nodes [] = ret ()"
| "update_pools api lbID nodes (pool # lbPools) =
     bindE (attempt (GetMembers api (ipo_ID pool))) (\<lambda>r.
       case r of
         Inl _ \<Rightarrow> update_pools api lbID nodes lbPools
       | Inr [] \<Rightarrow> crash ''index out of range''
       | Inr (m # _) \<Rightarrow>
           bindE (EnsurePoolMembers api False (ipo_Name pool) lbID '''' (Some (ime_ProtocolPort m)) nodes) (\<lambda>_.
           update_pools api lbID nodes lbPools))"

definition UpdateLoadbalancerMembers :: "'w octavia_api \<Rightarrow> string \<Rightarrow> ing_Node list \<Rightarrow> ('w, unit) io" where
  "UpdateLoadbalancerMembers api lbID nodes =
     bindE (GetPools api lbID False) (\<lambda>lbPools. update_pools api lbID nodes lbPools)"

end
