(* ===== verification/Ingress_Neutron.thy ===== *)
theory Ingress_Neutron
  imports Ingress_Octavia
begin

text \<open>
  The Neutron side of the ingress controller: \<open>pkg/ingress/controller/openstack/neutron.go\<close>. A list
  with \<open>AllPages\<close> and the extraction of the pages is one call. \<open>sets.String\<close> is kept as the sorted list
  of its members; \<open>string(n)\<close> of an integer is the UTF-8 encoding of the code point \<open>n\<close>, as in Go.
\<close>

section \<open>Data\<close>

record ing_FloatingIP =
  ifl_ID :: string
  ifl_FloatingIP :: string

record ing_Port =
  ipt_ID :: string
  ipt_SecurityGroups :: "string list"

record ing_Rule =
  iru_ID :: string
  iru_PortRangeMin :: int

record ing_sgrule_CreateOpts =
  isc_Direction :: string
  isc_PortRangeMin :: int
  isc_PortRangeMax :: int
  isc_EtherType :: string
  isc_Protocol :: string
  isc_RemoteIPPrefix :: string
  isc_SecGroupID :: string

record 'w ing_neutron =
  ne_fip_List :: "string \<Rightarrow> ('w, ing_FloatingIP list) io"
  ne_fip_Create :: "string \<Rightarrow> string \<Rightarrow> string \<Rightarrow> ('w, ing_FloatingIP) io"
  ne_fip_Delete :: "string \<Rightarrow> ('w, unit) io"
  ne_subnet_Get :: "string \<Rightarrow> ('w, Subnet) io"
  ne_port_List :: "string \<Rightarrow> ('w, ing_Port list) io"
  ne_port_Update :: "string \<Rightarrow> string list \<Rightarrow> ('w, unit) io"
  ne_sg_List :: "string \<Rightarrow> ('w, string list) io"
  ne_sg_Create :: "string \<Rightarrow> string \<Rightarrow> ('w, string) io"
  ne_sg_Delete :: "string \<Rightarrow> ('w, unit) io"
  ne_tag_Add :: "string \<Rightarrow> string \<Rightarrow> ('w, unit) io"
  ne_rule_List :: "string \<Rightarrow> string \<Rightarrow> ('w, ing_Rule list) io"
  ne_rule_Create :: "ing_sgrule_CreateOpts \<Rightarrow> ('w, unit) io"
  ne_rule_Delete :: "string \<Rightarrow> ('w, unit) io"

section \<open>Integers as strings\<close>

definition utf8_byte :: "nat \<Rightarrow> char" where
  "utf8_byte n = char_of n"

text \<open>\<open>string(n)\<close>: the encoding of the code point, or that of U+FFFD when \<open>n\<close> is none.\<close>

definition rune_string :: "int \<Rightarrow> string" where
  "rune_string n =
     (if n < 0 \<or> n > 1114111 \<or> (55296 \<le> n \<and> n \<le> 57343) then [utf8_byte 239, utf8_byte 191, utf8_byte 189]
      else
        let c = nat n in
        if c < 128 then [utf8_byte c]
        else if c < 2048 then [utf8_byte (192 + c div 64), utf8_byte (128 + c mod 64)]
        else if c < 65536 then [utf8_byte (224 + c div 4096), utf8_byte (128 + c div 64 mod 64), utf8_byte (128 + c mod 64)]
        else [utf8_byte (240 + c div 262144), utf8_byte (128 + c div 4096 mod 64), utf8_byte (128 + c div 64 mod 64), utf8_byte (128 + c mod 64)])"

section \<open>Operations\<close>

definition getFloatingIPs :: "'w ing_neutron \<Rightarrow> string \<Rightarrow> ('w, ing_FloatingIP list) io" where
  "getFloatingIPs api portID = ne_fip_List api portID"

definition GetSubnet :: "'w ing_neutron \<Rightarrow> string \<Rightarrow> ('w, Subnet) io" where
  "GetSubnet api subnetID = ne_subnet_Get api subnetID"

definition ing_getPorts :: "'w ing_neutron \<Rightarrow> string \<Rightarrow> ('w, ing_Port list) io" where
  "ing_getPorts api deviceID = ne_port_List api deviceID"

text \<open>The error of the list is not looked at: the floating IPs are then the empty list.\<close>

definition EnsureFloatingIP :: "'w ing_neutron \<Rightarrow> bool \<Rightarrow> string \<Rightarrow> string \<Rightarrow> string \<Rightarrow> ('w, string) io" where
  "EnsureFloatingIP api needDelete portID floatingIPNetwork description =
     bindE (attempt (getFloatingIPs api portID)) (\<lambda>r.
       let fips = (case r of Inl _ \<Rightarrow> [] | Inr l \<Rightarrow> l) in
       if needDelete then bindE (forE (\<lambda>fip. ne_fip_Delete api (ifl_ID fip)) fips) (\<lambda>_. ret '''')
       else if length fips > 1 then fail (Errorf ''more than one floating IPs for port %s found'' [FStr portID])
       else
         bindE (case fips of
                  [] \<Rightarrow> ne_fip_Create api portID floatingIPNetwork description
                | fip # _ \<Rightarrow> ret fip) (\<lambda>fip.
         ret (ifl_FloatingIP fip)))"

definition GetSecurityGroups :: "'w ing_neutron \<Rightarrow> string \<Rightarrow> ('w, string list) io" where
  "GetSecurityGroups api tags = ne_sg_List api tags"

definition EnsureSecurityGroup :: "'w ing_neutron \<Rightarrow> bool \<Rightarrow> string \<Rightarrow> string \<Rightarrow> string list \<Rightarrow> ('w, string) io" where
  "EnsureSecurityGroup api needDelete name description tags =
     bindE (GetSecurityGroups api (strings_Join tags '','')) (\<lambda>allGroups.
       if needDelete then bindE (forE (\<lambda>g. ne_sg_Delete api g) allGroups) (\<lambda>_. ret '''')
       else
         case allGroups of
           _ # _ # _ \<Rightarrow> fail (errors_New ''more than one security groups found'')
         | [g] \<Rightarrow> ret g
         | [] \<Rightarrow>
             bindE (ne_sg_Create api name description) (\<lambda>g.
             bindE (forE (\<lambda>t. wrapE (\<lambda>err. Errorf ''failed to add tag %s to security group %s: %v'' [FStr t, FStr g, FErr err])
                                (ne_tag_Add api g t)) tags) (\<lambda>_.
             ret g)))"

text \<open>The loop over the rules: it deletes rules and strikes ports off the set.\<close>

fun prune_rules :: "'w ing_neutron \<Rightarrow> ing_Rule list \<Rightarrow> string list \<Rightarrow> ('w, string list) io" where
  "prune_rules api [] dstPortsSet = ret dstPortsSet"
| "prune_rules api (rule # allRules) dstPortsSet =
     (if \<not> rune_string (iru_PortRangeMin rule) \<in> set dstPortsSet then
        bindE (ne_rule_Delete api (iru_ID rule)) (\<lambda>_. prune_rules api allRules dstPortsSet)
      else prune_rules api allRules (filter (\<lambda>p. p \<noteq> Itoa (iru_PortRangeMin rule)) dstPortsSet))"

definition create_port_rule :: "'w ing_neutron \<Rightarrow> string \<Rightarrow> string \<Rightarrow> string \<Rightarrow> ('w, unit) io" where
  "create_port_rule api sgID sourceIP p =
     (case Atoi p of
        None \<Rightarrow> fail (Errorf ''strconv.Atoi: parsing %s'' [FStr p])
      | Some newPort \<Rightarrow>
          ne_rule_Create api \<lparr> isc_Direction = ''ingress'', isc_PortRangeMin = newPort, isc_PortRangeMax = newPort,
            isc_EtherType = ''IPv4'', isc_Protocol = ''tcp'', isc_RemoteIPPrefix = sourceIP, isc_SecGroupID = sgID \<rparr>)"

definition EnsureSecurityGroupRules :: "'w ing_neutron \<Rightarrow> string \<Rightarrow> string \<Rightarrow> int list \<Rightarrow> ('w, unit) io" where
  "EnsureSecurityGroupRules api sgID sourceIP dstPorts =
     bindE (ne_rule_List api sgID sourceIP) (\<lambda>allRules.
       if dstPorts = [] then forE (\<lambda>rule. ne_rule_Delete api (iru_ID rule)) allRules
       else
         bindE (prune_rules api allRules (Convert2Set (map Itoa dstPorts))) (\<lambda>dstPortsSet.
         forE (create_port_rule api sgID sourceIP) dstPortsSet))"

definition update_port_group :: "'w ing_neutron \<Rightarrow> bool \<Rightarrow> string \<Rightarrow> ing_Port \<Rightarrow> ('w, unit) io" where
  "update_port_group api needDelete sgID port =
     (let sgSet = Convert2Set (ipt_SecurityGroups port) in
      bindE (if sgID \<in> set sgSet \<and> needDelete
             then ne_port_Update api (ipt_ID port) (filter (\<lambda>g. g \<noteq> sgID) sgSet) else ret ()) (\<lambda>_.
        let sgSet' = (if sgID \<in> set sgSet \<and> needDelete then filter (\<lambda>g. g \<noteq> sgID) sgSet else sgSet) in
        if sgID \<notin> set sgSet' \<and> \<not> needDelete
        then ne_port_Update api (ipt_ID port) (Convert2Set (sgID # sgSet')) else ret ()))"

definition EnsurePortSecurityGroup :: "'w ing_neutron \<Rightarrow> bool \<Rightarrow> string \<Rightarrow> ing_Node list \<Rightarrow> ('w, unit) io" where
  "EnsurePortSecurityGroup api needDelete sgID nodes =
     forE (\<lambda>node.
       bindE (lift_result (GetNodeID node)) (\<lambda>instanceID.
       bindE (ing_getPorts api instanceID) (\<lambda>allPorts.
       forE (update_port_group api needDelete sgID) allPorts))) nodes"

section \<open>The security group rules\<close>

text \<open>
  The decimal text of a port of two digits or more is never the encoding of a code point: it has
  more than one byte, and its first byte is a digit.
\<close>

lemma nat_text_length: "10 \<le> n \<Longrightarrow> 2 \<le> length (nat_text n)"
proof -
  assume "10 \<le> n"
  then have "nat_text n = nat_text (n div 10) @ [char_of (48 + n mod 10)]" by (intro nat_text_step) simp
  moreover have "nat_text (n div 10) \<noteq> []" by simp
  ultimately show ?thesis by (cases "nat_text (n div 10)") auto
qed

lemma digit_below: "digit_val c \<noteq> None \<Longrightarrow> of_char c < (128 :: nat)"
  by (auto simp: digit_val_def Let_def split: if_splits)

lemma rune_string_cases:
  "length (rune_string n) = 1 \<or> (\<exists>c cs. rune_string n = c # cs \<and> (192 :: nat) \<le> of_char c)"
  by (auto simp: rune_string_def Let_def utf8_byte_def)

lemma Itoa_not_rune:
  assumes "10 \<le> p"
  shows "Itoa p \<noteq> rune_string n"
proof
  assume eq: "Itoa p = rune_string n"
  have p: "Itoa p = nat_text (nat p)" using assms by (simp add: Itoa_def)
  then have "2 \<le> length (Itoa p)" using nat_text_length [of "nat p"] assms by simp
  then obtain c cs where c: "rune_string n = c # cs" "(192 :: nat) \<le> of_char c"
    using rune_string_cases [of n] eq by auto
  then have "c \<in> set (nat_text (nat p))" using eq p by (metis list.set_intros(1))
  then have "of_char c < (128 :: nat)" using nat_text_digits digit_below by blast
  then show False using c(2) by simp
qed

lemma prune_rules_deletes:
  assumes "\<And>p. p \<in> set ports \<Longrightarrow> \<exists>q \<ge> 10. p = Itoa q"
  shows "prune_rules api rules ports = bindE (forE (\<lambda>rule. ne_rule_Delete api (iru_ID rule)) rules) (\<lambda>_. ret ports)"
proof -
  have no: "rune_string n \<notin> set ports" for n
    using assms Itoa_not_rune by metis
  show ?thesis
    by (induction rules) (simp_all add: no bindE_assoc)
qed

text \<open>
  \<open>EnsureSecurityGroupRules\<close> never keeps a rule: whatever ports the existing rules have, for node
  ports of two or more digits (Kubernetes allots them from 30000) the code deletes every rule of the
  group and then creates one rule for each port, in the order of the texts of the ports. The
  comparison that is meant to keep the rules of wanted ports looks up \<open>string(rule.PortRangeMin)\<close>,
  the character with that code point, instead of the decimal text.
\<close>

theorem rules_always_recreated:
  assumes "\<And>p. p \<in> set dstPorts \<Longrightarrow> 10 \<le> p" and "dstPorts \<noteq> []"
  shows "EnsureSecurityGroupRules api sgID sourceIP dstPorts =
    bindE (ne_rule_List api sgID sourceIP) (\<lambda>allRules.
    bindE (forE (\<lambda>rule. ne_rule_Delete api (iru_ID rule)) allRules) (\<lambda>_.
    forE (create_port_rule api sgID sourceIP) (Convert2Set (map Itoa dstPorts))))"
proof -
  have "\<exists>q \<ge> 10. p = Itoa q" if "p \<in> set (Convert2Set (map Itoa dstPorts))" for p
    using that assms(1) by (auto simp: Convert2Set_def)
  then show ?thesis
    using assms(2) by (simp add: EnsureSecurityGroupRules_def prune_rules_deletes bindE_assoc)
qed

text \<open>
  A security group in memory: the ids of its rules with their ports. Creating a rule takes the next
  id.
\<close>

definition mem_neutron :: "(string \<times> int) list ing_neutron" where
  "mem_neutron = \<lparr> ne_fip_List = (\<lambda>_. ret []), ne_fip_Create = (\<lambda>_ _ _. ret \<lparr> ifl_ID = ''f'', ifl_FloatingIP = ''203.0.113.9'' \<rparr>),
     ne_fip_Delete = (\<lambda>_. ret ()), ne_subnet_Get = (\<lambda>s. ret \<lparr> su_ID = s, su_CIDR = ''10.0.0.0/24'' \<rparr>),
     ne_port_List = (\<lambda>_. ret []), ne_port_Update = (\<lambda>_ _. ret ()), ne_sg_List = (\<lambda>_. ret [''sg'']),
     ne_sg_Create = (\<lambda>_ _. ret ''sg''), ne_sg_Delete = (\<lambda>_. ret ()), ne_tag_Add = (\<lambda>_ _. ret ()),
     ne_rule_List = (\<lambda>_ _ w. (Ok (map (\<lambda>(i, p). \<lparr> iru_ID = i, iru_PortRangeMin = p \<rparr>) w), w)),
     ne_rule_Create = (\<lambda>opts w. (Ok (), w @ [(concat (map fst w) @ ''r'', isc_PortRangeMin opts)])),
     ne_rule_Delete = (\<lambda>i w. (Ok (), filter (\<lambda>(j, _). j \<noteq> i) w)) \<rparr>"

theorem rules_always_recreated_witness:
  "EnsureSecurityGroupRules mem_neutron ''sg'' ''10.0.0.0/24'' [30080, 30443] [(''r1'', 30080), (''r2'', 80)] =
    bindE (ne_rule_List mem_neutron ''sg'' ''10.0.0.0/24'') (\<lambda>allRules.
    bindE (forE (\<lambda>rule. ne_rule_Delete mem_neutron (iru_ID rule)) allRules) (\<lambda>_.
    forE (create_port_rule mem_neutron ''sg'' ''10.0.0.0/24'') (Convert2Set (map Itoa [30080, 30443]))))
      [(''r1'', 30080), (''r2'', 80)]"
  by (subst rules_always_recreated) auto

text \<open>
  What Neutron promises of the rules of the group, \<open>rv w\<close> being the ports by the ids of the rules: the
  list has them all, deleting removes one, creating adds one under a new id.
\<close>

definition sg_rules_ok :: "'w ing_neutron \<Rightarrow> string \<Rightarrow> string \<Rightarrow> ('w \<Rightarrow> string \<rightharpoonup> int) \<Rightarrow> bool" where
  "sg_rules_ok api sgID sourceIP rv \<longleftrightarrow>
     (\<forall>w rs w'. ne_rule_List api sgID sourceIP w = (Ok rs, w') \<longrightarrow> rv w' = rv w \<and> iru_ID ` set rs = dom (rv w)) \<and>
     (\<forall>i w u w'. ne_rule_Delete api i w = (Ok u, w') \<longrightarrow> rv w' = (rv w)(i := None)) \<and>
     (\<forall>opts w u w'. ne_rule_Create api opts w = (Ok u, w') \<longrightarrow>
        (\<exists>i. rv w i = None \<and> rv w' = (rv w)(i \<mapsto> isc_PortRangeMin opts)))"

lemma sg_rules_laws:
  assumes "sg_rules_ok api sgID sourceIP rv"
  shows "\<forall>w rs w'. ne_rule_List api sgID sourceIP w = (Ok rs, w') \<longrightarrow> rv w' = rv w \<and> iru_ID ` set rs = dom (rv w)"
    and "\<forall>i w u w'. ne_rule_Delete api i w = (Ok u, w') \<longrightarrow> rv w' = (rv w)(i := None)"
    and "\<forall>opts w u w'. ne_rule_Create api opts w = (Ok u, w') \<longrightarrow>
        (\<exists>i. rv w i = None \<and> rv w' = (rv w)(i \<mapsto> isc_PortRangeMin opts))"
  by (insert assms, unfold sg_rules_ok_def, (elim conjE, assumption)+)

lemmas sg_rulesD = sg_rules_laws [rule_format]

lemma delete_rules_all:
  assumes "sg_rules_ok api sgID sourceIP rv"
  shows "forE (\<lambda>rule. ne_rule_Delete api (iru_ID rule)) rules w = (Ok u, w') \<Longrightarrow> rv w' = rv w |` (- (iru_ID ` set rules))"
proof (induction rules arbitrary: w)
  case Nil
  then show ?case by simp
next
  case (Cons rule rules)
  then obtain u1 w1 where one: "ne_rule_Delete api (iru_ID rule) w = (Ok u1, w1)"
    and rest: "forE (\<lambda>rule. ne_rule_Delete api (iru_ID rule)) rules w1 = (Ok u, w')"
    by (auto simp: bindE_eq_Ok)
  from Cons.IH [OF rest] sg_rulesD(2) [OF assms one] show ?case
    by (auto simp: restrict_map_def fun_eq_iff)
qed

lemma create_rules_ports:
  assumes "sg_rules_ok api sgID sourceIP rv"
  shows "(\<And>p. p \<in> set ps \<Longrightarrow> Atoi (f p) = Some p) \<Longrightarrow> forE (create_port_rule api sgID sourceIP) (map f ps) w = (Ok u, w') \<Longrightarrow>
    ran (rv w') = ran (rv w) \<union> set ps"
proof (induction ps arbitrary: w)
  case Nil
  then show ?case by simp
next
  case (Cons p ps)
  have p: "Atoi (f p) = Some p" using Cons.prems(1) by simp
  from Cons.prems(2) p obtain u1 w1 where
    one: "ne_rule_Create api \<lparr> isc_Direction = ''ingress'', isc_PortRangeMin = p, isc_PortRangeMax = p,
            isc_EtherType = ''IPv4'', isc_Protocol = ''tcp'', isc_RemoteIPPrefix = sourceIP, isc_SecGroupID = sgID \<rparr> w = (Ok u1, w1)"
    and rest: "forE (create_port_rule api sgID sourceIP) (map f ps) w1 = (Ok u, w')"
    by (auto simp: bindE_eq_Ok create_port_rule_def [where p = "f p"])
  from sg_rulesD(3) [OF assms one] obtain i where "rv w i = None" "rv w1 = (rv w)(i \<mapsto> p)" by auto
  then have "ran (rv w1) = insert p (ran (rv w))" by simp
  with Cons.IH [OF _ rest] Cons.prems(1) show ?case by simp
qed


lemma mem_neutron_rules: "sg_rules_ok mem_neutron ''sg'' ''10.0.0.0/24'' map_of"
proof -
  have fresh: "map_of w (concat (map fst w) @ ''r'') = None" for w :: "(string \<times> int) list"
  proof -
    have "length i \<le> length (concat (map fst w))" if "i \<in> fst ` set w" for i
      using that member_le_sum_list [of "length i" "map (length \<circ> fst) w"] by (auto simp: length_concat comp_def)
    then have "concat (map fst w) @ ''r'' \<notin> fst ` set w" by fastforce
    then show ?thesis by (simp add: map_of_eq_None_iff)
  qed
  have del: "map_of (filter (\<lambda>(j, _). j \<noteq> i) w) = (map_of w)(i := None)" for i and w :: "(string \<times> int) list"
    by (induction w) (auto split: prod.splits)
  have add: "map_of (w @ [(i, p)]) = (map_of w)(i \<mapsto> p)" if "map_of w i = None" for i p and w :: "(string \<times> int) list"
    using that by (auto simp: map_of_append map_add_def fun_eq_iff split: option.splits)
  have create: "\<exists>i. map_of w i = None \<and> map_of w' = (map_of w)(i \<mapsto> isc_PortRangeMin opts)"
    if "ne_rule_Create mem_neutron opts w = (Ok u, w')" for opts u and w w' :: "(string \<times> int) list"
  proof -
    have "w' = w @ [(concat (map fst w) @ ''r'', isc_PortRangeMin opts)]"
      using that by (simp add: mem_neutron_def)
    then show ?thesis using add [OF fresh [of w]] fresh [of w] by blast
  qed
  show ?thesis
    unfolding sg_rules_ok_def
  proof (intro conjI allI impI)
    fix opts u and w w' :: "(string \<times> int) list"
    assume "ne_rule_Create mem_neutron opts w = (Ok u, w')"
    then show "\<exists>i. map_of w i = None \<and> map_of w' = (map_of w)(i \<mapsto> isc_PortRangeMin opts)" by (rule create)
  qed (auto simp: mem_neutron_def del dom_map_of_conv_image_fst image_image case_prod_beta)
qed


end
