(* ===== verification/Ingress_Controller.thy ===== *)
theory Ingress_Controller
  imports Ingress_Neutron Lb_Model
begin

text \<open>
  The ingress controller: \<open>pkg/ingress/controller/controller.go\<close>, its configuration
  (\<open>pkg/ingress/config/config.go\<close>) and its clients (\<open>controller/openstack/client.go\<close>). The Kubernetes
  API, the listers and the work queue are fields of \<open>ing_env\<close>; recording of events is left out like
  logging.
\<close>

section \<open>Data\<close>

datatype IntOrString = PortInt int | PortStr string

record IngressBackend =
  ibe_ServiceName :: string
  ibe_ServicePort :: IntOrString

record HTTPIngressPath =
  ipa_Path :: string
  ipa_Backend :: IngressBackend

record IngressRule =
  irl_Host :: string
  irl_HTTP :: "HTTPIngressPath list option"

record Ingress =
  ing_Name :: string
  ing_Namespace :: string
  ing_ResourceVersion :: string
  ing_Annotations :: "string \<rightharpoonup> string"
  ing_Backend :: "IngressBackend option"
  ing_Rules :: "IngressRule list"
  ing_StatusIPs :: "string list"

record ing_ServicePort =
  isp_Name :: string
  isp_Port :: int
  isp_NodePort :: int

datatype EventType = CreateEvent | UpdateEvent | DeleteEvent

record ing_Event =
  ev_Type :: EventType
  ev_Obj :: Ingress

record ing_Config =
  icf_ClusterName :: string
  icf_Username :: string
  icf_UserID :: string
  icf_TrustID :: string
  icf_Password :: string
  icf_ProjectID :: string
  icf_AuthURL :: string
  icf_Region :: string
  icf_DomainID :: string
  icf_DomainName :: string
  icf_CAFile :: string
  icf_SubnetID :: string
  icf_FloatingIPNetwork :: string
  icf_ManageSecurityGroups :: bool

record 'w ing_env =
  ie_octavia :: "'w octavia_api"
  ie_neutron :: "'w ing_neutron"
  ie_Nodes :: "('w, ing_Node list) io"
  ie_SplitKey :: "string \<Rightarrow> (string \<times> string) result"
  ie_GetService :: "string \<Rightarrow> string \<Rightarrow> ('w, ing_ServicePort list) io"
  ie_ListIngresses :: "('w, Ingress list) io"
  ie_UpdateStatus :: "Ingress \<Rightarrow> ('w, Ingress) io"
  ie_Hash :: "string \<Rightarrow> string"

record ing_Controller =
  ic_knownNodes :: "ing_Node list"
  ic_subnetCIDR :: string
  ic_config :: ing_Config

definition ing_maxRetries :: nat where "ing_maxRetries = 5"
definition IngressKey :: string where "IngressKey = ''kubernetes.io/ingress.class''"
definition IngressClass :: string where "IngressClass = ''openstack''"
definition LabelNodeRoleMaster :: string where "LabelNodeRoleMaster = ''node-role.kubernetes.io/master''"
definition IngressAnnotationInternal :: string where
  "IngressAnnotationInternal = ''octavia.ingress.kubernetes.io/internal''"
definition IngressControllerTag :: string where "IngressControllerTag = ''octavia.ingress.kubernetes.io''"

section \<open>Configuration and clients\<close>

definition ing_ToAuthOptions :: "ing_Config \<Rightarrow> AuthOpts" where
  "ing_ToAuthOptions cfg =
     \<lparr> au_IdentityEndpoint = icf_AuthURL cfg, au_Username = icf_Username cfg, au_UserID = icf_UserID cfg,
       au_Password = icf_Password cfg, au_TenantID = icf_ProjectID cfg, au_TenantName = '''',
       au_DomainID = icf_DomainID cfg, au_DomainName = icf_DomainName cfg, au_AllowReauth = True \<rparr>"

definition ing_ToV3AuthOptions :: "ing_Config \<Rightarrow> AuthOpts" where
  "ing_ToV3AuthOptions cfg =
     \<lparr> au_IdentityEndpoint = icf_AuthURL cfg, au_Username = icf_Username cfg, au_UserID = icf_UserID cfg,
       au_Password = icf_Password cfg, au_TenantID = '''', au_TenantName = '''',
       au_DomainID = icf_DomainID cfg, au_DomainName = icf_DomainName cfg, au_AllowReauth = True \<rparr>"

definition ing_NewOpenStack ::
  "('w, 'prov, 'pool) os_auth \<Rightarrow> ('w, 'prov, 'client) os_clients \<Rightarrow> ing_Config \<Rightarrow> ('w, 'client \<times> 'client \<times> 'client) io" where
  "ing_NewOpenStack lib clients cfg =
     bindE (oa_NewClient lib (icf_AuthURL cfg)) (\<lambda>provider.
     bindE (if icf_CAFile cfg \<noteq> '''' then
              bindE (oa_NewPool lib (icf_CAFile cfg)) (\<lambda>roots. ret (oa_SetTransport lib provider roots))
            else ret provider) (\<lambda>provider.
     bindE (if icf_TrustID cfg \<noteq> '''' then oa_AuthenticateV3 lib provider (icf_TrustID cfg) (ing_ToV3AuthOptions cfg)
            else oa_Authenticate lib provider (ing_ToAuthOptions cfg)) (\<lambda>provider.
     bindE (wrapE (\<lambda>e. Errorf ''failed to find octavia endpoint for region %s: %v'' [FStr (icf_Region cfg), FErr e])
              (ol_LoadBalancer clients provider (icf_Region cfg))) (\<lambda>lb.
     bindE (wrapE (\<lambda>e. Errorf ''failed to find neutron endpoint for region %s: %v'' [FStr (icf_Region cfg), FErr e])
              (ol_Network clients provider (icf_Region cfg))) (\<lambda>network.
     bindE (wrapE (\<lambda>e. Errorf ''failed to find compute v2 endpoint for region %s: %v'' [FStr (icf_Region cfg), FErr e])
              (ol_Compute clients provider (icf_Region cfg))) (\<lambda>compute.
     ret (lb, compute, network)))))))"

section \<open>Predicates\<close>

definition IsValid :: "Ingress \<Rightarrow> bool" where
  "IsValid ing = (case ing_Annotations ing IngressKey of None \<Rightarrow> False | Some ingress \<Rightarrow> ingress = IngressClass)"

fun not_ready :: "(string \<times> string) list \<Rightarrow> bool" where
  "not_ready [] = False"
| "not_ready ((type, status) # conds) =
     (if type = ''Ready'' \<and> status \<noteq> ''True'' then True else not_ready conds)"

definition readyWorkerNodePredicate :: "ing_Node \<Rightarrow> bool" where
  "readyWorkerNodePredicate node \<longleftrightarrow>
     (if nd_Unschedulable node then False
      else if nd_Labels node LabelNodeRoleMaster \<noteq> None then False
      else if length (nd_Conditions node) = 0 then False
      else \<not> not_ready (nd_Conditions node))"

definition ListWithPredicate :: "'w ing_env \<Rightarrow> ('w, ing_Node list) io" where
  "ListWithPredicate env = bindE (ie_Nodes env) (\<lambda>nodes. ret (filter readyWorkerNodePredicate nodes))"

definition getStringFromIngressAnnotation :: "Ingress \<Rightarrow> string \<Rightarrow> string \<Rightarrow> string" where
  "getStringFromIngressAnnotation ingress annotationKey defaultValue =
     (case ing_Annotations ingress annotationKey of Some annotationValue \<Rightarrow> annotationValue | None \<Rightarrow> defaultValue)"

section \<open>Informer handlers\<close>

text \<open>What each handler puts into the queue. A deleted object may arrive as a tombstone.\<close>

datatype deleted_obj = DelIngress Ingress | Tombstone "Ingress option" | DelOther

definition AddFunc :: "Ingress \<Rightarrow> ing_Event option" where
  "AddFunc addIng = (if \<not> IsValid addIng then None else Some \<lparr> ev_Type = CreateEvent, ev_Obj = addIng \<rparr>)"

definition same_spec :: "Ingress \<Rightarrow> Ingress \<Rightarrow> bool" where
  "same_spec a b \<longleftrightarrow> ing_Backend a = ing_Backend b \<and> ing_Rules a = ing_Rules b"

definition UpdateFunc :: "Ingress \<Rightarrow> Ingress \<Rightarrow> ing_Event option" where
  "UpdateFunc oldIng newIng =
     (if ing_ResourceVersion newIng = ing_ResourceVersion oldIng then None
      else
        let validOld = IsValid oldIng; validCur = IsValid newIng in
        if \<not> validOld \<and> validCur then Some \<lparr> ev_Type = CreateEvent, ev_Obj = newIng \<rparr>
        else if validOld \<and> \<not> validCur then Some \<lparr> ev_Type = DeleteEvent, ev_Obj = newIng \<rparr>
        else if validCur \<and> \<not> same_spec newIng oldIng then Some \<lparr> ev_Type = UpdateEvent, ev_Obj = newIng \<rparr>
        else None)"

definition DeleteFunc :: "deleted_obj \<Rightarrow> ing_Event option" where
  "DeleteFunc obj =
     (case (case obj of DelIngress i \<Rightarrow> Some i | Tombstone t \<Rightarrow> t | DelOther \<Rightarrow> None) of
        None \<Rightarrow> None
      | Some delIng \<Rightarrow> if \<not> IsValid delIng then None else Some \<lparr> ev_Type = DeleteEvent, ev_Obj = delIng \<rparr>)"

section \<open>Services\<close>

definition getService :: "'w ing_env \<Rightarrow> string \<Rightarrow> ('w, ing_ServicePort list) io" where
  "getService env key =
     bindE (lift_result (ie_SplitKey env key)) (\<lambda>(namespace, name). ie_GetService env namespace name)"

definition port_matches :: "IntOrString \<Rightarrow> ing_ServicePort \<Rightarrow> bool" where
  "port_matches port p = (case port of PortInt n \<Rightarrow> isp_Port p = n | PortStr s \<Rightarrow> isp_Name p = s)"

definition getServiceNodePort :: "'w ing_env \<Rightarrow> string \<Rightarrow> IntOrString \<Rightarrow> ('w, int) io" where
  "getServiceNodePort env name port =
     bindE (getService env name) (\<lambda>ports.
       let nodePort = (case find (port_matches port) ports of None \<Rightarrow> 0 | Some p \<Rightarrow> isp_NodePort p) in
       if nodePort = 0 then fail (errors_New ''failed to find service node port'') else ret nodePort)"

section \<open>Creating and updating\<close>

definition updateIngressStatus :: "'w ing_env \<Rightarrow> Ingress \<Rightarrow> string \<Rightarrow> ('w, Ingress) io" where
  "updateIngressStatus env ing vip = ie_UpdateStatus env (ing\<lparr> ing_StatusIPs := [vip] \<rparr>)"

definition port_text :: "IntOrString \<Rightarrow> string" where
  "port_text port = (case port of PortInt n \<Rightarrow> Itoa n | PortStr s \<Rightarrow> s)"

definition pool_name :: "'w ing_env \<Rightarrow> IngressBackend \<Rightarrow> string" where
  "pool_name env backend = ie_Hash env (ibe_ServiceName backend @ ''+'' @ port_text (ibe_ServicePort backend))"

definition default_pool ::
  "'w ing_env \<Rightarrow> Ingress \<Rightarrow> string \<Rightarrow> string \<Rightarrow> string \<Rightarrow> ing_Node list \<Rightarrow> ('w, int list) io" where
  "default_pool env ing name lbID listenerID nodeObjs =
     (case ing_Backend ing of
        Some backend \<Rightarrow>
          bindE (getServiceNodePort env (ing_Namespace ing @ ''/'' @ ibe_ServiceName backend) (ibe_ServicePort backend)) (\<lambda>nodePort.
          bindE (EnsurePoolMembers (ie_octavia env) False name lbID listenerID (Some nodePort) nodeObjs) (\<lambda>_.
          ret [nodePort]))
      | None \<Rightarrow>
          bindE (EnsurePoolMembers (ie_octavia env) True name lbID '''' None []) (\<lambda>_. ret []))"

definition delete_policies :: "'w ing_env \<Rightarrow> string \<Rightarrow> string \<Rightarrow> ('w, unit) io" where
  "delete_policies env lbID listenerID =
     bindE (GetL7policies (ie_octavia env) listenerID) (\<lambda>existingPolicies.
     forE (\<lambda>p. bindE (attempt (DeleteL7policy (ie_octavia env) p lbID)) (\<lambda>_. ret ())) existingPolicies)"

definition delete_shared_pools :: "'w ing_env \<Rightarrow> string \<Rightarrow> ('w, unit) io" where
  "delete_shared_pools env lbID =
     bindE (GetPools (ie_octavia env) lbID True) (\<lambda>existingSharedPools.
     forE (\<lambda>sp. bindE (attempt (DeletePool (ie_octavia env) (ipo_ID sp) lbID)) (\<lambda>_. ret ())) existingSharedPools)"

definition ensure_path ::
  "'w ing_env \<Rightarrow> string \<Rightarrow> string \<Rightarrow> string \<Rightarrow> ing_Node list \<Rightarrow> string \<Rightarrow> HTTPIngressPath \<Rightarrow> ('w, int) io" where
  "ensure_path env namespace lbID listenerID nodeObjs host path =
     bindE (getServiceNodePort env (namespace @ ''/'' @ ibe_ServiceName (ipa_Backend path)) (ibe_ServicePort (ipa_Backend path))) (\<lambda>nodePort.
     bindE (EnsurePoolMembers (ie_octavia env) False (pool_name env (ipa_Backend path)) lbID '''' (Some nodePort) nodeObjs) (\<lambda>poolID.
       case poolID of
         None \<Rightarrow> crash ''nil pointer dereference''
       | Some p \<Rightarrow>
           bindE (CreatePolicyRules (ie_octavia env) lbID listenerID p host (ipa_Path path)) (\<lambda>_. ret nodePort)))"

fun ensure_paths ::
  "'w ing_env \<Rightarrow> string \<Rightarrow> string \<Rightarrow> string \<Rightarrow> ing_Node list \<Rightarrow> string \<Rightarrow> HTTPIngressPath list \<Rightarrow> ('w, int list) io" where
  "ensure_paths env namespace lbID listenerID nodeObjs host [] = ret []"
| "ensure_paths env namespace lbID listenerID nodeObjs host (path # paths) =
     bindE (ensure_path env namespace lbID listenerID nodeObjs host path) (\<lambda>nodePort.
     bindE (ensure_paths env namespace lbID listenerID nodeObjs host paths) (\<lambda>nodePorts.
     ret (nodePort # nodePorts)))"

fun ensure_rules ::
  "'w ing_env \<Rightarrow> string \<Rightarrow> string \<Rightarrow> string \<Rightarrow> ing_Node list \<Rightarrow> IngressRule list \<Rightarrow> ('w, int list) io" where
  "ensure_rules env namespace lbID listenerID nodeObjs [] = ret []"
| "ensure_rules env namespace lbID listenerID nodeObjs (rule # rules) =
     (case irl_HTTP rule of
        None \<Rightarrow> crash ''nil pointer dereference''
      | Some paths \<Rightarrow>
          bindE (ensure_paths env namespace lbID listenerID nodeObjs (irl_Host rule) paths) (\<lambda>nodePorts.
          bindE (ensure_rules env namespace lbID listenerID nodeObjs rules) (\<lambda>rest.
          ret (nodePorts @ rest))))"

definition sg_tags :: "string \<Rightarrow> string \<Rightarrow> string list" where
  "sg_tags namespace name = [IngressControllerTag, namespace @ ''_'' @ name]"

definition ensure_address :: "'w ing_env \<Rightarrow> ing_Config \<Rightarrow> Ingress \<Rightarrow> ing_LoadBalancer \<Rightarrow> ('w, string) io" where
  "ensure_address env cfg ing lb =
     (case ParseBool (getStringFromIngressAnnotation ing IngressAnnotationInternal ''true'') of
        None \<Rightarrow> fail (Errorf ''unknown annotation %s: %v'' [FStr IngressAnnotationInternal])
      | Some isInternal \<Rightarrow>
          if \<not> isInternal \<and> icf_FloatingIPNetwork cfg \<noteq> '''' then
            wrapE (\<lambda>err. Errorf ''failed to create floating IP: %v'' [FErr err])
              (EnsureFloatingIP (ie_neutron env) False (ilb_VipPortID lb) (icf_FloatingIPNetwork cfg)
                 (''Floating IP for Kubernetes ingress '' @ ing_Name ing @ '' in namespace '' @ ing_Namespace ing @
                  '' from cluster '' @ icf_ClusterName cfg))
          else ret (ilb_VipAddress lb))"

definition ensure_group :: "'w ing_env \<Rightarrow> ing_Config \<Rightarrow> string \<Rightarrow> string \<Rightarrow> string \<Rightarrow> ('w, string) io" where
  "ensure_group env cfg name ingNamespace ingName =
     (let key = ingNamespace @ ''/'' @ ingName in
      if icf_ManageSecurityGroups cfg then
        wrapE (\<lambda>err. Errorf ''failed to prepare the security group for the ingress %s: %v'' [FStr key, FErr err])
          (EnsureSecurityGroup (ie_neutron env) False name
             (''Security group created for Ingress '' @ key @ '' from cluster '' @ icf_ClusterName cfg) (sg_tags ingNamespace ingName))
      else ret '''')"

definition ensure_group_rules ::
  "'w ing_env \<Rightarrow> ing_Controller \<Rightarrow> string \<Rightarrow> string \<Rightarrow> int list \<Rightarrow> ing_Node list \<Rightarrow> ('w, unit) io" where
  "ensure_group_rules env c sgID ingName nodePorts nodeObjs =
     (if icf_ManageSecurityGroups (ic_config c) then
        bindE (wrapE (\<lambda>err. Errorf ''failed to ensure security group rules for Ingress %s: %v'' [FStr ingName, FErr err])
                 (EnsureSecurityGroupRules (ie_neutron env) sgID (ic_subnetCIDR c) nodePorts)) (\<lambda>_.
        wrapE (\<lambda>err. Errorf ''failed to operate port security group for Ingress %s: %v'' [FStr ingName, FErr err])
          (EnsurePortSecurityGroup (ie_neutron env) False sgID nodeObjs))
      else ret ())"

definition ensureIngress :: "'w ing_env \<Rightarrow> ing_Controller \<Rightarrow> Ingress \<Rightarrow> ('w, unit) io" where
  "ensureIngress env c ing =
     (let cfg = ic_config c; ingName = ing_Name ing; ingNamespace = ing_Namespace ing; clusterName = icf_ClusterName cfg;
          name = GetResourceName ingNamespace ingName clusterName in
      bindE (ing_EnsureLoadBalancer (ie_octavia env) name (icf_SubnetID cfg) ingNamespace ingName clusterName) (\<lambda>lb.
        if strings_Contains (ilb_Description lb) (ing_ResourceVersion ing) then ret ()
        else
          bindE (ensure_group env cfg name ingNamespace ingName) (\<lambda>sgID.
          bindE (EnsureListener (ie_octavia env) name (ilb_ID lb)) (\<lambda>listener.
          bindE (ListWithPredicate env) (\<lambda>nodeObjs.
          bindE (default_pool env ing name (ilb_ID lb) (ili_ID listener) nodeObjs) (\<lambda>nodePorts.
          bindE (delete_policies env (ilb_ID lb) (ili_ID listener)) (\<lambda>_.
          bindE (delete_shared_pools env (ilb_ID lb)) (\<lambda>_.
          bindE (ensure_rules env ingNamespace (ilb_ID lb) (ili_ID listener) nodeObjs (ing_Rules ing)) (\<lambda>rulePorts.
          bindE (ensure_group_rules env c sgID ingName (nodePorts @ rulePorts) nodeObjs) (\<lambda>_.
          bindE (ensure_address env cfg ing lb) (\<lambda>address.
          bindE (updateIngressStatus env ing address) (\<lambda>newIng.
          UpdateLoadBalancerDescription (ie_octavia env) (ilb_ID lb)
            (''Kubernetes Ingress '' @ ingName @ '' in namespace '' @ ingNamespace @ '' from cluster '' @ clusterName @
             '', version: '' @ ing_ResourceVersion newIng)))))))))))))"

section \<open>Deleting\<close>

definition deleteIngress :: "'w ing_env \<Rightarrow> ing_Controller \<Rightarrow> string \<Rightarrow> string \<Rightarrow> ('w, unit) io" where
  "deleteIngress env c namespace name =
     (let cfg = ic_config c; key = namespace @ ''/'' @ name; lbName = GetResourceName namespace name (icf_ClusterName cfg) in
      bindE (attempt (GetLoadbalancerByName (ie_octavia env) lbName)) (\<lambda>r.
        case r of
          Inl err \<Rightarrow>
            if err \<noteq> ErrNotFound then fail (Errorf ''error getting loadbalancer %s: %v'' [FStr name, FErr err]) else ret ()
        | Inr loadbalancer \<Rightarrow>
            bindE (wrapE (\<lambda>err. Errorf ''failed to delete floating IP: %v'' [FErr err])
                     (EnsureFloatingIP (ie_neutron env) True (ilb_VipPortID loadbalancer) '''' '''')) (\<lambda>_.
            bindE (if icf_ManageSecurityGroups cfg then
                     bindE (wrapE (\<lambda>err. Errorf ''failed to get security groups for ingress %s: %v'' [FStr key, FErr err])
                              (GetSecurityGroups (ie_neutron env) (strings_Join (sg_tags namespace name) '',''))) (\<lambda>sgs.
                     bindE (wrapE (\<lambda>err. Errorf ''failed to get nodes: %v'' [FErr err]) (ListWithPredicate env)) (\<lambda>nodes.
                     forE (\<lambda>sg.
                       bindE (wrapE (\<lambda>err. Errorf ''failed to operate on the port security groups for ingress %s: %v'' [FStr key, FErr err])
                                (EnsurePortSecurityGroup (ie_neutron env) True sg nodes)) (\<lambda>_.
                       bindE (wrapE (\<lambda>err. Errorf ''failed to delete the security groups for ingress %s: %v'' [FStr key, FErr err])
                                (EnsureSecurityGroup (ie_neutron env) True '''' '''' (sg_tags namespace name))) (\<lambda>_.
                       ret ()))) sgs))
                   else ret ()) (\<lambda>_.
            DeleteLoadbalancer (ie_octavia env) (ilb_ID loadbalancer)))))"

section \<open>The loops\<close>

text \<open>An error of the work is reported and swallowed: \<open>ing_processItem\<close> returns nil.\<close>

definition ing_processItem :: "'w ing_env \<Rightarrow> ing_Controller \<Rightarrow> ing_Event \<Rightarrow> ('w, unit) io" where
  "ing_processItem env c event =
     (let ing = ev_Obj event in
      bindE (attempt (case ev_Type event of
                        CreateEvent \<Rightarrow> ensureIngress env c ing
                      | UpdateEvent \<Rightarrow> ensureIngress env c ing
                      | DeleteEvent \<Rightarrow> deleteIngress env c (ing_Namespace ing) (ing_Name ing))) (\<lambda>_.
      ret ()))"

record 'w ing_queue =
  iq_Get :: "('w, ing_Event option) io"
  iq_Done :: "ing_Event \<Rightarrow> ('w, unit) io"
  iq_Forget :: "ing_Event \<Rightarrow> ('w, unit) io"
  iq_NumRequeues :: "ing_Event \<Rightarrow> ('w, nat) io"
  iq_AddRateLimited :: "ing_Event \<Rightarrow> ('w, unit) io"

definition ing_processNextItem :: "'w ing_env \<Rightarrow> 'w ing_queue \<Rightarrow> ing_Controller \<Rightarrow> ('w, bool) io" where
  "ing_processNextItem env queue c =
     bindE (iq_Get queue) (\<lambda>obj.
       case obj of
         None \<Rightarrow> ret False
       | Some event \<Rightarrow>
           deferred (iq_Done queue event) (
             bindE (attempt (ing_processItem env c event)) (\<lambda>err.
             bindE (case err of
                      Inr _ \<Rightarrow> iq_Forget queue event
                    | Inl _ \<Rightarrow>
                        bindE (iq_NumRequeues queue event) (\<lambda>n.
                          if n < ing_maxRetries then iq_AddRateLimited queue event else iq_Forget queue event)) (\<lambda>_.
             ret True))))"

partial_function (option) ing_runWorker ::
  "'w ing_env \<Rightarrow> 'w ing_queue \<Rightarrow> ing_Controller \<Rightarrow> 'w \<Rightarrow> (unit result \<times> 'w) option" where
  "ing_runWorker env queue c w =
     (case ing_processNextItem env queue c w of
        (Ok again, w') \<Rightarrow> if again then ing_runWorker env queue c w' else Some (Ok (), w')
      | (Err e, w') \<Rightarrow> Some (Err e, w')
      | (Panic p, w') \<Rightarrow> Some (Panic p, w'))"

fun sync_ingresses :: "'w ing_env \<Rightarrow> ing_Config \<Rightarrow> ing_Node list \<Rightarrow> Ingress list \<Rightarrow> ('w, unit) io" where
  "sync_ingresses env cfg nodes [] = ret ()"
| "sync_ingresses env cfg nodes (ing # ings) =
     (if \<not> IsValid ing then sync_ingresses env cfg nodes ings
      else
        bindE (attempt (GetLoadbalancerByName (ie_octavia env)
                 (GetResourceName (ing_Namespace ing) (ing_Name ing) (icf_ClusterName cfg)))) (\<lambda>r.
          case r of
            Inl _ \<Rightarrow> sync_ingresses env cfg nodes ings
          | Inr loadbalancer \<Rightarrow>
              bindE (attempt (UpdateLoadbalancerMembers (ie_octavia env) (ilb_ID loadbalancer) nodes)) (\<lambda>_.
              sync_ingresses env cfg nodes ings)))"

text \<open>\<open>nodeSyncLoop\<close> returns the controller with the nodes it has taken note of.\<close>

definition nodeSyncLoop :: "'w ing_env \<Rightarrow> ing_Controller \<Rightarrow> ('w, ing_Controller) io" where
  "nodeSyncLoop env c =
     bindE (attempt (ListWithPredicate env)) (\<lambda>r.
       case r of
         Inl _ \<Rightarrow> ret c
       | Inr readyWorkerNodes \<Rightarrow>
           if NodeSlicesEqual readyWorkerNodes (ic_knownNodes c) then ret c
           else if readyWorkerNodes = [] then ret (c\<lparr> ic_knownNodes := readyWorkerNodes \<rparr>)
           else
             bindE (attempt (ie_ListIngresses env)) (\<lambda>l.
               case l of
                 Inl _ \<Rightarrow> ret c
               | Inr ings \<Rightarrow>
                   bindE (sync_ingresses env (ic_config c) readyWorkerNodes ings) (\<lambda>_.
                   ret (c\<lparr> ic_knownNodes := readyWorkerNodes \<rparr>))))"

text \<open>The start of the controller after its caches have synchronised, up to its two loops.\<close>

definition Start :: "'w ing_env \<Rightarrow> ing_Controller \<Rightarrow> ('w, ing_Controller) io" where
  "Start env c =
     bindE (ListWithPredicate env) (\<lambda>readyWorkerNodes.
     bindE (GetSubnet (ie_neutron env) (icf_SubnetID (ic_config c))) (\<lambda>subnet.
     ret (c\<lparr> ic_knownNodes := readyWorkerNodes, ic_subnetCIDR := su_CIDR subnet \<rparr>)))"

section \<open>What the loops do\<close>

text \<open>An event is handled once: its error does not reach the queue, which never adds it again.\<close>

lemma ing_processItem_no_error: "ing_processItem env c event w \<noteq> (Err e, w')"
  by (auto simp: ing_processItem_def Let_def bindE_def attempt_def split: prod.splits result.splits)

lemma event_not_retried:
  "ing_processNextItem env queue c =
     bindE (iq_Get queue) (\<lambda>obj.
       case obj of
         None \<Rightarrow> ret False
       | Some event \<Rightarrow>
           deferred (iq_Done queue event) (
             bindE (ing_processItem env c event) (\<lambda>_. bindE (iq_Forget queue event) (\<lambda>_. ret True))))"
proof -
  have once: "bindE (attempt (ing_processItem env c event)) (\<lambda>err.
      bindE (case err of Inr _ \<Rightarrow> iq_Forget queue event | Inl _ \<Rightarrow> k) (\<lambda>_. ret True)) =
    bindE (ing_processItem env c event) (\<lambda>_. bindE (iq_Forget queue event) (\<lambda>_. ret True))" for event k
  proof
    fix w
    obtain r w1 where "ing_processItem env c event w = (r, w1)" by fastforce
    moreover have "\<forall>e. r \<noteq> Err e" using ing_processItem_no_error [of env c event w _ w1] calculation by auto
    ultimately show "bindE (attempt (ing_processItem env c event)) (\<lambda>err.
      bindE (case err of Inr _ \<Rightarrow> iq_Forget queue event | Inl _ \<Rightarrow> k) (\<lambda>_. ret True)) w =
    bindE (ing_processItem env c event) (\<lambda>_. bindE (iq_Forget queue event) (\<lambda>_. ret True)) w"
      by (cases r) (simp_all add: bindE_def attempt_def)
  qed
  show ?thesis unfolding ing_processNextItem_def by (intro arg_cong2 [where f = bindE] refl ext) (simp add: once split: option.split)
qed

text \<open>An ingress without the annotation of its class is not valid, and so never gets an event.\<close>

lemma IsValid_needs_class: "ing_Annotations ing IngressKey = None \<Longrightarrow> \<not> IsValid ing \<and> AddFunc ing = None"
  by (simp add: IsValid_def AddFunc_def)

text \<open>The comparison of the nodes is that of their names, with repetition and without order.\<close>

lemma stringSlicesEqual_mset: "stringSlicesEqual x y \<longleftrightarrow> mset x = mset y"
proof -
  have s: "(if sorted l then l else sort l) = sort l" for l :: "string list" by (simp add: sorted_sort_id)
  have "stringSlicesEqual x y \<longleftrightarrow> sort x = sort y"
    unfolding stringSlicesEqual_def s Let_def
    unfolding list_eq_iff_nth_eq [of "sort x"] by (auto simp: list_all_iff)
  also have "\<dots> \<longleftrightarrow> mset x = mset y" by (metis mset_sort properties_for_sort sorted_sort)
  finally show ?thesis .
qed

lemma NodeSlicesEqual_names: "NodeSlicesEqual x y \<longleftrightarrow> mset (map nd_Name x) = mset (map nd_Name y)"
  unfolding NodeSlicesEqual_def NodeNames_def stringSlicesEqual_mset by (metis length_map size_mset)

text \<open>Whatever happened to the load balancers, the nodes are taken as known: a failed update is not repeated.\<close>

lemma sync_ingresses_no_error: "sync_ingresses env cfg nodes ings w \<noteq> (Err e, w')"
proof (induction ings arbitrary: w)
  case (Cons ing ings)
  then show ?case by (auto simp: bindE_def attempt_def split: prod.splits result.splits sum.splits if_splits)
qed simp

lemma nodeSyncLoop_known:
  assumes "ListWithPredicate env w = (Ok nodes, w1)" "ie_ListIngresses env w1 = (Ok ings, w2)" "nodes \<noteq> []"
    "sync_ingresses env (ic_config c) nodes ings w2 = (r, w3)" "nodeSyncLoop env c w = (Ok c', w')"
  shows "mset (map nd_Name (ic_knownNodes c')) = mset (map nd_Name nodes)"
  using assms sync_ingresses_no_error [of env "ic_config c" nodes ings w2]
  by (auto simp: nodeSyncLoop_def bindE_def attempt_def NodeSlicesEqual_names split: if_splits result.splits)

lemma GetNodeID_ok: "GetNodeID node = Ok i \<longleftrightarrow> nd_ProviderID node = ''openstack:///'' @ i \<and> i \<noteq> '''' \<and> CHR ''/'' \<notin> set i"
proof
  have len: "length ''openstack:///'' = 13" by simp
  assume ok: "GetNodeID node = Ok i"
  then have "take 13 (nd_ProviderID node) = ''openstack:///''" "i = drop 13 (nd_ProviderID node)"
    "i \<noteq> ''''" "CHR ''/'' \<notin> set i"
    unfolding GetNodeID_def Let_def HasPrefix_def len by (auto split: if_splits)
  then show "nd_ProviderID node = ''openstack:///'' @ i \<and> i \<noteq> '''' \<and> CHR ''/'' \<notin> set i"
    by (metis append_take_drop_id)
qed (simp add: GetNodeID_def Let_def HasPrefix_def)

end
