(* ===== verification/Ingress_Reconcile.thy ===== *)
theory Ingress_Reconcile
  imports Ingress_Controller
begin

text \<open>
  What the ingress controller achieves: after a successful \<open>ensureIngress\<close> the listener of the load
  balancer has exactly the policies of the ingress, each leading to a pool with the right members.
  The theory states what the code relies on of Octavia and proves the effect of each operation of
  \<open>octavia.go\<close> on the pools and policies.
\<close>

section \<open>What Octavia promises\<close>

text \<open>
  The view of a load balancer: \<open>pv w\<close> has its pools by id, each with its name, its listener (empty for
  a shared pool) and its members, \<open>yv w\<close> the policies of the listener by id, each with its pool and
  its rules.
\<close>

type_synonym pool_view = "string \<times> string \<times> ing_Member list"
type_synonym policy_view = "string \<times> ing_rule_CreateOpts list"

definition l7_ok ::
  "'w octavia_api \<Rightarrow> string \<Rightarrow> string \<Rightarrow> ('w \<Rightarrow> string \<rightharpoonup> pool_view) \<Rightarrow> ('w \<Rightarrow> string \<rightharpoonup> policy_view) \<Rightarrow> bool" where
  "l7_ok api lbID lid pv yv \<longleftrightarrow>
     (lid \<noteq> '''') \<and>
     (\<forall>i. reads (\<lambda>w. (pv w, yv w)) (oi_lb_Get api i)) \<and>
     (\<forall>n. reads (\<lambda>w. (pv w, yv w)) (oi_lb_List api n)) \<and>
     (\<forall>opts. reads (\<lambda>w. (pv w, yv w)) (oi_lb_Create api opts)) \<and>
     (\<forall>i d. reads (\<lambda>w. (pv w, yv w)) (oi_lb_Update api i d)) \<and>
     (\<forall>n i. reads (\<lambda>w. (pv w, yv w)) (oi_listener_List api n i)) \<and>
     (\<forall>opts. reads (\<lambda>w. (pv w, yv w)) (oi_listener_Create api opts)) \<and>
     (\<forall>n. reads (\<lambda>w. (pv w, yv w)) (oi_pool_List api n lbID)) \<and>
     (reads (\<lambda>w. (pv w, yv w)) (oi_policy_List api lid)) \<and>
     (\<exists>sleep. oi_Backoff api = backoff (\<lambda>(w, status). (sleep w, status)) \<and> (\<forall>w. pv (sleep w) = pv w \<and> yv (sleep w) = yv w)) \<and>
     (\<forall>n w e w'. oi_pool_List api n lbID w = (Err e, w') \<longrightarrow> \<not> IsNotFound e \<and> e \<noteq> ErrNotFound) \<and>
     (\<forall>n w pages w'. oi_pool_List api n lbID w = (Ok pages, w') \<longrightarrow>
        (\<exists>pss. pages = map Ok pss \<and> distinct (map ipo_ID (concat pss)) \<and>
           ipo_ID ` set (concat pss) = {i. \<exists>m x. pv w i = Some (m, x) \<and> (n = '''' \<or> m = n)} \<and>
           (\<forall>p \<in> set (concat pss). \<exists>l ms. pv w (ipo_ID p) = Some (ipo_Name p, l, ms) \<and> (l \<noteq> '''' \<longrightarrow> ipo_Listeners p \<noteq> [])))) \<and>
     (\<forall>opts w r w'. ipc_ListenerID opts = lid \<or> ipc_LoadbalancerID opts = lbID \<longrightarrow> oi_pool_Create api opts w = (r, w') \<longrightarrow> yv w' = yv w \<and>
        (case r of Ok p \<Rightarrow> pv w (ipo_ID p) = None \<and> pv w' = (pv w)(ipo_ID p \<mapsto> (ipc_Name opts, ipc_ListenerID opts, [])) | _ \<Rightarrow> pv w' = pv w)) \<and>
     (\<forall>i w r w'. oi_pool_Delete api i w = (r, w') \<longrightarrow> yv w' = yv w \<and>
        (case r of Ok _ \<Rightarrow> pv w' = (pv w)(i := None) | Err e \<Rightarrow> pv w' = pv w \<and> (IsNotFound e \<longrightarrow> pv w i = None) | Panic _ \<Rightarrow> pv w' = pv w)) \<and>
     (\<forall>i ms w r w'. oi_member_BatchUpdate api i ms w = (r, w') \<longrightarrow> yv w' = yv w \<and>
        (case r of Ok _ \<Rightarrow> (\<exists>n l ms0. pv w i = Some (n, l, ms0) \<and> pv w' = (pv w)(i \<mapsto> (n, l, ms))) | _ \<Rightarrow> pv w' = pv w)) \<and>
     (\<forall>w pages w'. oi_policy_List api lid w = (Ok pages, w') \<longrightarrow>
        (\<exists>yss. pages = map Ok yss \<and> set (concat yss) = dom (yv w))) \<and>
     (\<forall>opts w r w'. iyc_ListenerID opts = lid \<longrightarrow> oi_policy_Create api opts w = (r, w') \<longrightarrow> pv w' = pv w \<and>
        (case r of Ok y \<Rightarrow> yv w y = None \<and> yv w' = (yv w)(y \<mapsto> (iyc_RedirectPoolID opts, [])) | _ \<Rightarrow> yv w' = yv w)) \<and>
     (\<forall>y w r w'. oi_policy_Delete api y w = (r, w') \<longrightarrow> pv w' = pv w \<and>
        (case r of Ok _ \<Rightarrow> yv w' = (yv w)(y := None) | _ \<Rightarrow> yv w' = yv w)) \<and>
     (\<forall>y rule w r w'. oi_policy_CreateRule api y rule w = (r, w') \<longrightarrow> pv w' = pv w \<and>
        (case r of Ok _ \<Rightarrow> (\<exists>p rs. yv w y = Some (p, rs) \<and> yv w' = (yv w)(y \<mapsto> (p, rs @ [rule]))) | _ \<Rightarrow> yv w' = yv w))"

lemma l7_ok_laws:
  assumes "l7_ok api lbID lid pv yv"
  shows "lid \<noteq> ''''"
    and "\<forall>i. reads (\<lambda>w. (pv w, yv w)) (oi_lb_Get api i)"
    and "\<forall>n. reads (\<lambda>w. (pv w, yv w)) (oi_lb_List api n)"
    and "\<forall>opts. reads (\<lambda>w. (pv w, yv w)) (oi_lb_Create api opts)"
    and "\<forall>i d. reads (\<lambda>w. (pv w, yv w)) (oi_lb_Update api i d)"
    and "\<forall>n i. reads (\<lambda>w. (pv w, yv w)) (oi_listener_List api n i)"
    and "\<forall>opts. reads (\<lambda>w. (pv w, yv w)) (oi_listener_Create api opts)"
    and "\<forall>n. reads (\<lambda>w. (pv w, yv w)) (oi_pool_List api n lbID)"
    and "reads (\<lambda>w. (pv w, yv w)) (oi_policy_List api lid)"
    and "\<exists>sleep. oi_Backoff api = backoff (\<lambda>(w, status). (sleep w, status)) \<and> (\<forall>w. pv (sleep w) = pv w \<and> yv (sleep w) = yv w)"
    and "\<forall>n w e w'. oi_pool_List api n lbID w = (Err e, w') \<longrightarrow> \<not> IsNotFound e \<and> e \<noteq> ErrNotFound"
    and "\<forall>n w pages w'. oi_pool_List api n lbID w = (Ok pages, w') \<longrightarrow>
        (\<exists>pss. pages = map Ok pss \<and> distinct (map ipo_ID (concat pss)) \<and>
           ipo_ID ` set (concat pss) = {i. \<exists>m x. pv w i = Some (m, x) \<and> (n = '''' \<or> m = n)} \<and>
           (\<forall>p \<in> set (concat pss). \<exists>l ms. pv w (ipo_ID p) = Some (ipo_Name p, l, ms) \<and> (l \<noteq> '''' \<longrightarrow> ipo_Listeners p \<noteq> [])))"
    and "\<forall>opts w r w'. ipc_ListenerID opts = lid \<or> ipc_LoadbalancerID opts = lbID \<longrightarrow> oi_pool_Create api opts w = (r, w') \<longrightarrow> yv w' = yv w \<and>
        (case r of Ok p \<Rightarrow> pv w (ipo_ID p) = None \<and> pv w' = (pv w)(ipo_ID p \<mapsto> (ipc_Name opts, ipc_ListenerID opts, [])) | _ \<Rightarrow> pv w' = pv w)"
    and "\<forall>i w r w'. oi_pool_Delete api i w = (r, w') \<longrightarrow> yv w' = yv w \<and>
        (case r of Ok _ \<Rightarrow> pv w' = (pv w)(i := None) | Err e \<Rightarrow> pv w' = pv w \<and> (IsNotFound e \<longrightarrow> pv w i = None) | Panic _ \<Rightarrow> pv w' = pv w)"
    and "\<forall>i ms w r w'. oi_member_BatchUpdate api i ms w = (r, w') \<longrightarrow> yv w' = yv w \<and>
        (case r of Ok _ \<Rightarrow> (\<exists>n l ms0. pv w i = Some (n, l, ms0) \<and> pv w' = (pv w)(i \<mapsto> (n, l, ms))) | _ \<Rightarrow> pv w' = pv w)"
    and "\<forall>w pages w'. oi_policy_List api lid w = (Ok pages, w') \<longrightarrow>
        (\<exists>yss. pages = map Ok yss \<and> set (concat yss) = dom (yv w))"
    and "\<forall>opts w r w'. iyc_ListenerID opts = lid \<longrightarrow> oi_policy_Create api opts w = (r, w') \<longrightarrow> pv w' = pv w \<and>
        (case r of Ok y \<Rightarrow> yv w y = None \<and> yv w' = (yv w)(y \<mapsto> (iyc_RedirectPoolID opts, [])) | _ \<Rightarrow> yv w' = yv w)"
    and "\<forall>y w r w'. oi_policy_Delete api y w = (r, w') \<longrightarrow> pv w' = pv w \<and>
        (case r of Ok _ \<Rightarrow> yv w' = (yv w)(y := None) | _ \<Rightarrow> yv w' = yv w)"
    and "\<forall>y rule w r w'. oi_policy_CreateRule api y rule w = (r, w') \<longrightarrow> pv w' = pv w \<and>
        (case r of Ok _ \<Rightarrow> (\<exists>p rs. yv w y = Some (p, rs) \<and> yv w' = (yv w)(y \<mapsto> (p, rs @ [rule]))) | _ \<Rightarrow> yv w' = yv w)"
  by (insert assms, unfold l7_ok_def, (elim conjE, assumption)+)

lemmas l7_okD = l7_ok_laws [rule_format]

section \<open>Waiting and looking up\<close>

lemma ing_wait_reads:
  assumes "l7_ok api lbID lid pv yv"
  shows "reads (\<lambda>w. (pv w, yv w)) (ing_wait api i)"
proof -
  obtain sleep where sleep: "oi_Backoff api = backoff (\<lambda>(w, status). (sleep w, status))"
    "\<And>w. pv (sleep w) = pv w \<and> yv (sleep w) = yv w"
    using l7_okD(10) [OF assms] by blast
  have keep: "keeps (\<lambda>s. pv (fst s) = P \<and> yv (fst s) = Y) (oi_Backoff api n (ing_active_condition api i))" for P Y n
    unfolding sleep(1)
  proof (rule keeps_backoff)
    show "keeps (\<lambda>s. pv (fst s) = P \<and> yv (fst s) = Y) (ing_active_condition api i)"
      using readsD [OF l7_okD(2) [OF assms, of i]]
      by (intro keepsI) (fastforce simp: ing_active_condition_def split: prod.splits result.splits)
    show "pv (fst (case s of (w, status) \<Rightarrow> (sleep w, status))) = P \<and> yv (fst (case s of (w, status) \<Rightarrow> (sleep w, status))) = Y"
      if "pv (fst s) = P \<and> yv (fst s) = Y" for s
      using that sleep(2) by (cases s) simp
  qed
  show ?thesis
    unfolding reads_def
  proof (intro allI impI)
    fix w r w'
    assume run: "ing_wait api i w = (r, w')"
    obtain q w1 st where q: "oi_Backoff api ing_loadbalancerActiveSteps (ing_active_condition api i) (w, '''') = (q, (w1, st))"
      by (metis surj_pair)
    from keepsD [OF keep [of "pv w" "yv w"] _ q] have "pv w1 = pv w \<and> yv w1 = yv w" by simp
    moreover have "w' = w1" using run q by (auto simp: ing_wait_def split: result.splits)
    ultimately show "(pv w', yv w') = (pv w, yv w)" by simp
  qed
qed

lemma each_page_at_most_one:
  "length l \<le> 1 \<Longrightarrow> each_page at_most_one (map Ok pss) l =
     (if length (l @ concat pss) \<le> 1 then Ok (l @ concat pss) else Err ErrMultipleResults)"
proof (induction pss arbitrary: l)
  case Nil
  then show ?case by simp
next
  case (Cons ps pss)
  show ?case
  proof (cases "length (l @ ps) \<le> 1")
    case True
    then show ?thesis using Cons.IH [of "l @ ps"] by (simp add: at_most_one_def Let_def)
  next
    case False
    then show ?thesis by (simp add: at_most_one_def Let_def)
  qed
qed

text \<open>A pool is found by its name exactly if it is the only one.\<close>

lemma getPoolByName_spec:
  assumes "l7_ok api lbID lid pv yv" "n \<noteq> ''''" "getPoolByName api n lbID w = (r, w')"
  shows "pv w' = pv w \<and> yv w' = yv w"
    and "r = Ok p \<Longrightarrow> (\<exists>l ms. pv w (ipo_ID p) = Some (n, l, ms)) \<and> (\<forall>i x. pv w i = Some (n, x) \<longrightarrow> i = ipo_ID p)"
    and "r = Err ErrNotFound \<Longrightarrow> \<forall>i x. pv w i \<noteq> Some (n, x)"
proof -
  obtain q w1 where list: "oi_pool_List api n lbID w = (q, w1)" by fastforce
  have V: "pv w1 = pv w \<and> yv w1 = yv w" using readsD [OF l7_okD(8) [OF assms(1)] list] by simp
  have w': "w' = w1"
    using assms(3) list
    by (auto simp: getPoolByName_def bindE_def wrapE_def split: result.splits list.splits)
  show "pv w' = pv w \<and> yv w' = yv w" using V w' by simp
  have pages: "\<exists>pss. q = Ok (map Ok pss) \<and> distinct (map ipo_ID (concat pss)) \<and>
      ipo_ID ` set (concat pss) = {i. \<exists>x. pv w i = Some (n, x)}" if "r = Ok p \<or> r = Err ErrNotFound"
  proof (cases q)
    case (Ok pages)
    from l7_okD(12) [OF assms(1) list [unfolded Ok]] assms(2) Ok show ?thesis by auto
  next
    case (Err e)
    then show ?thesis
      using that assms(3) list l7_okD(11) [OF assms(1) list [unfolded Err]]
      by (auto simp: getPoolByName_def bindE_def wrapE_def not_found_as_def)
  next
    case (Panic s)
    then show ?thesis using that assms(3) list by (auto simp: getPoolByName_def bindE_def wrapE_def)
  qed
  have run: "r = (case concat pss of [] \<Rightarrow> Err ErrNotFound | [p] \<Rightarrow> Ok p | _ \<Rightarrow> Err ErrMultipleResults)"
    if q: "q = Ok (map Ok pss)" for pss
  proof -
    obtain ps where ps: "concat pss = ps" by blast
    have "each_page at_most_one (map Ok pss) [] = (if length ps \<le> 1 then Ok ps else Err ErrMultipleResults)"
      using each_page_at_most_one [of "[]" pss] unfolding ps by simp
    then have "getPoolByName api n lbID w = (case ps of [] \<Rightarrow> Err ErrNotFound | [p] \<Rightarrow> Ok p | _ \<Rightarrow> Err ErrMultipleResults, w1)"
      using list q
      by (cases ps; cases "tl ps") (auto simp: getPoolByName_def bindE_def wrapE_def not_found_as_def IsNotFound_def)
    then show ?thesis using assms(3) unfolding ps by simp
  qed
  show "(\<exists>l ms. pv w (ipo_ID p) = Some (n, l, ms)) \<and> (\<forall>i x. pv w i = Some (n, x) \<longrightarrow> i = ipo_ID p)" if r: "r = Ok p"
  proof -
    obtain pss where pss: "q = Ok (map Ok pss)" "ipo_ID ` set (concat pss) = {i. \<exists>x. pv w i = Some (n, x)}"
      using pages r by blast
    have "concat pss = [p]" using run [OF pss(1)] r by (auto split: list.splits)
    then have "{i. \<exists>x. pv w i = Some (n, x)} = {ipo_ID p}" using pss(2) by simp
    then show ?thesis by auto
  qed
  show "\<forall>i x. pv w i \<noteq> Some (n, x)" if r: "r = Err ErrNotFound"
  proof -
    obtain pss where pss: "q = Ok (map Ok pss)" "ipo_ID ` set (concat pss) = {i. \<exists>x. pv w i = Some (n, x)}"
      using pages r by blast
    have e: "concat pss = []" using run [OF pss(1)] r by (auto split: list.splits)
    have "{i. \<exists>x. pv w i = Some (n, x)} = {}" using pss(2) [unfolded e] by simp
    then show ?thesis by auto
  qed
qed

section \<open>Pools\<close>

lemma ing_ensure_pool_spec:
  assumes "l7_ok api lbID lid pv yv" "n \<noteq> ''''" "l \<in> {'''', lid}" "ing_ensure_pool api n lbID l w = (Ok p, w')"
  shows "yv w' = yv w \<and> (\<forall>i x. pv w i = Some (n, x) \<longrightarrow> i = ipo_ID p) \<and>
    ((\<exists>l' ms. pv w (ipo_ID p) = Some (n, l', ms)) \<and> pv w' = pv w \<or>
     pv w (ipo_ID p) = None \<and> pv w' = (pv w)(ipo_ID p \<mapsto> (n, l, [])))"
proof -
  obtain q w1 where look: "getPoolByName api n lbID w = (q, w1)" by fastforce
  note spec = getPoolByName_spec [OF assms(1,2) look]
  show ?thesis
  proof (cases q)
    case (Ok p')
    then have "p' = p" "w' = w1" using assms(4) look by (auto simp: ing_ensure_pool_def bindE_def attempt_def)
    then show ?thesis using spec(1) spec(2) [OF Ok] by simp
  next
    case (Err e)
    let ?opts = "\<lparr> ipc_Name = n, ipc_Protocol = ''HTTP'', ipc_LBMethod = ''ROUND_ROBIN'',
                    ipc_ListenerID = l, ipc_LoadbalancerID = (if l \<noteq> '''' then '''' else lbID) \<rparr>"
    have e: "e = ErrNotFound" using assms(4) look Err by (cases "e = ErrNotFound") (simp_all add: ing_ensure_pool_def)
    have create: "oi_pool_Create api ?opts w1 = (Ok p, w')"
      using assms(4) look Err e by (simp add: ing_ensure_pool_def wrapE_eq_Ok)
    have "ipc_ListenerID ?opts = lid \<or> ipc_LoadbalancerID ?opts = lbID" using assms(3) by auto
    from l7_okD(13) [OF assms(1) this create] spec(1,3) Err e show ?thesis by simp
  next
    case (Panic s)
    then show ?thesis using assms(4) look by (auto simp: ing_ensure_pool_def bindE_def attempt_def)
  qed
qed

text \<open>
  After \<open>EnsurePoolMembers\<close> the pool has exactly the members for the nodes, no other pool has its
  name, and no other pool has changed.
\<close>

lemma EnsurePoolMembers_spec:
  assumes "l7_ok api lbID lid pv yv" "n \<noteq> ''''" "l \<in> {'''', lid}"
    "EnsurePoolMembers api False n lbID l (Some port) nodes w = (Ok r, w')"
  shows "\<exists>pid l' ms. r = Some pid \<and> pool_members (Some port) nodes = Ok ms \<and> ms \<noteq> [] \<and> yv w' = yv w \<and>
    pv w' = (pv w)(pid \<mapsto> (n, l', ms)) \<and> (\<forall>i x. pv w i = Some (n, x) \<longrightarrow> i = pid) \<and>
    ((\<exists>ms0. pv w pid = Some (n, l', ms0)) \<or> pv w pid = None \<and> l' = l)"
proof -
  from assms(4) obtain p w1 s1 w2 ms w3 s2 where pool: "ing_ensure_pool api n lbID l w = (Ok p, w1)"
    and wait1: "ing_wait api lbID w1 = (Ok s1, w2)" and ms: "pool_members (Some port) nodes = Ok ms" "ms \<noteq> []"
    and batch: "oi_member_BatchUpdate api (ipo_ID p) ms w2 = (Ok (), w3)"
    and wait2: "ing_wait api lbID w3 = (Ok s2, w')" and r: "r = Some (ipo_ID p)"
    by (auto simp: EnsurePoolMembers_def bindE_eq_Ok wrapE_eq_Ok split: if_splits)
  note V1 = readsD [OF ing_wait_reads [OF assms(1)] wait1] and V2 = readsD [OF ing_wait_reads [OF assms(1)] wait2]
  obtain n' l' ms0 where b: "yv w3 = yv w2" "pv w2 (ipo_ID p) = Some (n', l', ms0)" "pv w3 = (pv w2)(ipo_ID p \<mapsto> (n', l', ms))"
    using l7_okD(15) [OF assms(1) batch] by auto
  have V: "pv w2 = pv w1" "yv w2 = yv w1" "pv w' = pv w3" "yv w' = yv w3" using V1 V2 by simp_all
  note spec = ing_ensure_pool_spec [OF assms(1,2,3) pool]
  have pv: "pv w' = (pv w)(ipo_ID p \<mapsto> (n, l', ms))" and n': "n' = n"
    and old: "(\<exists>ms0. pv w (ipo_ID p) = Some (n, l', ms0)) \<or> pv w (ipo_ID p) = None \<and> l' = l"
    using spec b(2,3) V by auto
  have "yv w' = yv w" "\<forall>i x. pv w i = Some (n, x) \<longrightarrow> i = ipo_ID p" using spec b(1) V by simp_all
  then show ?thesis using pv old ms r by blast
qed

section \<open>Deleting\<close>

lemma each_page_gather:
  "each_page (\<lambda>v l. Ok (True, l @ f v)) (map Ok pss) l = Ok (l @ concat (map f pss))"
  by (induction pss arbitrary: l) simp_all

text \<open>Without a default backend no pool of the name of the ingress is left.\<close>

lemma delete_pool_members_spec:
  assumes "l7_ok api lbID lid pv yv" "n \<noteq> ''''" "delete_pool_members api n lbID w = (Ok r, w')"
  shows "yv w' = yv w \<and> pv w' \<subseteq>\<^sub>m pv w \<and> (\<forall>i m x. m \<noteq> n \<longrightarrow> pv w i = Some (m, x) \<longrightarrow> pv w' i = Some (m, x)) \<and>
    (\<forall>i x. pv w' i \<noteq> Some (n, x))"
proof -
  note step = readsD [OF ing_wait_reads [OF assms(1)]]
  obtain q w1 where look: "getPoolByName api n lbID w = (q, w1)" by fastforce
  note spec = getPoolByName_spec [OF assms(1,2) look]
  show ?thesis
  proof (cases q)
    case (Ok p)
    obtain d w2 where del: "oi_pool_Delete api (ipo_ID p) w1 = (d, w2)" by fastforce
    have wait: "\<exists>s. ing_wait api lbID w2 = (Ok s, w')" and d: "(\<exists>u. d = Ok u) \<or> (\<exists>e. d = Err e \<and> IsNotFound e)"
      using assms(3) look Ok del
      by (cases d; auto simp: delete_pool_members_def bindE_def attempt_def wrapE_def split: if_splits prod.splits result.splits)+
    have V: "pv w' = pv w2 \<and> yv w' = yv w2" using wait step [of lbID w2] by blast
    have "pv w2 = (pv w)(ipo_ID p := None) \<and> yv w2 = yv w"
      using l7_okD(14) [OF assms(1) del] d spec(1) by (auto simp: fun_eq_iff)
    then show ?thesis using V spec(2) [OF Ok] by (auto simp: map_le_def)
  next
    case (Err e)
    then have "e = ErrNotFound" "w' = w1"
      using assms(3) look by (auto simp: delete_pool_members_def bindE_attempt_eq_Ok split: if_splits)
    then show ?thesis using spec(1,3) Err by (auto simp: map_le_def)
  next
    case (Panic s)
    then show ?thesis using assms(3) look by (auto simp: delete_pool_members_def bindE_def attempt_def)
  qed
qed

text \<open>
  The policies of the listener are deleted one by one; one whose deletion fails is only logged and
  stays.
\<close>

lemma DeleteL7policy_spec:
  assumes "l7_ok api lbID lid pv yv" "bindE (attempt (DeleteL7policy api y lbID)) (\<lambda>_. ret ()) w = (Ok u, w')"
  shows "pv w' = pv w \<and> yv w' \<subseteq>\<^sub>m yv w \<and> (is_ok (fst (oi_policy_Delete api y w)) \<longrightarrow> yv w' = (yv w)(y := None))"
proof -
  note step = readsD [OF ing_wait_reads [OF assms(1)]]
  obtain d w1 where del: "oi_policy_Delete api y w = (d, w1)" by fastforce
  note spec = l7_okD(18) [OF assms(1) del]
  show ?thesis
  proof (cases d)
    case (Ok v)
    obtain q w2 where wait: "ing_wait api lbID w1 = (q, w2)" by fastforce
    have "w' = w2" using assms(2) del Ok wait
      by (auto simp: DeleteL7policy_def bindE_def attempt_def wrapE_def split: result.splits)
    then show ?thesis using spec Ok step [OF wait] del by (auto simp: map_le_def)
  qed (use assms(2) del spec in \<open>auto simp: DeleteL7policy_def bindE_def attempt_def wrapE_def is_ok_iff\<close>)
qed

lemma delete_policies_loop:
  assumes "l7_ok api lbID lid pv yv"
  shows "forE (\<lambda>p. bindE (attempt (DeleteL7policy api p lbID)) (\<lambda>_. ret ())) ys w = (Ok u, w') \<Longrightarrow>
    pv w' = pv w \<and> yv w' \<subseteq>\<^sub>m yv w \<and> ((\<forall>y w. is_ok (fst (oi_policy_Delete api y w))) \<longrightarrow> yv w' = yv w |` (- set ys))"
proof (induction ys arbitrary: w)
  case Nil
  then show ?case by (simp add: map_le_def)
next
  case (Cons y ys)
  from Cons.prems obtain w1 where one: "bindE (attempt (DeleteL7policy api y lbID)) (\<lambda>_. ret ()) w = (Ok (), w1)"
    and rest: "forE (\<lambda>p. bindE (attempt (DeleteL7policy api p lbID)) (\<lambda>_. ret ())) ys w1 = (Ok u, w')"
    by (rule forE_ConsE)
  note a = DeleteL7policy_spec [OF assms one] and b = Cons.IH [OF rest]
  have "yv w' \<subseteq>\<^sub>m yv w" using a b map_le_trans by blast
  moreover have "yv w' = yv w |` (- set (y # ys))" if "\<forall>y w. is_ok (fst (oi_policy_Delete api y w))"
    using a b that by (auto simp: restrict_map_def fun_eq_iff)
  ultimately show ?case using a b by simp
qed

lemma delete_policies_spec:
  assumes "l7_ok (ie_octavia env) lbID lid pv yv" "delete_policies env lbID lid w = (Ok u, w')"
  shows "pv w' = pv w \<and> yv w' \<subseteq>\<^sub>m yv w \<and>
    ((\<forall>y w. is_ok (fst (oi_policy_Delete (ie_octavia env) y w))) \<longrightarrow> yv w' = Map.empty)"
proof -
  from assms(2) obtain pages w1 ys where list: "oi_policy_List (ie_octavia env) lid w = (Ok pages, w1)"
    and ys: "each_page (\<lambda>v policies. Ok (True, policies @ v)) pages [] = Ok ys"
    and loop: "forE (\<lambda>p. bindE (attempt (DeleteL7policy (ie_octavia env) p lbID)) (\<lambda>_. ret ())) ys w1 = (Ok u, w')"
    by (auto simp: delete_policies_def GetL7policies_def bindE_eq_Ok)
  from l7_okD(16) [OF assms(1) list] obtain yss where yss: "pages = map Ok yss" "set (concat yss) = dom (yv w)" by blast
  have set: "set ys = dom (yv w)"
    using ys yss each_page_gather [of "\<lambda>v. v" yss "[]"] by simp
  have V: "pv w1 = pv w \<and> yv w1 = yv w" using readsD [OF l7_okD(9) [OF assms(1)] list] by simp
  have "yv w |` (- dom (yv w)) = Map.empty"    unfolding restrict_map_def fun_eq_iff Compl_iff by (metis domIff)
  with V show ?thesis using delete_policies_loop [OF assms(1) loop] set by simp
qed

lemma delete_pools_loop:
  assumes "l7_ok api lbID lid pv yv"
  shows "forE (\<lambda>sp. bindE (attempt (DeletePool api (ipo_ID sp) lbID)) (\<lambda>_. ret ())) ps w = (Ok u, w') \<Longrightarrow>
    yv w' = yv w \<and> pv w' \<subseteq>\<^sub>m pv w \<and> (\<forall>i. i \<notin> ipo_ID ` set ps \<longrightarrow> pv w' i = pv w i)"
proof (induction ps arbitrary: w)
  case Nil
  then show ?case by (simp add: map_le_def)
next
  case (Cons p ps)
  from Cons.prems obtain w1 where one: "bindE (attempt (DeletePool api (ipo_ID p) lbID)) (\<lambda>_. ret ()) w = (Ok (), w1)"
    and rest: "forE (\<lambda>sp. bindE (attempt (DeletePool api (ipo_ID sp) lbID)) (\<lambda>_. ret ())) ps w1 = (Ok u, w')"
    by (rule forE_ConsE)
  obtain d w2 where del: "oi_pool_Delete api (ipo_ID p) w = (d, w2)" by fastforce
  note spec = l7_okD(14) [OF assms del]
  have "yv w1 = yv w2 \<and> pv w1 = pv w2"
  proof (cases d)
    case (Ok v)
    obtain q w3 where wait: "ing_wait api lbID w2 = (q, w3)" by fastforce
    have "w1 = w3" using one del Ok wait
      by (auto simp: DeletePool_def bindE_def attempt_def wrapE_def split: result.splits)
    then show ?thesis using readsD [OF ing_wait_reads [OF assms] wait] by simp
  qed (use one del in \<open>auto simp: DeletePool_def bindE_def attempt_def wrapE_def\<close>)
  then have a: "yv w1 = yv w" "pv w1 \<subseteq>\<^sub>m pv w" "\<And>i. i \<noteq> ipo_ID p \<Longrightarrow> pv w1 i = pv w i"
    using spec by (cases d; auto simp: map_le_def)+
  have b: "yv w' = yv w1" "pv w' \<subseteq>\<^sub>m pv w1" "\<And>i. i \<notin> ipo_ID ` set ps \<Longrightarrow> pv w' i = pv w1 i"
    using Cons.IH [OF rest] by simp_all
  have "pv w' i = pv w i" if "i \<notin> ipo_ID ` set (p # ps)" for i
    using a(3) [of i] b(3) [of i] that by simp
  then show ?case using a(1) b(1) map_le_trans [OF b(2) a(2)] by simp
qed

lemma delete_shared_pools_spec:
  assumes "l7_ok (ie_octavia env) lbID lid pv yv" "delete_shared_pools env lbID w = (Ok u, w')"
  shows "yv w' = yv w \<and> pv w' \<subseteq>\<^sub>m pv w \<and> (\<forall>i n l ms. l \<noteq> '''' \<longrightarrow> pv w i = Some (n, l, ms) \<longrightarrow> pv w' i = Some (n, l, ms))"
proof -
  from assms(2) obtain pages w1 ps where list: "oi_pool_List (ie_octavia env) '''' lbID w = (Ok pages, w1)"
    and ps: "each_page (\<lambda>v lbPools. Ok (True, lbPools @ filter (\<lambda>p. \<not> (True \<and> ipo_Listeners p \<noteq> [])) v)) pages [] = Ok ps"
    and loop: "forE (\<lambda>sp. bindE (attempt (DeletePool (ie_octavia env) (ipo_ID sp) lbID)) (\<lambda>_. ret ())) ps w1 = (Ok u, w')"
    by (auto simp: delete_shared_pools_def GetPools_def bindE_eq_Ok)
  from l7_okD(12) [OF assms(1) list] obtain pss where pss: "pages = map Ok pss"
    "\<forall>p \<in> set (concat pss). \<exists>l ms. pv w (ipo_ID p) = Some (ipo_Name p, l, ms) \<and> (l \<noteq> '''' \<longrightarrow> ipo_Listeners p \<noteq> [])"
    by blast
  have set: "set ps \<subseteq> {p \<in> set (concat pss). ipo_Listeners p = []}"
    using ps unfolding pss(1) each_page_gather by auto
  have V: "pv w1 = pv w \<and> yv w1 = yv w" using readsD [OF l7_okD(8) [OF assms(1)] list] by simp
  have keep: "i \<notin> ipo_ID ` set ps" if "l \<noteq> ''''" "pv w i = Some (n, l, ms)" for i n l ms
    using that set pss(2) by fastforce
  show ?thesis using delete_pools_loop [OF assms(1) loop] V keep by auto
qed

section \<open>Policies\<close>

text \<open>The rules of the policy for a host and a path; an empty one gives no rule.\<close>

definition path_rules :: "string \<Rightarrow> string \<Rightarrow> ing_rule_CreateOpts list" where
  "path_rules host path =
     (if host \<noteq> '''' then [\<lparr> irc_RuleType = ''HOST_NAME'', irc_CompareType = ''EQUAL_TO'', irc_Value = host \<rparr>] else []) @
     (if path \<noteq> '''' then [\<lparr> irc_RuleType = ''PATH'', irc_CompareType = ''STARTS_WITH'', irc_Value = path \<rparr>] else [])"

lemma create_rule_spec:
  assumes "l7_ok api lbID lid pv yv" "create_rule api lbID y t c v w = (Ok u, w')" "yv w y = Some (p, rs)"
  shows "pv w' = pv w \<and> yv w' = (yv w)(y \<mapsto> (p, rs @ (if v \<noteq> '''' then [\<lparr> irc_RuleType = t, irc_CompareType = c, irc_Value = v \<rparr>] else [])))"
proof (cases "v = ''''")
  case True
  then show ?thesis using assms(2,3) by (auto simp: create_rule_def)
next
  case False
  with assms(2) obtain u1 w1 s where rule: "oi_policy_CreateRule api y \<lparr> irc_RuleType = t, irc_CompareType = c, irc_Value = v \<rparr> w = (Ok u1, w1)"
    and wait: "ing_wait api lbID w1 = (Ok s, w')"
    by (auto simp: create_rule_def bindE_eq_Ok wrapE_eq_Ok)
  show ?thesis
    using l7_okD(19) [OF assms(1) rule] readsD [OF ing_wait_reads [OF assms(1)] wait] assms(3) False by simp
qed

lemma CreatePolicyRules_spec:
  assumes "l7_ok api lbID lid pv yv" "CreatePolicyRules api lbID lid pid host path w = (Ok u, w')"
  shows "\<exists>y. pv w' = pv w \<and> yv w y = None \<and> yv w' = (yv w)(y \<mapsto> (pid, path_rules host path))"
proof -
  let ?opts = "\<lparr> iyc_ListenerID = lid, iyc_Action = ''REDIRECT_TO_POOL'',
                 iyc_Description = ''Created by kubernetes ingress'', iyc_RedirectPoolID = pid \<rparr>"
  from assms(2) obtain y w1 s w2 u3 w3 where create: "oi_policy_Create api ?opts w = (Ok y, w1)"
    and wait: "ing_wait api lbID w1 = (Ok s, w2)"
    and host: "create_rule api lbID y ''HOST_NAME'' ''EQUAL_TO'' host w2 = (Ok u3, w3)"
    and path: "create_rule api lbID y ''PATH'' ''STARTS_WITH'' path w3 = (Ok u, w')"
    by (auto simp: CreatePolicyRules_def bindE_eq_Ok wrapE_eq_Ok)
  have lid: "iyc_ListenerID ?opts = lid" by simp
  from l7_okD(17) [OF assms(1) lid create] readsD [OF ing_wait_reads [OF assms(1)] wait]
  have w2: "pv w2 = pv w" "yv w y = None" "yv w2 = (yv w)(y \<mapsto> (pid, []))" by simp_all
  then have "yv w2 y = Some (pid, [])" by simp
  from create_rule_spec [OF assms(1) host this]
  have w3: "pv w3 = pv w" "yv w3 = (yv w)(y \<mapsto> (pid, path_rules host ''''))"
    using w2 by (auto simp: path_rules_def fun_eq_iff)
  then have "yv w3 y = Some (pid, path_rules host '''')" by simp
  from create_rule_spec [OF assms(1) path this] w3 w2(2)
  show ?thesis by (intro exI [of _ y]) (auto simp: path_rules_def fun_eq_iff)
qed

section \<open>The routes of an ingress\<close>

text \<open>
  \<open>routed env port nodes es (P, Y) (P', Y')\<close>: for every entry of \<open>es\<close>, a host with a path, there is one
  new policy with its rules, which redirects to a pool that has the members for the port of the
  service. Pools keep their names and listeners, and only pools of the entries change their members.
\<close>

definition entry_pool :: "'w ing_env \<Rightarrow> string \<times> HTTPIngressPath \<Rightarrow> string" where
  "entry_pool env e = pool_name env (ipa_Backend (snd e))"

definition routed ::
  "'w ing_env \<Rightarrow> (HTTPIngressPath \<Rightarrow> int) \<Rightarrow> ing_Node list \<Rightarrow> (string \<times> HTTPIngressPath) list \<Rightarrow>
     (string \<rightharpoonup> pool_view) \<times> (string \<rightharpoonup> policy_view) \<Rightarrow> (string \<rightharpoonup> pool_view) \<times> (string \<rightharpoonup> policy_view) \<Rightarrow> bool" where
  "routed env port nodes es s s' \<longleftrightarrow>
     (\<exists>new. distinct (map fst new) \<and> fst ` set new \<inter> dom (snd s) = {} \<and> snd s' = snd s ++ map_of new \<and>
        list_all2 (\<lambda>(y, pid, rs) e. rs = path_rules (fst e) (ipa_Path (snd e)) \<and>
          (\<exists>l ms. pool_members (Some (port (snd e))) nodes = Ok ms \<and> fst s' pid = Some (entry_pool env e, l, ms))) new es) \<and>
     (\<forall>pid n l ms. fst s pid = Some (n, l, ms) \<longrightarrow>
        (\<exists>ms'. fst s' pid = Some (n, l, ms') \<and>
           (ms' = ms \<or> (\<exists>e \<in> set es. entry_pool env e = n \<and> pool_members (Some (port (snd e))) nodes = Ok ms')))) \<and>
     (\<forall>pid n x. fst s pid = None \<longrightarrow> fst s' pid = Some (n, x) \<longrightarrow> n \<in> entry_pool env ` set es)"

lemma routed_Nil: "routed env port nodes [] s s"
  unfolding routed_def by (intro conjI exI [of _ "[]"]) auto

lemma routed_single:
  assumes "pool_members (Some (port (snd e))) nodes = Ok ms" "P' = P(pid \<mapsto> (entry_pool env e, l, ms))"
    "P pid = None \<or> (\<exists>ms0. P pid = Some (entry_pool env e, l, ms0))"
    "Y y = None" "Y' = Y(y \<mapsto> (pid, path_rules (fst e) (ipa_Path (snd e))))"
  shows "routed env port nodes [e] (P, Y) (P', Y')"
  unfolding routed_def
proof (intro conjI exI [of _ "[(y, pid, path_rules (fst e) (ipa_Path (snd e)))]"] allI impI)
  fix i n l' ms0
  assume "fst (P, Y) i = Some (n, l', ms0)"
  then show "\<exists>ms'. fst (P', Y') i = Some (n, l', ms') \<and>
      (ms' = ms0 \<or> (\<exists>e' \<in> set [e]. entry_pool env e' = n \<and> pool_members (Some (port (snd e'))) nodes = Ok ms'))"
    using assms(1,2,3) by (cases "i = pid") auto
next
  fix i n x
  assume "fst (P, Y) i = None" "fst (P', Y') i = Some (n, x)"
  then show "n \<in> entry_pool env ` set [e]" using assms(2) by (cases "i = pid") auto
qed (use assms in \<open>simp_all add: domIff\<close>)

lemma routed_trans:
  assumes a: "routed env port nodes es s1 s2" and b: "routed env port nodes es' s2 s3"
    and same: "\<And>e e'. e \<in> set es \<Longrightarrow> e' \<in> set es' \<Longrightarrow> entry_pool env e = entry_pool env e' \<Longrightarrow> port (snd e) = port (snd e')"
  shows "routed env port nodes (es @ es') s1 s3"
proof -
  let ?ok = "\<lambda>s' (y, pid, rs) e. rs = path_rules (fst e) (ipa_Path (snd e)) \<and>
          (\<exists>l ms. pool_members (Some (port (snd e))) nodes = Ok ms \<and> fst s' pid = Some (entry_pool env e, l, ms))"
  obtain n1 where n1: "distinct (map fst n1)" "fst ` set n1 \<inter> dom (snd s1) = {}" "snd s2 = snd s1 ++ map_of n1"
    "list_all2 (?ok s2) n1 es" using a unfolding routed_def by blast
  obtain n2 where n2: "distinct (map fst n2)" "fst ` set n2 \<inter> dom (snd s2) = {}" "snd s3 = snd s2 ++ map_of n2"
    "list_all2 (?ok s3) n2 es'" using b unfolding routed_def by blast
  have disj: "fst ` set n1 \<inter> fst ` set n2 = {}" "fst ` set n2 \<inter> dom (snd s1) = {}"
    using n2(2) unfolding n1(3) by (auto simp: dom_map_of_conv_image_fst)
  have move: "\<exists>ms'. fst s3 pid = Some (n, l, ms') \<and>
      (ms' = ms \<or> (\<exists>e \<in> set es'. entry_pool env e = n \<and> pool_members (Some (port (snd e))) nodes = Ok ms'))"
    if "fst s2 pid = Some (n, l, ms)" for pid n l ms
    using b that unfolding routed_def by blast
  have still: "?ok s3 x e" if "?ok s2 x e" "e \<in> set es" for x e
  proof -
    obtain y pid rs where x: "x = (y, pid, rs)" by (cases x)
    from that x obtain l ms where ms: "pool_members (Some (port (snd e))) nodes = Ok ms"
      "fst s2 pid = Some (entry_pool env e, l, ms)" by auto
    from move [OF ms(2)] same [OF that(2)] ms(1) have "fst s3 pid = Some (entry_pool env e, l, ms)" by fastforce
    then show ?thesis using that(1) x ms(1) by auto
  qed
  have "list_all2 (?ok s3) n1 es"
    by (rule list.rel_mono_strong [OF n1(4)]) (rule still)
  then have "list_all2 (?ok s3) (n1 @ n2) (es @ es')"
    using n2(4) by (rule list_all2_appendI)
  moreover have "snd s3 = snd s1 ++ map_of (n1 @ n2)"
    unfolding n2(3) n1(3) map_of_append using disj(1)
    by (subst map_add_comm [of "map_of n2"]) (auto simp: dom_map_of_conv_image_fst)
  ultimately have "\<exists>new. distinct (map fst new) \<and> fst ` set new \<inter> dom (snd s1) = {} \<and> snd s3 = snd s1 ++ map_of new \<and>
      list_all2 (?ok s3) new (es @ es')"
    using n1(1,2) n2(1) disj by (intro exI [of _ "n1 @ n2"]) auto
  moreover have "\<exists>ms'. fst s3 pid = Some (n, l, ms') \<and>
      (ms' = ms \<or> (\<exists>e \<in> set (es @ es'). entry_pool env e = n \<and> pool_members (Some (port (snd e))) nodes = Ok ms'))"
    if "fst s1 pid = Some (n, l, ms)" for pid n l ms
  proof -
    from a that obtain ms2 where "fst s2 pid = Some (n, l, ms2)"
      "ms2 = ms \<or> (\<exists>e \<in> set es. entry_pool env e = n \<and> pool_members (Some (port (snd e))) nodes = Ok ms2)"
      unfolding routed_def by blast
    with move [OF this(1)] show ?thesis by auto
  qed
  moreover have "n \<in> entry_pool env ` set (es @ es')" if "fst s1 pid = None" "fst s3 pid = Some (n, x)" for pid n x
  proof (cases "fst s2 pid")
    case None
    then have "n \<in> entry_pool env ` set es'" using b that(2) unfolding routed_def by blast
    then show ?thesis by auto
  next
    case (Some z)
    obtain m l ms where z: "z = (m, l, ms)" by (cases z)
    have "m \<in> entry_pool env ` set es" using a that(1) Some z unfolding routed_def by blast
    moreover have "m = n" using move [of pid m l ms] Some z that(2) by auto
    ultimately show ?thesis by auto
  qed
  ultimately show ?thesis unfolding routed_def by blast
qed

section \<open>The environment of the controller\<close>

text \<open>
  The rest of what the controller calls leaves the pools and policies alone. During the run the
  cluster has the nodes \<open>cluster\<close> and the services \<open>svc\<close>; names of pools are hexadecimal hashes.
\<close>

definition ing_env_ok ::
  "'w ing_env \<Rightarrow> ('w \<Rightarrow> string \<rightharpoonup> pool_view) \<Rightarrow> ('w \<Rightarrow> string \<rightharpoonup> policy_view) \<Rightarrow> ing_Node list \<Rightarrow>
     (string \<Rightarrow> string \<Rightarrow> ing_ServicePort list) \<Rightarrow> bool" where
  "ing_env_ok env pv yv cluster svc \<longleftrightarrow>
     (reads (\<lambda>w. (pv w, yv w)) (ie_Nodes env)) \<and>
     (\<forall>w l w'. ie_Nodes env w = (Ok l, w') \<longrightarrow> l = cluster) \<and>
     (\<forall>ns n. reads (\<lambda>w. (pv w, yv w)) (ie_GetService env ns n)) \<and>
     (\<forall>ns n w l w'. ie_GetService env ns n w = (Ok l, w') \<longrightarrow> l = svc ns n) \<and>
     (\<forall>i. reads (\<lambda>w. (pv w, yv w)) (ie_UpdateStatus env i)) \<and>
     (\<forall>p. reads (\<lambda>w. (pv w, yv w)) (ne_fip_List (ie_neutron env) p)) \<and>
     (\<forall>p n d. reads (\<lambda>w. (pv w, yv w)) (ne_fip_Create (ie_neutron env) p n d)) \<and>
     (\<forall>i. reads (\<lambda>w. (pv w, yv w)) (ne_port_List (ie_neutron env) i)) \<and>
     (\<forall>i gs. reads (\<lambda>w. (pv w, yv w)) (ne_port_Update (ie_neutron env) i gs)) \<and>
     (\<forall>t. reads (\<lambda>w. (pv w, yv w)) (ne_sg_List (ie_neutron env) t)) \<and>
     (\<forall>n d. reads (\<lambda>w. (pv w, yv w)) (ne_sg_Create (ie_neutron env) n d)) \<and>
     (\<forall>g t. reads (\<lambda>w. (pv w, yv w)) (ne_tag_Add (ie_neutron env) g t)) \<and>
     (\<forall>g c. reads (\<lambda>w. (pv w, yv w)) (ne_rule_List (ie_neutron env) g c)) \<and>
     (\<forall>opts. reads (\<lambda>w. (pv w, yv w)) (ne_rule_Create (ie_neutron env) opts)) \<and>
     (\<forall>i. reads (\<lambda>w. (pv w, yv w)) (ne_rule_Delete (ie_neutron env) i)) \<and>
     (\<forall>s. ie_Hash env s \<noteq> '''' \<and> set (ie_Hash env s) \<subseteq> set ''0123456789abcdef'')"

lemma ing_env_ok_laws:
  assumes "ing_env_ok env pv yv cluster svc"
  shows "reads (\<lambda>w. (pv w, yv w)) (ie_Nodes env)"
    and "\<forall>w l w'. ie_Nodes env w = (Ok l, w') \<longrightarrow> l = cluster"
    and "\<forall>ns n. reads (\<lambda>w. (pv w, yv w)) (ie_GetService env ns n)"
    and "\<forall>ns n w l w'. ie_GetService env ns n w = (Ok l, w') \<longrightarrow> l = svc ns n"
    and "\<forall>i. reads (\<lambda>w. (pv w, yv w)) (ie_UpdateStatus env i)"
    and "\<forall>p. reads (\<lambda>w. (pv w, yv w)) (ne_fip_List (ie_neutron env) p)"
    and "\<forall>p n d. reads (\<lambda>w. (pv w, yv w)) (ne_fip_Create (ie_neutron env) p n d)"
    and "\<forall>i. reads (\<lambda>w. (pv w, yv w)) (ne_port_List (ie_neutron env) i)"
    and "\<forall>i gs. reads (\<lambda>w. (pv w, yv w)) (ne_port_Update (ie_neutron env) i gs)"
    and "\<forall>t. reads (\<lambda>w. (pv w, yv w)) (ne_sg_List (ie_neutron env) t)"
    and "\<forall>n d. reads (\<lambda>w. (pv w, yv w)) (ne_sg_Create (ie_neutron env) n d)"
    and "\<forall>g t. reads (\<lambda>w. (pv w, yv w)) (ne_tag_Add (ie_neutron env) g t)"
    and "\<forall>g c. reads (\<lambda>w. (pv w, yv w)) (ne_rule_List (ie_neutron env) g c)"
    and "\<forall>opts. reads (\<lambda>w. (pv w, yv w)) (ne_rule_Create (ie_neutron env) opts)"
    and "\<forall>i. reads (\<lambda>w. (pv w, yv w)) (ne_rule_Delete (ie_neutron env) i)"
    and "\<forall>s. ie_Hash env s \<noteq> '''' \<and> set (ie_Hash env s) \<subseteq> set ''0123456789abcdef''"
  by (insert assms, unfold ing_env_ok_def, (elim conjE, assumption)+)

lemmas ing_env_okD = ing_env_ok_laws [rule_format]

definition node_port :: "'w ing_env \<Rightarrow> (string \<Rightarrow> string \<Rightarrow> ing_ServicePort list) \<Rightarrow> string \<Rightarrow> IngressBackend \<Rightarrow> int" where
  "node_port env svc namespace backend =
     (case ie_SplitKey env (namespace @ ''/'' @ ibe_ServiceName backend) of
        Ok (ns, n) \<Rightarrow>
          (case find (port_matches (ibe_ServicePort backend)) (svc ns n) of Some p \<Rightarrow> isp_NodePort p | None \<Rightarrow> 0)
      | _ \<Rightarrow> 0)"

lemma getServiceNodePort_spec:
  assumes "ing_env_ok env pv yv cluster svc"
    "getServiceNodePort env (namespace @ ''/'' @ ibe_ServiceName b) (ibe_ServicePort b) w = (Ok p, w')"
  shows "pv w' = pv w \<and> yv w' = yv w \<and> p = node_port env svc namespace b"
proof -
  from assms(2) obtain ns n l where split: "ie_SplitKey env (namespace @ ''/'' @ ibe_ServiceName b) = Ok (ns, n)"
    and get: "ie_GetService env ns n w = (Ok l, w')"
    and p: "p = (case find (port_matches (ibe_ServicePort b)) l of None \<Rightarrow> 0 | Some p \<Rightarrow> isp_NodePort p)"
    by (auto simp: getServiceNodePort_def getService_def bindE_eq_Ok Let_def split: if_splits)
  show ?thesis
    using readsD [OF ing_env_okD(3) [OF assms(1)] get] ing_env_okD(4) [OF assms(1) get] split p
    by (simp add: node_port_def)
qed

lemma pool_name_not_empty: "ing_env_ok env pv yv cluster svc \<Longrightarrow> pool_name env b \<noteq> ''''"
  using ing_env_okD(16) unfolding pool_name_def by blast

lemma pool_name_not_resource:
  assumes "ing_env_ok env pv yv cluster svc"
  shows "pool_name env b \<noteq> GetResourceName namespace name clusterName"
proof
  assume same: "pool_name env b = GetResourceName namespace name clusterName"
  have "CHR ''k'' \<in> set (GetResourceName namespace name clusterName)" by (simp add: GetResourceName_def)
  then have k: "CHR ''k'' \<in> set (pool_name env b)" unfolding same .
  have "set (pool_name env b) \<subseteq> set ''0123456789abcdef''"
    unfolding pool_name_def by (rule conjunct2 [OF ing_env_okD(16) [OF assms]])
  from subsetD [OF this k] show False by simp
qed

lemma ensure_path_routed:
  assumes "l7_ok (ie_octavia env) lbID lid pv yv" "ing_env_ok env pv yv cluster svc"
    "ensure_path env namespace lbID lid nodes host path w = (Ok p, w')"
  shows "p = node_port env svc namespace (ipa_Backend path) \<and>
    routed env (\<lambda>path. node_port env svc namespace (ipa_Backend path)) nodes [(host, path)] (pv w, yv w) (pv w', yv w')"
proof -
  from assms(3) obtain w1 pid w2 u where port: "getServiceNodePort env (namespace @ ''/'' @ ibe_ServiceName (ipa_Backend path))
      (ibe_ServicePort (ipa_Backend path)) w = (Ok p, w1)"
    and pool: "EnsurePoolMembers (ie_octavia env) False (pool_name env (ipa_Backend path)) lbID '''' (Some p) nodes w1 = (Ok (Some pid), w2)"
    and policy: "CreatePolicyRules (ie_octavia env) lbID lid pid host (ipa_Path path) w2 = (Ok u, w')"
    by (auto simp: ensure_path_def bindE_eq_Ok split: option.splits)
  have w1: "pv w1 = pv w" "yv w1 = yv w" and p: "p = node_port env svc namespace (ipa_Backend path)"
    using getServiceNodePort_spec [OF assms(2) port] by simp_all
  obtain l ms where ms: "pool_members (Some p) nodes = Ok ms" and w2: "yv w2 = yv w1"
    "pv w2 = (pv w1)(pid \<mapsto> (pool_name env (ipa_Backend path), l, ms))"
    "(\<exists>ms0. pv w1 pid = Some (pool_name env (ipa_Backend path), l, ms0)) \<or> pv w1 pid = None"
    using EnsurePoolMembers_spec [OF assms(1) pool_name_not_empty [OF assms(2)] _ pool] by auto
  obtain y where y: "pv w' = pv w2" "yv w2 y = None" "yv w' = (yv w2)(y \<mapsto> (pid, path_rules host (ipa_Path path)))"
    using CreatePolicyRules_spec [OF assms(1) policy] by blast
  show ?thesis
    unfolding p [symmetric]
  proof (intro conjI routed_single)
    show "pool_members (Some (node_port env svc namespace (ipa_Backend (snd (host, path))))) nodes = Ok ms" using ms p by simp
    show "pv w' = (pv w)(pid \<mapsto> (entry_pool env (host, path), l, ms))" using y w2 w1 by (simp add: entry_pool_def)
    show "pv w pid = None \<or> (\<exists>ms0. pv w pid = Some (entry_pool env (host, path), l, ms0))"
      using w2(3) w1 by (auto simp: entry_pool_def)
  qed (use y w1 w2 p in simp_all)
qed

text \<open>Entries with the same pool mean the same port: no two backends share a name for their pools.\<close>

definition no_clash :: "'w ing_env \<Rightarrow> (string \<Rightarrow> string \<Rightarrow> ing_ServicePort list) \<Rightarrow> string \<Rightarrow> (string \<times> HTTPIngressPath) set \<Rightarrow> bool" where
  "no_clash env svc namespace E \<longleftrightarrow>
     (\<forall>e \<in> E. \<forall>e' \<in> E. entry_pool env e = entry_pool env e' \<longrightarrow>
        node_port env svc namespace (ipa_Backend (snd e)) = node_port env svc namespace (ipa_Backend (snd e')))"

lemma no_clashD:
  "no_clash env svc namespace E \<Longrightarrow> e \<in> E \<Longrightarrow> e' \<in> E \<Longrightarrow> entry_pool env e = entry_pool env e' \<Longrightarrow>
    node_port env svc namespace (ipa_Backend (snd e)) = node_port env svc namespace (ipa_Backend (snd e'))"
  unfolding no_clash_def by blast

lemma ensure_paths_routed:
  assumes "l7_ok (ie_octavia env) lbID lid pv yv" "ing_env_ok env pv yv cluster svc"
    and same: "no_clash env svc namespace E"
  shows "Pair host ` set paths \<subseteq> E \<Longrightarrow> ensure_paths env namespace lbID lid nodes host paths w = (Ok ps, w') \<Longrightarrow>
    ps = map (\<lambda>path. node_port env svc namespace (ipa_Backend path)) paths \<and>
    routed env (\<lambda>path. node_port env svc namespace (ipa_Backend path)) nodes (map (Pair host) paths) (pv w, yv w) (pv w', yv w')"
proof (induction paths arbitrary: w ps)
  case Nil
  then show ?case by (simp add: routed_Nil)
next
  case (Cons path paths)
  from Cons.prems(2) obtain p w1 ps' where one: "ensure_path env namespace lbID lid nodes host path w = (Ok p, w1)"
    and rest: "ensure_paths env namespace lbID lid nodes host paths w1 = (Ok ps', w')" and ps: "ps = p # ps'"
    by (auto simp: bindE_eq_Ok)
  note a = ensure_path_routed [OF assms(1,2) one]
  have sub: "Pair host ` set paths \<subseteq> E" "(host, path) \<in> E" using Cons.prems(1) by auto
  note b = Cons.IH [OF sub(1) rest]
  have "routed env (\<lambda>path. node_port env svc namespace (ipa_Backend path)) nodes ([(host, path)] @ map (Pair host) paths)
      (pv w, yv w) (pv w', yv w')"
  proof (rule routed_trans [OF conjunct2 [OF a] conjunct2 [OF b]])
    fix e e'
    assume "e \<in> set [(host, path)]" "e' \<in> set (map (Pair host) paths)" "entry_pool env e = entry_pool env e'"
    then show "node_port env svc namespace (ipa_Backend (snd e)) = node_port env svc namespace (ipa_Backend (snd e'))"
      using sub by (intro no_clashD [OF same]) auto
  qed
  then show ?case using conjunct1 [OF a] conjunct1 [OF b] ps by simp
qed

text \<open>The entries of an ingress: every path of every rule with the host of the rule.\<close>

definition entries :: "IngressRule list \<Rightarrow> (string \<times> HTTPIngressPath) list" where
  "entries rules = concat (map (\<lambda>rule. case irl_HTTP rule of None \<Rightarrow> [] | Some paths \<Rightarrow> map (Pair (irl_Host rule)) paths) rules)"

lemma ensure_rules_routed:
  assumes "l7_ok (ie_octavia env) lbID lid pv yv" "ing_env_ok env pv yv cluster svc"
    and same: "no_clash env svc namespace E"
  shows "set (entries rules) \<subseteq> E \<Longrightarrow> ensure_rules env namespace lbID lid nodes rules w = (Ok ps, w') \<Longrightarrow>
    ps = map (\<lambda>e. node_port env svc namespace (ipa_Backend (snd e))) (entries rules) \<and>
    routed env (\<lambda>path. node_port env svc namespace (ipa_Backend path)) nodes (entries rules) (pv w, yv w) (pv w', yv w')"
proof (induction rules arbitrary: w ps)
  case Nil
  then show ?case by (simp add: entries_def routed_Nil)
next
  case (Cons rule rules)
  from Cons.prems(2) obtain paths ps1 w1 ps2 where http: "irl_HTTP rule = Some paths"
    and one: "ensure_paths env namespace lbID lid nodes (irl_Host rule) paths w = (Ok ps1, w1)"
    and rest: "ensure_rules env namespace lbID lid nodes rules w1 = (Ok ps2, w')" and ps: "ps = ps1 @ ps2"
    by (auto simp: bindE_eq_Ok split: option.splits)
  have es: "entries (rule # rules) = map (Pair (irl_Host rule)) paths @ entries rules" by (simp add: entries_def http)
  have sub: "Pair (irl_Host rule) ` set paths \<subseteq> E" "set (entries rules) \<subseteq> E" using Cons.prems(1) by (auto simp: es)
  note a = ensure_paths_routed [OF assms(1,2) same sub(1) one] and b = Cons.IH [OF sub(2) rest]
  have "routed env (\<lambda>path. node_port env svc namespace (ipa_Backend path)) nodes (entries (rule # rules)) (pv w, yv w) (pv w', yv w')"
    unfolding es
  proof (rule routed_trans [OF conjunct2 [OF a] conjunct2 [OF b]])
    fix e e'
    assume "e \<in> set (map (Pair (irl_Host rule)) paths)" "e' \<in> set (entries rules)" "entry_pool env e = entry_pool env e'"
    then show "node_port env svc namespace (ipa_Backend (snd e)) = node_port env svc namespace (ipa_Backend (snd e'))"
      using sub by (intro no_clashD [OF same]) auto
  qed
  moreover have "ps = map (\<lambda>e. node_port env svc namespace (ipa_Backend (snd e))) (entries (rule # rules))"
    using conjunct1 [OF a] conjunct1 [OF b] by (simp add: es ps comp_def)
  ultimately show ?case by simp
qed

section \<open>The whole of \<open>ensureIngress\<close>\<close>

text \<open>The listener of the load balancer has the id \<open>lid\<close>, whether it exists already or is created.\<close>

definition listener_is :: "'w octavia_api \<Rightarrow> string \<Rightarrow> string \<Rightarrow> string \<Rightarrow> bool" where
  "listener_is api name lbID lid \<longleftrightarrow>
     (\<forall>w pages w'. oi_listener_List api name lbID w = (Ok pages, w') \<longrightarrow> (\<exists>ls. pages = map Ok ls \<and> ili_ID ` set (concat ls) \<subseteq> {lid})) \<and>
     (\<forall>opts w li w'. ilc_LoadbalancerID opts = lbID \<longrightarrow> oi_listener_Create api opts w = (Ok li, w') \<longrightarrow> ili_ID li = lid)"

lemma find_one_in:
  assumes "find_one lister w = (Ok x, w')"
  shows "\<exists>pages l. lister w = (Ok pages, w') \<and> each_page at_most_one pages [] = Ok l \<and> x \<in> set l"
proof -
  from assms obtain pages l where l: "lister w = (Ok pages, w')" "each_page at_most_one pages [] = Ok l"
    and x: "(case l of [] \<Rightarrow> fail ErrNotFound | y # _ \<Rightarrow> ret y) w' = (Ok x, w')"
    by (fastforce simp: find_one_def bindE_eq_Ok wrapE_eq_Ok split: list.splits)
  from x have "x \<in> set l" by (cases l) auto
  then show ?thesis using l by blast
qed

lemma EnsureListener_id:
  assumes "listener_is api name lbID lid" "EnsureListener api name lbID w = (Ok li, w')"
  shows "ili_ID li = lid"
proof -
  obtain r w1 where look: "getListenerByName api name lbID w = (r, w1)" by fastforce
  show ?thesis
  proof (cases r)
    case (Ok x)
    then have "li = x" using assms(2) look by (auto simp: EnsureListener_def bindE_eq_Ok wrapE_eq_Ok attempt_def)
    with look Ok have "find_one (oi_listener_List api name lbID) w = (Ok li, w1)" by (simp add: getListenerByName_def)
    from find_one_in [OF this] obtain pages l where l: "oi_listener_List api name lbID w = (Ok pages, w1)"
      "each_page at_most_one pages [] = Ok l" "li \<in> set l" by blast
    from assms(1) l(1) obtain ls where ls: "pages = map Ok ls" "ili_ID ` set (concat ls) \<subseteq> {lid}"
      unfolding listener_is_def by blast
    from l(2) ls(1) have "l = concat ls" using each_page_at_most_one [of "[]" ls] by (simp split: if_splits)
    then show ?thesis using ls(2) l(3) by blast
  next
    case (Err e)
    then have "\<exists>w2. oi_listener_Create api \<lparr> ilc_Name = name, ilc_Protocol = ''HTTP'', ilc_ProtocolPort = 80, ilc_LoadbalancerID = lbID \<rparr> w1 = (Ok li, w2)"
      using assms(2) look by (auto simp: EnsureListener_def bindE_eq_Ok wrapE_eq_Ok attempt_def split: if_splits)
    then show ?thesis using assms(1) unfolding listener_is_def by force
  next
    case (Panic s)
    then show ?thesis using assms(2) look by (auto simp: EnsureListener_def bindE_eq_Ok attempt_def)
  qed
qed

lemma find_one_reads: "reads view lister \<Longrightarrow> reads view (find_one lister)"
  unfolding find_one_def by (intro reads_intros)

lemma ensure_lb_reads:
  assumes "l7_ok api lbID lid pv yv"
  shows "reads (\<lambda>w. (pv w, yv w)) (ing_EnsureLoadBalancer api name subnet ns n cluster)"
    and "reads (\<lambda>w. (pv w, yv w)) (EnsureListener api name lbID)"
    and "reads (\<lambda>w. (pv w, yv w)) (UpdateLoadBalancerDescription api lbID d)"
  unfolding ing_EnsureLoadBalancer_def EnsureListener_def UpdateLoadBalancerDescription_def GetLoadbalancerByName_def getListenerByName_def Let_def
  by (intro reads_intros find_one_reads ing_wait_reads [OF assms] l7_okD(2-7) [OF assms])+

lemma prune_rules_reads:
  "(\<And>i. reads view (ne_rule_Delete api i)) \<Longrightarrow> reads view (prune_rules api rules ports)"
  by (induction rules arbitrary: ports) (simp_all add: reads_bindE)

lemma neutron_reads:
  assumes "ing_env_ok env pv yv cluster svc"
  shows "reads (\<lambda>w. (pv w, yv w)) (EnsureSecurityGroup (ie_neutron env) False name d tags)"
    and "reads (\<lambda>w. (pv w, yv w)) (EnsureSecurityGroupRules (ie_neutron env) sg cidr ports)"
    and "reads (\<lambda>w. (pv w, yv w)) (EnsurePortSecurityGroup (ie_neutron env) deleted sg nodes)"
    and "reads (\<lambda>w. (pv w, yv w)) (EnsureFloatingIP (ie_neutron env) False port net d)"
    and "reads (\<lambda>w. (pv w, yv w)) (updateIngressStatus env ing vip)"
proof -
  note laws = ing_env_okD [OF assms]
  show "reads (\<lambda>w. (pv w, yv w)) (EnsureSecurityGroup (ie_neutron env) False name d tags)"
    unfolding EnsureSecurityGroup_def GetSecurityGroups_def if_False by (intro reads_intros laws)
  show "reads (\<lambda>w. (pv w, yv w)) (EnsureSecurityGroupRules (ie_neutron env) sg cidr ports)"
    unfolding EnsureSecurityGroupRules_def create_port_rule_def by (intro reads_intros laws prune_rules_reads)
  show "reads (\<lambda>w. (pv w, yv w)) (EnsurePortSecurityGroup (ie_neutron env) deleted sg nodes)"
    unfolding EnsurePortSecurityGroup_def ing_getPorts_def update_port_group_def Let_def by (intro reads_intros laws)
  show "reads (\<lambda>w. (pv w, yv w)) (EnsureFloatingIP (ie_neutron env) False port net d)"
    unfolding EnsureFloatingIP_def getFloatingIPs_def Let_def if_False by (intro reads_intros laws)
  show "reads (\<lambda>w. (pv w, yv w)) (updateIngressStatus env ing vip)"
    unfolding updateIngressStatus_def by (intro laws)
qed

lemma default_pool_spec:
  assumes "l7_ok (ie_octavia env) lbID lid pv yv" "ing_env_ok env pv yv cluster svc" "name \<noteq> ''''"
    and attached: "\<And>i l ms. pv w i = Some (name, l, ms) \<Longrightarrow> l \<noteq> ''''"
    and run: "default_pool env ing name lbID lid nodes w = (Ok ps, w')"
  shows "yv w' = yv w"
    and "case ing_Backend ing of
           None \<Rightarrow> \<forall>i x. pv w' i \<noteq> Some (name, x)
         | Some b \<Rightarrow> \<exists>pid l ms. pool_members (Some (node_port env svc (ing_Namespace ing) b)) nodes = Ok ms \<and>
             l \<noteq> '''' \<and> pv w' pid = Some (name, l, ms)"
proof -
  have "yv w' = yv w \<and> (case ing_Backend ing of
           None \<Rightarrow> \<forall>i x. pv w' i \<noteq> Some (name, x)
         | Some b \<Rightarrow> \<exists>pid l ms. pool_members (Some (node_port env svc (ing_Namespace ing) b)) nodes = Ok ms \<and>
             l \<noteq> '''' \<and> pv w' pid = Some (name, l, ms))"
  proof (cases "ing_Backend ing")
    case None
    with run obtain r where "delete_pool_members (ie_octavia env) name lbID w = (Ok r, w')"
      by (auto simp: default_pool_def EnsurePoolMembers_def bindE_eq_Ok)
    from delete_pool_members_spec [OF assms(1,3) this] show ?thesis using None by simp
  next
    case (Some b)
    with run obtain p w1 r where port: "getServiceNodePort env (ing_Namespace ing @ ''/'' @ ibe_ServiceName b) (ibe_ServicePort b) w = (Ok p, w1)"
      and pool: "EnsurePoolMembers (ie_octavia env) False name lbID lid (Some p) nodes w1 = (Ok r, w')"
      by (auto simp: default_pool_def bindE_eq_Ok)
    have w1: "pv w1 = pv w" "yv w1 = yv w" and p: "p = node_port env svc (ing_Namespace ing) b"
      using getServiceNodePort_spec [OF assms(2) port] by simp_all
    obtain pid l ms where ms: "pool_members (Some p) nodes = Ok ms" "yv w' = yv w1" "pv w' = (pv w1)(pid \<mapsto> (name, l, ms))"
      "(\<exists>ms0. pv w1 pid = Some (name, l, ms0)) \<or> pv w1 pid = None \<and> l = lid"
      using EnsurePoolMembers_spec [OF assms(1,3) _ pool] by auto
    have "l \<noteq> ''''" using ms(4) attached w1(1) l7_okD(1) [OF assms(1)] by auto
    then show ?thesis using Some ms(1-3) w1 p by (simp, intro exI [of _ pid]) simp
  qed
  then show "yv w' = yv w" and "case ing_Backend ing of
           None \<Rightarrow> \<forall>i x. pv w' i \<noteq> Some (name, x)
         | Some b \<Rightarrow> \<exists>pid l ms. pool_members (Some (node_port env svc (ing_Namespace ing) b)) nodes = Ok ms \<and>
             l \<noteq> '''' \<and> pv w' pid = Some (name, l, ms)" by simp_all
qed

text \<open>
  The steps of a run of \<open>ensureIngress\<close> that does its work, with the worlds in between as far as the
  pools and policies are concerned.
\<close>

lemma ensureIngress_steps:
  fixes env :: "'w ing_env" and c :: ing_Controller and ing :: Ingress
  defines "name \<equiv> GetResourceName (ing_Namespace ing) (ing_Name ing) (icf_ClusterName (ic_config c))"
  assumes l7: "l7_ok (ie_octavia env) (ilb_ID lb) lid pv yv" and env: "ing_env_ok env pv yv cluster svc"
    and listener: "listener_is (ie_octavia env) name (ilb_ID lb) lid"
    and first: "ing_EnsureLoadBalancer (ie_octavia env) name (icf_SubnetID (ic_config c)) (ing_Namespace ing) (ing_Name ing)
      (icf_ClusterName (ic_config c)) w = (Ok lb, w0)"
    and stale: "\<not> strings_Contains (ilb_Description lb) (ing_ResourceVersion ing)"
    and run: "ensureIngress env c ing w = (Ok (), w')"
  obtains w1 ps w2 w3 w4 rs w5 where "pv w1 = pv w" "yv w1 = yv w"
    "default_pool env ing name (ilb_ID lb) lid (filter readyWorkerNodePredicate cluster) w1 = (Ok ps, w2)"
    "delete_policies env (ilb_ID lb) lid w2 = (Ok (), w3)" "delete_shared_pools env (ilb_ID lb) w3 = (Ok (), w4)"
    "ensure_rules env (ing_Namespace ing) (ilb_ID lb) lid (filter readyWorkerNodePredicate cluster) (ing_Rules ing) w4 = (Ok rs, w5)"
    "pv w' = pv w5" "yv w' = yv w5"
proof -
  let ?v = "\<lambda>w. (pv w, yv w)"
  have sgr: "reads ?v (ensure_group env (ic_config c) name (ing_Namespace ing) (ing_Name ing))"
    unfolding ensure_group_def Let_def by (intro reads_intros neutron_reads [OF env])
  have rulesr: "reads ?v (ensure_group_rules env c g (ing_Name ing) ports nodeObjs)" for g ports nodeObjs
    unfolding ensure_group_rules_def by (intro reads_intros neutron_reads [OF env])
  have addr: "reads ?v (ensure_address env (ic_config c) ing lb)"
    unfolding ensure_address_def by (intro reads_intros neutron_reads [OF env])
  note later = first [unfolded name_def] stale run
  from later obtain g u1 li u2 nodes u3 ps w2 w3 w4 rs w5 w6 a w7 newIng w8 d where
    sg: "ensure_group env (ic_config c) name (ing_Namespace ing) (ing_Name ing) w0 = (Ok g, u1)" and li: "EnsureListener (ie_octavia env) name (ilb_ID lb) u1 = (Ok li, u2)"
    and nodes: "ListWithPredicate env u2 = (Ok nodes, u3)"
    and steps: "default_pool env ing name (ilb_ID lb) (ili_ID li) nodes u3 = (Ok ps, w2)"
      "delete_policies env (ilb_ID lb) (ili_ID li) w2 = (Ok (), w3)" "delete_shared_pools env (ilb_ID lb) w3 = (Ok (), w4)"
      "ensure_rules env (ing_Namespace ing) (ilb_ID lb) (ili_ID li) nodes (ing_Rules ing) w4 = (Ok rs, w5)"
    and rules: "ensure_group_rules env c g (ing_Name ing) (ps @ rs) nodes w5 = (Ok (), w6)"
    and address: "ensure_address env (ic_config c) ing lb w6 = (Ok a, w7)"
    and status: "updateIngressStatus env ing a w7 = (Ok newIng, w8)"
    and descr: "UpdateLoadBalancerDescription (ie_octavia env) (ilb_ID lb) d w8 = (Ok (), w')"
    unfolding ensureIngress_def Let_def name_def by (clarsimp simp: bindE_eq_Ok)
  have lid: "ili_ID li = lid" by (rule EnsureListener_id [OF listener li])
  obtain l where l: "ie_Nodes env u2 = (Ok l, u3)" "nodes = filter readyWorkerNodePredicate l"
    using nodes by (auto simp: ListWithPredicate_def bindE_eq_Ok)
  have nodes': "nodes = filter readyWorkerNodePredicate cluster" using l ing_env_okD(2) [OF env l(1)] by simp
  have "?v u3 = ?v w"
    using readsD [OF ensure_lb_reads(1) [OF l7] first] readsD [OF sgr sg] readsD [OF ensure_lb_reads(2) [OF l7] li]
      readsD [OF ing_env_okD(1) [OF env] l(1)] by simp
  moreover have "?v w' = ?v w5"
    using readsD [OF rulesr rules] readsD [OF addr address] readsD [OF neutron_reads(5) [OF env] status]
      readsD [OF ensure_lb_reads(3) [OF l7] descr] by simp
  ultimately show ?thesis using that [of u3 ps w2 w3 w4 rs w5] steps lid nodes' by simp
qed

text \<open>
  The default pool is as \<open>default_pool\<close> has left it when the shared pools are deleted and the pools of
  the entries, whose names are different, are made.
\<close>

lemma default_pool_stays:
  assumes backend: "case B of
           None \<Rightarrow> \<forall>i x. P i \<noteq> Some (name, x)
         | Some b \<Rightarrow> \<exists>pid l ms. M b = Ok ms \<and> l \<noteq> '''' \<and> P pid = Some (name, l, ms)"
    and shrink: "P1 \<subseteq>\<^sub>m P" and unshared: "\<forall>i n l ms. l \<noteq> '''' \<longrightarrow> P i = Some (n, l, ms) \<longrightarrow> P1 i = Some (n, l, ms)"
    and name: "name \<notin> N"
    and kept: "\<forall>pid n l ms. P1 pid = Some (n, l, ms) \<longrightarrow> n \<notin> N \<longrightarrow> P2 pid = Some (n, l, ms)"
    and made: "\<forall>pid n x. P2 pid = Some (n, x) \<longrightarrow> n \<notin> N \<longrightarrow> P1 pid = Some (n, x)"
  shows "case B of
           None \<Rightarrow> \<forall>i x. P2 i \<noteq> Some (name, x)
         | Some b \<Rightarrow> \<exists>pid l ms. M b = Ok ms \<and> P2 pid = Some (name, l, ms)"
proof (cases B)
  case None
  have "P2 i \<noteq> Some (name, x)" for i x
  proof
    assume "P2 i = Some (name, x)"
    with made name have "P1 i = Some (name, x)" by blast
    with shrink have "P i = Some (name, x)" unfolding map_le_def by (metis domI)
    then show False using backend None by (cases x) simp
  qed
  then show ?thesis unfolding None by simp
next
  case (Some b)
  with backend obtain pid l ms where ms: "M b = Ok ms" "l \<noteq> ''''" "P pid = Some (name, l, ms)" by auto
  then have "P2 pid = Some (name, l, ms)" using unshared kept name by blast
  then show ?thesis using Some ms(1) by auto
qed

lemma routedE:
  assumes "routed env port nodes es (P, Y) (P', Y')"
  obtains new where "distinct (map fst new)" "fst ` set new \<inter> dom Y = {}" "Y' = Y ++ map_of new"
    "list_all2 (\<lambda>(y, pid, rs) e. rs = path_rules (fst e) (ipa_Path (snd e)) \<and>
       (\<exists>l ms. pool_members (Some (port (snd e))) nodes = Ok ms \<and> P' pid = Some (entry_pool env e, l, ms))) new es"
    "\<forall>pid n l ms. P pid = Some (n, l, ms) \<longrightarrow> n \<notin> entry_pool env ` set es \<longrightarrow> P' pid = Some (n, l, ms)"
    "\<forall>pid n x. P' pid = Some (n, x) \<longrightarrow> n \<notin> entry_pool env ` set es \<longrightarrow> P pid = Some (n, x)"
proof -
  from assms have new: "\<exists>new. distinct (map fst new) \<and> fst ` set new \<inter> dom Y = {} \<and> Y' = Y ++ map_of new \<and>
      list_all2 (\<lambda>(y, pid, rs) e. rs = path_rules (fst e) (ipa_Path (snd e)) \<and>
        (\<exists>l ms. pool_members (Some (port (snd e))) nodes = Ok ms \<and> P' pid = Some (entry_pool env e, l, ms))) new es"
    and keep: "\<And>pid n l ms. P pid = Some (n, l, ms) \<Longrightarrow> \<exists>ms'. P' pid = Some (n, l, ms') \<and>
      (ms' = ms \<or> (\<exists>e \<in> set es. entry_pool env e = n \<and> pool_members (Some (port (snd e))) nodes = Ok ms'))"
    and made: "\<And>pid n x. P pid = None \<Longrightarrow> P' pid = Some (n, x) \<Longrightarrow> n \<in> entry_pool env ` set es"
    unfolding routed_def by simp_all
  have kept: "P' pid = Some (n, l, ms)" if "P pid = Some (n, l, ms)" "n \<notin> entry_pool env ` set es" for pid n l ms
    using keep [OF that(1)] that(2) by auto
  have old: "P pid = Some (n, x)" if "P' pid = Some (n, x)" "n \<notin> entry_pool env ` set es" for pid n x
  proof (cases "P pid")
    case None
    then show ?thesis using made that by blast
  next
    case (Some z)
    obtain m l ms where z: "z = (m, l, ms)" by (cases z)
    from keep [OF Some [unfolded z]] that(1) have "m = n" by auto
    then show ?thesis using kept [OF Some [unfolded z]] that Some z by simp
  qed
  from new obtain new where "distinct (map fst new)" "fst ` set new \<inter> dom Y = {}" "Y' = Y ++ map_of new"
    "list_all2 (\<lambda>(y, pid, rs) e. rs = path_rules (fst e) (ipa_Path (snd e)) \<and>
       (\<exists>l ms. pool_members (Some (port (snd e))) nodes = Ok ms \<and> P' pid = Some (entry_pool env e, l, ms))) new es"
    by blast
  moreover have "\<forall>pid n l ms. P pid = Some (n, l, ms) \<longrightarrow> n \<notin> entry_pool env ` set es \<longrightarrow> P' pid = Some (n, l, ms)"
    "\<forall>pid n x. P' pid = Some (n, x) \<longrightarrow> n \<notin> entry_pool env ` set es \<longrightarrow> P pid = Some (n, x)"
    using kept old by blast+
  ultimately show thesis by (rule that)
qed


section \<open>A load balancer in memory\<close>

record l7_world =
  lw_pools :: "(string \<times> pool_view) list"
  lw_policies :: "(string \<times> policy_view) list"

definition fresh_id :: "(string \<times> 'a) list \<Rightarrow> string" where
  "fresh_id xs = concat (map fst xs) @ ''x''"

definition put :: "string \<Rightarrow> 'a \<Rightarrow> (string \<times> 'a) list \<Rightarrow> (string \<times> 'a) list" where
  "put i v xs = map (\<lambda>(k, u). if k = i then (k, v) else (k, u)) xs"

definition drop_id :: "string \<Rightarrow> (string \<times> 'a) list \<Rightarrow> (string \<times> 'a) list" where
  "drop_id i xs = filter (\<lambda>(k, _). k \<noteq> i) xs"

definition pool_list :: "string \<Rightarrow> (string \<times> pool_view) list \<Rightarrow> ing_Pool list" where
  "pool_list n ps =
     concat (map (\<lambda>i. case map_of ps i of
                        None \<Rightarrow> []
                      | Some (m, l, ms) \<Rightarrow>
                          if n = '''' \<or> m = n then [\<lparr> ipo_ID = i, ipo_Name = m, ipo_Listeners = (if l = '''' then [] else [l]) \<rparr>] else [])
        (remdups (map fst ps)))"

definition mem_l7 :: "l7_world octavia_api" where
  "mem_l7 = (let lb = \<lparr> ilb_ID = ''lb'', ilb_Name = ''n'', ilb_Description = ''old'', ilb_ProvisioningStatus = activeStatus,
                        ilb_VipAddress = ''10.0.0.5'', ilb_VipPortID = ''port'' \<rparr>;
                 li = \<lparr> ili_ID = ''li'', ili_Name = ''n'' \<rparr> in
     \<lparr> oi_lb_Get = (\<lambda>_. ret lb), oi_lb_List = (\<lambda>_. ret [Ok [lb]]), oi_lb_Create = (\<lambda>_. ret lb), oi_lb_Delete = (\<lambda>_. ret ()),
       oi_lb_Update = (\<lambda>_ _. ret ()), oi_listener_List = (\<lambda>_ _. ret [Ok [li]]), oi_listener_Create = (\<lambda>_. ret li),
       oi_pool_List = (\<lambda>n _ w. (Ok [Ok (pool_list n (lw_pools w))], w)),
       oi_pool_Create = (\<lambda>opts w. let i = fresh_id (lw_pools w) in
         (Ok \<lparr> ipo_ID = i, ipo_Name = ipc_Name opts, ipo_Listeners = [] \<rparr>,
          w\<lparr> lw_pools := (i, ipc_Name opts, ipc_ListenerID opts, []) # lw_pools w \<rparr>)),
       oi_pool_Delete = (\<lambda>i w. (Ok (), w\<lparr> lw_pools := drop_id i (lw_pools w) \<rparr>)),
       oi_member_List = (\<lambda>i w. (case map_of (lw_pools w) i of Some (_, _, ms) \<Rightarrow> Ok [Ok ms] | None \<Rightarrow> Err ErrNotFound, w)),
       oi_member_BatchUpdate = (\<lambda>i ms w. case map_of (lw_pools w) i of
           Some (n, l, _) \<Rightarrow> (Ok (), w\<lparr> lw_pools := put i (n, l, ms) (lw_pools w) \<rparr>) | None \<Rightarrow> (Err ErrNotFound, w)),
       oi_policy_List = (\<lambda>_ w. (Ok [Ok (map fst (lw_policies w))], w)),
       oi_policy_Create = (\<lambda>opts w. let y = fresh_id (lw_policies w) in
         (Ok y, w\<lparr> lw_policies := (y, iyc_RedirectPoolID opts, []) # lw_policies w \<rparr>)),
       oi_policy_Delete = (\<lambda>y w. (Ok (), w\<lparr> lw_policies := drop_id y (lw_policies w) \<rparr>)),
       oi_policy_CreateRule = (\<lambda>y rule w. case map_of (lw_policies w) y of
           Some (p, rs) \<Rightarrow> (Ok (), w\<lparr> lw_policies := put y (p, rs @ [rule]) (lw_policies w) \<rparr>) | None \<Rightarrow> (Err ErrNotFound, w)),
       oi_Backoff = backoff (\<lambda>s. s) \<rparr>)"

lemma fresh_id_new: "map_of xs (fresh_id xs) = None"
proof -
  have "length i \<le> length (concat (map fst xs))" if "i \<in> fst ` set xs" for i
    using that member_le_sum_list [of "length i" "map (length \<circ> fst) xs"] by (auto simp: length_concat comp_def)
  then have "fresh_id xs \<notin> fst ` set xs" by (fastforce simp: fresh_id_def)
  then show ?thesis by (simp add: map_of_eq_None_iff)
qed

lemma map_of_drop_id: "map_of (drop_id i xs) = (map_of xs)(i := None)"
  by (induction xs) (auto simp: drop_id_def split: prod.splits)

lemma map_of_put: "map_of (put i v xs) k = (if k = i \<and> map_of xs i \<noteq> None then Some v else map_of xs k)"
  by (induction xs) (auto simp: put_def split: prod.splits if_splits)

lemma pool_list_ids:
  "distinct (map ipo_ID (pool_list n ps))"
  "ipo_ID ` set (pool_list n ps) = {i. \<exists>m x. map_of ps i = Some (m, x) \<and> (n = '''' \<or> m = n)}"
  "p \<in> set (pool_list n ps) \<Longrightarrow> \<exists>l ms. map_of ps (ipo_ID p) = Some (ipo_Name p, l, ms) \<and> (l \<noteq> '''' \<longrightarrow> ipo_Listeners p \<noteq> [])"
proof -
  have "map ipo_ID (concat (map (\<lambda>i. case map_of ps i of
                        None \<Rightarrow> []
                      | Some (m, l, ms) \<Rightarrow>
                          if n = '''' \<or> m = n then [\<lparr> ipo_ID = i, ipo_Name = m, ipo_Listeners = (if l = '''' then [] else [l]) \<rparr>] else []) is)) =
      filter (\<lambda>i. \<exists>m x. map_of ps i = Some (m, x) \<and> (n = '''' \<or> m = n)) is" for "is"
    by (induction "is") (auto split: option.splits prod.splits)
  note ids = this [of "remdups (map fst ps)", folded pool_list_def]
  show "distinct (map ipo_ID (pool_list n ps))" unfolding ids by simp
  have "set (map ipo_ID (pool_list n ps)) = {i. \<exists>m x. map_of ps i = Some (m, x) \<and> (n = '''' \<or> m = n)}"
    unfolding ids using map_of_SomeD by (force simp: image_iff)
  then show "ipo_ID ` set (pool_list n ps) = {i. \<exists>m x. map_of ps i = Some (m, x) \<and> (n = '''' \<or> m = n)}" by simp
  show "p \<in> set (pool_list n ps) \<Longrightarrow> \<exists>l ms. map_of ps (ipo_ID p) = Some (ipo_Name p, l, ms) \<and> (l \<noteq> '''' \<longrightarrow> ipo_Listeners p \<noteq> [])"
    by (auto simp: pool_list_def split: option.splits prod.splits if_splits dest: sym)
qed

lemma mem_l7_ok: "l7_ok mem_l7 ''lb'' ''li'' (\<lambda>w. map_of (lw_pools w)) (\<lambda>w. map_of (lw_policies w))"
proof -
  have pages: "\<exists>pss. [Ok (pool_list n ps)] = map Ok pss \<and> distinct (map ipo_ID (concat pss)) \<and>
      ipo_ID ` set (concat pss) = {i. \<exists>m x. map_of ps i = Some (m, x) \<and> (n = '''' \<or> m = n)} \<and>
      (\<forall>p \<in> set (concat pss). \<exists>l ms. map_of ps (ipo_ID p) = Some (ipo_Name p, l, ms) \<and> (l \<noteq> '''' \<longrightarrow> ipo_Listeners p \<noteq> []))" for n ps
    by (rule exI [of _ "[pool_list n ps]"]) (use pool_list_ids in simp)
  have sleep: "\<exists>sleep. backoff (\<lambda>s. s) = backoff (\<lambda>(w, status). (sleep w, status)) \<and>
      (\<forall>w. map_of (lw_pools (sleep w)) = map_of (lw_pools w) \<and> map_of (lw_policies (sleep w)) = map_of (lw_policies w))"
    by (rule exI [of _ "\<lambda>w. w"]) (simp add: case_prod_beta id_def)
  have policies: "\<exists>yss. [Ok (map fst ys)] = map Ok yss \<and> set (concat yss) = dom (map_of ys)" for ys :: "(string \<times> policy_view) list"
    by (rule exI [of _ "[map fst ys]"]) (simp add: dom_map_of_conv_image_fst)
  show ?thesis
    unfolding l7_ok_def
    apply (intro conjI)
    subgoal by simp
    subgoal by (simp add: mem_l7_def Let_def)
    subgoal by (simp add: mem_l7_def Let_def)
    subgoal by (simp add: mem_l7_def Let_def)
    subgoal by (simp add: mem_l7_def Let_def)
    subgoal by (simp add: mem_l7_def Let_def)
    subgoal by (simp add: mem_l7_def Let_def)
    subgoal by (simp add: mem_l7_def Let_def reads_def)
    subgoal by (simp add: mem_l7_def Let_def reads_def)
    subgoal using sleep by (simp add: mem_l7_def Let_def)
    subgoal by (simp add: mem_l7_def Let_def)
    subgoal using pages by (simp add: mem_l7_def Let_def)
    subgoal by (auto simp: mem_l7_def Let_def fresh_id_new)
    subgoal by (auto simp: mem_l7_def Let_def map_of_drop_id)
    subgoal by (auto simp: mem_l7_def Let_def map_of_put fun_eq_iff split: option.splits)
    subgoal using policies by (simp add: mem_l7_def Let_def)
    subgoal by (auto simp: mem_l7_def Let_def fresh_id_new)
    subgoal by (auto simp: mem_l7_def Let_def map_of_drop_id)
    subgoal by (auto simp: mem_l7_def Let_def map_of_put fun_eq_iff split: option.splits)
    done
qed

text \<open>
  A cluster with one ready worker and one master, a service with two ports, and an ingress with a
  default backend and a rule with two paths.
\<close>

definition mem_node :: "string \<Rightarrow> string \<Rightarrow> (string \<rightharpoonup> string) \<Rightarrow> ing_Node" where
  "mem_node n a labels = \<lparr> nd_Name = n, nd_ProviderID = ''openstack:///'' @ n,
     nd_Addresses = [\<lparr> na_Type = NodeInternalIP, na_Address = a \<rparr>], nd_Unschedulable = False, nd_Labels = labels,
     nd_Conditions = [(''Ready'', ''True'')] \<rparr>"

definition mem_cluster :: "ing_Node list" where
  "mem_cluster = [mem_node ''w1'' ''10.0.0.7'' Map.empty, mem_node ''m1'' ''10.0.0.8'' [LabelNodeRoleMaster \<mapsto> '''']]"

definition mem_svc :: "string \<Rightarrow> string \<Rightarrow> ing_ServicePort list" where
  "mem_svc ns n = [\<lparr> isp_Name = ''web'', isp_Port = 8, isp_NodePort = 31 \<rparr>, \<lparr> isp_Name = ''api'', isp_Port = 9, isp_NodePort = 32 \<rparr>]"

definition mem_ing_env :: "l7_world ing_env" where
  "mem_ing_env = \<lparr> ie_octavia = mem_l7,
     ie_neutron = \<lparr> ne_fip_List = (\<lambda>_. ret []), ne_fip_Create = (\<lambda>_ _ _. ret \<lparr> ifl_ID = ''f'', ifl_FloatingIP = ''203.0.113.9'' \<rparr>),
       ne_fip_Delete = (\<lambda>_. ret ()), ne_subnet_Get = (\<lambda>s. ret \<lparr> su_ID = s, su_CIDR = ''10.0.0.0/24'' \<rparr>),
       ne_port_List = (\<lambda>_. ret []), ne_port_Update = (\<lambda>_ _. ret ()), ne_sg_List = (\<lambda>_. ret [''sg'']),
       ne_sg_Create = (\<lambda>_ _. ret ''sg''), ne_sg_Delete = (\<lambda>_. ret ()), ne_tag_Add = (\<lambda>_ _. ret ()),
       ne_rule_List = (\<lambda>_ _. ret []), ne_rule_Create = (\<lambda>_. ret ()), ne_rule_Delete = (\<lambda>_. ret ()) \<rparr>,
     ie_Nodes = ret mem_cluster, ie_SplitKey = (\<lambda>k. Ok (''ns'', k)), ie_GetService = (\<lambda>ns n. ret (mem_svc ns n)),
     ie_ListIngresses = ret [], ie_UpdateStatus = ret,
     ie_Hash = (\<lambda>s. replicate (length s) CHR ''a'' @ ''0'') \<rparr>"

lemma mem_ing_env_ok: "ing_env_ok mem_ing_env (\<lambda>w. map_of (lw_pools w)) (\<lambda>w. map_of (lw_policies w)) mem_cluster mem_svc"
  unfolding ing_env_ok_def by (intro conjI) (simp_all add: mem_ing_env_def subset_iff)

definition mem_Config :: ing_Config where
  "mem_Config = \<lparr> icf_ClusterName = ''k8s'', icf_Username = '''', icf_UserID = '''', icf_TrustID = '''', icf_Password = '''',
     icf_ProjectID = '''', icf_AuthURL = '''', icf_Region = '''', icf_DomainID = '''', icf_DomainName = '''', icf_CAFile = '''',
     icf_SubnetID = ''sub'', icf_FloatingIPNetwork = '''', icf_ManageSecurityGroups = False \<rparr>"

definition mem_Ingress :: Ingress where
  "mem_Ingress = \<lparr> ing_Name = ''i'', ing_Namespace = ''ns'', ing_ResourceVersion = ''7'', ing_Annotations = Map.empty,
     ing_Backend = Some \<lparr> ibe_ServiceName = ''s'', ibe_ServicePort = PortInt 8 \<rparr>,
     ing_Rules = [\<lparr> irl_Host = ''h'', irl_HTTP = Some
       [\<lparr> ipa_Path = ''/a'', ipa_Backend = \<lparr> ibe_ServiceName = ''s'', ibe_ServicePort = PortInt 9 \<rparr> \<rparr>,
        \<lparr> ipa_Path = ''/b'', ipa_Backend = \<lparr> ibe_ServiceName = ''s'', ibe_ServicePort = PortStr ''web'' \<rparr> \<rparr>] \<rparr>],
     ing_StatusIPs = [] \<rparr>"

definition mem_ic :: ing_Controller where
  "mem_ic = \<lparr> ic_knownNodes = [], ic_subnetCIDR = ''10.0.0.0/24'', ic_config = mem_Config \<rparr>"

definition mem_lb :: ing_LoadBalancer where
  "mem_lb = \<lparr> ilb_ID = ''lb'', ilb_Name = ''n'', ilb_Description = ''old'', ilb_ProvisioningStatus = activeStatus,
     ilb_VipAddress = ''10.0.0.5'', ilb_VipPortID = ''port'' \<rparr>"

definition mem_start :: l7_world where
  "mem_start = \<lparr> lw_pools = [(''p'', ''stale'', '''', [])], lw_policies = [(''y'', ''p'', [])] \<rparr>"

lemma mem_ensures:
  "is_ok (fst (ensureIngress mem_ing_env mem_ic mem_Ingress mem_start))"
  "ing_EnsureLoadBalancer mem_l7 (GetResourceName ''ns'' ''i'' ''k8s'') ''sub'' ''ns'' ''i'' ''k8s'' mem_start = (Ok mem_lb, mem_start)"
  by code_simp+


end
