(* ===== verification/Manila_Validator.thy ===== *)
theory Manila_Validator
  imports Go_Conv Go_Strings
begin

text \<open>
  The validation of options of the Manila provisioner: \<open>pkg/share/manila/shareoptions/validator\<close>. A
  struct type is a list of fields with their tags, a value of it the list of its strings. Where the
  code ranges over a map keyed by field indices the model takes the fields in their order, which
  decides at most which of several errors is reported. A nil map is \<open>None\<close>: reading it finds
  nothing, writing to it panics.
\<close>

section \<open>Regular expressions\<close>

text \<open>
  The patterns of the tags are alternatives of literals with \<open>^\<close>, \<open>$\<close> and the flag \<open>(?i)\<close>, which holds
  from where it stands to the end of the pattern. Other patterns are outside of the model.
\<close>

datatype re_atom = ReBegin | ReEnd | ReLit char bool

fun re_parse :: "bool \<Rightarrow> string \<Rightarrow> re_atom list list option" where
  "re_parse ci [] = Some [[]]"
| "re_parse ci (c # s) =
     (if c = CHR ''('' \<and> take 3 s = ''?i)'' then re_parse True (drop 3 s)
      else if c = CHR ''|'' then map_option (\<lambda>alts. [] # alts) (re_parse ci s)
      else if c \<in> set ''.*+?()[]{}'' \<or> c = char_of (92 :: nat) then None
      else
        let a = (if c = CHR ''^'' then ReBegin else if c = CHR ''$'' then ReEnd else ReLit c ci) in
        map_option (\<lambda>alts. (a # hd alts) # tl alts) (re_parse ci s))"

definition upper_char :: "char \<Rightarrow> char" where
  "upper_char c = (if of_char c \<in> {97..(122 :: nat)} then char_of (of_char c - (32 :: nat)) else c)"

text \<open>
  The texts a letter stands for under \<open>(?i)\<close>: its two cases, and for k and s also the Kelvin sign and
  the long s in UTF-8.
\<close>

definition folds :: "char \<Rightarrow> string list" where
  "folds c = [[lower_char c], [upper_char c]] @
     (if lower_char c = CHR ''s'' then [map char_of [197 :: nat, 191]] else []) @
     (if lower_char c = CHR ''k'' then [map char_of [226 :: nat, 132, 170]] else [])"

fun re_here :: "re_atom list \<Rightarrow> bool \<Rightarrow> string \<Rightarrow> bool" where
  "re_here [] first s = True"
| "re_here (ReBegin # as) first s = (first \<and> re_here as first s)"
| "re_here (ReEnd # as) first s = (s = [] \<and> re_here as first s)"
| "re_here (ReLit c ci # as) first s =
     list_ex (\<lambda>f. HasPrefix s f \<and> re_here as False (drop (length f) s)) (if ci then folds c else [[c]])"

fun re_search :: "re_atom list list \<Rightarrow> bool \<Rightarrow> string \<Rightarrow> bool" where
  "re_search alts first s =
     (list_ex (\<lambda>as. re_here as first s) alts \<or> (case s of [] \<Rightarrow> False | _ # s' \<Rightarrow> re_search alts False s'))"

declare re_search.simps [simp del]

definition MatchString :: "re_atom list list \<Rightarrow> string \<Rightarrow> bool" where
  "MatchString rx s = re_search rx True s"

definition MustCompile :: "string \<Rightarrow> re_atom list list result" where
  "MustCompile pattern = (case re_parse False pattern of None \<Rightarrow> Panic ''regexp: Compile'' | Some rx \<Rightarrow> Ok rx)"

section \<open>Types by reflection\<close>

record field_type =
  ft_Name :: string
  ft_Tag :: "(string \<times> string) list"

record struct_type =
  sy_Name :: string
  sy_Fields :: "field_type list"

definition Tag_Lookup :: "field_type \<Rightarrow> string \<Rightarrow> string option" where
  "Tag_Lookup ft key = map_of (ft_Tag ft) key"

type_synonym params = "(string \<rightharpoonup> string) option"

definition param :: "params \<Rightarrow> string \<Rightarrow> string option" where
  "param data key = (case data of None \<Rightarrow> None | Some m \<Rightarrow> m key)"

definition set_param :: "params \<Rightarrow> string \<Rightarrow> string \<Rightarrow> params result" where
  "set_param data key v = (case data of None \<Rightarrow> Panic ''assignment to entry in nil map'' | Some m \<Rightarrow> Ok (Some (m(key \<mapsto> v))))"

section \<open>Names\<close>

type_synonym nameIndexMap = "(string \<times> nat) list"
type_synonym indexNameMap = "(nat \<times> string) list"

fun name_idx_loop :: "string \<Rightarrow> nat \<Rightarrow> field_type list \<Rightarrow> indexNameMap result" where
  "name_idx_loop sName i [] = Ok []"
| "name_idx_loop sName i (ft # fts) =
     (case Tag_Lookup ft ''name'' of
        None \<Rightarrow> Panic ''missing name tag''
      | Some name \<Rightarrow> bindR (name_idx_loop sName (Suc i) fts) (\<lambda>m. Ok ((i, name) # m)))"

text \<open>A later field of the same name overwrites the index of an earlier one.\<close>

definition buildNameIdxMap :: "struct_type \<Rightarrow> (nameIndexMap \<times> indexNameMap) result" where
  "buildNameIdxMap t =
     bindR (name_idx_loop (sy_Name t) 0 (sy_Fields t)) (\<lambda>idxNameMap.
       Ok (rev (map (\<lambda>(i, name). (name, i)) idxNameMap), idxNameMap))"

definition idx_name :: "indexNameMap \<Rightarrow> nat \<Rightarrow> string" where
  "idx_name m i = (case map_of m i of None \<Rightarrow> '''' | Some n \<Rightarrow> n)"

section \<open>Value expressions\<close>

datatype valueExprType = valueRequired | valueRequiredIf | valueOptional | valueOptionalIf | valueDefault

record valueExpression =
  vx_exprType :: valueExprType
  vx_fName :: string
  vx_arg :: string

record valueConditionalExpression =
  vc_r :: "re_atom list list"
  vc_condField :: string

record valueExpressions =
  vs_required :: "(nat \<times> bool) list"
  vs_condRequired :: "(nat \<times> valueConditionalExpression) list"
  vs_condOptional :: "(nat \<times> valueConditionalExpression) list"
  vs_defaultVal :: "(nat \<times> string) list"

definition newValueExpressions :: valueExpressions where
  "newValueExpressions = \<lparr> vs_required = [], vs_condRequired = [], vs_condOptional = [], vs_defaultVal = [] \<rparr>"

definition splitOne :: "string \<Rightarrow> char \<Rightarrow> (string \<times> string) option" where
  "splitOne v delim =
     (let delimIdx = strings_Index v [delim] in
      if delimIdx \<le> 0 then None else Some (take (nat delimIdx) v, drop (nat delimIdx + 1) v))"

definition checkValueExpr :: "string \<Rightarrow> string \<Rightarrow> bool" where
  "checkValueExpr v valueExprTag \<longleftrightarrow> length v > length valueExprTag \<and> take (length valueExprTag) v = valueExprTag"

definition invalidValueExprError :: "string \<Rightarrow> string" where
  "invalidValueExprError msg = ''invalid value expression: '' @ msg"

definition parseCondValueExpr :: "string \<Rightarrow> string \<Rightarrow> nameIndexMap \<Rightarrow> string \<Rightarrow> (string \<times> string) result" where
  "parseCondValueExpr v tag nameIdxMap fName =
     (let split = splitOne (drop (length tag) v) CHR ''='';
          targetField = (case split of None \<Rightarrow> '''' | Some (n, _) \<Rightarrow> n) in
      if targetField = fName then Panic (invalidValueExprError ''field is not allowed in the expression'')
      else
        case split of
          None \<Rightarrow> Panic (invalidValueExprError ''parsing failed'')
        | Some (_, pattern) \<Rightarrow>
            if map_of nameIdxMap targetField = None then Panic (invalidValueExprError ''no such field found'')
            else Ok (targetField, pattern))"

definition parseValueExpr :: "string \<Rightarrow> string \<Rightarrow> nameIndexMap \<Rightarrow> valueExpression result" where
  "parseValueExpr v fName nameIdxMap =
     (if v = ''optional'' then Ok \<lparr> vx_exprType = valueOptional, vx_fName = '''', vx_arg = '''' \<rparr>
      else if v = ''required'' then Ok \<lparr> vx_exprType = valueRequired, vx_fName = '''', vx_arg = '''' \<rparr>
      else if checkValueExpr v ''default:'' then
        Ok \<lparr> vx_exprType = valueDefault, vx_fName = '''', vx_arg = drop (length ''default:'') v \<rparr>
      else if checkValueExpr v ''requiredIf:'' then
        bindR (parseCondValueExpr v ''requiredIf:'' nameIdxMap fName) (\<lambda>(n, arg).
          Ok \<lparr> vx_exprType = valueRequiredIf, vx_fName = n, vx_arg = arg \<rparr>)
      else if checkValueExpr v ''optionalIf:'' then
        bindR (parseCondValueExpr v ''optionalIf:'' nameIdxMap fName) (\<lambda>(n, arg).
          Ok \<lparr> vx_exprType = valueOptionalIf, vx_fName = n, vx_arg = arg \<rparr>)
      else Panic (invalidValueExprError ''unrecognized value expression''))"

fun value_exprs_loop :: "indexNameMap \<Rightarrow> nameIndexMap \<Rightarrow> nat \<Rightarrow> field_type list \<Rightarrow> valueExpressions \<Rightarrow> valueExpressions result" where
  "value_exprs_loop idxNameMap nameIdxMap i [] vs = Ok vs"
| "value_exprs_loop idxNameMap nameIdxMap i (ft # fts) vs =
     (case Tag_Lookup ft ''value'' of
        None \<Rightarrow> value_exprs_loop idxNameMap nameIdxMap (Suc i) fts vs
      | Some v \<Rightarrow>
          bindR (parseValueExpr v (idx_name idxNameMap i) nameIdxMap) (\<lambda>expr.
          bindR (case vx_exprType expr of
                   valueOptional \<Rightarrow> Ok (vs\<lparr> vs_required := vs_required vs @ [(i, False)] \<rparr>)
                 | valueRequired \<Rightarrow> Ok (vs\<lparr> vs_required := vs_required vs @ [(i, True)] \<rparr>)
                 | valueDefault \<Rightarrow> Ok (vs\<lparr> vs_defaultVal := vs_defaultVal vs @ [(i, vx_arg expr)] \<rparr>)
                 | valueRequiredIf \<Rightarrow>
                     bindR (MustCompile (vx_arg expr)) (\<lambda>r.
                       Ok (vs\<lparr> vs_condRequired := vs_condRequired vs @ [(i, \<lparr> vc_r = r, vc_condField = vx_fName expr \<rparr>)] \<rparr>))
                 | valueOptionalIf \<Rightarrow>
                     bindR (MustCompile (vx_arg expr)) (\<lambda>r.
                       Ok (vs\<lparr> vs_condOptional := vs_condOptional vs @ [(i, \<lparr> vc_r = r, vc_condField = vx_fName expr \<rparr>)] \<rparr>)))
            (\<lambda>vs'. value_exprs_loop idxNameMap nameIdxMap (Suc i) fts vs')))"

definition buildValueExpressions :: "struct_type \<Rightarrow> indexNameMap \<Rightarrow> nameIndexMap \<Rightarrow> valueExpressions result" where
  "buildValueExpressions t idxNameMap nameIdxMap =
     value_exprs_loop idxNameMap nameIdxMap 0 (sy_Fields t) newValueExpressions"

definition resolveConditionalReq :: "valueConditionalExpression \<Rightarrow> params \<Rightarrow> bool" where
  "resolveConditionalReq condExpr data =
     (case param data (vc_condField condExpr) of None \<Rightarrow> False | Some condValue \<Rightarrow> MatchString (vc_r condExpr) condValue)"

definition requiresValue :: "nat \<Rightarrow> valueExpressions \<Rightarrow> params \<Rightarrow> bool" where
  "requiresValue i ve data =
     (case map_of (vs_required ve) i of
        Some required \<Rightarrow> required
      | None \<Rightarrow>
          (case map_of (vs_condRequired ve) i of
             Some condExpr \<Rightarrow> resolveConditionalReq condExpr data
           | None \<Rightarrow>
               (case map_of (vs_condOptional ve) i of
                  Some condExpr \<Rightarrow> \<not> resolveConditionalReq condExpr data
                | None \<Rightarrow> True)))"

section \<open>Dependencies, preclusions and patterns\<close>

definition field_index :: "nameIndexMap \<Rightarrow> string \<Rightarrow> nat result" where
  "field_index nameIdxMap n = (case map_of nameIdxMap n of None \<Rightarrow> Panic ''no such field found'' | Some i \<Rightarrow> Ok i)"

definition parseDepsExpr :: "string \<Rightarrow> nameIndexMap \<Rightarrow> nat list list result" where
  "parseDepsExpr deps nameIdxMap =
     mapR (\<lambda>exclGroup. mapR (field_index nameIdxMap) (strings_Split exclGroup CHR ''|'')) (strings_Split deps CHR '','')"

definition parsePreclsExpr :: "string \<Rightarrow> nameIndexMap \<Rightarrow> nat list result" where
  "parsePreclsExpr precls nameIdxMap = mapR (field_index nameIdxMap) (strings_Split precls CHR '','')"

text \<open>The map from the indices of the fields with a tag to what the tag says.\<close>

fun tag_map :: "string \<Rightarrow> (string \<Rightarrow> 'a result) \<Rightarrow> nat \<Rightarrow> field_type list \<Rightarrow> (nat \<times> 'a) list result" where
  "tag_map tag parse i [] = Ok []"
| "tag_map tag parse i (ft # fts) =
     (case Tag_Lookup ft tag of
        None \<Rightarrow> tag_map tag parse (Suc i) fts
      | Some v \<Rightarrow> bindR (parse v) (\<lambda>x. bindR (tag_map tag parse (Suc i) fts) (\<lambda>m. Ok ((i, x) # m))))"

definition buildDependenciesMap :: "struct_type \<Rightarrow> nameIndexMap \<Rightarrow> (nat \<times> nat list list) list result" where
  "buildDependenciesMap t nameIdxMap = tag_map ''dependsOn'' (\<lambda>deps. parseDepsExpr deps nameIdxMap) 0 (sy_Fields t)"

definition buildPreclusionsMap :: "struct_type \<Rightarrow> nameIndexMap \<Rightarrow> (nat \<times> nat list) list result" where
  "buildPreclusionsMap t nameIdxMap = tag_map ''precludes'' (\<lambda>precls. parsePreclsExpr precls nameIdxMap) 0 (sy_Fields t)"

text \<open>A compiled pattern that keeps its text, for \<open>String\<close>.\<close>

type_synonym Regexp = "string \<times> re_atom list list"

definition buildMatchRegexMap :: "struct_type \<Rightarrow> (nat \<times> Regexp) list result" where
  "buildMatchRegexMap t = tag_map ''matches'' (\<lambda>pattern. bindR (MustCompile pattern) (\<lambda>r. Ok (pattern, r))) 0 (sy_Fields t)"

definition dependenciesUnsatisfiedError :: "nat \<Rightarrow> nat list \<Rightarrow> indexNameMap \<Rightarrow> gerror" where
  "dependenciesUnsatisfiedError i exclDeps idxNameMap =
     (if length exclDeps = 1
      then Errorf (''parameter '%s' requires '%s'' @ [CHR 0x27]) [FStr (idx_name idxNameMap i), FStr (idx_name idxNameMap (exclDeps ! 0))]
      else Errorf ''parameter '%s' requires exactly one of %v parameters''
             (FStr (idx_name idxNameMap i) # map (\<lambda>j. FStr (idx_name idxNameMap j)) exclDeps))"

text \<open>The count of the set fields of a group, which stops at two.\<close>

fun count_values :: "string list \<Rightarrow> nat list \<Rightarrow> nat \<Rightarrow> nat" where
  "count_values out [] n = n"
| "count_values out (j # js) n =
     (if out ! j \<noteq> '''' then (if n + 1 > 1 then n + 1 else count_values out js (n + 1)) else count_values out js n)"

fun dependenciesSatisfied :: "nat \<Rightarrow> string list \<Rightarrow> nat list list \<Rightarrow> indexNameMap \<Rightarrow> unit result" where
  "dependenciesSatisfied fIdx out [] idxNameMap = Ok ()"
| "dependenciesSatisfied fIdx out (d # deps) idxNameMap =
     (if count_values out d 0 \<noteq> 1 then Err (dependenciesUnsatisfiedError fIdx d idxNameMap)
      else dependenciesSatisfied fIdx out deps idxNameMap)"

fun preclusionsSatisfied :: "nat \<Rightarrow> string list \<Rightarrow> nat list \<Rightarrow> indexNameMap \<Rightarrow> unit result" where
  "preclusionsSatisfied fIdx out [] idxNameMap = Ok ()"
| "preclusionsSatisfied fIdx out (p # precls) idxNameMap =
     (if out ! p \<noteq> ''''
      then Err (Errorf ''parameter '%s' forbids '%s' to be set'' [FStr (idx_name idxNameMap fIdx), FStr (idx_name idxNameMap p)])
      else preclusionsSatisfied fIdx out precls idxNameMap)"

definition valueSatisfiesPattern :: "string \<Rightarrow> Regexp \<Rightarrow> string \<Rightarrow> unit result" where
  "valueSatisfiesPattern v rx fName =
     (if \<not> MatchString (snd rx) v then Err (Errorf ''parameter '%s' does not match pattern %s'' [FStr fName, FStr (fst rx)]) else Ok ())"

section \<open>The validator\<close>

record Validator =
  va_t :: struct_type
  va_nameIdxMap :: nameIndexMap
  va_idxNameMap :: indexNameMap
  va_valueExprs :: valueExpressions
  va_depsMap :: "(nat \<times> nat list list) list"
  va_preclsMap :: "(nat \<times> nat list) list"
  va_matchMap :: "(nat \<times> Regexp) list"

definition New :: "struct_type \<Rightarrow> Validator result" where
  "New t =
     bindR (buildNameIdxMap t) (\<lambda>(nameIdxMap, idxNameMap).
     bindR (buildValueExpressions t idxNameMap nameIdxMap) (\<lambda>valueExprs.
     bindR (buildDependenciesMap t nameIdxMap) (\<lambda>depsMap.
     bindR (buildPreclusionsMap t nameIdxMap) (\<lambda>preclsMap.
     bindR (buildMatchRegexMap t) (\<lambda>matchMap.
     Ok \<lparr> va_t = t, va_nameIdxMap = nameIdxMap, va_idxNameMap = idxNameMap, va_valueExprs = valueExprs,
          va_depsMap = depsMap, va_preclsMap = preclsMap, va_matchMap = matchMap \<rparr>)))))"

fun set_defaults :: "indexNameMap \<Rightarrow> (nat \<times> string) list \<Rightarrow> params \<Rightarrow> params result" where
  "set_defaults idxNameMap [] data = Ok data"
| "set_defaults idxNameMap ((i, defaultValue) # ds) data =
     (let name = idx_name idxNameMap i in
      bindR (if param data name = None then set_param data name defaultValue else Ok data) (\<lambda>data'.
        set_defaults idxNameMap ds data'))"

fun populate_values :: "valueExpressions \<Rightarrow> params \<Rightarrow> indexNameMap \<Rightarrow> string list \<Rightarrow> string list result" where
  "populate_values ve data [] out = Ok out"
| "populate_values ve data ((i, fName) # m) out =
     (case param data fName of
        Some v \<Rightarrow>
          if v = '''' then Err (Errorf ''parameter '%s' cannot be empty'' [FStr fName])
          else populate_values ve data m (out[i := v])
      | None \<Rightarrow>
          if requiresValue i ve data then Err (Errorf (''missing required parameter '%s'' @ [CHR 0x27]) [FStr fName])
          else populate_values ve data m out)"

text \<open>A check of every entry of a map whose field is set.\<close>

fun check_set :: "string list \<Rightarrow> (nat \<Rightarrow> 'a \<Rightarrow> unit result) \<Rightarrow> (nat \<times> 'a) list \<Rightarrow> unit result" where
  "check_set out c [] = Ok ()"
| "check_set out c ((i, x) # m) =
     (if out ! i \<noteq> '''' then bindR (c i x) (\<lambda>_. check_set out c m) else check_set out c m)"

text \<open>\<open>Populate\<close> for a destination of the right type whose fields are empty.\<close>

definition Populate :: "Validator \<Rightarrow> params \<Rightarrow> string list result" where
  "Populate v data =
     bindR (set_defaults (va_idxNameMap v) (vs_defaultVal (va_valueExprs v)) data) (\<lambda>data.
     bindR (populate_values (va_valueExprs v) data (va_idxNameMap v) (replicate (length (sy_Fields (va_t v))) '''')) (\<lambda>out.
     bindR (check_set out (\<lambda>fIdx deps. dependenciesSatisfied fIdx out deps (va_idxNameMap v)) (va_depsMap v)) (\<lambda>_.
     bindR (check_set out (\<lambda>fIdx precls. preclusionsSatisfied fIdx out precls (va_idxNameMap v)) (va_preclsMap v)) (\<lambda>_.
     bindR (check_set out (\<lambda>fIdx rx. valueSatisfiesPattern (out ! fIdx) rx (idx_name (va_idxNameMap v) fIdx)) (va_matchMap v)) (\<lambda>_.
     Ok out)))))"

section \<open>What the validator accepts\<close>

lemma set_defaults_Some:
  "set_defaults m ds (Some d) = Ok (Some (map_of (map (\<lambda>(i, v). (idx_name m i, v)) ds) ++ d))"
proof (induction ds arbitrary: d)
  case (Cons x ds)
  obtain i v where x: "x = (i, v)" by (cases x)
  show ?case
  proof (cases "d (idx_name m i)")
    case None
    have "set_defaults m (x # ds) (Some d) = set_defaults m ds (Some (d(idx_name m i \<mapsto> v)))"
      using None x by (simp add: param_def set_param_def)
    also have "\<dots> = Ok (Some (map_of (map (\<lambda>(i, v). (idx_name m i, v)) ds) ++ d(idx_name m i \<mapsto> v)))"
      by (rule Cons.IH)
    also have "map_of (map (\<lambda>(i, v). (idx_name m i, v)) ds) ++ d(idx_name m i \<mapsto> v) =
        map_of (map (\<lambda>(i, v). (idx_name m i, v)) (x # ds)) ++ d"
      using None x by (auto simp: map_add_def fun_eq_iff split: option.splits)
    finally show ?thesis .
  next
    case (Some y)
    have "set_defaults m (x # ds) (Some d) = set_defaults m ds (Some d)" using Some x by (simp add: param_def)
    also have "\<dots> = Ok (Some (map_of (map (\<lambda>(i, v). (idx_name m i, v)) ds) ++ d))" by (rule Cons.IH)
    also have "map_of (map (\<lambda>(i, v). (idx_name m i, v)) ds) ++ d = map_of (map (\<lambda>(i, v). (idx_name m i, v)) (x # ds)) ++ d"
      using Some x by (auto simp: map_add_def fun_eq_iff split: option.splits)
    finally show ?thesis .
  qed
qed simp

lemma set_defaults_nil: "ds \<noteq> [] \<Longrightarrow> set_defaults m ds None = Panic ''assignment to entry in nil map''"
  by (cases ds) (auto simp: param_def set_param_def)

lemma name_idx_loop_indices: "name_idx_loop sName i fts = Ok m \<Longrightarrow> map fst m = [i..<i + length fts]"
proof (induction fts arbitrary: i m)
  case (Cons ft fts)
  then obtain n m' where "name_idx_loop sName (Suc i) fts = Ok m'" "m = (i, n) # m'"
    by (auto simp: bindR_eq_Ok split: option.splits)
  with Cons.IH [of "Suc i" m'] show ?case by (simp add: upt_conv_Cons del: upt_Suc)
qed simp

definition field_value :: "(string \<rightharpoonup> string) \<Rightarrow> string \<Rightarrow> string" where
  "field_value d n = (case d n of Some v \<Rightarrow> v | None \<Rightarrow> '''')"

lemma populate_values_Ok:
  "map fst m = [length pre..<length pre + length m] \<Longrightarrow>
   populate_values ve (Some d) m (pre @ replicate (length m) '''') = Ok out \<longleftrightarrow>
     out = pre @ map (\<lambda>(i, n). field_value d n) m \<and>
     (\<forall>(i, n) \<in> set m. d n \<noteq> Some '''' \<and> (d n = None \<longrightarrow> \<not> requiresValue i ve (Some d)))"
proof (induction m arbitrary: pre)
  case (Cons x m)
  obtain n where x: "x = (length pre, n)" using Cons.prems by (cases x) (simp add: upt_conv_Cons del: upt_Suc)
  have rest: "map fst m = [length (pre @ [v])..<length (pre @ [v]) + length m]" for v :: string
    using Cons.prems by (simp add: upt_conv_Cons del: upt_Suc)
  have upd: "(pre @ '''' # replicate (length m) '''')[length pre := v] = (pre @ [v]) @ replicate (length m) ''''" for v :: string
    by simp
  show ?case
  proof (cases "d n")
    case None
    show ?thesis
      using Cons.IH [OF rest [of "''''"]] None x by (auto simp: param_def field_value_def)
  next
    case (Some v)
    show ?thesis
      using Cons.IH [OF rest [of v]] Some x by (auto simp: param_def field_value_def upd)
  qed
qed auto

lemma check_set_Ok: "check_set out c m = Ok u \<longleftrightarrow> (\<forall>(i, x) \<in> set m. out ! i \<noteq> '''' \<longrightarrow> c i x = Ok ())"
proof (induction m)
  case (Cons x m)
  then show ?case by (cases x) (auto simp: bindR_eq_Ok)
qed simp

lemma count_values_min: "n \<le> 1 \<Longrightarrow> count_values out js n = min 2 (n + length (filter (\<lambda>j. out ! j \<noteq> '''') js))"
  by (induction js arbitrary: n) auto

lemma dependenciesSatisfied_Ok:
  "dependenciesSatisfied i out deps m = Ok u \<longleftrightarrow> (\<forall>d \<in> set deps. length (filter (\<lambda>j. out ! j \<noteq> '''') d) = 1)"
  by (induction deps) (auto simp: count_values_min min_def)

lemma preclusionsSatisfied_Ok: "preclusionsSatisfied i out precls m = Ok u \<longleftrightarrow> (\<forall>p \<in> set precls. out ! p = '''')"
  by (induction precls) auto

text \<open>
  What the tags ask of the parameters \<open>d\<close>, defaults included, and of the fields \<open>out\<close>: no parameter is
  empty and none that is required is missing; where a field is set, exactly one field of each of its
  groups of dependencies is set, none that it precludes is, and it matches its pattern.
\<close>

definition admissible :: "Validator \<Rightarrow> (string \<rightharpoonup> string) \<Rightarrow> string list \<Rightarrow> bool" where
  "admissible v d out \<longleftrightarrow>
     (\<forall>(i, n) \<in> set (va_idxNameMap v). d n \<noteq> Some '''' \<and> (d n = None \<longrightarrow> \<not> requiresValue i (va_valueExprs v) (Some d))) \<and>
     (\<forall>(i, deps) \<in> set (va_depsMap v). out ! i \<noteq> '''' \<longrightarrow> (\<forall>g \<in> set deps. length (filter (\<lambda>j. out ! j \<noteq> '''') g) = 1)) \<and>
     (\<forall>(i, precls) \<in> set (va_preclsMap v). out ! i \<noteq> '''' \<longrightarrow> (\<forall>p \<in> set precls. out ! p = '''')) \<and>
     (\<forall>(i, rx) \<in> set (va_matchMap v). out ! i \<noteq> '''' \<longrightarrow> MatchString (snd rx) (out ! i))"

definition with_defaults :: "Validator \<Rightarrow> (string \<rightharpoonup> string) \<Rightarrow> string \<rightharpoonup> string" where
  "with_defaults v d = map_of (map (\<lambda>(i, x). (idx_name (va_idxNameMap v) i, x)) (vs_defaultVal (va_valueExprs v))) ++ d"

lemma New_names:
  assumes "New t = Ok v"
  shows "va_t v = t" "map fst (va_idxNameMap v) = [0..<length (sy_Fields t)]"
  using assms by (auto simp: New_def buildNameIdxMap_def bindR_eq_Ok dest!: name_idx_loop_indices)

lemma Populate_spec:
  assumes "New t = Ok v"
  shows "Populate v (Some d) = Ok out \<longleftrightarrow>
    out = map (\<lambda>(i, n). field_value (with_defaults v d) n) (va_idxNameMap v) \<and> admissible v (with_defaults v d) out"
proof -
  let ?d = "with_defaults v d"
  have len: "length (va_idxNameMap v) = length (sy_Fields (va_t v))"
    using New_names [OF assms] by (metis diff_zero length_map length_upt)
  have idx: "map fst (va_idxNameMap v) = [length ([] :: string list)..<length ([] :: string list) + length (va_idxNameMap v)]"
    using New_names [OF assms] len by simp
  have fill: "populate_values (va_valueExprs v) (Some ?d) (va_idxNameMap v) (replicate (length (sy_Fields (va_t v))) '''') = Ok out' \<longleftrightarrow>
      out' = map (\<lambda>(i, n). field_value ?d n) (va_idxNameMap v) \<and>
      (\<forall>(i, n) \<in> set (va_idxNameMap v). ?d n \<noteq> Some '''' \<and> (?d n = None \<longrightarrow> \<not> requiresValue i (va_valueExprs v) (Some ?d)))" for out'
    using populate_values_Ok [OF idx, of "va_valueExprs v" ?d out'] by (simp add: len)
  have defaults: "set_defaults (va_idxNameMap v) (vs_defaultVal (va_valueExprs v)) (Some d) = Ok (Some ?d)"
    by (simp add: set_defaults_Some with_defaults_def)
  show ?thesis
    unfolding Populate_def defaults bindR_simps bindR_eq_Ok fill check_set_Ok dependenciesSatisfied_Ok preclusionsSatisfied_Ok admissible_def
    by (auto simp: valueSatisfiesPattern_def split: if_splits)
qed

lemma bindR_no_panic: "\<forall>p. r \<noteq> Panic p \<Longrightarrow> (\<And>x. \<forall>p. k x \<noteq> Panic p) \<Longrightarrow> \<forall>p. bindR r k \<noteq> Panic p"
  by (cases r) auto

lemma populate_values_no_panic: "\<forall>p. populate_values ve data m out \<noteq> Panic p"
  by (induction ve data m out rule: populate_values.induct) (auto split: option.splits)

lemma check_set_no_panic:
  assumes "\<And>i x. \<forall>p. c i x \<noteq> Panic p"
  shows "\<forall>p. check_set out c m \<noteq> Panic p"
proof (induction m)
  case (Cons y m)
  then have "\<forall>p. bindR (c (fst y) (snd y)) (\<lambda>_. check_set out c m) \<noteq> Panic p" by (intro bindR_no_panic assms)
  then show ?case using Cons by (cases y) simp
qed simp

lemma checks_no_panic:
  "\<forall>p. dependenciesSatisfied i out deps m \<noteq> Panic p" "\<forall>p. preclusionsSatisfied i out precls m \<noteq> Panic p"
  "\<forall>p. valueSatisfiesPattern x rx f \<noteq> Panic p"
  by (induction deps, simp_all) (induction precls, simp_all, simp add: valueSatisfiesPattern_def)

lemma Populate_no_panic: "\<forall>p. Populate v (Some d) \<noteq> Panic p"
  unfolding Populate_def set_defaults_Some bindR_simps
  by (intro bindR_no_panic populate_values_no_panic check_set_no_panic checks_no_panic) simp


text \<open>Without any parameters, a nil map, the first default makes the validator panic.\<close>

lemma Populate_nil: "vs_defaultVal (va_valueExprs v) \<noteq> [] \<Longrightarrow> Populate v None = Panic ''assignment to entry in nil map''"
  by (simp add: Populate_def set_defaults_nil)

definition demo_struct :: struct_type where
  "demo_struct = \<lparr> sy_Name = ''T'', sy_Fields =
     [\<lparr> ft_Name = ''A'', ft_Tag = [(''name'', ''a''), (''dependsOn'', ''b|c''), (''matches'', ''^x|y$'')] \<rparr>,
      \<lparr> ft_Name = ''B'', ft_Tag = [(''name'', ''b''), (''value'', ''optional''), (''precludes'', ''c'')] \<rparr>,
      \<lparr> ft_Name = ''C'', ft_Tag = [(''name'', ''c''), (''value'', ''requiredIf:a=^z$'')] \<rparr>,
      \<lparr> ft_Name = ''D'', ft_Tag = [(''name'', ''d''), (''value'', ''default:e'')] \<rparr>] \<rparr>"


section \<open>Alternatives that are anchored on one side\<close>

text \<open>
  In a pattern such as \<open>^p|q|r$\<close> the anchors belong to the first and to the last alternative only: it
  accepts what begins with \<open>p\<close>, contains \<open>q\<close> or ends with \<open>r\<close>.
\<close>

definition re_text :: "string \<Rightarrow> re_atom list" where
  "re_text s = map (\<lambda>c. ReLit c False) s"

lemma re_here_text: "re_here (re_text p @ as) first s \<longleftrightarrow> HasPrefix s p \<and> re_here as (first \<and> p = []) (drop (length p) s)"
proof (induction p arbitrary: first s)
  case Nil
  then show ?case by (simp add: re_text_def HasPrefix_def)
next
  case (Cons c p)
  then show ?case by (cases s) (auto simp: re_text_def HasPrefix_def)
qed

lemma re_search_any: "re_search alts first s \<longleftrightarrow>
    (\<exists>n \<le> length s. list_ex (\<lambda>as. re_here as (first \<and> n = 0) (drop n s)) alts)"
proof (induction s arbitrary: first)
  case Nil
  then show ?case by (subst re_search.simps) simp
next
  case (Cons c s)
  have "re_search alts first (c # s) \<longleftrightarrow> list_ex (\<lambda>as. re_here as first (c # s)) alts \<or> re_search alts False s"
    by (subst re_search.simps) simp
  also have "\<dots> \<longleftrightarrow> list_ex (\<lambda>as. re_here as first (c # s)) alts \<or> (\<exists>n \<le> length s. list_ex (\<lambda>as. re_here as False (drop n s)) alts)"
    using Cons.IH by simp
  also have "\<dots> \<longleftrightarrow> (\<exists>n \<le> length (c # s). list_ex (\<lambda>as. re_here as (first \<and> n = 0) (drop n (c # s))) alts)"
    (is "?l \<longleftrightarrow> ?r")
  proof
    assume ?l
    then show ?r
    proof
      assume "list_ex (\<lambda>as. re_here as first (c # s)) alts"
      then show ?r by (intro exI [of _ 0]) simp
    next
      assume "\<exists>n \<le> length s. list_ex (\<lambda>as. re_here as False (drop n s)) alts"
      then obtain n where "n \<le> length s" "list_ex (\<lambda>as. re_here as False (drop n s)) alts" by blast
      then show ?r by (intro exI [of _ "Suc n"]) simp
    qed
  next
    assume ?r
    then obtain n where "n \<le> length (c # s)" "list_ex (\<lambda>as. re_here as (first \<and> n = 0) (drop n (c # s))) alts" by blast
    then show ?l by (cases n) auto
  qed
  finally show ?case .
qed

lemma half_anchored:
  "MatchString [ReBegin # re_text p, re_text q, re_text r @ [ReEnd]] s \<longleftrightarrow> HasPrefix s p \<or> strings_Contains s q \<or> HasSuffix s r"
proof -
  have p: "(\<exists>n \<le> length s. re_here (ReBegin # re_text p) (True \<and> n = 0) (drop n s)) \<longleftrightarrow> HasPrefix s p"
    using re_here_text [of p "[]"] by auto
  have q: "(\<exists>n \<le> length s. re_here (re_text q) (True \<and> n = 0) (drop n s)) \<longleftrightarrow> strings_Contains s q"
    unfolding re_here_text [of q "[]", simplified] strings_Contains_iff HasPrefix_iff
  proof
    assume "\<exists>n \<le> length s. \<exists>t. drop n s = q @ t"
    then obtain n t where "drop n s = q @ t" by blast
    then have "s = take n s @ q @ t" using append_take_drop_id [of n s] by simp
    then show "\<exists>l r. s = l @ q @ r" by blast
  next
    assume "\<exists>l r. s = l @ q @ r"
    then obtain l r where "s = l @ q @ r" by blast
    then show "\<exists>n \<le> length s. \<exists>t. drop n s = q @ t" by (intro exI [of _ "length l"]) simp
  qed
  have r: "(\<exists>n \<le> length s. re_here (re_text r @ [ReEnd]) (True \<and> n = 0) (drop n s)) \<longleftrightarrow> HasSuffix s r"
    unfolding re_here_text [of r "[ReEnd]"] HasSuffix_iff HasPrefix_iff
  proof
    assume "\<exists>n \<le> length s. (\<exists>t. drop n s = r @ t) \<and> re_here [ReEnd] ((True \<and> n = 0) \<and> r = []) (drop (length r) (drop n s))"
    then obtain n t where t: "drop n s = r @ t" "re_here [ReEnd] ((True \<and> n = 0) \<and> r = []) (drop (length r) (drop n s))" by blast
    from t(2) have "t = []" unfolding t(1) by simp
    then have "drop n s = r" using t(1) by simp
    then have "s = take n s @ r" using append_take_drop_id [of n s] by simp
    then show "\<exists>t. s = t @ r" by blast
  next
    assume "\<exists>t. s = t @ r"
    then obtain t where "s = t @ r" by blast
    then show "\<exists>n \<le> length s. (\<exists>t. drop n s = r @ t) \<and> re_here [ReEnd] ((True \<and> n = 0) \<and> r = []) (drop (length r) (drop n s))"
      by (intro exI [of _ "length t"]) simp
  qed
  have "MatchString [ReBegin # re_text p, re_text q, re_text r @ [ReEnd]] s \<longleftrightarrow>
      (\<exists>n \<le> length s. re_here (ReBegin # re_text p) (True \<and> n = 0) (drop n s)) \<or>
      (\<exists>n \<le> length s. re_here (re_text q) (True \<and> n = 0) (drop n s)) \<or>
      (\<exists>n \<le> length s. re_here (re_text r @ [ReEnd]) (True \<and> n = 0) (drop n s))"
    unfolding MatchString_def re_search_any by (simp del: re_here.simps add: conj_disj_distribL ex_disj_distrib)
  then show ?thesis unfolding p q r .
qed

end
