(* ===== verification/Manila_Options.thy ===== *)
theory Manila_Options
  imports Manila_Validator Openstack_Config
begin

text \<open>
  The options of the Manila provisioner (\<open>pkg/share/manila/shareoptions\<close>) and its client
  (\<open>pkg/share/manila/client.go\<close>). The choice of a zone (\<open>k8s.io/cloud-provider/volume/helpers\<close>), the
  quantities of Kubernetes and gophercloud are parameters.
\<close>

section \<open>Claims\<close>

record 'q PVC =
  pvc_Name :: string
  pvc_Namespace :: string
  pvc_UID :: string
  pvc_AccessModes :: "string list"
  pvc_Requests :: "(string \<rightharpoonup> 'q) option"
  pvc_Selector :: bool

record 'q VolumeOptions =
  vo_PVName :: string
  vo_PVC :: "'q PVC"
  vo_Parameters :: params
  vo_ReclaimPolicy :: string

record SecretReference =
  sr_Name :: string
  sr_Namespace :: string

section \<open>Share options\<close>

record ShareOptions =
  so_Zones :: string
  so_Type :: string
  so_Protocol :: string
  so_Backend :: string
  so_OSSecretName :: string
  so_OSSecretNamespace :: string
  so_ShareSecretNamespace :: string
  so_OSShareNetworkID :: string
  so_OSShareID :: string
  so_OSShareName :: string
  so_OSShareAccessID :: string
  so_CSICEPHFSdriver :: string
  so_CSICEPHFSmounter :: string
  so_NFSShareClient :: string

definition share_struct :: struct_type where
  "share_struct = \<lparr> sy_Name = ''ShareOptions'', sy_Fields =
     [\<lparr> ft_Name = ''Zones'', ft_Tag = [(''name'', ''zones''), (''value'', ''default:nova'')] \<rparr>,
      \<lparr> ft_Name = ''Type'', ft_Tag = [(''name'', ''type''), (''value'', ''default:default'')] \<rparr>,
      \<lparr> ft_Name = ''Protocol'', ft_Tag = [(''name'', ''protocol''), (''matches'', ''^(?i)CEPHFS|NFS$'')] \<rparr>,
      \<lparr> ft_Name = ''Backend'', ft_Tag = [(''name'', ''backend''), (''matches'', ''^cephfs|csi-cephfs|nfs$'')] \<rparr>,
      \<lparr> ft_Name = ''OSSecretName'', ft_Tag = [(''name'', ''osSecretName'')] \<rparr>,
      \<lparr> ft_Name = ''OSSecretNamespace'', ft_Tag = [(''name'', ''osSecretNamespace''), (''value'', ''default:default'')] \<rparr>,
      \<lparr> ft_Name = ''ShareSecretNamespace'', ft_Tag = [(''name'', ''shareSecretNamespace''), (''value'', ''default:default'')] \<rparr>,
      \<lparr> ft_Name = ''OSShareNetworkID'', ft_Tag = [(''name'', ''osShareNetworkID''), (''value'', ''optional'')] \<rparr>,
      \<lparr> ft_Name = ''OSShareID'', ft_Tag = [(''name'', ''osShareID''), (''value'', ''optional''), (''dependsOn'', ''osShareAccessID'')] \<rparr>,
      \<lparr> ft_Name = ''OSShareName'', ft_Tag = [(''name'', ''osShareName''), (''value'', ''optional''), (''dependsOn'', ''osShareAccessID'')] \<rparr>,
      \<lparr> ft_Name = ''OSShareAccessID'', ft_Tag = [(''name'', ''osShareAccessID''), (''value'', ''optional''), (''dependsOn'', ''osShareID|osShareName'')] \<rparr>,
      \<lparr> ft_Name = ''CSICEPHFSdriver'', ft_Tag = [(''name'', ''csi-driver''), (''value'', ''requiredIf:backend=^csi-cephfs$'')] \<rparr>,
      \<lparr> ft_Name = ''CSICEPHFSmounter'', ft_Tag = [(''name'', ''mounter''), (''value'', ''default:fuse''), (''matches'', ''^kernel|fuse$'')] \<rparr>,
      \<lparr> ft_Name = ''NFSShareClient'', ft_Tag = [(''name'', ''nfs-share-client''), (''value'', ''default:0.0.0.0'')] \<rparr>] \<rparr>"

definition to_ShareOptions :: "string list \<Rightarrow> ShareOptions" where
  "to_ShareOptions out = \<lparr> so_Zones = out ! 0, so_Type = out ! 1, so_Protocol = out ! 2, so_Backend = out ! 3,
     so_OSSecretName = out ! 4, so_OSSecretNamespace = out ! 5, so_ShareSecretNamespace = out ! 6, so_OSShareNetworkID = out ! 7,
     so_OSShareID = out ! 8, so_OSShareName = out ! 9, so_OSShareAccessID = out ! 10, so_CSICEPHFSdriver = out ! 11,
     so_CSICEPHFSmounter = out ! 12, so_NFSShareClient = out ! 13 \<rparr>"

definition shareOptionsValidator :: "Validator result" where
  "shareOptionsValidator = New share_struct"

record zone_helpers =
  zh_ZonesToSet :: "string \<Rightarrow> string list result"
  zh_ChooseZonesForVolume :: "string list \<Rightarrow> string \<Rightarrow> nat \<Rightarrow> string list"

definition NewShareOptions :: "zone_helpers \<Rightarrow> 'q VolumeOptions \<Rightarrow> ShareOptions result" where
  "NewShareOptions helpers volOptions =
     bindR shareOptionsValidator (\<lambda>v.
     bindR (Populate v (vo_Parameters volOptions)) (\<lambda>out.
       let opts = to_ShareOptions out in
       bindR (zh_ZonesToSet helpers (so_Zones opts)) (\<lambda>setOfZones.
         case zh_ChooseZonesForVolume helpers setOfZones (pvc_Name (vo_PVC volOptions)) 1 of
           [] \<Rightarrow> Err (errors_New ''could not find a zone'')
         | z # _ \<Rightarrow> Ok (opts\<lparr> so_Zones := z \<rparr>))))"

section \<open>OpenStack options\<close>

record OpenStackOptions =
  oo_OSAuthURL :: string
  oo_OSRegionName :: string
  oo_OSCertAuthority :: string
  oo_OSTLSInsecure :: string
  oo_OSPassword :: string
  oo_OSUserID :: string
  oo_OSUsername :: string
  oo_OSDomainID :: string
  oo_OSDomainName :: string
  oo_OSProjectID :: string
  oo_OSProjectName :: string
  oo_OSTrustID :: string
  oo_OSTrusteeID :: string
  oo_OSTrusteePassword :: string

definition os_struct :: struct_type where
  "os_struct = \<lparr> sy_Name = ''OpenStackOptions'', sy_Fields =
     [\<lparr> ft_Name = ''OSAuthURL'', ft_Tag = [(''name'', ''os-authURL''), (''dependsOn'', ''os-password|os-trustID'')] \<rparr>,
      \<lparr> ft_Name = ''OSRegionName'', ft_Tag = [(''name'', ''os-region'')] \<rparr>,
      \<lparr> ft_Name = ''OSCertAuthority'', ft_Tag = [(''name'', ''os-certAuthority''), (''value'', ''optional'')] \<rparr>,
      \<lparr> ft_Name = ''OSTLSInsecure'', ft_Tag = [(''name'', ''os-TLSInsecure''), (''value'', ''optional''),
          (''dependsOn'', ''os-certAuthority''), (''matches'', ''^true|false$'')] \<rparr>,
      \<lparr> ft_Name = ''OSPassword'', ft_Tag = [(''name'', ''os-password''), (''value'', ''optional''),
          (''dependsOn'', ''os-domainID|os-domainName,os-projectID|os-projectName,os-userID|os-userName'')] \<rparr>,
      \<lparr> ft_Name = ''OSUserID'', ft_Tag = [(''name'', ''os-userID''), (''value'', ''optional''), (''dependsOn'', ''os-password'')] \<rparr>,
      \<lparr> ft_Name = ''OSUsername'', ft_Tag = [(''name'', ''os-userName''), (''value'', ''optional''), (''dependsOn'', ''os-password'')] \<rparr>,
      \<lparr> ft_Name = ''OSDomainID'', ft_Tag = [(''name'', ''os-domainID''), (''value'', ''optional''), (''dependsOn'', ''os-password'')] \<rparr>,
      \<lparr> ft_Name = ''OSDomainName'', ft_Tag = [(''name'', ''os-domainName''), (''value'', ''optional''), (''dependsOn'', ''os-password'')] \<rparr>,
      \<lparr> ft_Name = ''OSProjectID'', ft_Tag = [(''name'', ''os-projectID''), (''value'', ''optional''), (''dependsOn'', ''os-password'')] \<rparr>,
      \<lparr> ft_Name = ''OSProjectName'', ft_Tag = [(''name'', ''os-projectName''), (''value'', ''optional''), (''dependsOn'', ''os-password'')] \<rparr>,
      \<lparr> ft_Name = ''OSTrustID'', ft_Tag = [(''name'', ''os-trustID''), (''value'', ''optional''), (''dependsOn'', ''os-trusteeID,os-trusteePassword'')] \<rparr>,
      \<lparr> ft_Name = ''OSTrusteeID'', ft_Tag = [(''name'', ''os-trusteeID''), (''value'', ''optional''), (''dependsOn'', ''os-trustID'')] \<rparr>,
      \<lparr> ft_Name = ''OSTrusteePassword'', ft_Tag = [(''name'', ''os-trusteePassword''), (''value'', ''optional''), (''dependsOn'', ''os-trustID'')] \<rparr>] \<rparr>"

definition to_OpenStackOptions :: "string list \<Rightarrow> OpenStackOptions" where
  "to_OpenStackOptions out = \<lparr> oo_OSAuthURL = out ! 0, oo_OSRegionName = out ! 1, oo_OSCertAuthority = out ! 2,
     oo_OSTLSInsecure = out ! 3, oo_OSPassword = out ! 4, oo_OSUserID = out ! 5, oo_OSUsername = out ! 6, oo_OSDomainID = out ! 7,
     oo_OSDomainName = out ! 8, oo_OSProjectID = out ! 9, oo_OSProjectName = out ! 10, oo_OSTrustID = out ! 11,
     oo_OSTrusteeID = out ! 12, oo_OSTrusteePassword = out ! 13 \<rparr>"

definition osOptionsValidator :: "Validator result" where
  "osOptionsValidator = New os_struct"

definition NewOpenStackOptionsFromMap :: "params \<Rightarrow> OpenStackOptions result" where
  "NewOpenStackOptionsFromMap ps =
     bindR osOptionsValidator (\<lambda>v. bindR (Populate v ps) (\<lambda>out. Ok (to_OpenStackOptions out)))"

text \<open>\<open>get\<close> reads a secret; the map that \<open>readSecrets\<close> makes is never nil.\<close>

definition readSecrets :: "(string \<Rightarrow> string \<Rightarrow> ('w, string \<rightharpoonup> string) io) \<Rightarrow> SecretReference \<Rightarrow> ('w, params) io" where
  "readSecrets get secretRef = bindE (get (sr_Namespace secretRef) (sr_Name secretRef)) (\<lambda>data. ret (Some data))"

definition NewOpenStackOptionsFromSecret ::
  "(string \<Rightarrow> string \<Rightarrow> ('w, string \<rightharpoonup> string) io) \<Rightarrow> SecretReference \<Rightarrow> ('w, OpenStackOptions) io" where
  "NewOpenStackOptionsFromSecret get secretRef =
     bindE (readSecrets get secretRef) (\<lambda>ps. lift_result (NewOpenStackOptionsFromMap ps))"

definition man_ToAuthOptions :: "OpenStackOptions \<Rightarrow> AuthOpts" where
  "man_ToAuthOptions opts =
     (let authOpts = \<lparr> au_IdentityEndpoint = oo_OSAuthURL opts, au_Username = oo_OSUsername opts, au_UserID = oo_OSUserID opts,
            au_Password = oo_OSPassword opts, au_TenantID = oo_OSProjectID opts, au_TenantName = oo_OSProjectName opts,
            au_DomainID = oo_OSDomainID opts, au_DomainName = oo_OSDomainName opts, au_AllowReauth = False \<rparr> in
      if oo_OSTrustID opts \<noteq> '''' then authOpts\<lparr> au_UserID := oo_OSTrusteeID opts, au_Password := oo_OSTrusteePassword opts \<rparr>
      else authOpts)"

definition ToAuthOptionsExt :: "OpenStackOptions \<Rightarrow> AuthOpts \<times> string" where
  "ToAuthOptionsExt opts = (man_ToAuthOptions opts, oo_OSTrustID opts)"

section \<open>The client\<close>

definition minimumManilaVersion :: string where "minimumManilaVersion = ''2.21''"

text \<open>The pattern asks for digits, a dot and digits, and nothing else.\<close>

definition validateMicroversion :: "string \<Rightarrow> unit result" where
  "validateMicroversion microversion =
     (case strings_Split microversion CHR ''.'' of
        [major, minor] \<Rightarrow>
          if major \<noteq> [] \<and> minor \<noteq> [] \<and> list_all (\<lambda>c. digit_val c \<noteq> None) (major @ minor) then Ok ()
          else Err (Errorf ''invalid microversion format in %q'' [FStr microversion])
      | _ \<Rightarrow> Err (Errorf ''invalid microversion format in %q'' [FStr microversion]))"

text \<open>\<open>strconv.Atoi\<close> of digits with its error ignored: a number that is too large gives the largest one.\<close>

definition digits_Atoi :: "string \<Rightarrow> int" where
  "digits_Atoi s = (case Atoi s of Some n \<Rightarrow> n | None \<Rightarrow> 2 ^ 63 - 1)"

definition splitMicroversion :: "string \<Rightarrow> int \<times> int" where
  "splitMicroversion microversion =
     (case validateMicroversion microversion of
        Ok _ \<Rightarrow> let parts = strings_Split microversion CHR ''.'' in (digits_Atoi (parts ! 0), digits_Atoi (parts ! 1))
      | _ \<Rightarrow> (0, 0))"

definition compareVersionsLessThan :: "string \<Rightarrow> string \<Rightarrow> bool" where
  "compareVersionsLessThan a b =
     (let (aMaj, aMin) = splitMicroversion a; (bMaj, bMin) = splitMicroversion b in
      aMaj < bMaj \<or> (aMaj = bMaj \<and> aMin < bMin))"

datatype http_client = DefaultClient | TLSClient string bool

definition createHTTPclient :: "OpenStackOptions \<Rightarrow> http_client result" where
  "createHTTPclient opts =
     (if oo_OSCertAuthority opts = '''' then Ok DefaultClient
      else
        let insecure = (if oo_OSTLSInsecure opts = '''' then ''false'' else oo_OSTLSInsecure opts) in
        case ParseBool insecure of
          None \<Rightarrow> Err (Errorf ''failed to parse parameter os-insecureTLS: %v'' [FStr insecure])
        | Some allowInsecure \<Rightarrow> Ok (TLSClient (oo_OSCertAuthority opts) allowInsecure))"

record ('w, 'prov, 'client) manila_auth =
  ma_NewClient :: "string \<Rightarrow> ('w, 'prov) io"
  ma_SetHTTPClient :: "'prov \<Rightarrow> http_client \<Rightarrow> 'prov"
  ma_ChooseVersion :: "'prov \<Rightarrow> ('w, string) io"
  ma_AuthenticateV2 :: "'prov \<Rightarrow> AuthOpts \<Rightarrow> ('w, 'prov) io"
  ma_AuthenticateV3 :: "'prov \<Rightarrow> AuthOpts \<times> string \<Rightarrow> ('w, 'prov) io"
  ma_NewSharedFileSystemV2 :: "'prov \<Rightarrow> string \<Rightarrow> ('w, 'client) io"
  ma_SetMicroversion :: "'client \<Rightarrow> string \<Rightarrow> 'client"
  ma_apiversions_Get :: "'client \<Rightarrow> ('w, string \<times> string) io"

text \<open>The error of \<open>ChooseVersion\<close> is not checked before the version is dereferenced.\<close>

definition authenticateClient :: "('w, 'prov, 'client) manila_auth \<Rightarrow> OpenStackOptions \<Rightarrow> ('w, 'prov) io" where
  "authenticateClient lib opts =
     bindE (wrapE (\<lambda>e. Errorf ''failed to create Keystone client: %v'' [FErr e]) (ma_NewClient lib (oo_OSAuthURL opts))) (\<lambda>provider.
     bindE (wrapE (\<lambda>e. Errorf ''failed to create HTTP client: %v'' [FErr e]) (lift_result (createHTTPclient opts))) (\<lambda>http.
       let provider = ma_SetHTTPClient lib provider http in
     bindE (attempt (ma_ChooseVersion lib provider)) (\<lambda>chosen.
       case chosen of
         Inl _ \<Rightarrow> crash ''nil pointer dereference''
       | Inr version \<Rightarrow>
           if version = ''v2.0'' then
             if oo_OSTrustID opts \<noteq> ''''
             then fail (Errorf ''Keystone %s does not support trustee authentication'' [FStr ''v2.0''])
             else wrapE (\<lambda>e. Errorf ''failed to authenticate with Keystone: %v'' [FErr e])
                    (ma_AuthenticateV2 lib provider (man_ToAuthOptions opts))
           else if version = ''v3'' then
             wrapE (\<lambda>e. Errorf ''failed to authenticate with Keystone: %v'' [FErr e])
               (ma_AuthenticateV3 lib provider (ToAuthOptionsExt opts))
           else fail (Errorf ''unrecognized Keystone version: %s'' [FStr version]))))"

definition validateManilaClient :: "('w, 'prov, 'client) manila_auth \<Rightarrow> 'client \<Rightarrow> string \<Rightarrow> ('w, unit) io" where
  "validateManilaClient lib c microversion =
     bindE (wrapE (\<lambda>e. Errorf ''failed to get Manila v2 API microversions: %v'' [FErr e]) (ma_apiversions_Get lib c)) (\<lambda>(minVersion, version).
     bindE (wrapE (\<lambda>e. Errorf ''server's minimum microversion is invalid: %v'' [FErr e]) (lift_result (validateMicroversion minVersion))) (\<lambda>_.
     bindE (wrapE (\<lambda>e. Errorf ''server's maximum microversion is invalid: %v'' [FErr e]) (lift_result (validateMicroversion version))) (\<lambda>_.
       if compareVersionsLessThan microversion minVersion then
         fail (Errorf ''client's microversion %s is lower than server's minimum microversion %s'' [FStr microversion, FStr minVersion])
       else if compareVersionsLessThan version microversion then
         fail (Errorf ''client's microversion %s is higher than server's highest supported microversion %s'' [FStr microversion, FStr version])
       else ret ())))"

definition NewManilaV2Client :: "('w, 'prov, 'client) manila_auth \<Rightarrow> OpenStackOptions \<Rightarrow> ('w, 'client) io" where
  "NewManilaV2Client lib opts =
     bindE (wrapE (\<lambda>e. Errorf ''failed to authenticate: %v'' [FErr e]) (authenticateClient lib opts)) (\<lambda>provider.
     bindE (wrapE (\<lambda>e. Errorf ''failed to create Manila v2 client: %v'' [FErr e])
              (ma_NewSharedFileSystemV2 lib provider (oo_OSRegionName opts))) (\<lambda>client.
       let client = ma_SetMicroversion lib client minimumManilaVersion in
     bindE (wrapE (\<lambda>e. Errorf ''failed to validate Manila v2 client: %v'' [FErr e])
              (validateManilaClient lib client minimumManilaVersion)) (\<lambda>_.
     ret client)))"

section \<open>What valid options are like\<close>

lemma share_validator:
  "bindR shareOptionsValidator (\<lambda>v. Ok (va_idxNameMap v, va_valueExprs v, va_depsMap v, va_preclsMap v, va_matchMap v)) =
   Ok ([(0, ''zones''), (1, ''type''), (2, ''protocol''), (3, ''backend''), (4, ''osSecretName''), (5, ''osSecretNamespace''),
        (6, ''shareSecretNamespace''), (7, ''osShareNetworkID''), (8, ''osShareID''), (9, ''osShareName''), (10, ''osShareAccessID''),
        (11, ''csi-driver''), (12, ''mounter''), (13, ''nfs-share-client'')],
       \<lparr> vs_required = [(7, False), (8, False), (9, False), (10, False)],
         vs_condRequired = [(11, \<lparr> vc_r = [[ReBegin] @ re_text ''csi-cephfs'' @ [ReEnd]], vc_condField = ''backend'' \<rparr>)],
         vs_condOptional = [],
         vs_defaultVal = [(0, ''nova''), (1, ''default''), (5, ''default''), (6, ''default''), (12, ''fuse''), (13, ''0.0.0.0'')] \<rparr>,
       [(8, [[10]]), (9, [[10]]), (10, [[8, 9]])], [],
       [(2, ''^(?i)CEPHFS|NFS$'', [[ReBegin] @ map (\<lambda>c. ReLit c True) ''CEPHFS'', map (\<lambda>c. ReLit c True) ''NFS'' @ [ReEnd]]),
        (3, ''^cephfs|csi-cephfs|nfs$'', [ReBegin # re_text ''cephfs'', re_text ''csi-cephfs'', re_text ''nfs'' @ [ReEnd]]),
        (12, ''^kernel|fuse$'', [ReBegin # re_text ''kernel'', re_text ''fuse'' @ [ReEnd]])])"
  by code_simp

lemma field_value_required:
  "d n \<noteq> Some '''' \<Longrightarrow> (d n = None \<Longrightarrow> False) \<Longrightarrow> field_value d n \<noteq> '''' \<and> d n = Some (field_value d n)"
  by (cases "d n") (auto simp: field_value_def)

lemma share_options_Populate:
  assumes "shareOptionsValidator = Ok v" "Populate v ps = Ok out"
  shows "out ! 2 \<noteq> ''''" "out ! 3 \<noteq> ''''" "out ! 4 \<noteq> ''''"
    "out ! 8 \<noteq> '''' \<Longrightarrow> out ! 10 \<noteq> ''''" "out ! 9 \<noteq> '''' \<Longrightarrow> out ! 10 \<noteq> ''''"
    "out ! 10 \<noteq> '''' \<Longrightarrow> length (filter (\<lambda>j. out ! j \<noteq> '''') [8, 9]) = 1"
    "HasPrefix (out ! 3) ''cephfs'' \<or> strings_Contains (out ! 3) ''csi-cephfs'' \<or> HasSuffix (out ! 3) ''nfs''"
    "out ! 3 = ''csi-cephfs'' \<Longrightarrow> out ! 11 \<noteq> ''''"
proof -
  note maps = share_validator [unfolded assms(1) bindR_simps result.inject prod.inject]
  have "vs_defaultVal (va_valueExprs v) \<noteq> []" using maps by simp
  then obtain d where ps: "ps = Some d" using assms(2) Populate_nil [of v] by (cases ps) auto
  let ?d = "with_defaults v d"
  from iffD1 [OF Populate_spec [OF assms(1) [unfolded shareOptionsValidator_def]] assms(2) [unfolded ps]]
  have out: "out = map (\<lambda>(i, n). field_value ?d n) (va_idxNameMap v)" and ok: "admissible v ?d out" by blast+
  note adm = ok [unfolded admissible_def]
  note names = adm [THEN conjunct1] and deps = adm [THEN conjunct2, THEN conjunct1]
    and pats = adm [THEN conjunct2, THEN conjunct2, THEN conjunct2]
  have fields: "out ! 2 = field_value ?d ''protocol''" "out ! 3 = field_value ?d ''backend''" "out ! 4 = field_value ?d ''osSecretName''"
    "out ! 11 = field_value ?d ''csi-driver''"
    using maps by (simp_all add: out)
  have req: "requiresValue i (va_valueExprs v) (Some ?d)" if "i \<in> {2, 3, 4}" for i
    using that maps by (auto simp: requiresValue_def)
  have in2: "(2, ''protocol'') \<in> set (va_idxNameMap v)" "(3, ''backend'') \<in> set (va_idxNameMap v)" "(4, ''osSecretName'') \<in> set (va_idxNameMap v)"
    "(11, ''csi-driver'') \<in> set (va_idxNameMap v)"
    using maps by simp_all
  note val = bspec [OF names in2(1)] bspec [OF names in2(2)] bspec [OF names in2(3)] bspec [OF names in2(4)]
  show "out ! 2 \<noteq> ''''" using val(1) req [of 2] field_value_required [of ?d "''protocol''"] fields by auto
  have b: "out ! 3 \<noteq> '''' \<and> ?d ''backend'' = Some (out ! 3)"
    using val(2) req [of 3] field_value_required [of ?d "''backend''"] fields by auto
  then show "out ! 3 \<noteq> ''''" by simp
  show "out ! 4 \<noteq> ''''" using val(3) req [of 4] field_value_required [of ?d "''osSecretName''"] fields by auto
  have dep: "out ! 8 \<noteq> '''' \<longrightarrow> length (filter (\<lambda>j. out ! j \<noteq> '''') [10]) = 1" "out ! 9 \<noteq> '''' \<longrightarrow> length (filter (\<lambda>j. out ! j \<noteq> '''') [10]) = 1"
    "out ! 10 \<noteq> '''' \<longrightarrow> length (filter (\<lambda>j. out ! j \<noteq> '''') [8, 9]) = 1"
    using deps maps by simp_all
  show "out ! 8 \<noteq> '''' \<Longrightarrow> out ! 10 \<noteq> ''''" "out ! 9 \<noteq> '''' \<Longrightarrow> out ! 10 \<noteq> ''''"
    using dep by (auto split: if_splits)
  show "out ! 10 \<noteq> '''' \<Longrightarrow> length (filter (\<lambda>j. out ! j \<noteq> '''') [8, 9]) = 1" using dep(3) by blast
  have "MatchString [ReBegin # re_text ''cephfs'', re_text ''csi-cephfs'', re_text ''nfs'' @ [ReEnd]] (out ! 3)"
    using pats maps b by simp
  then show "HasPrefix (out ! 3) ''cephfs'' \<or> strings_Contains (out ! 3) ''csi-cephfs'' \<or> HasSuffix (out ! 3) ''nfs''"
    by (simp only: half_anchored)
  show "out ! 11 \<noteq> ''''" if csi: "out ! 3 = ''csi-cephfs''"
  proof -
    have "MatchString [[ReBegin] @ re_text ''csi-cephfs'' @ [ReEnd]] ''csi-cephfs''" by code_simp
    then have "requiresValue 11 (va_valueExprs v) (Some ?d)"
      using maps b csi by (simp add: requiresValue_def resolveConditionalReq_def param_def)
    then show ?thesis using val(4) field_value_required [of ?d "''csi-driver''"] fields by auto
  qed
qed

text \<open>
  C38. Options that \<open>NewShareOptions\<close> accepts name the OpenStack secret, a protocol and a backend; they ask for
  an existing share, by an access id, exactly if they name it by either its id or its name, and for the
  backend csi-cephfs they have a driver. The backend, however, is only known to begin with cephfs, to
  contain csi-cephfs or to end with nfs, since the anchors of its pattern bind to the outer
  alternatives.
\<close>

theorem NewShareOptions_sound:
  assumes "NewShareOptions helpers volOptions = Ok opts"
  shows "so_Protocol opts \<noteq> '''' \<and> so_OSSecretName opts \<noteq> '''' \<and>
    (so_OSShareAccessID opts \<noteq> '''' \<longleftrightarrow> (so_OSShareID opts \<noteq> '''') \<noteq> (so_OSShareName opts \<noteq> '''')) \<and>
    (so_Backend opts = ''csi-cephfs'' \<longrightarrow> so_CSICEPHFSdriver opts \<noteq> '''') \<and>
    (HasPrefix (so_Backend opts) ''cephfs'' \<or> strings_Contains (so_Backend opts) ''csi-cephfs'' \<or> HasSuffix (so_Backend opts) ''nfs'')"
proof -
  from assms obtain v out z where v: "shareOptionsValidator = Ok v" "Populate v (vo_Parameters volOptions) = Ok out"
    and opts: "opts = (to_ShareOptions out)\<lparr> so_Zones := z \<rparr>"
    by (auto simp: NewShareOptions_def bindR_eq_Ok Let_def neq_Nil_conv split: list.split_asm)
  note facts = share_options_Populate [OF v]
  have "(out ! 10 \<noteq> '''') = ((out ! 8 \<noteq> '''') \<noteq> (out ! 9 \<noteq> ''''))"
    using facts(4-6) by (cases "out ! 8 = ''''"; cases "out ! 9 = ''''") auto
  then show ?thesis using facts(1,3,7,8) by (simp add: opts to_ShareOptions_def)
qed

definition demo_zones :: zone_helpers where
  "demo_zones = \<lparr> zh_ZonesToSet = (\<lambda>s. Ok [s]), zh_ChooseZonesForVolume = (\<lambda>zs _ _. zs) \<rparr>"

definition demo_volume :: "int VolumeOptions" where
  "demo_volume = \<lparr> vo_PVName = ''pv1'', vo_PVC = \<lparr> pvc_Name = ''c'', pvc_Namespace = ''ns'', pvc_UID = ''u1'', pvc_AccessModes = [],
       pvc_Requests = Some [''storage'' \<mapsto> 2], pvc_Selector = False \<rparr>,
     vo_Parameters = Some [''protocol'' \<mapsto> ''CephFS'', ''backend'' \<mapsto> ''cephfs'', ''osSecretName'' \<mapsto> ''os''], vo_ReclaimPolicy = ''Delete'' \<rparr>"

theorem NewShareOptions_sound_witness:
  "\<exists>opts. NewShareOptions demo_zones demo_volume = Ok opts \<and> so_OSSecretName opts \<noteq> '''' \<and>
    (so_OSShareAccessID opts \<noteq> '''' \<longleftrightarrow> (so_OSShareID opts \<noteq> '''') \<noteq> (so_OSShareName opts \<noteq> ''''))"
proof -
  have "is_ok (NewShareOptions demo_zones demo_volume)" by code_simp
  then obtain opts where "NewShareOptions demo_zones demo_volume = Ok opts" by (auto simp: is_ok_iff)
  with NewShareOptions_sound [OF this] show ?thesis by blast
qed

text \<open>A storage class without parameters makes the provisioner panic instead of reporting an error.\<close>

lemma NewShareOptions_nil: "vo_Parameters volOptions = None \<Longrightarrow> NewShareOptions helpers volOptions = Panic ''assignment to entry in nil map''"
proof -
  assume none: "vo_Parameters volOptions = None"
  have "is_ok shareOptionsValidator" by code_simp
  then obtain v where v: "shareOptionsValidator = Ok v" by (auto simp: is_ok_iff)
  have "vs_defaultVal (va_valueExprs v) \<noteq> []" using share_validator [unfolded v bindR_simps result.inject prod.inject] by simp
  then show ?thesis unfolding NewShareOptions_def none v by (simp add: Populate_nil)
qed

text \<open>The order of versions is that of their numbers.\<close>

lemma digits_Atoi_nat_text: "int n < 2 ^ 63 \<Longrightarrow> digits_Atoi (nat_text n) = int n"
  using Atoi_Itoa [of "int n"] by (simp add: digits_Atoi_def Itoa_def int64_range_def)

lemma splitMicroversion_text:
  assumes "int a < 2 ^ 63" "int b < 2 ^ 63"
  shows "splitMicroversion (nat_text a @ ''.'' @ nat_text b) = (int a, int b)"
proof -
  have no: "CHR ''.'' \<notin> set (nat_text n)" for n
    using nat_text_digits [of "CHR ''.''" n] by (auto simp: digit_val_def)
  have "strings_Split (nat_text a @ ''.'' @ nat_text b) CHR ''.'' = [nat_text a, nat_text b]"
    using no by (simp add: strings_Split_def split_char_append split_char_no_sep)
  then show ?thesis
    using nat_text_digits [of _ a] nat_text_digits [of _ b]
    by (auto simp: splitMicroversion_def validateMicroversion_def digits_Atoi_nat_text [OF assms(1)] digits_Atoi_nat_text [OF assms(2)]
        simp flip: list.pred_set) (simp_all add: list_all_iff)
qed

lemma compareVersions_numeric:
  assumes "int a < 2 ^ 63" "int b < 2 ^ 63" "int c < 2 ^ 63" "int d < 2 ^ 63"
  shows "compareVersionsLessThan (nat_text a @ ''.'' @ nat_text b) (nat_text c @ ''.'' @ nat_text d) \<longleftrightarrow> a < c \<or> a = c \<and> b < d"
  unfolding compareVersionsLessThan_def splitMicroversion_text [OF assms(1,2)] splitMicroversion_text [OF assms(3,4)] by simp

text \<open>An error of the choice of the Keystone version is not noticed and its result dereferenced.\<close>

lemma ChooseVersion_error_panics:
  assumes "ma_NewClient lib (oo_OSAuthURL opts) w = (Ok prov, w1)" "createHTTPclient opts = Ok http"
    "ma_ChooseVersion lib (ma_SetHTTPClient lib prov http) w1 = (Err e, w2)"
  shows "authenticateClient lib opts w = (Panic ''nil pointer dereference'', w2)"
  using assms by (simp add: authenticateClient_def bindE_def wrapE_def attempt_def Let_def)

end
