(* ===== verification/Manila_Backends.thy ===== *)
theory Manila_Backends
  imports Manila_Options
begin

text \<open>
  The share backends (\<open>pkg/share/manila/sharebackends\<close>): NFS, CephFS and CephFS through CSI. The calls of
  Manila and of the Kubernetes API are the fields of \<open>manila_api\<close>; \<open>WaitFor\<close> is the polling loop of
  gophercloud, whose condition stores the access right it has found.
\<close>

section \<open>Data\<close>

record man_Share =
  shr_ID :: string
  shr_Name :: string
  shr_Size :: int
  shr_Status :: string

record AccessRight =
  ar_ID :: string
  ar_AccessType :: string
  ar_AccessTo :: string
  ar_AccessKey :: string

record ExportLocation =
  el_Path :: string
  el_IsAdminOnly :: bool
  el_Preferred :: bool

record GrantAccessOpts =
  ga_AccessType :: string
  ga_AccessTo :: string
  ga_AccessLevel :: string

record share_CreateOpts =
  sc_ShareProto :: string
  sc_ShareNetworkID :: string
  sc_Size :: int
  sc_Name :: string
  sc_ShareType :: string
  sc_Metadata :: "(string \<times> string) list"

type_synonym secret_data = "(string \<times> string) list"

record ('w, 'client) manila_api =
  mi_Create :: "'client \<Rightarrow> share_CreateOpts \<Rightarrow> ('w, man_Share) io"
  mi_Delete :: "'client \<Rightarrow> string \<Rightarrow> ('w, unit) io"
  mi_Get :: "'client \<Rightarrow> string \<Rightarrow> ('w, man_Share) io"
  mi_IDFromName :: "'client \<Rightarrow> string \<Rightarrow> ('w, string) io"
  mi_GetExportLocations :: "'client \<Rightarrow> string \<Rightarrow> ('w, ExportLocation list) io"
  mi_GrantAccess :: "'client \<Rightarrow> string \<Rightarrow> GrantAccessOpts \<Rightarrow> ('w, AccessRight) io"
  mi_ListAccessRights :: "'client \<Rightarrow> string \<Rightarrow> ('w, AccessRight list) io"
  mi_secret_Create :: "string \<Rightarrow> string \<Rightarrow> secret_data \<Rightarrow> ('w, unit) io"
  mi_secret_Delete :: "string \<Rightarrow> string \<Rightarrow> ('w, unit) io"
  mi_secret_Get :: "string \<Rightarrow> string \<Rightarrow> ('w, string \<rightharpoonup> string) io"
  mi_NewUUID :: "('w, string) io"
  mi_WaitFor :: "nat \<Rightarrow> ('w \<times> AccessRight, bool) io \<Rightarrow> ('w \<times> AccessRight, unit) io"

record 'client GrantAccessArgs =
  gr_Share :: man_Share
  gr_Options :: ShareOptions
  gr_ShareSecretRef :: SecretReference
  gr_Client :: 'client

record BuildSourceArgs =
  bs_VolumeHandle :: string
  bs_Options :: ShareOptions
  bs_ShareSecretRef :: SecretReference
  bs_Location :: ExportLocation
  bs_AccessRight :: AccessRight

record RevokeAccessArgs =
  ra_ShareID :: string
  ra_ShareSecretRef :: SecretReference

datatype PersistentVolumeSource =
    NFSSource string string
  | CephFSSource "string list" string string SecretReference
  | CSISource string string "(string \<times> string) list" SecretReference

record ('w, 'client) ShareBackend =
  be_Name :: string
  be_BuildSource :: "BuildSourceArgs \<Rightarrow> PersistentVolumeSource result"
  be_GrantAccess :: "'client GrantAccessArgs \<Rightarrow> ('w, AccessRight) io"
  be_RevokeAccess :: "RevokeAccessArgs \<Rightarrow> ('w, unit) io"

section \<open>Helpers\<close>

definition splitExportLocation :: "ExportLocation \<Rightarrow> (string \<times> string) result" where
  "splitExportLocation loc =
     (let delimPos = LastIndexByte (el_Path loc) CHR '':'' in
      if delimPos \<le> 0
      then Err (Errorf ''failed to parse address and location from export location '%s' '' [FStr (el_Path loc)])
      else Ok (take (nat delimPos) (el_Path loc), drop (nat delimPos + 1) (el_Path loc)))"

definition createSecret :: "('w, 'client) manila_api \<Rightarrow> SecretReference \<Rightarrow> secret_data \<Rightarrow> ('w, unit) io" where
  "createSecret api secretRef data = mi_secret_Create api (sr_Namespace secretRef) (sr_Name secretRef) data"

definition deleteSecret :: "('w, 'client) manila_api \<Rightarrow> SecretReference \<Rightarrow> ('w, unit) io" where
  "deleteSecret api secretRef = mi_secret_Delete api (sr_Namespace secretRef) (sr_Name secretRef)"

definition getAccess :: "('w, 'client) manila_api \<Rightarrow> string \<Rightarrow> 'client \<Rightarrow> string \<Rightarrow> ('w, AccessRight) io" where
  "getAccess api shareID c accessID =
     bindE (mi_ListAccessRights api c shareID) (\<lambda>accessRights.
       case find (\<lambda>a. ar_ID a = accessID) accessRights of
         Some a \<Rightarrow> ret a
       | None \<Rightarrow> fail (Errorf ''access rule %s for share %s not found'' [FStr accessID, FStr shareID]))"

definition zero_AccessRight :: AccessRight where
  "zero_AccessRight = \<lparr> ar_ID = '''', ar_AccessType = '''', ar_AccessTo = '''', ar_AccessKey = '''' \<rparr>"

definition cephx_condition :: "('w, 'client) manila_api \<Rightarrow> 'client GrantAccessArgs \<Rightarrow> ('w \<times> AccessRight, bool) io" where
  "cephx_condition api args s =
     (case mi_ListAccessRights api (gr_Client args) (shr_ID (gr_Share args)) (fst s) of
        (Ok accessRights, w) \<Rightarrow>
          (case accessRights of
             [] \<Rightarrow> (Ok False, (w, snd s))
           | [a] \<Rightarrow> if ar_AccessKey a \<noteq> '''' then (Ok True, (w, a)) else (Ok False, (w, snd s))
           | _ \<Rightarrow> (Err (Errorf ''unexpected number of access rules: got %d, expected 1'' [FInt (int (length accessRights))]), (w, snd s)))
      | (Err e, w) \<Rightarrow> (Err e, (w, snd s))
      | (Panic p, w) \<Rightarrow> (Panic p, (w, snd s)))"

definition grantAccessCephx :: "('w, 'client) manila_api \<Rightarrow> 'client GrantAccessArgs \<Rightarrow> ('w, AccessRight) io" where
  "grantAccessCephx api args =
     bindE (mi_GrantAccess api (gr_Client args) (shr_ID (gr_Share args))
              \<lparr> ga_AccessType = ''cephx'', ga_AccessTo = shr_Name (gr_Share args), ga_AccessLevel = ''rw'' \<rparr>) (\<lambda>_ w.
       case mi_WaitFor api 120 (cephx_condition api args) (w, zero_AccessRight) of
         (Ok _, (w', accessRight)) \<Rightarrow> (Ok accessRight, w')
       | (Err e, (w', _)) \<Rightarrow> (Err e, w')
       | (Panic p, (w', _)) \<Rightarrow> (Panic p, w'))"

definition getOrCreateCephxAccess :: "('w, 'client) manila_api \<Rightarrow> 'client GrantAccessArgs \<Rightarrow> ('w, AccessRight) io" where
  "getOrCreateCephxAccess api args =
     bindE (if so_OSShareAccessID (gr_Options args) \<noteq> ''''
            then getAccess api (shr_ID (gr_Share args)) (gr_Client args) (so_OSShareAccessID (gr_Options args))
            else grantAccessCephx api args) (\<lambda>accessRight.
       if ar_AccessType accessRight \<noteq> ''cephx'' then
         fail (Errorf ''wrong type for access rule %s in share %s: expected cephx, got %s''
           [FStr (ar_ID accessRight), FStr (shr_ID (gr_Share args)), FStr (ar_AccessType accessRight)])
       else if ar_AccessKey accessRight = '''' \<or> ar_AccessTo accessRight = '''' then
         fail (Errorf ''missing AccessKey or AccessTo for access rule %s in share %s''
           [FStr (ar_ID accessRight), FStr (shr_ID (gr_Share args))])
       else ret accessRight)"

section \<open>NFS\<close>

definition NFS_BuildSource :: "BuildSourceArgs \<Rightarrow> PersistentVolumeSource result" where
  "NFS_BuildSource args = bindR (splitExportLocation (bs_Location args)) (\<lambda>(server, path). Ok (NFSSource server path))"

definition NFS_GrantAccess :: "('w, 'client) manila_api \<Rightarrow> 'client GrantAccessArgs \<Rightarrow> ('w, AccessRight) io" where
  "NFS_GrantAccess api args =
     mi_GrantAccess api (gr_Client args) (shr_ID (gr_Share args))
       \<lparr> ga_AccessType = ''ip'', ga_AccessTo = so_NFSShareClient (gr_Options args), ga_AccessLevel = ''rw'' \<rparr>"

definition NFS_RevokeAccess :: "RevokeAccessArgs \<Rightarrow> ('w, unit) io" where
  "NFS_RevokeAccess args = ret ()"

definition NFS :: "('w, 'client) manila_api \<Rightarrow> ('w, 'client) ShareBackend" where
  "NFS api = \<lparr> be_Name = ''nfs'', be_BuildSource = NFS_BuildSource, be_GrantAccess = NFS_GrantAccess api,
     be_RevokeAccess = NFS_RevokeAccess \<rparr>"

section \<open>CephFS\<close>

definition CephFS_BuildSource :: "BuildSourceArgs \<Rightarrow> PersistentVolumeSource result" where
  "CephFS_BuildSource args =
     bindR (splitExportLocation (bs_Location args)) (\<lambda>(monitorsStr, path).
       Ok (CephFSSource (strings_Split monitorsStr CHR '','') path (ar_AccessTo (bs_AccessRight args)) (bs_ShareSecretRef args)))"

definition CephFS_GrantAccess :: "('w, 'client) manila_api \<Rightarrow> 'client GrantAccessArgs \<Rightarrow> ('w, AccessRight) io" where
  "CephFS_GrantAccess api args =
     bindE (getOrCreateCephxAccess api args) (\<lambda>accessRight.
     bindE (createSecret api (gr_ShareSecretRef args) [(''key'', ar_AccessKey accessRight)]) (\<lambda>_.
     ret accessRight))"

definition CephFS_RevokeAccess :: "('w, 'client) manila_api \<Rightarrow> RevokeAccessArgs \<Rightarrow> ('w, unit) io" where
  "CephFS_RevokeAccess api args = deleteSecret api (ra_ShareSecretRef args)"

definition CephFS :: "('w, 'client) manila_api \<Rightarrow> ('w, 'client) ShareBackend" where
  "CephFS api = \<lparr> be_Name = ''cephfs'', be_BuildSource = CephFS_BuildSource, be_GrantAccess = CephFS_GrantAccess api,
     be_RevokeAccess = CephFS_RevokeAccess api \<rparr>"

section \<open>CephFS through CSI\<close>

definition CSICephFS_BuildSource :: "BuildSourceArgs \<Rightarrow> PersistentVolumeSource result" where
  "CSICephFS_BuildSource args =
     bindR (splitExportLocation (bs_Location args)) (\<lambda>(monitors, rootPath).
       Ok (CSISource (so_CSICEPHFSdriver (bs_Options args)) (bs_VolumeHandle args)
             [(''monitors'', monitors), (''rootPath'', rootPath), (''mounter'', so_CSICEPHFSmounter (bs_Options args)),
              (''provisionVolume'', ''false'')] (bs_ShareSecretRef args)))"

definition CSICephFS_GrantAccess :: "('w, 'client) manila_api \<Rightarrow> 'client GrantAccessArgs \<Rightarrow> ('w, AccessRight) io" where
  "CSICephFS_GrantAccess api args =
     bindE (getOrCreateCephxAccess api args) (\<lambda>accessRight.
     bindE (createSecret api (gr_ShareSecretRef args)
              [(''userID'', ar_AccessTo accessRight), (''userKey'', ar_AccessKey accessRight)]) (\<lambda>_.
     ret accessRight))"

definition CSICephFS_RevokeAccess :: "('w, 'client) manila_api \<Rightarrow> RevokeAccessArgs \<Rightarrow> ('w, unit) io" where
  "CSICephFS_RevokeAccess api args = deleteSecret api (ra_ShareSecretRef args)"

definition CSICephFS :: "('w, 'client) manila_api \<Rightarrow> ('w, 'client) ShareBackend" where
  "CSICephFS api = \<lparr> be_Name = ''csi-cephfs'', be_BuildSource = CSICephFS_BuildSource, be_GrantAccess = CSICephFS_GrantAccess api,
     be_RevokeAccess = CSICephFS_RevokeAccess api \<rparr>"

section \<open>What the services promise\<close>

text \<open>
  \<open>sv w\<close> are the ids of the shares, \<open>kv w\<close> the secrets by namespace and name. Creating and deleting do
  what they say or fail without an effect; everything else changes neither.
\<close>

type_synonym secrets = "string \<times> string \<rightharpoonup> secret_data"

definition manila_ok :: "('w, 'client) manila_api \<Rightarrow> ('w \<Rightarrow> string set) \<Rightarrow> ('w \<Rightarrow> secrets) \<Rightarrow> bool" where
  "manila_ok api sv kv \<longleftrightarrow>
     (\<forall>c opts w r w'. mi_Create api c opts w = (r, w') \<longrightarrow> kv w' = kv w \<and>
        (case r of Ok s \<Rightarrow> shr_ID s \<notin> sv w \<and> sv w' = insert (shr_ID s) (sv w) | _ \<Rightarrow> sv w' = sv w)) \<and>
     (\<forall>c i w r w'. mi_Delete api c i w = (r, w') \<longrightarrow> kv w' = kv w \<and>
        (case r of Ok _ \<Rightarrow> sv w' = sv w - {i} | _ \<Rightarrow> sv w' = sv w)) \<and>
     (\<forall>c i. reads (\<lambda>w. (sv w, kv w)) (mi_Get api c i)) \<and>
     (\<forall>c n. reads (\<lambda>w. (sv w, kv w)) (mi_IDFromName api c n)) \<and>
     (\<forall>c i. reads (\<lambda>w. (sv w, kv w)) (mi_GetExportLocations api c i)) \<and>
     (\<forall>c i opts. reads (\<lambda>w. (sv w, kv w)) (mi_GrantAccess api c i opts)) \<and>
     (\<forall>c i. reads (\<lambda>w. (sv w, kv w)) (mi_ListAccessRights api c i)) \<and>
     (\<forall>ns n d w r w'. mi_secret_Create api ns n d w = (r, w') \<longrightarrow> sv w' = sv w \<and>
        (case r of Ok _ \<Rightarrow> kv w (ns, n) = None \<and> kv w' = (kv w)((ns, n) \<mapsto> d) | _ \<Rightarrow> kv w' = kv w)) \<and>
     (\<forall>ns n w r w'. mi_secret_Delete api ns n w = (r, w') \<longrightarrow> sv w' = sv w \<and>
        (case r of Ok _ \<Rightarrow> kv w' = (kv w)((ns, n) := None) | _ \<Rightarrow> kv w' = kv w)) \<and>
     (\<forall>ns n. reads (\<lambda>w. (sv w, kv w)) (mi_secret_Get api ns n)) \<and>
     (reads (\<lambda>w. (sv w, kv w)) (mi_NewUUID api)) \<and>
     (\<forall>n c. reads (\<lambda>s. (sv (fst s), kv (fst s))) c \<longrightarrow> reads (\<lambda>s. (sv (fst s), kv (fst s))) (mi_WaitFor api n c))"

lemma manila_ok_laws:
  assumes "manila_ok api sv kv"
  shows "\<forall>c opts w r w'. mi_Create api c opts w = (r, w') \<longrightarrow> kv w' = kv w \<and>
        (case r of Ok s \<Rightarrow> shr_ID s \<notin> sv w \<and> sv w' = insert (shr_ID s) (sv w) | _ \<Rightarrow> sv w' = sv w)"
    and "\<forall>c i w r w'. mi_Delete api c i w = (r, w') \<longrightarrow> kv w' = kv w \<and>
        (case r of Ok _ \<Rightarrow> sv w' = sv w - {i} | _ \<Rightarrow> sv w' = sv w)"
    and "\<forall>c i. reads (\<lambda>w. (sv w, kv w)) (mi_Get api c i)"
    and "\<forall>c n. reads (\<lambda>w. (sv w, kv w)) (mi_IDFromName api c n)"
    and "\<forall>c i. reads (\<lambda>w. (sv w, kv w)) (mi_GetExportLocations api c i)"
    and "\<forall>c i opts. reads (\<lambda>w. (sv w, kv w)) (mi_GrantAccess api c i opts)"
    and "\<forall>c i. reads (\<lambda>w. (sv w, kv w)) (mi_ListAccessRights api c i)"
    and "\<forall>ns n d w r w'. mi_secret_Create api ns n d w = (r, w') \<longrightarrow> sv w' = sv w \<and>
        (case r of Ok _ \<Rightarrow> kv w (ns, n) = None \<and> kv w' = (kv w)((ns, n) \<mapsto> d) | _ \<Rightarrow> kv w' = kv w)"
    and "\<forall>ns n w r w'. mi_secret_Delete api ns n w = (r, w') \<longrightarrow> sv w' = sv w \<and>
        (case r of Ok _ \<Rightarrow> kv w' = (kv w)((ns, n) := None) | _ \<Rightarrow> kv w' = kv w)"
    and "\<forall>ns n. reads (\<lambda>w. (sv w, kv w)) (mi_secret_Get api ns n)"
    and "reads (\<lambda>w. (sv w, kv w)) (mi_NewUUID api)"
    and "\<forall>n c. reads (\<lambda>s. (sv (fst s), kv (fst s))) c \<longrightarrow> reads (\<lambda>s. (sv (fst s), kv (fst s))) (mi_WaitFor api n c)"
  by (insert assms, unfold manila_ok_def, (elim conjE, assumption)+)

lemmas manila_okD = manila_ok_laws [rule_format]

section \<open>The interface of the backends\<close>

text \<open>
  A backend either keeps a secret per share or none. Granting creates the secret under the reference
  it is given, revoking deletes what it is given; neither touches the shares.
\<close>

locale share_backend =
  fixes impl :: "'e \<Rightarrow> ('w, 'client) ShareBackend" and fine :: "'e \<Rightarrow> bool" and secretive :: bool
    and shares :: "'e \<Rightarrow> 'w \<Rightarrow> string set" and secrets :: "'e \<Rightarrow> 'w \<Rightarrow> secrets"
  assumes grant_shares: "fine e \<Longrightarrow> be_GrantAccess (impl e) args w = (r, w') \<Longrightarrow> shares e w' = shares e w"
    and grant_secrets: "fine e \<Longrightarrow> be_GrantAccess (impl e) args w = (r, w') \<Longrightarrow>
      (if secretive \<and> is_ok r
       then secrets e w (sr_Namespace (gr_ShareSecretRef args), sr_Name (gr_ShareSecretRef args)) = None \<and>
         (\<exists>d. secrets e w' = (secrets e w)((sr_Namespace (gr_ShareSecretRef args), sr_Name (gr_ShareSecretRef args)) \<mapsto> d))
       else secrets e w' = secrets e w)"
    and revoke_shares: "fine e \<Longrightarrow> be_RevokeAccess (impl e) rargs w = (ru, w') \<Longrightarrow> shares e w' = shares e w"
    and revoke_secrets: "fine e \<Longrightarrow> be_RevokeAccess (impl e) rargs w = (ru, w') \<Longrightarrow>
      secrets e w' = (if secretive \<and> is_ok ru
        then (secrets e w)((sr_Namespace (ra_ShareSecretRef rargs), sr_Name (ra_ShareSecretRef rargs)) := None) else secrets e w)"
begin

text \<open>Revoking with the reference that access was granted with restores the secrets.\<close>

lemma revoke_undoes_grant:
  assumes "fine e" "be_GrantAccess (impl e) args w = (Ok a, w1)" "secrets e w2 = secrets e w1"
    "be_RevokeAccess (impl e) rargs w2 = (Ok u, w3)" "ra_ShareSecretRef rargs = gr_ShareSecretRef args"
  shows "secrets e w3 = secrets e w"
proof (cases secretive)
  case True
  from grant_secrets [OF assms(1,2)] True obtain d where
    d: "secrets e w (sr_Namespace (gr_ShareSecretRef args), sr_Name (gr_ShareSecretRef args)) = None"
    "secrets e w1 = (secrets e w)((sr_Namespace (gr_ShareSecretRef args), sr_Name (gr_ShareSecretRef args)) \<mapsto> d)"
    by auto
  have "secrets e w3 = (secrets e w2)((sr_Namespace (gr_ShareSecretRef args), sr_Name (gr_ShareSecretRef args)) := None)"
    using revoke_secrets [OF assms(1,4)] True assms(5) by simp
  also have "\<dots> = secrets e w" unfolding assms(3) d(2) using d(1) by (simp add: fun_upd_idem)
  finally show ?thesis .
next
  case False
  then show ?thesis using grant_secrets [OF assms(1,2)] revoke_secrets [OF assms(1,4)] assms(3) by simp
qed

end

lemma cephx_reads:
  assumes "manila_ok api sv kv"
  shows "reads (\<lambda>w. (sv w, kv w)) (getOrCreateCephxAccess api args)"
proof -
  have cond: "reads (\<lambda>s. (sv (fst s), kv (fst s))) (cephx_condition api args)"
    unfolding reads_def cephx_condition_def
    using readsD [OF manila_okD(7) [OF assms]]
    by (fastforce split: prod.splits result.splits list.splits if_splits)
  have "reads (\<lambda>w. (sv w, kv w)) (grantAccessCephx api args)"
    unfolding grantAccessCephx_def
  proof (rule reads_bindE [OF manila_okD(6) [OF assms]])
    fix x :: AccessRight
    show "reads (\<lambda>w. (sv w, kv w)) (\<lambda>w. case mi_WaitFor api 120 (cephx_condition api args) (w, zero_AccessRight) of
         (Ok _, (w', accessRight)) \<Rightarrow> (Ok accessRight, w')
       | (Err e, (w', _)) \<Rightarrow> (Err e, w')
       | (Panic p, (w', _)) \<Rightarrow> (Panic p, w'))"
      unfolding reads_def using readsD [OF manila_okD(12) [OF assms cond]]
      by (fastforce split: prod.splits result.splits)
  qed
  then show ?thesis
    unfolding getOrCreateCephxAccess_def getAccess_def by (intro reads_intros manila_okD(7) [OF assms])
qed

lemma secret_after_access:
  assumes "manila_ok api sv kv"
    "bindE (getOrCreateCephxAccess api args) (\<lambda>a. bindE (createSecret api ref (data a)) (\<lambda>_. ret a)) w = (r, w')"
  shows "sv w' = sv w"
    and "if is_ok r then kv w (sr_Namespace ref, sr_Name ref) = None \<and> (\<exists>d. kv w' = (kv w)((sr_Namespace ref, sr_Name ref) \<mapsto> d))
         else kv w' = kv w"
proof -
  obtain q w1 where access: "getOrCreateCephxAccess api args w = (q, w1)" by fastforce
  have V: "sv w1 = sv w" "kv w1 = kv w" using readsD [OF cephx_reads [OF assms(1)] access] by simp_all
  have "sv w' = sv w \<and> (if is_ok r then kv w (sr_Namespace ref, sr_Name ref) = None \<and> (\<exists>d. kv w' = (kv w)((sr_Namespace ref, sr_Name ref) \<mapsto> d))
         else kv w' = kv w)"
  proof (cases q)
    case (Ok a)
    obtain p w2 where create: "mi_secret_Create api (sr_Namespace ref) (sr_Name ref) (data a) w1 = (p, w2)" by fastforce
    note law = manila_okD(8) [OF assms(1) create]
    show ?thesis
      using law assms(2) access Ok create V by (cases p) (auto simp: bindE_def createSecret_def)
  qed (use assms(2) access V in \<open>auto simp: bindE_def\<close>)
  then show "sv w' = sv w" and "if is_ok r then kv w (sr_Namespace ref, sr_Name ref) = None \<and> (\<exists>d. kv w' = (kv w)((sr_Namespace ref, sr_Name ref) \<mapsto> d))
         else kv w' = kv w" by simp_all
qed

lemma deleteSecret_law:
  assumes "manila_ok api sv kv" "deleteSecret api ref w = (r, w')"
  shows "sv w' = sv w" and "kv w' = (if is_ok r then (kv w)((sr_Namespace ref, sr_Name ref) := None) else kv w)"
  using manila_okD(9) [OF assms(1), of "sr_Namespace ref" "sr_Name ref" w r w'] assms(2)
  by (cases r; simp add: deleteSecret_def)+

interpretation nfs_be: share_backend "\<lambda>e. NFS (fst e)" "\<lambda>e. manila_ok (fst e) (fst (snd e)) (snd (snd e))" False
  "\<lambda>e. fst (snd e)" "\<lambda>e. snd (snd e)"
proof (unfold_locales, goal_cases)
  case (1 e args w r w')
  then show ?case using readsD [OF manila_okD(6) [OF 1(1)]] by (simp add: NFS_def NFS_GrantAccess_def)
next
  case (2 e args w r w')
  then show ?case using readsD [OF manila_okD(6) [OF 2(1)]] by (simp add: NFS_def NFS_GrantAccess_def)
qed (simp_all add: NFS_def NFS_RevokeAccess_def)

interpretation cephfs_be: share_backend "\<lambda>e. CephFS (fst e)" "\<lambda>e. manila_ok (fst e) (fst (snd e)) (snd (snd e))" True
  "\<lambda>e. fst (snd e)" "\<lambda>e. snd (snd e)"
proof (unfold_locales, goal_cases)
  case (1 e args w r w')
  then show ?case using secret_after_access(1) [OF 1(1)] by (simp add: CephFS_def CephFS_GrantAccess_def)
next
  case (2 e args w r w')
  then show ?case using secret_after_access(2) [OF 2(1)] by (simp add: CephFS_def CephFS_GrantAccess_def)
next
  case (3 e rargs w ru w')
  then show ?case using deleteSecret_law(1) [OF 3(1)] by (simp add: CephFS_def CephFS_RevokeAccess_def)
next
  case (4 e rargs w ru w')
  then show ?case using deleteSecret_law(2) [OF 4(1)] by (simp add: CephFS_def CephFS_RevokeAccess_def)
qed

interpretation csicephfs_be: share_backend "\<lambda>e. CSICephFS (fst e)" "\<lambda>e. manila_ok (fst e) (fst (snd e)) (snd (snd e))" True
  "\<lambda>e. fst (snd e)" "\<lambda>e. snd (snd e)"
proof (unfold_locales, goal_cases)
  case (1 e args w r w')
  then show ?case using secret_after_access(1) [OF 1(1)] by (simp add: CSICephFS_def CSICephFS_GrantAccess_def)
next
  case (2 e args w r w')
  then show ?case using secret_after_access(2) [OF 2(1)] by (simp add: CSICephFS_def CSICephFS_GrantAccess_def)
next
  case (3 e rargs w ru w')
  then show ?case using deleteSecret_law(1) [OF 3(1)] by (simp add: CSICephFS_def CSICephFS_RevokeAccess_def)
next
  case (4 e rargs w ru w')
  then show ?case using deleteSecret_law(2) [OF 4(1)] by (simp add: CSICephFS_def CSICephFS_RevokeAccess_def)
qed

end
