(* ===== verification/Manila_Provisioner.thy ===== *)
theory Manila_Provisioner
  imports Manila_Backends
begin

text \<open>
  The Manila provisioner: \<open>share.go\<close>, \<open>sharebackend.go\<close>, \<open>util.go\<close> and \<open>provisioner.go\<close> of
  \<open>pkg/share/manila\<close>. The state is the world and the map from shares to the backends that have been
  registered for them, a variable of the package that starts empty with the process.
\<close>

section \<open>State and environment\<close>

type_synonym 'w man_st = "'w \<times> (string \<rightharpoonup> string)"

definition out_w :: "('w, 'a) io \<Rightarrow> ('w man_st, 'a) io" where
  "out_w m s = (case m (fst s) of (r, w) \<Rightarrow> (r, (w, snd s)))"

record 'q quantity_api =
  qa_IsZero :: "'q \<Rightarrow> bool"
  qa_Sign :: "'q \<Rightarrow> int"
  qa_GigaText :: "'q \<Rightarrow> string"

record ('w, 'prov, 'client, 'q) man_env =
  me_auth :: "('w, 'prov, 'client) manila_auth"
  me_api :: "('w, 'client) manila_api"
  me_zones :: zone_helpers
  me_quantity :: "'q quantity_api"

record PersistentVolume =
  pv_Name :: string
  pv_Annotations :: "string \<rightharpoonup> string"
  pv_ReclaimPolicy :: string
  pv_AccessModes :: "string list"
  pv_CapacityText :: string
  pv_Source :: PersistentVolumeSource

section \<open>\<open>util.go\<close>\<close>

definition manilaAnnotationPrefix :: string where
  "manilaAnnotationPrefix = ''manila.cloud-provider-openstack.kubernetes.io/''"

definition manilaAnnotationID :: string where "manilaAnnotationID = manilaAnnotationPrefix @ ''ID''"
definition manilaAnnotationProvisionType :: string where "manilaAnnotationProvisionType = manilaAnnotationPrefix @ ''ProvisionType''"
definition manilaAnnotationOSSecretName :: string where "manilaAnnotationOSSecretName = manilaAnnotationPrefix @ ''OSSecretName''"
definition manilaAnnotationOSSecretNamespace :: string where "manilaAnnotationOSSecretNamespace = manilaAnnotationPrefix @ ''OSSecretNamespace''"
definition manilaAnnotationShareSecretName :: string where "manilaAnnotationShareSecretName = manilaAnnotationPrefix @ ''ShareSecretName''"
definition manilaAnnotationShareSecretNamespace :: string where "manilaAnnotationShareSecretNamespace = manilaAnnotationPrefix @ ''ShareSecretNamespace''"
definition manilaProvisionTypeDynamic :: string where "manilaProvisionTypeDynamic = ''dynamic''"
definition manilaProvisionTypeStatic :: string where "manilaProvisionTypeStatic = ''static''"
definition shareAvailabilityTimeout :: nat where "shareAvailabilityTimeout = 120"

lemmas annotation_defs = manilaAnnotationPrefix_def manilaAnnotationID_def manilaAnnotationProvisionType_def
  manilaAnnotationOSSecretName_def manilaAnnotationOSSecretNamespace_def manilaAnnotationShareSecretName_def
  manilaAnnotationShareSecretNamespace_def

definition getPVAccessMode :: "string list \<Rightarrow> string list" where
  "getPVAccessMode PVCAccessMode =
     (if length PVCAccessMode > 0 then PVCAccessMode else [''ReadWriteOnce'', ''ReadOnlyMany'', ''ReadWriteMany''])"

definition getStorageSizeInGiga :: "'q quantity_api \<Rightarrow> 'q PVC \<Rightarrow> int result" where
  "getStorageSizeInGiga q pvc =
     (case pvc_Requests pvc of
        None \<Rightarrow> Err (errors_New ''requested storage capacity must be set'')
      | Some requests \<Rightarrow>
          (case requests ''storage'' of
             None \<Rightarrow> Err (errors_New ''requested storage capacity must be set'')
           | Some storageSize \<Rightarrow>
               if qa_IsZero q storageSize then Err (errors_New ''requested storage size must not have zero value'')
               else if qa_Sign q storageSize = -1 then Err (errors_New ''requested storage size must be greater than zero'')
               else
                 case Atoi (qa_GigaText q storageSize) of
                   None \<Rightarrow> Err (Errorf ''strconv.Atoi: parsing %s'' [FStr (qa_GigaText q storageSize)])
                 | Some n \<Rightarrow> Ok n))"

fun choose_loop :: "ExportLocation list \<Rightarrow> ExportLocation option \<Rightarrow> ExportLocation result" where
  "choose_loop [] matchingNotPreferred =
     (case matchingNotPreferred of
        Some loc \<Rightarrow> Ok loc
      | None \<Rightarrow> Err (errors_New ''cannot find any non-admin export location''))"
| "choose_loop (loc # locs) matchingNotPreferred =
     (if el_IsAdminOnly loc \<or> TrimSpace (el_Path loc) = '''' then choose_loop locs matchingNotPreferred
      else if el_Preferred loc then Ok loc
      else if matchingNotPreferred = None then choose_loop locs (Some loc)
      else choose_loop locs matchingNotPreferred)"

definition chooseExportLocation :: "ExportLocation list \<Rightarrow> ExportLocation result" where
  "chooseExportLocation locs =
     (if length locs = 0 then Err (errors_New ''export locations list is empty'') else choose_loop locs None)"

definition getAnnotationFromPV :: "PersistentVolume \<Rightarrow> string \<Rightarrow> string result" where
  "getAnnotationFromPV volume annotationKey =
     (case pv_Annotations volume annotationKey of
        Some v \<Rightarrow> Ok v
      | None \<Rightarrow> Err (Errorf ''PV object for volume %s is missing key %s in its annotations'' [FStr (pv_Name volume), FStr annotationKey]))"

definition getProvisionTypeFromPV :: "PersistentVolume \<Rightarrow> string result" where
  "getProvisionTypeFromPV volume = getAnnotationFromPV volume manilaAnnotationProvisionType"

definition getShareIDfromPV :: "PersistentVolume \<Rightarrow> string result" where
  "getShareIDfromPV volume = getAnnotationFromPV volume manilaAnnotationID"

definition getSecretRefFromPV :: "string \<Rightarrow> string \<Rightarrow> PersistentVolume \<Rightarrow> SecretReference result" where
  "getSecretRefFromPV nameKey namespaceKey pv =
     bindR (getAnnotationFromPV pv nameKey) (\<lambda>name.
     bindR (getAnnotationFromPV pv namespaceKey) (\<lambda>namespace.
     Ok \<lparr> sr_Name = name, sr_Namespace = namespace \<rparr>))"

definition getOSSecretRefFromPV :: "PersistentVolume \<Rightarrow> SecretReference result" where
  "getOSSecretRefFromPV pv = getSecretRefFromPV manilaAnnotationOSSecretName manilaAnnotationOSSecretNamespace pv"

definition getShareSecretRefFromPV :: "PersistentVolume \<Rightarrow> SecretReference result" where
  "getShareSecretRefFromPV pv = getSecretRefFromPV manilaAnnotationShareSecretName manilaAnnotationShareSecretNamespace pv"

definition status_condition :: "('w, 'client) manila_api \<Rightarrow> string \<Rightarrow> 'client \<Rightarrow> string \<Rightarrow> ('w \<times> AccessRight, bool) io" where
  "status_condition api shareID client desiredStatus s =
     (case mi_Get api client shareID (fst s) of
        (Ok share, w) \<Rightarrow> (Ok (shr_Status share = desiredStatus), (w, snd s))
      | (Err e, w) \<Rightarrow> (Err e, (w, snd s))
      | (Panic p, w) \<Rightarrow> (Panic p, (w, snd s)))"

definition waitForShareStatus :: "('w, 'client) manila_api \<Rightarrow> string \<Rightarrow> 'client \<Rightarrow> string \<Rightarrow> ('w, unit) io" where
  "waitForShareStatus api shareID client desiredStatus w =
     (case mi_WaitFor api shareAvailabilityTimeout (status_condition api shareID client desiredStatus) (w, zero_AccessRight) of
        (r, (w', _)) \<Rightarrow> (r, w'))"

section \<open>\<open>sharebackend.go\<close>\<close>

definition shareBackends :: "('w, 'client) manila_api \<Rightarrow> string \<rightharpoonup> ('w, 'client) ShareBackend" where
  "shareBackends api = map_of (map (\<lambda>b. (be_Name b, b)) [NFS api, CephFS api, CSICephFS api])"

definition getShareBackend :: "('w, 'client) manila_api \<Rightarrow> string \<Rightarrow> ('w, 'client) ShareBackend result" where
  "getShareBackend api backendName =
     (case shareBackends api backendName of
        Some b \<Rightarrow> Ok b
      | None \<Rightarrow> Err (Errorf ''share backend %s not found'' [FStr backendName]))"

definition registerBackendForShare :: "string \<Rightarrow> string \<Rightarrow> ('w man_st, unit) io" where
  "registerBackendForShare backendName shareName s = (Ok (), (fst s, (snd s)(shareName \<mapsto> backendName)))"

section \<open>\<open>share.go\<close>\<close>

definition buildCreateRequest :: "'q quantity_api \<Rightarrow> 'q VolumeOptions \<Rightarrow> ShareOptions \<Rightarrow> share_CreateOpts result" where
  "buildCreateRequest q volOptions shareOptions =
     (case getStorageSizeInGiga q (vo_PVC volOptions) of
        Ok storageSize \<Rightarrow>
          let shareName = ''pvc-'' @ pvc_UID (vo_PVC volOptions) in
          Ok \<lparr> sc_ShareProto = so_Protocol shareOptions, sc_ShareNetworkID = so_OSShareNetworkID shareOptions, sc_Size = storageSize,
               sc_Name = shareName, sc_ShareType = so_Type shareOptions,
               sc_Metadata = [(''kubernetes.io/created-for/pvc/namespace'', pvc_Namespace (vo_PVC volOptions)),
                              (''kubernetes.io/created-for/pvc/name'', pvc_Name (vo_PVC volOptions)),
                              (''kubernetes.io/created-for/pv/name'', shareName)] \<rparr>
      | Err e \<Rightarrow> Err (Errorf ''couldn't retrieve PVC storage size: %v'' [FErr e])
      | Panic p \<Rightarrow> Panic p)"

definition createShare ::
  "('w, 'prov, 'client, 'q) man_env \<Rightarrow> 'q VolumeOptions \<Rightarrow> ShareOptions \<Rightarrow> 'client \<Rightarrow> ('w, man_Share) io" where
  "createShare env volOptions shareOptions client =
     bindE (lift_result (buildCreateRequest (me_quantity env) volOptions shareOptions)) (\<lambda>req. mi_Create (me_api env) client req)"

definition revoke_registered :: "('w, 'client) manila_api \<Rightarrow> string \<Rightarrow> SecretReference \<Rightarrow> ('w man_st, unit) io" where
  "revoke_registered api shareID shareSecretRef s =
     (case snd s shareID of
        None \<Rightarrow> (Ok (), s)
      | Some backendName \<Rightarrow>
          bindE (lift_result (getShareBackend api backendName)) (\<lambda>b.
            out_w (be_RevokeAccess b \<lparr> ra_ShareID = shareID, ra_ShareSecretRef = shareSecretRef \<rparr>)) s)"

definition deleteShare ::
  "('w, 'client) manila_api \<Rightarrow> string \<Rightarrow> string \<Rightarrow> SecretReference \<Rightarrow> 'client \<Rightarrow> ('w man_st, unit) io" where
  "deleteShare api shareID provisionType shareSecretRef client =
     bindE (revoke_registered api shareID shareSecretRef) (\<lambda>_.
       if provisionType = manilaProvisionTypeDynamic then out_w (mi_Delete api client shareID) else ret ())"

definition getShare :: "('w, 'client) manila_api \<Rightarrow> ShareOptions \<Rightarrow> 'client \<Rightarrow> ('w, man_Share) io" where
  "getShare api shareOptions client =
     (if so_OSShareID shareOptions \<noteq> '''' then mi_Get api client (so_OSShareID shareOptions)
      else if so_OSShareName shareOptions \<noteq> '''' then
        bindE (wrapE (\<lambda>e. Errorf ''failed to get share ID from name: %v'' [FErr e]) (mi_IDFromName api client (so_OSShareName shareOptions)))
          (\<lambda>shareID. mi_Get api client shareID)
      else fail (errors_New ''both OSShareName and OSShareID are empty''))"

definition buildPersistentVolume ::
  "man_Share \<Rightarrow> PersistentVolumeSource \<Rightarrow> 'q VolumeOptions \<Rightarrow> SecretReference \<Rightarrow> ShareOptions \<Rightarrow> PersistentVolume" where
  "buildPersistentVolume share volSource volOptions shareSecretRef shareOptions =
     (let provisionType = (if so_OSShareAccessID shareOptions \<noteq> '''' then manilaProvisionTypeStatic else manilaProvisionTypeDynamic) in
      \<lparr> pv_Name = vo_PVName volOptions,
        pv_Annotations = [manilaAnnotationID \<mapsto> shr_ID share,
          manilaAnnotationOSSecretName \<mapsto> so_OSSecretName shareOptions,
          manilaAnnotationOSSecretNamespace \<mapsto> so_OSSecretNamespace shareOptions,
          manilaAnnotationShareSecretName \<mapsto> sr_Name shareSecretRef,
          manilaAnnotationShareSecretNamespace \<mapsto> sr_Namespace shareSecretRef,
          manilaAnnotationProvisionType \<mapsto> provisionType],
        pv_ReclaimPolicy = vo_ReclaimPolicy volOptions,
        pv_AccessModes = getPVAccessMode (pvc_AccessModes (vo_PVC volOptions)),
        pv_CapacityText = Itoa (shr_Size share) @ ''G'',
        pv_Source = volSource \<rparr>)"

section \<open>\<open>provisioner.go\<close>\<close>

text \<open>The part of \<open>Provision\<close> after the share: an error here runs the deferred rollback of a new share.\<close>

definition setup_share ::
  "('w, 'client) manila_api \<Rightarrow> ('w, 'client) ShareBackend \<Rightarrow> 'q VolumeOptions \<Rightarrow> ShareOptions \<Rightarrow> SecretReference \<Rightarrow> 'client \<Rightarrow>
     man_Share \<Rightarrow> ('w man_st, PersistentVolume) io" where
  "setup_share api shareBackend volOptions shareOptions shareSecretRef client share =
     bindE (wrapE (\<lambda>e. Errorf ''failed to get export locations for share %s: %v'' [FStr (shr_ID share), FErr e])
              (out_w (mi_GetExportLocations api client (shr_ID share)))) (\<lambda>availableExportLocations.
     bindE (wrapE (\<lambda>e. Errorf ''failed to choose an export location for share %s: %v'' [FStr (shr_ID share), FErr e])
              (lift_result (chooseExportLocation availableExportLocations))) (\<lambda>chosenExportLocation.
     bindE (wrapE (\<lambda>e. Errorf ''failed to grant access for share %s: %v'' [FStr (shr_ID share), FErr e])
              (out_w (be_GrantAccess shareBackend \<lparr> gr_Share = share, gr_Options = shareOptions,
                 gr_ShareSecretRef = shareSecretRef, gr_Client = client \<rparr>))) (\<lambda>accessRight.
     bindE (registerBackendForShare (so_Backend shareOptions) (shr_ID share)) (\<lambda>_.
     bindE (wrapE (\<lambda>e. Errorf ''backend %s failed to create volume source for share %s: %v''
                        [FStr (be_Name shareBackend), FStr (shr_ID share), FErr e])
              (lift_result (be_BuildSource shareBackend \<lparr> bs_VolumeHandle = ''pvc-'' @ pvc_UID (vo_PVC volOptions),
                 bs_Options = shareOptions, bs_ShareSecretRef = shareSecretRef, bs_Location = chosenExportLocation,
                 bs_AccessRight = accessRight \<rparr>))) (\<lambda>volSource.
     ret (buildPersistentVolume share volSource volOptions shareSecretRef shareOptions))))))"

text \<open>
  The deferred function: it deletes the share when a later step has failed, with the reference of the
  OpenStack credentials in the place of that of the share's secret. Its own error is only logged.
\<close>

definition rollback :: "('w, 'client) manila_api \<Rightarrow> string \<Rightarrow> SecretReference \<Rightarrow> 'client \<Rightarrow> ('w man_st, 'a) io \<Rightarrow> ('w man_st, 'a) io" where
  "rollback api shareID osSecretRef client m s =
     (case m s of
        (Err e, s') \<Rightarrow>
          (case deleteShare api shareID manilaProvisionTypeDynamic osSecretRef client s' of
             (Panic p, s'') \<Rightarrow> (Panic p, s'')
           | (_, s'') \<Rightarrow> (Err e, s''))
      | other \<Rightarrow> other)"

definition Provision :: "('w, 'prov, 'client, 'q) man_env \<Rightarrow> 'q VolumeOptions \<Rightarrow> ('w man_st, PersistentVolume) io" where
  "Provision env volOptions =
     (if pvc_Selector (vo_PVC volOptions) then fail (errors_New ''claim Selector is not supported'')
      else
        bindE (wrapE (\<lambda>e. Errorf ''failed to create share options: %v'' [FErr e])
                 (lift_result (NewShareOptions (me_zones env) volOptions))) (\<lambda>shareOptions.
        bindE (out_w (mi_NewUUID (me_api env))) (\<lambda>uuid.
          let osSecretRef = \<lparr> sr_Name = so_OSSecretName shareOptions, sr_Namespace = so_OSSecretNamespace shareOptions \<rparr>;
              shareSecretRef = \<lparr> sr_Name = ''manila-'' @ uuid, sr_Namespace = so_ShareSecretNamespace shareOptions \<rparr> in
        bindE (wrapE (\<lambda>e. Errorf ''failed to retrieve secrets %s:%s: %v''
                        [FStr (so_OSSecretNamespace shareOptions), FStr (so_OSSecretName shareOptions), FErr e])
                 (out_w (NewOpenStackOptionsFromSecret (mi_secret_Get (me_api env)) osSecretRef))) (\<lambda>osOptions.
        bindE (wrapE (\<lambda>e. Errorf ''failed to get share backend: %v'' [FErr e])
                 (lift_result (getShareBackend (me_api env) (so_Backend shareOptions)))) (\<lambda>shareBackend.
        bindE (wrapE (\<lambda>e. Errorf ''failed to create Manila v2 client: %v'' [FErr e])
                 (out_w (NewManilaV2Client (me_auth env) osOptions))) (\<lambda>client.
          if so_OSShareAccessID shareOptions = '''' then
            bindE (wrapE (\<lambda>e. Errorf ''failed to create a share: %v'' [FErr e])
                     (out_w (createShare env volOptions shareOptions client))) (\<lambda>share.
            rollback (me_api env) (shr_ID share) osSecretRef client
              (bindE (wrapE (\<lambda>e. Errorf ''waiting for share %s to become created failed: %v'' [FStr (shr_ID share), FErr e])
                        (out_w (waitForShareStatus (me_api env) (shr_ID share) client ''available''))) (\<lambda>_.
               setup_share (me_api env) shareBackend volOptions shareOptions shareSecretRef client share)))
          else
            bindE (wrapE (\<lambda>e. Errorf ''failed to get share %s: %v'' [FStr (so_OSShareID shareOptions), FErr e])
                     (out_w (getShare (me_api env) shareOptions client))) (\<lambda>share.
            setup_share (me_api env) shareBackend volOptions shareOptions shareSecretRef client share)))))))"

definition man_Delete :: "('w, 'prov, 'client, 'q) man_env \<Rightarrow> PersistentVolume \<Rightarrow> ('w man_st, unit) io" where
  "man_Delete env pv =
     bindE (wrapE (\<lambda>e. Errorf ''failed to get share ID for volume %s: %v'' [FStr (pv_Name pv), FErr e])
              (lift_result (getShareIDfromPV pv))) (\<lambda>shareID.
     bindE (wrapE (\<lambda>e. Errorf ''failed to get OpenStack secret reference from PV for share %s: %v'' [FStr shareID, FErr e])
              (lift_result (getOSSecretRefFromPV pv))) (\<lambda>osSecretRef.
     bindE (wrapE (\<lambda>e. Errorf ''failed to get share secret reference from PV for share %s: %v'' [FStr shareID, FErr e])
              (lift_result (getShareSecretRefFromPV pv))) (\<lambda>shareSecretRef.
     bindE (wrapE (\<lambda>e. Errorf ''failed to get provision type for volume %s: %v'' [FStr (pv_Name pv), FErr e])
              (lift_result (getProvisionTypeFromPV pv))) (\<lambda>provisionType.
     bindE (wrapE (\<lambda>e. Errorf ''failed to create OpenStack options for share %s: %v'' [FStr shareID, FErr e])
              (out_w (NewOpenStackOptionsFromSecret (mi_secret_Get (me_api env)) osSecretRef))) (\<lambda>osOptions.
     bindE (wrapE (\<lambda>e. Errorf ''failed to create Manila v2 client for share %s: %v'' [FStr shareID, FErr e])
              (out_w (NewManilaV2Client (me_auth env) osOptions))) (\<lambda>client.
     wrapE (\<lambda>e. Errorf ''failed to delete share %s: %v'' [FStr shareID, FErr e])
       (deleteShare (me_api env) shareID provisionType shareSecretRef client)))))))"

section \<open>What the steps keep\<close>

lemma out_w_eq [simp]: "out_w m (w, b) = (r, s) \<longleftrightarrow> (\<exists>w'. m w = (r, w') \<and> s = (w', b))"
  by (auto simp: out_w_def split: prod.splits)

lemma bindE_stage:
  assumes "bindE (wrapE f m) k s = (r, s')"
  obtains (pass) x s1 where "m s = (Ok x, s1)" "k x s1 = (r, s')"
    | (stop) q where "m s = (q, s')" "\<not> is_ok q" "\<not> is_ok r"
proof -
  obtain q s1 where m: "m s = (q, s1)" by fastforce
  show thesis
    using assms m pass stop by (cases q) (auto simp: bindE_def wrapE_def)
qed

definition auth_reads :: "('w, 'prov, 'client) manila_auth \<Rightarrow> ('w \<Rightarrow> 'v) \<Rightarrow> bool" where
  "auth_reads lib view \<longleftrightarrow>
     (\<forall>url. reads view (ma_NewClient lib url)) \<and> (\<forall>p. reads view (ma_ChooseVersion lib p)) \<and>
     (\<forall>p o1. reads view (ma_AuthenticateV2 lib p o1)) \<and> (\<forall>p o2. reads view (ma_AuthenticateV3 lib p o2)) \<and>
     (\<forall>p r. reads view (ma_NewSharedFileSystemV2 lib p r)) \<and> (\<forall>c. reads view (ma_apiversions_Get lib c))"

lemma NewManilaV2Client_reads: "auth_reads lib view \<Longrightarrow> reads view (NewManilaV2Client lib opts)"
  unfolding NewManilaV2Client_def authenticateClient_def validateManilaClient_def Let_def auth_reads_def
  by (intro reads_intros) blast+

lemma NewOpenStackOptions_reads: "manila_ok api sv kv \<Longrightarrow> reads (\<lambda>w. (sv w, kv w)) (NewOpenStackOptionsFromSecret (mi_secret_Get api) ref)"
  unfolding NewOpenStackOptionsFromSecret_def readSecrets_def by (intro reads_intros manila_okD(10))

lemma waitForShareStatus_reads:
  assumes "manila_ok api sv kv"
  shows "reads (\<lambda>w. (sv w, kv w)) (waitForShareStatus api i c status)"
proof -
  have "reads (\<lambda>s. (sv (fst s), kv (fst s))) (status_condition api i c status)"
    unfolding reads_def status_condition_def using readsD [OF manila_okD(3) [OF assms]]
    by (fastforce split: prod.splits result.splits)
  from readsD [OF manila_okD(12) [OF assms this]] show ?thesis
    unfolding reads_def waitForShareStatus_def by (fastforce split: prod.splits)
qed

lemma getShare_reads: "manila_ok api sv kv \<Longrightarrow> reads (\<lambda>w. (sv w, kv w)) (getShare api opts c)"
  unfolding getShare_def by (intro reads_intros manila_okD(3) manila_okD(4))

section \<open>The backends by name\<close>

lemma getShareBackend_Ok:
  assumes "getShareBackend api n = Ok b"
  shows "n = ''nfs'' \<and> b = NFS api \<or> n = ''cephfs'' \<and> b = CephFS api \<or> n = ''csi-cephfs'' \<and> b = CSICephFS api"
  using assms by (auto simp: getShareBackend_def shareBackends_def NFS_def CephFS_def CSICephFS_def split: if_splits option.splits)

definition ref_key :: "SecretReference \<Rightarrow> string \<times> string" where
  "ref_key r = (sr_Namespace r, sr_Name r)"

lemma backend_grant:
  assumes "manila_ok api sv kv" "getShareBackend api n = Ok b" "be_GrantAccess b args w = (q, w')"
  shows "sv w' = sv w \<and> (if n \<noteq> ''nfs'' \<and> is_ok q then kv w (ref_key (gr_ShareSecretRef args)) = None \<and>
    (\<exists>d. kv w' = (kv w)(ref_key (gr_ShareSecretRef args) \<mapsto> d)) else kv w' = kv w)"
  using getShareBackend_Ok [OF assms(2)] assms(1,3)
    nfs_be.grant_shares [of "(api, sv, kv)" args w q w', unfolded fst_conv snd_conv] nfs_be.grant_secrets [of "(api, sv, kv)" args w q w', unfolded fst_conv snd_conv]
    cephfs_be.grant_shares [of "(api, sv, kv)" args w q w', unfolded fst_conv snd_conv] cephfs_be.grant_secrets [of "(api, sv, kv)" args w q w', unfolded fst_conv snd_conv]
    csicephfs_be.grant_shares [of "(api, sv, kv)" args w q w', unfolded fst_conv snd_conv] csicephfs_be.grant_secrets [of "(api, sv, kv)" args w q w', unfolded fst_conv snd_conv]
  by (elim disjE conjE) (simp_all add: ref_key_def)

lemma backend_revoke:
  assumes "manila_ok api sv kv" "getShareBackend api n = Ok b" "be_RevokeAccess b args w = (q, w')"
  shows "sv w' = sv w \<and> kv w' = (if n \<noteq> ''nfs'' \<and> is_ok q then (kv w)(ref_key (ra_ShareSecretRef args) := None) else kv w)"
  using getShareBackend_Ok [OF assms(2)] assms(1,3)
    nfs_be.revoke_shares [of "(api, sv, kv)" args w q w'] nfs_be.revoke_secrets [of "(api, sv, kv)" args w q w']
    cephfs_be.revoke_shares [of "(api, sv, kv)" args w q w'] cephfs_be.revoke_secrets [of "(api, sv, kv)" args w q w']
    csicephfs_be.revoke_shares [of "(api, sv, kv)" args w q w'] csicephfs_be.revoke_secrets [of "(api, sv, kv)" args w q w']
  by (elim disjE conjE) (simp_all add: ref_key_def)

lemma backend_undo:
  assumes "manila_ok api sv kv" "getShareBackend api n = Ok b" "be_GrantAccess b args w = (Ok a, w1)" "kv w2 = kv w1"
    "be_RevokeAccess b rargs w2 = (Ok u, w3)" "ra_ShareSecretRef rargs = gr_ShareSecretRef args"
  shows "kv w3 = kv w"
  using getShareBackend_Ok [OF assms(2)] assms(1,3-6)
    nfs_be.revoke_undoes_grant [of "(api, sv, kv)" args w a w1 w2 rargs u w3]
    cephfs_be.revoke_undoes_grant [of "(api, sv, kv)" args w a w1 w2 rargs u w3]
    csicephfs_be.revoke_undoes_grant [of "(api, sv, kv)" args w a w1 w2 rargs u w3]
  by (elim disjE conjE) simp_all

section \<open>Setting up a share\<close>

definition grant_args :: "man_Share \<Rightarrow> ShareOptions \<Rightarrow> SecretReference \<Rightarrow> 'client \<Rightarrow> 'client GrantAccessArgs" where
  "grant_args share opts ref c = \<lparr> gr_Share = share, gr_Options = opts, gr_ShareSecretRef = ref, gr_Client = c \<rparr>"

text \<open>
  Either a step before the registration of the backend has failed, and then nothing has changed, or
  access has been granted and the share registered; only then can there be a volume.
\<close>

lemma setup_share_cases:
  assumes "manila_ok api sv kv" "getShareBackend api (so_Backend opts) = Ok bk"
    "setup_share api bk vo opts ref c share (w, b) = (r, (w1, b1))"
  obtains (unchanged) "\<not> is_ok r" "b1 = b" "sv w1 = sv w" "kv w1 = kv w"
    | (granted) a w0 where "be_GrantAccess bk (grant_args share opts ref c) w0 = (Ok a, w1)" "sv w0 = sv w" "kv w0 = kv w"
        "b1 = b(shr_ID share \<mapsto> so_Backend opts)" "\<And>pv. r = Ok pv \<Longrightarrow> \<exists>src. pv = buildPersistentVolume share src vo ref opts"
proof -
  obtain q w0 where locs: "mi_GetExportLocations api c (shr_ID share) w = (q, w0)" by fastforce
  have V: "sv w0 = sv w" "kv w0 = kv w" using readsD [OF manila_okD(5) [OF assms(1)] locs] by auto
  obtain q' w2 where grant: "be_GrantAccess bk (grant_args share opts ref c) w0 = (q', w2)" by fastforce
  note law = backend_grant [OF assms(1,2) grant]
  note steps = assms(3) [unfolded setup_share_def, folded grant_args_def]
  show thesis
  proof (cases "\<exists>ls loc a. q = Ok ls \<and> chooseExportLocation ls = Ok loc \<and> q' = Ok a")
    case True
    then obtain ls loc a where "q = Ok ls" "chooseExportLocation ls = Ok loc" and a: "q' = Ok a" by blast
    with steps locs grant have "w1 = w2 \<and> b1 = b(shr_ID share \<mapsto> so_Backend opts) \<and> (\<forall>pv. r = Ok pv \<longrightarrow> (\<exists>src. pv = buildPersistentVolume share src vo ref opts))"
      by (auto simp: out_w_def registerBackendForShare_def bindE_def wrapE_def lift_result_def ret_def split: result.splits prod.splits)
    with granted grant V a show thesis by blast
  next
    case False
    with steps locs grant have "\<not> is_ok r \<and> b1 = b \<and> (w1 = w0 \<or> w1 = w2 \<and> \<not> is_ok q')"
      by (auto simp: out_w_def bindE_def wrapE_def lift_result_def split: result.splits prod.splits)
    with unchanged V law show thesis by auto
  qed
qed

section \<open>Provisioning by cases\<close>

definition os_ref :: "ShareOptions \<Rightarrow> SecretReference" where
  "os_ref opts = \<lparr> sr_Name = so_OSSecretName opts, sr_Namespace = so_OSSecretNamespace opts \<rparr>"

definition share_ref :: "ShareOptions \<Rightarrow> string \<Rightarrow> SecretReference" where
  "share_ref opts uuid = \<lparr> sr_Name = ''manila-'' @ uuid, sr_Namespace = so_ShareSecretNamespace opts \<rparr>"

lemma out_w_stage:
  assumes "bindE (wrapE f (out_w m)) k (w, b) = (r, s')" "reads view m"
  obtains (pass) x w' where "view w' = view w" "k x (w', b) = (r, s')"
    | (stop) w' where "view w' = view w" "s' = (w', b)" "\<not> is_ok r"
proof -
  obtain q w' where m: "m w = (q, w')" by fastforce
  have "view w' = view w" using readsD [OF assms(2) m] .
  moreover have "(\<exists>x. k x (w', b) = (r, s')) \<or> s' = (w', b) \<and> \<not> is_ok r"
    using assms(1) m by (cases q) (auto simp: bindE_def wrapE_def out_w_def)
  ultimately show thesis using that by blast
qed

lemma bindE_wrap_lift: "bindE (wrapE f (lift_result (Ok x))) k = k x"
  by (simp add: bindE_def wrapE_def lift_result_def fun_eq_iff)

lemma bindE_out_w: "m w = (Ok x, w') \<Longrightarrow> bindE (out_w m) k (w, b) = k x (w', b)"
  by (simp add: bindE_def out_w_def)

lemma new_share_cases:
  assumes "manila_ok api sv kv" "getShareBackend api (so_Backend opts) = Ok bk"
    "bindE (wrapE f (out_w (waitForShareStatus api i c st))) (\<lambda>_. setup_share api bk vo opts ref c share) (w, b) = (r, (w1, b1))"
  obtains (unchanged) "\<not> is_ok r" "b1 = b" "sv w1 = sv w" "kv w1 = kv w"
    | (granted) a w0 where "be_GrantAccess bk (grant_args share opts ref c) w0 = (Ok a, w1)" "sv w0 = sv w" "kv w0 = kv w"
        "b1 = b(shr_ID share \<mapsto> so_Backend opts)" "\<And>pv. r = Ok pv \<Longrightarrow> \<exists>src. pv = buildPersistentVolume share src vo ref opts"
  using assms(3) waitForShareStatus_reads [OF assms(1)]
proof (cases rule: out_w_stage)
  case (pass x w')
  then have V: "sv w' = sv w" "kv w' = kv w" by simp_all
  from assms(1,2) pass(2) show thesis
  proof (cases rule: setup_share_cases)
    case (granted a w0)
    then show thesis using that(2) V by simp
  qed (use that(1) V in simp)
qed (use that(1) in simp)

lemma rollback_eq:
  assumes "rollback api i ref c m s = (r, s'')"
  obtains r' s' where "m s = (r', s')"
    "case r' of Err e \<Rightarrow> \<not> is_ok r \<and> (\<exists>q. deleteShare api i manilaProvisionTypeDynamic ref c s' = (q, s'')) | _ \<Rightarrow> r = r' \<and> s'' = s'"
proof -
  obtain r' s' where m: "m s = (r', s')" by (cases "m s")
  show thesis
    using that [OF m] assms m by (cases r') (auto simp: rollback_def split: prod.splits result.splits)
qed

lemma createShare_law:
  assumes "manila_ok (me_api env) sv kv" "createShare env vo opts c w = (r, w')"
  shows "kv w' = kv w \<and> (case r of Ok s \<Rightarrow> shr_ID s \<notin> sv w \<and> sv w' = insert (shr_ID s) (sv w) | _ \<Rightarrow> sv w' = sv w)"
proof (cases "buildCreateRequest (me_quantity env) vo opts")
  case (Ok req)
  then have "mi_Create (me_api env) c req w = (r, w')" using assms(2) by (simp add: createShare_def bindE_def lift_result_def)
  from manila_okD(1) [OF assms(1) this] show ?thesis .
qed (use assms(2) in \<open>auto simp: createShare_def bindE_def lift_result_def\<close>)

text \<open>
  What \<open>Provision\<close> has done: nothing, or it has created a share and gone on under the rollback, or found
  the share and gone on without.
\<close>

lemma Provision_cases:
  assumes "manila_ok (me_api env) sv kv" "auth_reads (me_auth env) (\<lambda>w. (sv w, kv w))"
    "Provision env vo (w, b) = (r, (w1, b1))"
  obtains (early) "\<not> is_ok r" "b1 = b" "sv w1 = sv w" "kv w1 = kv w"
    | (dynamic) opts uuid bk c share w2 f where "NewShareOptions (me_zones env) vo = Ok opts"
        "getShareBackend (me_api env) (so_Backend opts) = Ok bk" "so_OSShareAccessID opts = ''''"
        "shr_ID share \<notin> sv w" "sv w2 = insert (shr_ID share) (sv w)" "kv w2 = kv w"
        "rollback (me_api env) (shr_ID share) (os_ref opts) c
           (bindE (wrapE f (out_w (waitForShareStatus (me_api env) (shr_ID share) c ''available''))) (\<lambda>_.
              setup_share (me_api env) bk vo opts (share_ref opts uuid) c share)) (w2, b) = (r, (w1, b1))"
    | (static) opts uuid bk c share w2 where "NewShareOptions (me_zones env) vo = Ok opts"
        "getShareBackend (me_api env) (so_Backend opts) = Ok bk" "so_OSShareAccessID opts \<noteq> ''''"
        "sv w2 = sv w" "kv w2 = kv w"
        "setup_share (me_api env) bk vo opts (share_ref opts uuid) c share (w2, b) = (r, (w1, b1))"
proof (cases "\<exists>opts uuid w'. \<not> pvc_Selector (vo_PVC vo) \<and> NewShareOptions (me_zones env) vo = Ok opts \<and> mi_NewUUID (me_api env) w = (Ok uuid, w')")
  case True
  then obtain opts uuid wu where o1: "\<not> pvc_Selector (vo_PVC vo)" "NewShareOptions (me_zones env) vo = Ok opts"
    "mi_NewUUID (me_api env) w = (Ok uuid, wu)" by blast
  have Vu: "sv wu = sv w" "kv wu = kv w" using readsD [OF manila_okD(11) [OF assms(1)] o1(3)] by simp_all
  note steps = assms(3) [unfolded Provision_def Let_def, folded os_ref_def share_ref_def, simplified o1(1), simplified,
    unfolded o1(2) bindE_wrap_lift, unfolded bindE_out_w [where m = "mi_NewUUID (me_api env)" and w = w, OF o1(3)]]
  from steps NewOpenStackOptions_reads [OF assms(1)] show thesis
  proof (cases rule: out_w_stage)
    case (pass os wo)
    then have Vo: "sv wo = sv w" "kv wo = kv w" using Vu by simp_all
    show thesis
    proof (cases "getShareBackend (me_api env) (so_Backend opts)")
      case (Ok bk)
      from pass(2) [unfolded Ok bindE_wrap_lift] NewManilaV2Client_reads [OF assms(2)] show thesis
      proof (cases rule: out_w_stage)
        case (pass c wc)
        then have Vc: "sv wc = sv w" "kv wc = kv w" using Vo by simp_all
        show thesis
        proof (cases "so_OSShareAccessID opts = ''''")
          case True
          obtain q ws where cs: "createShare env vo opts c wc = (q, ws)" by fastforce
          note law = createShare_law [OF assms(1) cs, unfolded Vc]
          show thesis
          proof (cases q)
            case (Ok share)
            from pass(2) True cs Ok law show thesis
              by (intro dynamic [OF o1(2) \<open>getShareBackend (me_api env) (so_Backend opts) = Ok bk\<close> True, of share ws c])
                (simp_all add: bindE_def wrapE_def out_w_def)
          qed (use pass(2) True cs law early in \<open>auto simp: bindE_def wrapE_def out_w_def\<close>)
        next
          case False
          with pass(2) getShare_reads [OF assms(1)] show thesis
            apply simp
            apply (erule out_w_stage, assumption)
            subgoal for share w2 using static [OF o1(2) Ok False, of w2 uuid c share] Vc by simp
            subgoal using early Vc by simp
            done
        qed
      qed (use early Vo in simp)
    qed (use pass early Vo in \<open>auto simp: bindE_def wrapE_def lift_result_def\<close>)
  qed (use early Vu in simp)
next
  case False
  obtain q w' where "mi_NewUUID (me_api env) w = (q, w')" by fastforce
  moreover from this have "sv w' = sv w" "kv w' = kv w" using readsD [OF manila_okD(11) [OF assms(1)]] by auto
  ultimately show thesis
    using False assms(3) early
    by (auto simp: Provision_def bindE_def wrapE_def lift_result_def out_w_def fail_def split: if_splits result.splits)
qed

section \<open>Deleting\<close>

lemma deleteShare_map: "deleteShare api i pt ref c (w, b) = (r, (w1, b1)) \<Longrightarrow> b1 = b"
  by (auto simp: deleteShare_def revoke_registered_def bindE_def lift_result_def out_w_def
      split: result.splits option.splits prod.splits if_splits)

lemma deleteShare_Ok:
  assumes "deleteShare api i pt ref c (w, b) = (Ok (), (w1, b1))" "b i = Some n" "getShareBackend api n = Ok bk"
  obtains w' where "be_RevokeAccess bk \<lparr> ra_ShareID = i, ra_ShareSecretRef = ref \<rparr> w = (Ok (), w')"
    "if pt = manilaProvisionTypeDynamic then mi_Delete api c i w' = (Ok (), w1) else w1 = w'"
  using assms by (auto simp: deleteShare_def revoke_registered_def bindE_eq_Ok lift_result_def split: if_splits)

text \<open>With a backend that keeps secrets, deleting a share stops, or deletes the secret it is given before the share.\<close>

lemma deleteShare_effect:
  assumes "manila_ok api sv kv" "deleteShare api i manilaProvisionTypeDynamic ref c (w, b) = (r, (w1, b1))"
    "b i = Some n" "getShareBackend api n = Ok bk" "n \<noteq> ''nfs''"
  shows "sv w1 = sv w \<and> kv w1 = kv w \<or>
    (sv w1 = sv w \<or> sv w1 = sv w - {i}) \<and> kv w1 = (kv w)(ref_key ref := None)"
proof -
  obtain q w' where rev: "be_RevokeAccess bk \<lparr> ra_ShareID = i, ra_ShareSecretRef = ref \<rparr> w = (q, w')" by fastforce
  note law = backend_revoke [OF assms(1,4) rev]
  obtain q' w2 where del: "mi_Delete api c i w' = (q', w2)" by fastforce
  note dlaw = manila_okD(2) [OF assms(1) del]
  have "w1 = w' \<and> \<not> is_ok q \<or> w1 = w2 \<and> is_ok q"
    using assms(2-4) rev del
    by (cases q) (auto simp: deleteShare_def revoke_registered_def bindE_def lift_result_def out_w_def)
  then show ?thesis using law dlaw assms(5) by (cases q') auto
qed

text \<open>The annotations of a volume give \<open>Delete\<close> what \<open>Provision\<close> has put into them.\<close>

lemma annotations_back:
  "getShareIDfromPV (buildPersistentVolume share src vo ref opts) = Ok (shr_ID share)"
  "getOSSecretRefFromPV (buildPersistentVolume share src vo ref opts) = Ok (os_ref opts)"
  "getShareSecretRefFromPV (buildPersistentVolume share src vo ref opts) = Ok ref"
  "getProvisionTypeFromPV (buildPersistentVolume share src vo ref opts) =
     Ok (if so_OSShareAccessID opts = '''' then manilaProvisionTypeDynamic else manilaProvisionTypeStatic)"
  by (simp_all add: getShareIDfromPV_def getOSSecretRefFromPV_def getShareSecretRefFromPV_def getProvisionTypeFromPV_def
      getSecretRefFromPV_def getAnnotationFromPV_def buildPersistentVolume_def os_ref_def annotation_defs)

lemma man_Delete_Ok:
  assumes "manila_ok (me_api env) sv kv" "auth_reads (me_auth env) (\<lambda>w. (sv w, kv w))"
    "man_Delete env (buildPersistentVolume share src vo ref opts) (w, b) = (Ok (), (w1, b1))"
  obtains c w' where "sv w' = sv w" "kv w' = kv w"
    "deleteShare (me_api env) (shr_ID share) (if so_OSShareAccessID opts = '''' then manilaProvisionTypeDynamic else manilaProvisionTypeStatic)
       ref c (w', b) = (Ok (), (w1, b1))"
proof -
  from assms(3) obtain os wo c w' where "NewOpenStackOptionsFromSecret (mi_secret_Get (me_api env)) (os_ref opts) w = (Ok os, wo)"
    "NewManilaV2Client (me_auth env) os wo = (Ok c, w')" and
    del: "deleteShare (me_api env) (shr_ID share) (if so_OSShareAccessID opts = '''' then manilaProvisionTypeDynamic else manilaProvisionTypeStatic)
       ref c (w', b) = (Ok (), (w1, b1))"
    unfolding man_Delete_def annotations_back bindE_wrap_lift by (auto simp only: bindE_eq_Ok wrapE_eq_Ok out_w_eq)
  then have "(sv w', kv w') = (sv w, kv w)"
    using readsD [OF NewOpenStackOptions_reads [OF assms(1)]] readsD [OF NewManilaV2Client_reads [OF assms(2)]] by metis
  with that del show thesis by blast
qed

text \<open>What a volume stands for: access granted on top of the shares it started with, for a registered share.\<close>

lemma Provision_Ok:
  assumes "manila_ok (me_api env) sv kv" "auth_reads (me_auth env) (\<lambda>w. (sv w, kv w))"
    "Provision env vo (w, b) = (Ok pv, (w1, b1))"
  obtains opts ref bk c share src a w0 where "pv = buildPersistentVolume share src vo ref opts"
    "getShareBackend (me_api env) (so_Backend opts) = Ok bk" "b1 = b(shr_ID share \<mapsto> so_Backend opts)"
    "be_GrantAccess bk (grant_args share opts ref c) w0 = (Ok a, w1)" "kv w0 = kv w"
    "if so_OSShareAccessID opts = '''' then shr_ID share \<notin> sv w \<and> sv w1 = insert (shr_ID share) (sv w) else sv w1 = sv w"
  using assms
proof (cases rule: Provision_cases)
  case (dynamic opts uuid bk c share w2 f)
  from dynamic(7) obtain r' s' where inner: "bindE (wrapE f (out_w (waitForShareStatus (me_api env) (shr_ID share) c ''available''))) (\<lambda>_.
              setup_share (me_api env) bk vo opts (share_ref opts uuid) c share) (w2, b) = (r', s')" and "r' = Ok pv" "s' = (w1, b1)"
    by (rule rollback_eq) (auto split: result.splits)
  with inner have "bindE (wrapE f (out_w (waitForShareStatus (me_api env) (shr_ID share) c ''available''))) (\<lambda>_.
              setup_share (me_api env) bk vo opts (share_ref opts uuid) c share) (w2, b) = (Ok pv, (w1, b1))" by simp
  with assms(1) dynamic(2) show thesis
  proof (cases rule: new_share_cases)
    case (granted a w0)
    then obtain src where "pv = buildPersistentVolume share src vo (share_ref opts uuid) opts" by blast
    moreover have "sv w1 = sv w0" using backend_grant [OF assms(1) dynamic(2) granted(1)] by simp
    ultimately show thesis using that [OF _ dynamic(2) granted(4,1)] granted(2,3) dynamic(3-6) by simp
  qed simp
next
  case (static opts uuid bk c share w2)
  from assms(1) static(2,6) show thesis
  proof (cases rule: setup_share_cases)
    case (granted a w0)
    then obtain src where "pv = buildPersistentVolume share src vo (share_ref opts uuid) opts" by blast
    moreover have "sv w1 = sv w0" using backend_grant [OF assms(1) static(2) granted(1)] by simp
    ultimately show thesis using that [OF _ static(2) granted(4,1)] granted(2,3) static(3-5) by simp
  qed simp
qed simp

text \<open>
  C35. Deleting undoes provisioning: if \<open>Provision\<close> returns a volume and \<open>Delete\<close> of that volume then succeeds in
  the same process, the shares of Manila and the secrets of the cluster are those from before, whether
  the share was created or an existing one was used, and for every backend.
\<close>

theorem Provision_Delete:
  assumes "manila_ok (me_api env) sv kv" "auth_reads (me_auth env) (\<lambda>w. (sv w, kv w))"
    "Provision env volOptions (w, b) = (Ok pv, (w1, b1))" "man_Delete env pv (w1, b1) = (Ok (), (w2, b2))"
  shows "sv w2 = sv w \<and> kv w2 = kv w"
proof -
  from assms(1-3) obtain opts ref bk c share src a w0 where pv: "pv = buildPersistentVolume share src volOptions ref opts"
    and bk: "getShareBackend (me_api env) (so_Backend opts) = Ok bk" and b1: "b1 = b(shr_ID share \<mapsto> so_Backend opts)"
    and grant: "be_GrantAccess bk (grant_args share opts ref c) w0 = (Ok a, w1)" and kv0: "kv w0 = kv w"
    and sv1: "if so_OSShareAccessID opts = '''' then shr_ID share \<notin> sv w \<and> sv w1 = insert (shr_ID share) (sv w) else sv w1 = sv w"
    by (rule Provision_Ok)
  from assms(1,2) assms(4) [unfolded pv] obtain c' w' where V: "sv w' = sv w1" "kv w' = kv w1"
    and del: "deleteShare (me_api env) (shr_ID share) (if so_OSShareAccessID opts = '''' then manilaProvisionTypeDynamic else manilaProvisionTypeStatic)
       ref c' (w', b1) = (Ok (), (w2, b2))" by (rule man_Delete_Ok)
  have "b1 (shr_ID share) = Some (so_Backend opts)" using b1 by simp
  from del this bk obtain w'' where
    rev: "be_RevokeAccess bk \<lparr> ra_ShareID = shr_ID share, ra_ShareSecretRef = ref \<rparr> w' = (Ok (), w'')" and
    last: "if (if so_OSShareAccessID opts = '''' then manilaProvisionTypeDynamic else manilaProvisionTypeStatic) = manilaProvisionTypeDynamic
       then mi_Delete (me_api env) c' (shr_ID share) w'' = (Ok (), w2) else w2 = w''"
    by (rule deleteShare_Ok)
  have fin: "if so_OSShareAccessID opts = '''' then mi_Delete (me_api env) c' (shr_ID share) w'' = (Ok (), w2) else w2 = w''"
    using last by (simp add: manilaProvisionTypeDynamic_def manilaProvisionTypeStatic_def split: if_splits)
  have "kv w'' = kv w" using backend_undo [OF assms(1) bk grant V(2) rev] kv0 by (simp add: grant_args_def)
  moreover have "sv w'' = sv w1" using backend_revoke [OF assms(1) bk rev] V by simp
  ultimately show ?thesis
    using fin sv1 manila_okD(2) [OF assms(1), of c' "shr_ID share" w'' "Ok ()" w2] by (auto split: if_splits)
qed

text \<open>
  C36. A failed provisioning of a new share loses the credentials: when \<open>Provision\<close> fails after it has
  registered a backend that keeps secrets, the secret made for the share stays in the cluster, and
  the share is only ever removed along with the secret of the OpenStack credentials, whose reference
  the rollback passes in the place of the share's.
\<close>

theorem Provision_rollback:
  assumes "manila_ok (me_api env) sv kv" "auth_reads (me_auth env) (\<lambda>w. (sv w, kv w))"
    "Provision env volOptions (w, b) = (Err e, (w1, b1))" "b1 \<noteq> b"
    "NewShareOptions (me_zones env) volOptions = Ok opts" "so_OSShareAccessID opts = ''''" "so_Backend opts \<noteq> ''nfs''"
  shows "\<exists>i uuid d. i \<notin> sv w \<and> kv w (ref_key (share_ref opts uuid)) = None \<and>
    (sv w1 = insert i (sv w) \<and> kv w1 = (kv w)(ref_key (share_ref opts uuid) \<mapsto> d) \<or>
     (sv w1 = sv w \<or> sv w1 = insert i (sv w)) \<and>
       kv w1 = (kv w)(ref_key (share_ref opts uuid) \<mapsto> d, ref_key (os_ref opts) := None))"
  using assms(1-3)
proof (cases rule: Provision_cases)
  case (dynamic opts' uuid bk c share w2 f)
  have [simp]: "opts' = opts" using dynamic(1) assms(5) by simp
  from dynamic(7) obtain r' s' q where "bindE (wrapE f (out_w (waitForShareStatus (me_api env) (shr_ID share) c ''available''))) (\<lambda>_.
      setup_share (me_api env) bk volOptions opts' (share_ref opts' uuid) c share) (w2, b) = (r', s')"
    "deleteShare (me_api env) (shr_ID share) manilaProvisionTypeDynamic (os_ref opts') c s' = (q, (w1, b1))"
    by (rule rollback_eq) (auto split: result.splits)
  moreover obtain w3 b3 where "s' = (w3, b3)" by fastforce
  ultimately have inner: "bindE (wrapE f (out_w (waitForShareStatus (me_api env) (shr_ID share) c ''available''))) (\<lambda>_.
      setup_share (me_api env) bk volOptions opts' (share_ref opts' uuid) c share) (w2, b) = (r', (w3, b3))"
    and del: "deleteShare (me_api env) (shr_ID share) manilaProvisionTypeDynamic (os_ref opts') c (w3, b3) = (q, (w1, b1))" by simp_all
  from assms(1) dynamic(2) inner show ?thesis
  proof (cases rule: new_share_cases)
    case unchanged
    then show ?thesis using deleteShare_map [OF del] assms(4) by simp
  next
    case (granted a w0)
    from backend_grant [OF assms(1) dynamic(2) granted(1)] assms(7) granted(2,3) dynamic(5,6) obtain d where
      d: "sv w3 = insert (shr_ID share) (sv w)" "kv w (ref_key (share_ref opts uuid)) = None"
        "kv w3 = (kv w)(ref_key (share_ref opts uuid) \<mapsto> d)"
      by (auto simp: grant_args_def)
    have "b3 (shr_ID share) = Some (so_Backend opts')" using granted(4) by simp
    from deleteShare_effect [OF assms(1) del this dynamic(2)] assms(7) dynamic(4) d show ?thesis
      by (intro exI [of _ "shr_ID share"] exI [of _ uuid] exI [of _ d]) auto
  qed
qed (use assms(4,5,6) in simp_all)

section \<open>The export location, and deletion after a restart\<close>

definition eligible :: "ExportLocation \<Rightarrow> bool" where
  "eligible loc \<longleftrightarrow> \<not> el_IsAdminOnly loc \<and> TrimSpace (el_Path loc) \<noteq> ''''"

lemma choose_loop_spec:
  "choose_loop locs m =
     (case find (\<lambda>l. eligible l \<and> el_Preferred l) locs of
        Some l \<Rightarrow> Ok l
      | None \<Rightarrow> (case m of Some l \<Rightarrow> Ok l | None \<Rightarrow>
          (case find eligible locs of Some l \<Rightarrow> Ok l | None \<Rightarrow> Err (errors_New ''cannot find any non-admin export location''))))"
  by (induction locs m rule: choose_loop.induct) (auto simp: eligible_def split: option.splits)

text \<open>The first preferred location that a client can use, or the first that a client can use at all.\<close>

lemma chooseExportLocation_spec:
  "chooseExportLocation locs =
     (if locs = [] then Err (errors_New ''export locations list is empty'')
      else case find (\<lambda>l. eligible l \<and> el_Preferred l) locs of
        Some l \<Rightarrow> Ok l
      | None \<Rightarrow> (case find eligible locs of Some l \<Rightarrow> Ok l | None \<Rightarrow> Err (errors_New ''cannot find any non-admin export location'')))"
  unfolding chooseExportLocation_def choose_loop_spec
  by (cases "find (\<lambda>l. eligible l \<and> el_Preferred l) locs") simp_all

text \<open>
  The map of the backends is lost when the process ends. \<open>Delete\<close> of a volume of an earlier process
  succeeds and leaves the secret of the share behind.
\<close>

lemma Delete_after_restart:
  assumes "manila_ok (me_api env) sv kv" "auth_reads (me_auth env) (\<lambda>w. (sv w, kv w))" "b (shr_ID share) = None"
    "man_Delete env (buildPersistentVolume share src vo ref opts) (w, b) = (Ok (), (w1, b1))"
  shows "kv w1 = kv w"
  using assms(1,2,4)
proof (rule man_Delete_Ok)
  fix c w'
  assume V: "kv w' = kv w" and "deleteShare (me_api env) (shr_ID share)
    (if so_OSShareAccessID opts = '''' then manilaProvisionTypeDynamic else manilaProvisionTypeStatic) ref c (w', b) = (Ok (), (w1, b1))"
  then have "w1 = w' \<or> mi_Delete (me_api env) c (shr_ID share) w' = (Ok (), w1)"
    using assms(3) by (auto simp: deleteShare_def revoke_registered_def bindE_def split: if_splits)
  then show ?thesis using V manila_okD(2) [OF assms(1)] by (metis result.simps(8))
qed

section \<open>Services in memory\<close>

text \<open>A cluster and a Manila with one export location, whose clients are the unit value.\<close>

record mem_manila =
  mm_shares :: "man_Share list"
  mm_secrets :: secrets

definition mem_share :: "mem_manila \<Rightarrow> string \<Rightarrow> man_Share option" where
  "mem_share w i = find (\<lambda>s. shr_ID s = i) (mm_shares w)"

definition mem_api :: "string \<Rightarrow> (mem_manila, unit) manila_api" where
  "mem_api path = \<lparr>
     mi_Create = (\<lambda>_ opts w.
       let s = \<lparr> shr_ID = ''i'' @ concat (map shr_ID (mm_shares w)), shr_Name = sc_Name opts, shr_Size = sc_Size opts, shr_Status = ''available'' \<rparr>
       in (Ok s, w\<lparr> mm_shares := s # mm_shares w \<rparr>)),
     mi_Delete = (\<lambda>_ i w. (Ok (), w\<lparr> mm_shares := filter (\<lambda>s. shr_ID s \<noteq> i) (mm_shares w) \<rparr>)),
     mi_Get = (\<lambda>_ i w. (case mem_share w i of Some s \<Rightarrow> Ok s | None \<Rightarrow> Err (errors_New ''not found''), w)),
     mi_IDFromName = (\<lambda>_ n w. (case find (\<lambda>s. shr_Name s = n) (mm_shares w) of Some s \<Rightarrow> Ok (shr_ID s) | None \<Rightarrow> Err (errors_New ''not found''), w)),
     mi_GetExportLocations = (\<lambda>_ _ w. (Ok [\<lparr> el_Path = path, el_IsAdminOnly = False, el_Preferred = True \<rparr>], w)),
     mi_GrantAccess = (\<lambda>_ _ opts w. (Ok \<lparr> ar_ID = ''a'', ar_AccessType = ga_AccessType opts, ar_AccessTo = ga_AccessTo opts, ar_AccessKey = ''k'' \<rparr>, w)),
     mi_ListAccessRights = (\<lambda>_ _ w. (Ok [\<lparr> ar_ID = ''a'', ar_AccessType = ''cephx'', ar_AccessTo = ''u'', ar_AccessKey = ''k'' \<rparr>], w)),
     mi_secret_Create = (\<lambda>ns n d w. if mm_secrets w (ns, n) = None then (Ok (), w\<lparr> mm_secrets := (mm_secrets w)((ns, n) \<mapsto> d) \<rparr>)
       else (Err (errors_New ''already exists''), w)),
     mi_secret_Delete = (\<lambda>ns n w. (Ok (), w\<lparr> mm_secrets := (mm_secrets w)((ns, n) := None) \<rparr>)),
     mi_secret_Get = (\<lambda>ns n w. (case mm_secrets w (ns, n) of Some d \<Rightarrow> Ok (map_of d) | None \<Rightarrow> Err (errors_New ''not found''), w)),
     mi_NewUUID = (\<lambda>w. (Ok ''uuid'', w)),
     mi_WaitFor = (\<lambda>_ c s. case c s of (Ok True, s') \<Rightarrow> (Ok (), s') | (Ok False, s') \<Rightarrow> (Err (errors_New ''timeout''), s')
       | (Err e, s') \<Rightarrow> (Err e, s') | (Panic p, s') \<Rightarrow> (Panic p, s')) \<rparr>"

definition mem_auth :: "(mem_manila, unit, unit) manila_auth" where
  "mem_auth = \<lparr> ma_NewClient = (\<lambda>_. ret ()), ma_SetHTTPClient = (\<lambda>p _. p), ma_ChooseVersion = (\<lambda>_. ret ''v3''),
     ma_AuthenticateV2 = (\<lambda>p _. ret p), ma_AuthenticateV3 = (\<lambda>p _. ret p), ma_NewSharedFileSystemV2 = (\<lambda>_ _. ret ()),
     ma_SetMicroversion = (\<lambda>c _. c), ma_apiversions_Get = (\<lambda>_. ret (''2.0'', ''2.40'')) \<rparr>"

definition mem_env :: "string \<Rightarrow> (mem_manila, unit, unit, int) man_env" where
  "mem_env path = \<lparr> me_auth = mem_auth, me_api = mem_api path, me_zones = demo_zones,
     me_quantity = \<lparr> qa_IsZero = (\<lambda>q. q = 0), qa_Sign = sgn, qa_GigaText = Itoa \<rparr> \<rparr>"

definition mem_w0 :: mem_manila where
  "mem_w0 = \<lparr> mm_shares = [], mm_secrets = [(''default'', ''os'') \<mapsto> [(''os-authURL'', ''http://k''), (''os-region'', ''r''),
     (''os-password'', ''p''), (''os-userID'', ''u''), (''os-domainID'', ''d''), (''os-projectID'', ''t'')]] \<rparr>"

definition mem_ids :: "mem_manila \<Rightarrow> string set" where
  "mem_ids w = shr_ID ` set (mm_shares w)"

lemma mem_fresh: "''i'' @ concat (map shr_ID l) \<notin> shr_ID ` set l"
proof
  assume "''i'' @ concat (map shr_ID l) \<in> shr_ID ` set l"
  then have "length (''i'' @ concat (map shr_ID l)) \<in> length ` set (map shr_ID l)" by (simp only: set_map imageI)
  moreover have "length x \<le> length (concat xs)" if "x \<in> set xs" for x :: string and xs
    using that by (induction xs) auto
  ultimately show False by fastforce
qed

lemma mem_manila_ok: "manila_ok (mem_api path) mem_ids mm_secrets"
  unfolding manila_ok_def
proof (intro conjI, goal_cases)
  case 1
  show ?case using mem_fresh by (auto simp: mem_api_def mem_ids_def Let_def)
next
  case 12
  show ?case unfolding reads_def mem_api_def by (auto split: prod.splits result.splits bool.splits) metis+
qed (auto simp: mem_api_def mem_ids_def reads_def)

lemma mem_auth_reads: "auth_reads (me_auth (mem_env path)) view"
  by (simp add: auth_reads_def mem_env_def mem_auth_def)

theorem Provision_Delete_witness:
  "\<exists>pv w1 b1 w2 b2. Provision (mem_env ''mon:/p'') demo_volume (mem_w0, Map.empty) = (Ok pv, (w1, b1)) \<and>
     man_Delete (mem_env ''mon:/p'') pv (w1, b1) = (Ok (), (w2, b2)) \<and> mem_ids w2 = mem_ids mem_w0 \<and> mm_secrets w2 = mm_secrets mem_w0"
proof -
  have "case Provision (mem_env ''mon:/p'') demo_volume (mem_w0, Map.empty) of
      (Ok pv, s) \<Rightarrow> is_ok (fst (man_Delete (mem_env ''mon:/p'') pv s)) | _ \<Rightarrow> False" by code_simp
  then obtain pv w1 b1 w2 b2 where runs: "Provision (mem_env ''mon:/p'') demo_volume (mem_w0, Map.empty) = (Ok pv, (w1, b1))"
    "man_Delete (mem_env ''mon:/p'') pv (w1, b1) = (Ok (), (w2, b2))"
    by (cases "Provision (mem_env ''mon:/p'') demo_volume (mem_w0, Map.empty)") (auto simp: is_ok_iff fst_def split: result.splits prod.splits)
  have "manila_ok (me_api (mem_env ''mon:/p'')) mem_ids mm_secrets" by (simp add: mem_env_def mem_manila_ok)
  from Provision_Delete [OF this mem_auth_reads runs] runs show ?thesis by blast
qed

theorem Provision_rollback_witness:
  "\<exists>e w1 b1. Provision (mem_env ''nowhere'') demo_volume (mem_w0, Map.empty) = (Err e, (w1, b1)) \<and>
     mem_ids w1 = {} \<and> mm_secrets w1 (''default'', ''os'') = None"
proof -
  have eval: "case Provision (mem_env ''nowhere'') demo_volume (mem_w0, Map.empty) of
      (Err e, (w1, b1)) \<Rightarrow> b1 ''i'' \<noteq> None \<and> mm_shares w1 = [] | _ \<Rightarrow> False" by code_simp
  obtain r w1 b1 where p: "Provision (mem_env ''nowhere'') demo_volume (mem_w0, Map.empty) = (r, (w1, b1))" by (rule prod_cases3)
  from eval obtain e where "r = Err e" and b1: "b1 ''i'' \<noteq> None" and none: "mem_ids w1 = {}"
    unfolding p by (cases r) (simp_all add: mem_ids_def)
  with p have run: "Provision (mem_env ''nowhere'') demo_volume (mem_w0, Map.empty) = (Err e, (w1, b1))" by simp
  have "case NewShareOptions (me_zones (mem_env ''nowhere'')) demo_volume of
      Ok opts \<Rightarrow> so_OSShareAccessID opts = '''' \<and> so_Backend opts \<noteq> ''nfs'' \<and> ref_key (os_ref opts) = (''default'', ''os'') | _ \<Rightarrow> False"
    by code_simp
  then obtain opts where opts: "NewShareOptions (me_zones (mem_env ''nowhere'')) demo_volume = Ok opts" "so_OSShareAccessID opts = ''''"
    "so_Backend opts \<noteq> ''nfs''" and os: "ref_key (os_ref opts) = (''default'', ''os'')"
    by (auto split: result.splits)
  have "manila_ok (me_api (mem_env ''nowhere'')) mem_ids mm_secrets" by (simp add: mem_env_def mem_manila_ok)
  from Provision_rollback [OF this mem_auth_reads run _ opts] b1 none os
  have "mm_secrets w1 (''default'', ''os'') = None" by fastforce
  with run none show ?thesis by blast
qed

end
