(* ===== verification/Go_Filepath.thy ===== *)
theory Go_Filepath
  imports Go_Strings "HOL-Library.Sublist"
begin

text \<open>
  The lexical functions of Go's \<open>path/filepath\<close> (on Unix, where \<open>path\<close> has the same ones): \<open>Clean\<close>,
  \<open>Join\<close>, \<open>Dir\<close>, \<open>Base\<close> and \<open>Rel\<close>, by the elements of a path. An absolute path without dots is
  \<open>abs_path names\<close>; on such paths \<open>Rel\<close> goes up to the longest common prefix and down again.
\<close>

section \<open>Definitions\<close>

text \<open>The elements that \<open>Clean\<close> keeps; the accumulator has them in reverse.\<close>

fun clean_names :: "bool \<Rightarrow> string list \<Rightarrow> string list \<Rightarrow> string list" where
  "clean_names rooted out [] = rev out"
| "clean_names rooted out (n # ns) =
     (if n = '''' \<or> n = ''.'' then clean_names rooted out ns
      else if n = ''..'' then
        (case out of
           [] \<Rightarrow> clean_names rooted (if rooted then [] else [''..'']) ns
         | m # ms \<Rightarrow> clean_names rooted (if m = ''..'' then ''..'' # out else ms) ns)
      else clean_names rooted (n # out) ns)"

definition is_rooted :: "string \<Rightarrow> bool" where
  "is_rooted p \<longleftrightarrow> HasPrefix p ''/''"

definition render :: "bool \<Rightarrow> string list \<Rightarrow> string" where
  "render rooted ns = (if rooted then ''/'' @ strings_Join ns ''/'' else if ns = [] then ''.'' else strings_Join ns ''/'')"

definition filepath_Clean :: "string \<Rightarrow> string" where
  "filepath_Clean p = render (is_rooted p) (clean_names (is_rooted p) [] (strings_Split p CHR ''/''))"

fun filepath_Join :: "string list \<Rightarrow> string" where
  "filepath_Join [] = ''''"
| "filepath_Join (e # es) = (if e \<noteq> '''' then filepath_Clean (strings_Join (e # es) ''/'') else filepath_Join es)"

text \<open>\<open>Dir\<close> keeps the path up to its last slash, \<open>Base\<close> the last element.\<close>

definition filepath_Dir :: "string \<Rightarrow> string" where
  "filepath_Dir p = filepath_Clean (rev (dropWhile (\<lambda>c. c \<noteq> CHR ''/'') (rev p)))"

definition filepath_Base :: "string \<Rightarrow> string" where
  "filepath_Base p =
     (if p = '''' then ''.''
      else
        let q = rev (takeWhile (\<lambda>c. c \<noteq> CHR ''/'') (dropWhile (\<lambda>c. c = CHR ''/'') (rev p))) in
        if q = '''' then ''/'' else q)"

fun strip_common :: "string list \<Rightarrow> string list \<Rightarrow> string list \<times> string list" where
  "strip_common (b # bs) (t # ts) = (if b = t then strip_common bs ts else (b # bs, t # ts))"
| "strip_common bs ts = (bs, ts)"

definition path_names :: "string \<Rightarrow> string list" where
  "path_names p = clean_names (is_rooted p) [] (strings_Split p CHR ''/'')"

text \<open>An error if only the current directory would tell how to get from the base to the target.\<close>

definition filepath_Rel :: "string \<Rightarrow> string \<Rightarrow> string result" where
  "filepath_Rel basepath targpath =
     (let base = filepath_Clean basepath; targ = filepath_Clean targpath in
      if targ = base then Ok ''.''
      else if is_rooted base \<noteq> is_rooted targ then Err (Errorf ''Rel: can't make %s relative to %s'' [FStr targpath, FStr basepath])
      else
        let (bs, ts) = strip_common (path_names base) (if targ = ''.'' then [''.''] else path_names targ) in
        if bs \<noteq> [] \<and> hd bs = ''..'' then Err (Errorf ''Rel: can't make %s relative to %s'' [FStr targpath, FStr basepath])
        else Ok (strings_Join (replicate (length bs) ''..'' @ ts) ''/''))"

section \<open>Absolute paths without dots\<close>

definition file_name :: "string \<Rightarrow> bool" where
  "file_name n \<longleftrightarrow> n \<noteq> '''' \<and> n \<noteq> ''.'' \<and> n \<noteq> ''..'' \<and> CHR ''/'' \<notin> set n"

definition abs_path :: "string list \<Rightarrow> string" where
  "abs_path ns = ''/'' @ strings_Join ns ''/''"

lemma split_Join:
  "ns \<noteq> [] \<Longrightarrow> \<forall>n \<in> set ns. d \<notin> set n \<Longrightarrow> strings_Split (strings_Join ns [d]) d = ns"
proof (induction ns rule: induct_list012)
  case (3 x y zs)
  then show ?case by (simp add: strings_Split_def split_char_append)
qed (simp_all add: strings_Split_def split_char_no_sep)

lemma clean_names_files: "\<forall>n \<in> set ns. file_name n \<Longrightarrow> clean_names rooted out ns = rev out @ ns"
  by (induction ns arbitrary: out) (auto simp: file_name_def)

lemma abs_path_rooted [simp]: "is_rooted (abs_path ns)"
  by (simp add: is_rooted_def abs_path_def)

lemma split_abs_path:
  "\<forall>n \<in> set ns. file_name n \<Longrightarrow> strings_Split (abs_path ns) CHR ''/'' = '''' # (if ns = [] then [''''] else ns)"
  using split_Join [of ns] by (auto simp: abs_path_def strings_Split_def file_name_def)

lemma path_names_abs [simp]: "\<forall>n \<in> set ns. file_name n \<Longrightarrow> path_names (abs_path ns) = ns"
  by (simp add: path_names_def split_abs_path clean_names_files)

lemma Clean_abs [simp]: "\<forall>n \<in> set ns. file_name n \<Longrightarrow> filepath_Clean (abs_path ns) = abs_path ns"
  using path_names_abs [of ns] unfolding filepath_Clean_def path_names_def render_def by (simp, simp add: abs_path_def)

lemma abs_path_inject:
  "\<forall>n \<in> set ns. file_name n \<Longrightarrow> \<forall>n \<in> set ms. file_name n \<Longrightarrow> abs_path ns = abs_path ms \<longleftrightarrow> ns = ms"
  by (metis path_names_abs)

lemma abs_path_not_dot [simp]: "abs_path ns \<noteq> ''.''"
  by (simp add: abs_path_def)

lemma strip_common_prefix: "strip_common bs ts = (bs', ts') \<Longrightarrow> \<exists>p. bs = p @ bs' \<and> ts = p @ ts' \<and> (bs' = [] \<or> ts' = [] \<or> hd bs' \<noteq> hd ts')"
proof (induction bs ts rule: strip_common.induct)
  case (1 b bs t ts)
  then show ?case
  proof (cases "b = t")
    case True
    with 1 obtain p where "bs = p @ bs'" "ts = p @ ts'" "bs' = [] \<or> ts' = [] \<or> hd bs' \<noteq> hd ts'" by auto
    with True show ?thesis by (intro exI [of _ "b # p"]) simp
  qed auto
qed auto

lemma Rel_abs:
  assumes "\<forall>n \<in> set bs. file_name n" "\<forall>n \<in> set ts. file_name n"
  shows "filepath_Rel (abs_path bs) (abs_path ts) =
    Ok (if ts = bs then ''.''
        else case strip_common bs ts of (bs', ts') \<Rightarrow> strings_Join (replicate (length bs') ''..'' @ ts') ''/'')"
proof -
  obtain bs' ts' where s: "strip_common bs ts = (bs', ts')" by fastforce
  from strip_common_prefix [OF s] have "set bs' \<subseteq> set bs" by auto
  then have "bs' = [] \<or> hd bs' \<noteq> ''..''" using assms(1) by (cases bs') (auto simp: file_name_def)
  then show ?thesis using assms s by (auto simp: filepath_Rel_def Let_def abs_path_inject)
qed

text \<open>Joining a name to a path, and the way back.\<close>

lemma Join_append: "ns \<noteq> [] \<Longrightarrow> ms \<noteq> [] \<Longrightarrow> strings_Join (ns @ ms) sep = strings_Join ns sep @ sep @ strings_Join ms sep"
proof (induction ns rule: induct_list012)
  case (2 x)
  then show ?case by (cases ms) simp_all
qed simp_all

lemma Join_abs:
  assumes "\<forall>n \<in> set ns. file_name n" "\<forall>m \<in> set ms. file_name m"
  shows "filepath_Join (abs_path ns # ms) = abs_path (ns @ ms)"
proof -
  have ne: "abs_path ns \<noteq> ''''" by (simp add: abs_path_def)
  have "strings_Split (strings_Join (abs_path ns # ms) ''/'') CHR ''/'' = '''' # (if ns = [] then [''''] else ns) @ ms"
  proof (cases "ms = []")
    case False
    have "strings_Join (abs_path ns # ms) ''/'' = ''/'' @ strings_Join ((if ns = [] then [''''] else ns) @ ms) ''/''"
      using False Join_append [of "[abs_path ns]" ms "''/''"] Join_append [of "if ns = [] then [''''] else ns" ms "''/''"]
      by (auto simp: abs_path_def)
    moreover have "strings_Split (strings_Join ((if ns = [] then [''''] else ns) @ ms) ''/'') CHR ''/'' = (if ns = [] then [''''] else ns) @ ms"
      using assms by (intro split_Join) (auto simp: file_name_def)
    ultimately show ?thesis by (simp add: strings_Split_def)
  qed (use split_abs_path [OF assms(1)] in simp)
  moreover have "is_rooted (strings_Join (abs_path ns # ms) ''/'')"
    by (cases ms) (simp_all add: is_rooted_def abs_path_def)
  moreover have "clean_names True [] ('''' # (if ns = [] then [''''] else ns) @ ms) = ns @ ms"
  proof -
    have "\<forall>n \<in> set (ns @ ms). file_name n" using assms by auto
    from clean_names_files [OF this, of True "[]"] show ?thesis by (cases "ns = []") simp_all
  qed
  ultimately show ?thesis
    using ne by (simp add: filepath_Clean_def render_def abs_path_def [of "ns @ ms"])
qed

lemma dropWhile_rev_Join:
  assumes "CHR ''/'' \<notin> set n"
  shows "dropWhile (\<lambda>c. c \<noteq> CHR ''/'') (rev (p @ ''/'' @ n)) = ''/'' @ rev p"
  using assms by (simp add: dropWhile_append)

lemma Dir_abs:
  assumes "\<forall>m \<in> set ns. file_name m" "file_name n"
  shows "filepath_Dir (abs_path (ns @ [n])) = abs_path ns"
proof -
  have "abs_path (ns @ [n]) = (if ns = [] then '''' else abs_path ns) @ ''/'' @ n"
    using Join_append [of ns "[n]" "''/''"] by (auto simp: abs_path_def)
  then have "rev (dropWhile (\<lambda>c. c \<noteq> CHR ''/'') (rev (abs_path (ns @ [n])))) = (if ns = [] then '''' else abs_path ns) @ ''/''"
    using dropWhile_rev_Join [of n "if ns = [] then '''' else abs_path ns"] assms(2) by (simp add: file_name_def)
  moreover have "filepath_Clean ((if ns = [] then '''' else abs_path ns) @ ''/'') = abs_path ns"
  proof (cases "ns = []")
    case False
    have "strings_Split (abs_path ns @ ''/'') CHR ''/'' = '''' # ns @ ['''']"
      using False assms(1) split_Join [of "'''' # ns @ ['''']" "CHR ''/''"] Join_append [of "'''' # ns" "['''']" "''/''"]
      by (cases ns) (auto simp: abs_path_def file_name_def)
    moreover have "clean_names True [] ('''' # ns @ ['''']) = ns"
      using assms(1)
    proof -
      have "clean_names True out (ns @ ['''']) = rev out @ ns" for out
        using assms(1) by (induction ns arbitrary: out) (auto simp: file_name_def)
      then show ?thesis by simp
    qed
    ultimately show ?thesis
      using False by (simp add: filepath_Clean_def render_def is_rooted_def abs_path_def [of ns])
  qed (simp add: filepath_Clean_def render_def is_rooted_def abs_path_def strings_Split_def)
  ultimately show ?thesis by (simp add: filepath_Dir_def)
qed

text \<open>What \<open>Clean\<close> makes of an absolute path has no dots left.\<close>

lemma clean_names_rooted:
  "\<forall>n \<in> set ns. CHR ''/'' \<notin> set n \<Longrightarrow> \<forall>n \<in> set out. file_name n \<Longrightarrow> n \<in> set (clean_names True out ns) \<Longrightarrow> file_name n"
proof (induction ns arbitrary: out)
  case (Cons m ns)
  consider "m = '''' \<or> m = ''.''" | "m = ''..''" | "file_name m" "m \<noteq> ''..''" "\<not> (m = '''' \<or> m = ''.'')"
    using Cons.prems(1) by (auto simp: file_name_def)
  then show ?case
  proof cases
    case 1
    then show ?thesis using Cons.prems Cons.IH [of out] by simp
  next
    case 2
    then show ?thesis using Cons.prems Cons.IH [of "[]"] Cons.IH [of "tl out"]
      by (cases out) (auto simp: file_name_def [of "''..''"] split: if_splits)
  next
    case 3
    then show ?thesis using Cons.prems Cons.IH [of "m # out"] by simp
  qed
qed simp

lemma Clean_rooted:
  assumes "is_rooted p"
  shows "filepath_Clean p = abs_path (path_names p)" "\<forall>n \<in> set (path_names p). file_name n"
  using assms clean_names_rooted [of "strings_Split p CHR ''/''" "[]"] split_char_pieces [of _ "CHR ''/''" p]
  by (auto simp: filepath_Clean_def path_names_def render_def abs_path_def strings_Split_def)

text \<open>The step up from a directory.\<close>

lemma Join_up:
  assumes "\<forall>n \<in> set ns. file_name n" "ns \<noteq> []"
  shows "filepath_Join [abs_path ns, ''..''] = abs_path (butlast ns)"
proof -
  have "abs_path ns @ ''/..'' = ''/'' @ strings_Join (ns @ [''..'']) ''/''"
    using Join_append [of ns "[''..'']" "''/''"] assms(2) by (simp add: abs_path_def)
  moreover have "strings_Split (strings_Join (ns @ [''..'']) ''/'') CHR ''/'' = ns @ [''..'']"
    using assms(1) by (intro split_Join) (auto simp: file_name_def)
  ultimately have "strings_Split (abs_path ns @ ''/..'') CHR ''/'' = '''' # ns @ [''..'']" by (simp add: strings_Split_def)
  moreover have "clean_names True [] (ns @ [''..'']) = butlast ns"
  proof -
    have "clean_names True out (ns @ [''..'']) = rev out @ butlast ns" for out
      using assms by (induction ns arbitrary: out) (auto simp: file_name_def)
    then show ?thesis by simp
  qed
  moreover have "is_rooted (abs_path ns @ ''/..'')" by (simp add: is_rooted_def abs_path_def)
  ultimately show ?thesis
    by (simp add: filepath_Clean_def render_def abs_path_def [of "butlast ns"]) (simp add: abs_path_def)
qed

lemma Join_here: "\<forall>n \<in> set ns. file_name n \<Longrightarrow> filepath_Join [abs_path ns, ''.''] = abs_path ns"
proof -
  assume ns: "\<forall>n \<in> set ns. file_name n"
  have "abs_path ns @ ''/.'' = ''/'' @ strings_Join ((if ns = [] then [''''] else ns) @ [''.'']) ''/''"
    using Join_append [of "if ns = [] then [''''] else ns" "[''.'']" "''/''"] by (auto simp: abs_path_def)
  moreover have "strings_Split (strings_Join ((if ns = [] then [''''] else ns) @ [''.'']) ''/'') CHR ''/'' = (if ns = [] then [''''] else ns) @ [''.'']"
    using ns by (intro split_Join) (auto simp: file_name_def)
  ultimately have "strings_Split (abs_path ns @ ''/.'') CHR ''/'' = '''' # (if ns = [] then [''''] else ns) @ [''.'']" by (simp add: strings_Split_def)
  moreover have "clean_names True out (ns @ [''.'']) = rev out @ ns" for out
    using ns by (induction ns arbitrary: out) (auto simp: file_name_def)
  moreover have "is_rooted (abs_path ns @ ''/.'')" by (simp add: is_rooted_def abs_path_def)
  ultimately show ?thesis
    by (simp add: filepath_Clean_def render_def abs_path_def [of ns])
qed

end
