(* ===== verification/Mount_Util.thy ===== *)
theory Mount_Util
  imports Go_Filepath Go_Conv "HOL-Library.Word"
begin

text \<open>
  The mount utilities: \<open>pkg/util/mount/mount.go\<close>, the parsers and the mount commands of
  \<open>mount_linux.go\<close>, and \<open>ConsistentRead\<close> and \<open>FileExists\<close> of \<open>pkg/util/io\<close> and \<open>pkg/util/file\<close>. The calls of the
  operating system are the fields of \<open>mnt_os\<close>; an error of theirs is \<open>External\<close> with the name of its
  number, and a file mode is a 32-bit word as in \<open>os.FileMode\<close>.
\<close>

unbundle bit_operations_syntax

section \<open>The operating system\<close>

definition os_IsNotExist :: "gerror \<Rightarrow> bool" where
  "os_IsNotExist e \<longleftrightarrow> e = External ''ENOENT''"

definition os_IsExist :: "gerror \<Rightarrow> bool" where
  "os_IsExist e \<longleftrightarrow> e = External ''EEXIST'' \<or> e = External ''ENOTEMPTY''"

definition os_IsPermission :: "gerror \<Rightarrow> bool" where
  "os_IsPermission e \<longleftrightarrow> e = External ''EACCES'' \<or> e = External ''EPERM''"

type_synonym FileMode = "32 word"

definition ModeDir :: FileMode where "ModeDir = push_bit 31 1"
definition ModeSymlink :: FileMode where "ModeSymlink = push_bit 27 1"
definition ModeDevice :: FileMode where "ModeDevice = push_bit 26 1"
definition ModeNamedPipe :: FileMode where "ModeNamedPipe = push_bit 25 1"
definition ModeSocket :: FileMode where "ModeSocket = push_bit 24 1"
definition ModeSetuid :: FileMode where "ModeSetuid = push_bit 23 1"
definition ModeSetgid :: FileMode where "ModeSetgid = push_bit 22 1"
definition ModeCharDevice :: FileMode where "ModeCharDevice = push_bit 21 1"
definition ModeSticky :: FileMode where "ModeSticky = push_bit 20 1"
definition ModeIrregular :: FileMode where "ModeIrregular = push_bit 19 1"
definition ModePerm :: FileMode where "ModePerm = 0x1FF"

definition mode_IsDir :: "FileMode \<Rightarrow> bool" where
  "mode_IsDir m \<longleftrightarrow> m AND ModeDir \<noteq> 0"

definition mode_IsRegular :: "FileMode \<Rightarrow> bool" where
  "mode_IsRegular m \<longleftrightarrow>
     m AND (ModeDir OR ModeSymlink OR ModeNamedPipe OR ModeSocket OR ModeDevice OR ModeCharDevice OR ModeIrregular) = 0"

record FileInfo =
  fi_Mode :: FileMode
  fi_Dev :: int
  fi_Gid :: int

datatype open_flags = O_RDONLY | O_RDONLY_NOFOLLOW | O_PATH_NOFOLLOW | O_PATH | O_RDONLY_EXCL

record 'w mnt_os =
  fs_ReadFile :: "string \<Rightarrow> ('w, string) io"
  fs_Stat :: "string \<Rightarrow> ('w, FileInfo) io"
  fs_Lstat :: "string \<Rightarrow> ('w, FileInfo) io"
  fs_EvalSymlinks :: "string \<Rightarrow> ('w, string) io"
  fs_MkdirAll :: "string \<Rightarrow> FileMode \<Rightarrow> ('w, unit) io"
  fs_Mkdir :: "string \<Rightarrow> FileMode \<Rightarrow> ('w, unit) io"
  fs_WriteFile :: "string \<Rightarrow> string \<Rightarrow> FileMode \<Rightarrow> ('w, unit) io"
  fs_Create :: "string \<Rightarrow> FileMode \<Rightarrow> ('w, unit) io"
  fs_Remove :: "string \<Rightarrow> ('w, unit) io"
  fs_ReadDir :: "string \<Rightarrow> ('w, (string \<times> bool) list) io"
  fs_Open :: "string \<Rightarrow> open_flags \<Rightarrow> ('w, int) io"
  fs_Openat :: "int \<Rightarrow> string \<Rightarrow> open_flags \<Rightarrow> ('w, int) io"
  fs_Mkdirat :: "int \<Rightarrow> string \<Rightarrow> FileMode \<Rightarrow> ('w, unit) io"
  fs_Fstat :: "int \<Rightarrow> ('w, 32 word) io"
  fs_Fchmod :: "int \<Rightarrow> 32 word \<Rightarrow> ('w, unit) io"
  fs_Close :: "int \<Rightarrow> ('w, unit) io"
  fs_Mount :: "string \<Rightarrow> string \<Rightarrow> string list \<Rightarrow> ('w, unit) io"
  fs_Getpid :: "('w, nat) io"
  fs_LookPath :: "string \<Rightarrow> ('w, string) io"
  fs_Command :: "string \<Rightarrow> string list \<Rightarrow> ('w, string \<times> gerror option) io"

section \<open>\<open>util/io\<close> and \<open>util/file\<close>\<close>

fun read_again :: "'w mnt_os \<Rightarrow> string \<Rightarrow> nat \<Rightarrow> nat \<Rightarrow> string \<Rightarrow> ('w, string) io" where
  "read_again os filename attempts 0 oldContent =
     fail (Errorf ''could not get consistent content of %s after %d attempts'' [FStr filename, FInt (int attempts)])"
| "read_again os filename attempts (Suc n) oldContent =
     bindE (fs_ReadFile os filename) (\<lambda>newContent.
       if oldContent = newContent then ret newContent else read_again os filename attempts n newContent)"

definition ConsistentRead :: "'w mnt_os \<Rightarrow> string \<Rightarrow> nat \<Rightarrow> ('w, string) io" where
  "ConsistentRead os filename attempts =
     bindE (fs_ReadFile os filename) (\<lambda>oldContent. read_again os filename attempts attempts oldContent)"

definition exists_by :: "(string \<Rightarrow> ('w, FileInfo) io) \<Rightarrow> string \<Rightarrow> ('w, bool) io" where
  "exists_by stat filename =
     bindE (attempt (stat filename)) (\<lambda>r.
       case r of
         Inl e \<Rightarrow> if os_IsNotExist e then ret False else fail e
       | Inr _ \<Rightarrow> ret True)"

definition FileExists :: "'w mnt_os \<Rightarrow> string \<Rightarrow> ('w, bool) io" where
  "FileExists os filename = exists_by (fs_Stat os) filename"

definition FileOrSymlinkExists :: "'w mnt_os \<Rightarrow> string \<Rightarrow> ('w, bool) io" where
  "FileOrSymlinkExists os filename = exists_by (fs_Lstat os) filename"

section \<open>\<open>mount.go\<close>\<close>

record MountPoint =
  mp_Device :: string
  mp_Path :: string
  mp_Type :: string
  mp_Opts :: "string list"
  mp_Freq :: int
  mp_Pass :: int

text \<open>The methods of the interface that the functions of the package call on it.\<close>

record 'w mnt_Interface =
  mt_Mount :: "string \<Rightarrow> string \<Rightarrow> string \<Rightarrow> string list \<Rightarrow> ('w, unit) io"
  mt_Unmount :: "string \<Rightarrow> ('w, unit) io"
  mt_List :: "('w, MountPoint list) io"
  mt_IsMountPointMatch :: "MountPoint \<Rightarrow> string \<Rightarrow> bool"
  mt_IsLikelyNotMountPoint :: "string \<Rightarrow> ('w, bool) io"
  mt_EvalHostSymlinks :: "string \<Rightarrow> ('w, string) io"
  mt_GetMountRefs :: "string \<Rightarrow> ('w, string list) io"

definition getMountRefsByDev :: "'w mnt_Interface \<Rightarrow> string \<Rightarrow> ('w, string list) io" where
  "getMountRefsByDev mounter mountPath =
     bindE (mt_List mounter) (\<lambda>mps.
       let diskDev = (case find (\<lambda>m. mountPath = mp_Path m) mps of Some m \<Rightarrow> mp_Device m | None \<Rightarrow> '''') in
       ret (map mp_Path (filter (\<lambda>m. (mp_Device m = diskDev \<or> mp_Device m = mountPath) \<and> mp_Path m \<noteq> mountPath) mps)))"

definition GetDeviceNameFromMount :: "'w mnt_os \<Rightarrow> 'w mnt_Interface \<Rightarrow> string \<Rightarrow> ('w, string \<times> nat) io" where
  "GetDeviceNameFromMount os mounter mountPath =
     bindE (mt_List mounter) (\<lambda>mps.
     bindE (attempt (fs_EvalSymlinks os mountPath)) (\<lambda>r.
       let slTarget = (case r of Inl _ \<Rightarrow> mountPath | Inr t \<Rightarrow> t);
           device = (case find (\<lambda>m. mp_Path m = slTarget) mps of Some m \<Rightarrow> mp_Device m | None \<Rightarrow> '''');
           refCount = length (filter (\<lambda>m. mp_Device m = device) mps) in
       ret (device, refCount)))"

definition IsNotMountPoint :: "'w mnt_Interface \<Rightarrow> string \<Rightarrow> ('w, bool) io" where
  "IsNotMountPoint mounter file =
     bindE (attempt (mt_IsLikelyNotMountPoint mounter file)) (\<lambda>r.
       case (case r of Inl e \<Rightarrow> if os_IsPermission e then Inr True else Inl e | Inr notMnt \<Rightarrow> Inr notMnt) of
         Inl e \<Rightarrow> fail e
       | Inr notMnt \<Rightarrow>
           if \<not> notMnt then ret False
           else
             bindE (mt_EvalHostSymlinks mounter file) (\<lambda>resolvedFile.
             bindE (mt_List mounter) (\<lambda>mountPoints.
               ret (\<not> list_ex (\<lambda>mp. mt_IsMountPointMatch mounter mp resolvedFile) mountPoints))))"

definition checkForNetDev :: "string list \<Rightarrow> bool" where
  "checkForNetDev options \<longleftrightarrow> ''_netdev'' \<in> set options"

fun bind_options :: "bool \<Rightarrow> string list \<Rightarrow> string list \<Rightarrow> bool \<times> string list" where
  "bind_options bind bindRemountOpts [] = (bind, bindRemountOpts)"
| "bind_options bind bindRemountOpts (option # options) =
     (if option = ''bind'' then bind_options True bindRemountOpts options
      else if option = ''remount'' then bind_options bind bindRemountOpts options
      else bind_options bind (bindRemountOpts @ [option]) options)"

definition isBind :: "string list \<Rightarrow> bool \<times> string list \<times> string list" where
  "isBind options =
     (let bindOpts = ''bind'' # (if checkForNetDev options then [''_netdev''] else []);
          (bind, bindRemountOpts) = bind_options False [''bind'', ''remount''] options in
      (bind, bindOpts, bindRemountOpts))"

definition HasMountRefs :: "string \<Rightarrow> string list \<Rightarrow> bool" where
  "HasMountRefs mountPath mountRefs \<longleftrightarrow> length (filter (\<lambda>ref. \<not> strings_Contains ref mountPath) mountRefs) > 0"

definition startsWithBackstep :: "string \<Rightarrow> bool" where
  "startsWithBackstep rel \<longleftrightarrow> rel = ''..'' \<or> HasPrefix rel ''../''"

definition PathWithinBase :: "string \<Rightarrow> string \<Rightarrow> bool" where
  "PathWithinBase fullPath basePath =
     (case filepath_Rel basePath fullPath of Ok rel \<Rightarrow> \<not> startsWithBackstep rel | _ \<Rightarrow> False)"

definition getFileType :: "'w mnt_os \<Rightarrow> string \<Rightarrow> ('w, string) io" where
  "getFileType os pathname =
     bindE (attempt (fs_Stat os pathname)) (\<lambda>r.
       case r of
         Inl e \<Rightarrow> if os_IsNotExist e then fail (Errorf ''path %q does not exist'' [FStr pathname]) else fail e
       | Inr info \<Rightarrow>
           let mode = fi_Mode info in
           if mode_IsDir mode then ret ''Directory''
           else if mode_IsRegular mode then ret ''File''
           else if mode AND ModeSocket = ModeSocket then ret ''Socket''
           else if mode AND ModeDevice = ModeDevice then
             if mode AND ModeCharDevice = ModeCharDevice then ret ''CharDevice'' else ret ''BlockDevice''
           else fail (errors_New ''only recognise file, directory, socket, block device and character device''))"

section \<open>Parsing the mount tables\<close>

text \<open>\<open>strings.Fields\<close>: the pieces between runs of white space.\<close>

function fields_loop :: "string \<Rightarrow> string \<Rightarrow> string list" where
  "fields_loop cur s =
     (case find (\<lambda>p. p \<noteq> [] \<and> HasPrefix s p) go_spaces of
        Some p \<Rightarrow> (if cur = [] then [] else [rev cur]) @ fields_loop [] (drop (length p) s)
      | None \<Rightarrow> (case s of [] \<Rightarrow> if cur = [] then [] else [rev cur] | c # cs \<Rightarrow> fields_loop (c # cur) cs))"
  by pat_completeness auto
termination
proof (relation "measure (\<lambda>(_, s). length s)", goal_cases)
  case (3 cur s p)
  then have "p \<noteq> []" "HasPrefix s p" by (auto simp: find_Some_iff)
  then show ?case by (cases s) auto
qed auto

declare fields_loop.simps [simp del]

definition strings_Fields :: "string \<Rightarrow> string list" where
  "strings_Fields s = fields_loop [] s"

definition maxListTries :: nat where "maxListTries = 3"
definition expectedNumFieldsPerLine :: nat where "expectedNumFieldsPerLine = 6"
definition expectedAtLeastNumFieldsPerMountInfo :: nat where "expectedAtLeastNumFieldsPerMountInfo = 10"

definition mnt_Atoi :: "string \<Rightarrow> int result" where
  "mnt_Atoi s = (case Atoi s of Some n \<Rightarrow> Ok n | None \<Rightarrow> Err (Errorf ''strconv.Atoi: parsing %q'' [FStr s]))"

fun proc_mounts_lines :: "string list \<Rightarrow> MountPoint list result" where
  "proc_mounts_lines [] = Ok []"
| "proc_mounts_lines (line # lines) =
     (if line = '''' then proc_mounts_lines lines
      else
        let fields = strings_Fields line in
        if length fields \<noteq> expectedNumFieldsPerLine
        then Err (Errorf ''wrong number of fields (expected %d, got %d): %s''
               [FInt (int expectedNumFieldsPerLine), FInt (int (length fields)), FStr line])
        else
          bindR (mnt_Atoi (fields ! 4)) (\<lambda>freq.
          bindR (mnt_Atoi (fields ! 5)) (\<lambda>pass.
          bindR (proc_mounts_lines lines) (\<lambda>out.
            Ok (\<lparr> mp_Device = fields ! 0, mp_Path = fields ! 1, mp_Type = fields ! 2, mp_Opts = strings_Split (fields ! 3) CHR '','',
                  mp_Freq = freq, mp_Pass = pass \<rparr> # out)))))"

definition parseProcMounts :: "string \<Rightarrow> MountPoint list result" where
  "parseProcMounts content = proc_mounts_lines (strings_Split content (CHR 0x0A))"

definition listProcMounts :: "'w mnt_os \<Rightarrow> string \<Rightarrow> ('w, MountPoint list) io" where
  "listProcMounts os mountFilePath =
     bindE (ConsistentRead os mountFilePath maxListTries) (\<lambda>content. lift_result (parseProcMounts content))"

record mountInfo =
  mif_id :: int
  mif_parentID :: int
  mif_majorMinor :: string
  mif_root :: string
  mif_source :: string
  mif_mountPoint :: string
  mif_optionalFields :: "string list"
  mif_fsType :: string
  mif_mountOptions :: "string list"
  mif_superOptions :: "string list"

definition parse_info_line :: "string \<Rightarrow> mountInfo result" where
  "parse_info_line line =
     (let fields = strings_Fields line in
      if length fields < expectedAtLeastNumFieldsPerMountInfo
      then Err (Errorf ''wrong number of fields in (expected at least %d, got %d): %s''
             [FInt (int expectedAtLeastNumFieldsPerMountInfo), FInt (int (length fields)), FStr line])
      else
        bindR (mnt_Atoi (fields ! 0)) (\<lambda>i.
        bindR (mnt_Atoi (fields ! 1)) (\<lambda>parentID.
          let optionalFields = takeWhile (\<lambda>f. f \<noteq> ''-'') (drop 6 fields);
              rest = drop (6 + length optionalFields + 1) fields in
          if int (length fields) - int (6 + length optionalFields + 1) < 3
          then Err (Errorf ''expect 3 fields in %s, got %d'' [FStr line, FInt (int (length fields) - int (6 + length optionalFields + 1))])
          else Ok \<lparr> mif_id = i, mif_parentID = parentID, mif_majorMinor = fields ! 2, mif_root = fields ! 3, mif_source = rest ! 1,
                 mif_mountPoint = fields ! 4, mif_optionalFields = optionalFields, mif_fsType = rest ! 0,
                 mif_mountOptions = strings_Split (fields ! 5) CHR '','', mif_superOptions = strings_Split (rest ! 2) CHR '','' \<rparr>)))"

fun info_lines :: "string list \<Rightarrow> mountInfo list result" where
  "info_lines [] = Ok []"
| "info_lines (line # lines) =
     (if line = '''' then info_lines lines
      else bindR (parse_info_line line) (\<lambda>info. bindR (info_lines lines) (\<lambda>infos. Ok (info # infos))))"

definition parseMountInfo :: "'w mnt_os \<Rightarrow> string \<Rightarrow> ('w, mountInfo list) io" where
  "parseMountInfo os filename =
     bindE (ConsistentRead os filename maxListTries) (\<lambda>content.
       lift_result (info_lines (strings_Split content (CHR 0x0A))))"

definition find_info :: "string \<Rightarrow> mountInfo list \<Rightarrow> mountInfo result" where
  "find_info path infos =
     (case find (\<lambda>i. PathWithinBase path (mif_mountPoint i)) (rev infos) of
        Some info \<Rightarrow> Ok info
      | None \<Rightarrow> Err (Errorf ''cannot find mount point for %q'' [FStr path]))"

definition findMountInfo :: "'w mnt_os \<Rightarrow> string \<Rightarrow> string \<Rightarrow> ('w, mountInfo) io" where
  "findMountInfo os path mountInfoPath =
     bindE (parseMountInfo os mountInfoPath) (\<lambda>infos. lift_result (find_info path infos))"

definition isShared :: "'w mnt_os \<Rightarrow> string \<Rightarrow> string \<Rightarrow> ('w, bool) io" where
  "isShared os mount mountInfoPath =
     bindE (findMountInfo os mount mountInfoPath) (\<lambda>info.
       ret (list_ex (\<lambda>opt. HasPrefix opt ''shared:'') (mif_optionalFields info)))"

definition doMakeRShared :: "'w mnt_os \<Rightarrow> string \<Rightarrow> string \<Rightarrow> ('w, unit) io" where
  "doMakeRShared os path mountInfoFilename =
     bindE (isShared os path mountInfoFilename) (\<lambda>shared.
       if shared then ret ()
       else
         bindE (wrapE (\<lambda>e. Errorf ''failed to bind-mount %s: %v'' [FStr path, FErr e]) (fs_Mount os path path [''MS_BIND''])) (\<lambda>_.
         wrapE (\<lambda>e. Errorf ''failed to make %s rshared: %v'' [FStr path, FErr e]) (fs_Mount os path path [''MS_SHARED'', ''MS_REC''])))"

definition getSELinuxSupport :: "'w mnt_os \<Rightarrow> string \<Rightarrow> string \<Rightarrow> ('w, bool) io" where
  "getSELinuxSupport os path mountInfoFilename =
     bindE (findMountInfo os path mountInfoFilename) (\<lambda>info.
       if ''seclabel'' \<in> set (mif_superOptions info) then ret True
       else ret (''seclabel'' \<in> set (mif_mountOptions info)))"

definition strings_TrimPrefix :: "string \<Rightarrow> string \<Rightarrow> string" where
  "strings_TrimPrefix s p = (if HasPrefix s p then drop (length p) s else s)"

definition mount_refs :: "string \<Rightarrow> mountInfo list \<Rightarrow> string list result" where
  "mount_refs hostSource mis =
     (case find (\<lambda>i. hostSource = mif_mountPoint i \<or> PathWithinBase hostSource (mif_mountPoint i)) (rev mis) of
        None \<Rightarrow> Err (Errorf ''failed to get root path and major:minor for %s'' [FStr hostSource])
      | Some i \<Rightarrow>
          let rootPath = filepath_Join [mif_root i, strings_TrimPrefix hostSource (mif_mountPoint i)] in
          if rootPath = '''' \<or> mif_majorMinor i = ''''
          then Err (Errorf ''failed to get root path and major:minor for %s'' [FStr hostSource])
          else Ok (map mif_mountPoint (filter (\<lambda>m. mif_id m \<noteq> mif_id i \<and> mif_root m = rootPath \<and> mif_majorMinor m = mif_majorMinor i) mis)))"

definition searchMountPoints :: "'w mnt_os \<Rightarrow> string \<Rightarrow> string \<Rightarrow> ('w, string list) io" where
  "searchMountPoints os hostSource mountInfoPath =
     bindE (parseMountInfo os mountInfoPath) (\<lambda>mis. lift_result (mount_refs hostSource mis))"

section \<open>The mounter\<close>

abbreviation nl :: string where "nl \<equiv> [CHR 0x0A]"

record Mounter =
  mo_mounterPath :: string
  mo_withSystemd :: bool

definition detectSystemd :: "'w mnt_os \<Rightarrow> ('w, bool) io" where
  "detectSystemd os =
     bindE (attempt (fs_LookPath os ''systemd-run'')) (\<lambda>r.
       case r of
         Inl _ \<Rightarrow> ret False
       | Inr _ \<Rightarrow>
           bindE (fs_Command os ''systemd-run'' [''--description=Kubernetes systemd probe'', ''--scope'', ''true'']) (\<lambda>(output, err).
             ret (err = None)))"

definition mount_New :: "'w mnt_os \<Rightarrow> string \<Rightarrow> ('w, Mounter) io" where
  "mount_New os mounterPath =
     bindE (detectSystemd os) (\<lambda>withSystemd. ret \<lparr> mo_mounterPath = mounterPath, mo_withSystemd = withSystemd \<rparr>)"

definition makeMountArgs :: "string \<Rightarrow> string \<Rightarrow> string \<Rightarrow> string list \<Rightarrow> string list" where
  "makeMountArgs source target fstype options =
     (if fstype \<noteq> '''' then [''-t'', fstype] else []) @ (if options \<noteq> [] then [''-o'', strings_Join options '',''] else []) @
     (if source \<noteq> '''' then [source] else []) @ [target]"

definition addSystemdScope :: "string \<Rightarrow> string \<Rightarrow> string \<Rightarrow> string list \<Rightarrow> string \<times> string list" where
  "addSystemdScope systemdRunPath mountName command args =
     (systemdRunPath, [''--description=Kubernetes transient mount for '' @ mountName, ''--scope'', ''--'', command] @ args)"

definition mount_command :: "Mounter \<Rightarrow> string \<Rightarrow> string \<Rightarrow> string \<Rightarrow> string \<Rightarrow> string \<Rightarrow> string list \<Rightarrow> string \<times> string list" where
  "mount_command m mounterPath mountCmd source target fstype options =
     (let mountArgs = makeMountArgs source target fstype options;
          (mountCmd, mountArgs) = (if mounterPath \<noteq> '''' then (mounterPath, mountCmd # mountArgs) else (mountCmd, mountArgs)) in
      if mo_withSystemd m then addSystemdScope ''systemd-run'' target mountCmd mountArgs else (mountCmd, mountArgs))"

definition doMount ::
  "'w mnt_os \<Rightarrow> Mounter \<Rightarrow> string \<Rightarrow> string \<Rightarrow> string \<Rightarrow> string \<Rightarrow> string \<Rightarrow> string list \<Rightarrow> ('w, unit) io" where
  "doMount os m mounterPath mountCmd source target fstype options =
     (let (mountCmd, mountArgs) = mount_command m mounterPath mountCmd source target fstype options in
      bindE (fs_Command os mountCmd mountArgs) (\<lambda>(output, err).
        case err of
          Some e \<Rightarrow> fail (Errorf (''mount failed: %v'' @ nl @ ''Mounting command: %s'' @ nl @ ''Mounting arguments: %s'' @ nl @ ''Output: %s'' @ nl)
                       [FErr e, FStr mountCmd, FStr (strings_Join mountArgs '' ''), FStr output])
        | None \<Rightarrow> ret ()))"

definition mounter_Mount :: "'w mnt_os \<Rightarrow> Mounter \<Rightarrow> string \<Rightarrow> string \<Rightarrow> string \<Rightarrow> string list \<Rightarrow> ('w, unit) io" where
  "mounter_Mount os m source target fstype options =
     (let (bind, bindOpts, bindRemountOpts) = isBind options in
      if bind then
        bindE (doMount os m '''' ''mount'' source target fstype bindOpts) (\<lambda>_.
        doMount os m '''' ''mount'' source target fstype bindRemountOpts)
      else
        let mounterPath = (if fstype \<in> {''nfs'', ''glusterfs'', ''ceph'', ''cifs''} then mo_mounterPath m else '''') in
        doMount os m mounterPath ''mount'' source target fstype options)"

definition mounter_Unmount :: "'w mnt_os \<Rightarrow> string \<Rightarrow> ('w, unit) io" where
  "mounter_Unmount os target =
     bindE (fs_Command os ''umount'' [target]) (\<lambda>(output, err).
       case err of
         Some e \<Rightarrow> fail (Errorf (''Unmount failed: %v'' @ nl @ ''Unmounting arguments: %s'' @ nl @ ''Output: %s'' @ nl) [FErr e, FStr target, FStr output])
       | None \<Rightarrow> ret ())"

definition procMountsPath :: string where "procMountsPath = ''/proc/mounts''"
definition procMountInfoPath :: string where "procMountInfoPath = ''/proc/self/mountinfo''"

definition mounter_List :: "'w mnt_os \<Rightarrow> ('w, MountPoint list) io" where
  "mounter_List os = listProcMounts os procMountsPath"

definition IsMountPointMatch :: "MountPoint \<Rightarrow> string \<Rightarrow> bool" where
  "IsMountPointMatch mp dir \<longleftrightarrow> mp_Path mp = dir \<or> mp_Path mp = dir @ [CHR 0x5C] @ ''040(deleted)''"

definition strings_TrimSuffix :: "string \<Rightarrow> string \<Rightarrow> string" where
  "strings_TrimSuffix s p = (if HasSuffix s p then take (length s - length p) s else s)"

text \<open>The value \<open>true\<close> that goes along with an error is not used by any caller.\<close>

definition IsLikelyNotMountPoint :: "'w mnt_os \<Rightarrow> string \<Rightarrow> ('w, bool) io" where
  "IsLikelyNotMountPoint os file =
     bindE (fs_Stat os file) (\<lambda>stat.
     bindE (fs_Lstat os (filepath_Dir (strings_TrimSuffix file ''/''))) (\<lambda>rootStat.
       ret (fi_Dev stat = fi_Dev rootStat)))"

definition exclusiveOpenFailsOnDevice :: "'w mnt_os \<Rightarrow> string \<Rightarrow> ('w, bool) io" where
  "exclusiveOpenFailsOnDevice os pathname =
     bindE (wrapE (\<lambda>e. Errorf ''PathIsDevice failed for path %q: %v'' [FStr pathname, FErr e]) (fs_Stat os pathname)) (\<lambda>finfo.
       if fi_Mode finfo AND ModeDevice = 0 then ret False
       else
         bindE (attempt (fs_Open os pathname O_RDONLY_EXCL)) (\<lambda>r.
           case r of
             Inr fd \<Rightarrow> bindE (attempt (fs_Close os fd)) (\<lambda>_. ret False)
           | Inl e \<Rightarrow> bindE (attempt (fs_Close os (-1))) (\<lambda>_. if e = External ''EBUSY'' then ret True else fail e)))"

definition DeviceOpened :: "'w mnt_os \<Rightarrow> string \<Rightarrow> ('w, bool) io" where
  "DeviceOpened os pathname = exclusiveOpenFailsOnDevice os pathname"

definition PathIsDevice :: "'w mnt_os \<Rightarrow> string \<Rightarrow> ('w, bool) io" where
  "PathIsDevice os pathname =
     bindE (getFileType os pathname) (\<lambda>pathType. ret (pathType = ''CharDevice'' \<or> pathType = ''BlockDevice''))"

fun ref_volume :: "string \<Rightarrow> string list \<Rightarrow> string result option" where
  "ref_volume basemountPath [] = None"
| "ref_volume basemountPath (ref # refs) =
     (if HasPrefix ref basemountPath then Some (filepath_Rel basemountPath ref) else ref_volume basemountPath refs)"

definition getDeviceNameFromMount :: "'w mnt_Interface \<Rightarrow> string \<Rightarrow> string \<Rightarrow> ('w, string) io" where
  "getDeviceNameFromMount mounter mountPath pluginDir =
     bindE (mt_GetMountRefs mounter mountPath) (\<lambda>refs.
       if refs = [] then fail (Errorf ''directory %s is not mounted'' [FStr mountPath])
       else
         case ref_volume (filepath_Join [pluginDir, ''mounts'']) refs of
           Some r \<Rightarrow> lift_result r
         | None \<Rightarrow> ret (filepath_Base mountPath))"

definition MakeRShared :: "'w mnt_os \<Rightarrow> string \<Rightarrow> ('w, unit) io" where
  "MakeRShared os path = doMakeRShared os path procMountInfoPath"

definition ignore_exist :: "('w, unit) io \<Rightarrow> ('w, unit) io" where
  "ignore_exist m = bindE (attempt m) (\<lambda>r. case r of Inl e \<Rightarrow> if os_IsExist e then ret () else fail e | Inr _ \<Rightarrow> ret ())"

definition MakeDir :: "'w mnt_os \<Rightarrow> string \<Rightarrow> ('w, unit) io" where
  "MakeDir os pathname = ignore_exist (fs_MkdirAll os pathname 0x1ED)"

definition MakeFile :: "'w mnt_os \<Rightarrow> string \<Rightarrow> ('w, unit) io" where
  "MakeFile os pathname = ignore_exist (fs_Create os pathname 0x1A4)"

definition GetMountRefs :: "'w mnt_os \<Rightarrow> string \<Rightarrow> ('w, string list) io" where
  "GetMountRefs os pathname =
     bindE (attempt (fs_Stat os pathname)) (\<lambda>r.
       case r of
         Inl e \<Rightarrow> if os_IsNotExist e then ret [] else fail e
       | Inr _ \<Rightarrow>
           bindE (fs_EvalSymlinks os pathname) (\<lambda>realpath. searchMountPoints os realpath procMountInfoPath))"

definition GetFSGroup :: "'w mnt_os \<Rightarrow> string \<Rightarrow> ('w, int) io" where
  "GetFSGroup os pathname =
     bindE (fs_EvalSymlinks os pathname) (\<lambda>realpath. bindE (fs_Stat os realpath) (\<lambda>info. ret (fi_Gid info)))"

definition GetMode :: "'w mnt_os \<Rightarrow> string \<Rightarrow> ('w, FileMode) io" where
  "GetMode os pathname = bindE (fs_Stat os pathname) (\<lambda>info. ret (fi_Mode info))"

definition linux_Mounter :: "'w mnt_os \<Rightarrow> Mounter \<Rightarrow> 'w mnt_Interface" where
  "linux_Mounter os m = \<lparr> mt_Mount = mounter_Mount os m, mt_Unmount = mounter_Unmount os, mt_List = mounter_List os,
     mt_IsMountPointMatch = IsMountPointMatch, mt_IsLikelyNotMountPoint = IsLikelyNotMountPoint os,
     mt_EvalHostSymlinks = fs_EvalSymlinks os, mt_GetMountRefs = GetMountRefs os \<rparr>"

end
