(* ===== verification/Mount_Subpath.thy ===== *)
theory Mount_Subpath
  imports Mount_Util
begin

text \<open>
  The second half of \<open>pkg/util/mount/mount_linux.go\<close>: formatting and mounting a disk, and the safe handling of
  subpaths, where a user of the volume can replace directories by symbolic links at any time. What
  Go defers is written out: \<open>defer_close\<close> closes a descriptor whatever the outcome, and the error of a close is
  only logged.
\<close>

section \<open>Formatting and mounting\<close>

datatype exec_error = ExitError int | ErrExecutableNotFound | ExecFailed string

definition exec_gerror :: "exec_error \<Rightarrow> gerror" where
  "exec_gerror e = (case e of ExitError n \<Rightarrow> Errorf ''exit status %d'' [FInt n]
     | ErrExecutableNotFound \<Rightarrow> errors_New ''executable file not found in $PATH'' | ExecFailed s \<Rightarrow> External s)"

record 'w SafeFormatAndMount =
  sf_Mount :: "string \<Rightarrow> string \<Rightarrow> string \<Rightarrow> string list \<Rightarrow> ('w, unit) io"
  sf_Run :: "string \<Rightarrow> string list \<Rightarrow> ('w, string \<times> exec_error option) io"

definition fsckErrorsCorrected :: int where "fsckErrorsCorrected = 1"
definition fsckErrorsUncorrected :: int where "fsckErrorsUncorrected = 4"

fun blkid_lines :: "string \<Rightarrow> string list \<Rightarrow> string \<Rightarrow> string \<Rightarrow> (string \<times> string) result" where
  "blkid_lines output [] fstype pttype = Ok (fstype, pttype)"
| "blkid_lines output (l # lines) fstype pttype =
     (if l = '''' then blkid_lines output lines fstype pttype
      else
        case strings_Split l CHR ''='' of
          [k, v] \<Rightarrow>
            if k = ''TYPE'' then blkid_lines output lines v pttype
            else if k = ''PTTYPE'' then blkid_lines output lines fstype v
            else blkid_lines output lines fstype pttype
        | _ \<Rightarrow> Err (Errorf ''blkid returns invalid output: %s'' [FStr output]))"

definition GetDiskFormat :: "'w SafeFormatAndMount \<Rightarrow> string \<Rightarrow> ('w, string) io" where
  "GetDiskFormat mounter disk =
     bindE (sf_Run mounter ''blkid'' [''-p'', ''-s'', ''TYPE'', ''-s'', ''PTTYPE'', ''-o'', ''export'', disk]) (\<lambda>(output, err).
       case err of
         Some e \<Rightarrow> if e = ExitError 2 then ret '''' else fail (exec_gerror e)
       | None \<Rightarrow>
           bindE (lift_result (blkid_lines output (strings_Split output (CHR 0x0A)) '''' '''')) (\<lambda>(fstype, pttype).
             if pttype \<noteq> '''' then ret ''unknown data, probably partitions'' else ret fstype))"

definition run_fsck :: "'w SafeFormatAndMount \<Rightarrow> string \<Rightarrow> ('w, unit) io" where
  "run_fsck mounter source =
     bindE (sf_Run mounter ''fsck'' [''-a'', source]) (\<lambda>(out, err).
       case err of
         Some (ExitError n) \<Rightarrow>
           if n = fsckErrorsCorrected then ret ()
           else if n = fsckErrorsUncorrected
           then fail (Errorf '''fsck' found errors on device %s but could not correct them: %s.'' [FStr source, FStr out])
           else ret ()
       | _ \<Rightarrow> ret ())"

definition formatAndMount :: "'w SafeFormatAndMount \<Rightarrow> string \<Rightarrow> string \<Rightarrow> string \<Rightarrow> string list \<Rightarrow> ('w, unit) io" where
  "formatAndMount mounter source target fstype options =
     (let readOnly = ''ro'' \<in> set options; options = options @ [''defaults''] in
      bindE (if \<not> readOnly then run_fsck mounter source else ret ()) (\<lambda>_.
      bindE (attempt (sf_Mount mounter source target fstype options)) (\<lambda>mounted.
        case mounted of
          Inr _ \<Rightarrow> ret ()
        | Inl mountErr \<Rightarrow>
            bindE (GetDiskFormat mounter source) (\<lambda>existingFormat.
              if existingFormat = '''' then
                if readOnly then fail (errors_New ''failed to mount unformatted volume as read only'')
                else
                  let fstype = (if fstype = '''' then ''ext4'' else fstype);
                      args = (if fstype = ''ext4'' \<or> fstype = ''ext3'' then [''-F'', ''-m0'', source] else [source]) in
                  bindE (sf_Run mounter (''mkfs.'' @ fstype) args) (\<lambda>(out, err).
                    case err of
                      None \<Rightarrow> sf_Mount mounter source target fstype options
                    | Some e \<Rightarrow> fail (exec_gerror e))
              else if fstype = '''' \<or> fstype = existingFormat then fail mountErr
              else fail (Errorf ''failed to mount the volume as %q, it already contains %s. Mount error: %v''
                     [FStr fstype, FStr existingFormat, FErr mountErr])))))"

definition FormatAndMount :: "'w SafeFormatAndMount \<Rightarrow> string \<Rightarrow> string \<Rightarrow> string \<Rightarrow> string list \<Rightarrow> ('w, unit) io" where
  "FormatAndMount mounter source target fstype options = formatAndMount mounter source target fstype options"

section \<open>Safe opening\<close>

definition close_quiet :: "'w mnt_os \<Rightarrow> int \<Rightarrow> ('w, unit) io" where
  "close_quiet os fd = bindE (attempt (fs_Close os fd)) (\<lambda>_. ret ())"

definition settle :: "gerror + 'a \<Rightarrow> ('w, 'a) io" where
  "settle r = (case r of Inl e \<Rightarrow> fail e | Inr x \<Rightarrow> ret x)"

definition defer_close :: "'w mnt_os \<Rightarrow> int \<Rightarrow> ('w, 'a) io \<Rightarrow> ('w, 'a) io" where
  "defer_close os fd m = bindE (attempt m) (\<lambda>r. bindE (close_quiet os fd) (\<lambda>_. settle r))"

definition S_IFMT :: "32 word" where "S_IFMT = 0xF000"
definition S_IFLNK :: "32 word" where "S_IFLNK = 0xA000"

text \<open>One segment: the child descriptor, or an error; the parent is closed on either way, the child on an error.\<close>

definition open_segment :: "'w mnt_os \<Rightarrow> string \<Rightarrow> string \<Rightarrow> int \<Rightarrow> string \<Rightarrow> ('w, int) io" where
  "open_segment os base currentPath parentFD seg =
     (if \<not> PathWithinBase currentPath base
      then defer_close os parentFD (fail (Errorf ''path %s is outside of allowed base %s'' [FStr currentPath, FStr base]))
      else
        bindE (attempt (wrapE (\<lambda>e. Errorf ''cannot open %s: %s'' [FStr currentPath, FErr e]) (fs_Openat os parentFD seg O_PATH_NOFOLLOW))) (\<lambda>r.
          case r of
            Inl e \<Rightarrow> defer_close os parentFD (fail e)
          | Inr childFD \<Rightarrow>
              bindE (attempt (wrapE (\<lambda>e. Errorf ''Error running fstat on %s with %v'' [FStr currentPath, FErr e]) (fs_Fstat os childFD))) (\<lambda>r.
                case r of
                  Inl e \<Rightarrow> defer_close os parentFD (defer_close os childFD (fail e))
                | Inr mode \<Rightarrow>
                    if mode AND S_IFMT = S_IFLNK
                    then defer_close os parentFD (defer_close os childFD (fail (Errorf ''Unexpected symlink found %s'' [FStr currentPath])))
                    else
                      bindE (attempt (fs_Close os parentFD)) (\<lambda>r.
                        case r of
                          Inl e \<Rightarrow> defer_close os parentFD (defer_close os childFD
                                     (fail (Errorf ''closing fd for %q failed: %v'' [FStr (filepath_Dir currentPath), FErr e])))
                        | Inr _ \<Rightarrow> ret childFD))))"

fun open_segments :: "'w mnt_os \<Rightarrow> string \<Rightarrow> string \<Rightarrow> int \<Rightarrow> string list \<Rightarrow> ('w, int) io" where
  "open_segments os base currentPath parentFD [] = ret parentFD"
| "open_segments os base currentPath parentFD (seg # segments) =
     (let currentPath = filepath_Join [currentPath, seg] in
      bindE (open_segment os base currentPath parentFD seg) (\<lambda>childFD. open_segments os base currentPath childFD segments))"

definition doSafeOpen :: "'w mnt_os \<Rightarrow> string \<Rightarrow> string \<Rightarrow> ('w, int) io" where
  "doSafeOpen os pathname base =
     (let pathname = filepath_Clean pathname; base = filepath_Clean base in
      bindE (lift_result (filepath_Rel base pathname)) (\<lambda>subpath.
      bindE (wrapE (\<lambda>e. Errorf ''cannot open directory %s: %s'' [FStr base, FErr e]) (fs_Open os base O_RDONLY_NOFOLLOW)) (\<lambda>parentFD.
        open_segments os base base parentFD (strings_Split subpath CHR ''/''))))"

section \<open>Safe making of directories\<close>

fun existing_prefix :: "'w mnt_os \<Rightarrow> string \<Rightarrow> string \<Rightarrow> int \<Rightarrow> string list \<Rightarrow> ('w, string \<times> string list) io" where
  "existing_prefix os pathname currentPath fd [] = bindE (close_quiet os fd) (\<lambda>_. ret (pathname, []))"
| "existing_prefix os pathname currentPath fd (dir # dirs) =
     bindE (attempt (fs_Openat os fd dir O_PATH)) (\<lambda>r.
     bindE (close_quiet os fd) (\<lambda>_.
       case r of
         Inl e \<Rightarrow> if os_IsNotExist e then ret (currentPath, dir # dirs) else fail e
       | Inr childFD \<Rightarrow> existing_prefix os pathname (filepath_Join [currentPath, dir]) childFD dirs))"

definition findExistingPrefix :: "'w mnt_os \<Rightarrow> string \<Rightarrow> string \<Rightarrow> ('w, string \<times> string list) io" where
  "findExistingPrefix os base pathname =
     bindE (lift_result (filepath_Rel base pathname)) (\<lambda>rel.
     bindE (wrapE (\<lambda>e. Errorf ''error opening %s: %s'' [FStr base, FErr e]) (fs_Open os base O_RDONLY)) (\<lambda>fd.
       existing_prefix os pathname base fd (strings_Split rel CHR ''/'')))"

definition kernel_perm :: "FileMode \<Rightarrow> 32 word" where
  "kernel_perm perm =
     (perm AND ModePerm) OR (if perm AND ModeSetgid \<noteq> 0 then 0x400 else 0) OR (if perm AND ModeSetuid \<noteq> 0 then 0x800 else 0) OR
     (if perm AND ModeSticky \<noteq> 0 then 0x200 else 0)"

text \<open>The path given to \<open>Mkdirat\<close> is the whole one, not the name relative to the open parent.\<close>

fun make_dirs :: "'w mnt_os \<Rightarrow> FileMode \<Rightarrow> string \<Rightarrow> int \<Rightarrow> string list \<Rightarrow> ('w, unit) io" where
  "make_dirs os perm currentPath parentFD [] =
     defer_close os parentFD
       (wrapE (\<lambda>e. Errorf ''chmod %q failed: %s'' [FStr currentPath, FErr e]) (fs_Fchmod os parentFD (kernel_perm perm)))"
| "make_dirs os perm currentPath parentFD (dir # dirs) =
     (let currentPath = filepath_Join [currentPath, dir] in
      bindE (defer_close os parentFD
               (bindE (wrapE (\<lambda>e. Errorf ''cannot create directory %s: %s'' [FStr currentPath, FErr e])
                         (fs_Mkdirat os parentFD currentPath perm)) (\<lambda>_.
                wrapE (\<lambda>e. Errorf ''cannot open %s: %s'' [FStr currentPath, FErr e])
                  (fs_Openat os parentFD dir O_RDONLY_NOFOLLOW)))) (\<lambda>childFD.
      make_dirs os perm currentPath childFD dirs))"

definition doSafeMakeDir :: "'w mnt_os \<Rightarrow> string \<Rightarrow> string \<Rightarrow> FileMode \<Rightarrow> ('w, unit) io" where
  "doSafeMakeDir os pathname base perm =
     (if \<not> PathWithinBase pathname base then fail (Errorf ''path %s is outside of allowed base %s'' [FStr pathname, FStr base])
      else
        bindE (attempt (fs_Stat os pathname)) (\<lambda>r.
          case r of
            Inr s \<Rightarrow> if mode_IsDir (fi_Mode s) then ret () else fail (External ''ENOTDIR'')
          | Inl _ \<Rightarrow>
              bindE (wrapE (\<lambda>e. Errorf ''error opening directory %s: %s'' [FStr pathname, FErr e]) (findExistingPrefix os base pathname))
                (\<lambda>(existingPath, toCreate).
              bindE (wrapE (\<lambda>e. Errorf ''error opening directory %s: %s'' [FStr existingPath, FErr e]) (fs_EvalSymlinks os existingPath))
                (\<lambda>fullExistingPath.
              if \<not> PathWithinBase fullExistingPath base
              then fail (Errorf ''path %s is outside of allowed base %s'' [FStr fullExistingPath, FStr ''%!s(<nil>)''])
              else
                bindE (wrapE (\<lambda>e. Errorf ''cannot open directory %s: %s'' [FStr existingPath, FErr e]) (doSafeOpen os fullExistingPath base))
                  (\<lambda>parentFD. make_dirs os perm fullExistingPath parentFD toCreate)))))"

definition SafeMakeDir :: "'w mnt_os \<Rightarrow> string \<Rightarrow> string \<Rightarrow> FileMode \<Rightarrow> ('w, unit) io" where
  "SafeMakeDir os subdir base perm =
     bindE (wrapE (\<lambda>e. Errorf ''error resolving symlinks in %s: %s'' [FStr base, FErr e]) (fs_EvalSymlinks os base)) (\<lambda>realBase.
       doSafeMakeDir os (filepath_Join [realBase, subdir]) realBase perm)"

section \<open>Binding subpaths\<close>

record Subpath =
  sp_VolumeMountIndex :: int
  sp_Path :: string
  sp_VolumeName :: string
  sp_VolumePath :: string
  sp_PodDir :: string
  sp_ContainerName :: string

definition containerSubPathDirectoryName :: string where "containerSubPathDirectoryName = ''volume-subpaths''"

definition safeOpenSubPath :: "'w mnt_os \<Rightarrow> Subpath \<Rightarrow> ('w, int) io" where
  "safeOpenSubPath os subpath =
     (if \<not> PathWithinBase (sp_Path subpath) (sp_VolumePath subpath)
      then fail (Errorf ''subpath %q not within volume path %q'' [FStr (sp_Path subpath), FStr (sp_VolumePath subpath)])
      else wrapE (\<lambda>e. Errorf ''error opening subpath %v: %v'' [FStr (sp_Path subpath), FErr e])
             (doSafeOpen os (sp_Path subpath) (sp_VolumePath subpath)))"

definition getSubpathBindTarget :: "Subpath \<Rightarrow> string" where
  "getSubpathBindTarget subpath =
     filepath_Join [sp_PodDir subpath, containerSubPathDirectoryName, sp_VolumeName subpath, sp_ContainerName subpath,
       Itoa (sp_VolumeMountIndex subpath)]"

definition prepareSubpathTarget :: "'w mnt_os \<Rightarrow> 'w mnt_Interface \<Rightarrow> Subpath \<Rightarrow> ('w, bool \<times> string) io" where
  "prepareSubpathTarget os mounter subpath =
     (let bindPathTarget = getSubpathBindTarget subpath in
      bindE (attempt (IsNotMountPoint mounter bindPathTarget)) (\<lambda>r.
      bindE (case r of
               Inl e \<Rightarrow> if os_IsNotExist e then ret True
                        else fail (Errorf ''error checking path %s for mount: %s'' [FStr bindPathTarget, FErr e])
             | Inr notMount \<Rightarrow> ret notMount) (\<lambda>notMount.
        if \<not> notMount then ret (True, bindPathTarget)
        else
          let bindParent = filepath_Dir bindPathTarget in
          bindE (wrapE (\<lambda>e. Errorf ''error creating directory %s: %s'' [FStr bindParent, FErr e])
                   (ignore_exist (fs_MkdirAll os bindParent 0x1E8))) (\<lambda>_.
          bindE (wrapE (\<lambda>e. Errorf ''lstat %s failed: %s'' [FStr (sp_Path subpath), FErr e]) (fs_Lstat os (sp_Path subpath))) (\<lambda>t.
          bindE (if fi_Mode t AND ModeDir \<noteq> 0
                 then wrapE (\<lambda>e. Errorf ''error creating directory %s: %s'' [FStr bindPathTarget, FErr e])
                        (ignore_exist (fs_Mkdir os bindPathTarget 0x1E8))
                 else wrapE (\<lambda>e. Errorf ''error creating file %s: %s'' [FStr bindPathTarget, FErr e])
                        (fs_WriteFile os bindPathTarget '''' 0x1A0)) (\<lambda>_.
          ret (False, bindPathTarget)))))))"

definition doCleanSubPath :: "'w mnt_os \<Rightarrow> 'w mnt_Interface \<Rightarrow> string \<Rightarrow> string \<Rightarrow> ('w, unit) io" where
  "doCleanSubPath os mounter fullContainerDirPath subPathIndex =
     (let fullSubPath = filepath_Join [fullContainerDirPath, subPathIndex] in
      bindE (wrapE (\<lambda>e. Errorf ''error checking %s for mount: %s'' [FStr fullSubPath, FErr e]) (IsNotMountPoint mounter fullSubPath)) (\<lambda>notMnt.
      bindE (if \<not> notMnt
             then wrapE (\<lambda>e. Errorf ''error unmounting %s: %s'' [FStr fullSubPath, FErr e]) (mt_Unmount mounter fullSubPath)
             else ret ()) (\<lambda>_.
      wrapE (\<lambda>e. Errorf ''error deleting %s: %s'' [FStr fullSubPath, FErr e]) (fs_Remove os fullSubPath))))"

text \<open>The loop ends where the current directory is the base, if it ever is: \<open>None\<close> when it does not end.\<close>

partial_function (option) remove_dirs :: "'w mnt_os \<Rightarrow> string \<Rightarrow> string \<Rightarrow> 'w \<Rightarrow> (unit result \<times> 'w) option" where
  "remove_dirs os baseDir curDir w =
     (if curDir = baseDir then Some (Ok (), w)
      else
        case fs_Stat os curDir w of
          (Err e, w') \<Rightarrow>
            if os_IsNotExist e then remove_dirs os baseDir (filepath_Dir curDir) w'
            else Some (Err (Errorf ''error stat %q: %v'' [FStr curDir, FErr e]), w')
        | (Panic p, w') \<Rightarrow> Some (Panic p, w')
        | (Ok s, w') \<Rightarrow>
            if \<not> mode_IsDir (fi_Mode s) then Some (Err (Errorf ''path %q not a directory'' [FStr curDir]), w')
            else
              case fs_Remove os curDir w' of
                (Ok _, w'') \<Rightarrow> remove_dirs os baseDir (filepath_Dir curDir) w''
              | (Err e, w'') \<Rightarrow>
                  if os_IsExist e then Some (Ok (), w'')
                  else Some (Err (Errorf ''error removing directory %q: %v'' [FStr curDir, FErr e]), w'')
              | (Panic p, w'') \<Rightarrow> Some (Panic p, w''))"

definition removeEmptyDirs :: "'w mnt_os \<Rightarrow> string \<Rightarrow> string \<Rightarrow> 'w \<Rightarrow> (unit result \<times> 'w) option" where
  "removeEmptyDirs os baseDir endDir w =
     (if \<not> PathWithinBase endDir baseDir
      then Some (Err (Errorf ''endDir %q is not within baseDir %q'' [FStr endDir, FStr baseDir]), w)
      else remove_dirs os baseDir endDir w)"

definition cleanSubPath :: "'w mnt_os \<Rightarrow> 'w mnt_Interface \<Rightarrow> Subpath \<Rightarrow> 'w \<Rightarrow> (unit result \<times> 'w) option" where
  "cleanSubPath os mounter subpath w =
     (let containerDir = filepath_Join [sp_PodDir subpath, containerSubPathDirectoryName, sp_VolumeName subpath, sp_ContainerName subpath] in
      case doCleanSubPath os mounter containerDir (Itoa (sp_VolumeMountIndex subpath)) w of
        (Err e, w') \<Rightarrow> if os_IsNotExist e then removeEmptyDirs os (sp_PodDir subpath) containerDir w' else Some (Err e, w')
      | (Ok _, w') \<Rightarrow> removeEmptyDirs os (sp_PodDir subpath) containerDir w'
      | (Panic p, w') \<Rightarrow> Some (Panic p, w'))"

text \<open>The bind mount under the descriptor; when it fails, the target is cleaned up and the error kept.\<close>

definition bind_target :: "'w mnt_os \<Rightarrow> 'w mnt_Interface \<Rightarrow> Subpath \<Rightarrow> int \<Rightarrow> string \<Rightarrow> 'w \<Rightarrow> (string result \<times> 'w) option" where
  "bind_target os mounter subpath fd bindPathTarget w =
     (case bindE (fs_Getpid os) (\<lambda>kubeletPid.
             mt_Mount mounter (''/proc/'' @ Itoa (int kubeletPid) @ ''/fd/'' @ Itoa fd) bindPathTarget '''' [''bind'']) w of
        (Ok _, w') \<Rightarrow> Some (Ok bindPathTarget, w')
      | (Panic p, w') \<Rightarrow> Some (Panic p, w')
      | (Err e, w') \<Rightarrow>
          (case cleanSubPath os mounter subpath w' of
             None \<Rightarrow> None
           | Some (Panic p, w'') \<Rightarrow> Some (Panic p, w'')
           | Some (_, w'') \<Rightarrow> Some (Err (Errorf ''error mounting %s: %s'' [FStr (sp_Path subpath), FErr e]), w'')))"

definition doBindSubPath :: "'w mnt_os \<Rightarrow> 'w mnt_Interface \<Rightarrow> Subpath \<Rightarrow> 'w \<Rightarrow> (string result \<times> 'w) option" where
  "doBindSubPath os mounter subpath w =
     (case bindE (wrapE (\<lambda>e. Errorf ''error resolving symlinks in %q: %v'' [FStr (sp_VolumePath subpath), FErr e])
                    (fs_EvalSymlinks os (sp_VolumePath subpath))) (\<lambda>newVolumePath.
           bindE (wrapE (\<lambda>e. Errorf ''error resolving symlinks in %q: %v'' [FStr (sp_Path subpath), FErr e])
                    (fs_EvalSymlinks os (sp_Path subpath))) (\<lambda>newPath.
             let subpath = subpath\<lparr> sp_VolumePath := newVolumePath, sp_Path := newPath \<rparr> in
             bindE (safeOpenSubPath os subpath) (\<lambda>fd. ret (subpath, fd)))) w of
        (Err e, w') \<Rightarrow> Some (Err e, w')
      | (Panic p, w') \<Rightarrow> Some (Panic p, w')
      | (Ok (subpath, fd), w') \<Rightarrow>
          (case (case prepareSubpathTarget os mounter subpath w' of
                   (Err e, w'') \<Rightarrow> Some (Err e, w'')
                 | (Panic p, w'') \<Rightarrow> Some (Panic p, w'')
                 | (Ok (alreadyMounted, bindPathTarget), w'') \<Rightarrow>
                     if alreadyMounted then Some (Ok bindPathTarget, w'')
                     else bind_target os mounter subpath fd bindPathTarget w'') of
             None \<Rightarrow> None
           | Some (r, w'') \<Rightarrow> Some (defer_close os fd (lift_result r) w'')))"

definition PrepareSafeSubpath :: "'w mnt_os \<Rightarrow> Mounter \<Rightarrow> Subpath \<Rightarrow> 'w \<Rightarrow> (string result \<times> 'w) option" where
  "PrepareSafeSubpath os m subPath = doBindSubPath os (linux_Mounter os m) subPath"

definition clean_container :: "'w mnt_os \<Rightarrow> 'w mnt_Interface \<Rightarrow> string \<Rightarrow> string \<times> bool \<Rightarrow> ('w, unit) io" where
  "clean_container os mounter subPathDir containerDir =
     (if \<not> snd containerDir then ret ()
      else
        let fullContainerDirPath = filepath_Join [subPathDir, fst containerDir] in
        bindE (wrapE (\<lambda>e. Errorf ''error reading %s: %s'' [FStr fullContainerDirPath, FErr e]) (fs_ReadDir os fullContainerDirPath)) (\<lambda>subPaths.
        bindE (forE (\<lambda>subPath. doCleanSubPath os mounter fullContainerDirPath (fst subPath)) subPaths) (\<lambda>_.
        wrapE (\<lambda>e. Errorf ''error deleting %s: %s'' [FStr fullContainerDirPath, FErr e]) (fs_Remove os fullContainerDirPath))))"

definition doCleanSubPaths :: "'w mnt_os \<Rightarrow> 'w mnt_Interface \<Rightarrow> string \<Rightarrow> string \<Rightarrow> ('w, unit) io" where
  "doCleanSubPaths os mounter podDir volumeName =
     (let subPathDir = filepath_Join [podDir, containerSubPathDirectoryName, volumeName];
          podSubPathDir = filepath_Join [podDir, containerSubPathDirectoryName] in
      bindE (attempt (fs_ReadDir os subPathDir)) (\<lambda>r.
        case r of
          Inl e \<Rightarrow> if os_IsNotExist e then ret () else fail (Errorf ''error reading %s: %s'' [FStr subPathDir, FErr e])
        | Inr containerDirs \<Rightarrow>
            bindE (forE (clean_container os mounter subPathDir) containerDirs) (\<lambda>_.
            bindE (wrapE (\<lambda>e. Errorf ''error deleting %s: %s'' [FStr subPathDir, FErr e]) (fs_Remove os subPathDir)) (\<lambda>_.
            wrapE (\<lambda>e. Errorf ''error deleting %s: %s'' [FStr podSubPathDir, FErr e]) (ignore_exist (fs_Remove os podSubPathDir))))))"

definition CleanSubPaths :: "'w mnt_os \<Rightarrow> Mounter \<Rightarrow> string \<Rightarrow> string \<Rightarrow> ('w, unit) io" where
  "CleanSubPaths os m podDir volumeName = doCleanSubPaths os (linux_Mounter os m) podDir volumeName"

end
