(* ===== verification/Mount_Safety.thy ===== *)
theory Mount_Safety
  imports Mount_Subpath
begin

text \<open>
  What the mount utilities guarantee: which paths lie in a base, which mount a path is on, that the tables
  of the kernel are read back as they were written, that formatting never destroys data, that a
  subpath is opened inside its volume whatever its user does meanwhile, and that making a directory
  there does not have that guarantee.
\<close>

section \<open>Paths within a base\<close>

lemma file_name_slash: "file_name n \<Longrightarrow> CHR ''/'' \<notin> set n"
  by (simp add: file_name_def)

lemma backstep_Join:
  assumes "ns \<noteq> []" "\<forall>n \<in> set ns. CHR ''/'' \<notin> set n"
  shows "startsWithBackstep (strings_Join ns ''/'') \<longleftrightarrow> hd ns = ''..''"
proof (cases ns)
  case (Cons x xs)
  have x: "CHR ''/'' \<notin> set x" using assms(2) Cons by simp
  show ?thesis
  proof (cases xs)
    case Nil
    have "\<not> HasPrefix x ''../''" using x by (auto simp: HasPrefix_iff)
    then show ?thesis using Cons Nil by (simp add: startsWithBackstep_def)
  next
    case (Cons y ys)
    have j: "strings_Join ns ''/'' = x @ CHR ''/'' # strings_Join xs ''/''" using \<open>ns = x # xs\<close> Cons by simp
    have tw: "takeWhile (\<lambda>c. c \<noteq> CHR ''/'') (x @ CHR ''/'' # strings_Join xs ''/'') = x"
      using x by (induction x) auto
    have nd: "x @ CHR ''/'' # strings_Join xs ''/'' \<noteq> ''..''"
    proof
      assume eq: "x @ CHR ''/'' # strings_Join xs ''/'' = ''..''"
      have "x = ''..''" using tw unfolding eq by simp
      with arg_cong [OF eq, of length] show False by simp
    qed
    have hp: "HasPrefix (x @ CHR ''/'' # strings_Join xs ''/'') ''../'' \<longleftrightarrow> x = ''..''"
    proof
      assume "HasPrefix (x @ CHR ''/'' # strings_Join xs ''/'') ''../''"
      then obtain t where eq: "x @ CHR ''/'' # strings_Join xs ''/'' = ''../'' @ t" unfolding HasPrefix_iff by (elim exE)
      show "x = ''..''" using tw unfolding eq by simp
    next
      assume "x = ''..''"
      then show "HasPrefix (x @ CHR ''/'' # strings_Join xs ''/'') ''../''" by simp
    qed
    have "startsWithBackstep (strings_Join ns ''/'') \<longleftrightarrow> x = ''..''"
      unfolding startsWithBackstep_def j hp by (simp only: nd simp_thms)
    then show ?thesis unfolding \<open>ns = x # xs\<close> list.sel .
  qed
qed (use assms in simp)

lemma PathWithinBase_abs:
  assumes "\<forall>n \<in> set bs. file_name n" "\<forall>n \<in> set ps. file_name n"
  shows "PathWithinBase (abs_path ps) (abs_path bs) \<longleftrightarrow> prefix bs ps"
proof (cases "ps = bs")
  case False
  obtain bs' ps' where s: "strip_common bs ps = (bs', ps')" by fastforce
  from strip_common_prefix [OF s] obtain c where c: "bs = c @ bs'" "ps = c @ ps'" "bs' = [] \<or> ps' = [] \<or> hd bs' \<noteq> hd ps'" by blast
  have names: "\<forall>n \<in> set (replicate (length bs') ''..'' @ ps'). CHR ''/'' \<notin> set n"
    using assms(2) unfolding c(2) by (simp add: file_name_slash ball_Un)
  have ne: "replicate (length bs') ''..'' @ ps' \<noteq> []" using False c by (cases bs') auto
  have "PathWithinBase (abs_path ps) (abs_path bs) \<longleftrightarrow> hd (replicate (length bs') ''..'' @ ps') \<noteq> ''..''"
    unfolding PathWithinBase_def Rel_abs [OF assms] using False s backstep_Join [OF ne names] by simp
  also have "\<dots> \<longleftrightarrow> bs' = []"
  proof (cases bs')
    case Nil
    with ne have "hd ps' \<in> set ps" unfolding c(2) by (cases ps') simp_all
    then have "file_name (hd ps')" using assms(2) by blast
    then show ?thesis using Nil by (simp add: file_name_def)
  qed simp
  also have "\<dots> \<longleftrightarrow> prefix bs ps"
    using c(3) unfolding c(1,2) by (cases bs'; cases ps') simp_all
  finally show ?thesis .
qed (use Rel_abs [OF assms] in \<open>simp add: PathWithinBase_def startsWithBackstep_def\<close>)

lemma find_first_info: "find P ys = Some x \<longleftrightarrow> (\<exists>as bs. ys = as @ x # bs \<and> P x \<and> (\<forall>y \<in> set as. \<not> P y))"
proof
  show "find P ys = Some x \<Longrightarrow> \<exists>as bs. ys = as @ x # bs \<and> P x \<and> (\<forall>y \<in> set as. \<not> P y)"
  proof (induction ys)
    case (Cons y ys)
    show ?case
    proof (cases "P y")
      case False
      with Cons obtain as bs where "ys = as @ x # bs" "P x" "\<forall>y \<in> set as. \<not> P y" by auto
      with False show ?thesis by (intro exI [of _ "y # as"] exI [of _ bs]) simp
    qed (use Cons in \<open>auto intro: exI [of _ "[]"]\<close>)
  qed simp
next
  assume "\<exists>as bs. ys = as @ x # bs \<and> P x \<and> (\<forall>y \<in> set as. \<not> P y)"
  then obtain as bs where "ys = as @ x # bs" "P x" "\<forall>y \<in> set as. \<not> P y" by blast
  then show "find P ys = Some x" by (induction as arbitrary: ys) auto
qed

lemma find_last: "find P (rev ys) = Some x \<longleftrightarrow> (\<exists>as bs. ys = as @ x # bs \<and> P x \<and> (\<forall>y \<in> set bs. \<not> P y))"
proof
  assume "find P (rev ys) = Some x"
  then obtain as bs where "rev ys = as @ x # bs" "P x" "\<forall>y \<in> set as. \<not> P y" unfolding find_first_info by blast
  then show "\<exists>as bs. ys = as @ x # bs \<and> P x \<and> (\<forall>y \<in> set bs. \<not> P y)"
    by (intro exI [of _ "rev bs"] exI [of _ "rev as"]) (simp add: rev_swap)
next
  assume "\<exists>as bs. ys = as @ x # bs \<and> P x \<and> (\<forall>y \<in> set bs. \<not> P y)"
  then obtain as bs where "ys = as @ x # bs" "P x" "\<forall>y \<in> set bs. \<not> P y" by blast
  then show "find P (rev ys) = Some x" unfolding find_first_info by (intro exI [of _ "rev bs"] exI [of _ "rev as"]) simp
qed

text \<open>The mount that a path is on: the latest one whose mount point contains it.\<close>

lemma find_info_last:
  assumes "\<forall>n \<in> set ps. file_name n" "\<forall>i \<in> set infos. \<exists>ms. mif_mountPoint i = abs_path ms \<and> (\<forall>n \<in> set ms. file_name n)"
  shows "find_info (abs_path ps) infos = Ok i \<longleftrightarrow>
    (\<exists>before after. infos = before @ i # after \<and> prefix (path_names (mif_mountPoint i)) ps \<and>
       (\<forall>j \<in> set after. \<not> prefix (path_names (mif_mountPoint j)) ps))"
proof -
  have on: "PathWithinBase (abs_path ps) (mif_mountPoint j) \<longleftrightarrow> prefix (path_names (mif_mountPoint j)) ps" if "j \<in> set infos" for j
    using assms(2) that PathWithinBase_abs [OF _ assms(1)] by fastforce
  have "find_info (abs_path ps) infos = Ok i \<longleftrightarrow> find (\<lambda>i. PathWithinBase (abs_path ps) (mif_mountPoint i)) (rev infos) = Some i"
    by (auto simp: find_info_def split: option.splits)
  also have "\<dots> \<longleftrightarrow> (\<exists>before after. infos = before @ i # after \<and> PathWithinBase (abs_path ps) (mif_mountPoint i) \<and>
       (\<forall>j \<in> set after. \<not> PathWithinBase (abs_path ps) (mif_mountPoint j)))" by (rule find_last)
  finally have found: "find_info (abs_path ps) infos = Ok i \<longleftrightarrow> \<dots>" .
  have "PathWithinBase (abs_path ps) (mif_mountPoint i) \<and> (\<forall>j \<in> set after. \<not> PathWithinBase (abs_path ps) (mif_mountPoint j)) \<longleftrightarrow>
      prefix (path_names (mif_mountPoint i)) ps \<and> (\<forall>j \<in> set after. \<not> prefix (path_names (mif_mountPoint j)) ps)"
    if "infos = before @ i # after" for before after
    using on that by simp
  then show ?thesis unfolding found by blast
qed

section \<open>Reading the tables of the kernel\<close>

text \<open>The kernel writes white space in a field as an octal escape, so that a field is a word.\<close>

definition word_char :: "char \<Rightarrow> bool" where
  "word_char c \<longleftrightarrow> (33 :: nat) \<le> of_char c \<and> of_char c < (127 :: nat)"

definition is_word :: "string \<Rightarrow> bool" where
  "is_word s \<longleftrightarrow> s \<noteq> '''' \<and> list_all word_char s"

lemma go_spaces_heads: "\<forall>p \<in> set go_spaces. p \<noteq> [] \<and> \<not> word_char (hd p)"
  by code_simp

lemma fields_loop_word:
  assumes "list_all word_char u"
  shows "fields_loop cur (u @ s) = fields_loop (rev u @ cur) s"
  using assms
proof (induction u arbitrary: cur)
  case (Cons c u)
  have none: "find (\<lambda>p. p \<noteq> [] \<and> HasPrefix ((c # u) @ s) p) go_spaces = None"
    unfolding find_None_iff
  proof (rule notI, elim exE conjE)
    fix p assume p: "p \<in> set go_spaces" "p \<noteq> []" "HasPrefix ((c # u) @ s) p"
    from p(2,3) have "hd p = c" by (cases p) auto
    then show False using bspec [OF go_spaces_heads p(1)] Cons.prems by simp
  qed
  show ?case using Cons by (subst fields_loop.simps) (simp only: none, simp)
qed simp

lemma fields_loop_space: "fields_loop cur (CHR '' '' # s) = (if cur = [] then [] else [rev cur]) @ fields_loop [] s"
proof -
  have "find (\<lambda>p. p \<noteq> [] \<and> HasPrefix (CHR '' '' # s) p) go_spaces = Some '' ''"
    by (simp add: go_spaces_def)
  then show ?thesis by (subst fields_loop.simps) simp
qed

lemma fields_loop_end: "fields_loop cur [] = (if cur = [] then [] else [rev cur])"
proof -
  have "find (\<lambda>p. p \<noteq> [] \<and> HasPrefix [] p) go_spaces = None" by (simp add: find_None_iff)
  then show ?thesis by (subst fields_loop.simps) simp
qed

lemma Fields_Join: "\<forall>u \<in> set us. is_word u \<Longrightarrow> strings_Fields (strings_Join us '' '') = us"
proof (induction us rule: induct_list012)
  case 1
  then show ?case by (simp add: strings_Fields_def fields_loop_end)
next
  case (2 u)
  then show ?case using fields_loop_word [of u "[]" "[]"] by (simp add: strings_Fields_def is_word_def fields_loop_end)
next
  case (3 u v us)
  then show ?case
    using fields_loop_word [of u "[]" "CHR '' '' # strings_Join (v # us) '' ''"]
    by (simp add: strings_Fields_def is_word_def fields_loop_space)
qed

definition option_word :: "string \<Rightarrow> bool" where
  "option_word s \<longleftrightarrow> is_word s \<and> CHR '','' \<notin> set s"

definition info_fields :: "mountInfo \<Rightarrow> string list" where
  "info_fields i =
     [Itoa (mif_id i), Itoa (mif_parentID i), mif_majorMinor i, mif_root i, mif_mountPoint i, strings_Join (mif_mountOptions i) '',''] @
     mif_optionalFields i @ [''-'', mif_fsType i, mif_source i, strings_Join (mif_superOptions i) '','']"

definition info_line :: "mountInfo \<Rightarrow> string" where
  "info_line i = strings_Join (info_fields i) '' ''"

definition info_ok :: "mountInfo \<Rightarrow> bool" where
  "info_ok i \<longleftrightarrow> int64_range (mif_id i) \<and> int64_range (mif_parentID i) \<and>
     (\<forall>s \<in> {mif_majorMinor i, mif_root i, mif_mountPoint i, mif_fsType i, mif_source i}. is_word s) \<and>
     mif_mountOptions i \<noteq> [] \<and> list_all option_word (mif_mountOptions i) \<and>
     mif_superOptions i \<noteq> [] \<and> list_all option_word (mif_superOptions i) \<and>
     list_all (\<lambda>f. is_word f \<and> f \<noteq> ''-'') (mif_optionalFields i)"

lemma Itoa_word: "is_word (Itoa n)"
proof -
  have dig: "word_char c" if "digit_val c \<noteq> None" for c
    using that by (auto simp: digit_val_def word_char_def Let_def split: if_splits)
  have "list_all word_char (nat_text k)" for k
    using nat_text_digits [of _ k] dig by (auto simp: list_all_iff)
  moreover have "word_char (CHR ''-'')" by code_simp
  ultimately show ?thesis by (simp add: Itoa_def is_word_def)
qed

lemma options_word: "os \<noteq> [] \<Longrightarrow> list_all option_word os \<Longrightarrow> is_word (strings_Join os '','')"
proof (induction os rule: induct_list012)
  case (3 a b os)
  moreover have "word_char (CHR '','')" by code_simp
  ultimately show ?case by (simp add: is_word_def option_word_def)
qed (simp_all add: option_word_def)

lemma parse_info_line:
  assumes "info_ok i"
  shows "parse_info_line (info_line i) = Ok i"
proof -
  have dash: "is_word ''-''" by code_simp
  have words: "\<forall>u \<in> set (info_fields i). is_word u"
    using assms Itoa_word options_word dash by (auto simp: info_ok_def info_fields_def list_all_iff)
  have fields: "strings_Fields (info_line i) = info_fields i"
    unfolding info_line_def by (rule Fields_Join [OF words])
  have atoi: "mnt_Atoi (Itoa (mif_id i)) = Ok (mif_id i)" "mnt_Atoi (Itoa (mif_parentID i)) = Ok (mif_parentID i)"
    using assms Atoi_Itoa by (simp_all add: mnt_Atoi_def info_ok_def)
  have opts: "strings_Split (strings_Join (mif_mountOptions i) '','') CHR '','' = mif_mountOptions i"
    "strings_Split (strings_Join (mif_superOptions i) '','') CHR '','' = mif_superOptions i"
    using assms by (auto simp: info_ok_def list_all_iff option_word_def intro!: split_Join)
  have tw: "takeWhile (\<lambda>f. f \<noteq> ''-'') (mif_optionalFields i @ ''-'' # r) = mif_optionalFields i" for r
    using assms by (induction "mif_optionalFields i" arbitrary: i) (auto simp: info_ok_def list_all_iff takeWhile_append)
  show ?thesis
    unfolding parse_info_line_def fields
    by (simp add: info_fields_def expectedAtLeastNumFieldsPerMountInfo_def atoi opts tw Let_def numeral_eq_Suc nth_append)
qed

lemma words_no_nl: "is_word u \<Longrightarrow> CHR 0x0A \<notin> set u"
proof
  assume "is_word u" "CHR 0x0A \<in> set u"
  then have "word_char (CHR 0x0A)" by (simp add: is_word_def list_all_iff)
  moreover have "\<not> word_char (CHR 0x0A)" by code_simp
  ultimately show False by simp
qed

lemma Join_no_nl: "\<forall>u \<in> set us. CHR 0x0A \<notin> set u \<Longrightarrow> CHR 0x0A \<notin> set (strings_Join us '' '')"
  by (induction us rule: induct_list012) auto

lemma info_line_no_nl:
  assumes "info_ok i"
  shows "CHR 0x0A \<notin> set (info_line i)" "info_line i \<noteq> ''''"
proof -
  have dash: "is_word ''-''" by code_simp
  have "\<forall>u \<in> set (info_fields i). is_word u"
    using assms Itoa_word options_word dash by (auto simp: info_ok_def info_fields_def list_all_iff)
  then show "CHR 0x0A \<notin> set (info_line i)" unfolding info_line_def by (intro Join_no_nl) (auto dest: words_no_nl)
  show "info_line i \<noteq> ''''" by (simp add: info_line_def info_fields_def)
qed

definition info_table :: "mountInfo list \<Rightarrow> string" where
  "info_table is = concat (map (\<lambda>i. info_line i @ [CHR 0x0A]) is)"

lemma info_lines_table: "\<forall>i \<in> set is. info_ok i \<Longrightarrow> info_lines (strings_Split (info_table is) (CHR 0x0A)) = Ok is"
proof (induction "is")
  case (Cons i "is")
  have "strings_Split (info_table (i # is)) (CHR 0x0A) = info_line i # strings_Split (info_table is) (CHR 0x0A)"
    using info_line_no_nl [of i] Cons.prems by (simp add: info_table_def strings_Split_def split_char_append)
  then show ?case using Cons info_line_no_nl [of i] by (simp add: parse_info_line)
qed (simp add: info_table_def strings_Split_def)

text \<open>
  C39. A table of mounts, written in the format of \<open>/proc/self/mountinfo\<close> with any number of optional fields, is
  parsed to exactly the mounts it was written from, if two successive reads of the file agree on it.
\<close>

theorem mountinfo_roundtrip:
  assumes "\<forall>i \<in> set infos. info_ok i"
    "fs_ReadFile os file w = (Ok (info_table infos), w1)" "fs_ReadFile os file w1 = (Ok (info_table infos), w2)"
  shows "parseMountInfo os file w = (Ok infos, w2)"
  using assms(2,3) info_lines_table [OF assms(1)]
  by (simp add: parseMountInfo_def ConsistentRead_def maxListTries_def numeral_eq_Suc)

definition demo_info :: mountInfo where
  "demo_info = \<lparr> mif_id = 36, mif_parentID = 35, mif_majorMinor = ''98:0'', mif_root = ''/mnt1'', mif_source = ''/dev/root'',
     mif_mountPoint = ''/mnt2'', mif_optionalFields = [''master:1''], mif_fsType = ''ext3'', mif_mountOptions = [''rw'', ''noatime''],
     mif_superOptions = [''rw'', ''errors=continue''] \<rparr>"

text \<open>An operating system that only has this table; its other calls fail.\<close>

definition table_os :: "mountInfo list \<Rightarrow> 'w mnt_os" where
  "table_os infos = \<lparr> fs_ReadFile = (\<lambda>_. ret (info_table infos)), fs_Stat = (\<lambda>_. fail (External ''ENOENT'')), fs_Lstat = (\<lambda>_. fail (External ''ENOENT'')),
     fs_EvalSymlinks = (\<lambda>p. ret p), fs_MkdirAll = (\<lambda>_ _. fail (External ''EPERM'')), fs_Mkdir = (\<lambda>_ _. fail (External ''EPERM'')),
     fs_WriteFile = (\<lambda>_ _ _. fail (External ''EPERM'')), fs_Create = (\<lambda>_ _. fail (External ''EPERM'')), fs_Remove = (\<lambda>_. fail (External ''EPERM'')),
     fs_ReadDir = (\<lambda>_. fail (External ''ENOENT'')), fs_Open = (\<lambda>_ _. fail (External ''ENOENT'')), fs_Openat = (\<lambda>_ _ _. fail (External ''ENOENT'')),
     fs_Mkdirat = (\<lambda>_ _ _. fail (External ''EPERM'')), fs_Fstat = (\<lambda>_. fail (External ''EBADF'')), fs_Fchmod = (\<lambda>_ _. fail (External ''EBADF'')),
     fs_Close = (\<lambda>_. ret ()), fs_Mount = (\<lambda>_ _ _. fail (External ''EPERM'')), fs_Getpid = ret 1, fs_LookPath = (\<lambda>_. fail (External ''ENOENT'')),
     fs_Command = (\<lambda>_ _. ret ('''', None)) \<rparr>"

theorem mountinfo_roundtrip_witness:
  "info_ok demo_info \<and> parseMountInfo (table_os [demo_info]) ''/proc/self/mountinfo'' () = (Ok [demo_info], ())"
proof -
  have ok: "info_ok demo_info" by code_simp
  have rd: "fs_ReadFile (table_os [demo_info]) f () = (Ok (info_table [demo_info]), ())" for f by (simp add: table_os_def)
  have "\<forall>i \<in> set [demo_info]. info_ok i" using ok by simp
  from mountinfo_roundtrip [OF this rd rd] ok show ?thesis by blast
qed

text \<open>What is read has been read twice in a row.\<close>

lemma read_again_twice:
  "read_again os file k n old w = (Ok c, w') \<Longrightarrow> (\<exists>w0. fs_ReadFile os file w0 = (Ok old, w)) \<Longrightarrow>
     \<exists>w0 w1. fs_ReadFile os file w0 = (Ok c, w1) \<and> fs_ReadFile os file w1 = (Ok c, w')"
proof (induction n arbitrary: old w)
  case (Suc n)
  from Suc.prems(1) obtain c1 w1 where r: "fs_ReadFile os file w = (Ok c1, w1)"
    and k: "(if old = c1 then ret c1 else read_again os file k n c1) w1 = (Ok c, w')"
    by (auto simp: bindE_eq_Ok)
  show ?case
  proof (cases "old = c1")
    case True
    then show ?thesis using k r Suc.prems(2) by auto
  next
    case False
    then show ?thesis using k r Suc.IH [of c1 w1] by auto
  qed
qed simp

lemma ConsistentRead_twice:
  "ConsistentRead os file n w = (Ok c, w') \<Longrightarrow> \<exists>w0 w1. fs_ReadFile os file w0 = (Ok c, w1) \<and> fs_ReadFile os file w1 = (Ok c, w')"
  unfolding ConsistentRead_def bindE_eq_Ok by (blast dest: read_again_twice)

section \<open>Formatting keeps data\<close>

text \<open>
  \<open>data w d\<close>: the disk \<open>d\<close> holds a file system or a partition table. Mounting and checking keep the data of all
  disks; \<open>blkid\<close> prints a type with a value for a disk with data, and does not exit with status 2;
  making a file system concerns the disk of its last argument only.
\<close>

definition blkid_args :: "string \<Rightarrow> string list" where
  "blkid_args disk = [''-p'', ''-s'', ''TYPE'', ''-s'', ''PTTYPE'', ''-o'', ''export'', disk]"

definition type_line :: "string \<Rightarrow> string \<Rightarrow> bool" where
  "type_line l v \<longleftrightarrow> l = ''TYPE='' @ v \<or> l = ''PTTYPE='' @ v"

definition disk_ok :: "'w SafeFormatAndMount \<Rightarrow> ('w \<Rightarrow> string \<Rightarrow> bool) \<Rightarrow> bool" where
  "disk_ok m data \<longleftrightarrow>
     (\<forall>src tgt fs opts. reads data (sf_Mount m src tgt fs opts)) \<and>
     (\<forall>args. reads data (sf_Run m ''fsck'' args)) \<and>
     (\<forall>disk. reads data (sf_Run m ''blkid'' (blkid_args disk))) \<and>
     (\<forall>disk w out err w'. sf_Run m ''blkid'' (blkid_args disk) w = (Ok (out, err), w') \<longrightarrow> data w disk \<longrightarrow>
        err \<noteq> Some (ExitError 2) \<and>
        (err = None \<longrightarrow> (\<exists>l \<in> set (strings_Split out (CHR 0x0A)). \<exists>v. type_line l v) \<and>
           (\<forall>l \<in> set (strings_Split out (CHR 0x0A)). \<forall>v. type_line l v \<longrightarrow> v \<noteq> ''''))) \<and>
     (\<forall>fs args w r w' d. sf_Run m (''mkfs.'' @ fs) args w = (r, w') \<longrightarrow> d \<noteq> last args \<longrightarrow> data w' d = data w d)"

lemma disk_ok_laws:
  assumes "disk_ok m data"
  shows "\<forall>src tgt fs opts. reads data (sf_Mount m src tgt fs opts)"
    and "\<forall>args. reads data (sf_Run m ''fsck'' args)"
    and "\<forall>disk. reads data (sf_Run m ''blkid'' (blkid_args disk))"
    and "\<forall>disk w out err w'. sf_Run m ''blkid'' (blkid_args disk) w = (Ok (out, err), w') \<longrightarrow> data w disk \<longrightarrow>
        err \<noteq> Some (ExitError 2) \<and>
        (err = None \<longrightarrow> (\<exists>l \<in> set (strings_Split out (CHR 0x0A)). \<exists>v. type_line l v) \<and>
           (\<forall>l \<in> set (strings_Split out (CHR 0x0A)). \<forall>v. type_line l v \<longrightarrow> v \<noteq> ''''))"
    and "\<forall>fs args w r w' d. sf_Run m (''mkfs.'' @ fs) args w = (r, w') \<longrightarrow> d \<noteq> last args \<longrightarrow> data w' d = data w d"
  by (insert assms, unfold disk_ok_def, (elim conjE, assumption)+)

lemmas disk_okD = disk_ok_laws [rule_format]

lemma split_assign:
  "strings_Split l CHR ''='' = [k, v] \<Longrightarrow> l = k @ ''='' @ v"
  using Join_split_char [of "CHR ''=''" l] by (simp add: strings_Split_def)

lemma type_line_key:
  assumes "type_line l v" "strings_Split l CHR ''='' = [k, v']"
  shows "k = ''TYPE'' \<or> k = ''PTTYPE''"
proof -
  have "strings_Split (''TYPE='' @ v) CHR ''='' = ''TYPE'' # strings_Split v CHR ''=''"
    "strings_Split (''PTTYPE='' @ v) CHR ''='' = ''PTTYPE'' # strings_Split v CHR ''=''"
    using split_char_append [of "CHR ''=''" "''TYPE''" v] split_char_append [of "CHR ''=''" "''PTTYPE''" v]
    by (simp_all add: strings_Split_def)
  then show ?thesis using assms by (auto simp only: type_line_def list.inject)
qed

lemma blkid_lines_typed:
  assumes "blkid_lines out ls f p = Ok (f', p')" "\<forall>l \<in> set ls. \<forall>v. type_line l v \<longrightarrow> v \<noteq> ''''"
    "f \<noteq> '''' \<or> p \<noteq> '''' \<or> (\<exists>l \<in> set ls. \<exists>v. type_line l v)"
  shows "f' \<noteq> '''' \<or> p' \<noteq> ''''"
  using assms
proof (induction ls arbitrary: f p)
  case (Cons l ls)
  have sub: "\<forall>l \<in> set ls. \<forall>v. type_line l v \<longrightarrow> v \<noteq> ''''" using Cons.prems(2) by simp
  show ?case
  proof (cases "l = ''''")
    case True
    then have "\<not> type_line l v" for v by (simp add: type_line_def)
    then have ex: "f \<noteq> '''' \<or> p \<noteq> '''' \<or> (\<exists>l \<in> set ls. \<exists>v. type_line l v)" using Cons.prems(3) by auto
    have "blkid_lines out ls f p = Ok (f', p')" using Cons.prems(1) True by simp
    from Cons.IH [OF this sub ex] show ?thesis .
  next
    case False
    with Cons.prems(1) obtain k v where kv: "strings_Split l CHR ''='' = [k, v]"
      by (auto split: list.splits)
    have run: "blkid_lines out ls (if k = ''TYPE'' then v else f) (if k = ''PTTYPE'' then v else p) = Ok (f', p')"
      using Cons.prems(1) False kv by (auto split: if_splits)
    have v: "v \<noteq> ''''" if "k = ''TYPE'' \<or> k = ''PTTYPE''"
      using Cons.prems(2) split_assign [OF kv] that by (auto simp: type_line_def)
    have "(if k = ''TYPE'' then v else f) \<noteq> '''' \<or> (if k = ''PTTYPE'' then v else p) \<noteq> '''' \<or> (\<exists>l \<in> set ls. \<exists>v. type_line l v)"
    proof (cases "k = ''TYPE'' \<or> k = ''PTTYPE''")
      case True
      then show ?thesis using v by auto
    next
      case False
      then have "\<not> type_line l u" for u using type_line_key [OF _ kv] by blast
      then show ?thesis using Cons.prems(3) False by auto
    qed
    then show ?thesis by (rule Cons.IH [OF run sub])
  qed
qed simp

lemma GetDiskFormat_data:
  assumes "disk_ok m data" "GetDiskFormat m disk w = (r, w')"
  shows "data w' = data w" and "r = Ok '''' \<Longrightarrow> \<not> data w disk"
proof -
  obtain q w1 where run: "sf_Run m ''blkid'' (blkid_args disk) w = (q, w1)" by fastforce
  have w1: "data w1 = data w" using readsD [OF disk_okD(3) [OF assms(1)] run] .
  note eq = assms(2) [unfolded GetDiskFormat_def, folded blkid_args_def]
  have "w' = w1"
    using eq run by (auto simp: bindE_def lift_result_def split: result.splits prod.splits option.splits if_splits)
  then show "data w' = data w" using w1 by simp
  show "\<not> data w disk" if r: "r = Ok ''''"
  proof
    assume d: "data w disk"
    from r eq run obtain out err where q: "q = Ok (out, err)"
      by (cases q) (auto simp: bindE_def)
    note law = disk_okD(4) [OF assms(1) run [unfolded q] d]
    show False
    proof (cases err)
      case None
      with r eq run q obtain f p where l: "blkid_lines out (strings_Split out (CHR 0x0A)) '''' '''' = Ok (f, p)" "f = ''''" "p = ''''"
        by (auto simp: bindE_def lift_result_def split: result.splits prod.splits if_splits)
      from law None have ex: "\<exists>l \<in> set (strings_Split out (CHR 0x0A)). \<exists>v. type_line l v"
        and all: "\<forall>l \<in> set (strings_Split out (CHR 0x0A)). \<forall>v. type_line l v \<longrightarrow> v \<noteq> ''''" by blast+
      show False using blkid_lines_typed [OF l(1) all] ex l(2,3) by blast
    next
      case (Some e)
      then show False using law r eq run q by (auto simp: bindE_def split: if_splits)
    qed
  qed
qed

lemma run_fsck_data: "disk_ok m data \<Longrightarrow> run_fsck m source w = (r, w') \<Longrightarrow> data w' = data w"
  using readsD [OF disk_okD(2), of m data "[''-a'', source]" w]
  by (auto simp: run_fsck_def bindE_def split: result.splits prod.splits option.splits exec_error.splits if_splits)


text \<open>Disks in memory, each with the type of its file system or none.\<close>

type_synonym disks = "string \<rightharpoonup> string"

definition mem_disks :: "disks SafeFormatAndMount" where
  "mem_disks = \<lparr> sf_Mount = (\<lambda>source _ _ _ w. (if w source = None then Err (External ''EINVAL'') else Ok (), w)),
     sf_Run = (\<lambda>cmd args w.
       if cmd = ''blkid'' then
         (case w (last args) of
            None \<Rightarrow> (Ok ('''', Some (ExitError 2)), w)
          | Some t \<Rightarrow> (Ok (if t = '''' then ''PTTYPE=dos'' else ''TYPE=ext4'', None), w))
       else if HasPrefix cmd ''mkfs.'' then (Ok ('''', None), w(last args \<mapsto> drop 5 cmd))
       else (Ok ('''', None), w)) \<rparr>"

lemma mem_disks_ok: "disk_ok mem_disks (\<lambda>w d. w d \<noteq> None)"
  unfolding disk_ok_def
proof (intro conjI, goal_cases)
  case 4
  have lines: "strings_Split ''PTTYPE=dos'' (CHR 0x0A) = [''PTTYPE=dos'']" "strings_Split ''TYPE=ext4'' (CHR 0x0A) = [''TYPE=ext4'']"
    by (simp_all add: strings_Split_def)
  have "type_line ''PTTYPE=dos'' v \<longleftrightarrow> v = ''dos''" "type_line ''TYPE=ext4'' v \<longleftrightarrow> v = ''ext4''" for v
    by (auto simp: type_line_def)
  then show ?case using lines by (auto simp: mem_disks_def blkid_args_def split: option.splits if_splits)
qed (auto simp: mem_disks_def reads_def split: option.splits)


section \<open>Removing empty directories ends\<close>

text \<open>\<open>gone w\<close> are the paths removed so far: a removal adds its path at most, looking adds none.\<close>

definition removes_only :: "'w mnt_os \<Rightarrow> ('w \<Rightarrow> string set) \<Rightarrow> bool" where
  "removes_only os gone \<longleftrightarrow> (\<forall>p. reads gone (fs_Stat os p)) \<and>
     (\<forall>p w r w'. fs_Remove os p w = (r, w') \<longrightarrow> gone w' \<subseteq> insert p (gone w))"

lemma remove_dirs_ends:
  assumes "removes_only os gone" "\<forall>n \<in> set (bs @ ms). file_name n"
  shows "\<exists>r w'. remove_dirs os (abs_path bs) (abs_path (bs @ ms)) w = Some (r, w') \<and>
    gone w' \<subseteq> gone w \<union> {abs_path (bs @ ns) |ns. ns \<noteq> [] \<and> prefix ns ms}"
  using assms(2)
proof (induction ms arbitrary: w rule: rev_induct)
  case Nil
  show ?case by (simp add: remove_dirs.simps)
next
  case (snoc m ms)
  let ?cur = "abs_path (bs @ ms @ [m])"
  define S where "S = (\<lambda>ms. {abs_path (bs @ ns) |ns. ns \<noteq> [] \<and> prefix ns ms})"
  have dir: "filepath_Dir ?cur = abs_path (bs @ ms)" using Dir_abs [of "bs @ ms" m] snoc.prems by simp
  have ne: "?cur \<noteq> abs_path bs" using snoc.prems by (subst abs_path_inject) auto
  have up: "S ms \<subseteq> S (ms @ [m])" "?cur \<in> S (ms @ [m])" by (auto simp: S_def)
  obtain q w1 where stat: "fs_Stat os ?cur w = (q, w1)" by fastforce
  have g1: "gone w1 = gone w" using assms(1) stat readsD unfolding removes_only_def by metis
  obtain q2 w2 where rem: "fs_Remove os ?cur w1 = (q2, w2)" by fastforce
  have g2: "gone w2 \<subseteq> insert ?cur (gone w)" using assms(1) rem g1 unfolding removes_only_def by metis
  have IH: "\<exists>r w'. remove_dirs os (abs_path bs) (abs_path (bs @ ms)) v = Some (r, w') \<and> gone w' \<subseteq> gone v \<union> S ms" for v
    using snoc.IH [of v] snoc.prems unfolding S_def by simp
  have step: "remove_dirs os (abs_path bs) ?cur w \<in>
      {remove_dirs os (abs_path bs) (abs_path (bs @ ms)) w1, remove_dirs os (abs_path bs) (abs_path (bs @ ms)) w2} \<union> {Some (r, v) |r v. v = w1 \<or> v = w2}"
    by (subst remove_dirs.simps) (use ne stat rem dir in \<open>auto split: result.splits\<close>)
  have "\<exists>r w'. remove_dirs os (abs_path bs) ?cur w = Some (r, w') \<and> gone w' \<subseteq> gone w \<union> S (ms @ [m])"
    using step
  proof (elim UnE insertE)
    assume "remove_dirs os (abs_path bs) ?cur w = remove_dirs os (abs_path bs) (abs_path (bs @ ms)) w1"
    then show ?thesis using IH [of w1] up unfolding g1 by (metis Un_mono order_refl order_trans)
  next
    assume eq: "remove_dirs os (abs_path bs) ?cur w = remove_dirs os (abs_path bs) (abs_path (bs @ ms)) w2"
    from IH [of w2] obtain r w' where "remove_dirs os (abs_path bs) (abs_path (bs @ ms)) w2 = Some (r, w')" "gone w' \<subseteq> gone w2 \<union> S ms" by blast
    moreover from this(2) have "gone w' \<subseteq> gone w \<union> S (ms @ [m])" using g2 up by blast
    ultimately show ?thesis unfolding eq by blast
  next
    assume "remove_dirs os (abs_path bs) ?cur w \<in> {Some (r, v) |r v. v = w1 \<or> v = w2}"
    then obtain r v where "remove_dirs os (abs_path bs) ?cur w = Some (r, v)" "v = w1 \<or> v = w2" by blast
    moreover from this(2) have "gone v \<subseteq> gone w \<union> S (ms @ [m])" using g1 g2 up by blast
    ultimately show ?thesis by blast
  qed simp
  then show ?case unfolding S_def by simp
qed


text \<open>A system whose world is the list of the removed paths.\<close>

definition rm_os :: "string list mnt_os" where
  "rm_os = (table_os [])\<lparr>
     fs_Stat := (\<lambda>p w. (if p \<in> set w then Err (External ''ENOENT'') else Ok \<lparr> fi_Mode = ModeDir, fi_Dev = 0, fi_Gid = 0 \<rparr>, w)),
     fs_Remove := (\<lambda>p w. (Ok (), p # w)) \<rparr>"


end
