(* ===== verification/Mount_Escape.thy ===== *)
theory Mount_Escape
  imports Mount_Safety
begin

text \<open>
  Subpaths under attack. The user of a volume may, between any two calls of the operating system, replace a
  directory of the volume by a symbolic link. \<open>doSafeOpen\<close> ends up in the volume all the same;
  \<open>doSafeMakeDir\<close>, which gives \<open>Mkdirat\<close> a whole path, can be made to create a directory outside.
\<close>

section \<open>Opening a subpath\<close>

text \<open>
  What descriptors promise: \<open>ins w fd\<close> says that \<open>fd\<close> refers to a file of the volume, \<open>link w fd\<close> that it is a symbolic
  link, and \<open>sound\<close> describes the worlds that can occur. The base is in the volume; a name that is
  opened without following links in a directory of the volume is in the volume or a link; only a
  link has the mode of one; and other descriptors keep what they refer to.
\<close>

definition descends :: "'w mnt_os \<Rightarrow> string \<Rightarrow> ('w \<Rightarrow> bool) \<Rightarrow> ('w \<Rightarrow> int \<Rightarrow> bool) \<Rightarrow> ('w \<Rightarrow> int \<Rightarrow> bool) \<Rightarrow> bool" where
  "descends os base sound ins link \<longleftrightarrow>
     (\<forall>w fd w'. sound w \<longrightarrow> fs_Open os base O_RDONLY_NOFOLLOW w = (Ok fd, w') \<longrightarrow> sound w' \<and> ins w' fd) \<and>
     (\<forall>w p seg fd w'. sound w \<longrightarrow> ins w p \<longrightarrow> seg \<noteq> ''..'' \<longrightarrow> CHR ''/'' \<notin> set seg \<longrightarrow>
        fs_Openat os p seg O_PATH_NOFOLLOW w = (Ok fd, w') \<longrightarrow> sound w' \<and> fd \<noteq> p \<and> (ins w' fd \<or> link w' fd)) \<and>
     (\<forall>w fd m w'. sound w \<longrightarrow> fs_Fstat os fd w = (Ok m, w') \<longrightarrow>
        sound w' \<and> (link w fd \<longrightarrow> m AND S_IFMT = S_IFLNK) \<and> (\<forall>f. ins w f \<longrightarrow> ins w' f)) \<and>
     (\<forall>w fd u w'. sound w \<longrightarrow> fs_Close os fd w = (Ok u, w') \<longrightarrow> sound w' \<and> (\<forall>f. f \<noteq> fd \<longrightarrow> ins w f \<longrightarrow> ins w' f))"

lemma descends_laws:
  assumes "descends os base sound ins link"
  shows "\<forall>w fd w'. sound w \<longrightarrow> fs_Open os base O_RDONLY_NOFOLLOW w = (Ok fd, w') \<longrightarrow> sound w' \<and> ins w' fd"
    and "\<forall>w p seg fd w'. sound w \<longrightarrow> ins w p \<longrightarrow> seg \<noteq> ''..'' \<longrightarrow> CHR ''/'' \<notin> set seg \<longrightarrow>
        fs_Openat os p seg O_PATH_NOFOLLOW w = (Ok fd, w') \<longrightarrow> sound w' \<and> fd \<noteq> p \<and> (ins w' fd \<or> link w' fd)"
    and "\<forall>w fd m w'. sound w \<longrightarrow> fs_Fstat os fd w = (Ok m, w') \<longrightarrow>
        sound w' \<and> (link w fd \<longrightarrow> m AND S_IFMT = S_IFLNK) \<and> (\<forall>f. ins w f \<longrightarrow> ins w' f)"
    and "\<forall>w fd u w'. sound w \<longrightarrow> fs_Close os fd w = (Ok u, w') \<longrightarrow> sound w' \<and> (\<forall>f. f \<noteq> fd \<longrightarrow> ins w f \<longrightarrow> ins w' f)"
  by (insert assms, unfold descends_def, (elim conjE, assumption)+)

lemmas descendsD = descends_laws [rule_format]

lemma defer_close_fail: "defer_close os fd m w = (Ok x, w') \<Longrightarrow> \<exists>v. m w = (Ok x, v)"
  by (auto simp: defer_close_def bindE_eq_Ok attempt_def settle_def split: prod.splits result.splits sum.splits)

lemma open_segment_inside:
  assumes "descends os base sound ins link" "sound w" "ins w p" "seg \<noteq> ''..''" "CHR ''/'' \<notin> set seg"
    "open_segment os b cur p seg w = (Ok fd, w')"
  shows "sound w' \<and> ins w' fd"
proof -
  have no: "defer_close os a (fail e) v \<noteq> (Ok fd, w')" "defer_close os a (defer_close os a' (fail e)) v \<noteq> (Ok fd, w')" for a a' e v
    by (auto dest!: defer_close_fail)
  obtain q1 w1 where o1: "fs_Openat os p seg O_PATH_NOFOLLOW w = (q1, w1)" by fastforce
  from assms(6) o1 obtain c where q1: "q1 = Ok c" by (cases q1) (auto simp: open_segment_def bindE_def attempt_def wrapE_def no split: if_splits)
  obtain q2 w2 where o2: "fs_Fstat os c w1 = (q2, w2)" by fastforce
  from assms(6) o1 q1 o2 obtain m where q2: "q2 = Ok m" and m: "m AND S_IFMT \<noteq> S_IFLNK"
    by (cases q2) (auto simp: open_segment_def bindE_def attempt_def wrapE_def no split: if_splits)
  obtain q3 w3 where o3: "fs_Close os p w2 = (q3, w3)" by fastforce
  from assms(6) o1 q1 o2 q2 m o3 obtain u where q3: "q3 = Ok u" and eq: "w3 = w'" "c = fd"
    by (cases q3) (auto simp: open_segment_def bindE_def attempt_def wrapE_def no split: if_splits)
  note o1 = o1 [unfolded q1 eq] and o2 = o2 [unfolded q2 eq] m and o3 = o3 [unfolded q3 eq]
  from descendsD(2) [OF assms(1-5) o1] have i1: "sound w1" "fd \<noteq> p" "ins w1 fd \<or> link w1 fd" by blast+
  from descendsD(3) [OF assms(1) i1(1) o2(1)] o2(2) i1(3) have i2: "sound w2" "ins w2 fd" by blast+
  from descendsD(4) [OF assms(1) i2(1) o3] i1(2) i2(2) show ?thesis by blast
qed

lemma open_segments_inside:
  assumes "descends os base sound ins link" "\<forall>s \<in> set segs. s \<noteq> ''..'' \<and> CHR ''/'' \<notin> set s"
  shows "sound w \<Longrightarrow> ins w p \<Longrightarrow> open_segments os b cur p segs w = (Ok fd, w') \<Longrightarrow> sound w' \<and> ins w' fd"
  using assms(2)
proof (induction segs arbitrary: cur p w)
  case (Cons s segs)
  from Cons.prems(3) obtain c w1 where "open_segment os b (filepath_Join [cur, s]) p s w = (Ok c, w1)"
    "open_segments os b (filepath_Join [cur, s]) c segs w1 = (Ok fd, w')"
    by (auto simp: Let_def bindE_eq_Ok simp del: filepath_Join.simps)
  then show ?case using open_segment_inside [OF assms(1) Cons.prems(1,2)] Cons.IH Cons.prems(4) by fastforce
qed simp

text \<open>The way from the base to a path that is not in it starts with a step up, which is refused.\<close>

lemma Rel_segments:
  assumes "\<forall>n \<in> set bs. file_name n" "\<forall>n \<in> set ps. file_name n" "filepath_Rel (abs_path bs) (abs_path ps) = Ok sub"
  shows "(\<forall>s \<in> set (strings_Split sub CHR ''/''). s \<noteq> ''..'' \<and> CHR ''/'' \<notin> set s) \<or>
    bs \<noteq> [] \<and> (\<exists>ss. strings_Split sub CHR ''/'' = ''..'' # ss)"
proof (cases "ps = bs")
  case True
  then have "sub = ''.''" using Rel_abs [OF assms(1,2)] assms(3) by simp
  then show ?thesis by (simp add: strings_Split_def)
next
  case False
  obtain bs' ps' where s: "strip_common bs ps = (bs', ps')" by fastforce
  from strip_common_prefix [OF s] obtain c where c: "bs = c @ bs'" "ps = c @ ps'" by blast
  let ?segs = "replicate (length bs') ''..'' @ ps'"
  have names: "\<forall>n \<in> set ps'. n \<noteq> ''..'' \<and> CHR ''/'' \<notin> set n" using assms(2) unfolding c(2) by (simp add: ball_Un file_name_def)
  then have "\<forall>n \<in> set ?segs. CHR ''/'' \<notin> set n" by auto
  moreover have "?segs \<noteq> []" using False c by auto
  ultimately have "strings_Split sub CHR ''/'' = ?segs"
    using split_Join [of ?segs "CHR ''/''"] Rel_abs [OF assms(1,2)] assms(3) False s by simp
  then show ?thesis using names c(1) by (cases bs') auto
qed

text \<open>
  C21. A subpath is opened inside its volume: if \<open>doSafeOpen\<close> of an absolute path succeeds, the descriptor it
  returns refers to a file of the volume, whatever the path is and whatever the user of the volume
  does to the volume between the calls.
\<close>

theorem doSafeOpen_confined:
  assumes "descends os (filepath_Clean base) sound ins link" "is_rooted base" "is_rooted pathname" "sound w"
    "doSafeOpen os pathname base w = (Ok fd, w')"
  shows "sound w' \<and> ins w' fd"
proof -
  let ?bs = "path_names base" and ?ps = "path_names pathname"
  note b = Clean_rooted [OF assms(2)] and p = Clean_rooted [OF assms(3)]
  from assms(5) obtain sub p0 w1 where rel: "filepath_Rel (abs_path ?bs) (abs_path ?ps) = Ok sub"
    and op: "fs_Open os (abs_path ?bs) O_RDONLY_NOFOLLOW w = (Ok p0, w1)"
    and segs: "open_segments os (abs_path ?bs) (abs_path ?bs) p0 (strings_Split sub CHR ''/'') w1 = (Ok fd, w')"
    unfolding doSafeOpen_def Let_def b(1) p(1) by (auto simp: bindE_eq_Ok wrapE_eq_Ok)
  have i1: "sound w1" "ins w1 p0" using descendsD(1) [OF assms(1,4)] op unfolding b(1) by blast+
  from Rel_segments [OF b(2) p(2) rel] show ?thesis
  proof
    assume "\<forall>s \<in> set (strings_Split sub CHR ''/''). s \<noteq> ''..'' \<and> CHR ''/'' \<notin> set s"
    from open_segments_inside [OF assms(1) this i1 segs] show ?thesis .
  next
    assume "?bs \<noteq> [] \<and> (\<exists>ss. strings_Split sub CHR ''/'' = ''..'' # ss)"
    then obtain ss where ne: "?bs \<noteq> []" and ss: "strings_Split sub CHR ''/'' = ''..'' # ss" by blast
    have bl: "\<forall>n \<in> set (butlast ?bs). file_name n" using b(2) in_set_butlastD by fastforce
    have "\<not> prefix ?bs (butlast ?bs)" using ne prefix_length_le [of ?bs "butlast ?bs"] length_greater_0_conv [of ?bs] by (simp del: length_greater_0_conv) linarith
    then have "\<not> PathWithinBase (filepath_Join [abs_path ?bs, ''..'']) (abs_path ?bs)"
      unfolding Join_up [OF b(2) ne] PathWithinBase_abs [OF b(2) bl] .
    then have False using segs unfolding ss
      by (auto simp: Let_def bindE_eq_Ok open_segment_def simp del: filepath_Join.simps dest!: defer_close_fail)
    then show ?thesis ..
  qed
qed

section \<open>A file system with a hostile user\<close>

text \<open>
  An inode belongs to the volume or to the host. A directory has entries, a link the names of an
  absolute path. Before each call the user may replace an entry of a directory of the volume by a link.
\<close>

datatype mnode = MDir "(string \<times> nat) list" | MLink "string list" | MFile

record memfs =
  mf_nodes :: "(nat \<times> bool \<times> mnode) list"
  mf_fds :: "(int \<times> nat) list"
  mf_next :: nat
  mf_user :: "(nat \<times> string \<times> string list) option list"

definition user_step :: "memfs \<Rightarrow> memfs" where
  "user_step w =
     (case mf_user w of
        [] \<Rightarrow> w
      | None # us \<Rightarrow> w\<lparr> mf_user := us \<rparr>
      | Some (d, n, target) # us \<Rightarrow>
          (case map_of (mf_nodes w) d of
             Some (True, MDir es) \<Rightarrow>
               w\<lparr> mf_nodes := (d, True, MDir ((n, mf_next w) # es)) # (mf_next w, True, MLink target) # mf_nodes w,
                  mf_next := Suc (mf_next w), mf_user := us \<rparr>
           | _ \<Rightarrow> w\<lparr> mf_user := us \<rparr>))"

fun walk :: "nat \<Rightarrow> (nat \<times> bool \<times> mnode) list \<Rightarrow> bool \<Rightarrow> nat \<Rightarrow> string list \<Rightarrow> nat option" where
  "walk k ns follow d [] = Some d"
| "walk 0 ns follow d (x # xs) = None"
| "walk (Suc k) ns follow d (x # xs) =
     (case map_of ns d of
        Some (_, MDir es) \<Rightarrow>
          (case map_of es x of
             None \<Rightarrow> None
           | Some i \<Rightarrow>
               (case map_of ns i of
                  Some (_, MLink t) \<Rightarrow> if xs = [] \<and> \<not> follow then Some i else walk k ns follow 0 (t @ xs)
                | _ \<Rightarrow> walk k ns follow i xs))
      | _ \<Rightarrow> None)"

fun canon :: "nat \<Rightarrow> (nat \<times> bool \<times> mnode) list \<Rightarrow> nat \<Rightarrow> string list \<Rightarrow> string list \<Rightarrow> string list option" where
  "canon k ns d done [] = Some (rev done)"
| "canon 0 ns d done (x # xs) = None"
| "canon (Suc k) ns d done (x # xs) =
     (case map_of ns d of
        Some (_, MDir es) \<Rightarrow>
          (case map_of es x of
             None \<Rightarrow> None
           | Some i \<Rightarrow>
               (case map_of ns i of
                  Some (_, MLink t) \<Rightarrow> canon k ns 0 [] (t @ xs)
                | _ \<Rightarrow> canon k ns i (x # done) xs))
      | _ \<Rightarrow> None)"

definition node_mode :: "mnode \<Rightarrow> 32 word" where
  "node_mode n = (case n of MDir _ \<Rightarrow> 0x4000 | MLink _ \<Rightarrow> 0xA000 | MFile \<Rightarrow> 0x8000)"

definition info_of :: "mnode \<Rightarrow> FileInfo" where
  "info_of n = \<lparr> fi_Mode = (case n of MDir _ \<Rightarrow> ModeDir | MLink _ \<Rightarrow> ModeSymlink | MFile \<Rightarrow> 0), fi_Dev = 0, fi_Gid = 0 \<rparr>"

definition no_entry :: "'a result" where "no_entry = Err (External ''ENOENT'')"

definition mem_stat :: "bool \<Rightarrow> string \<Rightarrow> (memfs, FileInfo) io" where
  "mem_stat follow p w0 =
     (let w = user_step w0 in
      case walk 40 (mf_nodes w) follow 0 (path_names p) of
        None \<Rightarrow> (no_entry, w)
      | Some i \<Rightarrow> (case map_of (mf_nodes w) i of Some (_, n) \<Rightarrow> Ok (info_of n) | None \<Rightarrow> no_entry, w))"

definition new_fd :: "nat \<Rightarrow> memfs \<Rightarrow> int result \<times> memfs" where
  "new_fd i w = (Ok (int (mf_next w)), w\<lparr> mf_fds := (int (mf_next w), i) # mf_fds w, mf_next := Suc (mf_next w) \<rparr>)"

definition mem_open :: "string \<Rightarrow> open_flags \<Rightarrow> (memfs, int) io" where
  "mem_open p flags w0 =
     (let w = user_step w0 in
      case walk 40 (mf_nodes w) (flags \<noteq> O_RDONLY_NOFOLLOW) 0 (path_names p) of
        None \<Rightarrow> (no_entry, w)
      | Some i \<Rightarrow> (case map_of (mf_nodes w) i of Some (_, MLink _) \<Rightarrow> (Err (External ''ELOOP''), w) | _ \<Rightarrow> new_fd i w))"

definition mem_openat :: "int \<Rightarrow> string \<Rightarrow> open_flags \<Rightarrow> (memfs, int) io" where
  "mem_openat fd seg flags w0 =
     (let w = user_step w0 in
      case map_of (mf_fds w) fd of
        None \<Rightarrow> (Err (External ''EBADF''), w)
      | Some d \<Rightarrow>
          if seg = ''.'' then new_fd d w
          else
            case map_of (mf_nodes w) d of
              Some (_, MDir es) \<Rightarrow>
                (case map_of es seg of
                   None \<Rightarrow> (no_entry, w)
                 | Some i \<Rightarrow>
                     (case map_of (mf_nodes w) i of
                        Some (_, MLink t) \<Rightarrow>
                          if flags = O_PATH_NOFOLLOW then new_fd i w
                          else if flags = O_RDONLY_NOFOLLOW then (Err (External ''ELOOP''), w)
                          else (case walk 40 (mf_nodes w) True 0 t of None \<Rightarrow> (no_entry, w) | Some j \<Rightarrow> new_fd j w)
                      | _ \<Rightarrow> new_fd i w))
            | _ \<Rightarrow> (Err (External ''ENOTDIR''), w))"

text \<open>As in the kernel, a whole path makes \<open>mkdirat\<close> ignore the descriptor; a new directory belongs where its parent does.\<close>

definition mem_mkdirat :: "int \<Rightarrow> string \<Rightarrow> FileMode \<Rightarrow> (memfs, unit) io" where
  "mem_mkdirat fd p perm w0 =
     (let w = user_step w0; names = path_names p in
      case (if is_rooted p then Some 0 else map_of (mf_fds w) fd) of
        None \<Rightarrow> (Err (External ''EBADF''), w)
      | Some start \<Rightarrow>
          (case walk 40 (mf_nodes w) True start (butlast names) of
             None \<Rightarrow> (no_entry, w)
           | Some d \<Rightarrow>
               (case map_of (mf_nodes w) d of
                  Some (vol, MDir es) \<Rightarrow>
                    if map_of es (last names) \<noteq> None then (Err (External ''EEXIST''), w)
                    else (Ok (), w\<lparr> mf_nodes := (d, vol, MDir ((last names, mf_next w) # es)) # (mf_next w, vol, MDir []) # mf_nodes w,
                            mf_next := Suc (mf_next w) \<rparr>)
                | _ \<Rightarrow> (Err (External ''ENOTDIR''), w))))"

definition mem_fstat :: "int \<Rightarrow> (memfs, 32 word) io" where
  "mem_fstat fd w0 =
     (let w = user_step w0 in
      case map_of (mf_fds w) fd of
        None \<Rightarrow> (Err (External ''EBADF''), w)
      | Some i \<Rightarrow> (case map_of (mf_nodes w) i of Some (_, n) \<Rightarrow> Ok (node_mode n) | None \<Rightarrow> Err (External ''EBADF''), w))"

definition mem_close :: "int \<Rightarrow> (memfs, unit) io" where
  "mem_close fd w0 = (let w = user_step w0 in (Ok (), w\<lparr> mf_fds := filter (\<lambda>e. fst e \<noteq> fd) (mf_fds w) \<rparr>))"

definition mem_os :: "memfs mnt_os" where
  "mem_os = \<lparr> fs_ReadFile = (\<lambda>_. lift_result no_entry), fs_Stat = mem_stat True, fs_Lstat = mem_stat False,
     fs_EvalSymlinks = (\<lambda>p w0. let w = user_step w0 in
       (case canon 40 (mf_nodes w) 0 [] (path_names p) of Some ns \<Rightarrow> Ok (abs_path ns) | None \<Rightarrow> no_entry, w)),
     fs_MkdirAll = (\<lambda>_ _. fail (External ''EPERM'')), fs_Mkdir = (\<lambda>_ _. fail (External ''EPERM'')),
     fs_WriteFile = (\<lambda>_ _ _. fail (External ''EPERM'')), fs_Create = (\<lambda>_ _. fail (External ''EPERM'')), fs_Remove = (\<lambda>_. fail (External ''EPERM'')),
     fs_ReadDir = (\<lambda>_. lift_result no_entry), fs_Open = mem_open, fs_Openat = mem_openat, fs_Mkdirat = mem_mkdirat, fs_Fstat = mem_fstat,
     fs_Fchmod = (\<lambda>_ _. ret ()), fs_Close = mem_close, fs_Mount = (\<lambda>_ _ _. fail (External ''EPERM'')), fs_Getpid = ret 1,
     fs_LookPath = (\<lambda>_. lift_result no_entry), fs_Command = (\<lambda>_ _. ret ('''', None)) \<rparr>"

text \<open>The host has the volume \<open>/v\<close>, with a directory \<open>/v/a\<close> in it, and a directory \<open>/h\<close> of its own.\<close>

definition attacked :: "(nat \<times> string \<times> string list) option list \<Rightarrow> memfs" where
  "attacked us = \<lparr> mf_nodes = [(0, False, MDir [(''v'', 1), (''h'', 2)]), (1, True, MDir [(''a'', 3)]), (2, False, MDir []), (3, True, MDir [])],
     mf_fds = [], mf_next = 4, mf_user = us \<rparr>"

definition swap_late :: "(nat \<times> string \<times> string list) option list" where
  "swap_late = replicate 11 None @ [Some (1, ''a'', [''h''])]"


section \<open>The file system keeps what descriptors promise\<close>

definition fs_sound :: "memfs \<Rightarrow> bool" where
  "fs_sound w \<longleftrightarrow>
     (\<forall>d es n i. map_of (mf_nodes w) d = Some (True, MDir es) \<longrightarrow> map_of es n = Some i \<longrightarrow> (\<exists>x. map_of (mf_nodes w) i = Some (True, x))) \<and>
     (\<exists>es. map_of (mf_nodes w) 0 = Some (False, MDir es) \<and> map_of es ''v'' = Some 1) \<and>
     (\<exists>es. map_of (mf_nodes w) 1 = Some (True, MDir es)) \<and>
     (\<forall>i x. map_of (mf_nodes w) i = Some x \<longrightarrow> i < mf_next w) \<and>
     (\<forall>fd i. map_of (mf_fds w) fd = Some i \<longrightarrow> fd < int (mf_next w))"

lemma fs_sound_laws:
  assumes "fs_sound w"
  shows "\<forall>d es n i. map_of (mf_nodes w) d = Some (True, MDir es) \<longrightarrow> map_of es n = Some i \<longrightarrow> (\<exists>x. map_of (mf_nodes w) i = Some (True, x))"
    and "\<exists>es. map_of (mf_nodes w) 0 = Some (False, MDir es) \<and> map_of es ''v'' = Some 1"
    and "\<exists>es. map_of (mf_nodes w) 1 = Some (True, MDir es)"
    and "\<forall>i x. map_of (mf_nodes w) i = Some x \<longrightarrow> i < mf_next w"
    and "\<forall>fd i. map_of (mf_fds w) fd = Some i \<longrightarrow> fd < int (mf_next w)"
  by (insert assms, unfold fs_sound_def, (elim conjE, assumption)+)

lemmas fs_soundD = fs_sound_laws [rule_format]

definition in_volume :: "memfs \<Rightarrow> int \<Rightarrow> bool" where
  "in_volume w fd \<longleftrightarrow> (\<exists>i x. map_of (mf_fds w) fd = Some i \<and> map_of (mf_nodes w) i = Some (True, x))"

definition is_link :: "memfs \<Rightarrow> int \<Rightarrow> bool" where
  "is_link w fd \<longleftrightarrow> (\<exists>i b t. map_of (mf_fds w) fd = Some i \<and> map_of (mf_nodes w) i = Some (b, MLink t))"

lemma user_step_cases:
  obtains (none) us where "user_step w = w\<lparr> mf_user := us \<rparr>"
    | (swap) d n t es us where "map_of (mf_nodes w) d = Some (True, MDir es)"
        "user_step w = w\<lparr> mf_nodes := (d, True, MDir ((n, mf_next w) # es)) # (mf_next w, True, MLink t) # mf_nodes w,
           mf_next := Suc (mf_next w), mf_user := us \<rparr>"
proof (cases "mf_user w")
  case Nil
  then show thesis using none [of "[]"] by (simp add: user_step_def)
next
  case (Cons a us)
  show thesis
  proof (cases a)
    case None
    then show thesis using none [of us] Cons by (simp add: user_step_def)
  next
    case (Some dnt)
    obtain d n t where dnt: "dnt = (d, n, t)" by (cases dnt)
    show thesis
    proof (cases "\<exists>es. map_of (mf_nodes w) d = Some (True, MDir es)")
      case True
      then show thesis using swap Cons Some dnt by (auto simp: user_step_def)
    next
      case False
      then show thesis using none [of us] Cons Some dnt
        by (auto simp: user_step_def split: option.splits bool.splits mnode.splits)
    qed
  qed
qed

lemma user_step_fds [simp]: "mf_fds (user_step w) = mf_fds w"
  by (rule user_step_cases [of w]) simp_all

lemma user_step_keeps:
  assumes "fs_sound w" "map_of (mf_nodes w) i = Some (b, x)"
  shows "\<exists>x'. map_of (mf_nodes (user_step w)) i = Some (b, x') \<and> (\<not> b \<or> (\<forall>es. x \<noteq> MDir es) \<longrightarrow> x' = x) \<and>
    ((\<exists>es. x = MDir es) \<longrightarrow> (\<exists>es. x' = MDir es))"
proof (cases rule: user_step_cases [of w])
  case (swap d n t es us)
  have "i < mf_next w" using fs_soundD(4) [OF assms] .
  then show ?thesis using swap assms(2) by (cases "i = d") auto
qed (use assms(2) in simp)

lemma user_step_sound:
  assumes "fs_sound w"
  shows "fs_sound (user_step w)"
proof (cases rule: user_step_cases [of w])
  case (none us)
  then show ?thesis using assms by (simp add: fs_sound_def)
next
  case (swap d n t es us)
  let ?w = "user_step w"
  have new: "map_of (mf_nodes ?w) (mf_next w) = Some (True, MLink t)"
  proof -
    have "d < mf_next w" using fs_soundD(4) [OF assms swap(1)] .
    then show ?thesis using swap(2) by simp
  qed
  have keep: "\<exists>x'. map_of (mf_nodes ?w) i = Some (True, x')" if "map_of (mf_nodes w) i = Some (True, x)" for i x
    using user_step_keeps [OF assms that] by blast
  have "\<exists>x. map_of (mf_nodes ?w) i = Some (True, x)"
    if e: "map_of (mf_nodes ?w) d' = Some (True, MDir es')" "map_of es' m = Some i" for d' es' m i
  proof (cases "d' = d")
    case True
    then have es': "es' = (n, mf_next w) # es" using e(1) swap(2) by simp
    have "i = mf_next w \<or> map_of es m = Some i" using e(2) unfolding es' by (simp split: if_splits)
    then show ?thesis
    proof
      assume "map_of es m = Some i"
      from fs_soundD(1) [OF assms swap(1) this] obtain x where "map_of (mf_nodes w) i = Some (True, x)" by (elim exE)
      then show ?thesis by (rule keep)
    qed (use new in simp)
  next
    case False
    then have "map_of (mf_nodes w) d' = Some (True, MDir es')" using e(1) unfolding swap(2) by (simp split: if_splits)
    from fs_soundD(1) [OF assms this e(2)] obtain x where "map_of (mf_nodes w) i = Some (True, x)" by (elim exE)
    then show ?thesis by (rule keep)
  qed
  moreover have "\<exists>es. map_of (mf_nodes ?w) 0 = Some (False, MDir es) \<and> map_of es ''v'' = Some 1"
  proof -
    from fs_soundD(2) [OF assms] obtain es0 where es0: "map_of (mf_nodes w) 0 = Some (False, MDir es0)" "map_of es0 ''v'' = Some 1" by blast
    from user_step_keeps [OF assms es0(1)] es0(2) show ?thesis by blast
  qed
  moreover have "\<exists>es. map_of (mf_nodes ?w) 1 = Some (True, MDir es)"
  proof -
    from fs_soundD(3) [OF assms] obtain es1 where "map_of (mf_nodes w) 1 = Some (True, MDir es1)" by blast
    from user_step_keeps [OF assms this] show ?thesis by blast
  qed
  moreover have "\<forall>i x. map_of (mf_nodes ?w) i = Some x \<longrightarrow> i < mf_next ?w"
  proof (intro allI impI)
    fix i x
    assume "map_of (mf_nodes ?w) i = Some x"
    then have "i = mf_next w \<or> (\<exists>y. map_of (mf_nodes w) i = Some y)" using swap by (auto split: if_splits)
    then have "i \<le> mf_next w"
    proof (elim disjE exE)
      fix y
      assume "map_of (mf_nodes w) i = Some y"
      from fs_soundD(4) [OF assms this] show ?thesis by simp
    qed simp
    then show "i < mf_next ?w" using swap(2) by simp
  qed
  moreover have "\<forall>fd i. map_of (mf_fds ?w) fd = Some i \<longrightarrow> fd < int (mf_next ?w)"
  proof (intro allI impI)
    fix fd i
    assume "map_of (mf_fds ?w) fd = Some i"
    then have "fd < int (mf_next w)" using fs_soundD(5) [OF assms, of fd i] by simp
    then show "fd < int (mf_next ?w)" using swap(2) by simp
  qed
  ultimately show ?thesis unfolding fs_sound_def by (intro conjI) blast+
qed

lemma new_fd_facts:
  assumes "fs_sound w" "new_fd i w = (r, w')"
  shows "r = Ok (int (mf_next w))" "fs_sound w'" "map_of (mf_fds w') (int (mf_next w)) = Some i" "mf_nodes w' = mf_nodes w"
    "map_of (mf_fds w) fd = Some j \<Longrightarrow> fd \<noteq> int (mf_next w) \<and> map_of (mf_fds w') fd = Some j"
proof -
  have r: "r = Ok (int (mf_next w))" and w': "w' = w\<lparr> mf_fds := (int (mf_next w), i) # mf_fds w, mf_next := Suc (mf_next w) \<rparr>"
    using assms(2) by (simp_all add: new_fd_def)
  show "r = Ok (int (mf_next w))" by (rule r)
  show "map_of (mf_fds w') (int (mf_next w)) = Some i" "mf_nodes w' = mf_nodes w" by (simp_all add: w')
  show "map_of (mf_fds w) fd = Some j \<Longrightarrow> fd \<noteq> int (mf_next w) \<and> map_of (mf_fds w') fd = Some j"
    using fs_soundD(5) [OF assms(1), of fd j] by (auto simp: w')
  have "\<forall>fd i. map_of (mf_fds w') fd = Some i \<longrightarrow> fd < int (mf_next w')"
    using fs_soundD(5) [OF assms(1)] by (fastforce simp: w')
  moreover have "\<forall>i x. map_of (mf_nodes w') i = Some x \<longrightarrow> i < mf_next w'"
    using fs_soundD(4) [OF assms(1)] by (auto simp: w' intro: less_SucI)
  moreover have "mf_nodes w' = mf_nodes w" by (simp add: w')
  ultimately show "fs_sound w'" using assms(1) unfolding fs_sound_def by simp
qed

lemma user_step_in_volume: "fs_sound w \<Longrightarrow> in_volume w fd \<Longrightarrow> in_volume (user_step w) fd"
  unfolding in_volume_def using user_step_keeps [of w] by fastforce

lemma user_step_is_link: "fs_sound w \<Longrightarrow> is_link w fd \<Longrightarrow> is_link (user_step w) fd"
  unfolding is_link_def using user_step_keeps [of w] by fastforce

lemma new_fd_in_volume:
  assumes "fs_sound w" "map_of (mf_nodes w) i = Some (True, x)" "new_fd i w = (Ok fd, w')"
  shows "fs_sound w' \<and> in_volume w' fd"
  using new_fd_facts [OF assms(1,3)] assms(2) by (auto simp: in_volume_def)

lemma walk_volume: "fs_sound w \<Longrightarrow> walk (Suc k) (mf_nodes w) f 0 [''v''] = Some 1"
  using fs_soundD(2,3) [of w] by auto

lemma mem_openat_in_volume:
  assumes "fs_sound w" "in_volume w p" "mem_openat p seg O_PATH_NOFOLLOW w = (Ok fd, w')"
  shows "fs_sound w' \<and> fd \<noteq> p \<and> in_volume w' fd"
proof -
  let ?u = "user_step w"
  have u: "fs_sound ?u" by (rule user_step_sound [OF assms(1)])
  from user_step_in_volume [OF assms(1,2)] obtain d x where d: "map_of (mf_fds ?u) p = Some d" "map_of (mf_nodes ?u) d = Some (True, x)"
    unfolding in_volume_def by blast
  have "\<exists>i y. map_of (mf_nodes ?u) i = Some (True, y) \<and> new_fd i ?u = (Ok fd, w')"
  proof (cases "seg = ''.''")
    case True
    then show ?thesis using assms(3) d by (auto simp: mem_openat_def Let_def)
  next
    case False
    with assms(3) d obtain es where x: "x = MDir es" by (cases x) (auto simp: mem_openat_def Let_def)
    with assms(3) d False obtain i where i: "map_of es seg = Some i"
      by (cases "map_of es seg") (auto simp: mem_openat_def Let_def no_entry_def)
    from fs_soundD(1) [OF u d(2) [unfolded x] i] obtain y where y: "map_of (mf_nodes ?u) i = Some (True, y)" by (elim exE)
    then have "new_fd i ?u = (Ok fd, w')"
      using assms(3) d x i False by (cases y) (simp_all add: mem_openat_def Let_def)
    with y show ?thesis by blast
  qed
  then obtain i y where i: "map_of (mf_nodes ?u) i = Some (True, y)" "new_fd i ?u = (Ok fd, w')" by blast
  have "fd \<noteq> p" using new_fd_facts(1) [OF u i(2)] new_fd_facts(5) [OF u i(2) d(1)] by simp
  with new_fd_in_volume [OF u i] show ?thesis by blast
qed

lemma mem_open_in_volume:
  assumes "fs_sound w" "mem_open ''/v'' O_RDONLY_NOFOLLOW w = (Ok fd, w')"
  shows "fs_sound w' \<and> in_volume w' fd"
proof -
  have u: "fs_sound (user_step w)" by (rule user_step_sound [OF assms(1)])
  obtain es where one: "map_of (mf_nodes (user_step w)) 1 = Some (True, MDir es)" using fs_soundD(3) [OF u] by blast
  have names: "path_names ''/v'' = [''v'']" by code_simp
  have "walk 40 (mf_nodes (user_step w)) False 0 [''v''] = Some 1" using walk_volume [OF u, of 39 False] by simp
  then have "new_fd 1 (user_step w) = (Ok fd, w')"
    using assms(2) one by (simp add: mem_open_def Let_def names)
  from new_fd_in_volume [OF u one this] show ?thesis .
qed

lemma map_of_drop_key: "map_of (filter (\<lambda>e. fst e \<noteq> k) l) = (map_of l)(k := None)"
  by (induction l) (auto simp: fun_eq_iff)

lemma mem_descends: "descends mem_os ''/v'' fs_sound in_volume is_link"
  unfolding descends_def
proof (intro conjI allI impI, goal_cases)
  case (1 w fd w')
  then show ?case using mem_open_in_volume [of w fd w'] by (simp add: mem_os_def)
next
  case (2 w fd w')
  then show ?case using mem_open_in_volume [of w fd w'] by (simp add: mem_os_def)
next
  case (3 w p seg fd w')
  then show ?case using mem_openat_in_volume [of w p seg fd w'] by (simp add: mem_os_def)
next
  case (4 w p seg fd w')
  then show ?case using mem_openat_in_volume [of w p seg fd w'] by (simp add: mem_os_def)
next
  case (5 w p seg fd w')
  then show ?case using mem_openat_in_volume [of w p seg fd w'] by (simp add: mem_os_def)
next
  case (6 w fd m w')
  then show ?case using user_step_sound [of w] by (auto simp: mem_os_def mem_fstat_def Let_def split: option.splits)
next
  case (7 w fd m w')
  from user_step_is_link [OF 7(1,3)] show ?case using 7(2)
    by (auto simp: is_link_def mem_os_def mem_fstat_def Let_def node_mode_def S_IFMT_def S_IFLNK_def)
next
  case (8 w fd m w' f)
  from user_step_in_volume [OF 8(1,3)] show ?case using 8(2) by (auto simp: mem_os_def mem_fstat_def Let_def split: option.splits)
next
  case (9 w fd u w')
  have "w' = (user_step w)\<lparr> mf_fds := filter (\<lambda>e. fst e \<noteq> fd) (mf_fds w) \<rparr>"
    using 9(2) by (simp add: mem_os_def mem_close_def Let_def)
  then show ?case using user_step_sound [OF 9(1)] unfolding fs_sound_def by (simp add: map_of_drop_key)
next
  case (10 w fd u w' f)
  then show ?case using user_step_in_volume [OF 10(1,4)]
    by (auto simp: mem_os_def mem_close_def Let_def in_volume_def map_of_drop_key)
qed

lemma attacked_sound: "fs_sound (attacked us)"
  by (auto simp: fs_sound_def attacked_def split: if_splits)

theorem doSafeOpen_confined_witness:
  "\<exists>fd w'. doSafeOpen mem_os ''/v/a'' ''/v'' (attacked swap_late) = (Ok fd, w') \<and> in_volume w' fd"
proof -
  have "is_ok (fst (doSafeOpen mem_os ''/v/a'' ''/v'' (attacked swap_late)))" by code_simp
  then obtain fd w' where run: "doSafeOpen mem_os ''/v/a'' ''/v'' (attacked swap_late) = (Ok fd, w')"
    by (cases "doSafeOpen mem_os ''/v/a'' ''/v'' (attacked swap_late)") (auto simp: is_ok_iff)
  have clean: "filepath_Clean ''/v'' = ''/v''" by code_simp
  have d: "descends mem_os (filepath_Clean ''/v'') fs_sound in_volume is_link" unfolding clean by (rule mem_descends)
  have r: "is_rooted ''/v''" "is_rooted ''/v/a''" by code_simp+
  from doSafeOpen_confined [OF d r attacked_sound run] run show ?thesis by blast
qed

text \<open>The same swap in the middle of opening makes \<open>doSafeOpen\<close> fail.\<close>

lemma doSafeOpen_notices:
  "fst (doSafeOpen mem_os ''/v/a'' ''/v'' (attacked [None, Some (1, ''a'', [''h''])])) = Err (Errorf ''Unexpected symlink found %s'' [FStr ''/v/a''])"
  by code_simp

end
