(* ===== verification/Spec2Isabelle.thy ===== *)
theory Spec2Isabelle
  imports Keystone_Webhook Kms_Plugin Openstack_Routes Openstack_Volumes Lb_Lifecycle Csi_Node Ingress_Reconcile Manila_Provisioner
    Mount_Escape
begin

text \<open>
  A verification library for cloud-provider-openstack: the Go programs that connect a
  Kubernetes cluster to an OpenStack cloud. All paths below are relative to \<open>src/\<close>.

  \<^bold>\<open>How the code is modelled.\<close> A Go function becomes a HOL function with the same name (with a
  prefix such as \<open>os_\<close> or \<open>md_\<close> where the name is taken). Structs are records, fields carry a
  short prefix. A call into the outside world (Keystone, Nova, Neutron, Cinder, Barbican, the
  Kubernetes API, files, time) is a parameter, mostly a field of a record of actions; an action
  takes a world and returns a result and the next world (\<open>Go_Prelude\<close>). A result is a value, an
  error or a panic, so that nil dereferences, failed type assertions and slice bounds are part
  of the model. What the theorems need to know about the outside is written as predicates
  (\<open>neutron_ok\<close>, \<open>volumes_ok\<close>, \<open>rolebindings_ok\<close>, ...), and every one of them is shown to be
  satisfiable by an in-memory instance, on which the witnesses run. Logging and metrics are
  left out.

  \<^bold>\<open>Shared theories.\<close> \<open>Go_Prelude\<close> (errors, results, actions, what an action keeps, 64-bit
  integers), \<open>Go_Strings\<close> (the parts of \<open>strings\<close> and \<open>sort\<close>), \<open>Go_Json\<close> (decoded JSON values),
  \<open>Go_Wait\<close> (the documented polling loop: bounds, success, time-out),
  \<open>Go_Net\<close> (\<open>ParseIP\<close>, \<open>ParseCIDR\<close>, \<open>To4\<close>), \<open>Go_Slices\<close> (slices with shared arrays), \<open>Go_Conv\<close>
  (\<open>strconv\<close>), \<open>Go_Filepath\<close> (\<open>path/filepath\<close>: \<open>Clean\<close>, \<open>Join\<close>, \<open>Dir\<close>, \<open>Rel\<close>), \<open>Net_Sets\<close> (\<open>pkg/util/net/sets\<close> and \<open>pkg/api/v1/service\<close>: sets of networks refine
  finite sets, locale \<open>text_set\<close>, and the source ranges of a service).

  \<^bold>\<open>The Keystone webhook\<close> (\<open>pkg/identity/keystone\<close>). \<open>Keystone_Authorizer\<close> has the policies and
  the authorizer: the decision equals a declarative reading of the policy list, is a whitelist,
  and panics exactly for incomplete policies. The loops over policies share the locale
  \<open>whitelist\<close>. \<open>Keystone_Sync\<close> has the synchronisation of projects and roles: against a working
  Kubernetes API it converges, and it never touches what belongs to others. \<open>Keystone_Webhook\<close>
  has the HTTP handler, the authenticator, start-up and the work queue, as a step relation; the
  answer to an access review in every reachable state is the decision of the installed list.

  \<^bold>\<open>The KMS plugin\<close> (\<open>pkg/kms\<close>). \<open>Kms_Plugin\<close> has padding and CBC mode over an arbitrary block
  cipher, the key from Barbican and the gRPC operations: decrypting inverts encrypting, and
  short requests panic.

  \<^bold>\<open>The cloud provider\<close> (\<open>pkg/cloudprovider/providers/openstack\<close>). \<open>Openstack_Metadata\<close>
  (\<open>pkg/util/metadata\<close>), \<open>Openstack_Nodes\<close> (servers, addresses, instances), \<open>Openstack_Config\<close>
  (configuration, clients, zones, entry points), \<open>Openstack_Routes\<close> (routes with their error
  unwinding, over shared slices), \<open>Volume_Util\<close> and \<open>Openstack_Volumes\<close> (block storage).

  The load balancers (\<open>openstack_loadbalancer.go\<close>) take several theories: \<open>Lb_Base\<close> (the calls into
  Octavia and Neutron, lookups), \<open>Lb_Model\<close> (the operations; the options of the provider are part of
  the state because the code overwrites them), \<open>Lb_Wait\<close> (the polling loops end and succeed),
  \<open>Lb_Contract\<close> (what the code relies on of Octavia, as a view of the listeners, pools and members),
  \<open>Lb_Memory\<close> (a service in memory that keeps the contract), \<open>Lb_Members\<close> (the two member loops,
  locale \<open>pool_sync\<close>), \<open>Lb_Listeners\<close> (the load balancer serves exactly the service) and
  \<open>Lb_Lifecycle\<close> (shared options, deletion). Where the code ranges over a map, the model takes the
  order of insertion; error texts that print a whole struct carry its identifying field.

  \<^bold>\<open>The Cinder CSI driver\<close> (\<open>pkg/csi/cinder\<close>). \<open>Csi_Openstack\<close> has the Cinder and Nova operations, the
  provider and the metadata; what a client of \<open>IOpenStack\<close> may rely on is the locale \<open>csi_cloud\<close>,
  interpreted on the driver's own implementation under the laws \<open>block_ok\<close> of the services.
  \<open>Csi_Driver\<close> has the driver, the identity server and the endpoint. \<open>Csi_Controller\<close> has the RPCs of
  the controller: they refine an automaton of exclusively owned volumes, keep every volume attached
  at most once, and creating a volume twice creates it once. \<open>Csi_Node\<close> has the mount operations
  (locale \<open>csi_mount\<close>) and the RPCs of the node: publishing and unpublishing restore the mount table.

  \<^bold>\<open>The ingress controller\<close> (\<open>pkg/ingress\<close>). \<open>Ingress_Octavia\<close> and \<open>Ingress_Neutron\<close> have the operations on
  load balancers, floating IPs and security groups, \<open>Ingress_Controller\<close> the informer handlers, the two
  loops and the work on an event. \<open>Ingress_Reconcile\<close> shows what a successful \<open>ensureIngress\<close> leaves in
  Octavia: exactly the policies and pools of the ingress, up to policies whose deletion failed.

  \<^bold>\<open>The Manila provisioner\<close> (\<open>pkg/share/manila\<close>). \<open>Manila_Validator\<close> has the validator of parameters by
  struct tags, with the part of regular expressions that the tags use and nil maps as \<open>None\<close>; it
  stores the values exactly if they are admissible. \<open>Manila_Options\<close> has the share and OpenStack options,
  the microversions and the client. \<open>Manila_Backends\<close> has the three backends behind the locale
  \<open>share_backend\<close>, interpreted on each under the laws \<open>manila_ok\<close> of the services. \<open>Manila_Provisioner\<close>
  has provisioning and deletion: deleting restores shares and secrets, while the rollback of a failed
  provisioning deletes the wrong secret.

  \<^bold>\<open>The mount utilities\<close> (\<open>pkg/util/mount\<close>, \<open>pkg/util/io\<close>, \<open>pkg/util/file\<close>). \<open>Mount_Util\<close> has the system calls as the
  record \<open>mnt_os\<close>, the parsers of \<open>/proc/mounts\<close> and \<open>/proc/self/mountinfo\<close> and the mounter of Linux.
  \<open>Mount_Subpath\<close> has \<open>FormatAndMount\<close> and the subpaths: opening, making, binding and cleaning them.
  \<open>Mount_Safety\<close> shows that the parser reads back the tables of mounts, that formatting keeps data and
  that the removal of empty directories ends. \<open>Mount_Escape\<close> has a file system in memory with a user who
  changes it between the calls: opening a subpath stays inside the volume, while making one can escape.

  \<^bold>\<open>Loops and fuel.\<close> Recursion is structural or has a termination proof; the loops that need not
  end are \<open>partial_function (option)\<close>: the workers of the webhook and of the ingress controller, and the
  walk of \<open>removeEmptyDirs\<close> towards the base, which is proved to end. The only fuel is in the file system in
  memory of \<open>Mount_Escape\<close>, an instance for witnesses: it resolves at most 40 names of a path, those of
  links included, and answers that there is no such file beyond; the paths of the witnesses have at most three.

  \<^bold>\<open>Not modelled.\<close> The in-tree style Cinder volume plugin with its provisioner, the flexvolume driver,
  the commands, the metrics and the \<open>kubectl\<close> plugin are mostly system calls, flags and
  registration. Of the mount utilities, the files for other platforms and \<open>ReadDirNoStat\<close> are left out.
\<close>

end
